(* ===== verification/Prelude.thy ===== *)
theory Prelude
  imports Main "HOL-Library.Char_ord" "HOL-Library.List_Lexorder" "HOL-Library.Product_Lexorder"
    "HOL-Library.Option_ord"
begin

text \<open>
  The vocabulary shared by every component of the development.

  \<^item> Python strings are \<^typ>\<open>string\<close>s holding the UTF-8 bytes of the text; \<open>py_len\<close> counts
    code points, as Python's \<open>len\<close> does.  The order of \<^typ>\<open>string\<close> is the bytewise
    lexicographic order, which is SQLite's BINARY collation.
  \<^item> Instants are integers (microseconds); the code stores them as fixed-width UTC text whose
    lexicographic order is the chronological order.
  \<^item> A Python exception is a value of type \<open>err\<close>; the message is kept without its interpolated
    identifiers.
  \<^item> Code that runs inside one SQLite transaction is a state transformer \<open>'s \<Rightarrow> err + 'a \<times> 's\<close>
    (\<open>txn\<close>).  No code under \<^verbatim>\<open>ecorex/runtime\<close> recovers from an exception inside a transaction, so an
    exception discards the state; \<open>transaction\<close> puts the state of the transaction's start back.
  \<^item> \<open>wp\<close> is the weakest liberal precondition of such a transformer and \<open>keeps R m\<close> states that
    every successful run of \<open>m\<close> relates its start and its end by \<open>R\<close>.  The locale \<open>step_order\<close>
    proves the composition rules of \<open>keeps\<close> once, for every reflexive and transitive relation.
\<close>

named_theorems wp_simps "weakest precondition equations"
named_theorems frame_rules "which tables an operation leaves alone"

section \<open>Errors\<close>

datatype err =
    ValueError string
  | TypeError string
  | NotFoundError string
  | ConflictError string
  | InvalidTransitionError string
  | IdempotencyConflictError string
  | LeaseError string
  | RuntimeError string
  | RuntimeExecutionDenied string
  | IntegrityError string
  | PublicToolProjectionError string
  | InteractionResponseValidationError string
  | PermissionIntegrityError string
  | KeyError string
  | AttributeError string
  | ToolExecutionConflict string
  | StaleInvocationAdmission string
  | RuntimeSnapshotError string
  | RuntimeSnapshotConflict string
  | RuntimeSnapshotNotFound string
  | RuntimeSnapshotStale string
  | RuntimeActivationDrainError string
  | RuntimeActivationDrainTimeout string

section \<open>Strings and numbers\<close>

definition utf8_continuation :: "char \<Rightarrow> bool" where
  "utf8_continuation c = (128 \<le> (of_char c :: nat) \<and> (of_char c :: nat) < 192)"

definition py_len :: "string \<Rightarrow> nat" where
  "py_len s = length (filter (\<lambda>c. \<not> utf8_continuation c) s)"

definition digit_char :: "nat \<Rightarrow> char" where
  "digit_char d = ''0123456789'' ! (d mod 10)"

fun str_nat :: "nat \<Rightarrow> string" where
  "str_nat n = (if n < 10 then [digit_char n] else str_nat (n div 10) @ [digit_char n])"

declare str_nat.simps [simp del]

definition str_int :: "int \<Rightarrow> string" where
  "str_int i = (if i < 0 then ''-'' @ str_nat (nat (- i)) else str_nat (nat i))"

text \<open>A string literal given by its UTF-8 bytes.\<close>

definition u8 :: "nat list \<Rightarrow> string" where
  "u8 bs = map char_of bs"

lemma py_len_u8 [simp]: "py_len (u8 bs) = length (filter (\<lambda>b. b mod 256 < 128 \<or> 192 \<le> b mod 256) bs)"
  by (simp add: py_len_def u8_def filter_map o_def utf8_continuation_def not_le not_less)

lemma u8_Nil_iff [simp]: "u8 bs = [] \<longleftrightarrow> bs = []"
  by (simp add: u8_def)

definition ascii_alpha :: "char \<Rightarrow> bool" where
  "ascii_alpha c = (c \<in> set ''abcdefghijklmnopqrstuvwxyzABCDEFGHIJKLMNOPQRSTUVWXYZ'')"

definition lower_alpha :: "char \<Rightarrow> bool" where
  "lower_alpha c = (c \<in> set ''abcdefghijklmnopqrstuvwxyz'')"

definition ascii_alnum :: "char \<Rightarrow> bool" where
  "ascii_alnum c = (ascii_alpha c \<or> c \<in> set ''0123456789'')"

text \<open>The identifier patterns \<^verbatim>\<open>^[A-Za-z0-9][-A-Za-z0-9_.:]{0,n-1}$\<close> and \<^verbatim>\<open>^[0-9a-f]{64}$\<close>.\<close>

definition protocol_token :: "nat \<Rightarrow> string \<Rightarrow> bool" where
  "protocol_token n s =
     (s \<noteq> [] \<and> length s \<le> n \<and> ascii_alnum (hd s) \<and>
      list_all (\<lambda>c. ascii_alnum c \<or> c \<in> set ''-_.:'') s)"

definition is_sha256 :: "string \<Rightarrow> bool" where
  "is_sha256 s = (length s = 64 \<and> list_all (\<lambda>c. c \<in> set ''0123456789abcdef'') s)"

text \<open>Python's \<open>x or y\<close> on an optional string: the empty string and \<open>None\<close> are false.\<close>

definition truthy :: "string option \<Rightarrow> bool" where
  "truthy x = (x \<noteq> None \<and> x \<noteq> Some [])"

definition or_else :: "string option \<Rightarrow> string option \<Rightarrow> string option" where
  "or_else x y = (if truthy x then x else y)"

lemma truthy_simps [simp]: "truthy None = False" "truthy (Some s) = (s \<noteq> [])"
  by (auto simp: truthy_def)

lemma or_else_simps [simp]:
  "or_else None y = y"
  "or_else (Some []) y = y"
  "or_else (Some (c # s)) y = Some (c # s)"
  by (auto simp: or_else_def)

section \<open>Transactions\<close>

type_synonym ('s, 'a) txn = "'s \<Rightarrow> err + 'a \<times> 's"

definition ret :: "'a \<Rightarrow> ('s, 'a) txn" where
  "ret a = (\<lambda>s. Inr (a, s))"

definition raise :: "err \<Rightarrow> ('s, 'a) txn" where
  "raise e = (\<lambda>s. Inl e)"

definition bind :: "('s, 'a) txn \<Rightarrow> ('a \<Rightarrow> ('s, 'b) txn) \<Rightarrow> ('s, 'b) txn" where
  "bind m f = (\<lambda>s. case m s of Inl e \<Rightarrow> Inl e | Inr (a, s') \<Rightarrow> f a s')"

definition seq :: "('s, unit) txn \<Rightarrow> ('s, 'b) txn \<Rightarrow> ('s, 'b) txn" where
  "seq m k = bind m (\<lambda>_. k)"

definition read :: "('s \<Rightarrow> 'a) \<Rightarrow> ('s, 'a) txn" where
  "read f = (\<lambda>s. Inr (f s, s))"

definition modify :: "('s \<Rightarrow> 's) \<Rightarrow> ('s, unit) txn" where
  "modify f = (\<lambda>s. Inr ((), f s))"

text \<open>\<open>require b e\<close> is \<^verbatim>\<open>if not b: raise e\<close>.\<close>

definition require :: "bool \<Rightarrow> err \<Rightarrow> ('s, unit) txn" where
  "require b e = (if b then ret () else raise e)"

text \<open>\<open>for_each xs f\<close> is \<^verbatim>\<open>for x in xs: f(x)\<close>.\<close>

fun for_each :: "'b list \<Rightarrow> ('b \<Rightarrow> ('s, unit) txn) \<Rightarrow> ('s, unit) txn" where
  "for_each [] f = ret ()"
| "for_each (x # xs) f = seq (f x) (for_each xs f)"

text \<open>Computations that only raise or return, their sequencing, and their use inside a transaction.\<close>

definition ebind :: "err + 'a \<Rightarrow> ('a \<Rightarrow> err + 'b) \<Rightarrow> err + 'b" where
  "ebind x f = (case x of Inl e \<Rightarrow> Inl e | Inr a \<Rightarrow> f a)"

definition lift_result :: "err + 'a \<Rightarrow> ('s, 'a) txn" where
  "lift_result x = (case x of Inl e \<Rightarrow> raise e | Inr a \<Rightarrow> ret a)"

text \<open>The boundary of \<^verbatim>\<open>SQLiteDatabase.transaction\<close>: an exception rolls every write back.\<close>

definition transaction :: "('s, 'a) txn \<Rightarrow> 's \<Rightarrow> (err + 'a) \<times> 's" where
  "transaction m s = (case m s of Inl e \<Rightarrow> (Inl e, s) | Inr (a, s') \<Rightarrow> (Inr a, s'))"

lemma transaction_rollback: "fst (transaction m s) = Inl e \<Longrightarrow> snd (transaction m s) = s"
  by (auto simp: transaction_def split: sum.splits prod.splits)

section \<open>Evaluating transactions\<close>

lemma run_eqs:
  "bind m f s = (case m s of Inl e \<Rightarrow> Inl e | Inr (a, s') \<Rightarrow> f a s')"
  "seq m1 k s = (case m1 s of Inl e \<Rightarrow> Inl e | Inr (_, s') \<Rightarrow> k s')"
  "read h s = Inr (h s, s)" "require b e s = (if b then Inr ((), s) else Inl e)" "ret a1 s = Inr (a1, s)" "raise e s = Inl e"
  "modify u s = Inr ((), u s)" "lift_result x s = (case x of Inl e \<Rightarrow> Inl e | Inr b \<Rightarrow> Inr (b, s))"
  by (simp_all add: bind_def seq_def read_def require_def ret_def raise_def modify_def lift_result_def split: sum.splits)

text \<open>As congruence rules these keep the rewriter out of the continuations.\<close>

lemma bind_lazy: "bind m f s = bind m f s"
  by simp

lemma seq_lazy: "seq m k s = seq m k s"
  by simp

section \<open>Weakest preconditions\<close>

definition wp :: "('s, 'a) txn \<Rightarrow> ('a \<Rightarrow> 's \<Rightarrow> bool) \<Rightarrow> 's \<Rightarrow> bool" where
  "wp m Q s = (case m s of Inl _ \<Rightarrow> True | Inr (a, s') \<Rightarrow> Q a s')"

lemma wp_ret [wp_simps]: "wp (ret a) Q s = Q a s"
  by (simp add: wp_def ret_def)

lemma wp_raise [wp_simps]: "wp (raise e) Q s = True"
  by (simp add: wp_def raise_def)

lemma wp_bind [wp_simps]: "wp (bind m f) Q s = wp m (\<lambda>a. wp (f a) Q) s"
  by (simp add: wp_def bind_def split: sum.splits prod.splits)

lemma wp_seq [wp_simps]: "wp (seq m k) Q s = wp m (\<lambda>_. wp k Q) s"
  by (simp add: seq_def wp_bind)

lemma wp_read [wp_simps]: "wp (read f) Q s = Q (f s) s"
  by (simp add: wp_def read_def)

lemma wp_modify [wp_simps]: "wp (modify f) Q s = Q () (f s)"
  by (simp add: wp_def modify_def)

lemma wp_require [wp_simps]: "wp (require b e) Q s = (b \<longrightarrow> Q () s)"
  by (simp add: require_def wp_ret wp_raise)

lemma wp_lift_result [wp_simps]: "wp (lift_result x) Q s = (\<forall>a. x = Inr a \<longrightarrow> Q a s)"
  by (cases x) (simp_all add: lift_result_def wp_ret wp_raise)

lemma wp_if [wp_simps]:
  "wp (if b then m else k) Q s = ((b \<longrightarrow> wp m Q s) \<and> (\<not> b \<longrightarrow> wp k Q s))"
  by simp

lemma wp_case_option [wp_simps]:
  "wp (case x of None \<Rightarrow> m | Some y \<Rightarrow> f y) Q s =
     ((x = None \<longrightarrow> wp m Q s) \<and> (\<forall>y. x = Some y \<longrightarrow> wp (f y) Q s))"
  by (cases x) auto

lemma wp_case_prod [wp_simps]:
  "wp (case p of (x, y) \<Rightarrow> f x y) Q s = (\<forall>x y. p = (x, y) \<longrightarrow> wp (f x y) Q s)"
  by (cases p) auto

lemma wp_mono: "wp m Q s \<Longrightarrow> (\<And>a s'. Q a s' \<Longrightarrow> Q' a s') \<Longrightarrow> wp m Q' s"
  by (auto simp: wp_def split: sum.splits prod.splits)

lemma wp_conj: "wp m Q s \<Longrightarrow> wp m Q' s \<Longrightarrow> wp m (\<lambda>a s'. Q a s' \<and> Q' a s') s"
  by (auto simp: wp_def split: sum.splits prod.splits)

lemma wp_all: "(\<And>x. wp m (\<lambda>a s'. Q x a s') s) \<Longrightarrow> wp m (\<lambda>a s'. \<forall>x. Q x a s') s"
  by (auto simp: wp_def split: sum.splits prod.splits)

lemma wpI: "(\<And>a s'. m s = Inr (a, s') \<Longrightarrow> Q a s') \<Longrightarrow> wp m Q s"
  by (auto simp: wp_def split: sum.splits prod.splits)

lemma wpD: "wp m Q s \<Longrightarrow> m s = Inr (a, s') \<Longrightarrow> Q a s'"
  by (simp add: wp_def)

lemma wp_True [simp]: "wp m (\<lambda>_ _. True) s"
  by (simp add: wp_def split: sum.splits)

text \<open>A loop: the invariant speaks about what is still to be processed.\<close>

lemma wp_for_each:
  assumes "I xs s"
    and "\<And>x ys s. I (x # ys) s \<Longrightarrow> wp (f x) (\<lambda>_. I ys) s"
  shows "wp (for_each xs f) (\<lambda>_. I []) s"
  using assms(1)
proof (induction xs arbitrary: s)
  case Nil
  then show ?case by (simp add: wp_ret)
next
  case (Cons x xs)
  have "wp (f x) (\<lambda>_. I xs) s" using assms(2) Cons.prems by blast
  then show ?case by (auto simp: wp_seq intro: wp_mono Cons.IH)
qed

section \<open>Relations kept by a transaction\<close>

definition keeps :: "('s \<Rightarrow> 's \<Rightarrow> bool) \<Rightarrow> ('s, 'a) txn \<Rightarrow> bool" where
  "keeps R m = (\<forall>s. wp m (\<lambda>_ s'. R s s') s)"

lemma keepsI: "(\<And>s. wp m (\<lambda>_ s'. R s s') s) \<Longrightarrow> keeps R m"
  by (simp add: keeps_def)

lemma keepsD: "keeps R m \<Longrightarrow> m s = Inr (a, s') \<Longrightarrow> R s s'"
  by (auto simp: keeps_def dest: wpD)

lemma keeps_lift_result: "(\<And>s. R s s) \<Longrightarrow> keeps R (lift_result x)"
  by (simp add: keeps_def wp_simps)

lemma keeps_wp: "keeps R m \<Longrightarrow> (\<And>a s'. R s s' \<Longrightarrow> Q a s') \<Longrightarrow> wp m Q s"
  by (auto simp: keeps_def intro: wp_mono)

locale step_order =
  fixes R :: "'s \<Rightarrow> 's \<Rightarrow> bool"
  assumes R_refl: "R s s"
    and R_trans: "R s t \<Longrightarrow> R t u \<Longrightarrow> R s u"
begin

lemma keeps_ret: "keeps R (ret a)"
  by (simp add: keeps_def wp_ret R_refl)

lemma keeps_raise: "keeps R (raise e)"
  by (simp add: keeps_def wp_raise)

lemma keeps_read: "keeps R (read f)"
  by (simp add: keeps_def wp_read R_refl)

lemma keeps_require: "keeps R (require b e)"
  by (simp add: keeps_def wp_require R_refl)

lemma keeps_bind:
  assumes "keeps R m" and "\<And>a. keeps R (f a)"
  shows "keeps R (bind m f)"
proof (rule keepsI)
  fix s
  show "wp (bind m f) (\<lambda>_ s'. R s s') s"
    unfolding wp_bind
  proof (rule keeps_wp [OF assms(1)])
    fix a t
    assume "R s t"
    then show "wp (f a) (\<lambda>_ s'. R s s') t"
      by (auto intro: keeps_wp [OF assms(2)] R_trans)
  qed
qed

lemma keeps_seq: "keeps R m \<Longrightarrow> keeps R k \<Longrightarrow> keeps R (seq m k)"
  unfolding seq_def by (rule keeps_bind)

lemma keeps_if: "keeps R m \<Longrightarrow> keeps R k \<Longrightarrow> keeps R (if b then m else k)"
  by simp

lemma keeps_case_option:
  "keeps R m \<Longrightarrow> (\<And>y. keeps R (f y)) \<Longrightarrow> keeps R (case x of None \<Rightarrow> m | Some y \<Rightarrow> f y)"
  by (cases x) auto

lemma keeps_case_prod: "(\<And>x y. keeps R (f x y)) \<Longrightarrow> keeps R (case p of (x, y) \<Rightarrow> f x y)"
  by (cases p) auto

lemma keeps_for_each: "(\<And>x. keeps R (f x)) \<Longrightarrow> keeps R (for_each xs f)"
  by (induction xs) (auto intro: keeps_ret keeps_seq)

lemmas keeps_intros =
  keeps_ret keeps_raise keeps_read keeps_require keeps_bind keeps_seq keeps_if
  keeps_case_option keeps_case_prod keeps_for_each

lemma transaction_keeps: "keeps R m \<Longrightarrow> R s (snd (transaction m s))"
  by (auto simp: transaction_def R_refl dest: keepsD split: sum.splits prod.splits)

end

section \<open>Rows of a table\<close>

text \<open>\<open>update_rows p f\<close> is \<^verbatim>\<open>UPDATE .. SET f WHERE p\<close> on the rows of a table.\<close>

definition update_rows :: "('r \<Rightarrow> bool) \<Rightarrow> ('r \<Rightarrow> 'r) \<Rightarrow> 'r list \<Rightarrow> 'r list" where
  "update_rows p f rs = map (\<lambda>r. if p r then f r else r) rs"

lemma length_update_rows [simp]: "length (update_rows p f rs) = length rs"
  by (simp add: update_rows_def)

lemma nth_update_rows:
  "i < length rs \<Longrightarrow> update_rows p f rs ! i = (if p (rs ! i) then f (rs ! i) else rs ! i)"
  by (simp add: update_rows_def)

lemma update_rows_key [simp]:
  "(\<And>r. p r \<Longrightarrow> k (f r) = k r) \<Longrightarrow> map k (update_rows p f rs) = map k rs"
  by (auto simp: update_rows_def)

lemma set_update_rows: "set (update_rows p f rs) = (\<lambda>r. if p r then f r else r) ` set rs"
  by (simp add: update_rows_def)

lemma find_SomeD: "find p xs = Some x \<Longrightarrow> x \<in> set xs \<and> p x"
  by (induction xs) (auto split: if_splits)

lemma find_NoneD: "find p xs = None \<Longrightarrow> x \<in> set xs \<Longrightarrow> \<not> p x"
  by (induction xs) (auto split: if_splits)

lemma find_key_unique:
  "distinct (map k xs) \<Longrightarrow> x \<in> set xs \<Longrightarrow> find (\<lambda>y. k y = k x) xs = Some x"
  by (induction xs) (auto split: if_splits simp: rev_image_eqI)

lemma update_rows_unique:
  assumes "distinct (map k rs)" and "x \<in> set rs"
  shows "update_rows (\<lambda>r. k r = k x) f rs = update_rows (\<lambda>r. k r = k x) (\<lambda>_. f x) rs"
  using assms by (auto simp: update_rows_def distinct_map dest: inj_onD)

lemma update_rows_nth:
  assumes "distinct (map k rs)" and "i < length rs"
  shows "update_rows (\<lambda>r. k r = k (rs ! i)) (\<lambda>_. x) rs = rs[i := x]"
  using assms by (auto intro!: nth_equalityI simp: update_rows_def nth_list_update distinct_conv_nth)

lemma find_update_rows_same:
  "(\<And>r. k (f r) = k r) \<Longrightarrow>
   find (\<lambda>r. k r = i) (update_rows (\<lambda>r. k r = i) f rs) = map_option f (find (\<lambda>r. k r = i) rs)"
  by (induction rs) (auto simp: update_rows_def)

lemma find_update_rows_other:
  "i \<noteq> j \<Longrightarrow> (\<And>r. k (f r) = k r) \<Longrightarrow>
   find (\<lambda>r. k r = j) (update_rows (\<lambda>r. k r = i) f rs) = find (\<lambda>r. k r = j) rs"
  by (induction rs) (auto simp: update_rows_def)

end
