(* ===== verification/Ids.thy ===== *)
theory Ids
  imports Prelude
begin

text \<open>
  \<^verbatim>\<open>ecorex/ids.py\<close>: monotonic ULID identities.  The module globals \<^verbatim>\<open>_monotonic_pid\<close>,
  \<^verbatim>\<open>_last_timestamp_ms\<close> and \<^verbatim>\<open>_last_randomness\<close> are the record \<open>ulid_state\<close>; the operating system
  (process id, clock, \<^verbatim>\<open>secrets.randbits(80)\<close>) enters as arguments of \<open>new_ulid\<close>.  One call draws
  at most one random number, so one argument stands for it.

  Shown: every ULID has 26 characters of the Crockford alphabet, \<open>is_id\<close> accepts exactly what
  \<open>new_id\<close> builds, and the ULIDs of one process are strictly increasing in the order SQLite
  compares them, also when the clock stands still, runs backwards or the suffix overflows.
\<close>

section \<open>The generator\<close>

definition crockford32 :: string where
  "crockford32 = ''0123456789ABCDEFGHJKMNPQRSTVWXYZ''"

definition ulid_random_mask :: int where
  "ulid_random_mask = 2 ^ 80 - 1"

definition timestamp_modulus :: int where
  "timestamp_modulus = 2 ^ 48"

record ulid_state =
  monotonic_pid :: int
  last_timestamp_ms :: int
  last_randomness :: int

definition reset_monotonic_state_after_fork :: "int \<Rightarrow> ulid_state" where
  "reset_monotonic_state_after_fork pid =
     \<lparr>monotonic_pid = pid, last_timestamp_ms = -1, last_randomness = 0\<rparr>"

definition valid_prefix :: "string \<Rightarrow> bool" where
  "valid_prefix p =
     (p \<noteq> [] \<and> length p \<le> 32 \<and> ascii_alpha (hd p) \<and>
      list_all (\<lambda>c. ascii_alnum c \<or> c = CHR ''-'') p)"

text \<open>The loop fills the output from its last position, shifting the value by five bits.\<close>

fun encode_base32 :: "int \<Rightarrow> nat \<Rightarrow> string" where
  "encode_base32 v 0 = []"
| "encode_base32 v (Suc n) = encode_base32 (v div 32) n @ [crockford32 ! nat (v mod 32)]"

definition new_ulid :: "int \<Rightarrow> int \<Rightarrow> int \<Rightarrow> ulid_state \<Rightarrow> string \<times> ulid_state" where
  "new_ulid process_id time_ns randbits st =
     (let timestamp_ms = (time_ns div 1000000) mod timestamp_modulus;
          st = (if process_id \<noteq> monotonic_pid st
                then \<lparr>monotonic_pid = process_id, last_timestamp_ms = -1, last_randomness = 0\<rparr>
                else st);
          (timestamp_ms, randomness) =
            (if timestamp_ms > last_timestamp_ms st then (timestamp_ms, randbits)
             else let randomness = last_randomness st + 1
                  in if randomness > ulid_random_mask
                     then ((last_timestamp_ms st + 1) mod timestamp_modulus, randbits)
                     else (last_timestamp_ms st, randomness))
      in (encode_base32 timestamp_ms 10 @ encode_base32 randomness 16,
          st\<lparr>last_timestamp_ms := timestamp_ms, last_randomness := randomness\<rparr>))"

definition new_id :: "string \<Rightarrow> int \<Rightarrow> int \<Rightarrow> int \<Rightarrow> ulid_state \<Rightarrow> err + string \<times> ulid_state" where
  "new_id prefix process_id time_ns randbits st =
     (if \<not> valid_prefix prefix then Inl (ValueError ''identity prefix is invalid'')
      else let (u, st') = new_ulid process_id time_ns randbits st
           in Inr (prefix @ ''_'' @ u, st'))"

definition is_id :: "string \<Rightarrow> string \<Rightarrow> bool" where
  "is_id value prefix =
     (valid_prefix prefix \<and> take (length prefix + 1) value = prefix @ ''_'' \<and>
      (let suffix = drop (length prefix + 1) value
       in length suffix = 26 \<and> list_all (\<lambda>c. c \<in> set crockford32) suffix))"

text \<open>The ULIDs of a sequence of calls of one process: each call sees the clock and a draw.\<close>

fun ulid_run :: "int \<Rightarrow> (int \<times> int) list \<Rightarrow> ulid_state \<Rightarrow> string list" where
  "ulid_run pid [] st = []"
| "ulid_run pid ((time_ns, rnd) # calls) st =
     (let (u, st') = new_ulid pid time_ns rnd st in u # ulid_run pid calls st')"

section \<open>Encoding\<close>

lemma length_crockford32 [simp]: "length crockford32 = 32"
  by (simp add: crockford32_def)

lemma crockford_nth_in: "crockford32 ! nat (v mod 32) \<in> set crockford32"
  by (rule nth_mem) (simp add: nat_less_iff)

lemma crockford_sorted: "sorted_wrt (<) crockford32"
  by (simp add: crockford32_def less_char_def)

lemma crockford_less: "0 \<le> a \<Longrightarrow> a < b \<Longrightarrow> b < 32 \<Longrightarrow> crockford32 ! nat a < crockford32 ! nat b"
  using crockford_sorted by (simp add: sorted_wrt_iff_nth_less)

lemma length_encode [simp]: "length (encode_base32 v n) = n"
  by (induction n arbitrary: v) auto

lemma encode_alphabet: "set (encode_base32 v n) \<subseteq> set crockford32"
  by (induction n arbitrary: v) (auto simp: crockford_nth_in)

lemma less_append_iff:
  fixes xs ys :: "'a::linorder list"
  assumes "length xs = length ys"
  shows "xs @ us < ys @ vs \<longleftrightarrow> xs < ys \<or> xs = ys \<and> us < vs"
  using assms by (induction xs ys rule: list_induct2) auto

lemma encode_mono: "0 \<le> v \<Longrightarrow> v < w \<Longrightarrow> w < 32 ^ n \<Longrightarrow> encode_base32 v n < encode_base32 w n"
proof (induction n arbitrary: v w)
  case (Suc n)
  have w: "w div 32 < 32 ^ n" using Suc.prems by (simp add: div_less_iff_less_mult mult.commute)
  show ?case
  proof (cases "v div 32 < w div 32")
    case True
    then have "encode_base32 (v div 32) n < encode_base32 (w div 32) n"
      using Suc.IH w Suc.prems(1) by (simp add: pos_imp_zdiv_nonneg_iff)
    then show ?thesis by (simp add: less_append_iff)
  next
    case False
    then have "v div 32 = w div 32" "v mod 32 < w mod 32"
      using Suc.prems by (smt (verit) zdiv_mono1 mult_div_mod_eq)+
    then show ?thesis by (simp add: less_append_iff crockford_less)
  qed
qed simp

lemma encode_mono_le: "0 \<le> v \<Longrightarrow> v \<le> w \<Longrightarrow> w < 32 ^ n \<Longrightarrow> encode_base32 v n \<le> encode_base32 w n"
  using encode_mono [of v w n] by (cases "v = w") (auto intro: less_imp_le)

section \<open>Monotonicity\<close>

text \<open>The ULID that the globals stand for, and the range they stay in.\<close>

definition state_ulid :: "ulid_state \<Rightarrow> string" where
  "state_ulid st = encode_base32 (last_timestamp_ms st) 10 @ encode_base32 (last_randomness st) 16"

definition ulid_state_ok :: "int \<Rightarrow> ulid_state \<Rightarrow> bool" where
  "ulid_state_ok pid st =
     (monotonic_pid st = pid \<and> -1 \<le> last_timestamp_ms st \<and> last_timestamp_ms st < timestamp_modulus \<and>
      0 \<le> last_randomness st \<and> last_randomness st \<le> ulid_random_mask)"

definition randbits_ok :: "int \<Rightarrow> bool" where
  "randbits_ok r = (0 \<le> r \<and> r \<le> ulid_random_mask)"

lemma reset_ok: "ulid_state_ok pid (reset_monotonic_state_after_fork pid)"
  by (simp add: ulid_state_ok_def reset_monotonic_state_after_fork_def timestamp_modulus_def
      ulid_random_mask_def)

lemma new_ulid_state: "fst (new_ulid pid t r st) = state_ulid (snd (new_ulid pid t r st))"
  by (simp add: new_ulid_def state_ulid_def Let_def)

lemma timestamp_range: "0 \<le> (t div 1000000) mod timestamp_modulus"
  "(t div 1000000) mod timestamp_modulus < timestamp_modulus"
  by (simp_all add: timestamp_modulus_def)

lemma new_ulid_step:
  fixes t :: int
  assumes ok: "ulid_state_ok pid st" and r: "randbits_ok r"
    and room: "last_timestamp_ms st + 1 < timestamp_modulus"
  defines "st' \<equiv> snd (new_ulid pid t r st)"
  shows "ulid_state_ok pid st'" "0 \<le> last_timestamp_ms st'"
    "last_timestamp_ms st' \<le> max ((t div 1000000) mod timestamp_modulus) (last_timestamp_ms st + 1)"
    "last_timestamp_ms st < last_timestamp_ms st' \<or>
       last_timestamp_ms st = last_timestamp_ms st' \<and> last_randomness st < last_randomness st'"
proof -
  define ms where "ms = (t div 1000000) mod timestamp_modulus"
  have ms: "0 \<le> ms" "ms < timestamp_modulus" using timestamp_range [of t] by (simp_all add: ms_def)
  show "ulid_state_ok pid st'" "0 \<le> last_timestamp_ms st'"
    "last_timestamp_ms st' \<le> max ((t div 1000000) mod timestamp_modulus) (last_timestamp_ms st + 1)"
    "last_timestamp_ms st < last_timestamp_ms st' \<or>
       last_timestamp_ms st = last_timestamp_ms st' \<and> last_randomness st < last_randomness st'"
    using ok r room ms
    by (auto simp: st'_def ulid_state_ok_def randbits_ok_def new_ulid_def Let_def ms_def [symmetric])
qed

lemma state_ulid_less:
  assumes "ulid_state_ok pid st" "ulid_state_ok pid st'" "0 \<le> last_timestamp_ms st"
    and "last_timestamp_ms st < last_timestamp_ms st' \<or>
       last_timestamp_ms st = last_timestamp_ms st' \<and> last_randomness st < last_randomness st'"
  shows "state_ulid st < state_ulid st'"
  using assms encode_mono [of "last_timestamp_ms st" "last_timestamp_ms st'" 10]
    encode_mono [of "last_randomness st" "last_randomness st'" 16]
  by (auto simp: state_ulid_def less_append_iff ulid_state_ok_def timestamp_modulus_def ulid_random_mask_def)

definition calls_ok :: "int \<Rightarrow> (int \<times> int) list \<Rightarrow> bool" where
  "calls_ok bound calls =
     list_all (\<lambda>(t, r). randbits_ok r \<and> (t div 1000000) mod timestamp_modulus \<le> bound) calls"

lemma calls_ok_mono: "calls_ok b calls \<Longrightarrow> b \<le> b' \<Longrightarrow> calls_ok b' calls"
  by (fastforce simp: calls_ok_def list_all_iff)

lemma ulid_run_sorted:
  assumes "ulid_state_ok pid st" "calls_ok bound calls" "last_timestamp_ms st \<le> bound"
    and "bound + int (length calls) < timestamp_modulus"
  shows "sorted_wrt (<) (ulid_run pid calls st) \<and>
    (0 \<le> last_timestamp_ms st \<longrightarrow> (\<forall>u \<in> set (ulid_run pid calls st). state_ulid st < u))"
  using assms
proof (induction calls arbitrary: st bound)
  case (Cons call calls)
  obtain t r where call: "call = (t, r)" by (cases call)
  define st' where "st' = snd (new_ulid pid t r st)"
  have r: "randbits_ok r" and rest: "calls_ok bound calls"
    and t: "(t div 1000000) mod timestamp_modulus \<le> bound"
    using Cons.prems(2) by (simp_all add: calls_ok_def call)
  have room: "last_timestamp_ms st + 1 < timestamp_modulus" using Cons.prems(3,4) by simp
  note step = new_ulid_step [OF Cons.prems(1) r room, of t, folded st'_def]
  have run: "ulid_run pid (call # calls) st = state_ulid st' # ulid_run pid calls st'"
    by (simp add: call st'_def new_ulid_state split_beta Let_def)
  have bound': "last_timestamp_ms st' \<le> bound + 1" using step(3) t Cons.prems(3) by simp
  have IH: "sorted_wrt (<) (ulid_run pid calls st')" "\<forall>u \<in> set (ulid_run pid calls st'). state_ulid st' < u"
    using Cons.IH [OF step(1) calls_ok_mono [OF rest, of "bound + 1"] bound'] Cons.prems(4) step(2)
    by simp_all
  have "0 \<le> last_timestamp_ms st \<Longrightarrow> state_ulid st < state_ulid st'"
    using state_ulid_less [OF Cons.prems(1) step(1) _ step(4)] by blast
  then show ?case unfolding run using IH by (auto intro: less_trans)
qed simp

section \<open>Identities\<close>

lemma new_ulid_shape:
  "length (fst (new_ulid pid t r st)) = 26" "set (fst (new_ulid pid t r st)) \<subseteq> set crockford32"
  unfolding new_ulid_state state_ulid_def using encode_alphabet by auto

lemma is_id_iff:
  "is_id value prefix \<longleftrightarrow>
     valid_prefix prefix \<and>
     (\<exists>u. value = prefix @ ''_'' @ u \<and> length u = 26 \<and> set u \<subseteq> set crockford32)"
proof
  assume "is_id value prefix"
  then show "valid_prefix prefix \<and>
     (\<exists>u. value = prefix @ ''_'' @ u \<and> length u = 26 \<and> set u \<subseteq> set crockford32)"
    by (intro conjI exI [of _ "drop (length prefix + 1) value"])
       (auto simp: is_id_def Let_def list_all_iff, metis append_assoc append_Cons append_Nil append_take_drop_id)
qed (auto simp: is_id_def Let_def list_all_iff)

text \<open>
  \<^verbatim>\<open>new_id\<close> on a valid prefix returns an identity of that prefix which \<^verbatim>\<open>is_id\<close> recognises,
  and \<^verbatim>\<open>is_id\<close> accepts it for no other prefix; an invalid prefix raises \<^verbatim>\<open>ValueError\<close>.
\<close>

theorem new_id_is_id:
  "case new_id prefix pid t r st of
     Inl e \<Rightarrow> \<not> valid_prefix prefix \<and> e = ValueError ''identity prefix is invalid''
   | Inr (i, st') \<Rightarrow> (\<forall>p. is_id i p = (p = prefix)) \<and> i = prefix @ ''_'' @ state_ulid st'"
proof (cases "valid_prefix prefix")
  case True
  obtain u st' where u: "new_ulid pid t r st = (u, st')" by (cases "new_ulid pid t r st")
  have shape: "length u = 26" "set u \<subseteq> set crockford32" "u = state_ulid st'"
    using new_ulid_shape [of pid t r st] new_ulid_state [of pid t r st] by (simp_all add: u)
  have "is_id (prefix @ ''_'' @ u) p = (p = prefix)" for p
    unfolding is_id_iff using True shape by (auto dest: arg_cong [of _ _ length] simp: append_eq_append_conv)
  then show ?thesis using True shape by (simp add: new_id_def u)
qed (simp add: new_id_def)

text \<open>
  C39.  The ULIDs that one process draws are strictly increasing, hence distinct, in the bytewise
  order the tables sort by: the clock may stand still or go back, and a suffix that overflows
  carries into the timestamp.  The only hypotheses are that \<^verbatim>\<open>secrets.randbits(80)\<close> returns 80 bits
  and that the 48-bit millisecond timestamp does not wrap around during the run.
\<close>

theorem ulids_strictly_increasing:
  assumes "calls_ok bound calls" and "bound + int (length calls) < timestamp_modulus" and "-1 \<le> bound"
  shows "sorted_wrt (<) (ulid_run pid calls (reset_monotonic_state_after_fork pid)) \<and>
    distinct (ulid_run pid calls (reset_monotonic_state_after_fork pid))"
proof -
  have "sorted_wrt (<) (ulid_run pid calls (reset_monotonic_state_after_fork pid))"
    using ulid_run_sorted [OF reset_ok assms(1) _ assms(2)] assms(3)
    by (simp add: reset_monotonic_state_after_fork_def)
  then show ?thesis by (simp add: strict_sorted_iff)
qed

text \<open>Two calls in one millisecond after the largest suffix, then a clock that runs backwards.\<close>

theorem ulids_strictly_increasing_witness:
  "sorted_wrt (<) (ulid_run 7 [(5000000, 2 ^ 80 - 1), (5000001, 3), (1000000, 9)]
                     (reset_monotonic_state_after_fork 7))"
  using ulids_strictly_increasing [of 6 "[(5000000, 2 ^ 80 - 1), (5000001, 3), (1000000, 9)]" 7]
  by (simp add: calls_ok_def randbits_ok_def ulid_random_mask_def timestamp_modulus_def)

end
