(* ===== verification/Json.thy ===== *)
theory Json
  imports Prelude
begin

text \<open>
  JSON values and the canonical text of \<^verbatim>\<open>ecorex/runtime/database.py\<close>: \<^verbatim>\<open>json_dumps\<close> sorts object keys
  and writes no spaces.  A JSON column of a table is modelled by the value that \<^verbatim>\<open>json_loads\<close> reads
  back from it, that is \<open>json_canon\<close> of the value that was written; \<open>json_dumps_canon\<close> shows that
  both have the same text.
\<close>

section \<open>Values\<close>

text \<open>A Python \<^verbatim>\<open>float\<close> is kept as its \<^verbatim>\<open>repr\<close> text.\<close>

datatype json =
    JNull
  | JBool bool
  | JInt int
  | JFloat string
  | JStr string
  | JArr "json list"
  | JObj "(string \<times> json) list"

type_synonym jobj = "(string \<times> json) list"

definition jopt :: "string option \<Rightarrow> json" where
  "jopt x = (case x of None \<Rightarrow> JNull | Some s \<Rightarrow> JStr s)"

definition jtime :: "int option \<Rightarrow> json" where
  "jtime x = (case x of None \<Rightarrow> JNull | Some t \<Rightarrow> JInt t)"

text \<open>\<^verbatim>\<open>d.get(k)\<close>: a missing key and an explicit \<^verbatim>\<open>null\<close> both read as \<^verbatim>\<open>None\<close>.\<close>

definition jget :: "jobj \<Rightarrow> string \<Rightarrow> json" where
  "jget d k = (case map_of d k of None \<Rightarrow> JNull | Some v \<Rightarrow> v)"

definition has_key :: "jobj \<Rightarrow> string \<Rightarrow> bool" where
  "has_key d k = (map_of d k \<noteq> None)"

definition dict_set :: "string \<Rightarrow> json \<Rightarrow> jobj \<Rightarrow> jobj" where
  "dict_set k v d =
     (if has_key d k then map (\<lambda>(k', v'). if k' = k then (k, v) else (k', v')) d else d @ [(k, v)])"

definition dict_pop :: "string \<Rightarrow> jobj \<Rightarrow> jobj" where
  "dict_pop k d = filter (\<lambda>(k', _). k' \<noteq> k) d"

section \<open>Canonical text\<close>

definition hex_digit :: "nat \<Rightarrow> char" where
  "hex_digit n = ''0123456789abcdef'' ! (n mod 16)"

definition json_escape_char :: "char \<Rightarrow> string" where
  "json_escape_char c =
     (if c = CHR 0x22 then [CHR 0x5C, CHR 0x22]
      else if c = CHR 0x5C then [CHR 0x5C, CHR 0x5C]
      else if c = CHR 0x0A then [CHR 0x5C, CHR ''n'']
      else if c = CHR 0x0D then [CHR 0x5C, CHR ''r'']
      else if c = CHR 0x09 then [CHR 0x5C, CHR ''t'']
      else if c = CHR 0x0C then [CHR 0x5C, CHR ''f'']
      else if c = CHR 0x08 then [CHR 0x5C, CHR ''b'']
      else if (of_char c :: nat) < 32
        then [CHR 0x5C, CHR ''u'', CHR ''0'', CHR ''0'',
              hex_digit ((of_char c :: nat) div 16), hex_digit (of_char c)]
      else [c])"

definition json_string :: "string \<Rightarrow> string" where
  "json_string s = [CHR 0x22] @ concat (map json_escape_char s) @ [CHR 0x22]"

fun join :: "string \<Rightarrow> string list \<Rightarrow> string" where
  "join sep [] = []"
| "join sep [x] = x"
| "join sep (x # y # xs) = x @ sep @ join sep (y # xs)"

function json_dumps :: "json \<Rightarrow> string" where
  "json_dumps JNull = ''null''"
| "json_dumps (JBool b) = (if b then ''true'' else ''false'')"
| "json_dumps (JInt i) = str_int i"
| "json_dumps (JFloat r) = r"
| "json_dumps (JStr s) = json_string s"
| "json_dumps (JArr xs) = ''['' @ join '','' (map json_dumps xs) @ '']''"
| "json_dumps (JObj kvs) =
     ''{'' @ join '','' (map (\<lambda>kv. json_string (fst kv) @ '':'' @ json_dumps (snd kv))
                          (sort_key fst kvs)) @ ''}''"
  by pat_completeness auto
termination
proof (relation "measure size")
  fix kvs :: jobj and kv
  assume "kv \<in> set (sort_key fst kvs)"
  then have "kv \<in> set kvs" by simp
  then have "size (snd kv) < Suc (size_list (size_prod (\<lambda>x. 0) size) kvs)"
  proof (induction kvs)
    case (Cons a kvs)
    then show ?case by (cases a) auto
  qed simp
  then show "(snd kv, JObj kvs) \<in> measure size" by simp
qed (auto simp: less_Suc_eq_le size_list_estimation')

function json_canon :: "json \<Rightarrow> json" where
  "json_canon JNull = JNull"
| "json_canon (JBool b) = JBool b"
| "json_canon (JInt i) = JInt i"
| "json_canon (JFloat r) = JFloat r"
| "json_canon (JStr s) = JStr s"
| "json_canon (JArr xs) = JArr (map json_canon xs)"
| "json_canon (JObj kvs) = JObj (map (\<lambda>kv. (fst kv, json_canon (snd kv))) (sort_key fst kvs))"
  by pat_completeness auto
termination
proof (relation "measure size")
  fix kvs :: jobj and kv
  assume "kv \<in> set (sort_key fst kvs)"
  then have "kv \<in> set kvs" by simp
  then have "size (snd kv) < Suc (size_list (size_prod (\<lambda>x. 0) size) kvs)"
  proof (induction kvs)
    case (Cons a kvs)
    then show ?case by (cases a) auto
  qed simp
  then show "(snd kv, JObj kvs) \<in> measure size" by simp
qed (auto simp: less_Suc_eq_le size_list_estimation')

text \<open>The value of a JSON object column after it is written and read back.\<close>

definition canon_obj :: "jobj \<Rightarrow> jobj" where
  "canon_obj d = map (\<lambda>kv. (fst kv, json_canon (snd kv))) (sort_key fst d)"

lemma sort_key_sorted_id: "sorted (map f xs) \<Longrightarrow> sort_key f xs = xs"
  by (induction xs) (auto simp: insort_is_Cons)

lemma sort_key_map_canon:
  "sort_key fst (map (\<lambda>kv. (fst kv, g (snd kv))) (sort_key fst kvs)) =
     map (\<lambda>kv. (fst kv, g (snd kv))) (sort_key fst (kvs :: jobj))"
  by (rule sort_key_sorted_id) (simp add: o_def)

lemma json_dumps_canon: "json_dumps (json_canon v) = json_dumps v"
proof (induction v rule: json_canon.induct)
  case (6 xs)
  then have "map json_dumps (map json_canon xs) = map json_dumps xs" by (simp cong: map_cong)
  then show ?case by (simp only: json_canon.simps json_dumps.simps)
next
  case (7 kvs)
  let ?field = "\<lambda>f kv. json_string (fst kv) @ '':'' @ json_dumps (f (snd kv))"
  have eq: "map (?field json_canon) (sort_key fst kvs) = map (?field (\<lambda>v. v)) (sort_key fst kvs)"
    using 7 by auto
  have "json_dumps (json_canon (JObj kvs)) =
      ''{'' @ join '','' (map (?field json_canon) (sort_key fst kvs)) @ ''}''"
    by (simp add: sort_key_map_canon o_def)
  then show ?case by (simp only: eq json_dumps.simps)
qed simp_all

section \<open>Canonical values keep lookups\<close>

lemma find_filter_hd: "find P xs = (case filter P xs of [] \<Rightarrow> None | x # _ \<Rightarrow> Some x)"
  by (induction xs) auto

lemma map_of_find: "map_of xs k = map_option snd (find (\<lambda>kv. fst kv = k) xs)"
  by (induction xs) auto

lemma map_of_sort_key: "map_of (sort_key fst d) k = map_of (d :: jobj) k"
proof -
  have "filter (\<lambda>kv. fst kv = k) (sort_key fst d) = filter (\<lambda>kv. fst kv = k) d"
    by (rule sort_key_stable)
  then show ?thesis by (simp add: map_of_find find_filter_hd)
qed

lemma map_of_canon [simp]: "map_of (canon_obj d) k = map_option json_canon (map_of d k)"
proof -
  have "map_of (map (\<lambda>kv. (fst kv, json_canon (snd kv))) xs) k = map_option json_canon (map_of xs k)" for xs :: jobj
    by (induction xs) auto
  then show ?thesis by (simp add: canon_obj_def map_of_sort_key)
qed

lemma json_canon_obj [simp]: "json_canon (JObj d) = JObj (canon_obj d)"
  by (simp add: canon_obj_def)

declare json_canon.simps(7) [simp del]

lemma json_canon_simple [simp]:
  "json_canon v = JNull \<longleftrightarrow> v = JNull" "json_canon v = JStr x \<longleftrightarrow> v = JStr x"
  "json_canon v = JInt i \<longleftrightarrow> v = JInt i" "json_canon v = JBool b \<longleftrightarrow> v = JBool b"
  by (cases v; simp)+

lemma jget_canon [simp]: "jget (canon_obj d) k = json_canon (jget d k)"
  by (simp add: jget_def split: option.splits)

lemma canon_keys [simp]: "set (map fst (canon_obj d)) = set (map fst d)"
  by (simp add: canon_obj_def image_image)

lemma has_key_canon [simp]: "has_key (canon_obj d) k = has_key d k"
  by (simp add: has_key_def)

lemma json_canon_idem [simp]: "json_canon (json_canon v) = json_canon v"
proof (induction v rule: json_canon.induct)
  case (7 kvs)
  have "map (\<lambda>kv. (fst kv, json_canon (json_canon (snd kv)))) (sort_key fst kvs)
      = map (\<lambda>kv. (fst kv, json_canon (snd kv))) (sort_key fst kvs)"
    using 7 by auto
  then show ?case by (simp add: canon_obj_def sort_key_map_canon o_def)
qed auto

lemma canon_obj_idem [simp]: "canon_obj (canon_obj d) = canon_obj d"
  using json_canon_idem [of "JObj d"] by simp

lemma json_dumps_canon_obj [simp]: "json_dumps (JObj (canon_obj d)) = json_dumps (JObj d)"
  using json_dumps_canon [of "JObj d"] by simp

declare json_dumps.simps [simp del]

end
