(* ===== verification/Digest.thy ===== *)
theory Digest
  imports Json "HOL-Library.Word"
begin

text \<open>
  The SHA-256 of Python's \<^verbatim>\<open>hashlib\<close> (FIPS 180-4) on byte strings, and the fingerprints the Runtime
  builds with it.  The message schedule and the compression loop are folds over 32-bit words; all
  additions wrap.
\<close>

unbundle bit_operations_syntax

type_synonym u32 = "32 word"

definition sha256_k :: "u32 list" where
  "sha256_k =
    [1116352408, 1899447441, 3049323471, 3921009573, 961987163, 1508970993, 2453635748,
     2870763221, 3624381080, 310598401, 607225278, 1426881987, 1925078388, 2162078206,
     2614888103, 3248222580, 3835390401, 4022224774, 264347078, 604807628, 770255983,
     1249150122, 1555081692, 1996064986, 2554220882, 2821834349, 2952996808, 3210313671,
     3336571891, 3584528711, 113926993, 338241895, 666307205, 773529912, 1294757372,
     1396182291, 1695183700, 1986661051, 2177026350, 2456956037, 2730485921, 2820302411,
     3259730800, 3345764771, 3516065817, 3600352804, 4094571909, 275423344, 430227734,
     506948616, 659060556, 883997877, 958139571, 1322822218, 1537002063, 1747873779,
     1955562222, 2024104815, 2227730452, 2361852424, 2428436474, 2756734187, 3204031479,
     3329325298]"

type_synonym hash_state = "u32 \<times> u32 \<times> u32 \<times> u32 \<times> u32 \<times> u32 \<times> u32 \<times> u32"

definition sha256_h0 :: hash_state where
  "sha256_h0 = (1779033703, 3144134277, 1013904242, 2773480762,
                1359893119, 2600822924, 528734635, 1541459225)"

definition rotr32 :: "nat \<Rightarrow> u32 \<Rightarrow> u32" where
  "rotr32 n x = drop_bit n x OR push_bit (32 - n) x"

definition sigma0 :: "u32 \<Rightarrow> u32" where
  "sigma0 x = rotr32 7 x XOR rotr32 18 x XOR drop_bit 3 x"

definition sigma1 :: "u32 \<Rightarrow> u32" where
  "sigma1 x = rotr32 17 x XOR rotr32 19 x XOR drop_bit 10 x"

definition big_sigma0 :: "u32 \<Rightarrow> u32" where
  "big_sigma0 x = rotr32 2 x XOR rotr32 13 x XOR rotr32 22 x"

definition big_sigma1 :: "u32 \<Rightarrow> u32" where
  "big_sigma1 x = rotr32 6 x XOR rotr32 11 x XOR rotr32 25 x"

text \<open>The schedule is built backwards: the newest word is the head.\<close>

fun extend_schedule :: "nat \<Rightarrow> u32 list \<Rightarrow> u32 list" where
  "extend_schedule 0 ws = ws"
| "extend_schedule (Suc n) ws =
     extend_schedule n
       ((sigma1 (ws ! 1) + ws ! 6 + sigma0 (ws ! 14) + ws ! 15) # ws)"

definition schedule :: "u32 list \<Rightarrow> u32 list" where
  "schedule block = rev (extend_schedule 48 (rev block))"

fun sha256_round :: "hash_state \<Rightarrow> u32 \<times> u32 \<Rightarrow> hash_state" where
  "sha256_round (a, b, c, d, e, f, g, h) (k, w) =
     (let t1 = h + big_sigma1 e + ((e AND f) XOR (NOT e AND g)) + k + w;
          t2 = big_sigma0 a + ((a AND b) XOR (a AND c) XOR (b AND c))
      in (t1 + t2, a, b, c, d + t1, e, f, g))"

fun add_state :: "hash_state \<Rightarrow> hash_state \<Rightarrow> hash_state" where
  "add_state (a, b, c, d, e, f, g, h) (a', b', c', d', e', f', g', h') =
     (a + a', b + b', c + c', d + d', e + e', f + f', g + g', h + h')"

definition sha256_block :: "hash_state \<Rightarrow> u32 list \<Rightarrow> hash_state" where
  "sha256_block st block =
     add_state st (foldl sha256_round st (zip sha256_k (schedule block)))"

text \<open>Padding: \<open>0x80\<close>, zero bytes, and the length in bits as eight big-endian bytes.\<close>

definition length_bytes :: "int \<Rightarrow> u32 list" where
  "length_bytes n = map (\<lambda>i. of_int ((8 * n) div 256 ^ i mod 256)) [7, 6, 5, 4, 3, 2, 1, 0]"

definition sha256_pad :: "u32 list \<Rightarrow> u32 list" where
  "sha256_pad bs =
     (let n = int (length bs)
      in bs @ [128] @ replicate (nat ((119 - n mod 64) mod 64)) 0 @ length_bytes n)"

fun words_of_bytes :: "u32 list \<Rightarrow> u32 list" where
  "words_of_bytes (a # b # c # d # bs) =
     (push_bit 24 a OR push_bit 16 b OR push_bit 8 c OR d) # words_of_bytes bs"
| "words_of_bytes _ = []"

fun chunks16 :: "u32 list \<Rightarrow> u32 list list" where
  "chunks16 [] = []"
| "chunks16 (w # ws) = take 16 (w # ws) # chunks16 (drop 15 ws)"

definition hex_word :: "u32 \<Rightarrow> string" where
  "hex_word w = map (\<lambda>i. hex_digit (unat (drop_bit (4 * i) w AND 15))) [7, 6, 5, 4, 3, 2, 1, 0]"

fun hex_state :: "hash_state \<Rightarrow> string" where
  "hex_state (a, b, c, d, e, f, g, h) =
     hex_word a @ hex_word b @ hex_word c @ hex_word d @
     hex_word e @ hex_word f @ hex_word g @ hex_word h"

definition sha256_state :: "string \<Rightarrow> hash_state" where
  "sha256_state s =
     foldl sha256_block sha256_h0 (chunks16 (words_of_bytes (sha256_pad (map of_char s))))"

definition sha256_hexdigest :: "string \<Rightarrow> string" where
  "sha256_hexdigest s = hex_state (sha256_state s)"

text \<open>\<^verbatim>\<open>hmac.new(key, message, hashlib.sha256).hexdigest()\<close> (RFC 2104).\<close>

definition bytes_of_word :: "u32 \<Rightarrow> string" where
  "bytes_of_word w = map (\<lambda>i. char_of (unat (drop_bit i w AND 255))) [24, 16, 8, 0]"

fun sha256_digest_state :: "hash_state \<Rightarrow> string" where
  "sha256_digest_state (a, b, c, d, e, f, g, h) =
     concat (map bytes_of_word [a, b, c, d, e, f, g, h])"

definition sha256_digest :: "string \<Rightarrow> string" where
  "sha256_digest s = sha256_digest_state (sha256_state s)"

definition hmac_key_block :: "string \<Rightarrow> string" where
  "hmac_key_block key =
     (let k = (if length key > 64 then sha256_digest key else key)
      in k @ replicate (64 - length k) (CHR 0x00))"

definition xor_byte :: "u32 \<Rightarrow> char \<Rightarrow> char" where
  "xor_byte m c = char_of (unat (of_char c XOR m))"

definition hmac_sha256 :: "string \<Rightarrow> string \<Rightarrow> string" where
  "hmac_sha256 key message =
     (let k = hmac_key_block key
      in sha256_hexdigest (map (xor_byte 0x5C) k @ sha256_digest (map (xor_byte 0x36) k @ message)))"

text \<open>\<^verbatim>\<open>_fingerprint\<close> of \<^verbatim>\<open>jobs.py\<close> and \<^verbatim>\<open>interactions.py\<close>.\<close>

definition fingerprint :: "jobj \<Rightarrow> string" where
  "fingerprint d = sha256_hexdigest (json_dumps (JObj d))"

section \<open>Shape of a digest\<close>

lemma length_hex_state [simp]: "length (hex_state st) = 64"
  by (cases st rule: hex_state.cases) (simp add: hex_word_def)

lemma hex_digit_in: "hex_digit n \<in> set ''0123456789abcdef''"
proof -
  have "n mod 16 < length ''0123456789abcdef''" by simp
  then show ?thesis unfolding hex_digit_def by (rule nth_mem)
qed

lemma set_hex_word: "set (hex_word w) \<subseteq> set ''0123456789abcdef''"
  unfolding hex_word_def set_map using hex_digit_in by blast

lemma set_hex_state: "set (hex_state st) \<subseteq> set ''0123456789abcdef''"
  by (cases st rule: hex_state.cases) (simp only: hex_state.simps set_append Un_subset_iff set_hex_word simp_thms)

lemma length_sha256 [simp]: "length (sha256_hexdigest s) = 64"
  by (simp add: sha256_hexdigest_def)

lemma sha256_hex: "set (sha256_hexdigest s) \<subseteq> set ''0123456789abcdef''"
  unfolding sha256_hexdigest_def by (rule set_hex_state)

lemma sha256_nonempty [simp]: "sha256_hexdigest s \<noteq> []"
  using length_sha256 [of s] by (metis length_0_conv zero_neq_numeral)

end
