(* ===== verification/Protocol.thy ===== *)
theory Protocol
  imports Json
begin

text \<open>
  The lifecycle enumerations of \<^verbatim>\<open>ecorex/protocol/models.py\<close>, their stored text, their terminal
  sets and the transition tables \<^verbatim>\<open>TURN_TRANSITIONS\<close>, \<^verbatim>\<open>ITEM_TRANSITIONS\<close> and \<^verbatim>\<open>JOB_TRANSITIONS\<close>.
  The locale \<open>lifecycle\<close> states what the runtime relies on in each of the three tables (a status
  has no successor exactly when it is terminal, and every other status can be cancelled), proves
  its consequences once, and is interpreted on all three.
\<close>

section \<open>Enumerations and tables\<close>

datatype thread_status =
    ThreadActive
  | ThreadArchived
  | ThreadDeleted

fun thread_status_text :: "thread_status \<Rightarrow> string" where
  "thread_status_text ThreadActive = ''active''"
| "thread_status_text ThreadArchived = ''archived''"
| "thread_status_text ThreadDeleted = ''deleted''"

datatype turn_status =
    TurnAccepted
  | TurnQueued
  | TurnPreparing
  | TurnModelRequested
  | TurnStreaming
  | TurnToolPending
  | TurnWaitingHuman
  | TurnToolRunning
  | TurnRetryWait
  | TurnFinalizing
  | TurnCompleted
  | TurnPartial
  | TurnFailed
  | TurnCancelled
  | TurnInterrupted
  | TurnSuperseded

fun turn_status_text :: "turn_status \<Rightarrow> string" where
  "turn_status_text TurnAccepted = ''accepted''"
| "turn_status_text TurnQueued = ''queued''"
| "turn_status_text TurnPreparing = ''preparing''"
| "turn_status_text TurnModelRequested = ''model_requested''"
| "turn_status_text TurnStreaming = ''streaming''"
| "turn_status_text TurnToolPending = ''tool_pending''"
| "turn_status_text TurnWaitingHuman = ''waiting_human''"
| "turn_status_text TurnToolRunning = ''tool_running''"
| "turn_status_text TurnRetryWait = ''retry_wait''"
| "turn_status_text TurnFinalizing = ''finalizing''"
| "turn_status_text TurnCompleted = ''completed''"
| "turn_status_text TurnPartial = ''partial''"
| "turn_status_text TurnFailed = ''failed''"
| "turn_status_text TurnCancelled = ''cancelled''"
| "turn_status_text TurnInterrupted = ''interrupted''"
| "turn_status_text TurnSuperseded = ''superseded''"

definition terminal_turn_statuses :: "turn_status list" where
  "terminal_turn_statuses =
     [TurnCompleted, TurnPartial, TurnFailed, TurnCancelled, TurnInterrupted, TurnSuperseded]"

fun turn_transitions :: "turn_status \<Rightarrow> turn_status list" where
  "turn_transitions TurnAccepted =
     [TurnQueued, TurnCancelled, TurnInterrupted]"
| "turn_transitions TurnQueued =
     [TurnPreparing, TurnCancelled, TurnInterrupted, TurnSuperseded]"
| "turn_transitions TurnPreparing =
     [TurnModelRequested, TurnToolPending, TurnWaitingHuman, TurnRetryWait, TurnPartial,
      TurnFailed, TurnCancelled, TurnInterrupted, TurnSuperseded]"
| "turn_transitions TurnModelRequested =
     [TurnStreaming, TurnToolPending, TurnWaitingHuman, TurnRetryWait, TurnPartial,
      TurnFailed, TurnCancelled, TurnInterrupted, TurnSuperseded]"
| "turn_transitions TurnStreaming =
     [TurnToolPending, TurnRetryWait, TurnFinalizing, TurnPartial, TurnFailed,
      TurnCancelled, TurnInterrupted, TurnSuperseded]"
| "turn_transitions TurnToolPending =
     [TurnWaitingHuman, TurnToolRunning, TurnRetryWait, TurnPartial, TurnFailed,
      TurnCancelled, TurnInterrupted, TurnSuperseded]"
| "turn_transitions TurnWaitingHuman =
     [TurnPreparing, TurnToolRunning, TurnFailed, TurnCancelled, TurnInterrupted,
      TurnSuperseded]"
| "turn_transitions TurnToolRunning =
     [TurnStreaming, TurnToolPending, TurnWaitingHuman, TurnRetryWait, TurnFinalizing,
      TurnPartial, TurnFailed, TurnCancelled, TurnInterrupted, TurnSuperseded]"
| "turn_transitions TurnRetryWait =
     [TurnPreparing, TurnModelRequested, TurnToolRunning, TurnPartial, TurnFailed,
      TurnCancelled, TurnInterrupted, TurnSuperseded]"
| "turn_transitions TurnFinalizing =
     [TurnCompleted, TurnPartial, TurnFailed, TurnCancelled, TurnInterrupted,
      TurnSuperseded]"
| "turn_transitions TurnCompleted = []"
| "turn_transitions TurnPartial = []"
| "turn_transitions TurnFailed = []"
| "turn_transitions TurnCancelled = []"
| "turn_transitions TurnInterrupted = []"
| "turn_transitions TurnSuperseded = []"

datatype item_kind =
    KindMessage
  | KindReasoning
  | KindToolCall
  | KindArtifact
  | KindInteraction
  | KindCheckpoint
  | KindTaskList

fun item_kind_text :: "item_kind \<Rightarrow> string" where
  "item_kind_text KindMessage = ''message''"
| "item_kind_text KindReasoning = ''reasoning''"
| "item_kind_text KindToolCall = ''tool_call''"
| "item_kind_text KindArtifact = ''artifact''"
| "item_kind_text KindInteraction = ''interaction''"
| "item_kind_text KindCheckpoint = ''checkpoint''"
| "item_kind_text KindTaskList = ''task_list''"

datatype reasoning_presentation =
    PresentationVisible
  | PresentationCollapsed
  | PresentationArchived

fun reasoning_presentation_text :: "reasoning_presentation \<Rightarrow> string" where
  "reasoning_presentation_text PresentationVisible = ''visible''"
| "reasoning_presentation_text PresentationCollapsed = ''collapsed''"
| "reasoning_presentation_text PresentationArchived = ''archived''"

datatype item_status =
    ItemCreated
  | ItemInProgress
  | ItemWaitingHuman
  | ItemCompleted
  | ItemFailed
  | ItemCancelled

fun item_status_text :: "item_status \<Rightarrow> string" where
  "item_status_text ItemCreated = ''created''"
| "item_status_text ItemInProgress = ''in_progress''"
| "item_status_text ItemWaitingHuman = ''waiting_human''"
| "item_status_text ItemCompleted = ''completed''"
| "item_status_text ItemFailed = ''failed''"
| "item_status_text ItemCancelled = ''cancelled''"

definition terminal_item_statuses :: "item_status list" where
  "terminal_item_statuses = [ItemCompleted, ItemFailed, ItemCancelled]"

fun item_transitions :: "item_status \<Rightarrow> item_status list" where
  "item_transitions ItemCreated =
     [ItemInProgress, ItemWaitingHuman, ItemCompleted, ItemFailed, ItemCancelled]"
| "item_transitions ItemInProgress =
     [ItemWaitingHuman, ItemCompleted, ItemFailed, ItemCancelled]"
| "item_transitions ItemWaitingHuman =
     [ItemInProgress, ItemCompleted, ItemFailed, ItemCancelled]"
| "item_transitions ItemCompleted = []"
| "item_transitions ItemFailed = []"
| "item_transitions ItemCancelled = []"

datatype job_status =
    JobQueued
  | JobLeased
  | JobRunning
  | JobWaitingHuman
  | JobRetryScheduled
  | JobCompleted
  | JobFailed
  | JobCancelled
  | JobDeadLetter

fun job_status_text :: "job_status \<Rightarrow> string" where
  "job_status_text JobQueued = ''queued''"
| "job_status_text JobLeased = ''leased''"
| "job_status_text JobRunning = ''running''"
| "job_status_text JobWaitingHuman = ''waiting_human''"
| "job_status_text JobRetryScheduled = ''retry_scheduled''"
| "job_status_text JobCompleted = ''completed''"
| "job_status_text JobFailed = ''failed''"
| "job_status_text JobCancelled = ''cancelled''"
| "job_status_text JobDeadLetter = ''dead_letter''"

definition terminal_job_statuses :: "job_status list" where
  "terminal_job_statuses = [JobCompleted, JobFailed, JobCancelled, JobDeadLetter]"

fun job_transitions :: "job_status \<Rightarrow> job_status list" where
  "job_transitions JobQueued =
     [JobLeased, JobCancelled, JobFailed]"
| "job_transitions JobLeased =
     [JobRunning, JobQueued, JobCancelled, JobFailed, JobDeadLetter]"
| "job_transitions JobRunning =
     [JobWaitingHuman, JobRetryScheduled, JobCompleted, JobFailed, JobCancelled,
      JobQueued, JobDeadLetter]"
| "job_transitions JobWaitingHuman =
     [JobQueued, JobCancelled, JobFailed]"
| "job_transitions JobRetryScheduled =
     [JobLeased, JobCancelled, JobFailed, JobDeadLetter]"
| "job_transitions JobCompleted = []"
| "job_transitions JobFailed = []"
| "job_transitions JobCancelled = []"
| "job_transitions JobDeadLetter = []"

datatype interaction_kind =
    AskPermissionApproval
  | AskInformation
  | AskConnectorLogin
  | AskConflictResolution
  | AskArtifactReview

fun interaction_kind_text :: "interaction_kind \<Rightarrow> string" where
  "interaction_kind_text AskPermissionApproval = ''permission_approval''"
| "interaction_kind_text AskInformation = ''information''"
| "interaction_kind_text AskConnectorLogin = ''connector_login''"
| "interaction_kind_text AskConflictResolution = ''conflict_resolution''"
| "interaction_kind_text AskArtifactReview = ''artifact_review''"

datatype interaction_status =
    InteractionPending
  | InteractionResolved
  | InteractionCancelled
  | InteractionExpired

fun interaction_status_text :: "interaction_status \<Rightarrow> string" where
  "interaction_status_text InteractionPending = ''pending''"
| "interaction_status_text InteractionResolved = ''resolved''"
| "interaction_status_text InteractionCancelled = ''cancelled''"
| "interaction_status_text InteractionExpired = ''expired''"

datatype field_control =
    ControlText
  | ControlTextarea
  | ControlSelect
  | ControlCheckbox

fun field_control_text :: "field_control \<Rightarrow> string" where
  "field_control_text ControlText = ''text''"
| "field_control_text ControlTextarea = ''textarea''"
| "field_control_text ControlSelect = ''select''"
| "field_control_text ControlCheckbox = ''checkbox''"

datatype action_type =
    ActionSubmit
  | ActionContinue
  | ActionCancel
  | ActionAllow
  | ActionDeny
  | ActionRetry
  | ActionSkip
  | ActionAccept
  | ActionRequestChanges
  | ActionConnectorBeginLogin
  | ActionConnectorCheckStatus

fun action_type_text :: "action_type \<Rightarrow> string" where
  "action_type_text ActionSubmit = ''submit''"
| "action_type_text ActionContinue = ''continue''"
| "action_type_text ActionCancel = ''cancel''"
| "action_type_text ActionAllow = ''allow''"
| "action_type_text ActionDeny = ''deny''"
| "action_type_text ActionRetry = ''retry''"
| "action_type_text ActionSkip = ''skip''"
| "action_type_text ActionAccept = ''accept''"
| "action_type_text ActionRequestChanges = ''request_changes''"
| "action_type_text ActionConnectorBeginLogin = ''connector_begin_login''"
| "action_type_text ActionConnectorCheckStatus = ''connector_check_status''"

abbreviation turn_terminal :: "turn_status \<Rightarrow> bool" where
  "turn_terminal t \<equiv> t \<in> set terminal_turn_statuses"

abbreviation item_terminal :: "item_status \<Rightarrow> bool" where
  "item_terminal t \<equiv> t \<in> set terminal_item_statuses"

abbreviation job_terminal :: "job_status \<Rightarrow> bool" where
  "job_terminal t \<equiv> t \<in> set terminal_job_statuses"

lemmas terminal_defs =
  terminal_turn_statuses_def terminal_item_statuses_def terminal_job_statuses_def

section \<open>Laws of a lifecycle\<close>

locale lifecycle =
  fixes next_of :: "'s \<Rightarrow> 's list" and terminal :: "'s list" and cancelled :: 's
  assumes terminal_iff: "s \<in> set terminal \<longleftrightarrow> next_of s = []"
    and cancellable: "s \<notin> set terminal \<Longrightarrow> cancelled \<in> set (next_of s)"
    and cancelled_terminal: "cancelled \<in> set terminal"
begin

definition steps :: "'s \<Rightarrow> 's \<Rightarrow> bool" where
  "steps = rtranclp (\<lambda>a b. b \<in> set (next_of a))"

lemma terminal_absorbing: "steps a b \<Longrightarrow> a \<in> set terminal \<Longrightarrow> b = a"
  unfolding steps_def by (induction rule: converse_rtranclp_induct) (auto simp: terminal_iff)

lemma settles: "\<exists>b \<in> set terminal. steps a b"
proof (cases "a \<in> set terminal")
  case False
  then show ?thesis
    unfolding steps_def using cancellable cancelled_terminal by blast
qed (auto simp: steps_def)

lemma no_way_back: "steps a b \<Longrightarrow> a \<in> set terminal \<Longrightarrow> b \<notin> set (next_of a)"
  using terminal_iff by auto

end

interpretation turn_life: lifecycle turn_transitions terminal_turn_statuses TurnCancelled
proof
  fix s :: turn_status
  show "turn_terminal s \<longleftrightarrow> turn_transitions s = []" by (cases s) (simp_all add: terminal_defs)
  show "\<not> turn_terminal s \<Longrightarrow> TurnCancelled \<in> set (turn_transitions s)"
    by (cases s) (simp_all add: terminal_defs)
qed (simp add: terminal_defs)

interpretation item_life: lifecycle item_transitions terminal_item_statuses ItemCancelled
proof
  fix s :: item_status
  show "item_terminal s \<longleftrightarrow> item_transitions s = []" by (cases s) (simp_all add: terminal_defs)
  show "\<not> item_terminal s \<Longrightarrow> ItemCancelled \<in> set (item_transitions s)"
    by (cases s) (simp_all add: terminal_defs)
qed (simp add: terminal_defs)

interpretation job_life: lifecycle job_transitions terminal_job_statuses JobCancelled
proof
  fix s :: job_status
  show "job_terminal s \<longleftrightarrow> job_transitions s = []" by (cases s) (simp_all add: terminal_defs)
  show "\<not> job_terminal s \<Longrightarrow> JobCancelled \<in> set (job_transitions s)"
    by (cases s) (simp_all add: terminal_defs)
qed (simp add: terminal_defs)

end
