(* ===== verification/PublicTools.thy ===== *)
theory PublicTools
  imports Digest Protocol
begin

text \<open>
  \<^verbatim>\<open>ecorex/runtime/public_tools.py\<close> and the contract \<^verbatim>\<open>PublicToolActivity\<close> of
  \<^verbatim>\<open>ecorex/protocol/models.py\<close>: the only body of a tool call that leaves the Runtime.  The field
  constraints and the model validator are \<open>activity_ok\<close>; \<open>validate_activity\<close> is
  \<^verbatim>\<open>PublicToolActivity.model_validate\<close> on JSON and \<open>dump_activity\<close> is \<^verbatim>\<open>model_dump(mode="json")\<close>.  The
  optional \<^verbatim>\<open>timing\<close> object needs pydantic's datetime parsing; it is the parameter \<open>vt\<close>, which
  returns the dumped form of a valid timing object.  A JSON float is finite, so every value has a
  canonical text and \<^verbatim>\<open>_digest\<close> does not raise.

  Shown: projections that bypass pydantic (\<^verbatim>\<open>model_copy\<close>) still produce valid activities, dumping
  and validating is the identity, the projection depends on raw arguments only through their
  digest and the reviewed artifact identities, and the event ingress check is idempotent.
\<close>

section \<open>Activities\<close>

record artifact_ref =
  ref_artifact_id :: string
  ref_revision_id :: "string option"

record activity =
  act_tool_call_id :: string
  act_tool_id :: string
  act_tool_name :: string
  act_display_label :: string
  act_phase :: string
  act_status :: string
  act_effects :: "string list"
  act_risk :: string
  act_argument_summary :: string
  act_result_summary :: "string option"
  act_argument_sha256 :: string
  act_result_sha256 :: "string option"
  act_artifact_refs :: "artifact_ref list"
  act_timing :: json

definition text_bounds :: "nat \<Rightarrow> nat \<Rightarrow> string \<Rightarrow> bool" where
  "text_bounds lo hi s = (lo \<le> py_len s \<and> py_len s \<le> hi)"

definition artifact_ref_ok :: "artifact_ref \<Rightarrow> bool" where
  "artifact_ref_ok r =
     (protocol_token 128 (ref_artifact_id r) \<and>
      pred_option (protocol_token 128) (ref_revision_id r))"

definition allowed_phases :: "string \<Rightarrow> string list" where
  "allowed_phases st =
     (if st = ''created'' then [''requested'']
      else if st = ''in_progress'' then [''requested'', ''running'']
      else if st = ''waiting_human'' then [''waiting_human'']
      else if st = ''completed'' then [''completed'']
      else if st = ''failed'' then [''failed'']
      else if st = ''cancelled'' then [''cancelled'']
      else [])"

definition activity_phases :: "string list" where
  "activity_phases = [''requested'', ''running'', ''waiting_human'', ''completed'', ''failed'', ''cancelled'']"

definition activity_statuses :: "string list" where
  "activity_statuses =
     [''created'', ''in_progress'', ''waiting_human'', ''completed'', ''failed'', ''cancelled'']"

definition activity_effects :: "string list" where
  "activity_effects = [''read'', ''write'', ''network'', ''execute'', ''ui_automation'', ''generate_media'']"

definition activity_ok :: "activity \<Rightarrow> bool" where
  "activity_ok a =
     (protocol_token 256 (act_tool_call_id a) \<and>
      protocol_token 256 (act_tool_id a) \<and>
      protocol_token 256 (act_tool_name a) \<and>
      text_bounds 1 80 (act_display_label a) \<and>
      act_phase a \<in> set activity_phases \<and>
      act_status a \<in> set activity_statuses \<and>
      list_all (\<lambda>e. e \<in> set activity_effects) (act_effects a) \<and>
      length (act_effects a) \<le> 6 \<and>
      act_risk a \<in> set [''low'', ''medium'', ''high''] \<and>
      text_bounds 1 160 (act_argument_summary a) \<and>
      pred_option (text_bounds 1 160) (act_result_summary a) \<and>
      is_sha256 (act_argument_sha256 a) \<and>
      pred_option is_sha256 (act_result_sha256 a) \<and>
      list_all artifact_ref_ok (act_artifact_refs a) \<and>
      length (act_artifact_refs a) \<le> 20 \<and>
      act_tool_name a = act_tool_id a \<and>
      act_effects a = sort (remdups (act_effects a)) \<and>
      act_phase a \<in> set (allowed_phases (act_status a)) \<and>
      distinct (map (\<lambda>r. (ref_artifact_id r, ref_revision_id r)) (act_artifact_refs a)))"

text \<open>Reading typed fields of a JSON object; a failed read is a validation error.\<close>

definition get_str :: "jobj \<Rightarrow> string \<Rightarrow> string option" where
  "get_str d k = (case map_of d k of Some (JStr s) \<Rightarrow> Some s | _ \<Rightarrow> None)"

definition get_opt_str :: "jobj \<Rightarrow> string \<Rightarrow> string option option" where
  "get_opt_str d k =
     (case map_of d k of None \<Rightarrow> Some None | Some JNull \<Rightarrow> Some None
      | Some (JStr s) \<Rightarrow> Some (Some s) | _ \<Rightarrow> None)"

fun json_list :: "(json \<Rightarrow> 'a option) \<Rightarrow> json list \<Rightarrow> 'a list option" where
  "json_list f [] = Some []"
| "json_list f (j # js) =
     (case f j of None \<Rightarrow> None
      | Some x \<Rightarrow> (case json_list f js of None \<Rightarrow> None | Some xs \<Rightarrow> Some (x # xs)))"

definition get_list :: "(json \<Rightarrow> 'a option) \<Rightarrow> jobj \<Rightarrow> string \<Rightarrow> 'a list option" where
  "get_list f d k =
     (case map_of d k of None \<Rightarrow> Some [] | Some (JArr js) \<Rightarrow> json_list f js | _ \<Rightarrow> None)"

definition json_str :: "json \<Rightarrow> string option" where
  "json_str j = (case j of JStr s \<Rightarrow> Some s | _ \<Rightarrow> None)"

definition parse_artifact_ref :: "json \<Rightarrow> artifact_ref option" where
  "parse_artifact_ref j =
     (case j of
        JObj d \<Rightarrow>
          (if \<not> list_all (\<lambda>k. k \<in> set [''artifact_id'', ''revision_id'']) (map fst d) then None
           else case (get_str d ''artifact_id'', get_opt_str d ''revision_id'') of
             (Some a, Some r) \<Rightarrow> Some \<lparr>ref_artifact_id = a, ref_revision_id = r\<rparr>
           | _ \<Rightarrow> None)
      | _ \<Rightarrow> None)"

definition activity_fields :: "string list" where
  "activity_fields =
     [''schema_version'', ''tool_call_id'', ''tool_id'', ''tool_name'', ''display_label'', ''phase'',
      ''status'', ''effects'', ''risk'', ''argument_summary'', ''result_summary'', ''argument_sha256'',
      ''result_sha256'', ''artifact_refs'', ''timing'']"

definition parse_timing :: "(json \<Rightarrow> json option) \<Rightarrow> json \<Rightarrow> json option" where
  "parse_timing vt j = (if j = JNull then Some JNull else vt j)"

definition obind :: "'a option \<Rightarrow> ('a \<Rightarrow> 'b option) \<Rightarrow> 'b option" where
  "obind x f = (case x of None \<Rightarrow> None | Some y \<Rightarrow> f y)"

definition parse_activity :: "(json \<Rightarrow> json option) \<Rightarrow> json \<Rightarrow> activity option" where
  "parse_activity vt j =
     (case j of
        JObj d \<Rightarrow>
          (if \<not> list_all (\<lambda>k. k \<in> set activity_fields) (map fst d)
              \<or> map_of d ''schema_version'' \<noteq> None \<and> map_of d ''schema_version'' \<noteq> Some (JInt 1)
           then None
           else
             obind (get_str d ''tool_call_id'') (\<lambda>call_id.
             obind (get_str d ''tool_id'') (\<lambda>tool_id.
             obind (get_str d ''tool_name'') (\<lambda>tool_name.
             obind (get_str d ''display_label'') (\<lambda>label.
             obind (get_str d ''phase'') (\<lambda>phase.
             obind (get_str d ''status'') (\<lambda>status.
             obind (get_list json_str d ''effects'') (\<lambda>effects.
             obind (get_str d ''risk'') (\<lambda>risk.
             obind (get_str d ''argument_summary'') (\<lambda>asum.
             obind (get_opt_str d ''result_summary'') (\<lambda>rsum.
             obind (get_str d ''argument_sha256'') (\<lambda>asha.
             obind (get_opt_str d ''result_sha256'') (\<lambda>rsha.
             obind (get_list parse_artifact_ref d ''artifact_refs'') (\<lambda>refs.
             obind (parse_timing vt (jget d ''timing'')) (\<lambda>timing.
             Some \<lparr>act_tool_call_id = call_id, act_tool_id = tool_id, act_tool_name = tool_name,
                   act_display_label = label, act_phase = phase, act_status = status,
                   act_effects = effects, act_risk = risk, act_argument_summary = asum,
                   act_result_summary = rsum, act_argument_sha256 = asha, act_result_sha256 = rsha,
                   act_artifact_refs = refs, act_timing = timing\<rparr>)))))))))))))))
      | _ \<Rightarrow> None)"

definition validate_activity :: "(json \<Rightarrow> json option) \<Rightarrow> json \<Rightarrow> activity option" where
  "validate_activity vt j =
     obind (parse_activity vt j) (\<lambda>a. if activity_ok a then Some a else None)"

definition dump_artifact_ref :: "artifact_ref \<Rightarrow> json" where
  "dump_artifact_ref r =
     JObj [(''artifact_id'', JStr (ref_artifact_id r)), (''revision_id'', jopt (ref_revision_id r))]"

definition dump_fields :: "activity \<Rightarrow> jobj" where
  "dump_fields a =
          [(''schema_version'', JInt 1),
           (''tool_call_id'', JStr (act_tool_call_id a)),
           (''tool_id'', JStr (act_tool_id a)),
           (''tool_name'', JStr (act_tool_name a)),
           (''display_label'', JStr (act_display_label a)),
           (''phase'', JStr (act_phase a)),
           (''status'', JStr (act_status a)),
           (''effects'', JArr (map JStr (act_effects a))),
           (''risk'', JStr (act_risk a)),
           (''argument_summary'', JStr (act_argument_summary a)),
           (''result_summary'', jopt (act_result_summary a)),
           (''argument_sha256'', JStr (act_argument_sha256 a)),
           (''result_sha256'', jopt (act_result_sha256 a)),
           (''artifact_refs'', JArr (map dump_artifact_ref (act_artifact_refs a))),
           (''timing'', act_timing a)]"

definition dump_activity :: "activity \<Rightarrow> json" where
  "dump_activity a = JObj (dump_fields a)"

section \<open>The reviewed Core policies\<close>

datatype artifact_mode = ModeNone | RootPair | NestedArtifact | ArtifactIds | ReferenceArtifactIds

record core_public_policy =
  pol_argument_summary :: string
  pol_result_summary :: string
  pol_argument_artifacts :: artifact_mode
  pol_result_artifacts :: artifact_mode

definition mk_policy :: "string \<Rightarrow> string \<Rightarrow> artifact_mode \<Rightarrow> artifact_mode \<Rightarrow> core_public_policy" where
  "mk_policy a r am rm =
     \<lparr>pol_argument_summary = a, pol_result_summary = r,
      pol_argument_artifacts = am, pol_result_artifacts = rm\<rparr>"

definition core_policies :: "(string \<times> core_public_policy) list" where
  "core_policies =
     [
      (''tool_search'', mk_policy
        (u8 [230, 173, 163, 229, 156, 168, 230, 159, 165, 230, 137, 190, 229, 143, 175, 231, 148,
         168, 232, 131, 189, 229, 138, 155])
        (u8 [229, 183, 178, 229, 174, 140, 230, 136, 144, 232, 131, 189, 229, 138, 155, 230, 159,
         165, 230, 137, 190])
        ModeNone ModeNone),
      (''tool_describe'', mk_policy
        (u8 [230, 173, 163, 229, 156, 168, 230, 159, 165, 231, 156, 139, 232, 131, 189, 229, 138,
         155, 232, 175, 180, 230, 152, 142])
        (u8 [229, 183, 178, 231, 161, 174, 232, 174, 164, 232, 131, 189, 229, 138, 155, 232, 175,
         180, 230, 152, 142])
        ModeNone ModeNone),
      (''task_list'', mk_policy
        (u8 [230, 173, 163, 229, 156, 168, 230, 155, 180, 230, 150, 176, 228, 187, 187, 229, 138,
         161, 230, 184, 133, 229, 141, 149])
        (u8 [229, 183, 178, 230, 155, 180, 230, 150, 176, 228, 187, 187, 229, 138, 161, 230, 184,
         133, 229, 141, 149])
        ModeNone ModeNone),
      (''skill_search'', mk_policy
        (u8 [230, 173, 163, 229, 156, 168, 230, 159, 165, 230, 137, 190, 229, 138, 158, 229, 133,
         172, 230, 138, 128, 232, 131, 189])
        (u8 [229, 183, 178, 229, 174, 140, 230, 136, 144, 230, 138, 128, 232, 131, 189, 230, 159,
         165, 230, 137, 190])
        ModeNone ModeNone),
      (''skill_read'', mk_policy
        (u8 [230, 173, 163, 229, 156, 168, 232, 175, 187, 229, 143, 150, 230, 138, 128, 232, 131,
         189, 232, 175, 180, 230, 152, 142])
        (u8 [229, 183, 178, 232, 175, 187, 229, 143, 150, 230, 138, 128, 232, 131, 189, 232, 175,
         180, 230, 152, 142])
        ModeNone ModeNone),
      (''skill_run'', mk_policy
        (u8 [230, 173, 163, 229, 156, 168, 232, 191, 144, 232, 161, 140, 230, 138, 128, 232, 131,
         189])
        (u8 [229, 183, 178, 229, 174, 140, 230, 136, 144, 230, 138, 128, 232, 131, 189, 232, 191,
         144, 232, 161, 140])
        ModeNone ModeNone),
      (''connector_search'', mk_policy
        (u8 [230, 173, 163, 229, 156, 168, 230, 159, 165, 230, 137, 190, 229, 143, 175, 231, 148,
         168, 232, 191, 158, 230, 142, 165, 229, 153, 168, 230, 147, 141, 228, 189, 156])
        (u8 [229, 183, 178, 229, 174, 140, 230, 136, 144, 232, 191, 158, 230, 142, 165, 229, 153,
         168, 230, 147, 141, 228, 189, 156, 230, 159, 165, 230, 137, 190])
        ModeNone ModeNone),
      (''connector_describe'', mk_policy
        (u8 [230, 173, 163, 229, 156, 168, 231, 161, 174, 232, 174, 164, 232, 191, 158, 230, 142,
         165, 229, 153, 168, 230, 147, 141, 228, 189, 156])
        (u8 [229, 183, 178, 231, 161, 174, 232, 174, 164, 232, 191, 158, 230, 142, 165, 229, 153,
         168, 230, 147, 141, 228, 189, 156])
        ModeNone ModeNone),
      (''connector_read'', mk_policy
        (u8 [230, 173, 163, 229, 156, 168, 228, 187, 142, 229, 183, 178, 232, 191, 158, 230, 142,
         165, 231, 154, 132, 229, 186, 148, 231, 148, 168, 232, 175, 187, 229, 143, 150,
         228, 191, 161, 230, 129, 175])
        (u8 [229, 183, 178, 229, 174, 140, 230, 136, 144, 232, 191, 158, 230, 142, 165, 229, 153,
         168, 232, 175, 187, 229, 143, 150])
        ModeNone NestedArtifact),
      (''connector_write'', mk_policy
        (u8 [230, 173, 163, 229, 156, 168, 229, 144, 145, 229, 183, 178, 232, 191, 158, 230, 142,
         165, 231, 154, 132, 229, 186, 148, 231, 148, 168, 230, 143, 144, 228, 186, 164,
         230, 147, 141, 228, 189, 156])
        (u8 [229, 183, 178, 229, 174, 140, 230, 136, 144, 232, 191, 158, 230, 142, 165, 229, 153,
         168, 230, 147, 141, 228, 189, 156])
        ModeNone NestedArtifact),
      (''artifact_read'', mk_policy
        (u8 [230, 173, 163, 229, 156, 168, 232, 175, 187, 229, 143, 150, 229, 138, 158, 229, 133,
         172, 228, 186, 167, 231, 137, 169])
        (u8 [229, 183, 178, 232, 175, 187, 229, 143, 150, 229, 138, 158, 229, 133, 172, 228, 186,
         167, 231, 137, 169])
        RootPair RootPair),
      (''input_attachment_read'', mk_policy
        (u8 [230, 173, 163, 229, 156, 168, 232, 175, 187, 229, 143, 150, 230, 156, 172, 230, 157,
         161, 230, 182, 136, 230, 129, 175, 231, 154, 132, 233, 153, 132, 228, 187, 182])
        (u8 [229, 183, 178, 232, 175, 187, 229, 143, 150, 230, 182, 136, 230, 129, 175, 233, 153,
         132, 228, 187, 182])
        ModeNone ModeNone),
      (''read'', mk_policy
        (u8 [230, 173, 163, 229, 156, 168, 232, 175, 187, 229, 143, 150, 229, 183, 165, 228, 189,
         156, 232, 181, 132, 230, 150, 153])
        (u8 [229, 183, 178, 232, 175, 187, 229, 143, 150, 229, 183, 165, 228, 189, 156, 232, 181,
         132, 230, 150, 153])
        ModeNone ModeNone),
      (''web_fetch'', mk_policy
        (u8 [230, 173, 163, 229, 156, 168, 230, 159, 165, 230, 137, 190, 229, 156, 168, 231, 186,
         191, 232, 181, 132, 230, 150, 153])
        (u8 [229, 183, 178, 232, 142, 183, 229, 143, 150, 229, 156, 168, 231, 186, 191, 232, 181,
         132, 230, 150, 153])
        ModeNone ModeNone),
      (''web_search'', mk_policy
        (u8 [230, 173, 163, 229, 156, 168, 230, 144, 156, 231, 180, 162, 228, 186, 146, 232, 129,
         148, 231, 189, 145])
        (u8 [229, 183, 178, 229, 174, 140, 230, 136, 144, 232, 129, 148, 231, 189, 145, 230, 144,
         156, 231, 180, 162])
        ModeNone ModeNone),
      (''vision'', mk_policy
        (u8 [230, 173, 163, 229, 156, 168, 230, 159, 165, 231, 156, 139, 229, 155, 190, 231, 137,
         135, 229, 134, 133, 229, 174, 185])
        (u8 [229, 183, 178, 229, 174, 140, 230, 136, 144, 229, 155, 190, 231, 137, 135, 230, 163,
         128, 230, 159, 165])
        ArtifactIds ModeNone),
      (''ocr'', mk_policy
        (u8 [230, 173, 163, 229, 156, 168, 232, 175, 134, 229, 136, 171, 229, 155, 190, 231, 137,
         135, 230, 150, 135, 229, 173, 151])
        (u8 [229, 183, 178, 229, 174, 140, 230, 136, 144, 229, 155, 190, 231, 137, 135, 230, 150,
         135, 229, 173, 151, 232, 175, 134, 229, 136, 171])
        ModeNone ModeNone),
      (''browser'', mk_policy
        (u8 [230, 173, 163, 229, 156, 168, 230, 181, 143, 232, 167, 136, 231, 189, 145, 233, 161,
         181])
        (u8 [229, 183, 178, 229, 174, 140, 230, 136, 144, 231, 189, 145, 233, 161, 181, 230, 147,
         141, 228, 189, 156])
        ModeNone ModeNone),
      (''bash'', mk_policy
        (u8 [230, 173, 163, 229, 156, 168, 230, 137, 167, 232, 161, 140, 229, 145, 189, 228, 187,
         164])
        (u8 [229, 145, 189, 228, 187, 164, 230, 137, 167, 232, 161, 140, 229, 183, 178, 229, 174,
         140, 230, 136, 144])
        ModeNone ModeNone),
      (''send'', mk_policy
        (u8 [230, 173, 163, 229, 156, 168, 229, 143, 145, 233, 128, 129, 230, 150, 135, 228, 187,
         182])
        (u8 [230, 150, 135, 228, 187, 182, 229, 183, 178, 229, 143, 145, 233, 128, 129])
        ModeNone RootPair),
      (''imagegen'', mk_policy
        (u8 [230, 173, 163, 229, 156, 168, 231, 148, 159, 230, 136, 144, 230, 136, 150, 228, 191,
         174, 230, 148, 185, 229, 155, 190, 231, 137, 135])
        (u8 [229, 155, 190, 231, 137, 135, 229, 183, 178, 231, 148, 159, 230, 136, 144, 229, 185,
         182, 228, 191, 157, 229, 173, 152])
        ReferenceArtifactIds RootPair)
     ]"

definition txt_use_app :: string where
  "txt_use_app =
     u8 [228, 189, 191, 231, 148, 168, 229, 183, 178, 232, 191, 158, 230, 142, 165, 231, 154, 132,
     229, 186, 148, 231, 148, 168]"

definition txt_using_app :: string where
  "txt_using_app =
     u8 [230, 173, 163, 229, 156, 168, 228, 189, 191, 231, 148, 168, 229, 183, 178, 232, 191, 158,
     230, 142, 165, 231, 154, 132, 229, 186, 148, 231, 148, 168]"

definition txt_skipped :: string where
  "txt_skipped =
     u8 [229, 183, 178, 232, 183, 179, 232, 191, 135, 230, 173, 164, 230, 147, 141, 228, 189, 156]"

definition txt_app_done :: string where
  "txt_app_done =
     u8 [229, 183, 178, 229, 174, 140, 230, 136, 144, 229, 186, 148, 231, 148, 168, 230, 147, 141,
     228, 189, 156]"

definition txt_wait_confirm :: string where
  "txt_wait_confirm =
     u8 [231, 173, 137, 229, 190, 133, 228, 189, 160, 231, 161, 174, 232, 174, 164, 229, 144, 142,
     231, 187, 167, 231, 187, 173]"

definition txt_step_done :: string where
  "txt_step_done =
     u8 [230, 173, 164, 230, 173, 165, 233, 170, 164, 229, 183, 178, 229, 174, 140, 230, 136, 144]"

definition txt_step_failed :: string where
  "txt_step_failed =
     u8 [230, 173, 164, 230, 173, 165, 233, 170, 164, 230, 156, 170, 229, 174, 140, 230, 136, 144]"

definition txt_step_cancelled :: string where
  "txt_step_cancelled =
     u8 [230, 173, 164, 230, 173, 165, 233, 170, 164, 229, 183, 178, 229, 143, 150, 230, 182, 136]"

definition txt_connector_write :: string where
  "txt_connector_write =
     u8 [230, 137, 167, 232, 161, 140, 232, 191, 158, 230, 142, 165, 229, 153, 168, 229, 134, 153,
     229, 133, 165, 230, 147, 141, 228, 189, 156]"

definition txt_connector_read :: string where
  "txt_connector_read =
     u8 [230, 137, 167, 232, 161, 140, 232, 191, 158, 230, 142, 165, 229, 153, 168, 229, 143, 170,
     232, 175, 187, 230, 147, 141, 228, 189, 156]"

definition txt_submit_app :: string where
  "txt_submit_app =
     u8 [230, 173, 163, 229, 156, 168, 229, 144, 145, 229, 183, 178, 232, 191, 158, 230, 142, 165,
     231, 154, 132, 229, 186, 148, 231, 148, 168, 230, 143, 144, 228, 186, 164, 230, 147,
     141, 228, 189, 156]"

definition txt_read_app :: string where
  "txt_read_app =
     u8 [230, 173, 163, 229, 156, 168, 228, 187, 142, 229, 183, 178, 232, 191, 158, 230, 142, 165,
     231, 154, 132, 229, 186, 148, 231, 148, 168, 232, 175, 187, 229, 143, 150, 228, 191,
     161, 230, 129, 175]"

definition txt_connector_recovered :: string where
  "txt_connector_recovered =
     u8 [232, 191, 158, 230, 142, 165, 229, 153, 168, 231, 187, 147, 230, 158, 156, 229, 183, 178,
     230, 129, 162, 229, 164, 141, 229, 185, 182, 229, 143, 175, 231, 187, 167, 231, 187,
     173, 228, 189, 191, 231, 148, 168]"

section \<open>The projector\<close>

datatype capability_effect = EffectRead | EffectWrite | EffectNetwork | EffectExecute
  | EffectUiAutomation | EffectGenerateMedia

fun effect_text :: "capability_effect \<Rightarrow> string" where
  "effect_text EffectRead = ''read''"
| "effect_text EffectWrite = ''write''"
| "effect_text EffectNetwork = ''network''"
| "effect_text EffectExecute = ''execute''"
| "effect_text EffectUiAutomation = ''ui_automation''"
| "effect_text EffectGenerateMedia = ''generate_media''"

datatype sandbox_level = SandboxReadOnly | SandboxWorkspaceWrite | SandboxDangerFullAccess

datatype tool_provider_kind = ProviderCore | ProviderMcp

text \<open>The fields of \<^verbatim>\<open>ToolSpec\<close> the projector reads.\<close>

record tool_spec =
  spec_tool_id :: string
  spec_display_name :: string
  spec_effects :: "capability_effect list"
  spec_required_sandbox :: sandbox_level
  spec_provider_kind :: tool_provider_kind

definition tool_digest :: "json \<Rightarrow> string" where
  "tool_digest v = sha256_hexdigest (json_dumps v)"

definition risk :: "tool_spec \<Rightarrow> string" where
  "risk spec =
     (if spec_required_sandbox spec = SandboxDangerFullAccess
         \<or> list_ex (\<lambda>e. e \<in> set (spec_effects spec)) [EffectWrite, EffectExecute, EffectUiAutomation]
      then ''high''
      else if list_ex (\<lambda>e. e \<in> set (spec_effects spec)) [EffectNetwork, EffectGenerateMedia]
      then ''medium''
      else ''low'')"

definition artifact_ref_of :: "json \<Rightarrow> artifact_ref option" where
  "artifact_ref_of value =
     (case value of
        JObj d \<Rightarrow>
          (case (jget d ''artifact_id'', jget d ''revision_id'') of
             (JStr a, JNull) \<Rightarrow>
               if protocol_token 128 a then Some \<lparr>ref_artifact_id = a, ref_revision_id = None\<rparr> else None
           | (JStr a, JStr r) \<Rightarrow>
               if protocol_token 128 a \<and> protocol_token 128 r
               then Some \<lparr>ref_artifact_id = a, ref_revision_id = Some r\<rparr> else None
           | _ \<Rightarrow> None)
      | _ \<Rightarrow> None)"

definition artifact_id_refs :: "json list \<Rightarrow> artifact_ref list" where
  "artifact_id_refs raw =
     concat (map (\<lambda>j. case j of
        JStr a \<Rightarrow> if protocol_token 128 a then [\<lparr>ref_artifact_id = a, ref_revision_id = None\<rparr>] else []
      | _ \<Rightarrow> []) (take 20 raw))"

definition artifact_refs :: "json \<Rightarrow> artifact_mode \<Rightarrow> artifact_ref list" where
  "artifact_refs value mode =
     (case value of
        JObj d \<Rightarrow>
          (case mode of
             ModeNone \<Rightarrow> []
           | RootPair \<Rightarrow> (case artifact_ref_of value of None \<Rightarrow> [] | Some r \<Rightarrow> [r])
           | NestedArtifact \<Rightarrow>
               (case artifact_ref_of (jget d ''artifact'') of None \<Rightarrow> [] | Some r \<Rightarrow> [r])
           | ArtifactIds \<Rightarrow>
               (case jget d ''artifact_ids'' of JArr raw \<Rightarrow> artifact_id_refs raw | _ \<Rightarrow> [])
           | ReferenceArtifactIds \<Rightarrow>
               (case jget d ''reference_artifact_ids'' of JArr raw \<Rightarrow> artifact_id_refs raw | _ \<Rightarrow> []))
      | _ \<Rightarrow> [])"

text \<open>The loop of \<^verbatim>\<open>_merge_refs\<close>: \<open>result\<close> also plays the part of \<^verbatim>\<open>seen\<close>, since a reference is its
  identity.\<close>

fun merge_loop :: "artifact_ref list \<Rightarrow> artifact_ref list \<Rightarrow> artifact_ref list" where
  "merge_loop result [] = result"
| "merge_loop result (r # rs) =
     (if r \<in> set result then merge_loop result rs
      else if length result + 1 = 20 then result @ [r]
      else merge_loop (result @ [r]) rs)"

definition merge_refs :: "artifact_ref list list \<Rightarrow> artifact_ref list" where
  "merge_refs groups = merge_loop [] (concat groups)"

definition policy_of :: "tool_spec \<Rightarrow> core_public_policy option" where
  "policy_of spec =
     (if spec_provider_kind spec \<noteq> ProviderCore then None
      else map_of core_policies (spec_tool_id spec))"

text \<open>Constructing a pydantic model validates it and raises a \<^verbatim>\<open>ValueError\<close>.\<close>

definition construct_activity :: "activity \<Rightarrow> err + activity" where
  "construct_activity a =
     (if activity_ok a then Inr a else Inl (ValueError ''PublicToolActivity validation failed''))"

definition requested :: "tool_spec \<Rightarrow> string \<Rightarrow> json \<Rightarrow> err + activity" where
  "requested spec tool_call_id arguments =
     (let policy = policy_of spec
      in construct_activity
        \<lparr>act_tool_call_id = tool_call_id,
         act_tool_id = spec_tool_id spec,
         act_tool_name = spec_tool_id spec,
         act_display_label = (case policy of Some _ \<Rightarrow> spec_display_name spec | None \<Rightarrow> txt_use_app),
         act_phase = ''requested'',
         act_status = ''in_progress'',
         act_effects = sort (remdups (map effect_text (spec_effects spec))),
         act_risk = risk spec,
         act_argument_summary =
           (case policy of Some p \<Rightarrow> pol_argument_summary p | None \<Rightarrow> txt_using_app),
         act_result_summary = None,
         act_argument_sha256 = tool_digest arguments,
         act_result_sha256 = None,
         act_artifact_refs =
           (case policy of None \<Rightarrow> [] | Some p \<Rightarrow> artifact_refs arguments (pol_argument_artifacts p)),
         act_timing = JNull\<rparr>)"

text \<open>\<^verbatim>\<open>model_copy(update=...)\<close> replaces fields without validating the result.\<close>

definition completed :: "tool_spec \<Rightarrow> string \<Rightarrow> json \<Rightarrow> json \<Rightarrow> string \<Rightarrow> err + activity" where
  "completed spec tool_call_id arguments result execution_status =
     (case requested spec tool_call_id arguments of
        Inl e \<Rightarrow> Inl e
      | Inr a \<Rightarrow>
          (let policy = policy_of spec
           in Inr (a\<lparr>act_phase := ''completed'',
                     act_status := ''completed'',
                     act_result_summary :=
                       Some (if execution_status = ''skipped'' then txt_skipped
                             else case policy of Some p \<Rightarrow> pol_result_summary p | None \<Rightarrow> txt_app_done),
                     act_result_sha256 := Some (tool_digest result),
                     act_artifact_refs :=
                       merge_refs [act_artifact_refs a,
                         (case policy of None \<Rightarrow> [] | Some p \<Rightarrow> artifact_refs result (pol_result_artifacts p))]\<rparr>)))"

definition transition_state :: "activity \<Rightarrow> item_status \<Rightarrow> string \<times> string \<times> string option" where
  "transition_state a target =
     (case target of
        ItemCreated \<Rightarrow> (''requested'', ''created'', None)
      | ItemInProgress \<Rightarrow> (''running'', ''in_progress'', None)
      | ItemWaitingHuman \<Rightarrow> (''waiting_human'', ''waiting_human'', Some txt_wait_confirm)
      | ItemCompleted \<Rightarrow> (''completed'', ''completed'', or_else (act_result_summary a) (Some txt_step_done))
      | ItemFailed \<Rightarrow> (''failed'', ''failed'', Some txt_step_failed)
      | ItemCancelled \<Rightarrow> (''cancelled'', ''cancelled'', Some txt_step_cancelled))"

definition transition :: "activity \<Rightarrow> item_status \<Rightarrow> activity" where
  "transition a target =
     (case transition_state a target of
        (phase, status, summary) \<Rightarrow>
          a\<lparr>act_phase := phase, act_status := status, act_result_summary := summary\<rparr>)"

definition recovered_connector :: "string \<Rightarrow> string \<Rightarrow> string \<Rightarrow> json \<Rightarrow> err + activity" where
  "recovered_connector tool_call_id tool_id argument_sha256 result_envelope =
     (if \<not> is_sha256 argument_sha256
      then Inl (PublicToolProjectionError ''Recovered Connector argument digest is invalid'')
      else let is_write = (tool_id = ''connector_write'')
           in construct_activity
             \<lparr>act_tool_call_id = tool_call_id,
              act_tool_id = tool_id,
              act_tool_name = tool_id,
              act_display_label = (if is_write then txt_connector_write else txt_connector_read),
              act_phase = ''completed'',
              act_status = ''completed'',
              act_effects = (if is_write then [''network'', ''write''] else [''network'', ''read'']),
              act_risk = (if is_write then ''high'' else ''medium''),
              act_argument_summary = (if is_write then txt_submit_app else txt_read_app),
              act_result_summary = Some txt_connector_recovered,
              act_argument_sha256 = argument_sha256,
              act_result_sha256 = Some (tool_digest result_envelope),
              act_artifact_refs = artifact_refs result_envelope NestedArtifact,
              act_timing = JNull\<rparr>)"

section \<open>Event ingress\<close>

definition same_keys :: "jobj \<Rightarrow> string list \<Rightarrow> bool" where
  "same_keys d ks = (list_all (\<lambda>k. k \<in> set ks) (map fst d) \<and> list_all (has_key d) ks)"

definition validate_public_tool_event_payload ::
    "(json \<Rightarrow> json option) \<Rightarrow> string \<Rightarrow> jobj \<Rightarrow> string option \<Rightarrow> err + jobj" where
  "validate_public_tool_event_payload vt event_type payload tool_call_id =
     (if event_type = ''item.created'' then
        (if jget payload ''kind'' \<noteq> JStr ''tool_call'' then Inr payload
         else if \<not> same_keys payload [''kind'', ''status'', ''content'']
         then Inl (PublicToolProjectionError ''Tool Item creation requires an exact public payload'')
         else case validate_activity vt (jget payload ''content'') of
             None \<Rightarrow> Inl (PublicToolProjectionError ''Tool Item creation requires PublicToolActivity'')
           | Some a \<Rightarrow>
               if jget payload ''status'' \<noteq> JStr (act_status a)
               then Inl (PublicToolProjectionError ''Tool Item status differs from its public activity'')
               else Inr [(''kind'', JStr ''tool_call''), (''status'', jget payload ''status''),
                         (''content'', dump_activity a)])
      else if event_type \<noteq> ''tool.call_requested'' \<and> event_type \<noteq> ''tool.result'' then Inr payload
      else if \<not> same_keys payload [''activity'']
      then Inl (PublicToolProjectionError ''Tool Event requires an exact PublicToolActivity payload'')
      else case validate_activity vt (jget payload ''activity'') of
          None \<Rightarrow> Inl (PublicToolProjectionError ''Tool Event PublicToolActivity is invalid'')
        | Some a \<Rightarrow>
            if act_phase a \<notin>
               set (if event_type = ''tool.call_requested'' then [''requested'', ''running'']
                    else [''completed'', ''failed'', ''cancelled''])
            then Inl (PublicToolProjectionError ''Tool Event PublicToolActivity phase is invalid'')
            else if tool_call_id \<noteq> Some (act_tool_call_id a)
            then Inl (PublicToolProjectionError ''Tool Event envelope identity differs from its public activity'')
            else Inr [(''activity'', dump_activity a)])"

section \<open>Validity of projections\<close>

lemmas txt_defs =
  txt_use_app_def txt_using_app_def txt_skipped_def txt_app_done_def txt_wait_confirm_def
  txt_step_done_def txt_step_failed_def txt_step_cancelled_def txt_connector_write_def
  txt_connector_read_def txt_submit_app_def txt_read_app_def txt_connector_recovered_def

lemma txt_bounds [simp]:
  "text_bounds (Suc 0) 160 txt_skipped" "text_bounds (Suc 0) 160 txt_app_done"
  "text_bounds (Suc 0) 160 txt_wait_confirm" "text_bounds (Suc 0) 160 txt_step_done"
  "text_bounds (Suc 0) 160 txt_step_failed" "text_bounds (Suc 0) 160 txt_step_cancelled"
  unfolding text_bounds_def txt_defs py_len_u8 by simp_all

lemma u8_bounds:
  "text_bounds lo hi (u8 bs) =
     (let n = length (filter (\<lambda>b. b mod 256 < 128 \<or> 192 \<le> b mod 256) bs) in lo \<le> n \<and> n \<le> hi)"
  by (simp add: text_bounds_def Let_def)

lemma policy_bounds:
  "(t, p) \<in> set core_policies \<Longrightarrow> text_bounds (Suc 0) 160 (pol_result_summary p)"
proof -
  have "list_all (\<lambda>(t, p). text_bounds (Suc 0) 160 (pol_result_summary p)) core_policies"
    unfolding core_policies_def mk_policy_def list.pred_inject prod.case
      core_public_policy.select_convs u8_bounds
    by simp
  then show "(t, p) \<in> set core_policies \<Longrightarrow> text_bounds (Suc 0) 160 (pol_result_summary p)"
    by (auto simp: list_all_iff)
qed

lemma is_sha256_digest [simp]: "is_sha256 (tool_digest v)"
  unfolding tool_digest_def is_sha256_def list_all_iff length_sha256
  using sha256_hex [of "json_dumps v"] by blast

lemma artifact_ref_of_ok: "artifact_ref_of v = Some r \<Longrightarrow> artifact_ref_ok r"
proof (cases v)
  case (JObj d)
  assume "artifact_ref_of v = Some r"
  then show ?thesis unfolding artifact_ref_of_def artifact_ref_ok_def JObj
    by (cases "jget d ''artifact_id''"; cases "jget d ''revision_id''"; simp split: if_splits) auto
qed (simp_all add: artifact_ref_of_def)

lemma artifact_id_refs_ok: "r \<in> set (artifact_id_refs raw) \<Longrightarrow> artifact_ref_ok r"
  by (auto simp: artifact_id_refs_def artifact_ref_ok_def split: json.splits if_splits)

lemma artifact_refs_ok: "r \<in> set (artifact_refs v mode) \<Longrightarrow> artifact_ref_ok r"
proof (cases v)
  case (JObj d)
  assume "r \<in> set (artifact_refs v mode)"
  then show ?thesis unfolding artifact_refs_def JObj
    by (cases mode)
       (auto split: option.splits json.splits dest: artifact_ref_of_ok [OF sym] artifact_id_refs_ok)
qed (simp_all add: artifact_refs_def)

lemma merge_loop_props:
  "distinct result \<Longrightarrow> length result < 20 \<Longrightarrow>
     distinct (merge_loop result rs) \<and> length (merge_loop result rs) \<le> 20 \<and>
     set (merge_loop result rs) \<subseteq> set result \<union> set rs"
  by (induction result rs rule: merge_loop.induct) (auto simp: less_eq_Suc_le)

lemma merge_refs_props:
  "distinct (merge_refs gs)" "length (merge_refs gs) \<le> 20" "set (merge_refs gs) \<subseteq> \<Union> (set ` set gs)"
  using merge_loop_props [of "[]" "concat gs"] by (auto simp: merge_refs_def)

lemma identity_inj: "inj_on (\<lambda>r. (ref_artifact_id r, ref_revision_id r)) (A :: artifact_ref set)"
  by (rule inj_onI) simp

lemma requested_ok: "requested spec c args = Inr a \<Longrightarrow> activity_ok a"
  by (auto simp: requested_def construct_activity_def Let_def split: if_splits)

lemma merge_refs_ok:
  "list_all artifact_ref_ok xs \<Longrightarrow> list_all artifact_ref_ok ys \<Longrightarrow>
   list_all artifact_ref_ok (merge_refs [xs, ys])"
  using merge_refs_props(3) [of "[xs, ys]"] by (auto simp: list_all_iff)

text \<open>
  A completed projection is a valid \<^verbatim>\<open>PublicToolActivity\<close> for every specification, argument and
  result, although it is built by \<^verbatim>\<open>model_copy\<close>, which does not validate: the summaries stay within
  their bounds, the digests are digests, and the merged artifact references are valid, distinct
  and at most twenty.
\<close>

theorem completed_is_valid:
  assumes "completed spec tool_call_id arguments result execution_status = Inr a"
  shows "activity_ok a"
proof -
  obtain b where b: "requested spec tool_call_id arguments = Inr b"
    using assms by (auto simp: completed_def split: sum.splits)
  obtain summary refs where a: "a = b\<lparr>act_phase := ''completed'', act_status := ''completed'',
      act_result_summary := Some summary, act_result_sha256 := Some (tool_digest result),
      act_artifact_refs := merge_refs [act_artifact_refs b, refs]\<rparr>"
    and summary: "text_bounds (Suc 0) 160 summary" and refs: "list_all artifact_ref_ok refs"
  proof (cases "policy_of spec")
    case None
    then show ?thesis
      by (intro that [of "[]" "if execution_status = ''skipped'' then txt_skipped else txt_app_done"])
         (use assms None in \<open>auto simp: completed_def b\<close>)
  next
    case (Some p)
    then have "text_bounds (Suc 0) 160 (pol_result_summary p)"
      by (auto simp: policy_of_def split: if_splits dest!: map_of_SomeD intro: policy_bounds)
    then show ?thesis
      by (intro that [of "artifact_refs result (pol_result_artifacts p)"
            "if execution_status = ''skipped'' then txt_skipped else pol_result_summary p"])
         (use assms Some in \<open>auto simp: completed_def b list_all_iff artifact_refs_ok\<close>)
  qed
  show ?thesis
    unfolding a using requested_ok [OF b] summary merge_refs_ok [OF _ refs]
    by (simp add: activity_ok_def allowed_phases_def activity_phases_def activity_statuses_def
        distinct_map merge_refs_props identity_inj)
qed

text \<open>
  Moving an activity to the public state of any Item status keeps it valid.
\<close>

theorem transition_keeps_valid:
  assumes "activity_ok a"
  shows "activity_ok (transition a target)" 
proof -
  have "pred_option (text_bounds (Suc 0) 160) (or_else (act_result_summary a) (Some txt_step_done))"
    using assms by (auto simp: activity_ok_def or_else_def truthy_def)
  then show ?thesis using assms
    by (cases target) (simp_all add: transition_def transition_state_def activity_ok_def
        allowed_phases_def activity_phases_def activity_statuses_def)
qed

section \<open>Dump and validate\<close>

lemma json_list_map: "(\<And>x. x \<in> set xs \<Longrightarrow> f (g x) = Some x) \<Longrightarrow> json_list f (map g xs) = Some xs"
  by (induction xs) auto

lemma parse_dump_ref [simp]: "parse_artifact_ref (dump_artifact_ref r) = Some r"
  by (cases r; cases "ref_revision_id r")
     (simp_all add: parse_artifact_ref_def dump_artifact_ref_def get_str_def get_opt_str_def jopt_def)

lemma get_opt_jopt: "map_of d k = Some (jopt x) \<Longrightarrow> get_opt_str d k = Some x"
  by (cases x) (simp_all add: get_opt_str_def jopt_def)

lemma dump_lookup:
  "map_of (dump_fields a) ''schema_version'' = Some (JInt 1)"
  "map_of (dump_fields a) ''tool_call_id'' = Some (JStr (act_tool_call_id a))"
  "map_of (dump_fields a) ''tool_id'' = Some (JStr (act_tool_id a))"
  "map_of (dump_fields a) ''tool_name'' = Some (JStr (act_tool_name a))"
  "map_of (dump_fields a) ''display_label'' = Some (JStr (act_display_label a))"
  "map_of (dump_fields a) ''phase'' = Some (JStr (act_phase a))"
  "map_of (dump_fields a) ''status'' = Some (JStr (act_status a))"
  "map_of (dump_fields a) ''effects'' = Some (JArr (map JStr (act_effects a)))"
  "map_of (dump_fields a) ''risk'' = Some (JStr (act_risk a))"
  "map_of (dump_fields a) ''argument_summary'' = Some (JStr (act_argument_summary a))"
  "map_of (dump_fields a) ''result_summary'' = Some (jopt (act_result_summary a))"
  "map_of (dump_fields a) ''argument_sha256'' = Some (JStr (act_argument_sha256 a))"
  "map_of (dump_fields a) ''result_sha256'' = Some (jopt (act_result_sha256 a))"
  "map_of (dump_fields a) ''artifact_refs'' = Some (JArr (map dump_artifact_ref (act_artifact_refs a)))"
  "map_of (dump_fields a) ''timing'' = Some (act_timing a)"
  by (simp_all add: dump_fields_def)

lemma dump_keys: "list_all (\<lambda>k. k \<in> set activity_fields) (map fst (dump_fields a))"
proof -
  have "map fst (dump_fields a) = activity_fields" by (simp add: dump_fields_def activity_fields_def)
  then show ?thesis by (simp only: list_all_iff) blast
qed

lemma get_dump:
  "map_of d k = Some (JStr s) \<Longrightarrow> get_str d k = Some s"
  "map_of d k = Some (JArr (map JStr xs)) \<Longrightarrow> get_list json_str d k = Some xs"
  "map_of d k = Some (JArr (map dump_artifact_ref rs)) \<Longrightarrow> get_list parse_artifact_ref d k = Some rs"
  "map_of d k = Some j \<Longrightarrow> jget d k = j"
  by (simp_all add: get_str_def get_list_def json_list_map json_str_def jget_def)

lemma parse_dump:
  assumes "parse_timing vt (act_timing a) = Some (act_timing a)"
  shows "parse_activity vt (dump_activity a) = Some a"
  unfolding parse_activity_def dump_activity_def json.case get_dump(1) [OF dump_lookup(2)]
    get_dump(1) [OF dump_lookup(3)] get_dump(1) [OF dump_lookup(4)] get_dump(1) [OF dump_lookup(5)]
    get_dump(1) [OF dump_lookup(6)] get_dump(1) [OF dump_lookup(7)] get_dump(1) [OF dump_lookup(9)]
    get_dump(1) [OF dump_lookup(10)] get_dump(1) [OF dump_lookup(12)] get_dump(2) [OF dump_lookup(8)]
    get_dump(3) [OF dump_lookup(14)] get_opt_jopt [OF dump_lookup(11)] get_opt_jopt [OF dump_lookup(13)]
    get_dump(4) [OF dump_lookup(15)] assms
  by (simp add: dump_keys dump_lookup(1) obind_def)

text \<open>
  Dumping a valid activity and validating the result gives the activity back.  The hypothesis
  on \<open>vt\<close> is pydantic's: the dumped form of a timing object validates to itself.
\<close>

theorem validate_dump_roundtrip:
  assumes "activity_ok a" and "parse_timing vt (act_timing a) = Some (act_timing a)"
  shows "validate_activity vt (dump_activity a) = Some a"
  using assms by (simp add: validate_activity_def parse_dump obind_def)

lemma validate_timing:
  assumes vt: "\<And>j j'. vt j = Some j' \<Longrightarrow> parse_timing vt j' = Some j'"
    and "validate_activity vt j = Some a"
  shows "activity_ok a" "parse_timing vt (act_timing a) = Some (act_timing a)"
proof -
  from assms(2) obtain d where j: "j = JObj d" and a: "activity_ok a"
    and t: "parse_timing vt (jget d ''timing'') = Some (act_timing a)"
    by (auto simp: validate_activity_def obind_def parse_activity_def split: option.splits if_splits json.splits)
  show "activity_ok a" by (rule a)
  show "parse_timing vt (act_timing a) = Some (act_timing a)"
  proof (cases "jget d ''timing'' = JNull")
    case False
    then have "vt (jget d ''timing'') = Some (act_timing a)" using t by (simp add: parse_timing_def)
    then show ?thesis by (rule vt)
  qed (use t in \<open>simp add: parse_timing_def\<close>)
qed

lemma ingress_stable:
  assumes vt: "\<And>j j'. vt j = Some j' \<Longrightarrow> parse_timing vt j' = Some j'"
    and "validate_public_tool_event_payload vt event_type payload tool_call_id = Inr p"
  shows "validate_public_tool_event_payload vt event_type p tool_call_id = Inr p"
proof -
  have dump: "validate_activity vt (dump_activity a) = Some a" if "validate_activity vt j = Some a" for j a
    using validate_timing [OF vt that] by (simp add: validate_activity_def parse_dump obind_def)
  consider (item) a where "event_type = ''item.created''" "validate_activity vt (jget payload ''content'') = Some a"
      "jget payload ''status'' = JStr (act_status a)"
      "p = [(''kind'', JStr ''tool_call''), (''status'', jget payload ''status''), (''content'', dump_activity a)]"
    | (event) a where "event_type = ''tool.call_requested'' \<or> event_type = ''tool.result''"
      "validate_activity vt (jget payload ''activity'') = Some a" "tool_call_id = Some (act_tool_call_id a)"
      "act_phase a \<in> set (if event_type = ''tool.call_requested'' then [''requested'', ''running'']
                    else [''completed'', ''failed'', ''cancelled''])"
      "p = [(''activity'', dump_activity a)]"
    | (other) "p = payload"
    using assms(2) unfolding validate_public_tool_event_payload_def
    by (auto split: if_splits option.splits)
  then show ?thesis
  proof cases
    case (item a)
    then show ?thesis using dump [OF item(2)]
      by (simp add: validate_public_tool_event_payload_def same_keys_def jget_def has_key_def)
  next
    case (event a)
    then show ?thesis using dump [OF event(2)]
      by (auto simp: validate_public_tool_event_payload_def same_keys_def jget_def has_key_def)
  next
    case other
    then show ?thesis using assms(2) by simp
  qed
qed

text \<open>
  The Event ingress check is idempotent: what it lets into the store it lets out again
  unchanged, so reading a stored Event back never raises and never alters the payload.
\<close>

theorem ingress_idempotent:
  assumes vt: "\<And>j j'. vt j = Some j' \<Longrightarrow> parse_timing vt j' = Some j'"
    and "validate_public_tool_event_payload vt event_type payload tool_call_id = Inr p"
  shows "validate_public_tool_event_payload vt event_type p tool_call_id = Inr p"
  by (rule ingress_stable [OF vt assms(2)])

text \<open>
  A reviewed Core tool whose arguments name the same artifact twice makes the projector raise
  instead of projecting: \<^verbatim>\<open>_artifact_refs\<close> keeps duplicates, and the model validator refuses them.
  \<^verbatim>\<open>completed\<close> merges duplicates away, but it starts from \<^verbatim>\<open>requested\<close> and raises as well.
\<close>

theorem duplicate_references_raise:
  assumes "policy_of spec = Some p" and "\<not> distinct (artifact_refs arguments (pol_argument_artifacts p))"
  shows "requested spec tool_call_id arguments = Inl (ValueError ''PublicToolActivity validation failed'') \<and>
    completed spec tool_call_id arguments result execution_status =
      Inl (ValueError ''PublicToolActivity validation failed'')"
proof -
  have "requested spec tool_call_id arguments = Inl (ValueError ''PublicToolActivity validation failed'')"
    using assms
    by (simp add: requested_def Let_def construct_activity_def activity_ok_def distinct_map identity_inj)
  then show ?thesis by (simp add: completed_def)
qed

section \<open>Validation of canonical values\<close>

text \<open>What the store relies on in pydantic's timing parser: the order of the keys does not matter,
  and the dumped form of a timing object validates to itself and is not \<^verbatim>\<open>null\<close>.\<close>

definition timing_law :: "(json \<Rightarrow> json option) \<Rightarrow> bool" where
  "timing_law vt =
     ((\<forall>j. vt (json_canon j) = vt j) \<and> (\<forall>j j'. vt j = Some j' \<longrightarrow> vt j' = Some j' \<and> j' \<noteq> JNull))"

lemma get_canon [simp]:
  "get_str (canon_obj d) k = get_str d k" "get_opt_str (canon_obj d) k = get_opt_str d k"
  by (auto simp: get_str_def get_opt_str_def split: option.splits json.splits)

lemma json_list_canon: "(\<And>j. f (json_canon j) = f j) \<Longrightarrow> json_list f (map json_canon js) = json_list f js"
  by (induction js) (auto split: option.split)

lemma get_list_canon: "(\<And>j. f (json_canon j) = f j) \<Longrightarrow> get_list f (canon_obj d) k = get_list f d k"
  by (auto simp: get_list_def json_list_canon split: option.splits json.splits)

lemma json_str_canon [simp]: "json_str (json_canon j) = json_str j"
  by (cases j) (simp_all add: json_str_def)

lemma list_all_keys_canon: "list_all P (map fst (canon_obj d)) = list_all P (map fst d)"
  unfolding list_all_iff canon_keys ..

lemma parse_artifact_ref_canon [simp]: "parse_artifact_ref (json_canon j) = parse_artifact_ref j"
proof (cases j)
  case (JObj d)
  show ?thesis
    unfolding parse_artifact_ref_def JObj json_canon_obj json.case list_all_keys_canon get_canon by (rule refl)
qed (simp_all add: parse_artifact_ref_def)

lemma validate_activity_canon:
  assumes "timing_law vt"
  shows "validate_activity vt (json_canon j) = validate_activity vt j"
proof (cases j)
  case (JObj d)
  have "parse_timing vt (json_canon v) = parse_timing vt v" for v
    using assms by (simp add: parse_timing_def timing_law_def)
  moreover have "(map_of (canon_obj d) ''schema_version'' \<noteq> None \<and>
        map_of (canon_obj d) ''schema_version'' \<noteq> Some (JInt 1)) =
      (map_of d ''schema_version'' \<noteq> None \<and> map_of d ''schema_version'' \<noteq> Some (JInt 1))"
    by (cases "map_of d ''schema_version''") auto
  ultimately have "parse_activity vt (JObj (canon_obj d)) = parse_activity vt (JObj d)"
    unfolding parse_activity_def json.case list_all_keys_canon get_canon jget_canon
      get_list_canon [where f = json_str, OF json_str_canon]
      get_list_canon [where f = parse_artifact_ref, OF parse_artifact_ref_canon]
    by presburger
  then show ?thesis by (simp add: JObj validate_activity_def)
qed (simp_all add: validate_activity_def parse_activity_def)

text \<open>What was let in is let out again from its canonical form, with the same canonical form.\<close>

lemma ingress_canon:
  assumes law: "timing_law vt"
    and "validate_public_tool_event_payload vt event_type payload tool_call_id = Inr p"
  shows "\<exists>p'. validate_public_tool_event_payload vt event_type (canon_obj p) tool_call_id = Inr p' \<and>
    canon_obj p' = canon_obj p"
proof -
  have vt: "\<And>j j'. vt j = Some j' \<Longrightarrow> parse_timing vt j' = Some j'"
    using law by (auto simp: timing_law_def parse_timing_def)
  have "validate_public_tool_event_payload vt event_type p tool_call_id = Inr p"
    by (rule ingress_stable [OF vt assms(2)])
  then show ?thesis
    unfolding validate_public_tool_event_payload_def jget_canon same_keys_def list_all_keys_canon has_key_canon
      validate_activity_canon [OF law] json_canon_simple
    by (auto split: if_splits option.splits)
qed

section \<open>Witnesses\<close>

definition sample_spec :: tool_spec where
  "sample_spec = \<lparr>spec_tool_id = ''mcp.crm:lookup'', spec_display_name = ''Lookup'',
     spec_effects = [EffectRead, EffectNetwork], spec_required_sandbox = SandboxReadOnly,
     spec_provider_kind = ProviderMcp\<rparr>"

definition vision_spec :: tool_spec where
  "vision_spec = \<lparr>spec_tool_id = ''vision'', spec_display_name = ''Vision'',
     spec_effects = [EffectRead], spec_required_sandbox = SandboxReadOnly,
     spec_provider_kind = ProviderCore\<rparr>"

lemma effects_sorted: "sort (remdups [''read'', ''network'']) = [''network'', ''read'']"
  by (simp add: less_char_def)

lemma sample_requested: "\<exists>a. requested sample_spec ''call-1'' args = Inr a"
proof -
  have "text_bounds (Suc 0) 80 txt_use_app" "text_bounds (Suc 0) 160 txt_using_app"
    unfolding text_bounds_def txt_defs py_len_u8 by simp_all
  then show ?thesis
    by (simp add: requested_def Let_def policy_of_def sample_spec_def construct_activity_def activity_ok_def
        protocol_token_def ascii_alnum_def ascii_alpha_def effects_sorted activity_effects_def risk_def
        activity_phases_def activity_statuses_def allowed_phases_def less_char_def)
qed

theorem completed_is_valid_witness:
  "\<exists>a. completed sample_spec ''call-1'' JNull (JInt 3) ''completed'' = Inr a \<and> activity_ok a"
proof -
  obtain a where "completed sample_spec ''call-1'' JNull (JInt 3) ''completed'' = Inr a"
    using sample_requested [of JNull] by (auto simp: completed_def Let_def)
  then show ?thesis using completed_is_valid by blast
qed

theorem transition_keeps_valid_witness:
  "\<exists>a. requested sample_spec ''call-1'' JNull = Inr a \<and> activity_ok (transition a ItemFailed)"
  using sample_requested requested_ok transition_keeps_valid by blast

theorem validate_dump_roundtrip_witness:
  "\<exists>a. requested sample_spec ''call-1'' JNull = Inr a \<and>
       validate_activity (\<lambda>_. None) (dump_activity a) = Some a"
proof -
  obtain a where a: "requested sample_spec ''call-1'' JNull = Inr a" using sample_requested by blast
  then have "act_timing a = JNull"
    by (auto simp: requested_def Let_def construct_activity_def split: if_splits)
  then show ?thesis
    using a validate_dump_roundtrip [OF requested_ok [OF a], of "\<lambda>_. None"] by (simp add: parse_timing_def)
qed

theorem ingress_idempotent_witness:
  "validate_public_tool_event_payload (\<lambda>_. None) ''item.created'' [(''kind'', JStr ''message'')] None =
     Inr [(''kind'', JStr ''message'')]"
  by (rule ingress_idempotent [where payload = "[(''kind'', JStr ''message'')]"])
     (simp_all add: validate_public_tool_event_payload_def jget_def)

theorem duplicate_references_raise_witness:
  "requested vision_spec ''call-1''
     (JObj [(''artifact_ids'', JArr [JStr ''art'', JStr ''art'']), (''instruction'', JStr ''look'')]) =
     Inl (ValueError ''PublicToolActivity validation failed'')"
proof -
  obtain p where p: "policy_of vision_spec = Some p" "pol_argument_artifacts p = ArtifactIds"
    by (simp add: policy_of_def vision_spec_def core_policies_def mk_policy_def)
  then show ?thesis
    using duplicate_references_raise [OF p(1), of
        "JObj [(''artifact_ids'', JArr [JStr ''art'', JStr ''art'']), (''instruction'', JStr ''look'')]"]
    by (simp add: artifact_refs_def artifact_id_refs_def jget_def protocol_token_def ascii_alnum_def ascii_alpha_def)
qed

end
