(* ===== verification/Clock.thy ===== *)
theory Clock
  imports Prelude
begin

text \<open>
  The UTC text of an instant, as \<^verbatim>\<open>datetime.isoformat(timespec="microseconds")\<close> writes it:
  \<^verbatim>\<open>YYYY-MM-DDTHH:MM:SS.ffffff+00:00\<close>.  An instant is the number of microseconds since the epoch;
  the civil date is computed on the proleptic Gregorian calendar with eras of 400 years.  This
  text only occurs inside Event payloads and fingerprints; time columns keep the instant.
\<close>

definition civil_from_days :: "int \<Rightarrow> int \<times> int \<times> int" where
  "civil_from_days days =
     (let z = days + 719468;
          era = z div 146097;
          doe = z mod 146097;
          yoe = (doe - doe div 1460 + doe div 36524 - doe div 146096) div 365;
          doy = doe - (365 * yoe + yoe div 4 - yoe div 100);
          mp = (5 * doy + 2) div 153;
          d = doy - (153 * mp + 2) div 5 + 1;
          m = (if mp < 10 then mp + 3 else mp - 9);
          y = yoe + era * 400
      in (if m \<le> 2 then y + 1 else y, m, d))"

fun pad_digits :: "nat \<Rightarrow> int \<Rightarrow> string" where
  "pad_digits 0 n = []"
| "pad_digits (Suc w) n = pad_digits w (n div 10) @ [digit_char (nat (n mod 10))]"

definition iso_text :: "int \<Rightarrow> string" where
  "iso_text t =
     (case civil_from_days (t div 86400000000) of
        (y, m, d) \<Rightarrow>
          let us = t mod 86400000000
          in pad_digits 4 y @ ''-'' @ pad_digits 2 m @ ''-'' @ pad_digits 2 d @ ''T'' @
             pad_digits 2 (us div 3600000000) @ '':'' @
             pad_digits 2 (us div 60000000 mod 60) @ '':'' @
             pad_digits 2 (us div 1000000 mod 60) @ ''.'' @
             pad_digits 6 (us mod 1000000) @ ''+00:00'')"

lemma iso_text_epoch: "iso_text 0 = ''1970-01-01T00:00:00.000000+00:00''"
  by code_simp

lemma iso_text_leap_day: "iso_text 1709164800123456 = ''2024-02-29T00:00:00.123456+00:00''"
  by code_simp

text \<open>\<^verbatim>\<open>datetime.isoformat()\<close> leaves the fraction out when it is zero.\<close>

definition iso_auto :: "int \<Rightarrow> string" where
  "iso_auto t = (if t mod 1000000 = 0 then take 19 (iso_text t) @ ''+00:00'' else iso_text t)"

lemma iso_auto_epoch: "iso_auto 0 = ''1970-01-01T00:00:00+00:00''"
  by code_simp

text \<open>Seconds as microseconds, for \<^verbatim>\<open>timedelta(seconds=..)\<close>.\<close>

definition seconds :: "int \<Rightarrow> int" where
  "seconds n = n * 1000000"

end
