(* ===== verification/Store.thy ===== *)
theory Store
  imports PublicTools Clock
begin

text \<open>
  The tables of \<^verbatim>\<open>ecorex/runtime/database.py\<close> and \<^verbatim>\<open>schema_fragments/turn_execution.py\<close> as one record
  \<open>db\<close>: a table is the list of its rows in \<^verbatim>\<open>rowid\<close> order.  A JSON column holds the canonical value
  of its text, a time column the instant.  An insert checks the primary key, the unique indexes,
  the triggers and the foreign keys of its table, an update of \<^verbatim>\<open>jobs\<close> checks
  \<^verbatim>\<open>jobs_reject_invalid_lease_update\<close>; a violation is an \<open>IntegrityError\<close>.

  \<open>db_next_id\<close> numbers the identities drawn so far, \<open>db_published\<close> collects the \<^verbatim>\<open>after_commit\<close>
  wake-ups of the notification hub and \<open>db_retired\<close> the \<^verbatim>\<open>after_commit\<close> retirements of execution
  permits: they take effect only when the transaction commits, since a rollback restores the
  whole record.

  The record \<open>env\<close> holds what the operations take from outside: the identities the process draws,
  the clock behind default timestamps, the wired default permission snapshot, pydantic's parsing
  of timing objects and timestamps, its text of a datetime, Python's \<^verbatim>\<open>str\<close> of a JSON container and
  \<^verbatim>\<open>int\<close> of a text or a float, and the Unicode scans of interaction texts.  Theorems quantify over it.
\<close>

section \<open>Environment\<close>

record env =
  env_ulid :: "nat \<Rightarrow> string"
  env_now :: int
  env_default_permission :: "string option"
  env_timing :: "json \<Rightarrow> json option"
  env_sensitive_value :: "string \<Rightarrow> bool"
  env_sensitive_name :: "string \<Rightarrow> bool"
  env_strip :: "string \<Rightarrow> string"
  env_repr :: "json \<Rightarrow> string"
  env_datetime :: "int \<Rightarrow> string"
  env_redate :: "json \<Rightarrow> json option"
  env_int :: "json \<Rightarrow> int option"

text \<open>A concrete environment, for witnesses.\<close>

definition sample_env :: env where
  "sample_env =
     \<lparr>env_ulid = str_nat, env_now = 0, env_default_permission = None, env_timing = (\<lambda>_. None),
      env_sensitive_value = (\<lambda>_. False), env_sensitive_name = (\<lambda>_. False), env_strip = (\<lambda>s. s),
      env_repr = json_dumps, env_datetime = iso_text, env_redate = Some, env_int = (\<lambda>_. None)\<rparr>"

section \<open>Rows\<close>

record event_row =
  ev_id :: string
  ev_thread :: string
  ev_seq :: nat
  ev_turn :: "string option"
  ev_item :: "string option"
  ev_job :: "string option"
  ev_tool_call :: "string option"
  ev_client_message :: "string option"
  ev_causation :: "string option"
  ev_correlation :: "string option"
  ev_trace :: "string option"
  ev_config :: "string option"
  ev_capability :: "string option"
  ev_permission :: "string option"
  ev_extension :: "string option"
  ev_type :: string
  ev_created_at :: int
  ev_payload :: jobj
  ev_key :: "string option"

record thread_row =
  th_id :: string
  th_status :: thread_status
  th_title :: "string option"
  th_metadata :: jobj
  th_client_request :: "string option"
  th_fingerprint :: "string option"
  th_forked_thread :: "string option"
  th_forked_turn :: "string option"
  th_forked_seq :: "nat option"
  th_created_at :: int
  th_updated_at :: int

record turn_row =
  tn_id :: string
  tn_thread :: string
  tn_status :: turn_status
  tn_input :: string
  tn_agent_model :: string
  tn_image_model :: "string option"
  tn_client_message :: "string option"
  tn_metadata :: jobj
  tn_reason :: "string option"
  tn_created_at :: int
  tn_updated_at :: int

record item_row =
  it_id :: string
  it_thread :: string
  it_turn :: string
  it_kind :: item_kind
  it_status :: item_status
  it_content :: json
  it_client_message :: "string option"
  it_created_at :: int
  it_updated_at :: int

record job_row =
  jb_id :: string
  jb_kind :: string
  jb_payload :: jobj
  jb_status :: job_status
  jb_priority :: int
  jb_attempt :: int
  jb_max_attempts :: int
  jb_thread :: "string option"
  jb_turn :: "string option"
  jb_lease_owner :: "string option"
  jb_lease_token :: "string option"
  jb_lease_expires :: "int option"
  jb_heartbeat :: "int option"
  jb_available_at :: int
  jb_deadline :: "int option"
  jb_checkpoint :: "json option"
  jb_key :: string
  jb_fingerprint :: string
  jb_last_error :: "string option"
  jb_created_at :: int
  jb_updated_at :: int

text \<open>\<^verbatim>\<open>job_runtime_contexts\<close>; the same five identities are \<^verbatim>\<open>TurnSnapshotContext\<close>.\<close>

record snapshot_context =
  cx_config :: string
  cx_capability :: string
  cx_permission :: string
  cx_model_catalog :: string
  cx_extension :: string

record interaction_row =
  ia_id :: string
  ia_kind :: interaction_kind
  ia_status :: interaction_status
  ia_prompt :: string
  ia_contract :: json
  ia_options :: json
  ia_response :: "json option"
  ia_response_client :: "string option"
  ia_response_fingerprint :: "string option"
  ia_thread :: string
  ia_turn :: "string option"
  ia_job :: "string option"
  ia_key :: string
  ia_fingerprint :: string
  ia_expires_at :: "int option"
  ia_created_at :: int
  ia_updated_at :: int

record revision_row =
  rv_id :: string
  rv_thread :: string
  rv_turn :: string
  rv_ordinal :: nat
  rv_source :: string
  rv_input :: string
  rv_agent_model :: string
  rv_image_model :: "string option"
  rv_tools :: "string list"
  rv_metadata :: jobj
  rv_client_message :: "string option"
  rv_fingerprint :: string
  rv_created_at :: int

record batch_row =
  bt_id :: string
  bt_thread :: string
  bt_turn :: string
  bt_first :: nat
  bt_last :: nat
  bt_context :: snapshot_context
  bt_identity :: string
  bt_created_at :: int

record db =
  db_events :: "event_row list"
  db_heads :: "(string \<times> nat) list"
  db_threads :: "thread_row list"
  db_turns :: "turn_row list"
  db_items :: "item_row list"
  db_jobs :: "job_row list"
  db_contexts :: "(string \<times> snapshot_context) list"
  db_scheduler :: "(string \<times> int \<times> string) list"
  db_interactions :: "interaction_row list"
  db_revisions :: "revision_row list"
  db_batches :: "batch_row list"
  db_next_id :: nat
  db_published :: "string list"
  db_retired :: "(string \<times> string) list"

definition empty_db :: db where
  "empty_db =
     \<lparr>db_events = [], db_heads = [], db_threads = [], db_turns = [], db_items = [], db_jobs = [],
      db_contexts = [], db_scheduler = [], db_interactions = [], db_revisions = [], db_batches = [],
      db_next_id = 0, db_published = [], db_retired = []\<rparr>"

type_synonym 'a dbtxn = "(db, 'a) txn"

section \<open>Identities inside a transaction\<close>

definition fresh_id :: "env \<Rightarrow> string \<Rightarrow> string dbtxn" where
  "fresh_id E prefix =
     (\<lambda>s. Inr (prefix @ ''_'' @ env_ulid E (db_next_id s), s\<lparr>db_next_id := Suc (db_next_id s)\<rparr>))"

lemma wp_fresh_id [wp_simps]:
  "wp (fresh_id E p) Q s = Q (p @ ''_'' @ env_ulid E (db_next_id s)) (s\<lparr>db_next_id := Suc (db_next_id s)\<rparr>)"
  by (simp add: wp_def fresh_id_def)

section \<open>Lookups by primary key\<close>

definition find_thread :: "string \<Rightarrow> db \<Rightarrow> thread_row option" where
  "find_thread i s = find (\<lambda>r. th_id r = i) (db_threads s)"

definition find_turn :: "string \<Rightarrow> db \<Rightarrow> turn_row option" where
  "find_turn i s = find (\<lambda>r. tn_id r = i) (db_turns s)"

definition find_item :: "string \<Rightarrow> db \<Rightarrow> item_row option" where
  "find_item i s = find (\<lambda>r. it_id r = i) (db_items s)"

definition find_job :: "string \<Rightarrow> db \<Rightarrow> job_row option" where
  "find_job i s = find (\<lambda>r. jb_id r = i) (db_jobs s)"

definition find_interaction :: "string \<Rightarrow> db \<Rightarrow> interaction_row option" where
  "find_interaction i s = find (\<lambda>r. ia_id r = i) (db_interactions s)"

section \<open>Constraints\<close>

abbreviation executing :: "job_status \<Rightarrow> bool" where
  "executing st \<equiv> st = JobLeased \<or> st = JobRunning"

text \<open>The negation of the \<^verbatim>\<open>WHEN\<close> clause shared by \<^verbatim>\<open>jobs_reject_invalid_lease_insert\<close> and
  \<^verbatim>\<open>jobs_reject_invalid_lease_update\<close>.\<close>

definition lease_ok :: "job_row \<Rightarrow> bool" where
  "lease_ok j =
     (jb_attempt j \<le> jb_max_attempts j \<and>
      (executing (jb_status j) \<longrightarrow>
         truthy (jb_lease_owner j) \<and> truthy (jb_lease_token j) \<and>
         jb_lease_expires j \<noteq> None \<and> jb_heartbeat j \<noteq> None) \<and>
      (\<not> executing (jb_status j) \<longrightarrow>
         jb_lease_owner j = None \<and> jb_lease_token j = None \<and>
         jb_lease_expires j = None \<and> jb_heartbeat j = None))"

definition lease_violation :: err where
  "lease_violation = IntegrityError ''invalid durable job lease state''"

definition insert_event :: "event_row \<Rightarrow> unit dbtxn" where
  "insert_event r =
     bind (read (\<lambda>s. list_ex (\<lambda>e. ev_id e = ev_id r
         \<or> ev_thread e = ev_thread r \<and> ev_seq e = ev_seq r
         \<or> ev_key r \<noteq> None \<and> ev_thread e = ev_thread r \<and> ev_key e = ev_key r) (db_events s))) (\<lambda>clash.
     seq (require (\<not> clash) (IntegrityError ''events are append-only''))
       (modify (\<lambda>s. s\<lparr>db_events := db_events s @ [r]\<rparr>)))"

definition insert_thread :: "thread_row \<Rightarrow> unit dbtxn" where
  "insert_thread r =
     bind (read (\<lambda>s. list_ex (\<lambda>t. th_id t = th_id r
         \<or> th_client_request r \<noteq> None \<and> th_client_request t = th_client_request r) (db_threads s))) (\<lambda>clash.
     seq (require (\<not> clash) (IntegrityError ''threads''))
       (modify (\<lambda>s. s\<lparr>db_threads := db_threads s @ [r]\<rparr>)))"

definition insert_turn :: "turn_row \<Rightarrow> unit dbtxn" where
  "insert_turn r =
     bind (read (\<lambda>s. list_ex (\<lambda>t. tn_id t = tn_id r
         \<or> tn_client_message r \<noteq> None \<and> tn_thread t = tn_thread r
            \<and> tn_client_message t = tn_client_message r) (db_turns s)
         \<or> find_thread (tn_thread r) s = None)) (\<lambda>clash.
     seq (require (\<not> clash) (IntegrityError ''turns''))
       (modify (\<lambda>s. s\<lparr>db_turns := db_turns s @ [r]\<rparr>)))"

definition insert_item :: "item_row \<Rightarrow> unit dbtxn" where
  "insert_item r =
     bind (read (\<lambda>s. list_ex (\<lambda>t. it_id t = it_id r
         \<or> it_client_message r \<noteq> None \<and> it_thread t = it_thread r
            \<and> it_client_message t = it_client_message r) (db_items s)
         \<or> find_thread (it_thread r) s = None \<or> find_turn (it_turn r) s = None)) (\<lambda>clash.
     seq (require (\<not> clash) (IntegrityError ''items''))
       (modify (\<lambda>s. s\<lparr>db_items := db_items s @ [r]\<rparr>)))"

definition insert_job :: "job_row \<Rightarrow> unit dbtxn" where
  "insert_job r =
     bind (read (\<lambda>s. list_ex (\<lambda>j. jb_id j = jb_id r \<or> jb_key j = jb_key r) (db_jobs s))) (\<lambda>clash.
     seq (require (lease_ok r) lease_violation) (
     seq (require (0 \<le> jb_attempt r \<and> 0 < jb_max_attempts r \<and> \<not> clash) (IntegrityError ''jobs''))
       (modify (\<lambda>s. s\<lparr>db_jobs := db_jobs s @ [r]\<rparr>))))"

definition insert_context :: "string \<Rightarrow> snapshot_context \<Rightarrow> unit dbtxn" where
  "insert_context i c =
     bind (read (\<lambda>s. map_of (db_contexts s) i \<noteq> None \<or> find_job i s = None)) (\<lambda>clash.
     seq (require (\<not> clash) (IntegrityError ''job_runtime_contexts''))
       (modify (\<lambda>s. s\<lparr>db_contexts := db_contexts s @ [(i, c)]\<rparr>)))"

definition insert_interaction :: "interaction_row \<Rightarrow> unit dbtxn" where
  "insert_interaction r =
     bind (read (\<lambda>s. list_ex (\<lambda>i. ia_id i = ia_id r \<or> ia_key i = ia_key r
         \<or> ia_response_client r \<noteq> None \<and> ia_response_client i = ia_response_client r)
         (db_interactions s))) (\<lambda>clash.
     seq (require (\<not> clash) (IntegrityError ''interactions''))
       (modify (\<lambda>s. s\<lparr>db_interactions := db_interactions s @ [r]\<rparr>)))"

section \<open>Updates by primary key\<close>

definition update_thread :: "string \<Rightarrow> (thread_row \<Rightarrow> thread_row) \<Rightarrow> unit dbtxn" where
  "update_thread i f = modify (\<lambda>s. s\<lparr>db_threads := update_rows (\<lambda>r. th_id r = i) f (db_threads s)\<rparr>)"

definition update_turn :: "string \<Rightarrow> (turn_row \<Rightarrow> turn_row) \<Rightarrow> unit dbtxn" where
  "update_turn i f = modify (\<lambda>s. s\<lparr>db_turns := update_rows (\<lambda>r. tn_id r = i) f (db_turns s)\<rparr>)"

definition update_item :: "string \<Rightarrow> (item_row \<Rightarrow> item_row) \<Rightarrow> unit dbtxn" where
  "update_item i f = modify (\<lambda>s. s\<lparr>db_items := update_rows (\<lambda>r. it_id r = i) f (db_items s)\<rparr>)"

definition update_job :: "string \<Rightarrow> (job_row \<Rightarrow> job_row) \<Rightarrow> unit dbtxn" where
  "update_job i f =
     bind (read (\<lambda>s. list_all (\<lambda>r. jb_id r = i \<longrightarrow> lease_ok (f r)) (db_jobs s))) (\<lambda>ok.
     seq (require ok lease_violation)
       (modify (\<lambda>s. s\<lparr>db_jobs := update_rows (\<lambda>r. jb_id r = i) f (db_jobs s)\<rparr>)))"

definition update_interaction :: "string \<Rightarrow> (interaction_row \<Rightarrow> interaction_row) \<Rightarrow> unit dbtxn" where
  "update_interaction i f =
     modify (\<lambda>s. s\<lparr>db_interactions := update_rows (\<lambda>r. ia_id r = i) f (db_interactions s)\<rparr>)"

text \<open>\<^verbatim>\<open>ON CONFLICT(scheduling_key) DO UPDATE\<close>.\<close>

definition upsert_scheduler :: "string \<Rightarrow> int \<Rightarrow> string \<Rightarrow> unit dbtxn" where
  "upsert_scheduler k t j =
     modify (\<lambda>s. s\<lparr>db_scheduler :=
       (if map_of (db_scheduler s) k = None then db_scheduler s @ [(k, t, j)]
        else map (\<lambda>(k', v). if k' = k then (k, t, j) else (k', v)) (db_scheduler s))\<rparr>)"

text \<open>Clearing a lease, as every \<^verbatim>\<open>UPDATE jobs\<close> that ends an execution does.\<close>

definition clear_lease :: "job_row \<Rightarrow> job_row" where
  "clear_lease j = j\<lparr>jb_lease_owner := None, jb_lease_token := None,
                     jb_lease_expires := None, jb_heartbeat := None\<rparr>"

lemma clear_lease_simps [simp]:
  "jb_id (clear_lease j) = jb_id j" "jb_status (clear_lease j) = jb_status j"
  "jb_attempt (clear_lease j) = jb_attempt j" "jb_max_attempts (clear_lease j) = jb_max_attempts j"
  "jb_thread (clear_lease j) = jb_thread j" "jb_turn (clear_lease j) = jb_turn j"
  "jb_lease_owner (clear_lease j) = None" "jb_lease_token (clear_lease j) = None"
  "jb_lease_expires (clear_lease j) = None" "jb_heartbeat (clear_lease j) = None"
  "jb_kind (clear_lease j) = jb_kind j" "jb_key (clear_lease j) = jb_key j"
  "jb_fingerprint (clear_lease j) = jb_fingerprint j" "jb_payload (clear_lease j) = jb_payload j"
  "jb_created_at (clear_lease j) = jb_created_at j" "jb_deadline (clear_lease j) = jb_deadline j"
  "jb_priority (clear_lease j) = jb_priority j" "jb_checkpoint (clear_lease j) = jb_checkpoint j"
  "jb_available_at (clear_lease j) = jb_available_at j" "jb_last_error (clear_lease j) = jb_last_error j"
  by (simp_all add: clear_lease_def)

end
