(* ===== verification/Events.thy ===== *)
theory Events
  imports Store
begin

text \<open>
  \<^verbatim>\<open>ecorex/runtime/event_store.py\<close>: the append-only Event facts with a sequence per thread.
  \<open>append_in_transaction\<close> is the whole of \<^verbatim>\<open>EventStore.append_in_transaction\<close> (the Runtime wires no
  \<^verbatim>\<open>event_sink\<close>), \<open>public_job_payload\<close> the projection of scheduler facts, \<open>page\<close>, \<open>watermark\<close> and
  \<open>get_event\<close> the reads.  The keyword arguments of an append are the record \<open>append_req\<close>.

  Shown: sequences are contiguous from 1 and agree with the head of the thread, facts are never
  changed or removed, an idempotent append returns the first fact or conflicts, the snapshot
  context of a turn is immutable, a page is the requested slice and says truthfully whether more
  exists, and each committed fact wakes its thread exactly once.
\<close>

section \<open>Public projection of scheduler facts\<close>

definition job_status_by_event :: "(string \<times> string) list" where
  "job_status_by_event =
     [(''job.queued'', ''queued''), (''job.leased'', ''leased''), (''job.started'', ''running''),
      (''job.waiting_human'', ''waiting_human''), (''job.retry_scheduled'', ''retry_scheduled''),
      (''job.completed'', ''completed''), (''job.failed'', ''failed''),
      (''job.deadline_exceeded'', ''failed''), (''job.cancelled'', ''cancelled''),
      (''job.dead_lettered'', ''dead_letter''), (''job.reclaimed'', ''queued''),
      (''job.resumed'', ''queued'')]"

definition reason_code_by_event :: "(string \<times> string) list" where
  "reason_code_by_event =
     [(''job.retry_scheduled'', ''retry_scheduled''), (''job.dead_lettered'', ''attempts_exhausted''),
      (''job.failed'', ''execution_failed''), (''job.deadline_exceeded'', ''deadline_exceeded''),
      (''job.cancelled'', ''cancelled''), (''job.reclaimed'', ''lease_recovered'')]"

text \<open>The fields of \<open>ks\<close> that are present in the payload.\<close>

definition copy_fields :: "string list \<Rightarrow> jobj \<Rightarrow> jobj" where
  "copy_fields ks payload =
     concat (map (\<lambda>k. case map_of payload k of None \<Rightarrow> [] | Some v \<Rightarrow> [(k, v)]) ks)"

definition public_job_payload :: "string \<Rightarrow> jobj \<Rightarrow> jobj" where
  "public_job_payload event_type payload =
     (let diagnostics = filter (\<lambda>(k, v). v \<noteq> JNull) (copy_fields [''error'', ''reason''] payload)
      in copy_fields [''attempt'', ''available_at''] payload
       @ (case map_of job_status_by_event event_type of None \<Rightarrow> [] | Some st \<Rightarrow> [(''status'', JStr st)])
       @ (if event_type = ''job.queued''
          then copy_fields [''kind'', ''priority'', ''max_attempts'', ''deadline''] payload
          else if event_type = ''job.retry_scheduled'' then copy_fields [''max_attempts''] payload
          else [])
       @ (if event_type = ''job.heartbeat''
          then (case jget payload ''checkpoint_sha256'' of
                  JStr digest \<Rightarrow>
                    if is_sha256 digest then [(''checkpoint_sha256'', JStr digest)]
                    else if jget payload ''checkpoint'' \<noteq> JNull
                    then [(''checkpoint_sha256'', JStr (tool_digest (jget payload ''checkpoint'')))] else []
                | _ \<Rightarrow>
                    if jget payload ''checkpoint'' \<noteq> JNull
                    then [(''checkpoint_sha256'', JStr (tool_digest (jget payload ''checkpoint'')))] else [])
          else [])
       @ (case map_of reason_code_by_event event_type of None \<Rightarrow> [] | Some c \<Rightarrow> [(''reason_code'', JStr c)])
       @ (if diagnostics = [] then []
          else [(''diagnostic_sha256'', JStr (tool_digest (JObj diagnostics)))]))"

section \<open>Appending\<close>

record append_req =
  rq_thread :: string
  rq_type :: string
  rq_payload :: jobj
  rq_turn :: "string option"
  rq_item :: "string option"
  rq_job :: "string option"
  rq_tool_call :: "string option"
  rq_client_message :: "string option"
  rq_causation :: "string option"
  rq_correlation :: "string option"
  rq_trace :: "string option"
  rq_config :: "string option"
  rq_capability :: "string option"
  rq_permission :: "string option"
  rq_extension :: "string option"
  rq_key :: "string option"
  rq_created_at :: "int option"

text \<open>The defaults of the keyword arguments.\<close>

definition event_req :: "string \<Rightarrow> string \<Rightarrow> jobj \<Rightarrow> append_req" where
  "event_req thread_id event_type payload =
     \<lparr>rq_thread = thread_id, rq_type = event_type, rq_payload = payload, rq_turn = None,
      rq_item = None, rq_job = None, rq_tool_call = None, rq_client_message = None,
      rq_causation = None, rq_correlation = None, rq_trace = None, rq_config = None,
      rq_capability = None, rq_permission = None, rq_extension = None, rq_key = None,
      rq_created_at = None\<rparr>"

definition head :: "string \<Rightarrow> db \<Rightarrow> nat" where
  "head t s = (case map_of (db_heads s) t of None \<Rightarrow> 0 | Some n \<Rightarrow> n)"

definition set_head :: "string \<Rightarrow> nat \<Rightarrow> (string \<times> nat) list \<Rightarrow> (string \<times> nat) list" where
  "set_head t n hs =
     (if map_of hs t = None then hs @ [(t, n)]
      else map (\<lambda>(k, v). if k = t then (k, n) else (k, v)) hs)"

definition accepted_event :: "string \<Rightarrow> string \<Rightarrow> db \<Rightarrow> event_row option" where
  "accepted_event thread_id turn_id s =
     (case sort_key ev_seq (filter (\<lambda>e. ev_thread e = thread_id \<and> ev_turn e = Some turn_id
               \<and> ev_type e = ''turn.accepted'') (db_events s)) of
        [] \<Rightarrow> None | e # _ \<Rightarrow> Some e)"

definition drifted :: "append_req \<Rightarrow> event_row \<Rightarrow> bool" where
  "drifted r acc =
     list_ex (\<lambda>(requested, recorded). requested \<noteq> None \<and> requested \<noteq> recorded)
       [(rq_config r, ev_config acc), (rq_capability r, ev_capability acc),
        (rq_permission r, ev_permission acc), (rq_extension r, ev_extension acc),
        (rq_trace r, ev_trace acc)]"

definition inherit_context :: "append_req \<Rightarrow> event_row \<Rightarrow> append_req" where
  "inherit_context r acc =
     r\<lparr>rq_config := or_else (rq_config r) (ev_config acc),
       rq_capability := or_else (rq_capability r) (ev_capability acc),
       rq_permission := or_else (rq_permission r) (ev_permission acc),
       rq_extension := or_else (rq_extension r) (ev_extension acc),
       rq_trace := or_else (rq_trace r) (ev_trace acc),
       rq_correlation := or_else (rq_correlation r) (ev_correlation acc)\<rparr>"

text \<open>\<^verbatim>\<open>EventStore._from_row\<close> validates the stored payload again.\<close>

definition event_from_row :: "env \<Rightarrow> event_row \<Rightarrow> err + event_row" where
  "event_from_row E r =
     (case validate_public_tool_event_payload (env_timing E) (ev_type r) (ev_payload r) (ev_tool_call r) of
        Inl e \<Rightarrow> Inl e | Inr p \<Rightarrow> Inr (r\<lparr>ev_payload := p\<rparr>))"

definition same_request :: "append_req \<Rightarrow> event_row \<Rightarrow> bool" where
  "same_request r e =
     (ev_type e = rq_type r \<and> json_dumps (JObj (ev_payload e)) = json_dumps (JObj (rq_payload r)) \<and>
      ev_turn e = rq_turn r \<and> ev_item e = rq_item r \<and> ev_job e = rq_job r \<and>
      ev_tool_call e = rq_tool_call r \<and> ev_client_message e = rq_client_message r \<and>
      ev_causation e = rq_causation r \<and> ev_correlation e = rq_correlation r \<and>
      ev_trace e = rq_trace r \<and> ev_config e = rq_config r \<and> ev_capability e = rq_capability r \<and>
      ev_permission e = rq_permission r \<and> ev_extension e = rq_extension r \<and>
      (rq_created_at r \<noteq> None \<longrightarrow> rq_created_at r = Some (ev_created_at e)))"

text \<open>From the idempotency check on: the request is complete, its payload projected and valid.\<close>

definition write_event :: "env \<Rightarrow> append_req \<Rightarrow> event_row dbtxn" where
  "write_event E r =
     bind (read (\<lambda>s. Suc (head (rq_thread r) s))) (\<lambda>sequence.
     bind (fresh_id E ''evt'') (\<lambda>event_id.
     bind (ret \<lparr>ev_id = event_id, ev_thread = rq_thread r, ev_seq = sequence, ev_turn = rq_turn r,
                ev_item = rq_item r, ev_job = rq_job r, ev_tool_call = rq_tool_call r,
                ev_client_message = rq_client_message r, ev_causation = rq_causation r,
                ev_correlation = rq_correlation r, ev_trace = rq_trace r, ev_config = rq_config r,
                ev_capability = rq_capability r, ev_permission = rq_permission r,
                ev_extension = rq_extension r, ev_type = rq_type r,
                ev_created_at = (case rq_created_at r of None \<Rightarrow> env_now E | Some t \<Rightarrow> t),
                ev_payload = canon_obj (rq_payload r), ev_key = rq_key r\<rparr>) (\<lambda>envelope.
     seq (modify (\<lambda>s. s\<lparr>db_heads := set_head (rq_thread r) sequence (db_heads s)\<rparr>)) (
     seq (insert_event envelope) (
     seq (update_thread (rq_thread r) (\<lambda>t. t\<lparr>th_updated_at := ev_created_at envelope\<rparr>)) (
     seq (modify (\<lambda>s. s\<lparr>db_published := db_published s @ [rq_thread r]\<rparr>))
       (ret envelope)))))))"

definition append_prepared :: "env \<Rightarrow> append_req \<Rightarrow> event_row dbtxn" where
  "append_prepared E r =
     (case rq_key r of
        None \<Rightarrow> write_event E r
      | Some k \<Rightarrow>
          bind (read (\<lambda>s. find (\<lambda>e. ev_thread e = rq_thread r \<and> ev_key e = Some k) (db_events s))) (\<lambda>dup.
          case dup of
            None \<Rightarrow> write_event E r
          | Some e \<Rightarrow>
              seq (require (same_request r e) (IdempotencyConflictError ''event idempotency key was reused''))
                (lift_result (event_from_row E e))))"

definition apply_turn_context :: "append_req \<Rightarrow> append_req dbtxn" where
  "apply_turn_context r =
     (case rq_turn r of
        None \<Rightarrow> ret r
      | Some turn_id \<Rightarrow>
          if rq_type r = ''turn.accepted'' then ret r
          else bind (read (accepted_event (rq_thread r) turn_id)) (\<lambda>acc.
            case acc of
              None \<Rightarrow> ret r
            | Some a \<Rightarrow>
                seq (require (\<not> drifted r a) (ConflictError ''turn snapshot context is immutable''))
                  (ret (inherit_context r a))))"

definition starts_with :: "string \<Rightarrow> string \<Rightarrow> bool" where
  "starts_with p s = (take (length p) s = p)"

definition append_in_transaction :: "env \<Rightarrow> append_req \<Rightarrow> event_row dbtxn" where
  "append_in_transaction E r =
     seq (require (rq_thread r \<noteq> []) (ValueError ''thread_id is required'')) (
     seq (require (protocol_token 128 (rq_type r)) (ValueError ''event_type must be a safe protocol token'')) (
     bind (ret (if starts_with ''job.'' (rq_type r) then public_job_payload (rq_type r) (rq_payload r)
                else rq_payload r)) (\<lambda>payload.
     bind (lift_result (validate_public_tool_event_payload (env_timing E) (rq_type r) payload
             (rq_tool_call r))) (\<lambda>payload.
     bind (apply_turn_context (r\<lparr>rq_payload := payload\<rparr>)) (\<lambda>r.
     append_prepared E (r\<lparr>rq_permission := or_else (rq_permission r) (env_default_permission E)\<rparr>))))))"

definition append_event :: "env \<Rightarrow> append_req \<Rightarrow> db \<Rightarrow> (err + event_row) \<times> db" where
  "append_event E r = transaction (append_in_transaction E r)"

section \<open>Reading\<close>

definition watermark :: "string \<Rightarrow> db \<Rightarrow> nat" where
  "watermark t s = head t s"

record event_page =
  pg_events :: "event_row list"
  pg_after_seq :: int
  pg_watermark :: nat
  pg_has_more :: bool

fun map_result :: "('a \<Rightarrow> err + 'b) \<Rightarrow> 'a list \<Rightarrow> err + 'b list" where
  "map_result f [] = Inr []"
| "map_result f (x # xs) =
     (case f x of Inl e \<Rightarrow> Inl e
      | Inr y \<Rightarrow> (case map_result f xs of Inl e \<Rightarrow> Inl e | Inr ys \<Rightarrow> Inr (y # ys)))"

definition page_rows :: "string \<Rightarrow> int \<Rightarrow> nat \<Rightarrow> db \<Rightarrow> event_row list" where
  "page_rows thread_id after_seq n s =
     take n (sort_key ev_seq (filter (\<lambda>e. ev_thread e = thread_id \<and> int (ev_seq e) > after_seq) (db_events s)))"

definition page :: "env \<Rightarrow> string \<Rightarrow> int \<Rightarrow> int \<Rightarrow> db \<Rightarrow> err + event_page" where
  "page E thread_id after_seq limit s =
     (if after_seq < 0 then Inl (ValueError ''after_seq cannot be negative'')
      else if \<not> (1 \<le> limit \<and> limit \<le> 1000) then Inl (ValueError ''limit must be between 1 and 1000'')
      else let rows = page_rows thread_id after_seq (nat limit + 1) s
           in case map_result (event_from_row E) (take (nat limit) rows) of
                Inl e \<Rightarrow> Inl e
              | Inr es \<Rightarrow> Inr \<lparr>pg_events = es, pg_after_seq = after_seq,
                              pg_watermark = watermark thread_id s,
                              pg_has_more = length rows > nat limit\<rparr>)"

definition get_event :: "env \<Rightarrow> string \<Rightarrow> db \<Rightarrow> err + event_row option" where
  "get_event E event_id s =
     (case find (\<lambda>e. ev_id e = event_id) (db_events s) of
        None \<Rightarrow> Inr None
      | Some r \<Rightarrow> (case event_from_row E r of Inl e \<Rightarrow> Inl e | Inr e \<Rightarrow> Inr (Some e)))"

definition notification_generation :: "string \<Rightarrow> db \<Rightarrow> nat" where
  "notification_generation thread_id s = count_list (db_published s) thread_id"

section \<open>What an append changes\<close>

text \<open>Everything but the log is left alone; the log only grows.\<close>

definition same_threads :: "db \<Rightarrow> db \<Rightarrow> bool" where
  "same_threads s s' =
     (map (\<lambda>t. t\<lparr>th_updated_at := 0\<rparr>) (db_threads s') = map (\<lambda>t. t\<lparr>th_updated_at := 0\<rparr>) (db_threads s))"

definition only_log :: "db \<Rightarrow> db \<Rightarrow> bool" where
  "only_log s s' =
     (db_turns s' = db_turns s \<and> db_items s' = db_items s \<and> db_jobs s' = db_jobs s \<and>
      db_contexts s' = db_contexts s \<and> db_scheduler s' = db_scheduler s \<and>
      db_interactions s' = db_interactions s \<and> db_revisions s' = db_revisions s \<and>
      db_batches s' = db_batches s \<and> db_retired s' = db_retired s \<and> same_threads s s' \<and>
      db_next_id s \<le> db_next_id s')"

interpretation log_order: step_order only_log
  by unfold_locales (auto simp: only_log_def same_threads_def)

text \<open>The row an append writes, and the state after it.\<close>

definition envelope :: "env \<Rightarrow> append_req \<Rightarrow> db \<Rightarrow> event_row" where
  "envelope E r s =
     \<lparr>ev_id = ''evt_'' @ env_ulid E (db_next_id s), ev_thread = rq_thread r, ev_seq = Suc (head (rq_thread r) s),
      ev_turn = rq_turn r, ev_item = rq_item r, ev_job = rq_job r, ev_tool_call = rq_tool_call r,
      ev_client_message = rq_client_message r, ev_causation = rq_causation r,
      ev_correlation = rq_correlation r, ev_trace = rq_trace r, ev_config = rq_config r,
      ev_capability = rq_capability r, ev_permission = rq_permission r,
      ev_extension = rq_extension r, ev_type = rq_type r,
      ev_created_at = (case rq_created_at r of None \<Rightarrow> env_now E | Some t \<Rightarrow> t),
      ev_payload = canon_obj (rq_payload r), ev_key = rq_key r\<rparr>"

definition logged :: "env \<Rightarrow> append_req \<Rightarrow> db \<Rightarrow> db" where
  "logged E r s =
     s\<lparr>db_next_id := Suc (db_next_id s),
       db_heads := set_head (rq_thread r) (Suc (head (rq_thread r) s)) (db_heads s),
       db_events := db_events s @ [envelope E r s],
       db_threads := update_rows (\<lambda>t. th_id t = rq_thread r)
          (\<lambda>t. t\<lparr>th_updated_at := ev_created_at (envelope E r s)\<rparr>) (db_threads s),
       db_published := db_published s @ [rq_thread r]\<rparr>"

definition clashes :: "event_row \<Rightarrow> db \<Rightarrow> bool" where
  "clashes r s =
     list_ex (\<lambda>e. ev_id e = ev_id r \<or> ev_thread e = ev_thread r \<and> ev_seq e = ev_seq r
         \<or> ev_key r \<noteq> None \<and> ev_thread e = ev_thread r \<and> ev_key e = ev_key r) (db_events s)"

lemma write_event_run:
  "write_event E r s =
     (if clashes (envelope E r s) s then Inl (IntegrityError ''events are append-only'')
      else Inr (envelope E r s, logged E r s))"
  by (simp add: write_event_def bind_def seq_def read_def fresh_id_def ret_def modify_def insert_event_def
      require_def raise_def update_thread_def clashes_def envelope_def logged_def Let_def)

lemma wp_write_event [wp_simps]:
  "wp (write_event E r) Q s = (\<not> clashes (envelope E r s) s \<longrightarrow> Q (envelope E r s) (logged E r s))"
  by (simp add: wp_def write_event_run)

lemma only_log_logged: "only_log s (logged E r s)"
  by (auto simp: only_log_def logged_def same_threads_def update_rows_def)

lemma keeps_only_log_write: "keeps only_log (write_event E r)"
  by (simp add: keeps_def wp_simps only_log_logged)

lemma append_cases:
  assumes "append_in_transaction E r s = Inr (e, s')"
  obtains (dup) e0 where "s' = s" "e0 \<in> set (db_events s)" "event_from_row E e0 = Inr e" "ev_thread e0 = rq_thread r"
      "ev_key e0 = rq_key r" "rq_key r \<noteq> None" "ev_type e0 = rq_type r" "ev_id e = ev_id e0"
  | (new) r' where "s' = logged E r' s" "e = envelope E r' s" "\<not> clashes e s" "rq_thread r' = rq_thread r"
      "rq_type r' = rq_type r" "rq_turn r' = rq_turn r" "rq_key r' = rq_key r" "rq_created_at r' = rq_created_at r"
      "rq_job r' = rq_job r" "rq_item r' = rq_item r" "rq_thread r \<noteq> []"
      "rq_key r \<noteq> None \<Longrightarrow> find (\<lambda>e. ev_thread e = rq_thread r \<and> ev_key e = rq_key r) (db_events s) = None"
proof -
  from assms obtain p r' where p: "validate_public_tool_event_payload (env_timing E) (rq_type r)
        (if starts_with ''job.'' (rq_type r) then public_job_payload (rq_type r) (rq_payload r) else rq_payload r)
        (rq_tool_call r) = Inr p"
    and t: "rq_thread r \<noteq> []"
    and r': "apply_turn_context (r\<lparr>rq_payload := p\<rparr>) s = Inr (r', s)"
    and a: "append_prepared E (r'\<lparr>rq_permission := or_else (rq_permission r') (env_default_permission E)\<rparr>) s = Inr (e, s')"
    by (auto simp: append_in_transaction_def bind_def seq_def require_def ret_def raise_def lift_result_def
        apply_turn_context_def read_def split: if_splits sum.splits option.splits prod.splits)
  define r2 where "r2 = r'\<lparr>rq_permission := or_else (rq_permission r') (env_default_permission E)\<rparr>"
  have same: "rq_thread r2 = rq_thread r" "rq_type r2 = rq_type r" "rq_turn r2 = rq_turn r" "rq_key r2 = rq_key r"
      "rq_created_at r2 = rq_created_at r" "rq_job r2 = rq_job r" "rq_item r2 = rq_item r"
    using r' by (auto simp: r2_def apply_turn_context_def bind_def seq_def require_def ret_def raise_def read_def
        inherit_context_def split: if_splits sum.splits option.splits prod.splits)
  note a = a [folded r2_def]
  show thesis
  proof (cases "rq_key r")
    case None
    then show ?thesis using a same t new [of r2]
      by (auto simp: append_prepared_def write_event_run split: if_splits)
  next
    case (Some k)
    show ?thesis
    proof (cases "find (\<lambda>e. ev_thread e = rq_thread r \<and> ev_key e = rq_key r) (db_events s)")
      case None
      then show ?thesis using Some a same t new [of r2]
        by (auto simp: append_prepared_def bind_def read_def write_event_run split: if_splits)
    next
      case (Some e0)
      then have e0: "e0 \<in> set (db_events s)" "ev_thread e0 = rq_thread r" "ev_key e0 = rq_key r"
        using find_SomeD [OF Some] by simp_all
      have res: "event_from_row E e0 = Inr e" "s' = s" "same_request r2 e0"
        using Some \<open>rq_key r = Some k\<close> a same
        by (auto simp: append_prepared_def bind_def seq_def read_def require_def raise_def ret_def lift_result_def
            split: if_splits sum.splits)
      then have "ev_id e = ev_id e0"
        by (auto simp: event_from_row_def split: sum.splits)
      then show ?thesis using res e0 \<open>rq_key r = Some k\<close> same by (auto simp: same_request_def intro!: dup)
    qed
  qed
qed

lemma keeps_only_log_append [frame_rules]: "keeps only_log (append_in_transaction E r)"
proof (rule keepsI, rule wpI)
  fix s e s'
  assume "append_in_transaction E r s = Inr (e, s')"
  then show "only_log s s'"
    by (cases rule: append_cases) (auto simp: only_log_logged log_order.R_refl)
qed

section \<open>The log invariant\<close>

definition thread_events :: "string \<Rightarrow> db \<Rightarrow> event_row list" where
  "thread_events t s = filter (\<lambda>e. ev_thread e = t) (db_events s)"

definition events_ok :: "db \<Rightarrow> bool" where
  "events_ok s =
     (distinct (map ev_id (db_events s)) \<and>
      (\<forall>t. map ev_seq (thread_events t s) = [1..<Suc (head t s)]) \<and>
      distinct (map (\<lambda>e. (ev_thread e, ev_key e)) (filter (\<lambda>e. ev_key e \<noteq> None) (db_events s))) \<and>
      db_published s = map ev_thread (db_events s))"

lemma map_of_set_head: "map_of (set_head t n hs) k = (if k = t then Some n else map_of hs k)"
proof -
  have "map_of (map (\<lambda>(k, v). if k = t then (k, n) else (k, v)) hs) k =
      (if k = t \<and> map_of hs t \<noteq> None then Some n else map_of hs k)"
    by (induction hs) auto
  then show ?thesis by (auto simp: set_head_def map_add_def split: option.splits)
qed

lemma head_logged: "head t (logged E r s) = (if t = rq_thread r then Suc (head t s) else head t s)"
  by (simp add: head_def logged_def map_of_set_head)

lemma events_ok_logged:
  assumes "events_ok s" and "\<not> clashes (envelope E r s) s"
  shows "events_ok (logged E r s)"
proof -
  have seqs: "map ev_seq (thread_events t (logged E r s)) = [1..<Suc (head t (logged E r s))]" for t
  proof -
    have "map ev_seq (thread_events t s) = [1..<Suc (head t s)]" using assms(1) by (simp add: events_ok_def)
    moreover have "thread_events t (logged E r s) =
        thread_events t s @ (if t = rq_thread r then [envelope E r s] else [])"
      by (simp add: thread_events_def logged_def envelope_def)
    ultimately show ?thesis by (simp add: head_logged envelope_def del: upt_Suc) (simp add: upt_Suc)
  qed
  show ?thesis
    using assms seqs unfolding events_ok_def
    by (auto simp: logged_def clashes_def list_ex_iff envelope_def)
qed

text \<open>\<open>log_step\<close>: the log stays well formed and no fact is changed or removed.\<close>

definition log_step :: "db \<Rightarrow> db \<Rightarrow> bool" where
  "log_step s s' = ((events_ok s \<longrightarrow> events_ok s') \<and> (\<exists>new. db_events s' = db_events s @ new))"

interpretation log_steps: step_order log_step
  by unfold_locales (auto simp: log_step_def)

lemma log_step_append: "keeps log_step (append_in_transaction E r)"
proof (rule keepsI, rule wpI)
  fix s e s'
  assume "append_in_transaction E r s = Inr (e, s')"
  then show "log_step s s'"
    by (cases rule: append_cases) (auto simp: log_steps.R_refl log_step_def events_ok_logged, simp add: logged_def)
qed

lemma log_step_other:
  assumes "\<And>s. db_events (f s) = db_events s" "\<And>s. db_heads (f s) = db_heads s"
    and "\<And>s. db_published (f s) = db_published s"
  shows "keeps log_step (modify f)"
proof -
  have "head t (f s) = head t s" for t s by (simp add: head_def assms)
  then show ?thesis
    by (simp add: keeps_def wp_modify log_step_def events_ok_def thread_events_def assms)
qed

section \<open>Appends are idempotent\<close>

lemma apply_turn_context_same:
  assumes "apply_turn_context r s = Inr (r', s0)" and "accepted_event (rq_thread r) u s' = accepted_event (rq_thread r) u s"
    and "rq_turn r = Some u"
  shows "apply_turn_context r s' = Inr (r', s')"
  using assms by (auto simp: apply_turn_context_def bind_def seq_def read_def ret_def require_def raise_def
      split: if_splits option.splits)

lemma accepted_event_logged:
  "rq_type r \<noteq> ''turn.accepted'' \<Longrightarrow> accepted_event t u (logged E r s) = accepted_event t u s"
  by (simp add: accepted_event_def logged_def envelope_def)

text \<open>The preparation of an append up to the idempotency check, as one function of the state.\<close>

definition prepared :: "env \<Rightarrow> append_req \<Rightarrow> db \<Rightarrow> append_req option" where
  "prepared E r s =
     (if rq_thread r = [] \<or> \<not> protocol_token 128 (rq_type r) then None
      else case validate_public_tool_event_payload (env_timing E) (rq_type r)
          (if starts_with ''job.'' (rq_type r) then public_job_payload (rq_type r) (rq_payload r)
           else rq_payload r) (rq_tool_call r) of
        Inl _ \<Rightarrow> None
      | Inr p \<Rightarrow> (case apply_turn_context (r\<lparr>rq_payload := p\<rparr>) s of
          Inl _ \<Rightarrow> None
        | Inr (r', _) \<Rightarrow> Some (r'\<lparr>rq_permission := or_else (rq_permission r') (env_default_permission E)\<rparr>)))"

lemma apply_turn_context_state: "apply_turn_context r s = Inr (r', s') \<Longrightarrow> s' = s"
  by (auto simp: apply_turn_context_def bind_def seq_def read_def ret_def require_def raise_def
      split: if_splits option.splits)

lemma append_prepared_iff:
  "append_in_transaction E r s = Inr x \<longleftrightarrow> (\<exists>r'. prepared E r s = Some r' \<and> append_prepared E r' s = Inr x)"
  by (auto simp: append_in_transaction_def prepared_def bind_def seq_def ret_def require_def raise_def
      lift_result_def split: sum.splits dest: apply_turn_context_state)

lemma prepared_fields:
  assumes "prepared E r s = Some r'"
  shows "rq_thread r' = rq_thread r" "rq_type r' = rq_type r" "rq_key r' = rq_key r" "rq_turn r' = rq_turn r"
    "rq_tool_call r' = rq_tool_call r"
    "\<exists>p0. validate_public_tool_event_payload (env_timing E) (rq_type r) p0 (rq_tool_call r) = Inr (rq_payload r')"
  using assms
  by (auto simp: prepared_def apply_turn_context_def bind_def seq_def read_def ret_def require_def raise_def
      inherit_context_def split: if_splits sum.splits option.splits)

lemma prepared_logged:
  assumes "prepared E r s = Some r'" and "rq_type q = rq_type r"
  shows "prepared E r (logged E q s) = Some r'"
proof -
  have "apply_turn_context r0 (logged E q s) = Inr (r1, logged E q s)"
    if "apply_turn_context r0 s = Inr (r1, s0)" "rq_type r0 = rq_type r" for r0 r1 s0
  proof (cases "rq_turn r0 = None \<or> rq_type r = ''turn.accepted''")
    case True
    then show ?thesis using that by (auto simp: apply_turn_context_def ret_def split: option.splits)
  next
    case False
    then obtain u where "rq_turn r0 = Some u" by auto
    then show ?thesis using that(1) False assms(2)
      by (intro apply_turn_context_same [OF that(1)]) (simp_all add: accepted_event_logged)
  qed
  then show ?thesis using assms(1) unfolding prepared_def
    by (auto split: if_splits sum.splits prod.splits)
qed

lemma stored_reads_back:
  assumes "timing_law (env_timing E)"
    and "validate_public_tool_event_payload (env_timing E) (rq_type r) p0 (rq_tool_call r) = Inr (rq_payload r)"
  shows "\<exists>e. event_from_row E (envelope E r s) = Inr e \<and> canon_obj (ev_payload e) = ev_payload (envelope E r s) \<and>
    ev_id e = ev_id (envelope E r s) \<and> ev_seq e = ev_seq (envelope E r s)"
  using ingress_canon [OF assms] by (auto simp: event_from_row_def envelope_def)

lemma find_append_None: "find P xs = None \<Longrightarrow> P y \<Longrightarrow> find P (xs @ [y]) = Some y"
  by (induction xs) (auto split: if_splits)

text \<open>
  Repeating an append with the same idempotency key commits nothing: it returns the fact of
  the first append (its identity and sequence) and leaves the database as it was.
\<close>

theorem append_replay:
  assumes "timing_law (env_timing E)" and "rq_key r = Some k"
    and "append_in_transaction E r s = Inr (e, s')"
  shows "\<exists>e'. append_in_transaction E r s' = Inr (e', s') \<and> ev_id e' = ev_id e \<and> ev_seq e' = ev_seq e"
proof -
  obtain q where q: "prepared E r s = Some q" and run: "append_prepared E q s = Inr (e, s')"
    using assms(3) by (auto simp: append_prepared_iff)
  note qf = prepared_fields [OF q]
  let ?P = "\<lambda>e. ev_thread e = rq_thread q \<and> ev_key e = Some k"
  have key: "rq_key q = Some k" using assms(2) qf by simp
  show ?thesis
  proof (cases "find ?P (db_events s)")
    case None
    then have s': "s' = logged E q s" "e = envelope E q s"
      using run key by (auto simp: append_prepared_def bind_def read_def write_event_run split: if_splits)
    obtain e' where e': "event_from_row E e = Inr e'" "ev_id e' = ev_id e" "ev_seq e' = ev_seq e"
      using stored_reads_back [OF assms(1)] qf s'(2) by metis
    have "find ?P (db_events s') = Some e"
      unfolding s' using find_append_None [OF None, of "envelope E q s"]
      by (simp add: logged_def envelope_def key)
    moreover have "same_request q e" by (auto simp: same_request_def s' envelope_def)
    ultimately have "append_prepared E q s' = Inr (e', s')"
      using key e' by (simp add: append_prepared_def bind_def seq_def read_def require_def ret_def lift_result_def)
    moreover have "prepared E r s' = Some q" unfolding s' by (rule prepared_logged [OF q qf(2)])
    ultimately show ?thesis using e' by (auto simp: append_prepared_iff)
  next
    case (Some e0)
    then have "s' = s"
      using run key by (auto simp: append_prepared_def bind_def seq_def read_def require_def raise_def ret_def
          lift_result_def split: if_splits sum.splits)
    then show ?thesis using assms(3) by blast
  qed
qed

text \<open>
  Reusing an idempotency key for a different request is refused, whatever differs (the type,
  the payload, a linked identity, the snapshot context, an explicit timestamp).
\<close>

theorem append_key_conflict:
  assumes "rq_key r = Some k" and "prepared E r s = Some q"
    and "find (\<lambda>e. ev_thread e = rq_thread r \<and> ev_key e = Some k) (db_events s) = Some e0"
    and "\<not> same_request q e0"
  shows "append_event E r s = (Inl (IdempotencyConflictError ''event idempotency key was reused''), s)"
proof -
  note qf = prepared_fields [OF assms(2)]
  have "append_prepared E q s = Inl (IdempotencyConflictError ''event idempotency key was reused'')"
    using assms qf by (simp add: append_prepared_def bind_def seq_def read_def require_def raise_def)
  then have "append_in_transaction E r s = Inl (IdempotencyConflictError ''event idempotency key was reused'')"
    using assms(2)
    by (auto simp: append_in_transaction_def prepared_def bind_def seq_def ret_def require_def raise_def
        lift_result_def split: if_splits sum.splits dest: apply_turn_context_state)
  then show ?thesis by (simp add: append_event_def transaction_def)
qed

section \<open>The snapshot context of a turn\<close>

lemma or_else_agree: "x = None \<or> x = y \<Longrightarrow> or_else x y = y"
  by (auto simp: or_else_def truthy_def)

lemma inherit_agrees:
  assumes "\<not> drifted r a"
  shows "rq_config (inherit_context r a) = ev_config a" "rq_capability (inherit_context r a) = ev_capability a"
    "rq_permission (inherit_context r a) = ev_permission a" "rq_extension (inherit_context r a) = ev_extension a"
    "rq_trace (inherit_context r a) = ev_trace a"
proof -
  have "rq_config r = None \<or> rq_config r = ev_config a" "rq_capability r = None \<or> rq_capability r = ev_capability a"
    "rq_permission r = None \<or> rq_permission r = ev_permission a" "rq_extension r = None \<or> rq_extension r = ev_extension a"
    "rq_trace r = None \<or> rq_trace r = ev_trace a"
    using assms unfolding drifted_def by simp_all
  then show "rq_config (inherit_context r a) = ev_config a" "rq_capability (inherit_context r a) = ev_capability a"
    "rq_permission (inherit_context r a) = ev_permission a" "rq_extension (inherit_context r a) = ev_extension a"
    "rq_trace (inherit_context r a) = ev_trace a"
    unfolding inherit_context_def by (simp_all add: or_else_agree)
qed

text \<open>
  C37.  A turn keeps the Runtime snapshots it was accepted with: every fact of the turn that is written after its
  \<^verbatim>\<open>turn.accepted\<close> fact, and is not another one, has the configuration, capability, extension and trace identities of
  that fact, and its permission identity when it has one; otherwise it has the permission in force by default when it is written.
\<close>

theorem turn_context_immutable:
  assumes "accepted_event (rq_thread r) turn_id s = Some a" and "rq_turn r = Some turn_id"
    and "rq_type r \<noteq> ''turn.accepted''" and "append_in_transaction E r s = Inr (e, s')" and "s' \<noteq> s"
  shows "ev_config e = ev_config a \<and> ev_capability e = ev_capability a \<and>
    ev_extension e = ev_extension a \<and> ev_trace e = ev_trace a \<and>
    ev_permission e = or_else (ev_permission a) (env_default_permission E)"
proof -
  obtain q where q: "prepared E r s = Some q" and run: "append_prepared E q s = Inr (e, s')"
    using assms(4) by (auto simp: append_prepared_iff)
  have e: "e = envelope E q s"
    using run assms(5)
    by (auto simp: append_prepared_def bind_def seq_def read_def require_def raise_def ret_def lift_result_def
        write_event_run split: option.splits if_splits sum.splits)
  obtain r0 where "\<not> drifted r0 a" and
    "q = (inherit_context r0 a)\<lparr>rq_permission := or_else (rq_permission (inherit_context r0 a)) (env_default_permission E)\<rparr>"
    using q assms(1-3)
    by (auto simp: prepared_def apply_turn_context_def bind_def seq_def read_def ret_def require_def raise_def
        split: if_splits sum.splits)
  then show ?thesis by (simp add: e envelope_def inherit_agrees)
qed

text \<open>
  An append that names another snapshot or trace than the accepted turn is refused and
  commits nothing.
\<close>

theorem turn_context_drift_refused:
  assumes "accepted_event (rq_thread r) turn_id s = Some a" and "rq_turn r = Some turn_id"
    and "rq_type r \<noteq> ''turn.accepted''" and "drifted r a"
  shows "\<exists>err. append_event E r s = (Inl err, s)"
proof -
  have "drifted (r\<lparr>rq_payload := p\<rparr>) a" for p using assms(4) by (simp add: drifted_def)
  then have "prepared E r s = None"
    using assms(1-3)
    by (auto simp: prepared_def apply_turn_context_def bind_def seq_def read_def ret_def require_def raise_def
        split: sum.splits)
  then have "\<not> (\<exists>x. append_in_transaction E r s = Inr x)" by (auto simp: append_prepared_iff)
  then show ?thesis
    by (cases "append_in_transaction E r s") (auto simp: append_event_def transaction_def)
qed

section \<open>Pages\<close>

lemma sorted_thread_events:
  assumes "events_ok s"
  shows "sorted (map ev_seq (thread_events t s))"
  using assms by (simp add: events_ok_def del: upt_Suc)

lemma filter_upt: "a \<le> n \<Longrightarrow> filter (\<lambda>i. a < i) [1..<Suc n] = [Suc a..<Suc n]"
  by (induction n) (auto simp: le_Suc_eq)

lemma filter_upt_none: "n \<le> a \<Longrightarrow> filter (\<lambda>i. a < i) [1..<Suc n] = []"
  by auto

lemma page_rows_seq:
  assumes "events_ok s" and "0 \<le> after"
  shows "map ev_seq (page_rows t after n s) = take n [Suc (nat after)..<Suc (head t s)]"
    and "set (page_rows t after n s) \<subseteq> set (thread_events t s)"
proof -
  let ?f = "filter (\<lambda>e. int (ev_seq e) > after) (thread_events t s)"
  have "filter (\<lambda>e. ev_thread e = t \<and> int (ev_seq e) > after) (db_events s) = ?f"
    unfolding thread_events_def filter_filter by (rule filter_cong) auto
  moreover have "sorted (map ev_seq ?f)"
    using sorted_thread_events [OF assms(1)] by (simp add: sorted_filter)
  ultimately have rows: "page_rows t after n s = take n ?f"
    by (simp add: page_rows_def sort_key_sorted_id)
  have "map ev_seq ?f = filter (\<lambda>i. nat after < i) (map ev_seq (thread_events t s))"
    unfolding filter_map o_def using assms(2) by (auto intro!: arg_cong [of _ _ "map ev_seq"] filter_cong)
  also have "\<dots> = [Suc (nat after)..<Suc (head t s)]"
    using assms(1) filter_upt [of "nat after" "head t s"] filter_upt_none [of "head t s" "nat after"]
    by (cases "nat after \<le> head t s") (simp_all add: events_ok_def del: upt_Suc)
  finally show "map ev_seq (page_rows t after n s) = take n [Suc (nat after)..<Suc (head t s)]"
    by (simp add: rows take_map [symmetric] del: upt_Suc)
  show "set (page_rows t after n s) \<subseteq> set (thread_events t s)"
    by (auto simp: rows dest: in_set_takeD)
qed

lemma map_result_ids:
  "map_result (event_from_row E) rows = Inr es \<Longrightarrow> map ev_seq es = map ev_seq rows \<and> map ev_id es = map ev_id rows"
proof (induction rows arbitrary: es)
  case (Cons r rows)
  then show ?case
    by (auto simp: event_from_row_def split: sum.splits)
qed simp

text \<open>
  A page after sequence \<open>after\<close> holds exactly the facts \<open>after + 1, after + 2, \<dots>\<close> of the thread
  up to the limit or the head, in order and without a gap; \<^verbatim>\<open>has_more\<close> is true exactly when the
  thread has facts beyond the page, and the watermark is the sequence of the newest fact.
\<close>

theorem page_correct:
  assumes "events_ok s" and "page E thread_id after limit s = Inr pg"
  shows "map ev_seq (pg_events pg) =
      [Suc (nat after)..<Suc (min (head thread_id s) (nat after + nat limit))] \<and>
    pg_has_more pg = (nat after + nat limit < head thread_id s) \<and>
    pg_watermark pg = head thread_id s"
proof -
  let ?rows = "page_rows thread_id after (nat limit + 1) s"
  have a: "0 \<le> after" and pg: "\<exists>es. map_result (event_from_row E) (take (nat limit) ?rows) = Inr es \<and> pg_events pg = es"
    "pg_has_more pg = (length ?rows > nat limit)" "pg_watermark pg = head thread_id s"
    using assms(2) by (auto simp: page_def Let_def watermark_def split: if_splits sum.splits)
  have "map ev_seq (pg_events pg) = take (nat limit) (map ev_seq ?rows)"
    using pg(1) map_result_ids by (metis take_map)
  also have "\<dots> = take (nat limit) [Suc (nat after)..<Suc (head thread_id s)]"
    by (simp add: page_rows_seq(1) [OF assms(1) a] min_def del: upt_Suc)
  also have "\<dots> = [Suc (nat after)..<Suc (min (head thread_id s) (nat after + nat limit))]"
    by (cases "nat after + nat limit \<le> head thread_id s") (simp_all add: take_upt min_def del: upt_Suc)
  finally have seqs: "map ev_seq (pg_events pg) =
      [Suc (nat after)..<Suc (min (head thread_id s) (nat after + nat limit))]" .
  have "length ?rows = min (nat limit + 1) (head thread_id s - nat after)"
    using arg_cong [OF page_rows_seq(1) [OF assms(1) a, of thread_id "nat limit + 1"], of length]
    by (simp add: min.commute del: upt_Suc)
  then show ?thesis using seqs pg by auto
qed

section \<open>What a scheduler fact discloses\<close>

definition disclosed_fields :: "string list" where
  "disclosed_fields =
     [''attempt'', ''available_at'', ''kind'', ''priority'', ''max_attempts'', ''deadline'',
      ''checkpoint_sha256'', ''checkpoint'', ''error'', ''reason'']"

definition public_fields :: "string list" where
  "public_fields =
     [''attempt'', ''available_at'', ''status'', ''kind'', ''priority'', ''max_attempts'', ''deadline'',
      ''checkpoint_sha256'', ''reason_code'', ''diagnostic_sha256'']"

lemma copy_fields_cong: "(\<And>k. k \<in> set ks \<Longrightarrow> map_of p k = map_of q k) \<Longrightarrow> copy_fields ks p = copy_fields ks q"
  by (auto simp: copy_fields_def intro!: arg_cong [of _ _ concat] map_cong split: option.split)

lemma copy_fields_keys: "set (map fst (copy_fields ks p)) \<subseteq> set ks"
  by (auto simp: copy_fields_def split: option.splits)

lemma map_of_dict_set: "map_of (dict_set k v d) k' = (if k' = k then Some v else map_of d k')"
proof -
  have "map_of (map (\<lambda>(a, b). if a = k then (k, v) else (a, b)) d) k' =
      (if k' = k \<and> map_of d k \<noteq> None then Some v else map_of d k')"
    by (induction d) auto
  then show ?thesis by (auto simp: dict_set_def has_key_def map_add_def split: option.splits)
qed

text \<open>
  A public scheduler fact has only the reviewed fields, and no other field of the internal
  fact (worker, lease token, tool arguments, paths) has any influence on it.  Raw errors, reasons
  and checkpoints are read but never copied: they appear as digests only.
\<close>

theorem public_job_payload_discloses:
  "set (map fst (public_job_payload event_type payload)) \<subseteq> set public_fields \<and>
   (k \<notin> set disclosed_fields \<longrightarrow>
      public_job_payload event_type (dict_set k v payload) = public_job_payload event_type payload)"
proof (intro conjI impI)
  show "set (map fst (public_job_payload event_type payload)) \<subseteq> set public_fields"
  proof -
    define pub where "pub = (\<lambda>l :: jobj. set (map fst l) \<subseteq> set public_fields)"
    have pub_append: "pub (a @ b) = (pub a \<and> pub b)" and pub_Nil: "pub []"
      and pub_one: "f \<in> set public_fields \<Longrightarrow> pub [(f, v)]" for a b f v
      by (auto simp: pub_def)
    have pub_if: "pub a \<Longrightarrow> pub b \<Longrightarrow> pub (if c then a else b)" for a b c by simp
    have pub_copy: "set ks \<subseteq> set public_fields \<Longrightarrow> pub (copy_fields ks payload)" for ks
      unfolding pub_def using copy_fields_keys [of ks payload] by (rule subset_trans)
    have pub_case: "pub (case m of None \<Rightarrow> [] | Some x \<Rightarrow> [(f, JStr x)])" if "f \<in> set public_fields" for m f
      using that pub_Nil pub_one by (cases m) auto
    have pub_heartbeat: "pub (case j of JStr digest \<Rightarrow> if is_sha256 digest then [(f, JStr digest)] else rest
        | _ \<Rightarrow> rest)" if "f \<in> set public_fields" "pub rest" for j f rest
      using that pub_one by (cases j) auto
    have fields: "set [''attempt'', ''available_at''] \<subseteq> set public_fields"
      "set [''kind'', ''priority'', ''max_attempts'', ''deadline''] \<subseteq> set public_fields"
      "set [''max_attempts''] \<subseteq> set public_fields" "''status'' \<in> set public_fields"
      "''checkpoint_sha256'' \<in> set public_fields" "''reason_code'' \<in> set public_fields"
      "''diagnostic_sha256'' \<in> set public_fields"
      by (simp_all add: public_fields_def)
    have "pub (public_job_payload event_type payload)"
      unfolding public_job_payload_def Let_def pub_append
      by (intro conjI pub_if pub_copy pub_case pub_heartbeat pub_one pub_Nil fields)
    then show ?thesis by (simp add: pub_def)
  qed
next
  assume k: "k \<notin> set disclosed_fields"
  have same: "map_of (dict_set k v payload) f = map_of payload f" if "f \<in> set disclosed_fields" for f
    using k that by (auto simp: map_of_dict_set)
  have cf: "copy_fields ks (dict_set k v payload) = copy_fields ks payload" if "set ks \<subseteq> set disclosed_fields" for ks
    using that same by (intro copy_fields_cong) auto
  have jg: "jget (dict_set k v payload) f = jget payload f" if "f \<in> set disclosed_fields" for f
    using same [OF that] by (simp add: jget_def)
  have subs: "set [''attempt'', ''available_at''] \<subseteq> set disclosed_fields"
    "set [''kind'', ''priority'', ''max_attempts'', ''deadline''] \<subseteq> set disclosed_fields"
    "set [''max_attempts''] \<subseteq> set disclosed_fields" "set [''error'', ''reason''] \<subseteq> set disclosed_fields"
    "''checkpoint_sha256'' \<in> set disclosed_fields" "''checkpoint'' \<in> set disclosed_fields"
    by (simp_all add: disclosed_fields_def)
  show "public_job_payload event_type (dict_set k v payload) = public_job_payload event_type payload"
    unfolding public_job_payload_def cf [OF subs(1)] cf [OF subs(2)] cf [OF subs(3)] cf [OF subs(4)]
      jg [OF subs(5)] jg [OF subs(6)] ..
qed

section \<open>Witnesses\<close>

definition sample_accept :: append_req where
  "sample_accept =
     (event_req ''th'' ''turn.accepted'' [(''input'', JStr ''hi'')])
       \<lparr>rq_turn := Some ''tn'', rq_config := Some ''cfg'', rq_key := Some ''accept''\<rparr>"

definition sample_log :: db where
  "sample_log = snd (append_event sample_env sample_accept empty_db)"

definition sample_delta :: append_req where
  "sample_delta = (event_req ''th'' ''item.delta'' [(''text'', JStr ''x'')])\<lparr>rq_turn := Some ''tn''\<rparr>"

lemma sample_timing [simp]: "timing_law (env_timing sample_env)"
  by (simp add: timing_law_def sample_env_def)

lemma sample_accept_runs:
  "append_in_transaction sample_env sample_accept empty_db = Inr (hd (db_events sample_log), sample_log)"
  by code_simp

lemma sample_log_ok: "events_ok sample_log"
proof -
  have "log_step empty_db sample_log"
    by (rule keepsD [OF log_step_append sample_accept_runs])
  then show ?thesis by (simp add: log_step_def events_ok_def empty_db_def thread_events_def head_def)
qed

theorem append_replay_witness:
  "\<exists>e'. append_in_transaction sample_env sample_accept sample_log = Inr (e', sample_log) \<and>
     ev_id e' = ''evt_0'' \<and> ev_seq e' = 1"
proof -
  have "ev_id (hd (db_events sample_log)) = ''evt_0''" "ev_seq (hd (db_events sample_log)) = 1" by code_simp+
  then show ?thesis
    using append_replay [OF sample_timing _ sample_accept_runs, of "''accept''"] by (simp add: sample_accept_def)
qed

theorem append_key_conflict_witness:
  "append_event sample_env (sample_accept\<lparr>rq_type := ''turn.queued''\<rparr>) sample_log =
     (Inl (IdempotencyConflictError ''event idempotency key was reused''), sample_log)"
proof -
  let ?r = "sample_accept\<lparr>rq_type := ''turn.queued''\<rparr>"
  have "prepared sample_env ?r sample_log = Some ?r"
    "find (\<lambda>e. ev_thread e = rq_thread ?r \<and> ev_key e = Some ''accept'') (db_events sample_log) =
       Some (hd (db_events sample_log))"
    "rq_key ?r = Some ''accept''" "\<not> same_request ?r (hd (db_events sample_log))"
    by code_simp+
  then show ?thesis by (intro append_key_conflict)
qed

theorem turn_context_immutable_witness:
  "\<exists>e s'. append_in_transaction sample_env sample_delta sample_log = Inr (e, s') \<and> ev_config e = Some ''cfg''"
proof -
  have a: "accepted_event (rq_thread sample_delta) ''tn'' sample_log = Some (hd (db_events sample_log))"
    "rq_turn sample_delta = Some ''tn''" "rq_type sample_delta \<noteq> ''turn.accepted''"
    "ev_config (hd (db_events sample_log)) = Some ''cfg''"
    by code_simp+
  have "case append_in_transaction sample_env sample_delta sample_log of
      Inl _ \<Rightarrow> False | Inr (e, s') \<Rightarrow> length (db_events s') = 2"
    by code_simp
  then obtain e s' where run: "append_in_transaction sample_env sample_delta sample_log = Inr (e, s')"
    and "length (db_events s') = 2"
    by (auto split: sum.splits)
  moreover have "length (db_events sample_log) = 1" by code_simp
  ultimately have "s' \<noteq> sample_log" by auto
  then show ?thesis using turn_context_immutable [OF a(1-3) run] run a(4) by auto
qed

theorem turn_context_drift_refused_witness:
  "\<exists>err. append_event sample_env (sample_delta\<lparr>rq_config := Some ''other''\<rparr>) sample_log = (Inl err, sample_log)"
proof -
  let ?r = "sample_delta\<lparr>rq_config := Some ''other''\<rparr>"
  have "accepted_event (rq_thread ?r) ''tn'' sample_log = Some (hd (db_events sample_log))"
    "rq_turn ?r = Some ''tn''" "rq_type ?r \<noteq> ''turn.accepted''" "drifted ?r (hd (db_events sample_log))"
    by code_simp+
  then show ?thesis by (rule turn_context_drift_refused)
qed

theorem page_correct_witness:
  "\<exists>pg. page sample_env ''th'' 0 10 sample_log = Inr pg \<and> map ev_seq (pg_events pg) = [1] \<and> \<not> pg_has_more pg"
proof -
  have "case page sample_env ''th'' 0 10 sample_log of Inl _ \<Rightarrow> False | Inr _ \<Rightarrow> True" by code_simp
  then obtain pg where pg: "page sample_env ''th'' 0 10 sample_log = Inr pg" by (auto split: sum.splits)
  moreover have "head ''th'' sample_log = 1" by code_simp
  ultimately show ?thesis using page_correct [OF sample_log_ok pg] by (auto simp: upt_rec)
qed

theorem public_job_payload_discloses_witness:
  "public_job_payload ''job.leased'' (dict_set ''lease_token'' (JStr ''secret'') [(''attempt'', JInt 1)]) =
     public_job_payload ''job.leased'' [(''attempt'', JInt 1)]"
  using public_job_payload_discloses [of "''job.leased''" "[(''attempt'', JInt 1)]" "''lease_token''" "JStr ''secret''"]
  by (simp add: disclosed_fields_def)

end
