(* ===== verification/Reasoning.thy ===== *)
theory Reasoning
  imports Events
begin

text \<open>
  \<^verbatim>\<open>ecorex/runtime/reasoning.py\<close>: the durable summary of a turn's reasoning.  At most one reasoning
  Item of a turn is visible; a delta of the same atom extends it, a delta of another atom archives it
  and opens a new one, and the end of the turn collapses it after the terminal fact.  The content
  contract \<^verbatim>\<open>ReasoningItemContent\<close> of \<^verbatim>\<open>ecorex/protocol/models.py\<close> is \<open>reasoning_content\<close> with
  \<open>parse_reasoning\<close> and \<open>dump_reasoning\<close>; a revision is a JSON integer.
\<close>

section \<open>Contract\<close>

record reasoning_content =
  rc_atom_id :: string
  rc_text :: string
  rc_revision :: int
  rc_presentation :: reasoning_presentation
  rc_archived_reason :: "string option"

definition reasoning_ok :: "reasoning_content \<Rightarrow> bool" where
  "reasoning_ok c =
     (text_bounds 1 256 (rc_atom_id c) \<and> text_bounds 1 1000000 (rc_text c) \<and> 1 \<le> rc_revision c \<and>
      pred_option (text_bounds 0 256) (rc_archived_reason c))"

definition parse_presentation :: "string \<Rightarrow> reasoning_presentation option" where
  "parse_presentation p =
     (if p = ''visible'' then Some PresentationVisible
      else if p = ''collapsed'' then Some PresentationCollapsed
      else if p = ''archived'' then Some PresentationArchived else None)"

definition get_int :: "jobj \<Rightarrow> string \<Rightarrow> int option" where
  "get_int d k = (case map_of d k of Some (JInt i) \<Rightarrow> Some i | _ \<Rightarrow> None)"

definition reasoning_fields :: "string list" where
  "reasoning_fields = [''channel'', ''atom_id'', ''text'', ''revision'', ''presentation'', ''archived_reason'']"

definition parse_reasoning :: "json \<Rightarrow> reasoning_content option" where
  "parse_reasoning j =
     (case j of
        JObj d \<Rightarrow>
          (if \<not> list_all (\<lambda>k. k \<in> set reasoning_fields) (map fst d)
              \<or> map_of d ''channel'' \<noteq> None \<and> map_of d ''channel'' \<noteq> Some (JStr ''reasoning_summary'')
           then None
           else
             obind (get_str d ''atom_id'') (\<lambda>atom.
             obind (get_str d ''text'') (\<lambda>text.
             obind (get_int d ''revision'') (\<lambda>revision.
             obind (obind (get_str d ''presentation'') parse_presentation) (\<lambda>presentation.
             obind (get_opt_str d ''archived_reason'') (\<lambda>reason.
             let c = \<lparr>rc_atom_id = atom, rc_text = text, rc_revision = revision,
                      rc_presentation = presentation, rc_archived_reason = reason\<rparr>
             in if reasoning_ok c then Some c else None))))))
      | _ \<Rightarrow> None)"

definition reasoning_dump_fields :: "reasoning_content \<Rightarrow> jobj" where
  "reasoning_dump_fields c =
     [(''channel'', JStr ''reasoning_summary''), (''atom_id'', JStr (rc_atom_id c)),
      (''text'', JStr (rc_text c)), (''revision'', JInt (rc_revision c)),
      (''presentation'', JStr (reasoning_presentation_text (rc_presentation c))),
      (''archived_reason'', jopt (rc_archived_reason c))]"

definition dump_reasoning :: "reasoning_content \<Rightarrow> json" where
  "dump_reasoning c = json_canon (JObj (reasoning_dump_fields c))"

section \<open>Reading the visible summary\<close>

definition content_error :: err where
  "content_error = ConflictError ''reasoning Item content violates its durable contract''"

fun parse_rows :: "item_row list \<Rightarrow> err + (item_row \<times> reasoning_content) list" where
  "parse_rows [] = Inr []"
| "parse_rows (r # rs) =
     (case parse_reasoning (it_content r) of
        None \<Rightarrow> Inl content_error
      | Some c \<Rightarrow> (case parse_rows rs of Inl e \<Rightarrow> Inl e | Inr cs \<Rightarrow> Inr ((r, c) # cs)))"

definition reasoning_rows :: "string \<Rightarrow> db \<Rightarrow> item_row list" where
  "reasoning_rows turn_id s =
     sort_key (\<lambda>r. (it_created_at r, it_id r))
       (filter (\<lambda>r. it_turn r = turn_id \<and> it_kind r = KindReasoning) (db_items s))"

definition visible_rows :: "string \<Rightarrow> (item_row \<times> reasoning_content) list dbtxn" where
  "visible_rows turn_id =
     bind (read (reasoning_rows turn_id)) (\<lambda>rows.
     bind (lift_result (parse_rows rows)) (\<lambda>parsed.
     bind (ret (filter (\<lambda>(r, c). rc_presentation c = PresentationVisible) parsed)) (\<lambda>visible.
     seq (require (length visible \<le> 1) (ConflictError ''a Turn cannot expose more than one reasoning Item''))
       (ret visible))))"

section \<open>Collapsing at the end of a turn\<close>

definition update_content :: "string \<Rightarrow> json \<Rightarrow> int \<Rightarrow> unit dbtxn" where
  "update_content item_id content now =
     update_item item_id (\<lambda>r. r\<lparr>it_content := content, it_updated_at := now\<rparr>)"

definition archive_visible_reasoning_in_transaction ::
    "env \<Rightarrow> string \<Rightarrow> string \<Rightarrow> string \<Rightarrow> turn_status \<Rightarrow> string option \<Rightarrow> int \<Rightarrow> unit dbtxn" where
  "archive_visible_reasoning_in_transaction E thread_id turn_id terminal_event_id terminal_status reason now =
     seq (require (turn_terminal terminal_status)
           (ValueError ''reasoning terminal archive requires a terminal Turn status'')) (
     bind (read (\<lambda>s. find (\<lambda>e. ev_id e = terminal_event_id) (db_events s))) (\<lambda>fact.
     seq (require (case fact of
            None \<Rightarrow> False
          | Some e \<Rightarrow> ev_thread e = thread_id \<and> ev_turn e = Some turn_id \<and> ev_type e = ''turn.status_changed'' \<and>
                      jget (ev_payload e) ''to'' = JStr (turn_status_text terminal_status))
          (ConflictError ''reasoning terminal archive requires its preceding terminal Turn fact'')) (
     bind (visible_rows turn_id) (\<lambda>visible.
     case visible of
       [] \<Rightarrow> ret ()
     | (row, current) # _ \<Rightarrow>
         (let revision = rc_revision current + 1;
              archived_reason = (case or_else reason None of
                 Some r \<Rightarrow> r | None \<Rightarrow> turn_status_text terminal_status)
          in bind (append_in_transaction E
               ((event_req thread_id ''reasoning.archived''
                  [(''revision'', JInt revision), (''presentation'', JStr ''collapsed''),
                   (''reason'', JStr archived_reason),
                   (''terminal_status'', JStr (turn_status_text terminal_status))])
                 \<lparr>rq_turn := Some turn_id, rq_item := Some (it_id row), rq_causation := Some terminal_event_id,
                  rq_key := Some (it_id row @ '':reasoning-terminal:'' @ turn_status_text terminal_status),
                  rq_created_at := Some now\<rparr>)) (\<lambda>_.
             update_content (it_id row)
               (dump_reasoning (current\<lparr>rc_revision := revision, rc_presentation := PresentationCollapsed,
                                        rc_archived_reason := Some archived_reason\<rparr>)) now))))))"

section \<open>Deltas\<close>

definition require_turn :: "string \<Rightarrow> turn_row dbtxn" where
  "require_turn turn_id =
     bind (read (find_turn turn_id)) (\<lambda>t.
     case t of None \<Rightarrow> raise (NotFoundError ''turn does not exist'') | Some r \<Rightarrow> ret r)"

definition require_item :: "string \<Rightarrow> item_row dbtxn" where
  "require_item item_id =
     bind (read (find_item item_id)) (\<lambda>t.
     case t of None \<Rightarrow> raise (NotFoundError ''item does not exist'') | Some r \<Rightarrow> ret r)"

definition replay_delta :: "event_row \<Rightarrow> string \<Rightarrow> string \<Rightarrow> item_row dbtxn" where
  "replay_delta dup atom_id delta =
     (if ev_type dup \<notin> set [''reasoning.replaced'', ''reasoning.delta'']
         \<or> jget (ev_payload dup) ''atom_id'' \<noteq> JStr atom_id \<or> jget (ev_payload dup) ''delta'' \<noteq> JStr delta
      then raise (ConflictError ''reasoning idempotency key was reused with different content'')
      else case ev_item dup of
        None \<Rightarrow> raise (ConflictError ''reasoning idempotency key was reused with different content'')
      | Some i \<Rightarrow>
          bind (read (find_item i)) (\<lambda>row.
          case row of None \<Rightarrow> raise (ConflictError ''reasoning event has no durable Item'') | Some r \<Rightarrow> ret r))"

definition extend_atom ::
    "env \<Rightarrow> turn_row \<Rightarrow> item_row \<Rightarrow> reasoning_content \<Rightarrow> string \<Rightarrow> string \<Rightarrow> string \<Rightarrow> int \<Rightarrow> item_row dbtxn" where
  "extend_atom E turn row current atom_id delta key now =
     (let text = rc_text current @ delta; revision = rc_revision current + 1
      in seq (require (py_len text \<le> 1000000) (ConflictError ''reasoning summary exceeded its durable size limit'')) (
         bind (append_in_transaction E
            ((event_req (tn_thread turn) ''reasoning.delta''
               [(''atom_id'', JStr atom_id), (''delta'', JStr delta), (''revision'', JInt revision)])
              \<lparr>rq_turn := Some (tn_id turn), rq_item := Some (it_id row), rq_key := Some key,
               rq_created_at := Some now\<rparr>)) (\<lambda>_.
         seq (update_content (it_id row)
               (dump_reasoning (current\<lparr>rc_text := text, rc_revision := revision\<rparr>)) now)
           (require_item (it_id row)))))"

definition archive_previous :: "item_row \<Rightarrow> reasoning_content \<Rightarrow> int \<Rightarrow> unit dbtxn" where
  "archive_previous previous prior now =
     update_item (it_id previous)
       (\<lambda>r. r\<lparr>it_status := ItemCompleted,
              it_content := dump_reasoning (prior\<lparr>rc_revision := rc_revision prior + 1,
                rc_presentation := PresentationArchived, rc_archived_reason := Some ''replaced_by_next_atom''\<rparr>),
              it_updated_at := now\<rparr>)"

definition open_atom ::
    "env \<Rightarrow> turn_row \<Rightarrow> (item_row \<times> reasoning_content) option \<Rightarrow> string \<Rightarrow> string \<Rightarrow> string \<Rightarrow> int \<Rightarrow> item_row dbtxn" where
  "open_atom E turn previous atom_id delta key now =
     seq (case previous of None \<Rightarrow> ret () | Some (p, c) \<Rightarrow> archive_previous p c now) (
     bind (fresh_id E ''itm'') (\<lambda>item_id.
     bind (append_in_transaction E
        ((event_req (tn_thread turn) ''reasoning.replaced''
           [(''atom_id'', JStr atom_id), (''delta'', JStr delta), (''revision'', JInt 1),
            (''presentation'', JStr ''visible''),
            (''previous_item_id'', jopt (map_option (\<lambda>(p, c). it_id p) previous)),
            (''previous_revision'', (case previous of None \<Rightarrow> JNull | Some (p, c) \<Rightarrow> JInt (rc_revision c + 1))),
            (''previous_presentation'', (case previous of None \<Rightarrow> JNull | Some _ \<Rightarrow> JStr ''archived''))])
          \<lparr>rq_turn := Some (tn_id turn), rq_item := Some item_id, rq_key := Some key,
           rq_created_at := Some now\<rparr>)) (\<lambda>_.
     seq (insert_item
           \<lparr>it_id = item_id, it_thread = tn_thread turn, it_turn = tn_id turn, it_kind = KindReasoning,
            it_status = ItemInProgress,
            it_content = dump_reasoning \<lparr>rc_atom_id = atom_id, rc_text = delta, rc_revision = 1,
               rc_presentation = PresentationVisible, rc_archived_reason = None\<rparr>,
            it_client_message = None, it_created_at = now, it_updated_at = now\<rparr>)
       (require_item item_id))))"

definition apply_delta_in_transaction ::
    "env \<Rightarrow> string \<Rightarrow> string \<Rightarrow> string \<Rightarrow> string \<Rightarrow> int \<Rightarrow> item_row dbtxn" where
  "apply_delta_in_transaction E turn_id atom_id delta key now =
     bind (require_turn turn_id) (\<lambda>turn.
     seq (require (\<not> turn_terminal (tn_status turn)) (ConflictError ''terminal turns cannot accept reasoning deltas'')) (
     bind (read (\<lambda>s. find (\<lambda>e. ev_thread e = tn_thread turn \<and> ev_key e = Some key) (db_events s))) (\<lambda>dup.
     case dup of
       Some d \<Rightarrow> replay_delta d atom_id delta
     | None \<Rightarrow>
         bind (visible_rows turn_id) (\<lambda>visible.
         case visible of
           [] \<Rightarrow> open_atom E turn None atom_id delta key now
         | (row, current) # _ \<Rightarrow>
             if rc_atom_id current = atom_id then extend_atom E turn row current atom_id delta key now
             else open_atom E turn (Some (row, current)) atom_id delta key now))))"

definition apply_delta ::
    "env \<Rightarrow> string \<Rightarrow> string \<Rightarrow> string \<Rightarrow> string \<Rightarrow> int \<Rightarrow> db \<Rightarrow> (err + item_row) \<times> db" where
  "apply_delta E turn_id atom_id delta key now s =
     (if atom_id = [] \<or> py_len atom_id > 256 then (Inl (ValueError ''reasoning atom_id is invalid''), s)
      else if delta = [] \<or> env_strip E delta = []
      then (Inl (ValueError ''the first-class reasoning delta must contain visible text''), s)
      else if py_len delta > 1000000 then (Inl (ValueError ''reasoning delta is too large''), s)
      else if key = [] then (Inl (ValueError ''reasoning delta idempotency_key is required''), s)
      else transaction (apply_delta_in_transaction E turn_id atom_id delta key now) s)"

end
