(* ===== verification/Gate.thy ===== *)
theory Gate
  imports Digest
begin

text \<open>
  \<^verbatim>\<open>RuntimeExecutionGate\<close> of \<^verbatim>\<open>ecorex/runtime/invariant_guard.py\<close> and \<^verbatim>\<open>RecoveryExecutionGate\<close> of
  \<^verbatim>\<open>ecorex/runtime/recovery_gate.py\<close>: the process-local authorities that fence every Runtime write.
  The fields of a gate are the record \<open>gate\<close>; nonces, clocks and the Unicode folding of diagnostic
  codes are arguments; signatures are real HMAC-SHA256 values.  Each operation that the code runs
  under the gate's lock is one function.  Closing has two phases that other threads can observe
  separately, the lock-free signal (\<open>signal_closure\<close>, \<open>publish_critical\<close>) and the locked bookkeeping
  (\<open>apply_report\<close>, \<open>apply_critical\<close>); \<open>gate_step\<close> interleaves all of them.

  Shown: the gate refines a four-phase protocol (unaudited, open, draining, closed) in which closed
  is final; a permit accepted at a commit proves that the gate was healthy, in the same epoch, at
  every moment since the permit was issued; while an update drain is active only the jobs leased
  before it keep their authority; forged or foreign permits are refused.
\<close>

section \<open>State\<close>

datatype gate_status = GateHealthy | GateCritical

record permit =
  pm_gate :: string
  pm_epoch :: nat
  pm_scope :: string
  pm_subject :: string
  pm_nonce :: string
  pm_signature :: string

record drain_permit =
  dp_gate :: string
  dp_epoch :: nat
  dp_subject :: string
  dp_nonce :: string
  dp_signature :: string

record gate =
  g_id :: string
  g_secret :: string
  g_epoch :: nat
  g_closure :: bool
  g_request :: "(string \<times> int) option"
  g_status :: gate_status
  g_checked_at :: "int option"
  g_codes :: "string list"
  g_count :: nat
  g_error :: "string option"
  g_latched :: bool
  g_drain :: "drain_permit option"
  g_allowed :: "string list"

definition new_gate :: "string \<Rightarrow> string \<Rightarrow> gate" where
  "new_gate gate_id secret =
     \<lparr>g_id = gate_id, g_secret = secret, g_epoch = 0, g_closure = False, g_request = None,
      g_status = GateCritical, g_checked_at = None, g_codes = [], g_count = 0,
      g_error = Some ''invariant_audit_required'', g_latched = False, g_drain = None, g_allowed = []\<rparr>"

definition is_safe_code :: "string \<Rightarrow> bool" where
  "is_safe_code v =
     (v \<noteq> [] \<and> length v \<le> 160 \<and> list_all (\<lambda>c. lower_alpha c \<or> c \<in> set ''0123456789_:-'') v)"

definition is_safe_scope :: "string \<Rightarrow> bool" where
  "is_safe_scope v =
     (v \<noteq> [] \<and> length v \<le> 64 \<and> lower_alpha (hd v) \<and>
      list_all (\<lambda>c. lower_alpha c \<or> c \<in> set ''0123456789_.:-'') v)"

text \<open>\<open>norm\<close> is \<^verbatim>\<open>str.strip().casefold()\<close>.\<close>

definition safe_code :: "(string \<Rightarrow> string) \<Rightarrow> string \<Rightarrow> string \<Rightarrow> string" where
  "safe_code norm value fallback = (if is_safe_code (norm value) then norm value else fallback)"

definition nul_join :: "string list \<Rightarrow> string" where
  "nul_join xs = join [CHR 0x00] xs"

section \<open>Permits\<close>

definition sign_permit :: "gate \<Rightarrow> nat \<Rightarrow> string \<Rightarrow> string \<Rightarrow> string \<Rightarrow> string" where
  "sign_permit g epoch scope subject nonce =
     hmac_sha256 (g_secret g) (nul_join [g_id g, str_nat epoch, scope, subject, nonce])"

definition sign_drain :: "gate \<Rightarrow> nat \<Rightarrow> string \<Rightarrow> string \<Rightarrow> string" where
  "sign_drain g epoch subject nonce =
     hmac_sha256 (g_secret g) (nul_join [g_id g, str_nat epoch, ''runtime_update_drain'', subject, nonce])"

definition denied :: "string \<Rightarrow> err" where
  "denied m = RuntimeExecutionDenied m"

definition gate_open :: "gate \<Rightarrow> bool" where
  "gate_open g = (g_status g = GateHealthy \<and> \<not> g_latched g \<and> \<not> g_closure g \<and> g_drain g = None)"

definition issue_permit :: "gate \<Rightarrow> string \<Rightarrow> string \<Rightarrow> string \<Rightarrow> err + permit" where
  "issue_permit g scope subject nonce =
     (if \<not> is_safe_scope scope then Inl (ValueError ''execution permit scope is invalid'')
      else if subject = [] \<or> py_len subject > 512 then Inl (ValueError ''execution permit subject is invalid'')
      else if \<not> gate_open g then Inl (denied ''runtime execution epoch is closed'')
      else Inr \<lparr>pm_gate = g_id g, pm_epoch = g_epoch g, pm_scope = scope, pm_subject = subject,
                pm_nonce = nonce, pm_signature = sign_permit g (g_epoch g) scope subject nonce\<rparr>)"

definition assert_permit :: "gate \<Rightarrow> permit \<Rightarrow> err + unit" where
  "assert_permit g p =
     (if pm_gate p \<noteq> g_id g \<or> pm_epoch p \<noteq> g_epoch g
         \<or> pm_signature p \<noteq> sign_permit g (pm_epoch p) (pm_scope p) (pm_subject p) (pm_nonce p)
      then Inl (denied ''runtime execution permit is stale'')
      else if g_status g \<noteq> GateHealthy \<or> g_latched g \<or> g_closure g
      then Inl (denied ''runtime execution epoch is closed'')
      else if g_drain g \<noteq> None \<and> (pm_scope p \<noteq> ''durable_job'' \<or> pm_subject p \<notin> set (g_allowed g))
      then Inl (denied ''runtime execution is draining'')
      else Inr ())"

section \<open>Draining\<close>

definition begin_drain :: "gate \<Rightarrow> string \<Rightarrow> string list \<Rightarrow> string \<Rightarrow> err + drain_permit \<times> gate" where
  "begin_drain g subject allowed nonce =
     (if subject = [] \<or> py_len subject > 512 then Inl (ValueError ''runtime drain subject is invalid'')
      else if list_ex (\<lambda>v. v = [] \<or> py_len v > 512) allowed
      then Inl (ValueError ''runtime drain durable subjects are invalid'')
      else if \<not> gate_open g then Inl (denied ''runtime execution epoch is closed'')
      else let p = \<lparr>dp_gate = g_id g, dp_epoch = g_epoch g, dp_subject = subject, dp_nonce = nonce,
                    dp_signature = sign_drain g (g_epoch g) subject nonce\<rparr>
           in Inr (p, g\<lparr>g_allowed := allowed, g_drain := Some p\<rparr>))"

definition assert_drain :: "gate \<Rightarrow> drain_permit \<Rightarrow> err + unit" where
  "assert_drain g p =
     (if g_drain g \<noteq> Some p \<or> dp_gate p \<noteq> g_id g \<or> dp_epoch p \<noteq> g_epoch g
         \<or> dp_signature p \<noteq> sign_drain g (dp_epoch p) (dp_subject p) (dp_nonce p)
      then Inl (denied ''runtime drain permit is stale'') else Inr ())"

definition cancel_drain :: "gate \<Rightarrow> drain_permit \<Rightarrow> err + gate" where
  "cancel_drain g p =
     (case assert_drain g p of
        Inl e \<Rightarrow> Inl e
      | Inr _ \<Rightarrow> Inr (g\<lparr>g_drain := None, g_allowed := []\<rparr>))"

section \<open>Audit reports and closure\<close>

text \<open>An audit report: the instant and the codes of its violations, in order.\<close>

record report =
  rp_checked_at :: int
  rp_violations :: "string list"

definition signal_closure :: "gate \<Rightarrow> gate" where
  "signal_closure g = g\<lparr>g_closure := True\<rparr>"

definition apply_report :: "(string \<Rightarrow> string) \<Rightarrow> report \<Rightarrow> gate \<Rightarrow> gate" where
  "apply_report norm r g =
     (let g = g\<lparr>g_checked_at := Some (rp_checked_at r)\<rparr>
      in if rp_violations r \<noteq> [] then
           g\<lparr>g_epoch := (if g_latched g then g_epoch g else Suc (g_epoch g)),
             g_status := GateCritical, g_latched := True,
             g_codes := sort (remdups (map (\<lambda>c. safe_code norm c ''invalid_invariant_violation_code'')
                                          (rp_violations r))),
             g_count := length (rp_violations r), g_error := None\<rparr>
         else if \<not> g_latched g \<and> \<not> g_closure g then
           g\<lparr>g_epoch := (if g_status g = GateHealthy then g_epoch g else Suc (g_epoch g)),
             g_status := GateHealthy, g_codes := [], g_count := 0, g_error := None\<rparr>
         else g)"

definition record_report :: "(string \<Rightarrow> string) \<Rightarrow> report \<Rightarrow> gate \<Rightarrow> gate" where
  "record_report norm r g =
     apply_report norm r (if rp_violations r \<noteq> [] then signal_closure g else g)"

text \<open>\<^verbatim>\<open>_publish_critical_request\<close>: the first writer wins.\<close>

definition publish_critical :: "string \<Rightarrow> int \<Rightarrow> gate \<Rightarrow> gate \<times> bool" where
  "publish_critical code checked_at g =
     (if g_request g \<noteq> None then (g, False)
      else (g\<lparr>g_request := Some (code, checked_at), g_closure := True\<rparr>, True))"

definition apply_critical :: "string \<times> int \<Rightarrow> gate \<Rightarrow> gate" where
  "apply_critical r g =
     g\<lparr>g_epoch := (if g_latched g then g_epoch g else Suc (g_epoch g)),
       g_status := GateCritical, g_latched := True,
       g_checked_at := Some (snd r), g_error := Some (fst r)\<rparr>"

definition mark_critical :: "(string \<Rightarrow> string) \<Rightarrow> string \<Rightarrow> int \<Rightarrow> gate \<Rightarrow> gate" where
  "mark_critical norm error_code checked_at g =
     (let code = safe_code norm error_code ''invariant_audit_failed:invalid_error_code'';
          (g', published) = publish_critical code checked_at g
      in if published then apply_critical (code, checked_at) g' else g')"

text \<open>\<^verbatim>\<open>request_critical\<close>: when the lock is held, the bookkeeping is left to a later thread.\<close>

definition request_critical :: "(string \<Rightarrow> string) \<Rightarrow> string \<Rightarrow> int \<Rightarrow> bool \<Rightarrow> gate \<Rightarrow> gate" where
  "request_critical norm error_code checked_at lock_free g =
     (let code = safe_code norm error_code ''invariant_audit_failed:invalid_error_code'';
          (g', published) = publish_critical code checked_at g
      in if published \<and> lock_free then apply_critical (code, checked_at) g' else g')"

definition finish_requested_critical :: "gate \<Rightarrow> gate" where
  "finish_requested_critical g =
     (case g_request g of None \<Rightarrow> g | Some r \<Rightarrow> apply_critical r g)"

definition record_audit_exception :: "(string \<Rightarrow> string) \<Rightarrow> string \<Rightarrow> int \<Rightarrow> gate \<Rightarrow> gate" where
  "record_audit_exception norm error_type checked_at g =
     mark_critical norm (''invariant_audit_failed:'' @ safe_code norm error_type ''unknown'') checked_at g"

record gate_snapshot =
  sn_status :: gate_status
  sn_checked_at :: "int option"
  sn_codes :: "string list"
  sn_count :: nat
  sn_error :: "string option"
  sn_epoch :: nat
  sn_draining :: bool

definition snapshot :: "gate \<Rightarrow> gate_snapshot" where
  "snapshot g =
     \<lparr>sn_status = (if g_closure g then GateCritical else g_status g),
      sn_checked_at = (if g_closure g then (case g_request g of Some r \<Rightarrow> Some (snd r) | None \<Rightarrow> g_checked_at g)
                       else g_checked_at g),
      sn_codes = g_codes g, sn_count = g_count g,
      sn_error = (if g_closure g then (case g_request g of Some r \<Rightarrow> Some (fst r) | None \<Rightarrow> g_error g)
                  else g_error g),
      sn_epoch = (if g_closure g \<and> \<not> g_latched g then Suc (g_epoch g) else g_epoch g),
      sn_draining = (g_drain g \<noteq> None)\<rparr>"

definition snapshot_healthy :: "gate_snapshot \<Rightarrow> bool" where
  "snapshot_healthy n = (sn_status n = GateHealthy \<and> \<not> sn_draining n)"

section \<open>Interleavings\<close>

inductive gate_step :: "gate \<Rightarrow> gate \<Rightarrow> bool" where
  signal: "gate_step g (signal_closure g)"
| report: "rp_violations r \<noteq> [] \<longrightarrow> g_closure g \<Longrightarrow> gate_step g (apply_report norm r g)"
| publish: "gate_step g (fst (publish_critical code t g))"
| finish: "gate_step g (finish_requested_critical g)"
| drain: "begin_drain g subject allowed nonce = Inr (p, g') \<Longrightarrow> gate_step g g'"
| undrain: "cancel_drain g p = Inr g' \<Longrightarrow> gate_step g g'"

inductive gate_steps :: "gate \<Rightarrow> gate \<Rightarrow> bool" where
  refl: "gate_steps g g"
| step: "gate_steps g h \<Longrightarrow> gate_step h k \<Longrightarrow> gate_steps g k"

lemma gate_steps_trans: "gate_steps h k \<Longrightarrow> gate_steps g h \<Longrightarrow> gate_steps g k"
  by (induction rule: gate_steps.induct) (auto intro: gate_steps.intros)

text \<open>The operations are runs of these steps.\<close>

lemma record_report_steps: "gate_steps g (record_report norm r g)"
proof -
  have "gate_step (if rp_violations r \<noteq> [] then signal_closure g else g) (record_report norm r g)"
    by (auto simp: record_report_def signal_closure_def intro: gate_step.report)
  moreover have "gate_steps g (if rp_violations r \<noteq> [] then signal_closure g else g)"
    by (auto intro: gate_steps.intros gate_step.signal)
  ultimately show ?thesis by (rule gate_steps.step [rotated])
qed

lemma request_critical_steps: "gate_steps g (request_critical norm code t lock_free g)"
proof -
  let ?c = "safe_code norm code ''invariant_audit_failed:invalid_error_code''"
  have p: "gate_steps g (fst (publish_critical ?c t g))" by (auto intro: gate_steps.intros gate_step.publish)
  show ?thesis
  proof (cases "g_request g = None \<and> lock_free")
    case True
    then have "request_critical norm code t lock_free g = finish_requested_critical (fst (publish_critical ?c t g))"
      by (simp add: request_critical_def publish_critical_def finish_requested_critical_def Let_def)
    then show ?thesis using gate_steps.step [OF p gate_step.finish] by simp
  next
    case False
    then show ?thesis using p by (auto simp: request_critical_def publish_critical_def Let_def split: if_splits)
  qed
qed

lemma mark_critical_steps: "gate_steps g (mark_critical norm code t g)"
  using request_critical_steps [of g norm code t True] by (simp add: mark_critical_def request_critical_def)

section \<open>Invariants\<close>

definition gate_ok :: "gate \<Rightarrow> bool" where
  "gate_ok g =
     ((g_latched g \<longrightarrow> g_closure g \<and> g_status g = GateCritical) \<and>
      (g_request g \<noteq> None \<longrightarrow> g_closure g) \<and>
      (g_drain g \<noteq> None \<longrightarrow> g_status g = GateHealthy \<or> g_latched g))"

lemma new_gate_ok: "gate_ok (new_gate i k)"
  by (simp add: gate_ok_def new_gate_def)

lemmas gate_op_defs =
  signal_closure_def apply_report_def publish_critical_def finish_requested_critical_def apply_critical_def
  begin_drain_def cancel_drain_def gate_open_def Let_def

lemma gate_step_ok: "gate_step g g' \<Longrightarrow> gate_ok g \<Longrightarrow> gate_ok g'"
  by (induction rule: gate_step.induct)
     (auto simp: gate_ok_def gate_op_defs split: if_splits option.splits sum.splits)

lemma gate_step_mono:
  "gate_step g g' \<Longrightarrow>
     (g_closure g \<longrightarrow> g_closure g') \<and> g_epoch g \<le> g_epoch g' \<and> g_id g' = g_id g \<and> g_secret g' = g_secret g \<and>
     (g_status g = GateHealthy \<and> g_status g' \<noteq> GateHealthy \<longrightarrow> gate_ok g \<longrightarrow> g_closure g')"
  by (induction rule: gate_step.induct)
     (auto simp: gate_ok_def gate_op_defs split: if_splits option.splits sum.splits)

lemma gate_steps_ok: "gate_steps g g' \<Longrightarrow> gate_ok g \<Longrightarrow> gate_ok g'"
  by (induction rule: gate_steps.induct) (auto intro: gate_step_ok)

lemma gate_steps_mono:
  "gate_steps g g' \<Longrightarrow> (g_closure g \<longrightarrow> g_closure g') \<and> g_epoch g \<le> g_epoch g' \<and> g_id g' = g_id g \<and>
     g_secret g' = g_secret g"
  by (induction rule: gate_steps.induct) (auto dest: gate_step_mono)

lemma healthy_persists:
  "gate_steps g g' \<Longrightarrow> gate_ok g \<Longrightarrow> g_status g = GateHealthy \<Longrightarrow> g_status g' = GateHealthy \<or> g_closure g'"
proof (induction rule: gate_steps.induct)
  case (step g h k)
  then show ?case using gate_step_mono [OF step.hyps(2)] gate_steps_ok [OF step.hyps(1)] by blast
qed simp

section \<open>Refinement\<close>

datatype phase = Unaudited | Open | Draining "string list" | Closed

inductive phase_step :: "phase \<Rightarrow> phase \<Rightarrow> bool" where
  "phase_step p p"
| "phase_step p Closed"
| "phase_step Unaudited Open"
| "phase_step Open (Draining S)"
| "phase_step (Draining S) Open"

inductive_simps phase_step_simps [simp]:
  "phase_step Unaudited q" "phase_step Open q" "phase_step (Draining S) q" "phase_step Closed q"

definition phase_of :: "gate \<Rightarrow> phase" where
  "phase_of g =
     (if g_closure g \<or> g_latched g then Closed
      else if g_status g = GateCritical then Unaudited
      else if g_drain g = None then Open else Draining (g_allowed g))"

text \<open>
  C36.  The gate refines its protocol: from unaudited it can only be opened by a clean audit, an open
  gate can be drained and a drained one reopened, and every phase can be closed, after which it
  stays closed whatever audits, drains or late bookkeeping still happen.
\<close>

theorem gate_refines_phases:
  assumes "gate_steps (new_gate i k) g" and "gate_step g g'"
  shows "phase_step (phase_of g) (phase_of g')"
proof -
  have ok: "gate_ok g" using gate_steps_ok [OF assms(1) new_gate_ok] .
  show ?thesis
    using assms(2) ok
  proof (induction rule: gate_step.induct)
    case (undrain g p g')
    then show ?case
      by (auto simp: phase_of_def gate_ok_def gate_op_defs assert_drain_def split: if_splits sum.splits)
  qed (auto simp: phase_of_def gate_ok_def gate_op_defs phase_step.intros split: if_splits option.splits)
qed

text \<open>
  What a commit relies on: a permit issued at one moment and accepted at a later one proves
  that at every moment in between the gate was healthy, not latched and not asked to close, and
  that no epoch ended.
\<close>

theorem accepted_permit_spans_healthy_epoch:
  assumes "gate_steps (new_gate i k) g" and "issue_permit g scope subject nonce = Inr p"
    and "gate_steps g h" and "gate_steps h g'" and "assert_permit g' p = Inr ()"
  shows "g_status h = GateHealthy \<and> \<not> g_latched h \<and> \<not> g_closure h \<and> g_epoch h = g_epoch g \<and>
    assert_permit h p \<noteq> Inl (denied ''runtime execution permit is stale'')"
proof -
  have ok: "gate_ok g" "gate_ok h" using gate_steps_ok [OF assms(1) new_gate_ok] gate_steps_ok [OF assms(3)] by auto
  have p: "g_status g = GateHealthy" "pm_epoch p = g_epoch g" "pm_gate p = g_id g"
    "pm_signature p = sign_permit g (pm_epoch p) (pm_scope p) (pm_subject p) (pm_nonce p)"
    using assms(2) by (auto simp: issue_permit_def gate_open_def split: if_splits)
  have g': "\<not> g_closure g'" "g_epoch g' = g_epoch g"
    using assms(5) p by (auto simp: assert_permit_def split: if_splits)
  note m1 = gate_steps_mono [OF assms(3)] and m2 = gate_steps_mono [OF assms(4)]
  have h: "\<not> g_closure h" "g_epoch h = g_epoch g" using m1 m2 g' by auto
  then have "g_status h = GateHealthy" "\<not> g_latched h"
    using healthy_persists [OF assms(3) ok(1) p(1)] ok(2) by (auto simp: gate_ok_def)
  then show ?thesis using h p m1 by (auto simp: assert_permit_def sign_permit_def denied_def)
qed

text \<open>
  Once closure has been asked for, by an audit violation, an exception, a timeout or the
  shutdown, no permit is issued or accepted ever again, no drain starts, and every observer sees a
  critical status, even before the bookkeeping of the closure is done.
\<close>

theorem closure_is_final:
  assumes "g_closure g" and "gate_steps g g'"
  shows "(\<forall>scope subject nonce. \<exists>e. issue_permit g' scope subject nonce = Inl e) \<and>
    (\<forall>p. \<exists>e. assert_permit g' p = Inl e) \<and>
    (\<forall>subject allowed nonce. \<exists>e. begin_drain g' subject allowed nonce = Inl e) \<and>
    sn_status (snapshot g') = GateCritical"
  using gate_steps_mono [OF assms(2)] assms(1)
  by (auto simp: issue_permit_def assert_permit_def begin_drain_def gate_open_def snapshot_def)

text \<open>
  While an update drain is active nothing new is admitted, and of the authorities issued before
  only those of the durable jobs named at its start are still accepted.
\<close>

theorem drain_admits_only_leased_jobs:
  assumes "begin_drain g0 subject allowed nonce = Inr (d, g)"
  shows "(\<forall>scope s n. \<exists>e. issue_permit g scope s n = Inl e) \<and>
    (\<forall>p. assert_permit g p = Inr () \<longrightarrow> pm_scope p = ''durable_job'' \<and> pm_subject p \<in> set allowed) \<and>
    assert_drain g d = Inr () \<and>
    (\<exists>g1. cancel_drain g d = Inr g1 \<and> gate_open g1)"
proof -
  obtain g_props: "gate_open g0" "g = g0\<lparr>g_allowed := allowed, g_drain := Some d\<rparr>" "assert_drain g d = Inr ()"
    using assms by (auto simp: begin_drain_def assert_drain_def sign_drain_def Let_def split: if_splits)
  then show ?thesis
    by (auto simp: issue_permit_def gate_open_def assert_permit_def cancel_drain_def split: if_splits)
qed

text \<open>
  A permit is accepted only with the signature this gate gives to its fields in the current
  epoch: changing the scope or the subject of a permit, or presenting it to another gate, needs a
  matching HMAC under that gate's secret.
\<close>

theorem accepted_permit_is_authentic:
  assumes "assert_permit g p = Inr ()"
  shows "pm_signature p =
      hmac_sha256 (g_secret g)
        (nul_join [g_id g, str_nat (g_epoch g), pm_scope p, pm_subject p, pm_nonce p]) \<and>
    sn_status (snapshot g) = GateHealthy"
  using assms by (auto simp: assert_permit_def sign_permit_def snapshot_def split: if_splits)

section \<open>The recovery lane\<close>

text \<open>\<^verbatim>\<open>RecoveryExecutionGate\<close>: open from the start, three scopes, closed for good by \<^verbatim>\<open>request_close\<close>.\<close>

record recovery_gate =
  rg_id :: string
  rg_secret :: string
  rg_epoch :: nat
  rg_closure :: bool
  rg_error :: "string option"

definition new_recovery_gate :: "string \<Rightarrow> string \<Rightarrow> recovery_gate" where
  "new_recovery_gate gate_id secret =
     \<lparr>rg_id = gate_id, rg_secret = secret, rg_epoch = 1, rg_closure = False, rg_error = None\<rparr>"

definition recovery_scopes :: "string list" where
  "recovery_scopes = [''session_logout'', ''session_password'', ''update_activate'']"

definition recovery_sign :: "recovery_gate \<Rightarrow> nat \<Rightarrow> string \<Rightarrow> string \<Rightarrow> string \<Rightarrow> string" where
  "recovery_sign g epoch scope subject nonce =
     hmac_sha256 (rg_secret g) (nul_join [rg_id g, str_nat epoch, scope, subject, nonce])"

definition recovery_issue_permit :: "recovery_gate \<Rightarrow> string \<Rightarrow> string \<Rightarrow> string \<Rightarrow> err + permit" where
  "recovery_issue_permit g scope subject nonce =
     (if scope \<notin> set recovery_scopes then Inl (ValueError ''recovery execution scope is not allowed'')
      else if subject = [] \<or> py_len subject > 512 then Inl (ValueError ''recovery execution subject is invalid'')
      else if rg_closure g then Inl (denied ''recovery execution lane is closed'')
      else Inr \<lparr>pm_gate = rg_id g, pm_epoch = rg_epoch g, pm_scope = scope, pm_subject = subject,
                pm_nonce = nonce, pm_signature = recovery_sign g (rg_epoch g) scope subject nonce\<rparr>)"

definition recovery_assert_permit :: "recovery_gate \<Rightarrow> permit \<Rightarrow> err + unit" where
  "recovery_assert_permit g p =
     (if rg_closure g then Inl (denied ''recovery execution lane is closed'')
      else if pm_gate p \<noteq> rg_id g \<or> pm_epoch p \<noteq> rg_epoch g
      then Inl (denied ''recovery execution permit is stale'')
      else if pm_signature p \<noteq> recovery_sign g (pm_epoch p) (pm_scope p) (pm_subject p) (pm_nonce p)
      then Inl (denied ''recovery execution permit is invalid'')
      else Inr ())"

text \<open>The closure is published before the locked bookkeeping.\<close>

definition recovery_signal :: "recovery_gate \<Rightarrow> recovery_gate" where
  "recovery_signal g = g\<lparr>rg_closure := True\<rparr>"

definition recovery_settle :: "string \<Rightarrow> recovery_gate \<Rightarrow> recovery_gate" where
  "recovery_settle code g =
     (if rg_error g = None then g\<lparr>rg_error := Some code, rg_epoch := Suc (rg_epoch g)\<rparr> else g)"

definition request_close :: "(string \<Rightarrow> string) \<Rightarrow> string \<Rightarrow> recovery_gate \<Rightarrow> err + recovery_gate" where
  "request_close norm error_code g =
     (if \<not> is_safe_code (norm error_code) then Inl (ValueError ''recovery execution error code is invalid'')
      else Inr (recovery_settle (norm error_code) (recovery_signal g)))"

inductive recovery_step :: "recovery_gate \<Rightarrow> recovery_gate \<Rightarrow> bool" where
  "recovery_step g (recovery_signal g)"
| "rg_closure g \<Longrightarrow> recovery_step g (recovery_settle code g)"

section \<open>The authority contract\<close>

text \<open>What a writer relies on in either gate: a check only succeeds while the lane is not closed, and a
  closed lane stays closed.\<close>

locale authority =
  fixes step :: "'g \<Rightarrow> 'g \<Rightarrow> bool" and closed :: "'g \<Rightarrow> bool" and check :: "'g \<Rightarrow> permit \<Rightarrow> err + unit"
  assumes closed_mono: "step g g' \<Longrightarrow> closed g \<Longrightarrow> closed g'"
    and check_open: "check g p = Inr () \<Longrightarrow> \<not> closed g"
begin

lemma closed_forever: "step\<^sup>*\<^sup>* g g' \<Longrightarrow> closed g \<Longrightarrow> closed g'"
  by (induction rule: rtranclp_induct) (auto dest: closed_mono)

text \<open>A commit checked at its end had an open lane throughout.\<close>

lemma checked_commit: "step\<^sup>*\<^sup>* h g' \<Longrightarrow> check g' p = Inr () \<Longrightarrow> \<not> closed h"
  using closed_forever check_open by blast

end

interpretation runtime_lane: authority gate_step g_closure assert_permit
  by unfold_locales (auto dest: gate_step_mono simp: assert_permit_def split: if_splits)

interpretation recovery_lane: authority recovery_step rg_closure recovery_assert_permit
  by unfold_locales
     (auto simp: recovery_assert_permit_def recovery_step.simps recovery_signal_def recovery_settle_def
       split: if_splits)

text \<open>
  The recovery lane is independent of the Runtime gate and closes for good: a permit is accepted
  at most while closure has not been requested, and after \<^verbatim>\<open>request_close\<close> every permit is refused.
\<close>

theorem recovery_close_is_final:
  assumes "request_close norm error_code g = Inr g'" and "recovery_step\<^sup>*\<^sup>* g' g''"
  shows "(\<forall>p. \<exists>e. recovery_assert_permit g'' p = Inl e) \<and>
    (\<forall>scope subject nonce. \<exists>e. recovery_issue_permit g'' scope subject nonce = Inl e) \<and> rg_error g' \<noteq> None"
proof -
  have g': "rg_closure g'" "rg_error g' \<noteq> None"
    using assms(1) by (auto simp: request_close_def recovery_settle_def recovery_signal_def split: if_splits)
  have "rg_closure g''" by (rule recovery_lane.closed_forever [OF assms(2) g'(1)])
  then show ?thesis using g'(2) by (auto simp: recovery_assert_permit_def recovery_issue_permit_def)
qed

section \<open>Witnesses\<close>

definition sample_gate :: gate where
  "sample_gate = record_report (\<lambda>c. c) \<lparr>rp_checked_at = 5, rp_violations = []\<rparr> (new_gate ''g1'' ''k1'')"

lemma sample_gate_steps: "gate_steps (new_gate ''g1'' ''k1'') sample_gate"
  unfolding sample_gate_def by (rule record_report_steps)

lemma sample_gate_open: "gate_open sample_gate" "g_epoch sample_gate = 1"
  by (simp_all add: sample_gate_def record_report_def apply_report_def new_gate_def gate_open_def Let_def)

theorem gate_refines_phases_witness:
  "phase_step (phase_of sample_gate) (phase_of (signal_closure sample_gate))"
  by (rule gate_refines_phases [OF sample_gate_steps gate_step.signal])

lemma sample_permit: "\<exists>p. issue_permit sample_gate ''job_lease'' ''w'' ''n'' = Inr p \<and> assert_permit sample_gate p = Inr ()"
  using sample_gate_open
  by (auto simp: issue_permit_def assert_permit_def gate_open_def is_safe_scope_def lower_alpha_def py_len_def
      utf8_continuation_def)

theorem accepted_permit_spans_healthy_epoch_witness:
  "\<exists>p. issue_permit sample_gate ''job_lease'' ''w'' ''n'' = Inr p \<and> g_status sample_gate = GateHealthy \<and>
     \<not> g_closure sample_gate"
proof -
  obtain p where p: "issue_permit sample_gate ''job_lease'' ''w'' ''n'' = Inr p" "assert_permit sample_gate p = Inr ()"
    using sample_permit by blast
  show ?thesis
    using accepted_permit_spans_healthy_epoch [OF sample_gate_steps p(1) gate_steps.refl gate_steps.refl p(2)] p(1) by blast
qed

theorem closure_is_final_witness:
  "\<exists>e. issue_permit (signal_closure sample_gate) ''job_lease'' ''w'' ''n'' = Inl e"
  using closure_is_final [OF _ gate_steps.refl, of "signal_closure sample_gate"] by (simp add: signal_closure_def)

theorem drain_admits_only_leased_jobs_witness:
  "\<exists>d g. begin_drain sample_gate ''update-1'' [''job_1''] ''n'' = Inr (d, g) \<and> assert_drain g d = Inr ()"
proof -
  obtain d g where "begin_drain sample_gate ''update-1'' [''job_1''] ''n'' = Inr (d, g)"
    using sample_gate_open by (simp add: begin_drain_def py_len_def utf8_continuation_def Let_def)
  then show ?thesis using drain_admits_only_leased_jobs by blast
qed

theorem accepted_permit_is_authentic_witness:
  "\<exists>p. issue_permit sample_gate ''job_lease'' ''w'' ''n'' = Inr p \<and>
     pm_signature p = hmac_sha256 ''k1'' (nul_join [''g1'', str_nat 1, ''job_lease'', ''w'', ''n''])"
proof -
  obtain p where p: "issue_permit sample_gate ''job_lease'' ''w'' ''n'' = Inr p" "assert_permit sample_gate p = Inr ()"
    using sample_permit by blast
  have f: "g_secret sample_gate = ''k1''" "g_id sample_gate = ''g1''" "pm_scope p = ''job_lease''"
    "pm_subject p = ''w''" "pm_nonce p = ''n''"
    using p(1) by (auto simp: sample_gate_def record_report_def apply_report_def new_gate_def Let_def issue_permit_def
        split: if_splits)
  show ?thesis using accepted_permit_is_authentic [OF p(2)] p(1) f sample_gate_open(2) by auto
qed

theorem recovery_close_is_final_witness:
  "\<exists>g'. request_close (\<lambda>c. c) ''session_closed'' (new_recovery_gate ''r'' ''k'') = Inr g' \<and> rg_error g' \<noteq> None"
proof -
  obtain g' where "request_close (\<lambda>c. c) ''session_closed'' (new_recovery_gate ''r'' ''k'') = Inr g'"
    by (simp add: request_close_def is_safe_code_def lower_alpha_def)
  then show ?thesis using recovery_close_is_final [OF _ rtranclp.rtrancl_refl] by blast
qed

end
