(* ===== verification/Jobs.thy ===== *)
theory Jobs
  imports Reasoning Gate
begin

text \<open>
  \<^verbatim>\<open>ecorex/runtime/jobs.py\<close>: the durable, lease-based scheduler.  A job is a row of \<^verbatim>\<open>jobs\<close>; its life
  is enqueue, lease, start, heartbeats, and a finish, a human wait, a retry, a deadline or a reclaim
  of an expired lease.  Each method is one definition, split at its helper methods; a
  \<^verbatim>\<open>with ..._transaction(..)\<close> block is its body (\<open>..._in_transaction\<close>) under \<open>control_transaction\<close> or
  \<open>execution_transaction\<close>, which check the execution gate when the transaction begins and again right
  before it commits.  The loops run over the rows that were selected before the loop, as the code does.
\<close>

section \<open>Admission\<close>

text \<open>
  The process-local view of one operation: the gate when the first permit is issued or asserted and when
  the last assertion before the commit is made (none before a gate is bound), the published permits,
  whether the calling context executes a started CowAgent turn (\<^verbatim>\<open>_COW_TURN_EXECUTION\<close>), and the nonce of
  a permit issued on the way.  The commit itself follows the last assertion; what the gate does in between is
  not seen by the transaction, in the code as here.
\<close>

record admission =
  ad_gates :: "(gate \<times> gate) option"
  ad_permits :: "((string \<times> string) \<times> permit) list"
  ad_cow :: bool
  ad_nonce :: string

definition epoch_closed :: err where
  "epoch_closed = LeaseError ''execution epoch is closed''"

definition as_lease_error :: "err \<Rightarrow> err" where
  "as_lease_error e = (case e of RuntimeExecutionDenied _ \<Rightarrow> epoch_closed | _ \<Rightarrow> e)"

definition stable_subject :: "string option \<Rightarrow> string \<Rightarrow> string" where
  "stable_subject subject scope = (case or_else subject None of Some v \<Rightarrow> v | None \<Rightarrow> scope)"

text \<open>Commit \<open>m\<close> only if the permit is still accepted by the gate when it is asserted before the commit.\<close>

definition guarded :: "gate \<Rightarrow> permit \<Rightarrow> 'a dbtxn \<Rightarrow> db \<Rightarrow> (err + 'a) \<times> db" where
  "guarded g p m s =
     (case m s of
        Inl e \<Rightarrow> (Inl (as_lease_error e), s)
      | Inr (a, s') \<Rightarrow> (case assert_permit g p of Inl e \<Rightarrow> (Inl (as_lease_error e), s) | Inr _ \<Rightarrow> (Inr a, s')))"

definition control_transaction ::
    "admission \<Rightarrow> string \<Rightarrow> string option \<Rightarrow> 'a dbtxn \<Rightarrow> db \<Rightarrow> (err + 'a) \<times> db" where
  "control_transaction A scope subject m s =
     (case ad_gates A of
        None \<Rightarrow> transaction m s
      | Some (g0, g1) \<Rightarrow>
          if ad_cow A then transaction m s
          else case issue_permit g0 scope (stable_subject subject scope) (ad_nonce A) of
                 Inl e \<Rightarrow> (Inl (as_lease_error e), s)
               | Inr p \<Rightarrow> guarded g1 p m s)"

definition permit_subject :: "string \<Rightarrow> string \<Rightarrow> string" where
  "permit_subject job_id lease_token = job_id @ '':'' @ sha256_hexdigest lease_token"

definition execution_permit :: "admission \<Rightarrow> string \<Rightarrow> string \<Rightarrow> err + permit" where
  "execution_permit A job_id lease_token =
     (case map_of (ad_permits A) (job_id, lease_token) of
        None \<Rightarrow> Inl (LeaseError ''job has no current execution permit'')
      | Some p \<Rightarrow>
          if pm_scope p \<noteq> ''durable_job'' \<or> pm_subject p \<noteq> permit_subject job_id lease_token
          then Inl (LeaseError ''job execution permit is invalid'') else Inr p)"

definition assert_live_execution_binding :: "string \<Rightarrow> string \<Rightarrow> int \<Rightarrow> unit dbtxn" where
  "assert_live_execution_binding job_id lease_token now =
     bind (read (find_job job_id)) (\<lambda>row.
     case row of
       None \<Rightarrow> raise (LeaseError ''job does not exist'')
     | Some j \<Rightarrow>
         seq (require (lease_token \<noteq> [] \<and> jb_lease_token j = Some lease_token)
               (LeaseError ''job lease fencing token is stale'')) (
         seq (require (case jb_lease_expires j of None \<Rightarrow> False | Some t \<Rightarrow> now < t) (LeaseError ''job lease has expired''))
           (require (executing (jb_status j)) (LeaseError ''job is not executable''))))"

definition execution_transaction ::
    "admission \<Rightarrow> string \<Rightarrow> string \<Rightarrow> int \<Rightarrow> 'a dbtxn \<Rightarrow> db \<Rightarrow> (err + 'a) \<times> db" where
  "execution_transaction A job_id lease_token now m s =
     (let m' = seq (assert_live_execution_binding job_id lease_token now) m
      in case ad_gates A of
           None \<Rightarrow> transaction m' s
         | Some (g0, g1) \<Rightarrow>
             (case execution_permit A job_id lease_token of
                Inl e \<Rightarrow> (Inl e, s)
              | Inr p \<Rightarrow>
                  if ad_cow A \<and> \<not> sn_draining (snapshot g0) then transaction m' s
                  else case assert_permit g0 p of
                         Inl e \<Rightarrow> (Inl (as_lease_error e), s)
                       | Inr _ \<Rightarrow> guarded g1 p m' s))"

section \<open>Job events\<close>

definition jiso :: "int option \<Rightarrow> json" where
  "jiso t = (case t of None \<Rightarrow> JNull | Some i \<Rightarrow> JStr (iso_text i))"

definition context_fields :: "string list" where
  "context_fields =
     [''config_snapshot_id'', ''capability_snapshot_id'', ''permission_snapshot_id'',
      ''model_catalog_snapshot_id'', ''extension_snapshot_id'']"

definition context_dict :: "snapshot_context \<Rightarrow> (string \<times> string) list" where
  "context_dict c =
     [(''config_snapshot_id'', cx_config c), (''capability_snapshot_id'', cx_capability c),
      (''permission_snapshot_id'', cx_permission c), (''model_catalog_snapshot_id'', cx_model_catalog c),
      (''extension_snapshot_id'', cx_extension c)]"

definition occurrence_key :: "jobj \<Rightarrow> string option \<Rightarrow> string" where
  "occurrence_key payload occurrence =
     (case occurrence of
        Some v \<Rightarrow> take 24 (sha256_hexdigest v)
      | None \<Rightarrow> (case map_of payload ''attempt'' of Some (JInt i) \<Rightarrow> str_int i | _ \<Rightarrow> []))"

text \<open>\<^verbatim>\<open>_append_job_event\<close> for the identities of the job and its context; a job without a thread has no
  stream to write to.\<close>

definition append_job_event ::
    "env \<Rightarrow> string \<Rightarrow> string option \<Rightarrow> string option \<Rightarrow> (string \<times> string) list \<Rightarrow> string \<Rightarrow> jobj \<Rightarrow> int
     \<Rightarrow> string option \<Rightarrow> event_row option dbtxn" where
  "append_job_event E job_id thread_id turn_id context event_type payload created_at occurrence =
     (case thread_id of
        None \<Rightarrow> ret None
      | Some t \<Rightarrow>
          bind (append_in_transaction E
            ((event_req t event_type payload)
              \<lparr>rq_turn := turn_id, rq_job := Some job_id,
               rq_config := map_of context ''config_snapshot_id'',
               rq_capability := map_of context ''capability_snapshot_id'',
               rq_permission := map_of context ''permission_snapshot_id'',
               rq_extension := map_of context ''extension_snapshot_id'',
               rq_key := Some (job_id @ '':'' @ event_type @ '':'' @ occurrence_key payload occurrence),
               rq_created_at := Some created_at\<rparr>)) (\<lambda>e. ret (Some e)))"

definition append_row_event ::
    "env \<Rightarrow> job_row \<Rightarrow> string \<Rightarrow> jobj \<Rightarrow> int \<Rightarrow> string option \<Rightarrow> event_row option dbtxn" where
  "append_row_event E row event_type payload created_at occurrence =
     bind (read (\<lambda>s. case map_of (db_contexts s) (jb_id row) of None \<Rightarrow> [] | Some c \<Rightarrow> context_dict c)) (\<lambda>context.
     append_job_event E (jb_id row) (jb_thread row) (jb_turn row) context event_type payload created_at occurrence)"

definition retire_row_execution_permit :: "job_row \<Rightarrow> unit dbtxn" where
  "retire_row_execution_permit row =
     (if truthy (jb_lease_token row)
      then modify (\<lambda>s. s\<lparr>db_retired := db_retired s @ [(jb_id row, the (jb_lease_token row))]\<rparr>)
      else ret ())"

definition assert_transition :: "job_status \<Rightarrow> job_status \<Rightarrow> unit dbtxn" where
  "assert_transition current target =
     require (current = target \<or> target \<in> set (job_transitions current))
       (InvalidTransitionError ''job cannot transition'')"

section \<open>Enqueue\<close>

record enqueue_req =
  eq_kind :: string
  eq_payload :: jobj
  eq_key :: string
  eq_thread :: "string option"
  eq_turn :: "string option"
  eq_priority :: int
  eq_max_attempts :: int
  eq_available_at :: "int option"
  eq_deadline :: "int option"
  eq_job_id :: "string option"
  eq_context :: "(string \<times> string) list"

definition enqueue_fingerprint :: "enqueue_req \<Rightarrow> string" where
  "enqueue_fingerprint q =
     fingerprint
       [(''kind'', JStr (eq_kind q)), (''payload'', JObj (eq_payload q)),
        (''event_context'', JObj (map (\<lambda>(k, v). (k, JStr v)) (eq_context q))),
        (''thread_id'', jopt (eq_thread q)), (''turn_id'', jopt (eq_turn q)),
        (''priority'', JInt (eq_priority q)), (''max_attempts'', JInt (eq_max_attempts q)),
        (''available_at'', jiso (eq_available_at q)), (''deadline'', jiso (eq_deadline q))]"

definition enqueue_valid :: "enqueue_req \<Rightarrow> unit dbtxn" where
  "enqueue_valid q =
     seq (require (eq_kind q \<noteq> []) (ValueError ''kind is required'')) (
     seq (require (eq_key q \<noteq> []) (ValueError ''idempotency_key is required'')) (
     seq (require (1 \<le> eq_max_attempts q) (ValueError ''max_attempts must be at least one'')) (
     seq (require (-100 \<le> eq_priority q \<and> eq_priority q \<le> 100) (ValueError ''priority must be between -100 and 100''))
       (require (list_all (\<lambda>(k, v). k \<in> set context_fields \<and> v \<noteq> []) (eq_context q))
          (ValueError ''job event context is invalid'')))))"

definition queued_job :: "enqueue_req \<Rightarrow> string \<Rightarrow> int \<Rightarrow> int \<Rightarrow> job_row" where
  "queued_job q job_id available_at now =
     \<lparr>jb_id = job_id, jb_kind = eq_kind q, jb_payload = canon_obj (eq_payload q), jb_status = JobQueued,
      jb_priority = eq_priority q, jb_attempt = 0, jb_max_attempts = eq_max_attempts q,
      jb_thread = eq_thread q, jb_turn = eq_turn q, jb_lease_owner = None, jb_lease_token = None,
      jb_lease_expires = None, jb_heartbeat = None, jb_available_at = available_at,
      jb_deadline = eq_deadline q, jb_checkpoint = None, jb_key = eq_key q,
      jb_fingerprint = enqueue_fingerprint q, jb_last_error = None, jb_created_at = now,
      jb_updated_at = now\<rparr>"

definition context_of_dict :: "(string \<times> string) list \<Rightarrow> snapshot_context" where
  "context_of_dict d =
     (let get = (\<lambda>k. case map_of d k of Some v \<Rightarrow> v | None \<Rightarrow> [])
      in \<lparr>cx_config = get ''config_snapshot_id'', cx_capability = get ''capability_snapshot_id'',
          cx_permission = get ''permission_snapshot_id'', cx_model_catalog = get ''model_catalog_snapshot_id'',
          cx_extension = get ''extension_snapshot_id''\<rparr>)"

definition insert_enqueued :: "env \<Rightarrow> enqueue_req \<Rightarrow> int \<Rightarrow> job_row dbtxn" where
  "insert_enqueued E q now =
     (let available_at = (case eq_available_at q of None \<Rightarrow> now | Some t \<Rightarrow> t)
      in bind (case or_else (eq_job_id q) None of Some i \<Rightarrow> ret i | None \<Rightarrow> fresh_id E ''job'') (\<lambda>job_id.
         bind (append_job_event E job_id (eq_thread q) (eq_turn q) (eq_context q) ''job.queued''
            [(''kind'', JStr (eq_kind q)), (''priority'', JInt (eq_priority q)), (''attempt'', JInt 0),
             (''max_attempts'', JInt (eq_max_attempts q)), (''available_at'', JStr (iso_text available_at)),
             (''deadline'', jiso (eq_deadline q))] now None) (\<lambda>_.
         seq (insert_job (queued_job q job_id available_at now)) (
         seq (if eq_context q = [] then ret ()
              else seq (require (list_all (\<lambda>k. map_of (eq_context q) k \<noteq> None) context_fields)
                          (ValueError ''job event context is incomplete''))
                     (insert_context job_id (context_of_dict (eq_context q))))
           (ret (queued_job q job_id available_at now))))))"

definition enqueue_in_transaction :: "env \<Rightarrow> enqueue_req \<Rightarrow> int \<Rightarrow> job_row dbtxn" where
  "enqueue_in_transaction E q now =
     seq (enqueue_valid q) (
     bind (read (\<lambda>s. find (\<lambda>j. jb_key j = eq_key q) (db_jobs s))) (\<lambda>dup.
     case dup of
       Some j \<Rightarrow>
         seq (require (jb_fingerprint j = enqueue_fingerprint q)
               (IdempotencyConflictError ''job idempotency key was reused'')) (ret j)
     | None \<Rightarrow> insert_enqueued E q now))"

definition enqueue :: "env \<Rightarrow> admission \<Rightarrow> enqueue_req \<Rightarrow> int \<Rightarrow> db \<Rightarrow> (err + job_row) \<times> db" where
  "enqueue E A q now =
     control_transaction A ''job_enqueue'' (Some (eq_key q)) (enqueue_in_transaction E (q\<lparr>eq_job_id := None\<rparr>) now)"

definition get_job :: "string \<Rightarrow> db \<Rightarrow> err + job_row" where
  "get_job job_id s =
     (case find_job job_id s of None \<Rightarrow> Inl (NotFoundError ''job does not exist'') | Some j \<Rightarrow> Inr j)"

section \<open>Failing the turn of a job\<close>

definition expire_interaction :: "env \<Rightarrow> job_row \<Rightarrow> int \<Rightarrow> string \<Rightarrow> string option \<Rightarrow> interaction_row \<Rightarrow> unit dbtxn" where
  "expire_interaction E job now reason causation ia =
     bind (append_in_transaction E
        ((event_req (the (jb_thread job)) ''interaction.expired'' [(''reason'', JStr reason)])
          \<lparr>rq_turn := jb_turn job, rq_job := Some (jb_id job), rq_item := Some (ia_id ia),
           rq_causation := causation, rq_key := Some (ia_id ia @ '':'' @ reason), rq_created_at := Some now\<rparr>)) (\<lambda>_.
     update_interaction (ia_id ia) (\<lambda>r. r\<lparr>ia_status := InteractionExpired, ia_updated_at := now\<rparr>))"

definition fail_item :: "env \<Rightarrow> job_row \<Rightarrow> int \<Rightarrow> string \<Rightarrow> string option \<Rightarrow> item_row \<Rightarrow> unit dbtxn" where
  "fail_item E job now reason causation item =
     (if item_terminal (it_status item) then ret ()
      else
        bind (append_in_transaction E
           ((event_req (the (jb_thread job)) ''item.status_changed''
              [(''from'', JStr (item_status_text (it_status item))), (''to'', JStr ''failed''), (''reason'', JStr reason)])
             \<lparr>rq_turn := jb_turn job, rq_item := Some (it_id item), rq_causation := causation,
              rq_key := Some (it_id item @ '':'' @ reason), rq_created_at := Some now\<rparr>)) (\<lambda>_.
        update_item (it_id item) (\<lambda>r. r\<lparr>it_status := ItemFailed, it_updated_at := now\<rparr>)))"

definition pending_of_turn :: "string \<Rightarrow> db \<Rightarrow> interaction_row list" where
  "pending_of_turn turn_id s =
     filter (\<lambda>i. ia_turn i = Some turn_id \<and> ia_status i = InteractionPending) (db_interactions s)"

definition items_of_turn :: "string \<Rightarrow> db \<Rightarrow> item_row list" where
  "items_of_turn turn_id s = filter (\<lambda>i. it_turn i = turn_id) (db_items s)"

definition fail_linked_turn_in_transaction :: "env \<Rightarrow> job_row \<Rightarrow> int \<Rightarrow> string \<Rightarrow> string option \<Rightarrow> unit dbtxn" where
  "fail_linked_turn_in_transaction E job now reason causation =
     (case (jb_turn job, jb_thread job) of
        (Some turn_id, Some thread_id) \<Rightarrow>
          bind (read (find_turn turn_id)) (\<lambda>turn.
          case turn of
            None \<Rightarrow> ret ()
          | Some t \<Rightarrow>
              if turn_terminal (tn_status t) then ret ()
              else
                bind (read (pending_of_turn turn_id)) (\<lambda>ias.
                seq (for_each ias (expire_interaction E job now reason causation)) (
                bind (read (items_of_turn turn_id)) (\<lambda>items.
                seq (for_each items (fail_item E job now reason causation)) (
                bind (append_in_transaction E
                   ((event_req thread_id ''turn.status_changed''
                      [(''from'', JStr (turn_status_text (tn_status t))), (''to'', JStr ''failed''),
                       (''reason'', JStr reason)])
                     \<lparr>rq_turn := Some turn_id, rq_job := Some (jb_id job), rq_causation := causation,
                      rq_key := Some (turn_id @ '':'' @ reason), rq_created_at := Some now\<rparr>)) (\<lambda>fact.
                seq (archive_visible_reasoning_in_transaction E thread_id turn_id (ev_id fact) TurnFailed
                       (Some reason) now)
                  (update_turn turn_id (\<lambda>r. r\<lparr>tn_status := TurnFailed, tn_reason := Some reason,
                                              tn_updated_at := now\<rparr>))))))))
      | _ \<Rightarrow> ret ())"

section \<open>Deadlines\<close>

definition due_jobs :: "int \<Rightarrow> string option \<Rightarrow> db \<Rightarrow> job_row list" where
  "due_jobs now job_id s =
     sort_key (\<lambda>j. (jb_deadline j, jb_id j))
       (filter (\<lambda>j. \<not> job_terminal (jb_status j) \<and>
                    (case jb_deadline j of None \<Rightarrow> False | Some d \<Rightarrow> d \<le> now) \<and>
                    (case job_id of None \<Rightarrow> True | Some i \<Rightarrow> jb_id j = i)) (db_jobs s))"

definition fail_job_row :: "string \<Rightarrow> int \<Rightarrow> job_row \<Rightarrow> job_row" where
  "fail_job_row error now r =
     (clear_lease r)\<lparr>jb_status := JobFailed, jb_last_error := Some error, jb_updated_at := now\<rparr>"

definition expire_deadline_row :: "env \<Rightarrow> int \<Rightarrow> job_row \<Rightarrow> unit dbtxn" where
  "expire_deadline_row E now row =
     bind (append_row_event E row ''job.deadline_exceeded''
       [(''attempt'', JInt (jb_attempt row)), (''reason'', JStr ''deadline_exceeded'')] now None) (\<lambda>fact.
     seq (update_job (jb_id row) (fail_job_row ''deadline_exceeded'' now)) (
     seq (retire_row_execution_permit row)
       (fail_linked_turn_in_transaction E row now ''deadline_exceeded'' (map_option ev_id fact))))"

definition expire_deadlines_in_transaction :: "env \<Rightarrow> int \<Rightarrow> string option \<Rightarrow> string list dbtxn" where
  "expire_deadlines_in_transaction E now job_id =
     bind (read (due_jobs now job_id)) (\<lambda>rows.
     seq (for_each rows (expire_deadline_row E now)) (ret (map jb_id rows)))"

section \<open>Reclaiming expired leases\<close>

definition move_linked_turn_to_retry_wait_in_transaction :: "env \<Rightarrow> job_row \<Rightarrow> int \<Rightarrow> string option \<Rightarrow> unit dbtxn" where
  "move_linked_turn_to_retry_wait_in_transaction E job now causation =
     (case (jb_turn job, jb_thread job) of
        (Some turn_id, Some thread_id) \<Rightarrow>
          if jb_kind job \<noteq> ''agent_turn'' then ret ()
          else
            bind (read (find_turn turn_id)) (\<lambda>turn.
            case turn of
              None \<Rightarrow> ret ()
            | Some t \<Rightarrow>
                if tn_status t \<notin> set [TurnModelRequested, TurnStreaming, TurnToolPending, TurnToolRunning] then ret ()
                else
                  bind (append_in_transaction E
                     ((event_req thread_id ''turn.status_changed''
                        [(''from'', JStr (turn_status_text (tn_status t))), (''to'', JStr ''retry_wait''),
                         (''reason'', JStr ''lease_expired'')])
                       \<lparr>rq_turn := Some turn_id, rq_job := Some (jb_id job), rq_causation := causation,
                        rq_key := Some (jb_id job @ '':lease-expired:turn-retry:'' @ str_int (jb_attempt job)),
                        rq_created_at := Some now\<rparr>)) (\<lambda>_.
                  update_turn turn_id (\<lambda>r. r\<lparr>tn_status := TurnRetryWait, tn_reason := None, tn_updated_at := now\<rparr>)))
      | _ \<Rightarrow> ret ())"

definition complete_job_row :: "int \<Rightarrow> job_row \<Rightarrow> job_row" where
  "complete_job_row now r =
     (clear_lease r)\<lparr>jb_status := JobCompleted, jb_last_error := None, jb_updated_at := now\<rparr>"

definition recovered :: string where
  "recovered = ''finalizing_recovered_after_lease_expiry''"

definition complete_dependent_job :: "env \<Rightarrow> int \<Rightarrow> job_row \<Rightarrow> unit dbtxn" where
  "complete_dependent_job E now dep =
     (if job_terminal (jb_status dep) then ret ()
      else
        bind (append_row_event E dep ''job.completed''
          [(''attempt'', JInt (jb_attempt dep)), (''reason'', JStr ''turn_finalizing_recovered'')] now None) (\<lambda>_.
        seq (update_job (jb_id dep) (complete_job_row now))
          (retire_row_execution_permit dep)))"

definition cancel_interaction_recovered ::
    "env \<Rightarrow> string \<Rightarrow> string \<Rightarrow> int \<Rightarrow> string option \<Rightarrow> interaction_row \<Rightarrow> unit dbtxn" where
  "cancel_interaction_recovered E thread_id turn_id now causation ia =
     bind (append_in_transaction E
        ((event_req thread_id ''interaction.cancelled'' [(''reason'', JStr ''turn_completed'')])
          \<lparr>rq_turn := Some turn_id, rq_job := ia_job ia, rq_item := Some (ia_id ia),
           rq_causation := causation, rq_key := Some (ia_id ia @ '':finalizing-recovered''),
           rq_created_at := Some now\<rparr>)) (\<lambda>_.
     update_interaction (ia_id ia) (\<lambda>r. r\<lparr>ia_status := InteractionCancelled, ia_updated_at := now\<rparr>))"

definition complete_item_recovered ::
    "env \<Rightarrow> string \<Rightarrow> string \<Rightarrow> int \<Rightarrow> string option \<Rightarrow> item_row \<Rightarrow> unit dbtxn" where
  "complete_item_recovered E thread_id turn_id now causation item =
     (if item_terminal (it_status item) then ret ()
      else
        bind (append_in_transaction E
           ((event_req thread_id ''item.status_changed''
              [(''from'', JStr (item_status_text (it_status item))), (''to'', JStr ''completed''),
               (''reason'', JStr recovered)])
             \<lparr>rq_turn := Some turn_id, rq_item := Some (it_id item), rq_causation := causation,
              rq_key := Some (it_id item @ '':finalizing-recovered''), rq_created_at := Some now\<rparr>)) (\<lambda>_.
        update_item (it_id item) (\<lambda>r. r\<lparr>it_status := ItemCompleted, it_updated_at := now\<rparr>)))"

definition settle_recovered_turn :: "env \<Rightarrow> job_row \<Rightarrow> string \<Rightarrow> string \<Rightarrow> int \<Rightarrow> unit dbtxn" where
  "settle_recovered_turn E job turn_id thread_id now =
     bind (append_row_event E job ''job.completed''
       [(''attempt'', JInt (jb_attempt job)), (''reason'', JStr recovered)] now None) (\<lambda>job_fact.
     let causation = map_option ev_id job_fact in
     seq (update_job (jb_id job) (complete_job_row now)) (
     seq (retire_row_execution_permit job) (
     bind (read (\<lambda>s. filter (\<lambda>j. jb_turn j = Some turn_id \<and> jb_id j \<noteq> jb_id job) (db_jobs s))) (\<lambda>deps.
     seq (for_each deps (complete_dependent_job E now)) (
     bind (read (pending_of_turn turn_id)) (\<lambda>ias.
     seq (for_each ias (cancel_interaction_recovered E thread_id turn_id now causation)) (
     bind (read (items_of_turn turn_id)) (\<lambda>items.
     seq (for_each items (complete_item_recovered E thread_id turn_id now causation)) (
     bind (append_in_transaction E
        ((event_req thread_id ''turn.status_changed''
           [(''from'', JStr ''finalizing''), (''to'', JStr ''completed''), (''reason'', JStr recovered)])
          \<lparr>rq_turn := Some turn_id, rq_job := Some (jb_id job), rq_causation := causation,
           rq_key := Some (turn_id @ '':finalizing-recovered''), rq_created_at := Some now\<rparr>)) (\<lambda>fact.
     seq (archive_visible_reasoning_in_transaction E thread_id turn_id (ev_id fact) TurnCompleted
            (Some recovered) now)
       (update_turn turn_id (\<lambda>r. r\<lparr>tn_status := TurnCompleted, tn_reason := Some recovered,
                                   tn_updated_at := now\<rparr>))))))))))))"

definition recover_finalizing_turn_in_transaction :: "env \<Rightarrow> job_row \<Rightarrow> int \<Rightarrow> bool dbtxn" where
  "recover_finalizing_turn_in_transaction E job now =
     (case (jb_turn job, jb_thread job) of
        (Some turn_id, Some thread_id) \<Rightarrow>
          if jb_kind job \<noteq> ''agent_turn'' then ret False
          else
            bind (read (find_turn turn_id)) (\<lambda>turn.
            bind (read (\<lambda>s. list_ex (\<lambda>e. ev_thread e = thread_id \<and> ev_turn e = Some turn_id \<and>
                    ev_type e = ''model.response_completed'') (db_events s))) (\<lambda>completed.
            if map_option tn_status turn \<noteq> Some TurnFinalizing \<or> \<not> completed then ret False
            else seq (settle_recovered_turn E job turn_id thread_id now) (ret True)))
      | _ \<Rightarrow> ret False)"

definition expired_leases :: "int \<Rightarrow> db \<Rightarrow> job_row list" where
  "expired_leases now s =
     sort_key (\<lambda>j. (jb_lease_expires j, jb_id j))
       (filter (\<lambda>j. executing (jb_status j) \<and> (case jb_lease_expires j of None \<Rightarrow> False | Some t \<Rightarrow> t \<le> now))
          (db_jobs s))"

definition reclaim_job_row :: "job_status \<Rightarrow> int \<Rightarrow> job_row \<Rightarrow> job_row" where
  "reclaim_job_row target now r =
     (clear_lease r)\<lparr>jb_status := target, jb_available_at := now, jb_last_error := Some ''lease_expired'',
                     jb_updated_at := now\<rparr>"

definition reclaim_row :: "env \<Rightarrow> int \<Rightarrow> job_row \<Rightarrow> unit dbtxn" where
  "reclaim_row E now row =
     bind (recover_finalizing_turn_in_transaction E row now) (\<lambda>done.
     if done then ret ()
     else
       let exhausted = (jb_attempt row \<ge> jb_max_attempts row) in
       bind (append_row_event E row (if exhausted then ''job.dead_lettered'' else ''job.reclaimed'')
         [(''attempt'', JInt (jb_attempt row)), (''reason'', JStr ''lease_expired''),
          (''available_at'', JStr (iso_text now))] now None) (\<lambda>fact.
       seq (update_job (jb_id row) (reclaim_job_row (if exhausted then JobDeadLetter else JobQueued) now)) (
       seq (retire_row_execution_permit row)
         (if exhausted
          then fail_linked_turn_in_transaction E row now ''lease_attempts_exhausted'' (map_option ev_id fact)
          else move_linked_turn_to_retry_wait_in_transaction E row now (map_option ev_id fact)))))"

definition reclaim_expired_in_transaction :: "env \<Rightarrow> int \<Rightarrow> string list dbtxn" where
  "reclaim_expired_in_transaction E now =
     bind (read (expired_leases now)) (\<lambda>rows.
     seq (for_each rows (reclaim_row E now)) (ret (map jb_id rows)))"

definition reclaim_expired :: "env \<Rightarrow> admission \<Rightarrow> int \<Rightarrow> db \<Rightarrow> (err + string list) \<times> db" where
  "reclaim_expired E A now =
     control_transaction A ''job_maintenance'' (Some ''reclaim_expired'')
       (bind (expire_deadlines_in_transaction E now None) (\<lambda>_. reclaim_expired_in_transaction E now))"

definition expire_deadline :: "env \<Rightarrow> admission \<Rightarrow> string \<Rightarrow> int \<Rightarrow> db \<Rightarrow> (err + bool) \<times> db" where
  "expire_deadline E A job_id now =
     control_transaction A ''job_maintenance'' (Some (''deadline:'' @ job_id))
       (bind (expire_deadlines_in_transaction E now (Some job_id)) (\<lambda>ids. ret (ids \<noteq> [])))"

section \<open>Leasing\<close>

definition scheduling_key :: "job_row \<Rightarrow> string" where
  "scheduling_key j = (case jb_thread j of Some t \<Rightarrow> t | None \<Rightarrow> ''__kind__:'' @ jb_kind j)"

definition last_leased :: "db \<Rightarrow> job_row \<Rightarrow> int option" where
  "last_leased s j = map_option fst (map_of (db_scheduler s) (scheduling_key j))"

text \<open>The \<^verbatim>\<open>WHERE\<close> clause for the job at a position of the table: \<open>earlier\<close> are the rows with a smaller
  \<^verbatim>\<open>rowid\<close>.\<close>

definition ready :: "int \<Rightarrow> string list \<Rightarrow> job_row \<Rightarrow> bool" where
  "ready now kinds j =
     (jb_status j \<in> set [JobQueued, JobRetryScheduled] \<and> jb_available_at j \<le> now \<and>
      (case jb_deadline j of None \<Rightarrow> True | Some d \<Rightarrow> now < d) \<and> (kinds = [] \<or> jb_kind j \<in> set kinds))"

definition blocked_by :: "job_row list \<Rightarrow> job_row \<Rightarrow> bool" where
  "blocked_by earlier j =
     (jb_thread j \<noteq> None \<and> list_ex (\<lambda>e. jb_thread e = jb_thread j \<and> \<not> job_terminal (jb_status e)) earlier)"

fun candidates :: "int \<Rightarrow> string list \<Rightarrow> job_row list \<Rightarrow> job_row list \<Rightarrow> job_row list" where
  "candidates now kinds earlier [] = []"
| "candidates now kinds earlier (j # js) =
     (if ready now kinds j \<and> \<not> blocked_by earlier j
      then j # candidates now kinds (earlier @ [j]) js
      else candidates now kinds (earlier @ [j]) js)"

text \<open>\<^verbatim>\<open>NULL\<close> sorts first, and the sort is stable, so equal rows stay in \<^verbatim>\<open>rowid\<close> order.\<close>

definition lease_order :: "db \<Rightarrow> job_row \<Rightarrow> int \<times> int option \<times> int" where
  "lease_order s j = (- jb_priority j, last_leased s j, jb_created_at j)"

definition select_next :: "int \<Rightarrow> string list \<Rightarrow> db \<Rightarrow> job_row option" where
  "select_next now kinds s =
     (case sort_key (lease_order s) (candidates now kinds [] (db_jobs s)) of
        [] \<Rightarrow> None | j # _ \<Rightarrow> Some j)"

definition preserve_key :: string where
  "preserve_key = ''_ecorex_preserve_job_attempt''"

definition checkpoint_dict :: "job_row \<Rightarrow> jobj" where
  "checkpoint_dict j = (case jb_checkpoint j of Some (JObj d) \<Rightarrow> d | _ \<Rightarrow> [])"

definition store_checkpoint :: "jobj \<Rightarrow> json option" where
  "store_checkpoint d = (if d = [] then None else Some (json_canon (JObj d)))"

definition next_attempt :: "job_row \<Rightarrow> int" where
  "next_attempt j =
     (if map_of (checkpoint_dict j) preserve_key = Some (JBool True) then jb_attempt j else jb_attempt j + 1)"

definition lease_job_row :: "int \<Rightarrow> string \<Rightarrow> string \<Rightarrow> int \<Rightarrow> jobj \<Rightarrow> int \<Rightarrow> job_row \<Rightarrow> job_row" where
  "lease_job_row attempt worker_id token expires checkpoint now r =
     r\<lparr>jb_status := JobLeased, jb_attempt := attempt, jb_lease_owner := Some worker_id,
       jb_lease_token := Some token, jb_lease_expires := Some expires, jb_heartbeat := Some now,
       jb_checkpoint := store_checkpoint checkpoint, jb_updated_at := now\<rparr>"

definition require_job :: "string \<Rightarrow> job_row dbtxn" where
  "require_job job_id =
     bind (read (find_job job_id)) (\<lambda>row.
     case row of None \<Rightarrow> raise (NotFoundError ''job does not exist'') | Some j \<Rightarrow> ret j)"

definition grant_lease :: "env \<Rightarrow> string \<Rightarrow> int \<Rightarrow> int \<Rightarrow> job_row \<Rightarrow> job_row dbtxn" where
  "grant_lease E worker_id lease_seconds now row =
     seq (assert_transition (jb_status row) JobLeased) (
     bind (fresh_id E ''fence'') (\<lambda>token.
     bind (append_row_event E row ''job.leased'' [(''attempt'', JInt (next_attempt row))] now (Some token)) (\<lambda>_.
     seq (update_job (jb_id row)
           (lease_job_row (next_attempt row) worker_id token (now + seconds lease_seconds)
              (dict_pop preserve_key (checkpoint_dict row)) now)) (
     seq (upsert_scheduler (case or_else (jb_thread row) None of Some t \<Rightarrow> t | None \<Rightarrow> ''__kind__:'' @ jb_kind row)
            now (jb_id row))
       (require_job (jb_id row))))))"

definition lease_next_in_admission :: "env \<Rightarrow> string \<Rightarrow> int \<Rightarrow> string list \<Rightarrow> int \<Rightarrow> job_row option dbtxn" where
  "lease_next_in_admission E worker_id lease_seconds kinds now =
     bind (expire_deadlines_in_transaction E now None) (\<lambda>_.
     bind (reclaim_expired_in_transaction E now) (\<lambda>_.
     bind (read (select_next now kinds)) (\<lambda>row.
     case row of
       None \<Rightarrow> ret None
     | Some j \<Rightarrow> bind (grant_lease E worker_id lease_seconds now j) (\<lambda>leased. ret (Some leased)))))"

text \<open>\<^verbatim>\<open>_remember_execution_permit\<close>: publication happens after the commit, against the row that is then
  in the table.\<close>

definition remember_execution_permit ::
    "string \<Rightarrow> string \<Rightarrow> permit \<Rightarrow> ((string \<times> string) \<times> permit) list \<Rightarrow> db
     \<Rightarrow> err + bool \<times> ((string \<times> string) \<times> permit) list" where
  "remember_execution_permit job_id token p permits s =
     (if pm_scope p \<noteq> ''durable_job'' \<or> pm_subject p \<noteq> permit_subject job_id token
      then Inl (RuntimeExecutionDenied ''job execution permit binding is invalid'')
      else case find_job job_id s of
        None \<Rightarrow> Inr (False, permits)
      | Some j \<Rightarrow>
          if jb_lease_token j \<noteq> Some token then Inr (False, permits)
          else Inr (True, filter (\<lambda>(k, _). fst k \<noteq> job_id) permits @ [((job_id, token), p)]))"

definition retire_execution_permit ::
    "string \<Rightarrow> string \<Rightarrow> ((string \<times> string) \<times> permit) list \<Rightarrow> ((string \<times> string) \<times> permit) list" where
  "retire_execution_permit job_id token permits = filter (\<lambda>(k, _). k \<noteq> (job_id, token)) permits"

text \<open>
  \<^verbatim>\<open>lease_next\<close>.  With a gate there are three looks at it: when the scheduler permit is issued, when the
  permit of the leased job is issued inside the transaction, and at the assertion before the commit.  A denied permit rolls
  back and leases nothing.
\<close>

record lease_result =
  lr_job :: "job_row option"
  lr_permits :: "((string \<times> string) \<times> permit) list"

definition lease_next ::
    "env \<Rightarrow> admission \<Rightarrow> gate \<Rightarrow> string \<Rightarrow> int \<Rightarrow> string list \<Rightarrow> int \<Rightarrow> db \<Rightarrow> (err + lease_result) \<times> db" where
  "lease_next E A g_lease worker_id lease_seconds kinds now s =
     (let none = \<lparr>lr_job = None, lr_permits = ad_permits A\<rparr>
      in if worker_id = [] then (Inl (ValueError ''worker_id is required''), s)
         else if lease_seconds < 1 then (Inl (ValueError ''lease_seconds must be positive''), s)
         else case ad_gates A of
           None \<Rightarrow>
             (case transaction (lease_next_in_admission E worker_id lease_seconds kinds now) s of
                (Inl e, s') \<Rightarrow> (Inl e, s')
              | (Inr j, s') \<Rightarrow> (Inr \<lparr>lr_job = j, lr_permits = ad_permits A\<rparr>, s'))
         | Some (g0, g1) \<Rightarrow>
             (case issue_permit g0 ''job_lease'' worker_id (ad_nonce A) of
                Inl (RuntimeExecutionDenied _) \<Rightarrow> (Inr none, s)
              | Inl e \<Rightarrow> (Inl e, s)
              | Inr scheduler \<Rightarrow>
                  (case lease_next_in_admission E worker_id lease_seconds kinds now s of
                     Inl e \<Rightarrow> (Inl e, s)
                   | Inr (None, s') \<Rightarrow>
                       (case assert_permit g1 scheduler of Inl _ \<Rightarrow> (Inr none, s) | Inr _ \<Rightarrow> (Inr none, s'))
                   | Inr (Some j, s') \<Rightarrow>
                       (case issue_permit g_lease ''durable_job''
                               (permit_subject (jb_id j) (the (jb_lease_token j))) (ad_nonce A) of
                          Inl (RuntimeExecutionDenied _) \<Rightarrow> (Inr none, s)
                        | Inl e \<Rightarrow> (Inl e, s)
                        | Inr p \<Rightarrow>
                            (case assert_permit g1 p of
                               Inl _ \<Rightarrow> (Inr none, s)
                             | Inr _ \<Rightarrow>
                                 (case remember_execution_permit (jb_id j) (the (jb_lease_token j)) p (ad_permits A) s' of
                                    Inl e \<Rightarrow> (Inl e, s')
                                  | Inr (published, permits) \<Rightarrow>
                                      (Inr \<lparr>lr_job = (if published then Some j else None), lr_permits = permits\<rparr>, s')))))))"

section \<open>Operations of the lease owner\<close>

definition owned_row :: "string \<Rightarrow> string \<Rightarrow> string \<Rightarrow> int \<Rightarrow> job_row dbtxn" where
  "owned_row job_id worker_id lease_token now =
     bind (require_job job_id) (\<lambda>j.
     seq (require (jb_lease_owner j = Some worker_id) (LeaseError ''job is not leased by the worker'')) (
     seq (require (lease_token \<noteq> [] \<and> jb_lease_token j = Some lease_token)
           (LeaseError ''job lease fencing token is stale'')) (
     seq (require (case jb_lease_expires j of None \<Rightarrow> False | Some t \<Rightarrow> now < t) (LeaseError ''job lease has expired''))
       (ret j))))"

text \<open>The deadline is settled first: its convergence commits, and only then the owner's call fails.\<close>

definition with_deadline :: "env \<Rightarrow> string \<Rightarrow> int \<Rightarrow> 'a dbtxn \<Rightarrow> 'a option dbtxn" where
  "with_deadline E job_id now m =
     bind (expire_deadlines_in_transaction E now (Some job_id)) (\<lambda>ids.
     if ids \<noteq> [] then ret None else bind m (\<lambda>a. ret (Some a)))"

definition deadline_result :: "(err + 'a option) \<times> db \<Rightarrow> (err + 'a) \<times> db" where
  "deadline_result r =
     (case r of
        (Inl e, s) \<Rightarrow> (Inl e, s)
      | (Inr None, s) \<Rightarrow> (Inl (LeaseError ''job deadline has expired''), s)
      | (Inr (Some a), s) \<Rightarrow> (Inr a, s))"

definition start_in_transaction :: "env \<Rightarrow> string \<Rightarrow> string \<Rightarrow> string \<Rightarrow> int \<Rightarrow> job_row dbtxn" where
  "start_in_transaction E job_id worker_id lease_token now =
     bind (owned_row job_id worker_id lease_token now) (\<lambda>row.
     seq (assert_transition (jb_status row) JobRunning) (
     bind (append_row_event E row ''job.started'' [(''attempt'', JInt (jb_attempt row))] now (Some lease_token)) (\<lambda>_.
     seq (update_job job_id (\<lambda>r. r\<lparr>jb_status := JobRunning, jb_updated_at := now\<rparr>))
       (require_job job_id))))"

definition start :: "env \<Rightarrow> admission \<Rightarrow> string \<Rightarrow> string \<Rightarrow> string \<Rightarrow> int \<Rightarrow> db \<Rightarrow> (err + job_row) \<times> db" where
  "start E A job_id worker_id lease_token now s =
     deadline_result (execution_transaction A job_id lease_token now
       (with_deadline E job_id now (start_in_transaction E job_id worker_id lease_token now)) s)"

definition heartbeat_in_transaction ::
    "env \<Rightarrow> string \<Rightarrow> string \<Rightarrow> string \<Rightarrow> int \<Rightarrow> jobj option \<Rightarrow> int \<Rightarrow> job_row dbtxn" where
  "heartbeat_in_transaction E job_id worker_id lease_token lease_seconds checkpoint now =
     bind (owned_row job_id worker_id lease_token now) (\<lambda>row.
     seq (require (executing (jb_status row)) (InvalidTransitionError ''only leased or running jobs can heartbeat'')) (
     bind (case jb_thread row of
             None \<Rightarrow> ret None
           | Some t \<Rightarrow>
               bind (append_in_transaction E
                 ((event_req t ''job.heartbeat''
                    [(''attempt'', JInt (jb_attempt row)),
                     (''checkpoint_sha256'', (case checkpoint of None \<Rightarrow> JNull | Some c \<Rightarrow> JStr (fingerprint c)))])
                   \<lparr>rq_turn := jb_turn row, rq_job := Some (jb_id row), rq_created_at := Some now\<rparr>))
                 (\<lambda>e. ret (Some e))) (\<lambda>_.
     seq (update_job job_id
           (\<lambda>r. r\<lparr>jb_lease_expires := Some (now + seconds lease_seconds), jb_heartbeat := Some now,
                  jb_checkpoint := (case checkpoint of None \<Rightarrow> jb_checkpoint r | Some c \<Rightarrow> Some (json_canon (JObj c))),
                  jb_updated_at := now\<rparr>))
       (require_job job_id))))"

definition heartbeat ::
    "env \<Rightarrow> admission \<Rightarrow> string \<Rightarrow> string \<Rightarrow> string \<Rightarrow> int \<Rightarrow> jobj option \<Rightarrow> int \<Rightarrow> db \<Rightarrow> (err + job_row) \<times> db" where
  "heartbeat E A job_id worker_id lease_token lease_seconds checkpoint now s =
     (if lease_seconds < 1 then (Inl (ValueError ''lease_seconds must be positive''), s)
      else deadline_result (execution_transaction A job_id lease_token now
        (with_deadline E job_id now
           (heartbeat_in_transaction E job_id worker_id lease_token lease_seconds checkpoint now)) s))"

definition check_turn_coordination :: "job_row \<Rightarrow> job_status \<Rightarrow> unit dbtxn" where
  "check_turn_coordination row target =
     (case jb_turn row of
        None \<Rightarrow> ret ()
      | Some turn_id \<Rightarrow>
          if jb_kind row \<noteq> ''agent_turn'' then ret ()
          else bind (read (find_turn turn_id)) (\<lambda>turn.
            case turn of
              None \<Rightarrow> ret ()
            | Some t \<Rightarrow>
                if target = JobWaitingHuman
                then raise (InvalidTransitionError ''agent turns must enter HITL through RuntimeKernel.request_interaction'')
                else if target = JobRetryScheduled
                then require (tn_status t = TurnRetryWait)
                       (InvalidTransitionError ''agent turn retry must be coordinated with the turn state'')
                else require (\<not> (job_terminal target \<and> \<not> turn_terminal (tn_status t)))
                       (InvalidTransitionError ''agent turn jobs must finish through RuntimeKernel.finish_turn_job'')))"

definition finish_job_row :: "job_status \<Rightarrow> int \<Rightarrow> string option \<Rightarrow> int \<Rightarrow> job_row \<Rightarrow> job_row" where
  "finish_job_row target available_at error now r =
     (clear_lease r)\<lparr>jb_status := target, jb_available_at := available_at, jb_last_error := error,
                     jb_updated_at := now\<rparr>"

definition finish_in_transaction ::
    "env \<Rightarrow> string \<Rightarrow> string \<Rightarrow> string \<Rightarrow> job_status \<Rightarrow> string \<Rightarrow> string option \<Rightarrow> int option \<Rightarrow> int
     \<Rightarrow> job_row dbtxn" where
  "finish_in_transaction E job_id worker_id lease_token target event_type error available_at now =
     (let resolved = (case available_at of None \<Rightarrow> now | Some t \<Rightarrow> t)
      in bind (owned_row job_id worker_id lease_token now) (\<lambda>row.
         seq (check_turn_coordination row target) (
         seq (assert_transition (jb_status row) target) (
         bind (append_row_event E row event_type
            [(''attempt'', JInt (jb_attempt row)), (''error'', jopt error), (''available_at'', JStr (iso_text resolved))]
            now None) (\<lambda>_.
         seq (update_job job_id (finish_job_row target resolved error now))
           (require_job job_id))))))"

definition finish_owned ::
    "env \<Rightarrow> admission \<Rightarrow> string \<Rightarrow> string \<Rightarrow> string \<Rightarrow> job_status \<Rightarrow> string \<Rightarrow> string option \<Rightarrow> int option
     \<Rightarrow> int \<Rightarrow> db \<Rightarrow> (err + job_row) \<times> db" where
  "finish_owned E A job_id worker_id lease_token target event_type error available_at now s =
     deadline_result (execution_transaction A job_id lease_token now
       (with_deadline E job_id now
          (finish_in_transaction E job_id worker_id lease_token target event_type error available_at now)) s)"

definition complete :: "env \<Rightarrow> admission \<Rightarrow> string \<Rightarrow> string \<Rightarrow> string \<Rightarrow> int \<Rightarrow> db \<Rightarrow> (err + job_row) \<times> db" where
  "complete E A job_id worker_id lease_token now =
     finish_owned E A job_id worker_id lease_token JobCompleted ''job.completed'' None None now"

text \<open>\<^verbatim>\<open>fail\<close> reads the attempt before its transaction.\<close>

definition fail_target :: "bool \<Rightarrow> job_row \<Rightarrow> int \<Rightarrow> int \<Rightarrow> job_status \<times> string \<times> int" where
  "fail_target retryable current retry_delay now =
     (if retryable \<and> jb_attempt current < jb_max_attempts current
      then (JobRetryScheduled, ''job.retry_scheduled'', now + seconds (max 0 retry_delay))
      else if retryable then (JobDeadLetter, ''job.dead_lettered'', now)
      else (JobFailed, ''job.failed'', now))"

definition fail ::
    "env \<Rightarrow> admission \<Rightarrow> string \<Rightarrow> string \<Rightarrow> string \<Rightarrow> string \<Rightarrow> bool \<Rightarrow> int \<Rightarrow> int \<Rightarrow> db \<Rightarrow> (err + job_row) \<times> db" where
  "fail E A job_id worker_id lease_token error retryable retry_delay now s =
     (case get_job job_id s of
        Inl e \<Rightarrow> (Inl e, s)
      | Inr current \<Rightarrow>
          (case fail_target retryable current retry_delay now of
             (target, event_type, available_at) \<Rightarrow>
               finish_owned E A job_id worker_id lease_token target event_type (Some error) (Some available_at) now s))"

definition wait_for_human :: "env \<Rightarrow> admission \<Rightarrow> string \<Rightarrow> string \<Rightarrow> string \<Rightarrow> int \<Rightarrow> db \<Rightarrow> (err + job_row) \<times> db" where
  "wait_for_human E A job_id worker_id lease_token now =
     finish_owned E A job_id worker_id lease_token JobWaitingHuman ''job.waiting_human'' None None now"

section \<open>Control operations\<close>

definition resume_in_transaction :: "env \<Rightarrow> string \<Rightarrow> int \<Rightarrow> job_row dbtxn" where
  "resume_in_transaction E job_id now =
     bind (expire_deadlines_in_transaction E now (Some job_id)) (\<lambda>ids.
     if ids \<noteq> [] then require_job job_id
     else
       bind (require_job job_id) (\<lambda>row.
       bind (read (\<lambda>s. list_ex (\<lambda>i. ia_job i = Some job_id \<and> ia_status i = InteractionPending) (db_interactions s))) (\<lambda>pending.
       seq (require (\<not> pending) (InvalidTransitionError ''a job cannot resume while its interaction is pending'')) (
       seq (assert_transition (jb_status row) JobQueued) (
       bind (append_row_event E row ''job.resumed''
          [(''attempt'', JInt (jb_attempt row)), (''available_at'', JStr (iso_text now))] now None) (\<lambda>_.
       seq (update_job job_id (\<lambda>r. r\<lparr>jb_status := JobQueued, jb_available_at := now, jb_updated_at := now\<rparr>))
         (require_job job_id)))))))"

definition resume_waiting :: "env \<Rightarrow> admission \<Rightarrow> string \<Rightarrow> int \<Rightarrow> db \<Rightarrow> (err + job_row) \<times> db" where
  "resume_waiting E A job_id now =
     control_transaction A ''job_resume'' (Some job_id) (resume_in_transaction E job_id now)"

definition cancel_job_row :: "string option \<Rightarrow> int \<Rightarrow> job_row \<Rightarrow> job_row" where
  "cancel_job_row reason now r =
     (clear_lease r)\<lparr>jb_status := JobCancelled, jb_last_error := reason, jb_updated_at := now\<rparr>"

definition cancel_in_transaction :: "env \<Rightarrow> string \<Rightarrow> string \<Rightarrow> int \<Rightarrow> job_row dbtxn" where
  "cancel_in_transaction E job_id reason now =
     bind (require_job job_id) (\<lambda>row.
     if jb_status row = JobCancelled then ret row
     else
       seq (assert_transition (jb_status row) JobCancelled) (
       bind (append_row_event E row ''job.cancelled''
          [(''attempt'', JInt (jb_attempt row)), (''reason'', JStr reason)] now None) (\<lambda>_.
       seq (update_job job_id (cancel_job_row (Some reason) now))
         (require_job job_id))))"

definition cancel :: "env \<Rightarrow> admission \<Rightarrow> string \<Rightarrow> string \<Rightarrow> int \<Rightarrow> db \<Rightarrow> (err + job_row) \<times> db" where
  "cancel E A job_id reason now =
     control_transaction A ''job_cancel'' (Some job_id) (cancel_in_transaction E job_id reason now)"

end
