(* ===== verification/TurnInputs.thy ===== *)
theory TurnInputs
  imports Events
begin

text \<open>
  \<^verbatim>\<open>ecorex/runtime/turn_inputs.py\<close> over the tables of \<^verbatim>\<open>schema_fragments/turn_execution.py\<close>: the
  append-only revisions of what the user asked of a turn, and the execution batches that bind a
  range of revisions to one frozen snapshot context.  An insert checks the keys, the \<^verbatim>\<open>CHECK\<close> clauses,
  the triggers and the foreign keys of its table; the repositories turn their \<open>IntegrityError\<close>
  into a \<open>ConflictError\<close>.

  \<open>inputs_ok\<close> is the invariant of both tables: the revisions of a turn are numbered from zero
  without a gap, and its batches cut a prefix of them into consecutive ranges.
\<close>

section \<open>Requests\<close>

text \<open>\<^verbatim>\<open>CreateTurnRequest\<close> and \<^verbatim>\<open>SteerTurnRequest\<close>; only the latter may leave the agent model out.\<close>

record turn_request =
  tr_input :: string
  tr_agent_model :: "string option"
  tr_image_model :: "string option"
  tr_tools :: "string list"
  tr_attachments :: "string list"
  tr_client_message :: "string option"
  tr_metadata :: jobj

definition intent_payload :: "turn_request \<Rightarrow> jobj" where
  "intent_payload q =
     [(''schema_version'', JInt 1), (''input'', JStr (tr_input q)), (''agent_model_id'', jopt (tr_agent_model q)),
      (''image_model_id'', jopt (tr_image_model q)), (''explicit_tool_ids'', JArr (map JStr (tr_tools q))),
      (''metadata'', JObj (tr_metadata q))]"

definition intent_fingerprint :: "turn_request \<Rightarrow> string" where
  "intent_fingerprint q = fingerprint (intent_payload q)"

section \<open>Constraints of the tables\<close>

text \<open>SQLite's \<^verbatim>\<open>length(x) > 0\<close>: the length of a text ends at its first NUL.\<close>

definition sql_nonempty :: "string \<Rightarrow> bool" where
  "sql_nonempty s = (s \<noteq> [] \<and> hd s \<noteq> CHR 0x00)"

text \<open>\<^verbatim>\<open>COALESCE(MAX(..) + 1, 0)\<close>.\<close>

definition next_ordinal :: "nat list \<Rightarrow> nat" where
  "next_ordinal ns = foldr (\<lambda>n. max (Suc n)) ns 0"

definition revisions_of :: "string \<Rightarrow> db \<Rightarrow> revision_row list" where
  "revisions_of turn_id s = filter (\<lambda>r. rv_turn r = turn_id) (db_revisions s)"

definition batches_of :: "string \<Rightarrow> db \<Rightarrow> batch_row list" where
  "batches_of turn_id s = filter (\<lambda>b. bt_turn b = turn_id) (db_batches s)"

definition owns_turn :: "string \<Rightarrow> string \<Rightarrow> db \<Rightarrow> bool" where
  "owns_turn thread_id turn_id s = list_ex (\<lambda>t. tn_id t = turn_id \<and> tn_thread t = thread_id) (db_turns s)"

definition revision_source_ok :: "revision_row \<Rightarrow> bool" where
  "revision_source_ok r =
     (rv_ordinal r = 0 \<and> rv_source r = ''initial'' \<or>
      0 < rv_ordinal r \<and> rv_source r \<in> set [''steer'', ''authority_refresh''])"

definition revision_checks :: "revision_row \<Rightarrow> bool" where
  "revision_checks r =
     (revision_source_ok r \<and> sql_nonempty (rv_input r) \<and> sql_nonempty (rv_agent_model r) \<and>
      pred_option sql_nonempty (rv_image_model r) \<and> is_sha256 (rv_fingerprint r))"

definition insert_revision :: "revision_row \<Rightarrow> unit dbtxn" where
  "insert_revision r =
     bind (read (\<lambda>s. owns_turn (rv_thread r) (rv_turn r) s)) (\<lambda>parent.
     seq (require parent (IntegrityError ''turn input revision parent is inconsistent'')) (
     bind (read (\<lambda>s. next_ordinal (map rv_ordinal (revisions_of (rv_turn r) s)))) (\<lambda>next.
     seq (require (rv_ordinal r = next) (IntegrityError ''turn input revision ordinal is not contiguous'')) (
     bind (read (\<lambda>s. find_thread (rv_thread r) s = None \<or>
        list_ex (\<lambda>t. rv_id t = rv_id r \<or> rv_turn t = rv_turn r \<and> rv_ordinal t = rv_ordinal r
          \<or> rv_client_message r \<noteq> None \<and> rv_thread t = rv_thread r
             \<and> rv_client_message t = rv_client_message r) (db_revisions s))) (\<lambda>clash.
     seq (require (revision_checks r \<and> \<not> clash) (IntegrityError ''turn_input_revisions''))
       (modify (\<lambda>s. s\<lparr>db_revisions := db_revisions s @ [r]\<rparr>)))))))"

definition context_complete :: "snapshot_context \<Rightarrow> bool" where
  "context_complete c =
     (cx_config c \<noteq> [] \<and> cx_capability c \<noteq> [] \<and> cx_permission c \<noteq> [] \<and> cx_model_catalog c \<noteq> [] \<and> cx_extension c \<noteq> [])"

definition batch_checks :: "batch_row \<Rightarrow> bool" where
  "batch_checks b =
     (bt_first b \<le> bt_last b \<and>
      sql_nonempty (cx_config (bt_context b)) \<and> sql_nonempty (cx_capability (bt_context b)) \<and>
      sql_nonempty (cx_permission (bt_context b)) \<and> sql_nonempty (cx_model_catalog (bt_context b)) \<and>
      sql_nonempty (cx_extension (bt_context b)) \<and> is_sha256 (bt_identity b))"

definition insert_batch :: "batch_row \<Rightarrow> unit dbtxn" where
  "insert_batch b =
     bind (read (\<lambda>s. owns_turn (bt_thread b) (bt_turn b) s)) (\<lambda>parent.
     seq (require parent (IntegrityError ''turn execution batch parent is inconsistent'')) (
     bind (read (\<lambda>s. next_ordinal (map bt_last (batches_of (bt_turn b) s)))) (\<lambda>next.
     seq (require (bt_first b = next) (IntegrityError ''turn execution batch range is not contiguous'')) (
     bind (read (\<lambda>s. find_thread (bt_thread b) s = None \<or>
        \<not> list_ex (\<lambda>r. rv_ordinal r = bt_first b) (revisions_of (bt_turn b) s) \<or>
        \<not> list_ex (\<lambda>r. rv_ordinal r = bt_last b) (revisions_of (bt_turn b) s) \<or>
        list_ex (\<lambda>t. bt_id t = bt_id b \<or> bt_identity t = bt_identity b
          \<or> bt_turn t = bt_turn b \<and> bt_first t = bt_first b) (db_batches s))) (\<lambda>clash.
     seq (require (batch_checks b \<and> \<not> clash) (IntegrityError ''turn_execution_batches''))
       (modify (\<lambda>s. s\<lparr>db_batches := db_batches s @ [b]\<rparr>)))))))"

text \<open>\<^verbatim>\<open>except sqlite3.IntegrityError as error: raise ConflictError(..)\<close>.\<close>

definition integrity_conflict :: "string \<Rightarrow> 'a dbtxn \<Rightarrow> 'a dbtxn" where
  "integrity_conflict message m =
     (\<lambda>s. case m s of Inl (IntegrityError _) \<Rightarrow> Inl (ConflictError message) | x \<Rightarrow> x)"

lemma wp_integrity_conflict [wp_simps]: "wp (integrity_conflict e m) Q s = wp m Q s"
  by (simp add: wp_def integrity_conflict_def split: sum.splits err.splits)

section \<open>Revisions\<close>

text \<open>\<^verbatim>\<open>TurnInputRevision\<close> is validated whenever a row is read back.\<close>

definition revision_valid :: "revision_row \<Rightarrow> bool" where
  "revision_valid r =
     (rv_id r \<noteq> [] \<and> rv_thread r \<noteq> [] \<and> rv_turn r \<noteq> [] \<and>
      rv_source r \<in> set [''initial'', ''steer'', ''authority_refresh''] \<and> rv_input r \<noteq> [] \<and>
      text_bounds 1 256 (rv_agent_model r) \<and> pred_option (text_bounds 1 256) (rv_image_model r) \<and>
      length (rv_tools r) \<le> 64 \<and> is_sha256 (rv_fingerprint r))"

definition from_revision_row :: "revision_row \<Rightarrow> err + revision_row" where
  "from_revision_row r = (if revision_valid r then Inr r else Inl (ValueError ''TurnInputRevision''))"

definition match_client_intent_in_transaction ::
    "string \<Rightarrow> string \<Rightarrow> turn_request \<Rightarrow> revision_row option dbtxn" where
  "match_client_intent_in_transaction thread_id turn_id q =
     (if \<not> truthy (tr_client_message q) then ret None
      else
        bind (read (\<lambda>s. find (\<lambda>r. rv_thread r = thread_id \<and> rv_client_message r = tr_client_message q)
                           (db_revisions s))) (\<lambda>row.
        case row of
          None \<Rightarrow> ret None
        | Some r \<Rightarrow>
            seq (require (rv_turn r = turn_id) (ConflictError ''client_message_id belongs to a different Turn'')) (
            seq (require (rv_fingerprint r = intent_fingerprint q)
                  (ConflictError ''client_message_id was reused with different Turn intent''))
              (bind (lift_result (from_revision_row r)) (\<lambda>v. ret (Some v))))))"

definition new_revision ::
    "string \<Rightarrow> string \<Rightarrow> string \<Rightarrow> nat \<Rightarrow> string \<Rightarrow> turn_request \<Rightarrow> string \<Rightarrow> int \<Rightarrow> revision_row" where
  "new_revision revision_id thread_id turn_id ordinal source q agent_model created_at =
     \<lparr>rv_id = revision_id, rv_thread = thread_id, rv_turn = turn_id, rv_ordinal = ordinal, rv_source = source,
      rv_input = tr_input q, rv_agent_model = agent_model, rv_image_model = tr_image_model q,
      rv_tools = tr_tools q, rv_metadata = canon_obj (tr_metadata q),
      rv_client_message = tr_client_message q, rv_fingerprint = intent_fingerprint q,
      rv_created_at = created_at\<rparr>"

definition insert_revision_in_transaction ::
    "env \<Rightarrow> string \<Rightarrow> string \<Rightarrow> nat \<Rightarrow> string \<Rightarrow> turn_request \<Rightarrow> int option \<Rightarrow> revision_row dbtxn" where
  "insert_revision_in_transaction E thread_id turn_id ordinal source q created_at =
     bind (fresh_id E ''rev'') (\<lambda>revision_id.
     case tr_agent_model q of
       None \<Rightarrow> raise (ConflictError ''Turn input revision identity already exists'')
     | Some agent_model \<Rightarrow>
         (let r = new_revision revision_id thread_id turn_id ordinal source q agent_model
                    (case created_at of None \<Rightarrow> env_now E | Some t \<Rightarrow> t)
          in seq (integrity_conflict ''Turn input revision identity already exists'' (insert_revision r))
               (lift_result (from_revision_row r))))"

definition latest_ordinal :: "string \<Rightarrow> db \<Rightarrow> nat option" where
  "latest_ordinal turn_id s =
     (case next_ordinal (map rv_ordinal (revisions_of turn_id s)) of 0 \<Rightarrow> None | Suc n \<Rightarrow> Some n)"

definition append_initial_in_transaction ::
    "env \<Rightarrow> string \<Rightarrow> string \<Rightarrow> turn_request \<Rightarrow> int option \<Rightarrow> (revision_row \<times> bool) dbtxn" where
  "append_initial_in_transaction E thread_id turn_id q created_at =
     bind (match_client_intent_in_transaction thread_id turn_id q) (\<lambda>dup.
     case dup of
       Some r \<Rightarrow> ret (r, False)
     | None \<Rightarrow>
         bind (read (latest_ordinal turn_id)) (\<lambda>latest.
         seq (require (latest = None) (ConflictError ''Turn already has an initial input revision''))
           (bind (insert_revision_in_transaction E thread_id turn_id 0 ''initial'' q created_at) (\<lambda>r. ret (r, True)))))"

text \<open>The common tail of \<^verbatim>\<open>append_steer_in_transaction\<close> and \<^verbatim>\<open>append_authority_refresh_in_transaction\<close>.\<close>

definition append_next_in_transaction ::
    "env \<Rightarrow> string \<Rightarrow> string \<Rightarrow> string \<Rightarrow> turn_request \<Rightarrow> int option \<Rightarrow> (revision_row \<times> bool) dbtxn" where
  "append_next_in_transaction E source thread_id turn_id q created_at =
     bind (read (latest_ordinal turn_id)) (\<lambda>latest.
     case latest of
       None \<Rightarrow> raise (ConflictError ''Turn is missing its initial input revision'')
     | Some n \<Rightarrow>
         bind (insert_revision_in_transaction E thread_id turn_id (n + 1) source q created_at) (\<lambda>r. ret (r, True)))"

definition append_steer_in_transaction ::
    "env \<Rightarrow> string \<Rightarrow> string \<Rightarrow> turn_request \<Rightarrow> int option \<Rightarrow> (revision_row \<times> bool) dbtxn" where
  "append_steer_in_transaction E thread_id turn_id q created_at =
     bind (match_client_intent_in_transaction thread_id turn_id q) (\<lambda>dup.
     case dup of
       Some r \<Rightarrow> ret (r, False)
     | None \<Rightarrow> append_next_in_transaction E ''steer'' thread_id turn_id q created_at)"

definition append_authority_refresh_in_transaction ::
    "env \<Rightarrow> string \<Rightarrow> string \<Rightarrow> turn_request \<Rightarrow> int option \<Rightarrow> (revision_row \<times> bool) dbtxn" where
  "append_authority_refresh_in_transaction E thread_id turn_id q created_at =
     bind (match_client_intent_in_transaction thread_id turn_id q) (\<lambda>dup.
     case dup of
       Some r \<Rightarrow>
         seq (require (rv_source r = ''authority_refresh'')
               (ConflictError ''authority refresh identity belongs to a user revision'')) (ret (r, False))
     | None \<Rightarrow> append_next_in_transaction E ''authority_refresh'' thread_id turn_id q created_at)"

definition get_revision :: "string \<Rightarrow> db \<Rightarrow> err + revision_row" where
  "get_revision revision_id s =
     (case find (\<lambda>r. rv_id r = revision_id) (db_revisions s) of
        None \<Rightarrow> Inl (NotFoundError ''input revision does not exist'')
      | Some r \<Rightarrow> from_revision_row r)"

definition list_revisions :: "string \<Rightarrow> db \<Rightarrow> revision_row list" where
  "list_revisions turn_id s = sort_key rv_ordinal (revisions_of turn_id s)"

section \<open>Execution batches\<close>

text \<open>\<^verbatim>\<open>TurnSnapshotContext.to_dict\<close> as it enters the identity of a batch.\<close>

definition context_json :: "snapshot_context \<Rightarrow> jobj" where
  "context_json c =
     [(''config_snapshot_id'', JStr (cx_config c)), (''capability_snapshot_id'', JStr (cx_capability c)),
      (''permission_snapshot_id'', JStr (cx_permission c)), (''model_catalog_snapshot_id'', JStr (cx_model_catalog c)),
      (''extension_snapshot_id'', JStr (cx_extension c))]"

definition batch_identity :: "string \<Rightarrow> int \<Rightarrow> int \<Rightarrow> snapshot_context \<Rightarrow> string" where
  "batch_identity turn_id first final context =
     fingerprint
       ([(''schema_version'', JInt 1), (''turn_id'', JStr turn_id), (''first_revision_ordinal'', JInt first),
         (''last_revision_ordinal'', JInt final)] @ context_json context)"

text \<open>\<^verbatim>\<open>TurnExecutionBatch\<close> is validated whenever a row is read back.\<close>

definition batch_valid :: "batch_row \<Rightarrow> bool" where
  "batch_valid b =
     (bt_id b \<noteq> [] \<and> bt_thread b \<noteq> [] \<and> bt_turn b \<noteq> [] \<and> context_complete (bt_context b) \<and>
      is_sha256 (bt_identity b) \<and> bt_first b \<le> bt_last b)"

definition from_batch_row :: "batch_row \<Rightarrow> err + batch_row" where
  "from_batch_row b = (if batch_valid b then Inr b else Inl (ValueError ''TurnExecutionBatch''))"

definition new_batch ::
    "string \<Rightarrow> string \<Rightarrow> string \<Rightarrow> int \<Rightarrow> int \<Rightarrow> snapshot_context \<Rightarrow> int \<Rightarrow> batch_row" where
  "new_batch batch_id thread_id turn_id first final context created_at =
     \<lparr>bt_id = batch_id, bt_thread = thread_id, bt_turn = turn_id, bt_first = nat first, bt_last = nat final,
      bt_context = context, bt_identity = batch_identity turn_id first final context, bt_created_at = created_at\<rparr>"

text \<open>The tail of \<^verbatim>\<open>create_in_transaction\<close> for an identity that is not bound yet.\<close>

definition bind_batch ::
    "env \<Rightarrow> string \<Rightarrow> string \<Rightarrow> int \<Rightarrow> int \<Rightarrow> snapshot_context \<Rightarrow> string option \<Rightarrow> int option \<Rightarrow> batch_row dbtxn" where
  "bind_batch E thread_id turn_id first final context batch_id created_at =
     bind (read (\<lambda>s. int (next_ordinal (map bt_last (batches_of turn_id s))))) (\<lambda>expected_first.
     seq (require (\<not> first < expected_first) (ConflictError ''execution batch revision range overlaps authority'')) (
     seq (require (first = expected_first)
           (ConflictError ''execution batch revision range does not continue durable authority'')) (
     let identity = batch_identity turn_id first final context;
         i = (case or_else batch_id None of Some b \<Rightarrow> b | None \<Rightarrow> ''bat_'' @ take 32 identity);
         b = new_batch i thread_id turn_id first final context
               (case created_at of None \<Rightarrow> env_now E | Some t \<Rightarrow> t)
     in bind (read (\<lambda>s. list_ex (\<lambda>x. bt_id x = i) (db_batches s))) (\<lambda>reused.
        seq (require (\<not> reused) (ConflictError ''batch_id was reused with different execution identity'')) (
        seq (integrity_conflict ''execution batch revision range conflicts with durable authority'' (insert_batch b))
          (lift_result (from_batch_row b)))))))"

definition create_batch_in_transaction ::
    "env \<Rightarrow> string \<Rightarrow> int \<Rightarrow> int \<Rightarrow> snapshot_context \<Rightarrow> string option \<Rightarrow> int option \<Rightarrow> batch_row dbtxn" where
  "create_batch_in_transaction E turn_id first final context batch_id created_at =
     seq (require (0 \<le> first \<and> first \<le> final) (ValueError ''execution batch revision range is invalid'')) (
     seq (require (context_complete context) (ValueError ''execution batch snapshot context is incomplete'')) (
     bind (read (find_turn turn_id)) (\<lambda>turn.
     case turn of
       None \<Rightarrow> raise (NotFoundError ''turn does not exist'')
     | Some t \<Rightarrow>
         bind (read (\<lambda>s. filter (\<lambda>n. first \<le> int n \<and> int n \<le> final) (map rv_ordinal (list_revisions turn_id s)))) (\<lambda>rows.
         seq (require (map int rows = [first..final]) (ConflictError ''execution batch revision range is not contiguous'')) (
         bind (read (\<lambda>s. find (\<lambda>b. bt_identity b = batch_identity turn_id first final context) (db_batches s))) (\<lambda>existing.
         case existing of
           Some b \<Rightarrow>
             seq (require (batch_id = None \<or> batch_id = Some (bt_id b))
                   (ConflictError ''execution batch identity already has a different batch_id''))
               (lift_result (from_batch_row b))
         | None \<Rightarrow> bind_batch E (tn_thread t) turn_id first final context batch_id created_at))))))"

definition create_batch ::
    "env \<Rightarrow> string \<Rightarrow> int \<Rightarrow> int \<Rightarrow> snapshot_context \<Rightarrow> string option \<Rightarrow> int option \<Rightarrow> db \<Rightarrow> (err + batch_row) \<times> db" where
  "create_batch E turn_id first final context batch_id created_at =
     transaction (create_batch_in_transaction E turn_id first final context batch_id created_at)"

definition get_batch :: "string \<Rightarrow> db \<Rightarrow> err + batch_row" where
  "get_batch batch_id s =
     (case find (\<lambda>b. bt_id b = batch_id) (db_batches s) of
        None \<Rightarrow> Inl (NotFoundError ''execution batch does not exist'')
      | Some b \<Rightarrow> from_batch_row b)"

definition list_batches :: "string \<Rightarrow> db \<Rightarrow> batch_row list" where
  "list_batches turn_id s = sort_key (\<lambda>b. (bt_first b, bt_last b, bt_created_at b)) (batches_of turn_id s)"

section \<open>The invariant\<close>

text \<open>\<open>chain n bs m\<close>: the ranges of \<open>bs\<close> follow each other from \<open>n\<close> up to \<open>m\<close>, none of them empty.\<close>

primrec chain :: "nat \<Rightarrow> batch_row list \<Rightarrow> nat \<Rightarrow> bool" where
  "chain n [] m = (n = m)"
| "chain n (b # bs) m = (bt_first b = n \<and> n \<le> bt_last b \<and> chain (Suc (bt_last b)) bs m)"

definition turn_inputs_ok :: "revision_row list \<Rightarrow> batch_row list \<Rightarrow> bool" where
  "turn_inputs_ok rs bs =
     (map rv_ordinal rs = [0..<length rs] \<and> list_all revision_source_ok rs \<and>
      (\<exists>m \<le> length rs. chain 0 bs m))"

definition inputs_ok :: "db \<Rightarrow> bool" where
  "inputs_ok s =
     ((\<forall>turn_id. turn_inputs_ok (revisions_of turn_id s) (batches_of turn_id s)) \<and>
      (\<forall>r \<in> set (db_revisions s). owns_turn (rv_thread r) (rv_turn r) s) \<and>
      distinct (map rv_id (db_revisions s)) \<and> distinct (map bt_id (db_batches s)) \<and>
      distinct (map (\<lambda>r. (rv_thread r, rv_client_message r)) (filter (\<lambda>r. rv_client_message r \<noteq> None) (db_revisions s))))"

lemma next_ordinal_append: "next_ordinal (ns @ [n]) = max (next_ordinal ns) (Suc n)"
  by (induction ns) (auto simp: next_ordinal_def)

lemma next_ordinal_upt: "next_ordinal [0..<n] = n"
  by (induction n) (simp_all add: next_ordinal_append next_ordinal_def [of "[]"])

lemma chain_append:
  "chain n (bs @ [b]) m \<longleftrightarrow> (chain n bs (bt_first b) \<and> bt_first b \<le> bt_last b \<and> m = Suc (bt_last b))"
  by (induction bs arbitrary: n) auto

lemma chain_le: "chain n bs m \<Longrightarrow> n \<le> m"
  by (induction bs arbitrary: n) fastforce+

lemma chain_next_ordinal: "chain 0 bs m \<Longrightarrow> next_ordinal (map bt_last bs) = m"
proof (induction bs arbitrary: m rule: rev_induct)
  case (snoc b bs)
  then show ?case by (auto simp: chain_append next_ordinal_append)
qed (simp add: next_ordinal_def)

text \<open>The ranges of a chain, put one after the other, are an interval: no gap, no overlap.\<close>

lemma chain_ranges: "chain n bs m \<Longrightarrow> concat (map (\<lambda>b. [bt_first b..<Suc (bt_last b)]) bs) = [n..<m]"
proof (induction bs arbitrary: n)
  case (Cons b bs)
  then have "[n..<m] = [n..<Suc (bt_last b)] @ [Suc (bt_last b)..<m]"
    using chain_le [of "Suc (bt_last b)" bs m]
    by (metis chain.simps(2) le_SucI upt_add_eq_append le_Suc_ex)
  then show ?case using Cons by simp
qed simp

lemma inputs_okD:
  assumes "inputs_ok s"
  shows "turn_inputs_ok (revisions_of t s) (batches_of t s)" "r \<in> set (db_revisions s) \<Longrightarrow> owns_turn (rv_thread r) (rv_turn r) s"
  using assms by (simp_all add: inputs_ok_def)

lemma turn_inputs_ok_revision:
  "turn_inputs_ok rs bs \<Longrightarrow> rv_ordinal r = next_ordinal (map rv_ordinal rs) \<Longrightarrow> revision_source_ok r \<Longrightarrow>
   turn_inputs_ok (rs @ [r]) bs"
  by (auto simp: turn_inputs_ok_def next_ordinal_upt intro: le_SucI)

lemma turn_inputs_ok_batch:
  assumes "turn_inputs_ok rs bs" and "bt_first b = next_ordinal (map bt_last bs)" and "bt_first b \<le> bt_last b"
    and "list_ex (\<lambda>r. rv_ordinal r = bt_last b) rs"
  shows "turn_inputs_ok rs (bs @ [b])"
proof -
  obtain m where m: "m \<le> length rs" "chain 0 bs m" using assms(1) by (auto simp: turn_inputs_ok_def)
  have "bt_first b = m" using assms(2) m(2) chain_next_ordinal by simp
  then have c: "chain 0 (bs @ [b]) (Suc (bt_last b))" using m assms(3) by (simp add: chain_append)
  have "set (map rv_ordinal rs) = {0..<length rs}"
    using assms(1) by (metis turn_inputs_ok_def set_upt)
  moreover have "bt_last b \<in> set (map rv_ordinal rs)" using assms(4) by (force simp: list_ex_iff)
  ultimately have "Suc (bt_last b) \<le> length rs" by (metis atLeastLessThan_iff Suc_leI)
  then show ?thesis using assms(1) c by (auto simp: turn_inputs_ok_def)
qed

lemma inputs_insert_revision: "inputs_ok s \<Longrightarrow> wp (insert_revision r) (\<lambda>_. inputs_ok) s"
  by (auto simp: wp_simps insert_revision_def inputs_ok_def revisions_of_def batches_of_def owns_turn_def list_ex_iff
      revision_checks_def intro: turn_inputs_ok_revision)

lemma inputs_insert_batch: "inputs_ok s \<Longrightarrow> wp (insert_batch b) (\<lambda>_. inputs_ok) s"
  by (auto simp: wp_simps insert_batch_def inputs_ok_def revisions_of_def batches_of_def owns_turn_def list_ex_iff
      batch_checks_def intro!: turn_inputs_ok_batch)

section \<open>Idempotency\<close>

text \<open>The revision \<open>r\<close> is the one that answers for the client message of \<open>q\<close>.\<close>

definition settled :: "string \<Rightarrow> string \<Rightarrow> turn_request \<Rightarrow> revision_row \<Rightarrow> db \<Rightarrow> bool" where
  "settled thread_id turn_id q r s =
     (find (\<lambda>x. rv_thread x = thread_id \<and> rv_client_message x = tr_client_message q) (db_revisions s) = Some r \<and>
      rv_turn r = turn_id \<and> rv_fingerprint r = intent_fingerprint q \<and> revision_valid r)"

lemma find_append_new: "\<not> list_ex P xs \<Longrightarrow> find P (xs @ [x]) = (if P x then Some x else None)"
  by (induction xs) auto

lemma find_append_none: "find P xs = None \<Longrightarrow> find P (xs @ [x]) = (if P x then Some x else None)"
  by (induction xs) (auto split: if_splits)

lemma wp_match_settled:
  "truthy (tr_client_message q) \<Longrightarrow>
   wp (match_client_intent_in_transaction t u q) (\<lambda>dup s'. s' = s \<and> (\<forall>r. dup = Some r \<longrightarrow> settled t u q r s)) s"
  by (auto simp: match_client_intent_in_transaction_def wp_simps settled_def from_revision_row_def split: if_splits)

lemma wp_insert_revision_settled:
  assumes "truthy (tr_client_message q)"
  shows "wp (insert_revision_in_transaction E t u n src q ca) (\<lambda>r. settled t u q r) s"
proof -
  have "find (\<lambda>x. rv_thread x = t \<and> rv_client_message x = tr_client_message q)
          (db_revisions z @ [new_revision i t u n src q a c]) = Some (new_revision i t u n src q a c)"
    if "\<not> list_ex (\<lambda>x. rv_id x = j \<or> rv_turn x = u \<and> rv_ordinal x = n
          \<or> rv_thread x = t \<and> rv_client_message x = tr_client_message q) (db_revisions z)" for z i j a c
    using that by (subst find_append_new) (auto simp: list_ex_iff new_revision_def)
  moreover have "\<exists>v. tr_client_message q = Some v" using assms by (cases "tr_client_message q") auto
  ultimately show ?thesis
    by (auto simp: wp_simps insert_revision_in_transaction_def insert_revision_def settled_def from_revision_row_def
        Let_def new_revision_def split: if_splits)
qed

lemma wp_append_steer_settled:
  assumes "truthy (tr_client_message q)"
  shows "wp (append_steer_in_transaction E t u q ca) (\<lambda>(r, _). settled t u q r) s"
proof -
  have "wp (append_next_in_transaction E src t u q ca) (\<lambda>(r, _). settled t u q r) s" for src
    by (auto simp: append_next_in_transaction_def wp_simps intro: wp_mono [OF wp_insert_revision_settled [OF assms]])
  then show ?thesis
    unfolding append_steer_in_transaction_def wp_bind
    by (intro wp_mono [OF wp_match_settled [OF assms]]) (auto simp: wp_simps)
qed

lemma match_settled:
  assumes "settled t u q r s" and "truthy (tr_client_message q)" and "tr_client_message q' = tr_client_message q"
  shows "match_client_intent_in_transaction t u' q' s =
     (if u' \<noteq> u then Inl (ConflictError ''client_message_id belongs to a different Turn'')
      else if intent_fingerprint q' \<noteq> intent_fingerprint q
      then Inl (ConflictError ''client_message_id was reused with different Turn intent'')
      else Inr (Some r, s))"
  using assms
  by (auto simp: match_client_intent_in_transaction_def settled_def bind_def seq_def read_def require_def ret_def raise_def
      lift_result_def from_revision_row_def)

text \<open>
  A client message settles one intent: once a steer under a client message id has returned the
  revision \<open>r\<close>, every later steer of the thread under the same id either repeats the intent for the
  same turn and gets \<open>r\<close> back with nothing written, or is refused with the conflict that applies.
\<close>

theorem client_message_settles_intent:
  assumes "append_steer_in_transaction E thread_id turn_id q created_at s = Inr ((r, fresh), s')"
    and "tr_client_message q = Some m" and "m \<noteq> []" and "tr_client_message q' = Some m"
  shows "append_steer_in_transaction E' thread_id turn_id' q' created_at' s' =
     (if turn_id' \<noteq> turn_id then Inl (ConflictError ''client_message_id belongs to a different Turn'')
      else if intent_fingerprint q' \<noteq> intent_fingerprint q
      then Inl (ConflictError ''client_message_id was reused with different Turn intent'')
      else Inr ((r, False), s'))"
proof -
  have t: "truthy (tr_client_message q)" using assms(2,3) by simp
  have "settled thread_id turn_id q r s'"
    using wpD [OF wp_append_steer_settled [OF t] assms(1)] by simp
  then show ?thesis
    using match_settled [of thread_id turn_id q r s' q' turn_id'] t assms(2,4)
    by (simp add: append_steer_in_transaction_def bind_def ret_def)
qed

definition bound :: "string \<Rightarrow> int \<Rightarrow> int \<Rightarrow> snapshot_context \<Rightarrow> batch_row \<Rightarrow> db \<Rightarrow> bool" where
  "bound turn_id first final context b s =
     (0 \<le> first \<and> first \<le> final \<and> context_complete context \<and> find_turn turn_id s \<noteq> None \<and>
      map int (filter (\<lambda>n. first \<le> int n \<and> int n \<le> final) (map rv_ordinal (list_revisions turn_id s))) = [first..final] \<and>
      find (\<lambda>b. bt_identity b = batch_identity turn_id first final context) (db_batches s) = Some b \<and> batch_valid b)"

lemma wp_create_batch_bound:
  "wp (create_batch_in_transaction E u first final c i ca) (\<lambda>b s'. bound u first final c b s') s"
proof -
  have identity [simp]: "bt_identity (new_batch i t u first final c n) = batch_identity u first final c" for i t first n
    by (simp add: new_batch_def)
  show ?thesis
    unfolding create_batch_in_transaction_def bind_batch_def insert_batch_def
    by (auto simp: wp_simps Let_def bound_def from_batch_row_def list_revisions_def revisions_of_def
        find_turn_def find_append_none split: if_splits)
qed

lemma create_batch_bound:
  assumes "bound u first final c b s"
  shows "create_batch_in_transaction E u first final c i ca s =
     (if i \<noteq> None \<and> i \<noteq> Some (bt_id b) then Inl (ConflictError ''execution batch identity already has a different batch_id'')
      else Inr (b, s))"
  using assms
  by (auto simp: create_batch_in_transaction_def bound_def bind_def seq_def read_def require_def ret_def raise_def
      lift_result_def from_batch_row_def split: option.splits)

text \<open>
  Creating an execution batch is idempotent: repeating it with the same range and snapshot
  context gives the same batch and leaves the database alone, whatever the clock says; only another
  batch id is refused.
\<close>

theorem batch_replay:
  assumes "create_batch E turn_id first final context batch_id created_at s = (Inr b, s')"
  shows "create_batch E' turn_id first final context batch_id' created_at' s' =
     (if batch_id' \<noteq> None \<and> batch_id' \<noteq> Some (bt_id b)
      then (Inl (ConflictError ''execution batch identity already has a different batch_id''), s') else (Inr b, s'))"
proof -
  have "create_batch_in_transaction E turn_id first final context batch_id created_at s = Inr (b, s')"
    using assms by (auto simp: create_batch_def transaction_def split: sum.splits prod.splits)
  then have "bound turn_id first final context b s'" by (rule wpD [OF wp_create_batch_bound])
  then show ?thesis by (simp add: create_batch_def transaction_def create_batch_bound)
qed

section \<open>Witnesses\<close>

definition sample_request :: turn_request where
  "sample_request =
     \<lparr>tr_input = ''hi'', tr_agent_model = Some ''m'', tr_image_model = None, tr_tools = [], tr_attachments = [],
      tr_client_message = Some ''c'', tr_metadata = []\<rparr>"

definition sample_turn :: turn_row where
  "sample_turn =
     \<lparr>tn_id = ''u'', tn_thread = ''t'', tn_status = TurnQueued, tn_input = ''hi'', tn_agent_model = ''m'',
      tn_image_model = None, tn_client_message = None, tn_metadata = [], tn_reason = None, tn_created_at = 0,
      tn_updated_at = 0\<rparr>"

definition sample_thread :: thread_row where
  "sample_thread =
     \<lparr>th_id = ''t'', th_status = ThreadActive, th_title = None, th_metadata = [], th_client_request = None,
      th_fingerprint = None, th_forked_thread = None, th_forked_turn = None, th_forked_seq = None,
      th_created_at = 0, th_updated_at = 0\<rparr>"

definition sample_revision :: revision_row where
  "sample_revision = new_revision ''rev_a'' ''t'' ''u'' 0 ''initial'' (sample_request\<lparr>tr_client_message := None\<rparr>) ''m'' 0"

definition sample_inputs :: db where
  "sample_inputs = empty_db\<lparr>db_threads := [sample_thread], db_turns := [sample_turn], db_revisions := [sample_revision]\<rparr>"

definition sample_context :: snapshot_context where
  "sample_context =
     \<lparr>cx_config = ''cfg'', cx_capability = ''cap'', cx_permission = ''prm'', cx_model_catalog = ''mdl'', cx_extension = ''ext''\<rparr>"

lemma is_sha256_fingerprint [simp]: "is_sha256 (fingerprint d)"
  unfolding is_sha256_def fingerprint_def list_all_iff length_sha256 using sha256_hex by blast

lemmas run_simps = bind_def seq_def read_def require_def ret_def raise_def modify_def lift_result_def

lemma text_bounds_m: "text_bounds 1 256 ''m''"
  by code_simp

lemma sample_steer:
  "\<exists>r s'. append_steer_in_transaction sample_env ''t'' ''u'' sample_request None sample_inputs = Inr ((r, True), s')"
  using text_bounds_m
  by (simp add: run_simps append_steer_in_transaction_def append_next_in_transaction_def match_client_intent_in_transaction_def
      insert_revision_in_transaction_def insert_revision_def integrity_conflict_def fresh_id_def latest_ordinal_def Let_def
      revisions_of_def next_ordinal_def owns_turn_def sample_inputs_def sample_request_def sample_revision_def new_revision_def
      sample_turn_def sample_thread_def empty_db_def sample_env_def from_revision_row_def revision_valid_def
      find_thread_def revision_checks_def revision_source_ok_def sql_nonempty_def intent_fingerprint_def
      str_nat.simps [of 0] digit_char_def)

theorem client_message_settles_intent_witness:
  "\<exists>r s'. append_steer_in_transaction sample_env ''t'' ''u'' sample_request None sample_inputs = Inr ((r, True), s') \<and>
     append_steer_in_transaction sample_env ''t'' ''u'' sample_request (Some 7) s' = Inr ((r, False), s')"
proof -
  obtain r s' where run: "append_steer_in_transaction sample_env ''t'' ''u'' sample_request None sample_inputs = Inr ((r, True), s')"
    using sample_steer by blast
  have "tr_client_message sample_request = Some ''c''" by (simp add: sample_request_def)
  then show ?thesis
    using run client_message_settles_intent [OF run, of "''c''" sample_request sample_env "''u''" "Some 7"] by auto
qed

lemma sample_batch:
  "\<exists>b s'. create_batch sample_env ''u'' 0 0 sample_context None None sample_inputs = (Inr b, s')"
  by (simp add: run_simps create_batch_def transaction_def create_batch_in_transaction_def bind_batch_def insert_batch_def
      integrity_conflict_def Let_def list_revisions_def revisions_of_def batches_of_def next_ordinal_def owns_turn_def
      sample_inputs_def sample_request_def sample_revision_def new_revision_def sample_turn_def sample_thread_def
      empty_db_def sample_env_def from_batch_row_def batch_valid_def find_thread_def find_turn_def batch_checks_def
      sql_nonempty_def new_batch_def batch_identity_def sample_context_def context_complete_def)

theorem batch_replay_witness:
  "\<exists>b s'. create_batch sample_env ''u'' 0 0 sample_context None None sample_inputs = (Inr b, s') \<and>
     create_batch sample_env ''u'' 0 0 sample_context None (Some 9) s' = (Inr b, s')"
  using sample_batch batch_replay [of sample_env "''u''" 0 0 sample_context None None sample_inputs _ _ sample_env None "Some 9"]
  by fastforce

end
