(* ===== verification/Storage.thy ===== *)
theory Storage
  imports Jobs TurnInputs
begin

text \<open>
  What holds of every operation because it holds of every statement the operations are built from.
  The locale \<open>statement_order\<close> is the interface to the database: a reflexive and transitive relation on its
  states that each insert, update and append respects, apart from those on turns and the insert of a job.
  \<open>linked_order\<close> adds the three operations of \<^verbatim>\<open>jobs.py\<close> that change a turn, \<open>insert_order\<close> the insert of a job;
  \<open>update_order\<close> and \<open>storage_order\<close> are the contracts of relations that do not look at the columns of a turn.
  Inside the locales the operations of \<^verbatim>\<open>reasoning.py\<close>, \<^verbatim>\<open>turn_inputs.py\<close> and \<^verbatim>\<open>jobs.py\<close> are shown to respect
  the relation.  They are interpreted with \<open>log_step\<close> (the event log is append-only and gap-free), with
  \<open>permanent\<close> (no row is deleted or re-identified, the snapshot context of a job is immutable), with \<open>same_ids\<close>
  (only an enqueue adds a job) and with \<open>inputs_step\<close> (the inputs of a turn stay in order).
\<close>

section \<open>Admitted transactions\<close>

text \<open>Whatever an admitted transaction leaves behind is the state before it or the state its body
  committed.\<close>

lemma control_transaction_state:
  "snd (control_transaction A scope sub m s) = s \<or> (\<exists>a. m s = Inr (a, snd (control_transaction A scope sub m s)))"
  by (auto simp: control_transaction_def guarded_def transaction_def split: option.splits sum.splits prod.splits)

lemma execution_transaction_state:
  "snd (execution_transaction A i t now m s) = s \<or>
   (\<exists>a. seq (assert_live_execution_binding i t now) m s = Inr (a, snd (execution_transaction A i t now m s)))"
  by (auto simp: execution_transaction_def guarded_def transaction_def Let_def split: option.splits sum.splits prod.splits)

lemma deadline_result_state [simp]: "snd (deadline_result r) = snd r"
  by (auto simp: deadline_result_def split: sum.splits prod.splits option.splits)

lemma lease_next_state:
  "snd (lease_next E A g w n kinds now s) = s \<or>
   (\<exists>a. lease_next_in_admission E w n kinds now s = Inr (a, snd (lease_next E A g w n kinds now s)))"
  by (auto simp: lease_next_def transaction_def Let_def split: option.splits sum.splits prod.splits err.splits)

section \<open>The interface\<close>

locale db_order = step_order R for R :: "db \<Rightarrow> db \<Rightarrow> bool"
begin

lemma keeps_lifted: "keeps R (lift_result x)"
  by (cases x) (simp_all add: lift_result_def keeps_ret keeps_raise)

lemma keeps_case_list:
  "keeps R m \<Longrightarrow> (\<And>x xs. keeps R (f x xs)) \<Longrightarrow> keeps R (case l of [] \<Rightarrow> m | x # xs \<Rightarrow> f x xs)"
  by (cases l) auto

lemma control_keeps: "wp m (\<lambda>_ s'. R s s') s \<Longrightarrow> R s (snd (control_transaction A scope sub m s))"
  using control_transaction_state [of A scope sub m s] R_refl by (metis wpD)

lemma keeps_binding: "keeps R (assert_live_execution_binding i t now)"
  unfolding assert_live_execution_binding_def by (intro keeps_intros)

lemma execution_keeps: "keeps R m \<Longrightarrow> R s (snd (execution_transaction A i t now m s))"
  using execution_transaction_state [of A i t now m s] keeps_seq [OF keeps_binding] R_refl by (metis keepsD)

lemma lease_keeps: "keeps R (lease_next_in_admission E w n kinds now) \<Longrightarrow> R s (snd (lease_next E A g w n kinds now s))"
  using lease_next_state [of E A g w n kinds now s] R_refl by (metis keepsD)

end

text \<open>Where a thread comes from; no statement changes it.\<close>

definition lineage :: "thread_row \<Rightarrow> string \<times> string option \<times> string option \<times> nat option" where
  "lineage r = (th_id r, th_forked_thread r, th_forked_turn r, th_forked_seq r)"

locale statement_order = db_order +
  assumes keeps_append: "keeps R (append_in_transaction E rq)"
    and keeps_fresh_id: "keeps R (fresh_id E p)"
    and keeps_update_item: "(\<And>r. it_id (fi r) = it_id r \<and> it_turn (fi r) = it_turn r) \<Longrightarrow> keeps R (update_item i fi)"
    and keeps_update_interaction: "(\<And>r. ia_id (fa r) = ia_id r) \<Longrightarrow> keeps R (update_interaction i fa)"
    and keeps_update_job: "(\<And>r. jb_id (fj r) = jb_id r \<and> jb_key (fj r) = jb_key r \<and>
      (jb_lease_token (fj r) = None \<or> jb_lease_token (fj r) = jb_lease_token r)) \<Longrightarrow> keeps R (update_job i fj)"
    and keeps_upsert_scheduler: "keeps R (upsert_scheduler k n j)"
    and keeps_retire: "keeps R (retire_row_execution_permit row)"
    and keeps_insert_item: "keeps R (insert_item item)"
    and keeps_insert_context: "keeps R (insert_context i c)"
    and keeps_insert_thread: "th_forked_thread thread = None \<Longrightarrow> keeps R (insert_thread thread)"
    and keeps_insert_interaction: "keeps R (insert_interaction interaction)"
    and keeps_update_thread: "(\<And>r. lineage (fh r) = lineage r) \<Longrightarrow> keeps R (update_thread i fh)"
    and keeps_insert_revision: "keeps R (insert_revision revision)"
    and keeps_insert_batch: "keeps R (insert_batch batch)"
begin

lemma keeps_integrity_conflict: "keeps R m \<Longrightarrow> keeps R (integrity_conflict e m)"
  by (simp add: keeps_def wp_integrity_conflict)

lemmas ops = keeps_intros keeps_case_list keeps_lifted keeps_append keeps_fresh_id keeps_upsert_scheduler
  keeps_retire keeps_insert_item keeps_insert_context keeps_insert_thread
  keeps_insert_interaction keeps_insert_revision keeps_insert_batch keeps_integrity_conflict

lemma keeps_match_client_intent: "keeps R (match_client_intent_in_transaction t u q)"
  unfolding match_client_intent_in_transaction_def by (intro ops)

lemma keeps_revision: "keeps R (insert_revision_in_transaction E t u n src q now)"
  unfolding insert_revision_in_transaction_def Let_def by (intro ops)

lemma keeps_append_inputs:
  "keeps R (append_initial_in_transaction E t u q now)" "keeps R (append_steer_in_transaction E t u q now)"
  "keeps R (append_authority_refresh_in_transaction E t u q now)"
  unfolding append_initial_in_transaction_def append_steer_in_transaction_def
    append_authority_refresh_in_transaction_def append_next_in_transaction_def
  by (intro ops keeps_match_client_intent keeps_revision)+

lemma keeps_create_batch: "keeps R (create_batch_in_transaction E u lo hi c i now)"
  unfolding create_batch_in_transaction_def bind_batch_def Let_def by (intro ops)

lemma keeps_update_content: "keeps R (update_content i c now)"
  unfolding update_content_def by (rule keeps_update_item) simp

lemma keeps_visible_rows: "keeps R (visible_rows u)"
  unfolding visible_rows_def by (intro ops)

lemma keeps_archive: "keeps R (archive_visible_reasoning_in_transaction E t u i st r now)"
  unfolding archive_visible_reasoning_in_transaction_def Let_def
  by (intro ops keeps_visible_rows keeps_update_content)

lemma keeps_require_turn: "keeps R (require_turn i)"
  unfolding require_turn_def by (intro ops)

lemma keeps_require_item: "keeps R (require_item i)"
  unfolding require_item_def by (intro ops)

lemma keeps_archive_previous: "keeps R (archive_previous p c now)"
  unfolding archive_previous_def by (rule keeps_update_item) simp

lemma keeps_apply_delta: "keeps R (apply_delta_in_transaction E u a d k now)"
  unfolding apply_delta_in_transaction_def replay_delta_def extend_atom_def open_atom_def Let_def
  by (intro ops keeps_visible_rows keeps_update_content keeps_require_turn keeps_require_item keeps_archive_previous)

lemma keeps_job_event: "keeps R (append_job_event E a b c d e f g h)"
  unfolding append_job_event_def by (intro ops)

lemma keeps_row_event: "keeps R (append_row_event E row e f g h)"
  unfolding append_row_event_def by (intro ops keeps_job_event)

lemma keeps_require_job: "keeps R (require_job i)"
  unfolding require_job_def by (intro ops)

lemma keeps_close_job:
  "keeps R (update_job i (fail_job_row e now))" "keeps R (update_job i (complete_job_row now))"
  "keeps R (update_job i (cancel_job_row x now))" "keeps R (update_job i (reclaim_job_row st now))"
  "keeps R (update_job i (finish_job_row st a x now))"
  by (intro keeps_update_job; simp add: fail_job_row_def complete_job_row_def cancel_job_row_def
      reclaim_job_row_def finish_job_row_def)+

lemma keeps_assert_transition: "keeps R (assert_transition a b)"
  unfolding assert_transition_def by (intro ops)

lemma keeps_owned_row: "keeps R (owned_row i w t now)"
  unfolding owned_row_def by (intro ops keeps_require_job)

lemma keeps_start: "keeps R (start_in_transaction E i w t now)"
  unfolding start_in_transaction_def
  by (intro ops keeps_owned_row keeps_assert_transition keeps_row_event keeps_update_job keeps_require_job) simp

lemma keeps_heartbeat: "keeps R (heartbeat_in_transaction E i w t n c now)"
  unfolding heartbeat_in_transaction_def
  by (intro ops keeps_owned_row keeps_update_job keeps_require_job) simp

lemma keeps_finish: "keeps R (finish_in_transaction E i w t target ev err av now)"
  unfolding finish_in_transaction_def check_turn_coordination_def Let_def
  by (intro ops keeps_owned_row keeps_assert_transition keeps_row_event keeps_close_job keeps_require_job)

lemma keeps_cancel: "keeps R (cancel_in_transaction E i reason now)"
  unfolding cancel_in_transaction_def
  by (intro ops keeps_require_job keeps_assert_transition keeps_row_event keeps_close_job)

end

text \<open>The operations of \<^verbatim>\<open>jobs.py\<close> that change the status of a turn, and what is built from them.\<close>

locale linked_order = statement_order +
  assumes keeps_fail_linked_turn: "keeps R (fail_linked_turn_in_transaction E job now reason c)"
    and keeps_retry_wait: "keeps R (move_linked_turn_to_retry_wait_in_transaction E job now c)"
    and keeps_recover: "keeps R (recover_finalizing_turn_in_transaction E job now)"
begin

lemma keeps_expire_deadlines: "keeps R (expire_deadlines_in_transaction E now i)"
  unfolding expire_deadlines_in_transaction_def expire_deadline_row_def
  by (intro ops keeps_row_event keeps_close_job keeps_fail_linked_turn)

lemma keeps_reclaim: "keeps R (reclaim_expired_in_transaction E now)"
  unfolding reclaim_expired_in_transaction_def reclaim_row_def Let_def
  by (intro ops keeps_recover keeps_row_event keeps_close_job keeps_fail_linked_turn keeps_retry_wait)

lemma keeps_with_deadline: "keeps R m \<Longrightarrow> keeps R (with_deadline E i now m)"
  unfolding with_deadline_def by (intro ops keeps_expire_deadlines)

lemma keeps_resume: "keeps R (resume_in_transaction E i now)"
  unfolding resume_in_transaction_def
  by (intro ops keeps_expire_deadlines keeps_require_job keeps_assert_transition keeps_row_event keeps_update_job) simp

end

text \<open>A lease token is written by one operation.\<close>

locale leasing_order = linked_order +
  assumes keeps_lease_job: "keeps R (update_job i (lease_job_row n w tk ex cp now))"
begin

lemma keeps_lease_next: "keeps R (lease_next_in_admission E w n kinds now)"
  unfolding lease_next_in_admission_def grant_lease_def
  by (intro ops keeps_expire_deadlines keeps_reclaim keeps_assert_transition keeps_row_event keeps_lease_job keeps_require_job)

end

text \<open>The jobs are inserted by one operation, without a lease.\<close>

locale insert_order = statement_order +
  assumes keeps_insert_job: "jb_lease_token job = None \<Longrightarrow> keeps R (insert_job job)"
begin

lemma keeps_enqueue: "keeps R (enqueue_in_transaction E q now)"
  unfolding enqueue_in_transaction_def enqueue_valid_def insert_enqueued_def Let_def
  by (intro ops keeps_job_event keeps_insert_job) (simp_all add: queued_job_def)

end

text \<open>A relation that does not look at the columns of a turn respects those operations too.\<close>

locale update_order = statement_order +
  assumes keeps_update_turn: "(\<And>r. tn_id (ft r) = tn_id r \<and> tn_thread (ft r) = tn_thread r) \<Longrightarrow> keeps R (update_turn i ft)"
    and keeps_insert_turn: "keeps R (insert_turn turn)"

sublocale update_order \<subseteq> linked_order
proof unfold_locales
  show "keeps R (fail_linked_turn_in_transaction E job now reason c)" for E job now reason c
    unfolding fail_linked_turn_in_transaction_def expire_interaction_def fail_item_def
    by (intro ops keeps_archive keeps_update_interaction keeps_update_item keeps_update_turn) simp_all
  show "keeps R (move_linked_turn_to_retry_wait_in_transaction E job now c)" for E job now c
    unfolding move_linked_turn_to_retry_wait_in_transaction_def by (intro ops keeps_update_turn) simp_all
  show "keeps R (recover_finalizing_turn_in_transaction E job now)" for E job now
    unfolding recover_finalizing_turn_in_transaction_def settle_recovered_turn_def complete_dependent_job_def cancel_interaction_recovered_def
      complete_item_recovered_def Let_def
    by (intro ops keeps_row_event keeps_close_job keeps_archive keeps_update_interaction keeps_update_item keeps_update_turn)
       simp_all
qed

locale storage_order = update_order + insert_order +
  assumes keeps_insert_fork: "keeps R (insert_thread thread)"
    and keeps_lease_row: "keeps R (update_job i (lease_job_row n w tk ex cp now))"

sublocale storage_order \<subseteq> leasing_order
  by unfold_locales (rule keeps_lease_row)

section \<open>The log is append-only and gap-free\<close>

lemma log_step_update_job: "keeps log_step (update_job i f)"
  unfolding update_job_def by (intro log_steps.keeps_intros log_step_other) simp_all

lemma log_step_inserts:
  "keeps log_step (insert_item item)" "keeps log_step (insert_job job)" "keeps log_step (insert_context i c)"
  "keeps log_step (insert_thread thread)" "keeps log_step (insert_turn turn)" "keeps log_step (insert_interaction ia)"
  "keeps log_step (insert_revision rv)" "keeps log_step (insert_batch bt)"
  unfolding insert_item_def insert_job_def insert_context_def insert_thread_def insert_turn_def insert_interaction_def
    insert_revision_def insert_batch_def
  by (intro log_steps.keeps_intros log_step_other; simp)+

lemma log_step_fresh_id: "keeps log_step (fresh_id E p)"
  by (simp add: keeps_def wp_fresh_id log_step_def events_ok_def head_def thread_events_def)

interpretation log_storage: storage_order log_step
proof unfold_locales
  show "keeps log_step (retire_row_execution_permit row)" for row
    unfolding retire_row_execution_permit_def by (intro log_steps.keeps_intros log_step_other) simp_all
qed (simp_all add: log_step_append log_step_fresh_id update_turn_def update_item_def update_interaction_def
    update_thread_def upsert_scheduler_def log_step_other log_step_update_job log_step_inserts)

section \<open>Rows are permanent\<close>

definition permanent :: "db \<Rightarrow> db \<Rightarrow> bool" where
  "permanent s s' =
     ((\<exists>js. map (\<lambda>j. (jb_id j, jb_key j)) (db_jobs s') = map (\<lambda>j. (jb_id j, jb_key j)) (db_jobs s) @ js) \<and>
      (\<exists>is. map (\<lambda>i. (it_id i, it_turn i)) (db_items s') = map (\<lambda>i. (it_id i, it_turn i)) (db_items s) @ is) \<and>
      (\<exists>cs. db_contexts s' = db_contexts s @ cs) \<and>
      (\<exists>ts. map (\<lambda>t. (tn_id t, tn_thread t)) (db_turns s') = map (\<lambda>t. (tn_id t, tn_thread t)) (db_turns s) @ ts) \<and>
      (\<exists>as. map ia_id (db_interactions s') = map ia_id (db_interactions s) @ as) \<and>
      (\<exists>hs. map lineage (db_threads s') = map lineage (db_threads s) @ hs) \<and>
      (\<exists>rs. db_revisions s' = db_revisions s @ rs) \<and> (\<exists>bs. db_batches s' = db_batches s @ bs) \<and>
      db_next_id s \<le> db_next_id s')"

interpretation permanence: db_order permanent
  by unfold_locales (auto simp: permanent_def)

lemma lineage_touched [simp]: "lineage (t\<lparr>th_updated_at := n\<rparr>) = lineage t"
  by (simp add: lineage_def)

lemma same_threads_lineage: "same_threads s s' \<Longrightarrow> map lineage (db_threads s') = map lineage (db_threads s)"
proof -
  assume "same_threads s s'"
  then have "map lineage (map (\<lambda>t. t\<lparr>th_updated_at := 0\<rparr>) (db_threads s')) =
      map lineage (map (\<lambda>t. t\<lparr>th_updated_at := 0\<rparr>) (db_threads s))"
    by (simp only: same_threads_def)
  then show ?thesis by (simp add: comp_def)
qed

lemma permanent_only_log: "only_log s s' \<Longrightarrow> permanent s s'"
  by (auto simp: only_log_def permanent_def dest: same_threads_lineage)

interpretation permanent_storage: storage_order permanent
proof unfold_locales
  show "keeps permanent (append_in_transaction E rq)" for E rq
    by (rule keepsI, rule keeps_wp [OF keeps_only_log_append]) (rule permanent_only_log)
qed (simp_all add: keeps_def wp_simps permanent_def update_turn_def update_item_def update_interaction_def
    update_job_def lease_job_row_def upsert_scheduler_def retire_row_execution_permit_def insert_item_def insert_job_def
    insert_context_def insert_thread_def insert_turn_def insert_interaction_def update_thread_def
    insert_revision_def insert_batch_def)

section \<open>Only an enqueue adds a job\<close>

definition same_ids :: "db \<Rightarrow> db \<Rightarrow> bool" where
  "same_ids s s' = (map jb_id (db_jobs s') = map jb_id (db_jobs s))"

interpretation identity_storage: update_order same_ids
proof unfold_locales
  show "keeps same_ids (append_in_transaction E rq)" for E rq
    by (rule keepsI, rule keeps_wp [OF keeps_only_log_append]) (simp add: only_log_def same_ids_def)
qed (simp_all add: keeps_def wp_simps same_ids_def update_turn_def update_item_def update_interaction_def
    update_job_def upsert_scheduler_def retire_row_execution_permit_def insert_item_def
    insert_context_def insert_thread_def insert_turn_def insert_interaction_def update_thread_def
    insert_revision_def insert_batch_def)

interpretation identity_leases: leasing_order same_ids
  by unfold_locales (simp add: keeps_def wp_simps same_ids_def update_job_def lease_job_row_def)

section \<open>The turn inputs stay in order\<close>

definition inputs_step :: "db \<Rightarrow> db \<Rightarrow> bool" where
  "inputs_step s s' = (inputs_ok s \<longrightarrow> inputs_ok s')"

lemma inputs_ok_other:
  assumes "inputs_ok s" and "db_revisions s' = db_revisions s" and "db_batches s' = db_batches s"
    and "\<exists>ts. map (\<lambda>t. (tn_id t, tn_thread t)) (db_turns s') = map (\<lambda>t. (tn_id t, tn_thread t)) (db_turns s) @ ts"
  shows "inputs_ok s'"
proof -
  let ?k = "\<lambda>t. (tn_id t, tn_thread t)"
  have owns: "owns_turn t u x \<longleftrightarrow> (u, t) \<in> set (map ?k (db_turns x))" for t u x
    by (auto simp: owns_turn_def list_ex_iff)
  have "owns_turn t u s \<Longrightarrow> owns_turn t u s'" for t u
    unfolding owns using assms(4) by (metis UnI1 set_append)
  then show ?thesis using assms(1-3) by (auto simp: inputs_ok_def revisions_of_def batches_of_def)
qed

interpretation inputs_storage: storage_order inputs_step
proof unfold_locales
  show "keeps inputs_step (append_in_transaction E rq)" for E rq
    by (rule keepsI, rule keeps_wp [OF keeps_only_log_append]) (auto simp: only_log_def inputs_step_def elim!: inputs_ok_other)
  show "keeps inputs_step (insert_revision r)" "keeps inputs_step (insert_batch b)" for r b
    by (auto simp: keeps_def inputs_step_def wp_def
        dest: inputs_insert_revision [of _ r] inputs_insert_batch [of _ b] split: sum.splits)
qed (auto simp: inputs_step_def keeps_def wp_simps update_turn_def update_item_def update_interaction_def
    update_job_def upsert_scheduler_def retire_row_execution_permit_def insert_item_def insert_job_def
    insert_context_def insert_thread_def insert_turn_def insert_interaction_def update_thread_def
    elim!: inputs_ok_other)

end
