(* ===== verification/Scheduler.thy ===== *)
theory Scheduler
  imports Storage
begin

text \<open>
  Correctness of the durable scheduler.  \<open>jobs_inv\<close> is the invariant of the \<^verbatim>\<open>jobs\<close> table (unique
  identities and keys, well-formed leases, one executing job per thread, in table order), \<open>evolve\<close>
  says how a row may change (identity and request are immutable, the attempt only grows, a terminal
  row is never touched again).  Every operation of \<^verbatim>\<open>jobs.py\<close> preserves the one and respects the other.
\<close>

section \<open>Operations that leave the jobs alone\<close>

definition same_jobs :: "db \<Rightarrow> db \<Rightarrow> bool" where
  "same_jobs s s' = (db_jobs s' = db_jobs s)"

interpretation jobs_frame: step_order same_jobs
  by unfold_locales (auto simp: same_jobs_def)

named_theorems same_jobs_rules "operations that do not write the jobs table"

lemma keeps_same_jobs_append [same_jobs_rules]: "keeps same_jobs (append_in_transaction E r)"
  using keeps_only_log_append [of E r] by (auto simp: keeps_def only_log_def same_jobs_def elim!: wp_mono)

lemma keeps_same_jobs_basic [same_jobs_rules]:
  "keeps same_jobs (fresh_id E p)" "keeps same_jobs (update_turn i f1)" "keeps same_jobs (update_item i f2)"
  "keeps same_jobs (update_interaction i f3)" "keeps same_jobs (update_thread i f4)"
  "keeps same_jobs (upsert_scheduler k t j)" "keeps same_jobs (lift_result x)"
  "keeps same_jobs (retire_row_execution_permit row)"
  by (simp_all add: keeps_def wp_simps update_turn_def update_item_def update_interaction_def update_thread_def
      upsert_scheduler_def retire_row_execution_permit_def same_jobs_def)

lemma keeps_same_jobs_insert [same_jobs_rules]:
  "keeps same_jobs (insert_context i c)" "keeps same_jobs (insert_item r)" "keeps same_jobs (insert_turn t)"
  "keeps same_jobs (insert_thread h)" "keeps same_jobs (insert_interaction ia)"
  by (simp_all add: keeps_def wp_simps insert_context_def insert_item_def insert_turn_def insert_thread_def
      insert_interaction_def same_jobs_def)

lemma keeps_same_jobs_case_list:
  "keeps same_jobs m \<Longrightarrow> (\<And>x xs. keeps same_jobs (f x xs)) \<Longrightarrow> keeps same_jobs (case l of [] \<Rightarrow> m | x # xs \<Rightarrow> f x xs)"
  by (cases l) auto

lemmas same_jobs_intros = jobs_frame.keeps_intros keeps_same_jobs_case_list

lemma keeps_same_jobs_job_event [same_jobs_rules]:
  "keeps same_jobs (append_job_event E a b c d e f g h)" "keeps same_jobs (append_row_event E row e f g h)"
  unfolding append_job_event_def append_row_event_def by (intro same_jobs_intros same_jobs_rules)+

lemma keeps_same_jobs_archive [same_jobs_rules]:
  "keeps same_jobs (archive_visible_reasoning_in_transaction E t u i st r now)"
  unfolding archive_visible_reasoning_in_transaction_def visible_rows_def Let_def update_content_def
  by (intro same_jobs_intros same_jobs_rules)

lemma keeps_same_jobs_fail_turn [same_jobs_rules]:
  "keeps same_jobs (fail_linked_turn_in_transaction E job now reason c)"
  "keeps same_jobs (move_linked_turn_to_retry_wait_in_transaction E job now c)"
  unfolding fail_linked_turn_in_transaction_def move_linked_turn_to_retry_wait_in_transaction_def
    expire_interaction_def fail_item_def
  by (intro same_jobs_intros same_jobs_rules)+

text \<open>A frame rule for postconditions on the jobs table.\<close>

lemma wp_same_jobs: "keeps same_jobs m \<Longrightarrow> (\<And>a s'. db_jobs s' = db_jobs s \<Longrightarrow> Q a s') \<Longrightarrow> wp m Q s"
  by (erule keeps_wp) (auto simp: same_jobs_def)

lemma wp_ret_eta: "wp (ret a) Q = Q a"
  by (rule ext) (simp add: wp_ret)

section \<open>How a row may change\<close>

definition job_le :: "job_row \<Rightarrow> job_row \<Rightarrow> bool" where
  "job_le r r' =
     (jb_id r' = jb_id r \<and> jb_kind r' = jb_kind r \<and> jb_payload r' = jb_payload r \<and> jb_key r' = jb_key r \<and>
      jb_fingerprint r' = jb_fingerprint r \<and> jb_thread r' = jb_thread r \<and> jb_turn r' = jb_turn r \<and>
      jb_priority r' = jb_priority r \<and> jb_max_attempts r' = jb_max_attempts r \<and>
      jb_deadline r' = jb_deadline r \<and> jb_created_at r' = jb_created_at r \<and>
      jb_attempt r \<le> jb_attempt r' \<and> (job_terminal (jb_status r) \<longrightarrow> r' = r))"

definition evolve :: "job_row list \<Rightarrow> job_row list \<Rightarrow> bool" where
  "evolve J J' = (length J \<le> length J' \<and> (\<forall>i < length J. job_le (J ! i) (J' ! i)))"

lemma job_le_refl [simp]: "job_le r r"
  by (simp add: job_le_def)

lemma job_le_trans: "job_le a b \<Longrightarrow> job_le b c \<Longrightarrow> job_le a c"
  by (auto simp: job_le_def)

lemma evolve_refl [simp]: "evolve J J"
  by (simp add: evolve_def)

lemma evolve_trans: "evolve A B \<Longrightarrow> evolve B C \<Longrightarrow> evolve A C"
  by (auto simp: evolve_def intro: job_le_trans)

section \<open>The invariant\<close>

text \<open>In a thread, whatever stands before an executing job is finished.\<close>

definition lead :: "job_row list \<Rightarrow> bool" where
  "lead J =
     (\<forall>k < length J. \<forall>i < k. executing (jb_status (J ! k)) \<longrightarrow> jb_thread (J ! k) \<noteq> None \<longrightarrow>
        jb_thread (J ! i) = jb_thread (J ! k) \<longrightarrow> job_terminal (jb_status (J ! i)))"

text \<open>The jobs of a turn belong to the thread of the turn.\<close>

definition turn_thread :: "job_row list \<Rightarrow> bool" where
  "turn_thread J =
     (\<forall>a \<in> set J. \<forall>b \<in> set J. jb_turn a \<noteq> None \<longrightarrow> jb_turn a = jb_turn b \<longrightarrow> jb_thread a = jb_thread b)"

definition jobs_inv :: "job_row list \<Rightarrow> bool" where
  "jobs_inv J =
     (distinct (map jb_id J) \<and> distinct (map jb_key J) \<and> list_all lease_ok J \<and>
      list_all (\<lambda>j. 0 \<le> jb_attempt j \<and> 0 < jb_max_attempts j) J \<and> lead J \<and> turn_thread J)"

lemma not_terminal_executing: "executing st \<Longrightarrow> \<not> job_terminal st"
  by (auto simp: terminal_defs)

lemma lead_unique:
  assumes "lead J" "distinct (map jb_id J)" "a \<in> set J" "b \<in> set J" "executing (jb_status a)" "executing (jb_status b)"
    and "jb_thread a \<noteq> None" "jb_thread a = jb_thread b"
  shows "a = b"
proof -
  obtain i k where i: "i < length J" "J ! i = a" and k: "k < length J" "J ! k = b"
    using assms(3,4) by (auto simp: in_set_conv_nth)
  have "\<not> i < k" "\<not> k < i"
    using assms(1,5-8) i k not_terminal_executing unfolding lead_def by metis+
  then show ?thesis using i k by simp
qed

lemma jobs_inv_update:
  assumes inv: "jobs_inv J"
    and f: "\<And>r. r \<in> set J \<Longrightarrow> jb_id r = i \<Longrightarrow> lease_ok (f r) \<and> job_le r (f r) \<and>
        (executing (jb_status (f r)) \<longrightarrow> executing (jb_status r))"
  shows "jobs_inv (update_rows (\<lambda>r. jb_id r = i) f J)" and "evolve J (update_rows (\<lambda>r. jb_id r = i) f J)"
proof -
  let ?J = "update_rows (\<lambda>r. jb_id r = i) f J"
  have nth: "?J ! k = (if jb_id (J ! k) = i then f (J ! k) else J ! k)" if "k < length J" for k
    using that by (rule nth_update_rows)
  have le: "job_le (J ! k) (?J ! k)" and ex: "executing (jb_status (?J ! k)) \<Longrightarrow> executing (jb_status (J ! k))"
    if "k < length J" for k
    using f [of "J ! k"] that by (auto simp: nth split: if_splits)
  show "evolve J ?J" using le by (simp add: evolve_def)
  have keys: "map jb_id ?J = map jb_id J" "map jb_key ?J = map jb_key J"
    using le by (auto intro!: nth_equalityI simp: job_le_def)
  have "lead ?J"
    unfolding lead_def
  proof (intro allI impI)
    fix k j
    assume k: "k < length ?J" "j < k" and e: "executing (jb_status (?J ! k))" "jb_thread (?J ! k) \<noteq> None"
      "jb_thread (?J ! j) = jb_thread (?J ! k)"
    have kj: "k < length J" "j < length J" using k by auto
    have "job_terminal (jb_status (J ! j))"
      using inv ex [OF kj(1) e(1)] e(2,3) k(2) kj le [OF kj(1)] le [OF kj(2)]
      by (auto simp: jobs_inv_def lead_def job_le_def)
    then show "job_terminal (jb_status (?J ! j))" using le [OF kj(2)] by (auto simp: job_le_def)
  qed
  moreover have rows: "\<exists>r \<in> set J. r' = (if jb_id r = i then f r else r) \<and> job_le r r'" if "r' \<in> set ?J" for r'
    using that f by (auto simp: set_update_rows)
  moreover have "list_all lease_ok ?J"
    using inv f by (auto simp: list_all_iff set_update_rows jobs_inv_def)
  moreover have "list_all (\<lambda>j. 0 \<le> jb_attempt j \<and> 0 < jb_max_attempts j) ?J"
  proof -
    have "0 \<le> jb_attempt r' \<and> 0 < jb_max_attempts r'" if "r' \<in> set ?J" for r'
      using rows [OF that] inv by (fastforce simp: jobs_inv_def list_all_iff job_le_def)
    then show ?thesis by (simp add: list_all_iff)
  qed
  moreover have "turn_thread ?J"
  proof -
    have "\<exists>r \<in> set J. jb_turn r' = jb_turn r \<and> jb_thread r' = jb_thread r" if "r' \<in> set ?J" for r'
      using rows [OF that] by (auto simp: job_le_def)
    then show ?thesis using inv unfolding turn_thread_def jobs_inv_def by metis
  qed
  ultimately show "jobs_inv ?J" using inv keys by (simp add: jobs_inv_def)
qed

lemma wp_update_job:
  assumes "jobs_inv (db_jobs s)"
    and "\<And>r. r \<in> set (db_jobs s) \<Longrightarrow> jb_id r = i \<Longrightarrow> lease_ok (f r) \<Longrightarrow>
        job_le r (f r) \<and> (executing (jb_status (f r)) \<longrightarrow> executing (jb_status r))"
    and "\<And>s'. db_jobs s' = update_rows (\<lambda>r. jb_id r = i) f (db_jobs s) \<Longrightarrow> jobs_inv (db_jobs s') \<Longrightarrow>
        evolve (db_jobs s) (db_jobs s') \<Longrightarrow> Q () s'"
  shows "wp (update_job i f) Q s"
  unfolding update_job_def wp_bind wp_read wp_seq wp_require wp_modify
proof
  assume "list_all (\<lambda>r. jb_id r = i \<longrightarrow> lease_ok (f r)) (db_jobs s)"
  then have f: "\<And>r. r \<in> set (db_jobs s) \<Longrightarrow> jb_id r = i \<Longrightarrow> lease_ok (f r) \<and> job_le r (f r) \<and>
        (executing (jb_status (f r)) \<longrightarrow> executing (jb_status r))"
    using assms(2) by (auto simp: list_all_iff)
  show "Q () (s\<lparr>db_jobs := update_rows (\<lambda>r. jb_id r = i) f (db_jobs s)\<rparr>)"
    by (rule assms(3)) (use jobs_inv_update [OF assms(1) f] in auto)
qed

lemma wp_bind_same:
  "keeps same_jobs m \<Longrightarrow> (\<And>a s'. db_jobs s' = db_jobs s \<Longrightarrow> wp (f a) Q s') \<Longrightarrow> wp (bind m f) Q s"
  unfolding wp_bind by (rule wp_same_jobs)

lemma wp_seq_same:
  "keeps same_jobs m \<Longrightarrow> (\<And>s'. db_jobs s' = db_jobs s \<Longrightarrow> wp k Q s') \<Longrightarrow> wp (seq m k) Q s"
  unfolding wp_seq by (rule wp_same_jobs)

section \<open>Closing an execution\<close>

text \<open>The row transformers that end an execution.\<close>

definition closes :: "(job_row \<Rightarrow> job_row) \<Rightarrow> bool" where
  "closes f = (\<forall>r. (\<not> job_terminal (jb_status r) \<longrightarrow> job_le r (f r)) \<and> \<not> executing (jb_status (f r)))"

lemma closes_rows [simp]:
  "closes (fail_job_row e now)" "closes (complete_job_row now)" "closes (cancel_job_row x now)"
  "\<not> executing t \<Longrightarrow> closes (reclaim_job_row t now)" "\<not> executing t \<Longrightarrow> closes (finish_job_row t a x now)"
  by (auto simp: closes_def job_le_def fail_job_row_def complete_job_row_def cancel_job_row_def reclaim_job_row_def
      finish_job_row_def clear_lease_def)

text \<open>\<open>pend J0 ys s\<close>: the rows still to be processed are current.\<close>

definition pend :: "job_row list \<Rightarrow> job_row list \<Rightarrow> job_row list \<Rightarrow> bool" where
  "pend J0 ys J = (jobs_inv J \<and> evolve J0 J \<and> distinct (map jb_id ys) \<and> set ys \<subseteq> set J)"

lemma same_row: "jobs_inv J \<Longrightarrow> x \<in> set J \<Longrightarrow> r \<in> set J \<Longrightarrow> jb_id r = jb_id x \<Longrightarrow> r = x"
  by (auto simp: jobs_inv_def distinct_map dest: inj_onD)

lemma update_keeps_rows:
  "set ys \<subseteq> set J \<Longrightarrow> i \<notin> jb_id ` set ys \<Longrightarrow> set ys \<subseteq> set (update_rows (\<lambda>r. jb_id r = i) f J)"
  by (force simp: set_update_rows)

lemma wp_close:
  assumes "jobs_inv (db_jobs s)" and "x \<in> set (db_jobs s)" and "\<not> job_terminal (jb_status x)" and "closes f"
    and "\<And>s'. jobs_inv (db_jobs s') \<Longrightarrow> evolve (db_jobs s) (db_jobs s') \<Longrightarrow>
        db_jobs s' = update_rows (\<lambda>r. jb_id r = jb_id x) f (db_jobs s) \<Longrightarrow> Q () s'"
  shows "wp (update_job (jb_id x) f) Q s"
proof (rule wp_update_job [OF assms(1)])
  fix r
  assume "r \<in> set (db_jobs s)" "jb_id r = jb_id x"
  then have "r = x" using same_row [OF assms(1,2)] by blast
  then show "job_le r (f r) \<and> (executing (jb_status (f r)) \<longrightarrow> executing (jb_status r))"
    using assms(3,4) by (auto simp: closes_def)
qed (use assms(5) in blast)

section \<open>Deadlines\<close>

lemma wp_expire_deadline_row:
  assumes "pend J0 (x # ys) (db_jobs s)" and "\<not> job_terminal (jb_status x)"
  shows "wp (expire_deadline_row E now x)
    (\<lambda>_ s'. pend J0 ys (db_jobs s') \<and>
       db_jobs s' = update_rows (\<lambda>r. jb_id r = jb_id x) (fail_job_row ''deadline_exceeded'' now) (db_jobs s)) s"
  unfolding expire_deadline_row_def
proof (rule wp_bind_same, intro same_jobs_rules)
  fix a and s1 :: db
  assume s1: "db_jobs s1 = db_jobs s"
  let ?J = "update_rows (\<lambda>r. jb_id r = jb_id x) (fail_job_row ''deadline_exceeded'' now) (db_jobs s)"
  show "wp (seq (update_job (jb_id x) (fail_job_row ''deadline_exceeded'' now))
      (seq (retire_row_execution_permit x)
        (fail_linked_turn_in_transaction E x now ''deadline_exceeded'' (map_option ev_id a))))
      (\<lambda>_ s'. pend J0 ys (db_jobs s') \<and> db_jobs s' = ?J) s1"
    unfolding wp_seq
  proof (rule wp_close [of s1 x])
    fix s2 :: db
    assume s2: "jobs_inv (db_jobs s2)" "evolve (db_jobs s1) (db_jobs s2)"
      "db_jobs s2 = update_rows (\<lambda>r. jb_id r = jb_id x) (fail_job_row ''deadline_exceeded'' now) (db_jobs s1)"
    have "pend J0 ys (db_jobs s2)"
      using assms(1) s1 s2 update_keeps_rows [of ys "db_jobs s1" "jb_id x"]
      by (auto simp: pend_def intro: evolve_trans)
    then show "wp (retire_row_execution_permit x)
        (\<lambda>_. wp (fail_linked_turn_in_transaction E x now ''deadline_exceeded'' (map_option ev_id a))
           (\<lambda>_ s'. pend J0 ys (db_jobs s') \<and> db_jobs s' = ?J)) s2"
      using s1 s2(3) by (intro wp_same_jobs same_jobs_rules) simp
  qed (use assms s1 in \<open>auto simp: pend_def\<close>)
qed

text \<open>The deadline has passed, for the selected job or for any job.\<close>

definition overdue :: "int \<Rightarrow> string option \<Rightarrow> job_row \<Rightarrow> bool" where
  "overdue now i j =
     (\<not> job_terminal (jb_status j) \<and> (case jb_deadline j of None \<Rightarrow> False | Some d \<Rightarrow> d \<le> now) \<and>
      (case i of None \<Rightarrow> True | Some k \<Rightarrow> jb_id j = k))"

lemma due_jobs_overdue: "set (due_jobs now i s) = {j \<in> set (db_jobs s). overdue now i j}"
  by (auto simp: due_jobs_def overdue_def)

lemma distinct_filter_sort: "distinct (map jb_id J) \<Longrightarrow> distinct (map jb_id (sort_key g (filter P J)))"
proof -
  assume "distinct (map jb_id J)"
  then have "distinct (map jb_id (filter P J))" by (simp add: distinct_map_filter)
  then show ?thesis by (auto simp: distinct_map intro: distinct_sort)
qed

lemma wp_expire_deadlines:
  assumes "jobs_inv (db_jobs s)"
  shows "wp (expire_deadlines_in_transaction E now i)
    (\<lambda>_ s'. jobs_inv (db_jobs s') \<and> evolve (db_jobs s) (db_jobs s') \<and> list_all (\<lambda>j. \<not> overdue now i j) (db_jobs s')) s"
proof -
  let ?rows = "due_jobs now i s"
  let ?I = "\<lambda>ys s'. (pend (db_jobs s) ys (db_jobs s') \<and> (\<forall>y \<in> set ys. \<not> job_terminal (jb_status y))) \<and>
      (\<forall>j \<in> set (db_jobs s'). overdue now i j \<longrightarrow> jb_id j \<in> jb_id ` set ys)"
  have "?I ?rows s"
    using assms by (auto simp: pend_def due_jobs_def overdue_def distinct_filter_sort jobs_inv_def)
  then have "wp (for_each ?rows (expire_deadline_row E now)) (\<lambda>_ s'. ?I [] s') s"
  proof (rule wp_for_each)
    fix x ys and s1 :: db
    assume I: "?I (x # ys) s1"
    then have "wp (expire_deadline_row E now x) (\<lambda>_ s'. pend (db_jobs s) ys (db_jobs s') \<and>
       db_jobs s' = update_rows (\<lambda>r. jb_id r = jb_id x) (fail_job_row ''deadline_exceeded'' now) (db_jobs s1)) s1"
      by (intro wp_expire_deadline_row) auto
    then show "wp (expire_deadline_row E now x) (\<lambda>_. ?I ys) s1"
      by (rule wp_mono) (use I in \<open>auto simp: set_update_rows overdue_def fail_job_row_def terminal_defs\<close>)
  qed
  then show ?thesis
    unfolding expire_deadlines_in_transaction_def wp_bind wp_read wp_seq wp_ret
    by (rule wp_mono) (auto simp: pend_def list_all_iff)
qed

section \<open>Reclaiming\<close>

text \<open>While the dependents of a recovered turn are completed, the expired rows \<open>ys\<close> still to come stay
  current: none of them belongs to that turn, since a thread has one executing job.\<close>

definition pend2 :: "job_row list \<Rightarrow> job_row list \<Rightarrow> job_row list \<Rightarrow> job_row list \<Rightarrow> bool" where
  "pend2 J0 ys ds J =
     (pend J0 ys J \<and> distinct (map jb_id ds) \<and> set ds \<subseteq> set J \<and>
      (\<forall>d \<in> set ds. \<not> job_terminal (jb_status d) \<longrightarrow> jb_id d \<notin> jb_id ` set ys))"

lemma pend_close:
  assumes "pend J0 ys J" "jobs_inv J'" "evolve J J'" "J' = update_rows (\<lambda>r. jb_id r = i) f J"
    and "i \<notin> jb_id ` set ys"
  shows "pend J0 ys J'"
  using assms update_keeps_rows [of ys J i f] by (auto simp: pend_def intro: evolve_trans)

lemma wp_complete_dependent:
  assumes "pend2 J0 ys (d # ds) (db_jobs s)"
  shows "wp (complete_dependent_job E now d) (\<lambda>_ s'. pend2 J0 ys ds (db_jobs s')) s"
proof (cases "job_terminal (jb_status d)")
  case True
  then show ?thesis using assms by (auto simp: complete_dependent_job_def wp_ret pend2_def)
next
  case False
  show ?thesis
    unfolding complete_dependent_job_def if_not_P [OF False]
  proof (rule wp_bind_same, intro same_jobs_rules)
    fix a and s1 :: db
    assume s1: "db_jobs s1 = db_jobs s"
    show "wp (seq (update_job (jb_id d) (complete_job_row now)) (retire_row_execution_permit d))
        (\<lambda>_ s'. pend2 J0 ys ds (db_jobs s')) s1"
      unfolding wp_seq
    proof (rule wp_close [of s1 d])
      fix s2 :: db
      assume s2: "jobs_inv (db_jobs s2)" "evolve (db_jobs s1) (db_jobs s2)"
        "db_jobs s2 = update_rows (\<lambda>r. jb_id r = jb_id d) (complete_job_row now) (db_jobs s1)"
      have p: "pend J0 ys (db_jobs s1)" "jb_id d \<notin> jb_id ` set ys" "set ds \<subseteq> set (db_jobs s1)" "jb_id d \<notin> jb_id ` set ds"
        using assms s1 False by (auto simp: pend2_def)
      have "pend2 J0 ys ds (db_jobs s2)"
        using assms pend_close [OF p(1) s2 p(2)] update_keeps_rows [OF p(3,4), of "complete_job_row now"]
        by (auto simp: pend2_def s2(3) [symmetric])
      then show "wp (retire_row_execution_permit d) (\<lambda>_ s'. pend2 J0 ys ds (db_jobs s')) s2"
        by (intro wp_same_jobs same_jobs_rules) simp
    qed (use assms s1 False in \<open>auto simp: pend2_def pend_def\<close>)
  qed
qed

lemma keeps_same_jobs_recover_parts [same_jobs_rules]:
  "keeps same_jobs (cancel_interaction_recovered E t u now c ia)"
  "keeps same_jobs (complete_item_recovered E t u now c it)"
  unfolding cancel_interaction_recovered_def complete_item_recovered_def
  by (intro same_jobs_intros same_jobs_rules)+

lemma wp_settle_recovered:
  assumes p: "pend J0 (x # ys) (db_jobs s)" and ex: "executing (jb_status x)" "\<forall>y \<in> set ys. executing (jb_status y)"
    and turn: "jb_turn x = Some turn_id" "jb_thread x = Some thread_id"
  shows "wp (settle_recovered_turn E x turn_id thread_id now) (\<lambda>_ s'. pend J0 ys (db_jobs s')) s"
  unfolding settle_recovered_turn_def Let_def
proof (rule wp_bind_same, intro same_jobs_rules)
  fix a and s1 :: db
  assume s1: "db_jobs s1 = db_jobs s"
  let ?deps = "\<lambda>s. filter (\<lambda>j. jb_turn j = Some turn_id \<and> jb_id j \<noteq> jb_id x) (db_jobs s)"
  let ?rest = "bind (read (pending_of_turn turn_id)) (\<lambda>ias.
     seq (for_each ias (cancel_interaction_recovered E thread_id turn_id now (map_option ev_id a))) (
     bind (read (items_of_turn turn_id)) (\<lambda>items.
     seq (for_each items (complete_item_recovered E thread_id turn_id now (map_option ev_id a))) (
     bind (append_in_transaction E
        ((event_req thread_id ''turn.status_changed''
           [(''from'', JStr ''finalizing''), (''to'', JStr ''completed''), (''reason'', JStr recovered)])
          \<lparr>rq_turn := Some turn_id, rq_job := Some (jb_id x), rq_causation := map_option ev_id a,
           rq_key := Some (turn_id @ '':finalizing-recovered''), rq_created_at := Some now\<rparr>)) (\<lambda>fact.
     seq (archive_visible_reasoning_in_transaction E thread_id turn_id (ev_id fact) TurnCompleted
            (Some recovered) now)
       (update_turn turn_id (\<lambda>r. r\<lparr>tn_status := TurnCompleted, tn_reason := Some recovered,
                                   tn_updated_at := now\<rparr>)))))))"
  have rest: "keeps same_jobs ?rest" by (intro same_jobs_intros same_jobs_rules)
  show "wp (seq (update_job (jb_id x) (complete_job_row now)) (seq (retire_row_execution_permit x)
      (bind (read ?deps) (\<lambda>deps. seq (for_each deps (complete_dependent_job E now)) ?rest))))
      (\<lambda>_ s'. pend J0 ys (db_jobs s')) s1"
    unfolding wp_seq [of "update_job _ _"]
  proof (rule wp_close [of s1 x])
    fix s2 :: db
    assume s2: "jobs_inv (db_jobs s2)" "evolve (db_jobs s1) (db_jobs s2)"
      "db_jobs s2 = update_rows (\<lambda>r. jb_id r = jb_id x) (complete_job_row now) (db_jobs s1)"
    have p2: "pend J0 ys (db_jobs s2)"
      using p pend_close [OF _ s2, of J0 ys] by (auto simp: s1 pend_def)
    have free: "jb_id d \<notin> jb_id ` set ys" if d: "d \<in> set (?deps s2)" for d
    proof
      assume "jb_id d \<in> jb_id ` set ys"
      then obtain y where y: "y \<in> set ys" "jb_id y = jb_id d" by auto
      have "y = d" using same_row [of "db_jobs s2" d y] s2(1) y p2 d by (auto simp: pend_def)
      then have "jb_turn y = jb_turn x" "executing (jb_status y)" "y \<in> set (db_jobs s)" "x \<in> set (db_jobs s)"
        using d y ex(2) p turn by (auto simp: pend_def)
      moreover have "jobs_inv (db_jobs s)" using p by (simp add: pend_def)
      ultimately have y': "jb_thread x = jb_thread y" "executing (jb_status y)" "y \<in> set (db_jobs s)"
          "x \<in> set (db_jobs s)" "lead (db_jobs s)" "distinct (map jb_id (db_jobs s))"
        using turn(1) unfolding jobs_inv_def turn_thread_def by (metis option.distinct(1))+
      then have "x = y" using lead_unique [OF y'(5,6,4,3) ex(1) y'(2) _ y'(1)] turn(2) by simp
      then show False using p y(1) by (auto simp: pend_def)
    qed
    show "wp (seq (retire_row_execution_permit x)
        (bind (read ?deps) (\<lambda>deps. seq (for_each deps (complete_dependent_job E now)) ?rest)))
        (\<lambda>_ s'. pend J0 ys (db_jobs s')) s2"
    proof (rule wp_seq_same, intro same_jobs_rules)
      fix s3 :: db
      assume s3: "db_jobs s3 = db_jobs s2"
      have "pend2 J0 ys (?deps s3) (db_jobs s3)"
        using p2 free s2(1) by (auto simp: pend2_def s3 jobs_inv_def distinct_map_filter)
      then have "wp (for_each (?deps s3) (complete_dependent_job E now)) (\<lambda>_ s'. pend2 J0 ys [] (db_jobs s')) s3"
        by (rule wp_for_each) (rule wp_complete_dependent)
      then show "wp (bind (read ?deps) (\<lambda>deps. seq (for_each deps (complete_dependent_job E now)) ?rest))
          (\<lambda>_ s'. pend J0 ys (db_jobs s')) s3"
        unfolding wp_bind [of "read ?deps"] wp_read wp_seq [of "for_each _ _"]
        by (rule wp_mono) (auto simp: pend2_def intro!: wp_same_jobs [OF rest])
    qed
  qed (use p ex s1 not_terminal_executing in \<open>auto simp: pend_def\<close>)
qed

lemma wp_recover:
  assumes "Q False s"
    and "\<And>u h. jb_turn x = Some u \<Longrightarrow> jb_thread x = Some h \<Longrightarrow> wp (settle_recovered_turn E x u h now) (\<lambda>_. Q True) s"
  shows "wp (recover_finalizing_turn_in_transaction E x now) Q s"
  using assms
  by (cases "jb_turn x"; cases "jb_thread x")
     (simp_all add: recover_finalizing_turn_in_transaction_def wp_ret_eta wp_if wp_bind wp_read wp_seq)

lemma wp_reclaim_row:
  assumes p: "pend J0 (x # ys) (db_jobs s)" and ex: "executing (jb_status x)" "\<forall>y \<in> set ys. executing (jb_status y)"
  shows "wp (reclaim_row E now x) (\<lambda>_ s'. pend J0 ys (db_jobs s')) s"
proof -
  let ?exhausted = "jb_max_attempts x \<le> jb_attempt x"
  let ?finish = "bind (append_row_event E x (if ?exhausted then ''job.dead_lettered'' else ''job.reclaimed'')
         [(''attempt'', JInt (jb_attempt x)), (''reason'', JStr ''lease_expired''),
          (''available_at'', JStr (iso_text now))] now None) (\<lambda>fact.
       seq (update_job (jb_id x) (reclaim_job_row (if ?exhausted then JobDeadLetter else JobQueued) now)) (
       seq (retire_row_execution_permit x)
         (if ?exhausted
          then fail_linked_turn_in_transaction E x now ''lease_attempts_exhausted'' (map_option ev_id fact)
          else move_linked_turn_to_retry_wait_in_transaction E x now (map_option ev_id fact))))"
  have finish: "wp ?finish (\<lambda>_ s'. pend J0 ys (db_jobs s')) t" if t: "db_jobs t = db_jobs s" for t :: db
  proof (rule wp_bind_same, intro same_jobs_rules)
    fix a and s1 :: db
    assume s1: "db_jobs s1 = db_jobs t"
    show "wp (seq (update_job (jb_id x) (reclaim_job_row (if ?exhausted then JobDeadLetter else JobQueued) now)) (
       seq (retire_row_execution_permit x)
         (if ?exhausted
          then fail_linked_turn_in_transaction E x now ''lease_attempts_exhausted'' (map_option ev_id a)
          else move_linked_turn_to_retry_wait_in_transaction E x now (map_option ev_id a))))
       (\<lambda>_ s'. pend J0 ys (db_jobs s')) s1"
      unfolding wp_seq [of "update_job _ _"]
    proof (rule wp_close [of s1 x])
      fix s2 :: db
      assume s2: "jobs_inv (db_jobs s2)" "evolve (db_jobs s1) (db_jobs s2)"
        "db_jobs s2 = update_rows (\<lambda>r. jb_id r = jb_id x)
           (reclaim_job_row (if ?exhausted then JobDeadLetter else JobQueued) now) (db_jobs s1)"
      have "pend J0 ys (db_jobs s2)" using p pend_close [OF _ s2, of J0 ys] by (auto simp: s1 t pend_def)
      then show "wp (seq (retire_row_execution_permit x)
          (if ?exhausted then fail_linked_turn_in_transaction E x now ''lease_attempts_exhausted'' (map_option ev_id a)
           else move_linked_turn_to_retry_wait_in_transaction E x now (map_option ev_id a)))
          (\<lambda>_ s'. pend J0 ys (db_jobs s')) s2"
        by (intro wp_same_jobs same_jobs_intros same_jobs_rules) simp
    qed (use p ex s1 t not_terminal_executing in \<open>auto simp: pend_def\<close>)
  qed
  show ?thesis
    unfolding reclaim_row_def wp_bind [of "recover_finalizing_turn_in_transaction E x now"] Let_def
  proof (rule wp_recover)
    show "wp (if False then ret () else ?finish) (\<lambda>_ s'. pend J0 ys (db_jobs s')) s"
      using finish [of s] by simp
    fix u h
    assume "jb_turn x = Some u" "jb_thread x = Some h"
    then show "wp (settle_recovered_turn E x u h now)
        (\<lambda>_. wp (if True then ret () else ?finish) (\<lambda>_ s'. pend J0 ys (db_jobs s'))) s"
      using wp_settle_recovered [OF p ex] by (simp add: wp_ret_eta)
  qed
qed

text \<open>Until a job is leased, executions only end.\<close>

definition calms :: "db \<Rightarrow> db \<Rightarrow> bool" where
  "calms s s' = (\<forall>r \<in> set (db_jobs s'). executing (jb_status r) \<longrightarrow> r \<in> set (db_jobs s))"

interpretation calming: step_order calms
  by unfold_locales (auto simp: calms_def)

definition idle :: "string \<Rightarrow> db \<Rightarrow> bool" where
  "idle i s = (\<forall>r \<in> set (db_jobs s). jb_id r = i \<longrightarrow> \<not> executing (jb_status r))"

lemma idle_calms: "idle i s \<Longrightarrow> calms s s' \<Longrightarrow> idle i s'"
  unfolding idle_def calms_def by blast

lemma calm_same: "keeps same_jobs m \<Longrightarrow> keeps calms m"
  by (rule keepsI, erule keeps_wp) (simp add: calms_def same_jobs_def)

lemma wp_update_closes: "closes f \<Longrightarrow> wp (update_job i f) (\<lambda>_ s'. calms s s' \<and> idle i s') s"
proof -
  assume "closes f"
  then have f: "\<not> executing (jb_status (f r))" for r by (simp add: closes_def)
  show ?thesis
    unfolding update_job_def wp_bind wp_read wp_seq wp_require wp_modify calms_def idle_def
    using f by (auto simp: set_update_rows)
qed

lemma calm_close: "closes f \<Longrightarrow> keeps calms (update_job i f)"
proof (rule keepsI)
  fix s :: db
  assume "closes f"
  from wp_update_closes [OF this, of i s] show "wp (update_job i f) (\<lambda>_ s'. calms s s') s"
    by (rule wp_mono) blast
qed

lemma wp_end_execution:
  assumes "keeps same_jobs m" and "\<And>a. closes (f a)" and "\<And>a. keeps calms (k a)"
  shows "wp (bind m (\<lambda>a. seq (update_job i (f a)) (k a))) (\<lambda>_ s'. calms s s' \<and> idle i s') s"
  unfolding wp_bind wp_seq
proof (rule wp_same_jobs [OF assms(1)])
  fix a and s1 :: db
  assume s1: "db_jobs s1 = db_jobs s"
  show "wp (update_job i (f a)) (\<lambda>_. wp (k a) (\<lambda>_ s'. calms s s' \<and> idle i s')) s1"
  proof (rule wp_mono [OF wp_update_closes [OF assms(2)]])
    fix b and s2 :: db
    assume "calms s1 s2 \<and> idle i s2"
    then show "wp (k a) (\<lambda>_ s'. calms s s' \<and> idle i s') s2"
      by (intro keeps_wp [OF assms(3)]) (auto intro: idle_calms simp: s1 [symmetric] calms_def)
  qed
qed

lemma wp_settle_ends: "wp (settle_recovered_turn E x u h now) (\<lambda>_ s'. calms s s' \<and> idle (jb_id x) s') s"
  unfolding settle_recovered_turn_def complete_dependent_job_def Let_def
  by (intro wp_end_execution closes_rows calming.keeps_intros calm_close calm_same same_jobs_rules)

lemma wp_reclaim_row_ends: "wp (reclaim_row E now x) (\<lambda>_ s'. calms s s' \<and> idle (jb_id x) s') s"
  unfolding reclaim_row_def wp_bind [of "recover_finalizing_turn_in_transaction E x now"] Let_def
proof (rule wp_recover)
  show "wp (settle_recovered_turn E x u h now) (\<lambda>_. wp (if True then ret () else k)
      (\<lambda>_ s'. calms s s' \<and> idle (jb_id x) s')) s" for u h k
    using wp_settle_ends by (simp add: wp_ret_eta)
qed (simp only: if_False, intro wp_end_execution closes_rows(4) calming.keeps_intros calm_same same_jobs_rules, auto)

lemma expired_ends:
  "calms s s' \<Longrightarrow> idle i s' \<Longrightarrow> x \<in> set (expired_leases now s') \<Longrightarrow> x \<in> set (expired_leases now s) \<and> jb_id x \<noteq> i"
  by (auto simp: expired_leases_def calms_def idle_def)

lemma wp_reclaim_expired:
  assumes "jobs_inv (db_jobs s)"
  shows "wp (reclaim_expired_in_transaction E now)
    (\<lambda>_ s'. jobs_inv (db_jobs s') \<and> evolve (db_jobs s) (db_jobs s') \<and> expired_leases now s' = []) s"
proof -
  let ?rows = "expired_leases now s"
  let ?I = "\<lambda>ys s'. (pend (db_jobs s) ys (db_jobs s') \<and> (\<forall>y \<in> set ys. executing (jb_status y))) \<and>
      jb_id ` set (expired_leases now s') \<subseteq> jb_id ` set ys"
  have "?I ?rows s"
    using assms by (auto simp: pend_def expired_leases_def distinct_filter_sort jobs_inv_def)
  then have "wp (for_each ?rows (reclaim_row E now)) (\<lambda>_ s'. ?I [] s') s"
  proof (rule wp_for_each)
    fix x ys and s1 :: db
    assume I: "?I (x # ys) s1"
    then have "wp (reclaim_row E now x) (\<lambda>_ s'. pend (db_jobs s) ys (db_jobs s')) s1"
      by (intro wp_reclaim_row) auto
    from wp_conj [OF this wp_reclaim_row_ends]
    show "wp (reclaim_row E now x) (\<lambda>_. ?I ys) s1"
    proof (rule wp_mono)
      fix a and s2 :: db
      assume h: "pend (db_jobs s) ys (db_jobs s2) \<and> calms s1 s2 \<and> idle (jb_id x) s2"
      have "jb_id ` set (expired_leases now s2) \<subseteq> jb_id ` set ys"
      proof
        fix i
        assume "i \<in> jb_id ` set (expired_leases now s2)"
        then obtain y where y: "i = jb_id y" "y \<in> set (expired_leases now s2)" by blast
        have "y \<in> set (expired_leases now s1) \<and> jb_id y \<noteq> jb_id x" using expired_ends h y(2) by blast
        moreover have "jb_id ` set (expired_leases now s1) \<subseteq> jb_id ` set (x # ys)" using I by blast
        ultimately show "i \<in> jb_id ` set ys" using y(1) by auto
      qed
      then show "?I ys s2" using h I by simp
    qed
  qed
  then show ?thesis
    unfolding reclaim_expired_in_transaction_def wp_bind wp_read wp_seq wp_ret
    by (rule wp_mono) (auto simp: pend_def)
qed

text \<open>A row of the later table stems from a row of the earlier one when no job was added.\<close>

lemma evolve_origin:
  assumes "evolve J J'" and "map jb_id J' = map jb_id J" and "j \<in> set J'"
  shows "\<exists>r \<in> set J. job_le r j"
proof -
  have "length J' = length J" using assms(2) by (metis length_map)
  then show ?thesis using assms(1,3) by (auto simp: evolve_def in_set_conv_nth intro!: bexI [OF _ nth_mem])
qed

lemma wp_reclaim_not_overdue:
  assumes "jobs_inv (db_jobs s)" and "list_all (\<lambda>j. \<not> overdue now None j) (db_jobs s)"
  shows "wp (reclaim_expired_in_transaction E now) (\<lambda>_ s'. jobs_inv (db_jobs s') \<and> evolve (db_jobs s) (db_jobs s') \<and>
    expired_leases now s' = [] \<and> due_jobs now None s' = []) s"
proof (rule wp_mono [OF wp_conj [OF wp_reclaim_expired [OF assms(1)]
        keeps_wp [OF identity_storage.keeps_reclaim, of s "\<lambda>_ s'. same_ids s s'"]]])
  fix a and s' :: db
  assume h: "(jobs_inv (db_jobs s') \<and> evolve (db_jobs s) (db_jobs s') \<and> expired_leases now s' = []) \<and> same_ids s s'"
  have "\<not> overdue now None j" if j: "j \<in> set (db_jobs s')" for j
  proof -
    obtain r where "r \<in> set (db_jobs s)" "job_le r j"
      using evolve_origin [of "db_jobs s" "db_jobs s'" j] h j by (auto simp: same_ids_def)
    then show ?thesis using assms(2) by (auto simp: list_all_iff overdue_def job_le_def split: option.splits)
  qed
  then have "set (due_jobs now None s') = {}" by (auto simp: due_jobs_overdue)
  then show "jobs_inv (db_jobs s') \<and> evolve (db_jobs s) (db_jobs s') \<and> expired_leases now s' = [] \<and>
    due_jobs now None s' = []" using h by simp
qed

section \<open>Selecting and leasing\<close>

lemma in_candidates:
  "x \<in> set (candidates now kinds earlier js) \<longleftrightarrow>
     (\<exists>pre post. js = pre @ x # post \<and> ready now kinds x \<and> \<not> blocked_by (earlier @ pre) x)"
proof (induction js arbitrary: earlier)
  case (Cons j js)
  have "(\<exists>pre post. j # js = pre @ x # post \<and> ready now kinds x \<and> \<not> blocked_by (earlier @ pre) x) \<longleftrightarrow>
      (x = j \<and> ready now kinds x \<and> \<not> blocked_by earlier x) \<or>
      (\<exists>pre post. js = pre @ x # post \<and> ready now kinds x \<and> \<not> blocked_by ((earlier @ [j]) @ pre) x)"
    by (auto simp: Cons_eq_append_conv)
  then show ?case using Cons.IH [of "earlier @ [j]"] by auto
qed simp

lemma sort_key_hd_least: "sort_key f xs = y # ys \<Longrightarrow> y \<in> set xs \<and> (\<forall>x \<in> set xs. f y \<le> f x)"
proof -
  assume e: "sort_key f xs = y # ys"
  have "sorted (map f (sort_key f xs))" by simp
  moreover have "set (sort_key f xs) = set xs" by simp
  ultimately show ?thesis using e by (auto simp: e)
qed

lemma select_next_Some:
  assumes "select_next now kinds s = Some j"
  shows "\<exists>pre post. db_jobs s = pre @ j # post \<and> ready now kinds j \<and> \<not> blocked_by pre j"
    and "\<forall>c \<in> set (candidates now kinds [] (db_jobs s)). lease_order s j \<le> lease_order s c"
proof -
  obtain ys where "sort_key (lease_order s) (candidates now kinds [] (db_jobs s)) = j # ys"
    using assms by (auto simp: select_next_def split: list.splits)
  note least = sort_key_hd_least [OF this]
  then show "\<exists>pre post. db_jobs s = pre @ j # post \<and> ready now kinds j \<and> \<not> blocked_by pre j"
    by (simp add: in_candidates)
  show "\<forall>c \<in> set (candidates now kinds [] (db_jobs s)). lease_order s j \<le> lease_order s c"
    using least by blast
qed

lemma ready_not_terminal: "ready now kinds j \<Longrightarrow> \<not> job_terminal (jb_status j) \<and> \<not> executing (jb_status j)"
  by (auto simp: ready_def terminal_defs)

lemma update_rows_split:
  assumes "distinct (map jb_id (pre @ j # post))"
  shows "update_rows (\<lambda>r. jb_id r = jb_id j) f (pre @ j # post) = pre @ f j # post"
proof -
  have "r \<in> set pre \<union> set post \<Longrightarrow> jb_id r \<noteq> jb_id j" for r
    using assms by (auto simp: image_iff)
  then show ?thesis by (simp add: update_rows_def map_idI)
qed

lemma lead_append_iff:
  "lead (pre @ j # post) \<longleftrightarrow>
     lead (pre @ post) \<and>
     (executing (jb_status j) \<longrightarrow> jb_thread j \<noteq> None \<longrightarrow>
        (\<forall>e \<in> set pre. jb_thread e = jb_thread j \<longrightarrow> job_terminal (jb_status e))) \<and>
     (\<forall>l \<in> set post. executing (jb_status l) \<longrightarrow> jb_thread l \<noteq> None \<longrightarrow> jb_thread j = jb_thread l \<longrightarrow>
        job_terminal (jb_status j))"
proof -
  let ?P = "\<lambda>a b. executing (jb_status b) \<longrightarrow> jb_thread b \<noteq> None \<longrightarrow> jb_thread a = jb_thread b \<longrightarrow>
        job_terminal (jb_status a)"
  have l: "lead J = sorted_wrt ?P J" for J unfolding lead_def sorted_wrt_iff_nth_less by blast
  show ?thesis unfolding l by (auto simp: sorted_wrt_append)
qed

lemma jobs_inv_lease:
  assumes inv: "jobs_inv J" and J: "J = pre @ j # post" and r: "ready now kinds j" and b: "\<not> blocked_by pre j"
    and f: "lease_ok (f j)" "job_le j (f j)"
  shows "jobs_inv (update_rows (\<lambda>r. jb_id r = jb_id j) f J)" "evolve J (update_rows (\<lambda>r. jb_id r = jb_id j) f J)"
proof -
  let ?J = "pre @ f j # post"
  have d: "distinct (map jb_id (pre @ j # post))" using inv J by (simp add: jobs_inv_def)
  have up: "update_rows (\<lambda>r. jb_id r = jb_id j) f J = ?J" unfolding J by (rule update_rows_split [OF d])
  have same: "jb_id (f j) = jb_id j" "jb_key (f j) = jb_key j" "jb_thread (f j) = jb_thread j" "jb_turn (f j) = jb_turn j"
    "jb_attempt j \<le> jb_attempt (f j)" "jb_max_attempts (f j) = jb_max_attempts j"
    using f(2) by (auto simp: job_le_def)
  have "lead J" using inv by (simp add: jobs_inv_def)
  then have l: "lead (pre @ post)" "\<forall>l \<in> set post. executing (jb_status l) \<longrightarrow> jb_thread l \<noteq> None \<longrightarrow> jb_thread j \<noteq> jb_thread l"
    using ready_not_terminal [OF r] unfolding J lead_append_iff by blast+
  have "lead ?J"
    unfolding lead_append_iff using l b same(3) by (auto simp: blocked_by_def list_ex_iff)
  moreover have "turn_thread ?J"
  proof -
    have "turn_thread J" using inv by (simp add: jobs_inv_def)
    then show ?thesis unfolding J turn_thread_def by (auto simp: same)
  qed
  ultimately show "jobs_inv (update_rows (\<lambda>r. jb_id r = jb_id j) f J)"
    using inv f(1) same unfolding up by (auto simp: jobs_inv_def J)
  show "evolve J (update_rows (\<lambda>r. jb_id r = jb_id j) f J)"
    unfolding up evolve_def using f(2) by (auto simp: J nth_append nth_Cons split: nat.split)
qed

definition leased_as :: "job_row \<Rightarrow> string \<Rightarrow> int \<Rightarrow> int \<Rightarrow> job_row \<Rightarrow> bool" where
  "leased_as row worker_id lease_seconds now j =
     (job_le row j \<and> lease_ok j \<and> jb_status j = JobLeased \<and> jb_lease_owner j = Some worker_id \<and>
      jb_attempt j = next_attempt row \<and> jb_lease_expires j = Some (now + seconds lease_seconds) \<and>
      jb_heartbeat j = Some now \<and> jb_lease_token j \<noteq> None)"

lemma find_job_unique: "jobs_inv (db_jobs s) \<Longrightarrow> j \<in> set (db_jobs s) \<Longrightarrow> find_job (jb_id j) s = Some j"
  unfolding find_job_def jobs_inv_def by (intro find_key_unique) auto

lemma wp_require_job [wp_simps]:
  "wp (require_job i) Q s = (\<forall>j. find_job i s = Some j \<longrightarrow> Q j s)"
  by (auto simp: require_job_def wp_simps)

lemma wp_assert_transition [wp_simps]:
  "wp (assert_transition a b) Q s = (a = b \<or> b \<in> set (job_transitions a) \<longrightarrow> Q () s)"
  by (simp add: assert_transition_def wp_simps)

lemma wp_grant_lease:
  assumes inv: "jobs_inv (db_jobs s)" and J: "db_jobs s = pre @ row # post" and r: "ready now kinds row"
    and b: "\<not> blocked_by pre row"
  shows "wp (grant_lease E worker_id lease_seconds now row)
    (\<lambda>j s'. jobs_inv (db_jobs s') \<and> evolve (db_jobs s) (db_jobs s') \<and> j \<in> set (db_jobs s') \<and>
       leased_as row worker_id lease_seconds now j \<and> db_jobs s' = update_rows (\<lambda>r. jb_id r = jb_id row) (\<lambda>_. j) (db_jobs s)) s"
  unfolding grant_lease_def wp_seq [of "assert_transition _ _"] wp_assert_transition
proof (intro impI wp_bind_same same_jobs_rules)
  fix token and s1 :: db and a and s2 :: db
  assume s1: "db_jobs s1 = db_jobs s" and s2: "db_jobs s2 = db_jobs s1"
  let ?f = "lease_job_row (next_attempt row) worker_id token (now + seconds lease_seconds)
              (dict_pop preserve_key (checkpoint_dict row)) now"
  have row: "row \<in> set (db_jobs s2)" using s1 s2 J by simp
  have le: "job_le row (?f row)"
    using ready_not_terminal [OF r] by (auto simp: job_le_def lease_job_row_def next_attempt_def)
  show "wp (seq (update_job (jb_id row) ?f)
      (seq (upsert_scheduler (case or_else (jb_thread row) None of None \<Rightarrow> ''__kind__:'' @ jb_kind row | Some t \<Rightarrow> t)
            now (jb_id row)) (require_job (jb_id row))))
      (\<lambda>j s'. jobs_inv (db_jobs s') \<and> evolve (db_jobs s) (db_jobs s') \<and> j \<in> set (db_jobs s') \<and>
        leased_as row worker_id lease_seconds now j \<and> db_jobs s' = update_rows (\<lambda>r. jb_id r = jb_id row) (\<lambda>_. j) (db_jobs s)) s2"
    unfolding wp_seq [of "update_job _ _"] update_job_def wp_bind wp_read wp_seq wp_require wp_modify
  proof
    assume "list_all (\<lambda>r. jb_id r = jb_id row \<longrightarrow> lease_ok (?f r)) (db_jobs s2)"
    then have ok: "lease_ok (?f row)" using row by (simp add: list_all_iff)
    define J where "J = update_rows (\<lambda>r. jb_id r = jb_id row) ?f (db_jobs s2)"
    have J': "jobs_inv J" "evolve (db_jobs s) J"
      using jobs_inv_lease [of "db_jobs s2" pre row post now kinds ?f] inv J r b ok le by (simp_all add: J_def s1 s2)
    have only: "J = update_rows (\<lambda>r. jb_id r = jb_id row) (\<lambda>_. ?f row) (db_jobs s)"
      using update_rows_unique [of jb_id "db_jobs s" row ?f] inv row by (simp add: J_def s1 s2 jobs_inv_def)
    have mem: "?f row \<in> set J" using row by (auto simp: J_def set_update_rows)
    show "wp (upsert_scheduler (case or_else (jb_thread row) None of None \<Rightarrow> ''__kind__:'' @ jb_kind row | Some t \<Rightarrow> t)
            now (jb_id row))
        (\<lambda>_. wp (require_job (jb_id row))
          (\<lambda>j s'. jobs_inv (db_jobs s') \<and> evolve (db_jobs s) (db_jobs s') \<and> j \<in> set (db_jobs s') \<and>
            leased_as row worker_id lease_seconds now j \<and> db_jobs s' = update_rows (\<lambda>r. jb_id r = jb_id row) (\<lambda>_. j) (db_jobs s)))
        (s2\<lparr>db_jobs := J\<rparr>)"
    proof (rule wp_same_jobs, intro same_jobs_rules)
      fix s3 :: db
      assume "db_jobs s3 = db_jobs (s2\<lparr>db_jobs := J\<rparr>)"
      then have s3: "db_jobs s3 = J" by simp
      have "find_job (jb_id row) s3 = Some (?f row)"
        using find_job_unique [of s3 "?f row"] J' mem s3 by (simp add: lease_job_row_def)
      then show "wp (require_job (jb_id row))
          (\<lambda>j s'. jobs_inv (db_jobs s') \<and> evolve (db_jobs s) (db_jobs s') \<and> j \<in> set (db_jobs s') \<and>
            leased_as row worker_id lease_seconds now j \<and> db_jobs s' = update_rows (\<lambda>r. jb_id r = jb_id row) (\<lambda>_. j) (db_jobs s)) s3"
        using J' mem s3 le ok only by (simp add: wp_require_job leased_as_def) (simp add: lease_job_row_def)
    qed
  qed
qed

text \<open>The outcome of a lease: maintenance has converged, and the leased row is the one selected.\<close>

definition granted :: "db \<Rightarrow> string \<Rightarrow> int \<Rightarrow> string list \<Rightarrow> int \<Rightarrow> job_row option \<Rightarrow> db \<Rightarrow> bool" where
  "granted s w n kinds now r s' =
     (\<exists>s1. jobs_inv (db_jobs s1) \<and> evolve (db_jobs s) (db_jobs s1) \<and> evolve (db_jobs s1) (db_jobs s') \<and>
        due_jobs now None s1 = [] \<and> expired_leases now s1 = [] \<and>
        (case r of
           None \<Rightarrow> select_next now kinds s1 = None \<and> s' = s1
         | Some j \<Rightarrow> \<exists>row. select_next now kinds s1 = Some row \<and> j \<in> set (db_jobs s') \<and> leased_as row w n now j))"

lemma wp_lease_next:
  assumes "jobs_inv (db_jobs s)"
  shows "wp (lease_next_in_admission E worker_id lease_seconds kinds now)
    (\<lambda>r s'. jobs_inv (db_jobs s') \<and> granted s worker_id lease_seconds kinds now r s') s"
  unfolding lease_next_in_admission_def wp_bind [of "expire_deadlines_in_transaction E now None"]
proof (rule wp_mono [OF wp_expire_deadlines [OF assms]], unfold wp_bind [of "reclaim_expired_in_transaction E now"])
  fix a and s1 :: db
  assume s1: "jobs_inv (db_jobs s1) \<and> evolve (db_jobs s) (db_jobs s1) \<and> list_all (\<lambda>j. \<not> overdue now None j) (db_jobs s1)"
  let ?Q = "\<lambda>r s'. jobs_inv (db_jobs s') \<and> granted s worker_id lease_seconds kinds now r s'"
  let ?k = "bind (read (select_next now kinds)) (\<lambda>row. case row of None \<Rightarrow> ret None
     | Some j \<Rightarrow> bind (grant_lease E worker_id lease_seconds now j) (\<lambda>leased. ret (Some leased)))"
  show "wp (reclaim_expired_in_transaction E now) (\<lambda>_. wp ?k ?Q) s1"
  proof (rule wp_mono [OF wp_reclaim_not_overdue])
    fix b and s2 :: db
    assume s2: "jobs_inv (db_jobs s2) \<and> evolve (db_jobs s1) (db_jobs s2) \<and> expired_leases now s2 = [] \<and>
        due_jobs now None s2 = []"
    then have e: "evolve (db_jobs s) (db_jobs s2)" using s1 by (auto intro: evolve_trans)
    show "wp ?k ?Q s2"
    proof (cases "select_next now kinds s2")
      case None
      then show ?thesis using s2 e by (simp add: wp_simps granted_def)
    next
      case (Some j)
      obtain pre post where "db_jobs s2 = pre @ j # post" "ready now kinds j" "\<not> blocked_by pre j"
        using select_next_Some(1) [OF Some] by blast
      note g = wp_grant_lease [OF conjunct1 [OF s2] this]
      show ?thesis
        unfolding wp_bind wp_read Some option.case
        by (rule wp_mono [OF g]) (use e s2 Some in \<open>auto simp: wp_ret granted_def\<close>)
    qed
  qed (use s1 in blast)+
qed

lemma granted_evolve: "granted s w n kinds now r s' \<Longrightarrow> evolve (db_jobs s) (db_jobs s')"
  by (auto simp: granted_def intro: evolve_trans)

section \<open>Owner and control operations\<close>

text \<open>What every operation guarantees.\<close>

definition good :: "db \<Rightarrow> db \<Rightarrow> bool" where
  "good s s' = (jobs_inv (db_jobs s) \<longrightarrow> jobs_inv (db_jobs s') \<and> evolve (db_jobs s) (db_jobs s'))"

interpretation scheduling: step_order good
  by unfold_locales (auto simp: good_def intro: evolve_trans)

lemma good_same: "keeps same_jobs m \<Longrightarrow> keeps good m"
  by (rule keepsI, erule keeps_wp) (simp add: good_def same_jobs_def)

lemma good_expire: "keeps good (expire_deadlines_in_transaction E now i)"
proof (rule keepsI)
  fix s :: db
  show "wp (expire_deadlines_in_transaction E now i) (\<lambda>_ s'. good s s') s"
    using wp_expire_deadlines [of s E now i]
    by (cases "jobs_inv (db_jobs s)") (auto simp: good_def elim!: wp_mono)
qed

lemma good_reclaim: "keeps good (reclaim_expired_in_transaction E now)"
proof (rule keepsI)
  fix s :: db
  show "wp (reclaim_expired_in_transaction E now) (\<lambda>_ s'. good s s') s"
    using wp_reclaim_expired [of s E now]
    by (cases "jobs_inv (db_jobs s)") (auto simp: good_def elim!: wp_mono)
qed

lemma good_lease_next: "keeps good (lease_next_in_admission E w n kinds now)"
proof (rule keepsI)
  fix s :: db
  show "wp (lease_next_in_admission E w n kinds now) (\<lambda>_ s'. good s s') s"
    using wp_lease_next [of s E w n kinds now]
    by (cases "jobs_inv (db_jobs s)") (auto simp: good_def elim!: wp_mono intro: granted_evolve)
qed

lemma find_jobD: "find_job i s = Some j \<Longrightarrow> j \<in> set (db_jobs s) \<and> jb_id j = i"
  unfolding find_job_def by (drule find_SomeD) auto

lemma wp_owned_row [wp_simps]:
  "wp (owned_row i w t now) Q s =
     (\<forall>j. find_job i s = Some j \<longrightarrow> jb_lease_owner j = Some w \<longrightarrow> t \<noteq> [] \<and> jb_lease_token j = Some t \<longrightarrow>
        (\<exists>x. jb_lease_expires j = Some x \<and> now < x) \<longrightarrow> Q j s)"
  by (auto simp: owned_row_def wp_simps split: option.splits)

lemma owner_executes: "jobs_inv J \<Longrightarrow> j \<in> set J \<Longrightarrow> jb_lease_owner j = Some w \<Longrightarrow> executing (jb_status j)"
  by (auto simp: jobs_inv_def list_all_iff lease_ok_def)

text \<open>An update of a job the operation has just read, framed by writes to other tables.\<close>

lemma good_row_update:
  assumes "find_job i s = Some j" and m: "keeps same_jobs m" and k: "\<And>a. keeps same_jobs (k a)"
    and "jobs_inv (db_jobs s) \<Longrightarrow> job_le j (f j) \<and> (executing (jb_status (f j)) \<longrightarrow> executing (jb_status j))"
  shows "wp (bind m (\<lambda>a. seq (update_job i f) (k a))) (\<lambda>_ s'. good s s') s"
proof (cases "jobs_inv (db_jobs s)")
  case True
  note j = find_jobD [OF assms(1)]
  show ?thesis
  proof (rule wp_bind_same [OF m])
    fix a and s1 :: db
    assume s1: "db_jobs s1 = db_jobs s"
    show "wp (seq (update_job i f) (k a)) (\<lambda>_ s'. good s s') s1"
      unfolding wp_seq
    proof (rule wp_update_job)
      show "jobs_inv (db_jobs s1)" using True s1 by simp
      fix r
      assume "r \<in> set (db_jobs s1)" "jb_id r = i"
      then have "r = j" using same_row [OF True, of j r] j s1 by simp
      then show "job_le r (f r) \<and> (executing (jb_status (f r)) \<longrightarrow> executing (jb_status r))"
        using assms(4) True by simp
    next
      fix s2 :: db
      assume "jobs_inv (db_jobs s2)" "evolve (db_jobs s1) (db_jobs s2)"
      then show "wp (k a) (\<lambda>_ s'. good s s') s2"
        using s1 by (intro wp_same_jobs [OF k]) (simp add: good_def)
    qed
  qed
qed (simp add: wp_def good_def split: sum.splits)

lemma keeps_same_jobs_require [same_jobs_rules]: "keeps same_jobs (require_job i)"
  unfolding require_job_def by (intro same_jobs_intros)

lemma good_start: "keeps good (start_in_transaction E i w t now)"
proof (rule keepsI)
  fix s :: db
  show "wp (start_in_transaction E i w t now) (\<lambda>_ s'. good s s') s"
    unfolding start_in_transaction_def wp_bind [of "owned_row i w t now"] wp_owned_row
      wp_seq [of "assert_transition _ _"] wp_assert_transition
  proof (intro allI impI good_row_update same_jobs_rules)
    fix j
    assume j: "find_job i s = Some j" "jb_lease_owner j = Some w" and inv: "jobs_inv (db_jobs s)"
    have "executing (jb_status j)" using owner_executes [OF inv _ j(2)] find_jobD [OF j(1)] by blast
    then show "job_le j (j\<lparr>jb_status := JobRunning, jb_updated_at := now\<rparr>) \<and>
        (executing (jb_status (j\<lparr>jb_status := JobRunning, jb_updated_at := now\<rparr>)) \<longrightarrow> executing (jb_status j))"
      using not_terminal_executing by (auto simp: job_le_def)
  qed auto
qed

lemma good_heartbeat: "keeps good (heartbeat_in_transaction E i w t n c now)"
proof (rule keepsI)
  fix s :: db
  let ?f = "\<lambda>r. r\<lparr>jb_lease_expires := Some (now + seconds n), jb_heartbeat := Some now,
                  jb_checkpoint := (case c of None \<Rightarrow> jb_checkpoint r | Some c \<Rightarrow> Some (json_canon (JObj c))),
                  jb_updated_at := now\<rparr>"
  show "wp (heartbeat_in_transaction E i w t n c now) (\<lambda>_ s'. good s s') s"
    unfolding heartbeat_in_transaction_def wp_bind [of "owned_row i w t now"] wp_owned_row
      wp_seq [of "require _ _"] wp_require
  proof (intro allI impI good_row_update same_jobs_intros same_jobs_rules)
    fix j
    assume j: "find_job i s = Some j" "jb_lease_owner j = Some w" and inv: "jobs_inv (db_jobs s)"
    have "executing (jb_status j)" using owner_executes [OF inv _ j(2)] find_jobD [OF j(1)] by blast
    then show "job_le j (?f j) \<and> (executing (jb_status (?f j)) \<longrightarrow> executing (jb_status j))"
      using not_terminal_executing by (auto simp: job_le_def)
  qed auto
qed

lemma keeps_same_jobs_coordination [same_jobs_rules]: "keeps same_jobs (check_turn_coordination row target)"
  unfolding check_turn_coordination_def by (intro same_jobs_intros)

lemma good_finish:
  assumes "\<not> executing target"
  shows "keeps good (finish_in_transaction E i w t target ev err av now)"
proof (rule keepsI)
  fix s :: db
  show "wp (finish_in_transaction E i w t target ev err av now) (\<lambda>_ s'. good s s') s"
    unfolding finish_in_transaction_def Let_def wp_bind [of "owned_row i w t now"] wp_owned_row
      wp_seq [of "check_turn_coordination _ _"]
  proof (intro allI impI, rule wp_same_jobs [OF keeps_same_jobs_coordination], unfold wp_seq [of "assert_transition _ _"] wp_assert_transition, intro impI)
    fix j and s1 :: db
    assume j: "find_job i s = Some j" "jb_lease_owner j = Some w" and s1: "db_jobs s1 = db_jobs s"
    let ?av = "case av of None \<Rightarrow> now | Some t \<Rightarrow> t"
    have g: "good s1 s' \<Longrightarrow> good s s'" for s' using s1 by (simp add: good_def)
    have j1: "find_job i s1 = Some j" using j(1) s1 by (simp add: find_job_def)
    show "wp (bind (append_row_event E j ev [(''attempt'', JInt (jb_attempt j)), (''error'', jopt err),
          (''available_at'', JStr (iso_text ?av))] now None)
        (\<lambda>_. seq (update_job i (finish_job_row target ?av err now)) (require_job i))) (\<lambda>_ s'. good s s') s1"
    proof (rule wp_mono [OF good_row_update [OF j1]], intro same_jobs_rules, intro same_jobs_rules)
      assume inv: "jobs_inv (db_jobs s1)"
      have "executing (jb_status j)" using owner_executes [OF inv _ j(2)] find_jobD [OF j1] by blast
      then show "job_le j (finish_job_row target ?av err now j) \<and>
          (executing (jb_status (finish_job_row target ?av err now j)) \<longrightarrow> executing (jb_status j))"
        using not_terminal_executing by (auto simp: job_le_def finish_job_row_def)
    qed (rule g)
  qed
qed

lemma no_transition_from_terminal: "t \<in> set (job_transitions st) \<Longrightarrow> \<not> job_terminal st"
  using job_life.terminal_iff by auto

lemma good_resume: "keeps good (resume_in_transaction E i now)"
  unfolding resume_in_transaction_def
proof (rule scheduling.keeps_bind [OF good_expire], rule scheduling.keeps_if)
  show "keeps good (require_job i)" by (intro good_same same_jobs_rules)
  show "keeps good (bind (require_job i) (\<lambda>row.
       bind (read (\<lambda>s. list_ex (\<lambda>ia. ia_job ia = Some i \<and> ia_status ia = InteractionPending) (db_interactions s))) (\<lambda>pending.
       seq (require (\<not> pending) (InvalidTransitionError ''a job cannot resume while its interaction is pending'')) (
       seq (assert_transition (jb_status row) JobQueued) (
       bind (append_row_event E row ''job.resumed''
          [(''attempt'', JInt (jb_attempt row)), (''available_at'', JStr (iso_text now))] now None) (\<lambda>_.
       seq (update_job i (\<lambda>r. r\<lparr>jb_status := JobQueued, jb_available_at := now, jb_updated_at := now\<rparr>))
         (require_job i)))))))"
  proof (rule keepsI)
    fix s :: db
    let ?f = "\<lambda>r. r\<lparr>jb_status := JobQueued, jb_available_at := now, jb_updated_at := now\<rparr>"
    show "wp (bind (require_job i) (\<lambda>row.
       bind (read (\<lambda>s. list_ex (\<lambda>ia. ia_job ia = Some i \<and> ia_status ia = InteractionPending) (db_interactions s))) (\<lambda>pending.
       seq (require (\<not> pending) (InvalidTransitionError ''a job cannot resume while its interaction is pending'')) (
       seq (assert_transition (jb_status row) JobQueued) (
       bind (append_row_event E row ''job.resumed''
          [(''attempt'', JInt (jb_attempt row)), (''available_at'', JStr (iso_text now))] now None) (\<lambda>_.
       seq (update_job i ?f) (require_job i))))))) (\<lambda>_ s'. good s s') s"
      unfolding wp_bind [of "require_job i"] wp_require_job wp_bind [of "read _"] wp_read wp_seq [of "require _ _"]
        wp_require wp_seq [of "assert_transition _ _"] wp_assert_transition
    proof (intro allI impI good_row_update same_jobs_rules)
      fix j :: job_row
      assume "jb_status j = JobQueued \<or> JobQueued \<in> set (job_transitions (jb_status j))"
      then have "\<not> job_terminal (jb_status j)" using no_transition_from_terminal by (auto simp: terminal_defs)
      then show "job_le j (?f j) \<and> (executing (jb_status (?f j)) \<longrightarrow> executing (jb_status j))"
        by (simp add: job_le_def)
    qed auto
  qed
qed

lemma good_cancel: "keeps good (cancel_in_transaction E i reason now)"
proof (rule keepsI)
  fix s :: db
  show "wp (cancel_in_transaction E i reason now) (\<lambda>_ s'. good s s') s"
    unfolding cancel_in_transaction_def wp_bind [of "require_job i"] wp_require_job wp_if
      wp_seq [of "assert_transition _ _"] wp_assert_transition
  proof (intro allI impI conjI good_row_update same_jobs_rules)
    fix j :: job_row
    assume "jb_status j \<noteq> JobCancelled" "jb_status j = JobCancelled \<or> JobCancelled \<in> set (job_transitions (jb_status j))"
    then have "\<not> job_terminal (jb_status j)" using no_transition_from_terminal by auto
    then show "job_le j (cancel_job_row (Some reason) now j)"
      using closes_rows(3) [of "Some reason" now] by (auto simp: closes_def)
  qed (auto simp: wp_ret scheduling.R_refl cancel_job_row_def)
qed

end
