(* ===== verification/Text.thy ===== *)
theory Text
  imports Prelude
begin

text \<open>
  Python's \<^verbatim>\<open>str\<close> on UTF-8 texts: code points, whitespace, \<^verbatim>\<open>strip\<close> and \<^verbatim>\<open>casefold\<close>.  Case folding is exact for
  every code point whose folding is ASCII text: the capital letters, the Kelvin sign, the long s, the sharp s
  and the Latin ligatures.  Every other non-ASCII code point folds to a text that is not ASCII; it is kept as it is.
\<close>

text \<open>The code points of a UTF-8 text: a continuation byte belongs to the byte before it.\<close>

definition code_points :: "string \<Rightarrow> string list" where
  "code_points s =
     foldr (\<lambda>c ps. case ps of [] \<Rightarrow> [[c]] | p # qs \<Rightarrow> if utf8_continuation (hd p) then (c # p) # qs else [c] # ps) s []"

definition py_spaces :: "string list" where
  "py_spaces =
     map u8 ([[9], [10], [11], [12], [13], [28], [29], [30], [31], [32], [0xC2, 0x85], [0xC2, 0xA0], [0xE1, 0x9A, 0x80],
              [0xE2, 0x80, 0xA8], [0xE2, 0x80, 0xA9], [0xE2, 0x80, 0xAF], [0xE2, 0x81, 0x9F], [0xE3, 0x80, 0x80]]
             @ map (\<lambda>b. [0xE2, 0x80, b]) [0x80, 0x81, 0x82, 0x83, 0x84, 0x85, 0x86, 0x87, 0x88, 0x89, 0x8A])"

definition is_space :: "string \<Rightarrow> bool" where
  "is_space p = (p \<in> set py_spaces)"

definition py_rstrip :: "string list \<Rightarrow> string list" where
  "py_rstrip ps = rev (dropWhile is_space (rev ps))"

definition py_strip :: "string \<Rightarrow> string" where
  "py_strip v = concat (py_rstrip (dropWhile is_space (code_points v)))"

definition capital :: "nat \<Rightarrow> bool" where
  "capital n = (65 \<le> n \<and> n \<le> 90)"

definition folded_points :: "(string \<times> string) list" where
  "folded_points =
     [(u8 [0xE2, 0x84, 0xAA], ''k''), (u8 [0xC5, 0xBF], ''s''), (u8 [0xC3, 0x9F], ''ss''), (u8 [0xE1, 0xBA, 0x9E], ''ss''),
      (u8 [0xEF, 0xAC, 0x80], ''ff''), (u8 [0xEF, 0xAC, 0x81], ''fi''), (u8 [0xEF, 0xAC, 0x82], ''fl''),
      (u8 [0xEF, 0xAC, 0x83], ''ffi''), (u8 [0xEF, 0xAC, 0x84], ''ffl''), (u8 [0xEF, 0xAC, 0x85], ''st''),
      (u8 [0xEF, 0xAC, 0x86], ''st'')]"

definition fold_point :: "string \<Rightarrow> string" where
  "fold_point p =
     (case p of
        [c] \<Rightarrow> if capital (of_char c) then [char_of ((of_char c :: nat) + 32)] else p
      | _ \<Rightarrow> (case map_of folded_points p of None \<Rightarrow> p | Some q \<Rightarrow> q))"

definition casefold :: "string \<Rightarrow> string" where
  "casefold v = concat (map fold_point (code_points v))"

text \<open>A text of ASCII bytes has one code point per byte.\<close>

definition ascii :: "string \<Rightarrow> bool" where
  "ascii s = list_all (\<lambda>c. (of_char c :: nat) < 128) s"

lemma code_points_ascii: "ascii s \<Longrightarrow> code_points s = map (\<lambda>c. [c]) s"
  by (induction s) (auto simp: ascii_def code_points_def utf8_continuation_def split: list.splits)

lemma casefold_lower:
  assumes "ascii s" and "list_all (\<lambda>c. \<not> capital (of_char c)) s"
  shows "casefold s = s"
proof -
  have "concat (map (\<lambda>c. fold_point [c]) s) = s"
    using assms(2) by (induction s) (auto simp: fold_point_def)
  then show ?thesis by (simp add: casefold_def code_points_ascii [OF assms(1)] o_def)
qed

lemma dropWhile_none: "list_all (\<lambda>x. \<not> P x) xs \<Longrightarrow> dropWhile P xs = xs"
  by (cases xs) auto

lemma py_strip_nospace:
  assumes "ascii s" and "list_all (\<lambda>c. \<not> is_space [c]) s"
  shows "py_strip s = s"
proof -
  have "list_all (\<lambda>p. \<not> is_space p) (map (\<lambda>c. [c]) s)" using assms(2) by (simp add: list_all_iff)
  then show ?thesis
    by (simp add: py_strip_def py_rstrip_def code_points_ascii [OF assms(1)] dropWhile_none list_all_iff)
qed

end
