(* ===== verification/Threads.thy ===== *)
theory Threads
  imports Jobs Text
begin

text \<open>
  The thread operations of \<^verbatim>\<open>ecorex/runtime/kernel.py\<close> (\<^verbatim>\<open>RuntimeKernel\<close>): create, rename, archive,
  restore, delete and pin a thread, and the reads \<^verbatim>\<open>get_thread\<close> and \<^verbatim>\<open>list_threads\<close>.  A mutation appends
  its fact under an idempotency key and writes the projection only when that fact is the latest of
  its kind, so that a replayed request never undoes a later one.  The titles are computed on the code
  points of the UTF-8 text with Python's whitespace.
\<close>

section \<open>Transaction boundaries\<close>

text \<open>\<^verbatim>\<open>_mutation_transaction\<close>: under the lease of the executing job, or as a control operation.  The lease
  is checked against the clock of the environment, as \<^verbatim>\<open>execution_transaction\<close> reads it itself.\<close>

definition mutation_transaction ::
    "env \<Rightarrow> admission \<Rightarrow> string \<Rightarrow> string \<Rightarrow> string option \<Rightarrow> string option \<Rightarrow> 'a dbtxn \<Rightarrow> db \<Rightarrow> (err + 'a) \<times> db" where
  "mutation_transaction E A scope subject job_id lease_token m s =
     (case (job_id, lease_token) of
        (Some j, Some t) \<Rightarrow> execution_transaction A j t (env_now E) m s
      | (None, None) \<Rightarrow> control_transaction A scope (Some subject) m s
      | _ \<Rightarrow> (Inl (ValueError ''job_id and lease_token must be supplied together''), s))"

section \<open>Titles\<close>

text \<open>\<^verbatim>\<open>str.split()\<close>, on code points.\<close>

definition split_points :: "string list \<Rightarrow> string list \<times> string list list" where
  "split_points ps =
     foldr (\<lambda>p (w, ws). if is_space p then ([], if w = [] then ws else w # ws) else (p # w, ws)) ps ([], [])"

definition py_split :: "string \<Rightarrow> string list" where
  "py_split v = (case split_points (code_points v) of (w, ws) \<Rightarrow> map concat (if w = [] then ws else w # ws))"

text \<open>\<^verbatim>\<open>" ".join(value.split()).strip()\<close>; the joined words neither start nor end with a space.\<close>

definition normalize_title :: "string \<Rightarrow> string" where
  "normalize_title v = join '' '' (py_split v)"

definition default_thread_title :: "string \<Rightarrow> string" where
  "default_thread_title v =
     (let normalized = normalize_title v
      in if normalized = [] then u8 [0xE6, 0x96, 0xB0, 0xE4, 0xBB, 0xBB, 0xE5, 0x8A, 0xA1]
         else if py_len normalized \<le> 60 then normalized
         else concat (py_rstrip (take 59 (code_points normalized))) @ u8 [0xE2, 0x80, 0xA6])"

section \<open>Projections\<close>

record thread_view =
  tv_row :: thread_row
  tv_pinned :: bool
  tv_active :: "turn_status option"
  tv_last :: "turn_status option"

definition thread_from_row :: "thread_row \<Rightarrow> turn_status option \<Rightarrow> turn_status option \<Rightarrow> thread_view" where
  "thread_from_row r active latest =
     \<lparr>tv_row = r, tv_pinned = (jget (th_metadata r) ''pinned'' = JBool True), tv_active = active, tv_last = latest\<rparr>"

definition require_thread :: "string \<Rightarrow> bool \<Rightarrow> thread_row dbtxn" where
  "require_thread thread_id include_deleted =
     bind (read (find_thread thread_id)) (\<lambda>row.
     case row of
       None \<Rightarrow> raise (NotFoundError ''thread does not exist'')
     | Some r \<Rightarrow>
         if \<not> include_deleted \<and> th_status r = ThreadDeleted then raise (NotFoundError ''thread does not exist'')
         else ret r)"

definition read_thread :: "string \<Rightarrow> bool \<Rightarrow> thread_view dbtxn" where
  "read_thread thread_id include_deleted =
     bind (require_thread thread_id include_deleted) (\<lambda>r. ret (thread_from_row r None None))"

section \<open>Creating a thread\<close>

record create_thread_request =
  ct_title :: "string option"
  ct_metadata :: jobj
  ct_client_request :: "string option"

definition thread_fingerprint :: "create_thread_request \<Rightarrow> string" where
  "thread_fingerprint q = fingerprint [(''title'', jopt (ct_title q)), (''metadata'', JObj (ct_metadata q))]"

definition insert_created_thread :: "env \<Rightarrow> create_thread_request \<Rightarrow> string \<Rightarrow> int \<Rightarrow> thread_view dbtxn" where
  "insert_created_thread E q thread_id now =
     bind (append_in_transaction E
        ((event_req thread_id ''thread.created''
            [(''title'', jopt (ct_title q)), (''metadata'', JObj (ct_metadata q))])
          \<lparr>rq_correlation := ct_client_request q, rq_key := Some ''thread:created'', rq_created_at := Some now\<rparr>)) (\<lambda>_.
     seq (insert_thread
           \<lparr>th_id = thread_id, th_status = ThreadActive, th_title = ct_title q, th_metadata = canon_obj (ct_metadata q),
            th_client_request = ct_client_request q, th_fingerprint = Some (thread_fingerprint q),
            th_forked_thread = None, th_forked_turn = None, th_forked_seq = None,
            th_created_at = now, th_updated_at = now\<rparr>)
       (read_thread thread_id False))"

definition create_thread_in_transaction :: "env \<Rightarrow> create_thread_request \<Rightarrow> int \<Rightarrow> thread_view dbtxn" where
  "create_thread_in_transaction E q now =
     bind (fresh_id E ''thr'') (\<lambda>thread_id.
     bind (read (\<lambda>s. if truthy (ct_client_request q)
                     then find (\<lambda>t. th_client_request t = ct_client_request q) (db_threads s) else None)) (\<lambda>dup.
     case dup of
       Some t \<Rightarrow>
         seq (require (th_fingerprint t = Some (thread_fingerprint q))
               (ConflictError ''client_request_id was reused with different thread input''))
           (ret (thread_from_row t None None))
     | None \<Rightarrow> insert_created_thread E q thread_id now))"

definition create_thread ::
    "env \<Rightarrow> admission \<Rightarrow> create_thread_request \<Rightarrow> int \<Rightarrow> db \<Rightarrow> (err + thread_view) \<times> db" where
  "create_thread E A q now s =
     control_transaction A ''thread_create''
       (or_else (ct_client_request q) (Some (''thr_'' @ env_ulid E (db_next_id s))))
       (create_thread_in_transaction E q now) s"

section \<open>Changing a thread\<close>

text \<open>\<^verbatim>\<open>SELECT MAX(seq) FROM events WHERE thread_id = ? AND event_type IN (..)\<close>; sequences start at one.\<close>

definition latest_seq :: "string \<Rightarrow> string list \<Rightarrow> db \<Rightarrow> nat" where
  "latest_seq thread_id types s =
     foldr max (map ev_seq (filter (\<lambda>e. ev_thread e = thread_id \<and> ev_type e \<in> set types) (db_events s))) 0"

text \<open>The common shape: append the fact, and let the latest fact of its family decide the projection.\<close>

definition write_thread_fact ::
    "env \<Rightarrow> string \<Rightarrow> string \<Rightarrow> jobj \<Rightarrow> string \<Rightarrow> string \<Rightarrow> string list \<Rightarrow> (thread_row \<Rightarrow> thread_row) \<Rightarrow> bool
     \<Rightarrow> thread_view dbtxn" where
  "write_thread_fact E thread_id event_type payload client key family f include_deleted =
     bind (append_in_transaction E
        ((event_req thread_id event_type payload)\<lparr>rq_correlation := Some client, rq_key := Some key\<rparr>)) (\<lambda>event.
     bind (read (latest_seq thread_id family)) (\<lambda>latest.
     seq (if ev_seq event = latest
          then update_thread thread_id (\<lambda>t. (f t)\<lparr>th_updated_at := ev_created_at event\<rparr>) else ret ())
       (read_thread thread_id include_deleted)))"

definition title_family :: "string list" where
  "title_family = [''thread.renamed'', ''thread.title_generated'']"

definition status_family :: "string list" where
  "status_family = [''thread.archived'', ''thread.restored'', ''thread.deleted'']"

definition rename_in_transaction :: "env \<Rightarrow> string \<Rightarrow> string \<Rightarrow> string \<Rightarrow> thread_view dbtxn" where
  "rename_in_transaction E thread_id title client =
     bind (require_thread thread_id False) (\<lambda>_.
     write_thread_fact E thread_id ''thread.renamed'' [(''title'', JStr title)] client (''thread:rename:'' @ client)
       title_family (\<lambda>t. t\<lparr>th_title := Some title\<rparr>) False)"

definition rename_thread ::
    "env \<Rightarrow> admission \<Rightarrow> string \<Rightarrow> string \<Rightarrow> string \<Rightarrow> db \<Rightarrow> (err + thread_view) \<times> db" where
  "rename_thread E A thread_id title client s =
     (let title' = normalize_title title
      in if title' = [] \<or> py_len title' > 200
         then (Inl (ValueError ''thread title must contain between one and 200 characters''), s)
         else control_transaction A ''thread_rename'' (Some client) (rename_in_transaction E thread_id title' client) s)"

definition status_in_transaction :: "env \<Rightarrow> string \<Rightarrow> thread_status \<Rightarrow> string \<Rightarrow> thread_view dbtxn" where
  "status_in_transaction E thread_id target client =
     bind (require_thread thread_id False) (\<lambda>row.
     if th_status row = target then ret (thread_from_row row None None)
     else
       write_thread_fact E thread_id (if target = ThreadArchived then ''thread.archived'' else ''thread.restored'') []
         client (''thread:status:'' @ client) status_family (\<lambda>t. t\<lparr>th_status := target\<rparr>) False)"

definition set_thread_status ::
    "env \<Rightarrow> admission \<Rightarrow> string \<Rightarrow> thread_status \<Rightarrow> string \<Rightarrow> db \<Rightarrow> (err + thread_view) \<times> db" where
  "set_thread_status E A thread_id target client =
     control_transaction A ''thread_transition'' (Some client) (status_in_transaction E thread_id target client)"

definition archive_thread ::
    "env \<Rightarrow> admission \<Rightarrow> string \<Rightarrow> string option \<Rightarrow> db \<Rightarrow> (err + thread_view) \<times> db" where
  "archive_thread E A thread_id client s =
     (case or_else client None of
        Some c \<Rightarrow> set_thread_status E A thread_id ThreadArchived c s
      | None \<Rightarrow>
          set_thread_status E A thread_id ThreadArchived (''req_'' @ env_ulid E (db_next_id s))
            (s\<lparr>db_next_id := Suc (db_next_id s)\<rparr>))"

definition restore_thread :: "env \<Rightarrow> admission \<Rightarrow> string \<Rightarrow> string \<Rightarrow> db \<Rightarrow> (err + thread_view) \<times> db" where
  "restore_thread E A thread_id client = set_thread_status E A thread_id ThreadActive client"

definition delete_in_transaction :: "env \<Rightarrow> string \<Rightarrow> string \<Rightarrow> thread_view dbtxn" where
  "delete_in_transaction E thread_id client =
     bind (require_thread thread_id True) (\<lambda>row.
     if th_status row = ThreadDeleted then ret (thread_from_row row None None)
     else
       seq (require (th_status row = ThreadArchived) (ConflictError ''only an archived thread can be deleted''))
         (write_thread_fact E thread_id ''thread.deleted'' [] client (''thread:delete:'' @ client) status_family
            (\<lambda>t. t\<lparr>th_status := ThreadDeleted\<rparr>) True))"

definition delete_thread :: "env \<Rightarrow> admission \<Rightarrow> string \<Rightarrow> string \<Rightarrow> db \<Rightarrow> (err + thread_view) \<times> db" where
  "delete_thread E A thread_id client =
     control_transaction A ''thread_delete'' (Some client) (delete_in_transaction E thread_id client)"

definition pin_in_transaction :: "env \<Rightarrow> string \<Rightarrow> bool \<Rightarrow> string \<Rightarrow> thread_view dbtxn" where
  "pin_in_transaction E thread_id pinned client =
     bind (require_thread thread_id False) (\<lambda>row.
     if (jget (th_metadata row) ''pinned'' = JBool True) = pinned then ret (thread_from_row row None None)
     else
       write_thread_fact E thread_id ''thread.pin_changed'' [(''pinned'', JBool pinned)] client (''thread:pin:'' @ client)
         [''thread.pin_changed'']
         (\<lambda>t. t\<lparr>th_metadata := canon_obj (dict_set ''pinned'' (JBool pinned) (th_metadata row))\<rparr>) False)"

definition set_thread_pinned ::
    "env \<Rightarrow> admission \<Rightarrow> string \<Rightarrow> bool \<Rightarrow> string \<Rightarrow> db \<Rightarrow> (err + thread_view) \<times> db" where
  "set_thread_pinned E A thread_id pinned client =
     control_transaction A ''thread_pin'' (Some client) (pin_in_transaction E thread_id pinned client)"

section \<open>Reading threads\<close>

definition turns_by_age :: "string \<Rightarrow> db \<Rightarrow> turn_row list" where
  "turns_by_age thread_id s =
     sort_key (\<lambda>t. (tn_created_at t, tn_id t)) (filter (\<lambda>t. tn_thread t = thread_id) (db_turns s))"

text \<open>The \<^verbatim>\<open>NOT IN\<close> list of the subquery \<^verbatim>\<open>active_turn_status\<close>.\<close>

definition settled_statuses :: "turn_status list" where
  "settled_statuses = [TurnCompleted, TurnFailed, TurnCancelled, TurnInterrupted, TurnSuperseded]"

definition last_status :: "turn_row list \<Rightarrow> turn_status option" where
  "last_status ts = (if ts = [] then None else Some (tn_status (last ts)))"

definition project_thread :: "db \<Rightarrow> thread_row \<Rightarrow> thread_view" where
  "project_thread s r =
     (let ts = turns_by_age (th_id r) s
      in thread_from_row r (last_status (filter (\<lambda>t. tn_status t \<notin> set settled_statuses) ts)) (last_status ts))"

definition get_thread :: "string \<Rightarrow> db \<Rightarrow> err + thread_view" where
  "get_thread thread_id s =
     (case find (\<lambda>r. th_id r = thread_id \<and> th_status r \<noteq> ThreadDeleted) (db_threads s) of
        None \<Rightarrow> Inl (NotFoundError ''thread does not exist'')
      | Some r \<Rightarrow> Inr (project_thread s r))"

definition listed :: "thread_status option \<Rightarrow> (int \<times> string) option \<Rightarrow> thread_row \<Rightarrow> bool" where
  "listed status before r =
     ((case status of None \<Rightarrow> th_status r \<noteq> ThreadDeleted | Some st \<Rightarrow> th_status r = st) \<and>
      (case before of
         None \<Rightarrow> True
       | Some (t, i) \<Rightarrow> th_updated_at r < t \<or> th_updated_at r = t \<and> th_id r < i))"

definition thread_listing :: "thread_status option \<Rightarrow> (int \<times> string) option \<Rightarrow> db \<Rightarrow> thread_row list" where
  "thread_listing status before s =
     rev (sort_key (\<lambda>r. (th_updated_at r, th_id r)) (filter (listed status before) (db_threads s)))"

definition list_threads ::
    "thread_status option \<Rightarrow> int \<Rightarrow> int option \<Rightarrow> string option \<Rightarrow> db \<Rightarrow> err + thread_view list \<times> bool" where
  "list_threads status limit before_updated_at before_thread_id s =
     (if \<not> (1 \<le> limit \<and> limit \<le> 200) then Inl (ValueError ''thread list limit must be between one and 200'')
      else if (before_updated_at = None) \<noteq> (before_thread_id = None)
      then Inl (ValueError ''thread list cursor is incomplete'')
      else
        let before = (case (before_updated_at, before_thread_id) of (Some t, Some i) \<Rightarrow> Some (t, i) | _ \<Rightarrow> None);
            rows = take (nat limit + 1) (thread_listing status before s)
        in Inr (map (project_thread s) (take (nat limit) rows), length rows > nat limit))"

section \<open>Titles are bounded\<close>

lemma py_len_append [simp]: "py_len (a @ b) = py_len a + py_len b"
  by (simp add: py_len_def)

lemma py_len_concat: "list_all (\<lambda>p. py_len p \<le> 1) ps \<Longrightarrow> py_len (concat ps) \<le> length ps"
  by (induction ps) (auto simp: py_len_def)

lemma code_points_one: "list_all (\<lambda>p. p \<noteq> [] \<and> list_all utf8_continuation (tl p)) (code_points s)"
proof (induction s)
  case (Cons c s)
  then show ?case
    by (auto simp: code_points_def list_all_iff split: list.splits) (metis list.collapse set_ConsD)
qed (simp add: code_points_def)

lemma py_len_point: "p \<noteq> [] \<and> list_all utf8_continuation (tl p) \<Longrightarrow> py_len p \<le> 1"
  by (cases p) (auto simp: py_len_def list_all_iff)

lemma py_rstrip_prefix: "\<exists>n. py_rstrip ps = take n ps"
proof -
  have "dropWhile is_space (rev ps) = drop (length (takeWhile is_space (rev ps))) (rev ps)"
    by (rule dropWhile_eq_drop)
  then show ?thesis unfolding py_rstrip_def by (metis rev_drop rev_rev_ident)
qed

text \<open>
  C40.  A generated thread title is never empty and never longer than sixty characters, whatever the
  input of the turn.
\<close>

theorem default_title_bounds: "default_thread_title v \<noteq> [] \<and> py_len (default_thread_title v) \<le> 60"
proof -
  let ?ps = "take 59 (code_points (normalize_title v))"
  obtain n where n: "py_rstrip ?ps = take n ?ps" using py_rstrip_prefix by blast
  have "list_all (\<lambda>p. py_len p \<le> 1) (take n ?ps)"
    using code_points_one py_len_point unfolding list_all_iff by (meson in_set_takeD)
  then have "py_len (concat (py_rstrip ?ps)) \<le> 59" using py_len_concat [of "take n ?ps"] n by force
  then show ?thesis by (simp add: default_thread_title_def Let_def)
qed

section \<open>Pages of threads\<close>

abbreviation thread_key :: "thread_row \<Rightarrow> int \<times> string" where
  "thread_key r \<equiv> (th_updated_at r, th_id r)"

lemma listed_before: "listed st (Some c) r \<longleftrightarrow> listed st None r \<and> thread_key r < c"
  by (cases c) (auto simp: listed_def less_prod_simp split: option.splits)

lemma below_prefix:
  assumes "sorted_wrt (\<lambda>x y. f y < (f x :: 'b :: linorder)) (ys @ r # zs)"
  shows "filter (\<lambda>x. f x < f r) (ys @ r # zs) = zs"
  using assms by (auto simp: sorted_wrt_append filter_empty_conv filter_id_conv dest: order.asym)

lemma listing_strict:
  assumes "distinct (map th_id (db_threads s))"
  shows "sorted_wrt (\<lambda>x y. thread_key y < thread_key x) (thread_listing st before s)"
proof -
  let ?xs = "sort_key thread_key (filter (listed st before) (db_threads s))"
  have "distinct (map th_id ?xs)"
    using assms by (auto simp: distinct_map inj_on_def)
  then have "distinct (map thread_key ?xs)" by (auto simp: distinct_map inj_on_def)
  then have "sorted_wrt (<) (map thread_key ?xs)" by (simp add: strict_sorted_iff)
  then show ?thesis by (simp add: thread_listing_def sorted_wrt_rev sorted_wrt_map)
qed

lemma listing_after:
  assumes "distinct (map th_id (db_threads s))" and "thread_listing st before s = ys @ r # zs"
  shows "thread_listing st (Some (thread_key r)) s = zs"
proof -
  have below: "thread_key r < c" if "before = Some c" for c
  proof -
    have "r \<in> set (thread_listing st before s)" using assms(2) by simp
    then show ?thesis using that listed_before by (simp add: thread_listing_def)
  qed
  have "listed st (Some (thread_key r)) x \<longleftrightarrow> listed st before x \<and> thread_key x < thread_key r" for x
    using below listed_before by (cases before) (auto intro: less_trans)
  then have "listed st (Some (thread_key r)) = (\<lambda>x. listed st before x \<and> thread_key x < thread_key r)" by blast
  then have "filter (listed st (Some (thread_key r))) (db_threads s) =
      filter (\<lambda>x. thread_key x < thread_key r) (filter (listed st before) (db_threads s))"
    by (simp only: filter_filter)
  then have "thread_listing st (Some (thread_key r)) s = filter (\<lambda>x. thread_key x < thread_key r) (thread_listing st before s)"
    by (simp only: thread_listing_def rev_filter [symmetric] filter_sort)
  moreover have "sorted_wrt (\<lambda>x y. thread_key y < thread_key x) (ys @ r # zs)"
    using listing_strict [OF assms(1), of st before] by (simp only: assms(2))
  from below_prefix [where f = thread_key, OF this]
  have "filter (\<lambda>x. thread_key x < thread_key r) (ys @ r # zs) = zs" .
  ultimately show ?thesis by (simp only: assms(2))
qed

text \<open>
  Paging through the threads neither skips nor repeats one: a page followed by everything
  after its last thread's cursor is the whole listing, and \<^verbatim>\<open>has_more\<close> is true exactly when something
  follows.
\<close>

theorem thread_pages_continue:
  assumes "distinct (map th_id (db_threads s))"
    and "list_threads status limit bt bi s = Inr (views, has_more)" and "views \<noteq> []"
  shows "(\<exists>before. map tv_row views @ thread_listing status (Some (thread_key (tv_row (last views)))) s =
            thread_listing status before s \<and> before = (case (bt, bi) of (Some t, Some i) \<Rightarrow> Some (t, i) | _ \<Rightarrow> None)) \<and>
         has_more = (thread_listing status (Some (thread_key (tv_row (last views)))) s \<noteq> []) \<and> length views \<le> nat limit"
proof -
  define before where "before = (case (bt, bi) of (Some t, Some i) \<Rightarrow> Some (t, i) | _ \<Rightarrow> None)"
  let ?l = "thread_listing status before s" and ?n = "nat limit"
  have rows: "map tv_row views = take ?n ?l" and has_more: "has_more = (?n < length ?l)"
    using assms(2)
    by (auto simp: list_threads_def before_def Let_def project_thread_def thread_from_row_def o_def split: if_splits)
  obtain ys r where v: "map tv_row views = ys @ [r]" and r: "r = tv_row (last views)"
    using assms(3) by (metis append_butlast_last_id last_map map_is_Nil_conv)
  have "?l = ys @ r # drop ?n ?l" using rows v by (metis append.assoc append_Cons append_Nil append_take_drop_id)
  then have rest: "thread_listing status (Some (thread_key r)) s = drop ?n ?l" by (rule listing_after [OF assms(1)])
  have "length views \<le> ?n" using arg_cong [OF rows, of length] by simp
  moreover have "map tv_row views @ drop ?n ?l = ?l" by (simp add: rows)
  ultimately show ?thesis using rest has_more before_def by (auto simp: r [symmetric])
qed

text \<open>
  A thread whose only turn ended as \<^verbatim>\<open>partial\<close> is still reported with an active turn: the list of
  settled statuses in the queries of \<^verbatim>\<open>get_thread\<close> and \<^verbatim>\<open>list_threads\<close> leaves \<^verbatim>\<open>partial\<close> out, although it is a
  terminal status.
\<close>

theorem partial_turn_reported_active:
  assumes "find (\<lambda>r. th_id r = thread_id \<and> th_status r \<noteq> ThreadDeleted) (db_threads s) = Some r"
    and "filter (\<lambda>t. tn_thread t = thread_id) (db_turns s) = [t]" and "tn_status t = TurnPartial"
  shows "\<exists>v. get_thread thread_id s = Inr v \<and> tv_active v = Some TurnPartial \<and> turn_terminal TurnPartial"
proof -
  have "th_id r = thread_id" using find_SomeD [OF assms(1)] by simp
  then show ?thesis using assms
    by (simp add: get_thread_def project_thread_def turns_by_age_def thread_from_row_def last_status_def
        settled_statuses_def Let_def terminal_turn_statuses_def)
qed

end
