(* ===== verification/Items.thy ===== *)
theory Items
  imports Threads
begin

text \<open>
  The Item operations of \<^verbatim>\<open>ecorex/runtime/kernel.py\<close>: creating an Item, streaming text into an assistant
  message, the task list of a turn, the result and the transitions of a tool call, and the facts a
  worker appends under its lease.  The content of a Tool Item is the public activity of
  \<open>PublicTools\<close>, validated again whenever it is read.
\<close>

section \<open>Projection\<close>

text \<open>\<^verbatim>\<open>ItemProjection\<close>: the row, and for a tool call its parsed activity with the timing of the row where
  the activity has none of its own.\<close>

record item_view =
  iv_row :: item_row
  iv_activity :: "activity option"
  iv_timing :: "(int \<times> int option) option"

definition row_timing :: "item_row \<Rightarrow> (int \<times> int option) option" where
  "row_timing r =
     (let finished = (if item_terminal (it_status r) then Some (it_updated_at r) else None)
      in if (case finished of None \<Rightarrow> False | Some f \<Rightarrow> f < it_created_at r) then None else Some (it_created_at r, finished))"

definition item_from_row :: "env \<Rightarrow> item_row \<Rightarrow> err + item_view" where
  "item_from_row E r =
     (if it_kind r \<noteq> KindToolCall then Inr \<lparr>iv_row = r, iv_activity = None, iv_timing = None\<rparr>
      else case validate_activity (env_timing E) (it_content r) of
        None \<Rightarrow> Inl (ConflictError ''Tool Item public activity is invalid'')
      | Some a \<Rightarrow>
          if act_timing a \<noteq> JNull then Inr \<lparr>iv_row = r, iv_activity = Some a, iv_timing = None\<rparr>
          else case row_timing r of
            None \<Rightarrow> Inl (ConflictError ''Tool Item public activity is invalid'')
          | Some t \<Rightarrow> Inr \<lparr>iv_row = r, iv_activity = Some a, iv_timing = Some t\<rparr>)"

definition read_item :: "env \<Rightarrow> string \<Rightarrow> item_view dbtxn" where
  "read_item E item_id = bind (require_item item_id) (\<lambda>r. lift_result (item_from_row E r))"

section \<open>Creating an Item\<close>

definition with_context :: "snapshot_context option \<Rightarrow> append_req \<Rightarrow> append_req" where
  "with_context c r =
     (case c of
        None \<Rightarrow> r
      | Some c \<Rightarrow> r\<lparr>rq_config := Some (cx_config c), rq_capability := Some (cx_capability c),
                    rq_permission := Some (cx_permission c), rq_extension := Some (cx_extension c)\<rparr>)"

record item_spec =
  is_thread :: string
  is_turn :: string
  is_kind :: item_kind
  is_content :: jobj
  is_status :: item_status
  is_item :: "string option"
  is_key :: "string option"
  is_client_message :: "string option"
  is_context :: "snapshot_context option"

definition item_spec :: "string \<Rightarrow> string \<Rightarrow> item_kind \<Rightarrow> jobj \<Rightarrow> item_status \<Rightarrow> item_spec" where
  "item_spec thread_id turn_id kind content status =
     \<lparr>is_thread = thread_id, is_turn = turn_id, is_kind = kind, is_content = content, is_status = status,
      is_item = None, is_key = None, is_client_message = None, is_context = None\<rparr>"

definition created_content :: "env \<Rightarrow> item_spec \<Rightarrow> err + json" where
  "created_content E q =
     (if is_kind q \<noteq> KindToolCall then Inr (JObj (is_content q))
      else case validate_activity (env_timing E) (JObj (is_content q)) of
        None \<Rightarrow> Inl (ConflictError ''Tool Items require PublicToolActivity content'')
      | Some a \<Rightarrow>
          if act_status a \<noteq> item_status_text (is_status q)
          then Inl (ConflictError ''Tool Item status differs from its public activity'')
          else Inr (dump_activity a))"

definition create_item_in_transaction :: "env \<Rightarrow> item_spec \<Rightarrow> int \<Rightarrow> item_view dbtxn" where
  "create_item_in_transaction E q now =
     bind (case or_else (is_item q) None of Some i \<Rightarrow> ret i | None \<Rightarrow> fresh_id E ''itm'') (\<lambda>item_id.
     bind (lift_result (created_content E q)) (\<lambda>content.
     bind (append_in_transaction E
        (with_context (is_context q)
          ((event_req (is_thread q) ''item.created''
             [(''kind'', JStr (item_kind_text (is_kind q))), (''status'', JStr (item_status_text (is_status q))),
              (''content'', content)])
            \<lparr>rq_turn := Some (is_turn q), rq_item := Some item_id, rq_client_message := is_client_message q,
             rq_key := is_key q, rq_created_at := Some now\<rparr>))) (\<lambda>_.
     seq (insert_item
           \<lparr>it_id = item_id, it_thread = is_thread q, it_turn = is_turn q, it_kind = is_kind q,
            it_status = is_status q, it_content = json_canon content, it_client_message = is_client_message q,
            it_created_at = now, it_updated_at = now\<rparr>)
       (read_item E item_id))))"

definition create_item ::
    "env \<Rightarrow> admission \<Rightarrow> string \<Rightarrow> item_kind \<Rightarrow> jobj \<Rightarrow> item_status \<Rightarrow> snapshot_context option \<Rightarrow> string option
     \<Rightarrow> string option \<Rightarrow> int \<Rightarrow> db \<Rightarrow> (err + item_view) \<times> db" where
  "create_item E A turn_id kind content status context job_id lease_token now =
     mutation_transaction E A ''item_create'' turn_id job_id lease_token
       (bind (require_turn turn_id) (\<lambda>turn.
        seq (require (\<not> turn_terminal (tn_status turn)) (ConflictError ''items cannot be added to a terminal turn''))
          (create_item_in_transaction E
             ((item_spec (tn_thread turn) turn_id kind content status)\<lparr>is_context := context\<rparr>) now)))"

section \<open>Streaming text\<close>

definition content_dict :: "item_row \<Rightarrow> jobj dbtxn" where
  "content_dict r = (case it_content r of JObj d \<Rightarrow> ret d | _ \<Rightarrow> raise (TypeError ''content is not an object''))"

text \<open>\<^verbatim>\<open>str(value or "")\<close>.\<close>

definition text_of :: "env \<Rightarrow> json \<Rightarrow> string" where
  "text_of E v =
     (case v of
        JNull \<Rightarrow> [] | JStr t \<Rightarrow> t | JBool b \<Rightarrow> (if b then ''True'' else [])
      | JInt i \<Rightarrow> (if i = 0 then [] else str_int i) | JFloat f \<Rightarrow> (if f \<in> set [''0.0'', ''-0.0''] then [] else f)
      | JArr xs \<Rightarrow> (if xs = [] then [] else env_repr E v) | JObj d \<Rightarrow> (if d = [] then [] else env_repr E v))"

definition event_with_key :: "string \<Rightarrow> string \<Rightarrow> db \<Rightarrow> event_row option" where
  "event_with_key thread_id key s = find (\<lambda>e. ev_thread e = thread_id \<and> ev_key e = Some key) (db_events s)"

definition stream_delta :: "env \<Rightarrow> item_row \<Rightarrow> string \<Rightarrow> string \<Rightarrow> int \<Rightarrow> item_view dbtxn" where
  "stream_delta E row delta key now =
     bind (content_dict row) (\<lambda>content.
     seq (require (jget content ''role'' = JStr ''assistant'') (ConflictError ''only assistant messages may stream output'')) (
     let text = text_of E (jget content ''text'') @ delta in
     seq (require (py_len text \<le> 4000000) (ConflictError ''assistant message exceeded the durable size limit'')) (
     bind (append_in_transaction E
        ((event_req (it_thread row) ''item.delta'' [(''delta'', JStr delta)])
          \<lparr>rq_turn := Some (it_turn row), rq_item := Some (it_id row), rq_key := Some key,
           rq_created_at := Some now\<rparr>)) (\<lambda>_.
     seq (update_content (it_id row) (json_canon (JObj (dict_set ''text'' (JStr text) content))) now)
       (read_item E (it_id row))))))"

definition message_delta_in_transaction :: "env \<Rightarrow> string \<Rightarrow> string \<Rightarrow> string \<Rightarrow> int \<Rightarrow> item_view dbtxn" where
  "message_delta_in_transaction E item_id delta key now =
     bind (require_item item_id) (\<lambda>row.
     seq (require (it_kind row = KindMessage) (ConflictError ''only message items accept text deltas'')) (
     seq (require (it_status row = ItemInProgress) (ConflictError ''message deltas require an in-progress item'')) (
     bind (require_turn (it_turn row)) (\<lambda>parent.
     seq (require (\<not> turn_terminal (tn_status parent)) (ConflictError ''terminal turns cannot accept message deltas'')) (
     bind (read (event_with_key (it_thread row) key)) (\<lambda>existing.
     case existing of
       Some e \<Rightarrow>
         seq (require (ev_payload e = [(''delta'', JStr delta)])
               (ConflictError ''message delta idempotency key was reused with different content''))
           (lift_result (item_from_row E row))
     | None \<Rightarrow> stream_delta E row delta key now))))))"

definition append_message_delta ::
    "env \<Rightarrow> admission \<Rightarrow> string \<Rightarrow> string \<Rightarrow> string \<Rightarrow> string option \<Rightarrow> string option \<Rightarrow> int \<Rightarrow> db
     \<Rightarrow> (err + item_view) \<times> db" where
  "append_message_delta E A item_id delta key job_id lease_token now s =
     (if delta = [] then (Inl (ValueError ''message delta must not be empty''), s)
      else if py_len delta > 1000000 then (Inl (ValueError ''message delta is too large''), s)
      else if key = [] then (Inl (ValueError ''message delta idempotency_key is required''), s)
      else mutation_transaction E A ''message_delta'' item_id job_id lease_token
             (message_delta_in_transaction E item_id delta key now) s)"

section \<open>The task list\<close>

definition task_token :: "string \<Rightarrow> bool" where
  "task_token t =
     (t \<noteq> [] \<and> length t \<le> 64 \<and> ascii_alnum (hd t) \<and> list_all (\<lambda>c. ascii_alnum c \<or> c \<in> set ''._-'') t)"

record task_entry =
  te_id :: string
  te_title :: string
  te_status :: string

definition parse_task_entry :: "json \<Rightarrow> task_entry option" where
  "parse_task_entry j =
     (case j of
        JObj d \<Rightarrow>
          if \<not> list_all (\<lambda>k. k \<in> set [''id'', ''title'', ''status'']) (map fst d) then None
          else
            obind (get_str d ''id'') (\<lambda>i.
            obind (get_str d ''title'') (\<lambda>title.
            obind (get_str d ''status'') (\<lambda>status.
            if task_token i \<and> text_bounds 1 240 title \<and> status \<in> set [''pending'', ''in_progress'', ''completed'']
            then Some \<lparr>te_id = i, te_title = title, te_status = status\<rparr> else None)))
      | _ \<Rightarrow> None)"

text \<open>\<^verbatim>\<open>TaskListProjection\<close> on its validated entries.\<close>

definition task_list_ok :: "string \<Rightarrow> task_entry list \<Rightarrow> bool" where
  "task_list_ok turn_id es =
     (text_bounds 1 256 turn_id \<and> 2 \<le> length es \<and> length es \<le> 8 \<and> distinct (map te_id es) \<and>
      length (filter (\<lambda>e. te_status e = ''in_progress'') es) \<le> 1)"

definition parse_task_list :: "string \<Rightarrow> json list \<Rightarrow> task_entry list option" where
  "parse_task_list turn_id items =
     obind (json_list parse_task_entry items) (\<lambda>es. if task_list_ok turn_id es then Some es else None)"

definition task_json :: "task_entry \<Rightarrow> json" where
  "task_json e = JObj [(''id'', JStr (te_id e)), (''title'', JStr (te_title e)), (''status'', JStr (te_status e))]"

definition task_list_content :: "env \<Rightarrow> string \<Rightarrow> task_entry list \<Rightarrow> int \<Rightarrow> jobj" where
  "task_list_content E turn_id es now =
     [(''schema_version'', JInt 1), (''turn_id'', JStr turn_id), (''items'', JArr (map task_json es)),
      (''updated_at'', JStr (env_datetime E now))]"

definition task_list_row :: "string \<Rightarrow> db \<Rightarrow> item_row option" where
  "task_list_row turn_id s =
     (case sort_key (\<lambda>r. (it_created_at r, it_id r))
             (filter (\<lambda>r. it_turn r = turn_id \<and> it_kind r = KindTaskList) (db_items s)) of
        [] \<Rightarrow> None | r # _ \<Rightarrow> Some r)"

definition task_list_item ::
    "env \<Rightarrow> turn_row \<Rightarrow> jobj \<Rightarrow> item_status \<Rightarrow> string \<Rightarrow> int \<Rightarrow> item_row option \<Rightarrow> string dbtxn" where
  "task_list_item E turn content status key now row =
     (case row of
        None \<Rightarrow>
          bind (create_item_in_transaction E
             ((item_spec (tn_thread turn) (tn_id turn) KindTaskList content status)\<lparr>is_key := Some (key @ '':item'')\<rparr>) now)
            (\<lambda>v. ret (it_id (iv_row v)))
      | Some r \<Rightarrow>
          seq (require (\<not> (it_status r = ItemCompleted \<and> status \<noteq> ItemCompleted))
                (ConflictError ''a completed Task List cannot be reopened'')) (ret (it_id r)))"

definition task_list_in_transaction ::
    "env \<Rightarrow> string \<Rightarrow> task_entry list \<Rightarrow> string \<Rightarrow> int \<Rightarrow> item_view dbtxn" where
  "task_list_in_transaction E turn_id es key now =
     (let content = task_list_content E turn_id es now;
          status = (if list_all (\<lambda>e. te_status e = ''completed'') es then ItemCompleted else ItemInProgress)
      in bind (require_turn turn_id) (\<lambda>turn.
         seq (require (\<not> turn_terminal (tn_status turn)) (ConflictError ''terminal Turns cannot update a Task List'')) (
         bind (read (event_with_key (tn_thread turn) key)) (\<lambda>prior.
         case prior of
           Some e \<Rightarrow>
             seq (require (jget (ev_payload e) ''items'' = json_canon (JArr (map task_json es)))
                   (ConflictError ''Task List idempotency key was reused with different content''))
               (case ev_item e of None \<Rightarrow> raise (NotFoundError ''item does not exist'') | Some i \<Rightarrow> read_item E i)
         | None \<Rightarrow>
             bind (read (task_list_row turn_id)) (\<lambda>row.
             bind (task_list_item E turn content status key now row) (\<lambda>item_id.
             bind (append_in_transaction E
                ((event_req (tn_thread turn) ''task_list.updated'' content)
                  \<lparr>rq_turn := Some turn_id, rq_item := Some item_id, rq_key := Some key, rq_created_at := Some now\<rparr>)) (\<lambda>_.
             seq (update_item item_id (\<lambda>r. r\<lparr>it_status := status, it_content := json_canon (JObj content),
                                             it_updated_at := now\<rparr>))
               (read_item E item_id))))))))"

definition update_task_list ::
    "env \<Rightarrow> admission \<Rightarrow> string \<Rightarrow> json list \<Rightarrow> string \<Rightarrow> string \<Rightarrow> string \<Rightarrow> int \<Rightarrow> db \<Rightarrow> (err + item_view) \<times> db" where
  "update_task_list E A turn_id items key job_id lease_token now s =
     (if key = [] then (Inl (ValueError ''Task List idempotency key is required''), s)
      else case parse_task_list turn_id items of
        None \<Rightarrow> (Inl (ConflictError ''Task List content is invalid''), s)
      | Some es \<Rightarrow>
          mutation_transaction E A ''task_list_update'' turn_id (Some job_id) (Some lease_token)
            (task_list_in_transaction E turn_id es key now) s)"

section \<open>Tool calls\<close>

definition same_identity :: "activity \<Rightarrow> activity \<Rightarrow> bool" where
  "same_identity a b =
     (act_tool_call_id a = act_tool_call_id b \<and> act_tool_id a = act_tool_id b \<and> act_tool_name a = act_tool_name b \<and>
      act_display_label a = act_display_label b \<and> act_effects a = act_effects b \<and> act_risk a = act_risk b \<and>
      act_argument_summary a = act_argument_summary b \<and> act_argument_sha256 a = act_argument_sha256 b)"

definition write_tool_result :: "env \<Rightarrow> item_row \<Rightarrow> activity \<Rightarrow> string \<Rightarrow> int \<Rightarrow> item_view dbtxn" where
  "write_tool_result E row a key now =
     seq (require (it_status row = ItemInProgress) (ConflictError ''tool result requires an in-progress tool item'')) (
     bind (append_in_transaction E
        ((event_req (it_thread row) ''tool.result'' [(''activity'', dump_activity a)])
          \<lparr>rq_turn := Some (it_turn row), rq_item := Some (it_id row), rq_tool_call := Some (act_tool_call_id a),
           rq_key := Some key, rq_created_at := Some now\<rparr>)) (\<lambda>_.
     bind (append_in_transaction E
        ((event_req (it_thread row) ''item.status_changed''
            [(''from'', JStr ''in_progress''), (''to'', JStr ''completed'')])
          \<lparr>rq_turn := Some (it_turn row), rq_item := Some (it_id row), rq_key := Some (key @ '':completed''),
           rq_created_at := Some now\<rparr>)) (\<lambda>_.
     seq (update_item (it_id row) (\<lambda>r. r\<lparr>it_content := json_canon (dump_activity a), it_status := ItemCompleted,
                                         it_updated_at := now\<rparr>))
       (read_item E (it_id row)))))"

definition complete_tool_in_transaction :: "env \<Rightarrow> string \<Rightarrow> activity \<Rightarrow> string \<Rightarrow> int \<Rightarrow> item_view dbtxn" where
  "complete_tool_in_transaction E item_id a key now =
     bind (require_item item_id) (\<lambda>row.
     seq (require (it_kind row = KindToolCall) (ConflictError ''only tool-call items accept tool results'')) (
     bind (read (event_with_key (it_thread row) key)) (\<lambda>existing.
     case validate_activity (env_timing E) (it_content row) of
       None \<Rightarrow> raise (ConflictError ''stored tool public activity is invalid'')
     | Some current \<Rightarrow>
         seq (require (same_identity current a) (ConflictError ''tool result public identity changed'')) (
         case existing of
           Some e \<Rightarrow>
             seq (require (ev_payload e = canon_obj [(''activity'', dump_activity a)])
                   (ConflictError ''tool result idempotency key was reused with different content''))
               (lift_result (item_from_row E row))
         | None \<Rightarrow> write_tool_result E row a key now))))"

definition complete_tool_item ::
    "env \<Rightarrow> admission \<Rightarrow> string \<Rightarrow> json \<Rightarrow> string \<Rightarrow> string option \<Rightarrow> string option \<Rightarrow> int \<Rightarrow> db \<Rightarrow> (err + item_view) \<times> db" where
  "complete_tool_item E A item_id activity key job_id lease_token now s =
     (case validate_activity (env_timing E) activity of
        None \<Rightarrow> (Inl (ConflictError ''tool result public activity is invalid''), s)
      | Some a \<Rightarrow>
          if act_phase a \<noteq> ''completed'' \<or> act_status a \<noteq> ''completed''
          then (Inl (ConflictError ''tool result requires a completed public activity''), s)
          else mutation_transaction E A ''tool_item_complete'' item_id job_id lease_token
                 (complete_tool_in_transaction E item_id a key now) s)"

definition transition_activity :: "env \<Rightarrow> item_row \<Rightarrow> item_status \<Rightarrow> err + activity option" where
  "transition_activity E row target =
     (if it_kind row \<noteq> KindToolCall then Inr None
      else case validate_activity (env_timing E) (it_content row) of
        None \<Rightarrow> Inl (ConflictError ''Tool Item public activity transition is invalid'')
      | Some a \<Rightarrow> Inr (Some (transition a target)))"

definition transition_item_in_transaction :: "env \<Rightarrow> string \<Rightarrow> item_status \<Rightarrow> int \<Rightarrow> item_view dbtxn" where
  "transition_item_in_transaction E item_id target now =
     bind (require_item item_id) (\<lambda>row.
     if it_status row = target then lift_result (item_from_row E row)
     else
       bind (require_turn (it_turn row)) (\<lambda>parent.
       seq (require (\<not> turn_terminal (tn_status parent)) (ConflictError ''items in a terminal turn cannot change state'')) (
       seq (require (target \<in> set (item_transitions (it_status row))) (InvalidTransitionError ''item cannot transition'')) (
       bind (lift_result (transition_activity E row target)) (\<lambda>activity.
       bind (append_in_transaction E
          ((event_req (it_thread row) ''item.status_changed''
              [(''from'', JStr (item_status_text (it_status row))), (''to'', JStr (item_status_text target))])
            \<lparr>rq_turn := Some (it_turn row), rq_item := Some item_id, rq_tool_call := map_option act_tool_call_id activity,
             rq_created_at := Some now\<rparr>)) (\<lambda>_.
       seq (update_item item_id
             (\<lambda>r. r\<lparr>it_status := target,
                    it_content := (case activity of None \<Rightarrow> it_content r | Some a \<Rightarrow> json_canon (dump_activity a)),
                    it_updated_at := now\<rparr>))
         (read_item E item_id)))))))"

definition transition_item ::
    "env \<Rightarrow> admission \<Rightarrow> string \<Rightarrow> item_status \<Rightarrow> string option \<Rightarrow> string option \<Rightarrow> int \<Rightarrow> db \<Rightarrow> (err + item_view) \<times> db" where
  "transition_item E A item_id target job_id lease_token now =
     mutation_transaction E A ''item_transition'' item_id job_id lease_token
       (transition_item_in_transaction E item_id target now)"

section \<open>Worker facts\<close>

definition append_execution_event ::
    "env \<Rightarrow> admission \<Rightarrow> string \<Rightarrow> string \<Rightarrow> string \<Rightarrow> string \<Rightarrow> string \<Rightarrow> jobj \<Rightarrow> string option \<Rightarrow> string option
     \<Rightarrow> string option \<Rightarrow> db \<Rightarrow> (err + event_row) \<times> db" where
  "append_execution_event E A job_id lease_token thread_id turn_id event_type payload item_id tool_call_id key =
     execution_transaction A job_id lease_token (env_now E)
       (bind (read (find_job job_id)) (\<lambda>job.
        seq (require (case job of None \<Rightarrow> False | Some j \<Rightarrow> jb_thread j = Some thread_id \<and> jb_turn j = Some turn_id)
              (ConflictError ''execution Event scope differs from its Job''))
          (append_in_transaction E
             ((event_req thread_id event_type payload)
               \<lparr>rq_turn := Some turn_id, rq_item := item_id, rq_job := Some job_id, rq_tool_call := tool_call_id,
                rq_key := key\<rparr>))))"

end
