(* ===== verification/Contracts.thy ===== *)
theory Contracts
  imports Store
begin

text \<open>
  The interaction contracts of \<^verbatim>\<open>ecorex/protocol/models.py\<close>: choices, form fields, actions and the
  connector context of an \<^verbatim>\<open>InteractionContract\<close>, its validation for an interaction kind, and the
  validation of an \<^verbatim>\<open>InteractionResponse\<close> against it.  A model is a record, its pydantic validation the
  predicate \<open>.._ok\<close>; \<open>dump_..\<close> and \<open>parse_..\<close> write out what the calls of \<^verbatim>\<open>model_dump(mode="json")\<close> and
  \<^verbatim>\<open>model_validate\<close> in \<^verbatim>\<open>interactions.py\<close> do with the declared fields; \<open>contract_roundtrip\<close> shows that the two agree.  The scan
  for sensitive names and values is a parameter (regular expressions over Unicode).
\<close>

section \<open>Enumerations\<close>

datatype action_style = StylePrimary | StyleSecondary | StyleDanger

fun action_style_text :: "action_style \<Rightarrow> string" where
  "action_style_text StylePrimary = ''primary''"
| "action_style_text StyleSecondary = ''secondary''"
| "action_style_text StyleDanger = ''danger''"

datatype connector_state =
    AuthorizationRequired
  | AwaitingCallback
  | Verifying
  | ReauthorizationRequired

fun connector_state_text :: "connector_state \<Rightarrow> string" where
  "connector_state_text AuthorizationRequired = ''authorization_required''"
| "connector_state_text AwaitingCallback = ''awaiting_callback''"
| "connector_state_text Verifying = ''verifying''"
| "connector_state_text ReauthorizationRequired = ''reauthorization_required''"

definition action_types :: "action_type list" where
  "action_types =
     [ActionSubmit, ActionContinue, ActionCancel, ActionAllow, ActionDeny, ActionRetry, ActionSkip, ActionAccept,
      ActionRequestChanges, ActionConnectorBeginLogin, ActionConnectorCheckStatus]"

definition parse_action_type :: "string \<Rightarrow> action_type option" where
  "parse_action_type t = find (\<lambda>x. action_type_text x = t) action_types"

definition parse_action_style :: "string \<Rightarrow> action_style option" where
  "parse_action_style t = find (\<lambda>x. action_style_text x = t) [StylePrimary, StyleSecondary, StyleDanger]"

definition parse_control :: "string \<Rightarrow> field_control option" where
  "parse_control t = find (\<lambda>x. field_control_text x = t) [ControlText, ControlTextarea, ControlSelect, ControlCheckbox]"

definition parse_connector_state :: "string \<Rightarrow> connector_state option" where
  "parse_connector_state t =
     find (\<lambda>x. connector_state_text x = t) [AuthorizationRequired, AwaitingCallback, Verifying, ReauthorizationRequired]"

lemma parse_enums [simp]:
  "parse_action_type (action_type_text a) = Some a" "parse_action_style (action_style_text b) = Some b"
  "parse_control (field_control_text c) = Some c" "parse_connector_state (connector_state_text d) = Some d"
proof -
  show "parse_action_type (action_type_text a) = Some a" by (cases a) (simp_all add: parse_action_type_def action_types_def)
  show "parse_action_style (action_style_text b) = Some b" by (cases b) (simp_all add: parse_action_style_def)
  show "parse_control (field_control_text c) = Some c" by (cases c) (simp_all add: parse_control_def)
  show "parse_connector_state (connector_state_text d) = Some d" by (cases d) (simp_all add: parse_connector_state_def)
qed

section \<open>Models\<close>

record choice =
  ch_id :: string
  ch_label :: string
  ch_description :: "string option"

record form_field =
  ff_id :: string
  ff_label :: string
  ff_control :: field_control
  ff_required :: bool
  ff_description :: "string option"
  ff_placeholder :: "string option"
  ff_min :: int
  ff_max :: int
  ff_options :: "choice list"

record iaction =
  ac_id :: string
  ac_label :: string
  ac_type :: action_type
  ac_style :: action_style
  ac_submits :: bool

record connector =
  cn_id :: string
  cn_name :: string
  cn_state :: connector_state
  cn_required :: "string list"

record contract =
  co_title :: string
  co_fields :: "form_field list"
  co_actions :: "iaction list"
  co_connector :: "connector option"

text \<open>\<^verbatim>\<open>_INTERACTION_ID_PATTERN\<close>.\<close>

definition interaction_token :: "string \<Rightarrow> bool" where
  "interaction_token t =
     (t \<noteq> [] \<and> length t \<le> 128 \<and> ascii_alpha (hd t) \<and> list_all (\<lambda>c. ascii_alnum c \<or> c \<in> set ''_.:-'') t)"

definition choice_ok :: "choice \<Rightarrow> bool" where
  "choice_ok c =
     (interaction_token (ch_id c) \<and> text_bounds 1 80 (ch_label c) \<and> pred_option (text_bounds 0 240) (ch_description c))"

definition opt_text :: "string option \<Rightarrow> string" where
  "opt_text x = (case x of None \<Rightarrow> [] | Some t \<Rightarrow> t)"

definition field_ok :: "env \<Rightarrow> form_field \<Rightarrow> bool" where
  "field_ok E f =
     (interaction_token (ff_id f) \<and> text_bounds 1 80 (ff_label f) \<and> pred_option (text_bounds 0 240) (ff_description f) \<and>
      pred_option (text_bounds 0 160) (ff_placeholder f) \<and> 0 \<le> ff_min f \<and> ff_min f \<le> 4000 \<and> 1 \<le> ff_max f \<and> ff_max f \<le> 4000 \<and>
      length (ff_options f) \<le> 100 \<and> list_all choice_ok (ff_options f) \<and>
      \<not> list_ex (env_sensitive_name E) [ff_id f, ff_label f, opt_text (ff_description f), opt_text (ff_placeholder f)] \<and>
      ff_min f \<le> ff_max f \<and> distinct (map ch_id (ff_options f)) \<and>
      (if ff_control f = ControlSelect then ff_options f \<noteq> [] else ff_options f = []) \<and>
      (ff_control f = ControlCheckbox \<longrightarrow> ff_min f = 0 \<and> ff_max f = 500))"

definition action_ok :: "iaction \<Rightarrow> bool" where
  "action_ok a = (interaction_token (ac_id a) \<and> text_bounds 1 80 (ac_label a))"

definition connector_ok :: "connector \<Rightarrow> bool" where
  "connector_ok c =
     (interaction_token (cn_id c) \<and> text_bounds 1 100 (cn_name c) \<and> length (cn_required c) \<le> 32 \<and>
      distinct (cn_required c) \<and> list_all interaction_token (cn_required c))"

definition contract_ok :: "env \<Rightarrow> contract \<Rightarrow> bool" where
  "contract_ok E c =
     (text_bounds 1 120 (co_title c) \<and> length (co_fields c) \<le> 16 \<and> list_all (field_ok E) (co_fields c) \<and>
      1 \<le> length (co_actions c) \<and> length (co_actions c) \<le> 8 \<and> list_all action_ok (co_actions c) \<and>
      pred_option connector_ok (co_connector c) \<and>
      distinct (map ff_id (co_fields c)) \<and> distinct (map ac_id (co_actions c)))"

section \<open>Contracts of a kind\<close>

fun allowed_actions :: "interaction_kind \<Rightarrow> action_type list" where
  "allowed_actions AskPermissionApproval = [ActionAllow, ActionDeny, ActionCancel]"
| "allowed_actions AskInformation = [ActionSubmit, ActionContinue, ActionCancel]"
| "allowed_actions AskConnectorLogin = [ActionConnectorBeginLogin, ActionConnectorCheckStatus, ActionCancel]"
| "allowed_actions AskConflictResolution = [ActionRetry, ActionSkip, ActionContinue, ActionCancel]"
| "allowed_actions AskArtifactReview = [ActionAccept, ActionRequestChanges, ActionCancel]"

definition contract_for_kind :: "interaction_kind \<Rightarrow> contract \<Rightarrow> bool" where
  "contract_for_kind kind c =
     (let types = map ac_type (co_actions c)
      in list_all (\<lambda>t. t \<in> set (allowed_actions kind)) types \<and>
         (kind = AskPermissionApproval \<longrightarrow> co_fields c = [] \<and> ActionAllow \<in> set types \<and> ActionDeny \<in> set types) \<and>
         (if kind = AskConnectorLogin then co_fields c = [] \<and> co_connector c \<noteq> None else co_connector c = None) \<and>
         (co_fields c \<noteq> [] \<longrightarrow> list_ex ac_submits (co_actions c)))"

section \<open>Responses\<close>

record response =
  rs_action :: string
  rs_values :: jobj

definition response_fields :: "string list" where
  "response_fields = [''action_id'', ''values'']"

definition values_ok :: "jobj \<Rightarrow> bool" where
  "values_ok d =
     (length d \<le> 16 \<and>
      list_all (\<lambda>(k, v). interaction_token k \<and> (case v of JStr _ \<Rightarrow> True | JBool _ \<Rightarrow> True | _ \<Rightarrow> False)) d)"

definition parse_response :: "json \<Rightarrow> response option" where
  "parse_response j =
     (case j of
        JObj d \<Rightarrow>
          if \<not> list_all (\<lambda>k. k \<in> set response_fields) (map fst d) then None
          else
            obind (get_str d ''action_id'') (\<lambda>action.
            obind (case map_of d ''values'' of None \<Rightarrow> Some [] | Some (JObj v) \<Rightarrow> Some v | _ \<Rightarrow> None) (\<lambda>values.
            if interaction_token action \<and> values_ok values
            then Some \<lparr>rs_action = action, rs_values = values\<rparr> else None))
      | _ \<Rightarrow> None)"

definition dump_response :: "response \<Rightarrow> json" where
  "dump_response r = JObj [(''action_id'', JStr (rs_action r)), (''values'', JObj (rs_values r))]"

definition field_value_ok :: "env \<Rightarrow> form_field \<Rightarrow> json option \<Rightarrow> bool" where
  "field_value_ok E f v =
     (case v of
        None \<Rightarrow> \<not> ff_required f
      | Some (JBool b) \<Rightarrow> ff_control f = ControlCheckbox \<and> (ff_required f \<longrightarrow> b)
      | Some (JStr t) \<Rightarrow>
          ff_control f \<noteq> ControlCheckbox \<and> ff_min f \<le> int (py_len t) \<and> int (py_len t) \<le> ff_max f \<and>
          (ff_control f = ControlSelect \<longrightarrow> t \<in> set (map ch_id (ff_options f))) \<and> \<not> env_sensitive_value E t
      | _ \<Rightarrow> False)"

definition response_valid :: "env \<Rightarrow> contract \<Rightarrow> response \<Rightarrow> bool" where
  "response_valid E c r =
     (case find (\<lambda>a. ac_id a = rs_action r) (co_actions c) of
        None \<Rightarrow> False
      | Some a \<Rightarrow>
          if \<not> ac_submits a then rs_values r = []
          else list_all (\<lambda>(k, _). k \<in> set (map ff_id (co_fields c))) (rs_values r) \<and>
               list_all (\<lambda>f. field_value_ok E f (map_of (rs_values r) (ff_id f))) (co_fields c))"

section \<open>JSON of a contract\<close>

definition dump_choice :: "choice \<Rightarrow> json" where
  "dump_choice c =
     JObj [(''option_id'', JStr (ch_id c)), (''label'', JStr (ch_label c)), (''description'', jopt (ch_description c))]"

definition dump_field :: "form_field \<Rightarrow> json" where
  "dump_field f =
     JObj [(''field_id'', JStr (ff_id f)), (''label'', JStr (ff_label f)),
           (''control'', JStr (field_control_text (ff_control f))), (''required'', JBool (ff_required f)),
           (''description'', jopt (ff_description f)), (''placeholder'', jopt (ff_placeholder f)),
           (''min_length'', JInt (ff_min f)), (''max_length'', JInt (ff_max f)),
           (''options'', JArr (map dump_choice (ff_options f))), (''sensitive'', JBool False)]"

definition dump_action :: "iaction \<Rightarrow> json" where
  "dump_action a =
     JObj [(''action_id'', JStr (ac_id a)), (''label'', JStr (ac_label a)),
           (''action_type'', JStr (action_type_text (ac_type a))), (''style'', JStr (action_style_text (ac_style a))),
           (''submits_form'', JBool (ac_submits a))]"

definition dump_connector :: "connector \<Rightarrow> json" where
  "dump_connector c =
     JObj [(''connector_id'', JStr (cn_id c)), (''display_name'', JStr (cn_name c)),
           (''state'', JStr (connector_state_text (cn_state c))),
           (''required_action_ids'', JArr (map JStr (cn_required c)))]"

definition dump_contract :: "contract \<Rightarrow> json" where
  "dump_contract c =
     JObj [(''schema_version'', JInt 1), (''title'', JStr (co_title c)), (''fields'', JArr (map dump_field (co_fields c))),
           (''actions'', JArr (map dump_action (co_actions c))),
           (''connector'', (case co_connector c of None \<Rightarrow> JNull | Some x \<Rightarrow> dump_connector x))]"

definition only_keys :: "string list \<Rightarrow> jobj \<Rightarrow> bool" where
  "only_keys ks d = list_all (\<lambda>k. k \<in> set ks) (map fst d)"

definition get_bool :: "jobj \<Rightarrow> string \<Rightarrow> bool option" where
  "get_bool d k = (case map_of d k of None \<Rightarrow> Some False | Some (JBool b) \<Rightarrow> Some b | _ \<Rightarrow> None)"

definition get_int_or :: "int \<Rightarrow> jobj \<Rightarrow> string \<Rightarrow> int option" where
  "get_int_or n d k = (case map_of d k of None \<Rightarrow> Some n | Some (JInt i) \<Rightarrow> Some i | _ \<Rightarrow> None)"

definition parse_choice :: "json \<Rightarrow> choice option" where
  "parse_choice j =
     (case j of
        JObj d \<Rightarrow>
          if \<not> only_keys [''option_id'', ''label'', ''description''] d then None
          else
            obind (get_str d ''option_id'') (\<lambda>i. obind (get_str d ''label'') (\<lambda>l.
            obind (get_opt_str d ''description'') (\<lambda>e. Some \<lparr>ch_id = i, ch_label = l, ch_description = e\<rparr>)))
      | _ \<Rightarrow> None)"

definition parse_field :: "json \<Rightarrow> form_field option" where
  "parse_field j =
     (case j of
        JObj d \<Rightarrow>
          if \<not> only_keys [''field_id'', ''label'', ''control'', ''required'', ''description'', ''placeholder'',
                          ''min_length'', ''max_length'', ''options'', ''sensitive''] d
             \<or> get_bool d ''sensitive'' \<noteq> Some False then None
          else
            obind (get_str d ''field_id'') (\<lambda>i. obind (get_str d ''label'') (\<lambda>l.
            obind (obind (get_str d ''control'') parse_control) (\<lambda>c. obind (get_bool d ''required'') (\<lambda>q.
            obind (get_opt_str d ''description'') (\<lambda>e. obind (get_opt_str d ''placeholder'') (\<lambda>p.
            obind (get_int_or 0 d ''min_length'') (\<lambda>lo. obind (get_int_or 500 d ''max_length'') (\<lambda>hi.
            obind (get_list parse_choice d ''options'') (\<lambda>os.
            Some \<lparr>ff_id = i, ff_label = l, ff_control = c, ff_required = q, ff_description = e, ff_placeholder = p,
                  ff_min = lo, ff_max = hi, ff_options = os\<rparr>)))))))))
      | _ \<Rightarrow> None)"

definition parse_action :: "json \<Rightarrow> iaction option" where
  "parse_action j =
     (case j of
        JObj d \<Rightarrow>
          if \<not> only_keys [''action_id'', ''label'', ''action_type'', ''style'', ''submits_form''] d then None
          else
            obind (get_str d ''action_id'') (\<lambda>i. obind (get_str d ''label'') (\<lambda>l.
            obind (obind (get_str d ''action_type'') parse_action_type) (\<lambda>t.
            obind (case map_of d ''style'' of
                     None \<Rightarrow> Some StyleSecondary | Some (JStr x) \<Rightarrow> parse_action_style x | _ \<Rightarrow> None) (\<lambda>y.
            obind (get_bool d ''submits_form'') (\<lambda>b.
            Some \<lparr>ac_id = i, ac_label = l, ac_type = t, ac_style = y, ac_submits = b\<rparr>)))))
      | _ \<Rightarrow> None)"

definition parse_connector :: "json \<Rightarrow> connector option" where
  "parse_connector j =
     (case j of
        JObj d \<Rightarrow>
          if \<not> only_keys [''connector_id'', ''display_name'', ''state'', ''required_action_ids''] d then None
          else
            obind (get_str d ''connector_id'') (\<lambda>i. obind (get_str d ''display_name'') (\<lambda>n.
            obind (obind (get_str d ''state'') parse_connector_state) (\<lambda>st.
            obind (get_list json_str d ''required_action_ids'') (\<lambda>rs.
            Some \<lparr>cn_id = i, cn_name = n, cn_state = st, cn_required = rs\<rparr>))))
      | _ \<Rightarrow> None)"

definition parse_contract :: "env \<Rightarrow> json \<Rightarrow> contract option" where
  "parse_contract E j =
     (case j of
        JObj d \<Rightarrow>
          if \<not> only_keys [''schema_version'', ''title'', ''fields'', ''actions'', ''connector''] d
             \<or> get_int_or 1 d ''schema_version'' \<noteq> Some 1 then None
          else
            obind (get_str d ''title'') (\<lambda>t. obind (get_list parse_field d ''fields'') (\<lambda>fs.
            obind (get_list parse_action d ''actions'') (\<lambda>as.
            obind (case map_of d ''connector'' of
                     None \<Rightarrow> Some None | Some JNull \<Rightarrow> Some None
                   | Some v \<Rightarrow> map_option Some (parse_connector v)) (\<lambda>cn.
            let c = \<lparr>co_title = t, co_fields = fs, co_actions = as, co_connector = cn\<rparr>
            in if contract_ok E c then Some c else None))))
      | _ \<Rightarrow> None)"

section \<open>A stored contract reads back unchanged\<close>

lemma get_scalar_canon [simp]:
  "get_bool (canon_obj d) k = get_bool d k" "get_int_or n (canon_obj d) k = get_int_or n d k"
  by (auto simp: get_bool_def get_int_or_def split: option.splits json.splits)

lemma only_keys_canon [simp]: "only_keys ks (canon_obj d) = only_keys ks d"
  unfolding only_keys_def by (rule list_all_keys_canon)

lemma style_canon:
  "(case map_of (canon_obj d) k of None \<Rightarrow> a | Some (JStr x) \<Rightarrow> f x | _ \<Rightarrow> b) =
   (case map_of d k of None \<Rightarrow> a | Some (JStr x) \<Rightarrow> f x | _ \<Rightarrow> b)"
  by (auto split: option.splits json.splits)

lemma parse_choice_canon [simp]: "parse_choice (json_canon j) = parse_choice j"
  by (cases j) (simp_all add: parse_choice_def)

lemma parse_action_canon [simp]: "parse_action (json_canon j) = parse_action j"
  by (cases j) (simp_all only: parse_action_def json.case json_canon_obj only_keys_canon get_canon get_scalar_canon
      style_canon json_canon.simps)

lemma parse_connector_canon [simp]: "parse_connector (json_canon j) = parse_connector j"
  by (cases j) (simp_all only: parse_connector_def json.case json_canon_obj only_keys_canon get_canon
      get_list_canon [where f = json_str, OF json_str_canon] json_canon.simps)

lemma parse_field_canon [simp]: "parse_field (json_canon j) = parse_field j"
  by (cases j) (simp_all only: parse_field_def json.case json_canon_obj only_keys_canon get_canon get_scalar_canon
      get_list_canon [where f = parse_choice, OF parse_choice_canon] json_canon.simps)

lemma connector_canon:
  "(case map_of (canon_obj d) k of None \<Rightarrow> Some None | Some JNull \<Rightarrow> Some None | Some v \<Rightarrow> map_option Some (parse_connector v)) =
   (case map_of d k of None \<Rightarrow> Some None | Some JNull \<Rightarrow> Some None | Some v \<Rightarrow> map_option Some (parse_connector v))"
proof (cases "map_of d k")
  case (Some v)
  then show ?thesis using parse_connector_canon [of v] by (cases v) simp_all
qed simp

lemma parse_contract_canon: "parse_contract E (json_canon j) = parse_contract E j"
  by (cases j) (simp_all only: parse_contract_def json.case json_canon_obj only_keys_canon get_canon get_scalar_canon
      get_list_canon [where f = parse_field, OF parse_field_canon]
      get_list_canon [where f = parse_action, OF parse_action_canon] connector_canon json_canon.simps)

lemmas get_defs = get_str_def get_opt_str_def get_bool_def get_int_or_def get_list_def jopt_def only_keys_def obind_def

lemma parse_dump_choice [simp]: "parse_choice (dump_choice c) = Some c"
  by (cases "ch_description c") (simp_all add: parse_choice_def dump_choice_def get_defs)

lemma parse_dump_action [simp]: "parse_action (dump_action a) = Some a"
  by (simp add: parse_action_def dump_action_def get_defs)

lemma parse_dump_connector [simp]: "parse_connector (dump_connector c) = Some c"
  by (simp add: parse_connector_def dump_connector_def get_defs json_list_map json_str_def)

lemma parse_dump_field [simp]: "parse_field (dump_field f) = Some f"
  by (cases "ff_description f"; cases "ff_placeholder f")
     (simp_all add: parse_field_def dump_field_def get_defs json_list_map)

lemma connector_field:
  "(case dump_connector x of JNull \<Rightarrow> Some None | v \<Rightarrow> map_option Some (parse_connector v)) = Some (Some x)"
  using parse_dump_connector [of x] by (simp add: dump_connector_def)

lemma parse_dump_contract: "contract_ok E c \<Longrightarrow> parse_contract E (dump_contract c) = Some c"
  by (cases c; cases "co_connector c")
     (simp_all add: parse_contract_def dump_contract_def get_defs json_list_map connector_field Let_def)

text \<open>
  A contract that was accepted is read back unchanged from its stored canonical JSON: every
  field, option, action, style and connector state, in the same order.
\<close>

theorem contract_roundtrip:
  assumes "contract_ok E c"
  shows "parse_contract E (json_canon (dump_contract c)) = Some c"
  by (simp add: parse_contract_canon parse_dump_contract assms)

end
