(* ===== verification/Interactions.thy ===== *)
theory Interactions
  imports Contracts Jobs
begin

text \<open>
  \<^verbatim>\<open>ecorex/runtime/interactions.py\<close> (\<^verbatim>\<open>InteractionStore\<close>): durable requests to a human.  A pending
  interaction is answered (which resumes its job and its turn), cancelled, expired, or moved through
  the states of a connector login; closing it fails or cancels the job and the turn that wait for
  it, with everything else the turn still has open.
\<close>

section \<open>Default contracts\<close>

definition txt_allow_once :: string where
  "txt_allow_once = u8 [0xE5, 0x85, 0x81, 0xE8, 0xAE, 0xB8, 0xE4, 0xB8, 0x80, 0xE6, 0xAC, 0xA1]"
definition txt_refuse :: string where "txt_refuse = u8 [0xE6, 0x8B, 0x92, 0xE7, 0xBB, 0x9D]"
definition txt_go_on :: string where "txt_go_on = u8 [0xE7, 0xBB, 0xA7, 0xE7, 0xBB, 0xAD]"
definition txt_cancel :: string where "txt_cancel = u8 [0xE5, 0x8F, 0x96, 0xE6, 0xB6, 0x88]"
definition txt_retry :: string where "txt_retry = u8 [0xE9, 0x87, 0x8D, 0xE8, 0xAF, 0x95]"
definition txt_skip :: string where "txt_skip = u8 [0xE8, 0xB7, 0xB3, 0xE8, 0xBF, 0x87]"
definition txt_cancel_task :: string where
  "txt_cancel_task = u8 [0xE5, 0x8F, 0x96, 0xE6, 0xB6, 0x88, 0xE4, 0xBB, 0xBB, 0xE5, 0x8A, 0xA1]"
definition txt_title_permission :: string where
  "txt_title_permission = u8 [0xE6, 0x9D, 0x83, 0xE9, 0x99, 0x90, 0xE7, 0xA1, 0xAE, 0xE8, 0xAE, 0xA4]"
definition txt_title_information :: string where
  "txt_title_information = u8 [0xE9, 0x9C, 0x80, 0xE8, 0xA6, 0x81, 0xE8, 0xA1, 0xA5, 0xE5, 0x85, 0x85, 0xE4, 0xBF, 0xA1, 0xE6, 0x81, 0xAF]"
definition txt_title_conflict :: string where
  "txt_title_conflict = u8 [0xE9, 0x9C, 0x80, 0xE8, 0xA6, 0x81, 0xE5, 0xA4, 0x84, 0xE7, 0x90, 0x86, 0xE5, 0x86, 0xB2, 0xE7, 0xAA, 0x81]"
definition txt_title_other :: string where
  "txt_title_other = u8 [0xE9, 0x9C, 0x80, 0xE8, 0xA6, 0x81, 0xE4, 0xBD, 0xA0, 0xE7, 0x9A, 0x84, 0xE6, 0x93, 0x8D, 0xE4, 0xBD, 0x9C]"

definition option_json :: "string \<times> string \<Rightarrow> json" where
  "option_json p = JObj [(''id'', JStr (fst p)), (''label'', JStr (snd p))]"

fun default_options :: "interaction_kind \<Rightarrow> (string \<times> string) list" where
  "default_options AskPermissionApproval = [(''allow'', txt_allow_once), (''deny'', txt_refuse)]"
| "default_options AskInformation = [(''continue'', txt_go_on), (''cancel'', txt_cancel)]"
| "default_options AskConflictResolution = [(''retry'', txt_retry), (''skip'', txt_skip), (''cancel'', txt_cancel_task)]"
| "default_options _ = []"

fun default_title :: "interaction_kind \<Rightarrow> string" where
  "default_title AskPermissionApproval = txt_title_permission"
| "default_title AskInformation = txt_title_information"
| "default_title AskConflictResolution = txt_title_conflict"
| "default_title _ = txt_title_other"

text \<open>\<^verbatim>\<open>action_type_by_id\<close>: the identifier of an option is the text of its action, connector actions apart.\<close>

definition action_type_by_id :: "string \<Rightarrow> action_type option" where
  "action_type_by_id t =
     find (\<lambda>x. action_type_text x = t)
       [ActionAllow, ActionDeny, ActionContinue, ActionCancel, ActionRetry, ActionSkip, ActionAccept,
        ActionRequestChanges, ActionSubmit]"

definition option_action :: "nat \<Rightarrow> json \<Rightarrow> iaction option" where
  "option_action index opt =
     (case opt of
        JObj d \<Rightarrow>
          if \<not> only_keys [''id'', ''label''] d then None
          else
            obind (get_str d ''id'') (\<lambda>i. obind (get_str d ''label'') (\<lambda>l.
            obind (action_type_by_id i) (\<lambda>t.
            let a = \<lparr>ac_id = i, ac_label = l, ac_type = t,
                     ac_style = (if index = 0 then StylePrimary else if t = ActionDeny then StyleDanger else StyleSecondary),
                     ac_submits = False\<rparr>
            in if action_ok a then Some a else None)))
      | _ \<Rightarrow> None)"

fun option_actions :: "nat \<Rightarrow> json list \<Rightarrow> iaction list option" where
  "option_actions n [] = Some []"
| "option_actions n (x # xs) = obind (option_action n x) (\<lambda>a. obind (option_actions (Suc n) xs) (\<lambda>as. Some (a # as)))"

definition default_contract :: "env \<Rightarrow> interaction_kind \<Rightarrow> json list \<Rightarrow> contract option" where
  "default_contract E kind options =
     (let supplied = (if options \<noteq> [] then options else map option_json (default_options kind))
      in if supplied = [] then None
         else
           obind (option_actions 0 supplied) (\<lambda>as.
           let c = \<lparr>co_title = default_title kind, co_fields = [], co_actions = as, co_connector = None\<rparr>
           in if contract_ok E c \<and> contract_for_kind kind c then Some c else None))"

definition contract_options :: "contract \<Rightarrow> json" where
  "contract_options c =
     JArr (map (\<lambda>a. JObj [(''id'', JStr (ac_id a)), (''label'', JStr (ac_label a)),
                          (''action_type'', JStr (action_type_text (ac_type a)))]) (co_actions c))"

section \<open>Reading an interaction\<close>

definition stored_contract :: "env \<Rightarrow> interaction_row \<Rightarrow> contract option" where
  "stored_contract E r =
     obind (parse_contract E (ia_contract r)) (\<lambda>c. if contract_for_kind (ia_kind r) c then Some c else None)"

definition interaction_from_row :: "env \<Rightarrow> interaction_row \<Rightarrow> err + interaction_row" where
  "interaction_from_row E r =
     (case stored_contract E r of
        None \<Rightarrow> Inl (ValueError ''InteractionContract'')
      | Some c \<Rightarrow>
          if (case ia_response r of
                None \<Rightarrow> True
              | Some j \<Rightarrow> (case parse_response j of None \<Rightarrow> False | Some x \<Rightarrow> response_valid E c x))
          then Inr r else Inl (ValueError ''InteractionResponse''))"

definition require_interaction :: "string \<Rightarrow> interaction_row dbtxn" where
  "require_interaction i =
     bind (read (find_interaction i)) (\<lambda>row.
     case row of None \<Rightarrow> raise (NotFoundError ''interaction does not exist'') | Some r \<Rightarrow> ret r)"

definition read_interaction :: "env \<Rightarrow> string \<Rightarrow> interaction_row dbtxn" where
  "read_interaction E i = bind (require_interaction i) (\<lambda>r. lift_result (interaction_from_row E r))"

definition get_interaction :: "env \<Rightarrow> string \<Rightarrow> db \<Rightarrow> err + interaction_row" where
  "get_interaction E i s =
     (case find_interaction i s of
        None \<Rightarrow> Inl (NotFoundError ''interaction does not exist'') | Some r \<Rightarrow> interaction_from_row E r)"

definition list_pending :: "env \<Rightarrow> string option \<Rightarrow> db \<Rightarrow> err + interaction_row list" where
  "list_pending E thread_id s =
     map_result (interaction_from_row E)
       (sort_key (\<lambda>r. (ia_created_at r, ia_id r))
         (filter (\<lambda>r. ia_status r = InteractionPending \<and> (thread_id = None \<or> Some (ia_thread r) = thread_id))
            (db_interactions s)))"

section \<open>Requesting\<close>

text \<open>\<open>cr_options = []\<close> stands for \<^verbatim>\<open>None\<close> and for an empty list; an explicit contract is the validated
  \<^verbatim>\<open>InteractionContract\<close>.\<close>

record interaction_req =
  cr_kind :: interaction_kind
  cr_prompt :: string
  cr_thread :: string
  cr_key :: string
  cr_turn :: "string option"
  cr_job :: "string option"
  cr_options :: "json list"
  cr_contract :: "contract option"
  cr_expires :: "int option"
  cr_id :: "string option"

definition requested_contract :: "env \<Rightarrow> interaction_req \<Rightarrow> contract option" where
  "requested_contract E q =
     (case cr_contract q of
        None \<Rightarrow> default_contract E (cr_kind q) (cr_options q)
      | Some c \<Rightarrow> if contract_ok E c \<and> contract_for_kind (cr_kind q) c then Some c else None)"

definition options_agree :: "json list \<Rightarrow> contract \<Rightarrow> bool" where
  "options_agree options c =
     (options = [] \<or>
      concat (map (\<lambda>x. case x of JObj d \<Rightarrow> [(jget d ''id'', jget d ''label'')] | _ \<Rightarrow> []) options) =
      map (\<lambda>a. (JStr (ac_id a), JStr (ac_label a))) (co_actions c))"

definition interaction_fingerprint :: "interaction_req \<Rightarrow> contract \<Rightarrow> string" where
  "interaction_fingerprint q c =
     fingerprint
       [(''kind'', JStr (interaction_kind_text (cr_kind q))), (''prompt'', JStr (cr_prompt q)),
        (''thread_id'', JStr (cr_thread q)), (''turn_id'', jopt (cr_turn q)), (''job_id'', jopt (cr_job q)),
        (''options'', contract_options c), (''contract'', dump_contract c), (''expires_at'', jiso (cr_expires q))]"

definition pending_row :: "interaction_req \<Rightarrow> contract \<Rightarrow> string \<Rightarrow> int \<Rightarrow> interaction_row" where
  "pending_row q c i now =
     \<lparr>ia_id = i, ia_kind = cr_kind q, ia_status = InteractionPending, ia_prompt = cr_prompt q,
      ia_contract = json_canon (dump_contract c), ia_options = json_canon (contract_options c), ia_response = None,
      ia_response_client = None, ia_response_fingerprint = None, ia_thread = cr_thread q, ia_turn = cr_turn q,
      ia_job = cr_job q, ia_key = cr_key q, ia_fingerprint = interaction_fingerprint q c,
      ia_expires_at = cr_expires q, ia_created_at = now, ia_updated_at = now\<rparr>"

definition insert_requested :: "env \<Rightarrow> interaction_req \<Rightarrow> contract \<Rightarrow> int \<Rightarrow> interaction_row dbtxn" where
  "insert_requested E q c now =
     seq (require (case cr_expires q of None \<Rightarrow> True | Some t \<Rightarrow> now < t) (ValueError ''expires_at must be in the future'')) (
     bind (case or_else (cr_id q) None of Some i \<Rightarrow> ret i | None \<Rightarrow> fresh_id E ''hitl'') (\<lambda>i.
     bind (append_in_transaction E
        ((event_req (cr_thread q) ''interaction.requested''
            [(''kind'', JStr (interaction_kind_text (cr_kind q))), (''prompt'', JStr (cr_prompt q)),
             (''options'', contract_options c), (''contract'', dump_contract c), (''expires_at'', jiso (cr_expires q))])
          \<lparr>rq_turn := cr_turn q, rq_job := cr_job q, rq_item := Some i, rq_key := Some (i @ '':requested''),
           rq_created_at := Some now\<rparr>)) (\<lambda>_.
     seq (insert_interaction (pending_row q c i now))
       (read_interaction E i))))"

definition create_interaction_in_transaction :: "env \<Rightarrow> interaction_req \<Rightarrow> int \<Rightarrow> interaction_row dbtxn" where
  "create_interaction_in_transaction E q now =
     seq (require (cr_prompt q \<noteq> [] \<and> py_len (cr_prompt q) \<le> 2000) (ValueError ''prompt is required'')) (
     seq (require (cr_thread q \<noteq> []) (ValueError ''thread_id is required'')) (
     seq (require (cr_key q \<noteq> []) (ValueError ''idempotency_key is required'')) (
     case requested_contract E q of
       None \<Rightarrow> raise (ValueError ''interaction contract is invalid'')
     | Some c \<Rightarrow>
         seq (require (options_agree (cr_options q) c) (ValueError ''interaction options disagree with the typed contract'')) (
         bind (read (\<lambda>s. find (\<lambda>i. ia_key i = cr_key q) (db_interactions s))) (\<lambda>dup.
         case dup of
           Some r \<Rightarrow>
             seq (require (ia_fingerprint r = interaction_fingerprint q c)
                   (IdempotencyConflictError ''interaction idempotency key was reused''))
               (lift_result (interaction_from_row E r))
         | None \<Rightarrow> insert_requested E q c now)))))"

definition create_interaction :: "env \<Rightarrow> interaction_req \<Rightarrow> int \<Rightarrow> db \<Rightarrow> (err + interaction_row) \<times> db" where
  "create_interaction E q now = transaction (create_interaction_in_transaction E (q\<lparr>cr_id := None\<rparr>) now)"

section \<open>Connector logins\<close>

text \<open>The highest \<^verbatim>\<open>state_revision\<close> among the facts this operation wrote for the interaction.\<close>

definition state_revision :: "string \<Rightarrow> db \<Rightarrow> int" where
  "state_revision i s =
     foldr max (map (\<lambda>e. case jget (ev_payload e) ''state_revision'' of JInt n \<Rightarrow> n | _ \<Rightarrow> 0)
       (filter (\<lambda>e. ev_item e = Some i \<and> ev_type e = ''interaction.connector_state_changed'') (db_events s))) 0"

definition write_connector_state :: "env \<Rightarrow> interaction_row \<Rightarrow> contract \<Rightarrow> connector \<Rightarrow> connector_state \<Rightarrow> int \<Rightarrow> interaction_row dbtxn" where
  "write_connector_state E row c cn state now =
     bind (read (state_revision (ia_id row))) (\<lambda>revision.
     bind (append_in_transaction E
        ((event_req (ia_thread row) ''interaction.connector_state_changed''
            [(''from'', JStr (connector_state_text (cn_state cn))), (''to'', JStr (connector_state_text state)),
             (''connector_id'', JStr (cn_id cn)), (''state_revision'', JInt (revision + 1))])
          \<lparr>rq_turn := ia_turn row, rq_job := ia_job row, rq_item := Some (ia_id row),
           rq_key := Some (ia_id row @ '':connector-state:'' @ str_int (revision + 1)), rq_created_at := Some now\<rparr>)) (\<lambda>_.
     seq (update_interaction (ia_id row)
           (\<lambda>r. if ia_status r = InteractionPending
                then r\<lparr>ia_contract := json_canon (dump_contract (c\<lparr>co_connector := Some (cn\<lparr>cn_state := state\<rparr>)\<rparr>)),
                       ia_updated_at := now\<rparr>
                else r))
       (read_interaction E (ia_id row))))"

definition connector_state_in_transaction :: "env \<Rightarrow> string \<Rightarrow> connector_state \<Rightarrow> int \<Rightarrow> interaction_row dbtxn" where
  "connector_state_in_transaction E i state now =
     bind (require_interaction i) (\<lambda>row.
     seq (require (ia_kind row = AskConnectorLogin \<and> ia_status row = InteractionPending)
           (InvalidTransitionError ''only a pending connector login interaction can change state'')) (
     case stored_contract E row of
       None \<Rightarrow> raise (ValueError ''InteractionContract'')
     | Some c \<Rightarrow>
         (case co_connector c of
            None \<Rightarrow> raise (InvalidTransitionError ''connector login interaction has no connector context'')
          | Some cn \<Rightarrow>
              if cn_state cn = state then lift_result (interaction_from_row E row)
              else write_connector_state E row c cn state now)))"

definition update_connector_state ::
    "env \<Rightarrow> string \<Rightarrow> connector_state \<Rightarrow> int \<Rightarrow> db \<Rightarrow> (err + interaction_row) \<times> db" where
  "update_connector_state E i state now = transaction (connector_state_in_transaction E i state now)"

section \<open>Resuming what waits\<close>

definition resume_job_row :: "int \<Rightarrow> job_row \<Rightarrow> job_row" where
  "resume_job_row now r = (clear_lease r)\<lparr>jb_status := JobQueued, jb_available_at := now, jb_updated_at := now\<rparr>"

definition resume_job :: "env \<Rightarrow> interaction_row \<Rightarrow> int \<Rightarrow> unit dbtxn" where
  "resume_job E row now =
     (case ia_job row of
        None \<Rightarrow> ret ()
      | Some job_id \<Rightarrow>
          bind (read (find_job job_id)) (\<lambda>job.
          case job of
            None \<Rightarrow> ret ()
          | Some j \<Rightarrow>
              if jb_status j \<noteq> JobWaitingHuman then ret ()
              else
                bind (append_in_transaction E
                   ((event_req (ia_thread row) ''job.resumed''
                       [(''attempt'', JInt (jb_attempt j)), (''interaction_id'', JStr (ia_id row)),
                        (''available_at'', JStr (iso_text now))])
                     \<lparr>rq_turn := ia_turn row, rq_job := Some job_id,
                      rq_key := Some (job_id @ '':interaction:'' @ ia_id row @ '':resumed''),
                      rq_created_at := Some now\<rparr>)) (\<lambda>_.
                update_job job_id (resume_job_row now))))"

definition resume_turn :: "env \<Rightarrow> interaction_row \<Rightarrow> int \<Rightarrow> unit dbtxn" where
  "resume_turn E row now =
     (case ia_turn row of
        None \<Rightarrow> ret ()
      | Some turn_id \<Rightarrow>
          bind (read (find_turn turn_id)) (\<lambda>turn.
          if map_option tn_status turn \<noteq> Some TurnWaitingHuman then ret ()
          else
            bind (append_in_transaction E
               ((event_req (ia_thread row) ''turn.status_changed''
                   [(''from'', JStr ''waiting_human''), (''to'', JStr ''preparing''), (''reason'', JStr ''interaction_resolved'')])
                 \<lparr>rq_turn := Some turn_id, rq_key := Some (ia_id row @ '':turn-resumed''), rq_created_at := Some now\<rparr>)) (\<lambda>_.
            update_turn turn_id (\<lambda>t. t\<lparr>tn_status := TurnPreparing, tn_reason := None, tn_updated_at := now\<rparr>))))"

text \<open>An open Item is moved to a terminal status with the reason of its interaction.\<close>

definition close_item ::
    "env \<Rightarrow> string \<Rightarrow> string option \<Rightarrow> string \<Rightarrow> item_status \<Rightarrow> string \<Rightarrow> int \<Rightarrow> item_row \<Rightarrow> unit dbtxn" where
  "close_item E thread_id turn_id key target reason now item =
     (if item_terminal (it_status item) then ret ()
      else
        bind (append_in_transaction E
           ((event_req thread_id ''item.status_changed''
               [(''from'', JStr (item_status_text (it_status item))), (''to'', JStr (item_status_text target)),
                (''reason'', JStr reason)])
             \<lparr>rq_turn := turn_id, rq_item := Some (it_id item), rq_key := Some key, rq_created_at := Some now\<rparr>)) (\<lambda>_.
        update_item (it_id item) (\<lambda>r. r\<lparr>it_status := target, it_updated_at := now\<rparr>)))"

definition close_own_item :: "env \<Rightarrow> interaction_row \<Rightarrow> string \<Rightarrow> item_status \<Rightarrow> string \<Rightarrow> int \<Rightarrow> unit dbtxn" where
  "close_own_item E row key target reason now =
     bind (read (find_item (ia_id row))) (\<lambda>item.
     case item of None \<Rightarrow> ret () | Some it \<Rightarrow> close_item E (ia_thread row) (ia_turn row) key target reason now it)"

definition resume_dependents_in_transaction :: "env \<Rightarrow> interaction_row \<Rightarrow> int \<Rightarrow> unit dbtxn" where
  "resume_dependents_in_transaction E row now =
     seq (resume_job E row now) (
     seq (resume_turn E row now)
       (close_own_item E row (ia_id row @ '':item-resolved'') ItemCompleted ''interaction_resolved'' now))"

section \<open>Closing\<close>

definition close_job_row :: "job_status \<Rightarrow> string \<Rightarrow> int \<Rightarrow> job_row \<Rightarrow> job_row" where
  "close_job_row target reason now r =
     (clear_lease r)\<lparr>jb_status := target, jb_last_error := Some reason, jb_updated_at := now\<rparr>"

definition job_close_event :: "job_status \<Rightarrow> string" where
  "job_close_event target = (if target = JobFailed then ''job.failed'' else ''job.cancelled'')"

definition close_waiting_job :: "env \<Rightarrow> interaction_row \<Rightarrow> job_status \<Rightarrow> string \<Rightarrow> int \<Rightarrow> unit dbtxn" where
  "close_waiting_job E row target reason now =
     (case ia_job row of
        None \<Rightarrow> ret ()
      | Some job_id \<Rightarrow>
          bind (read (find_job job_id)) (\<lambda>job.
          case job of
            None \<Rightarrow> ret ()
          | Some j \<Rightarrow>
              if jb_status j \<noteq> JobWaitingHuman then ret ()
              else
                bind (append_in_transaction E
                   ((event_req (ia_thread row) (job_close_event target)
                       [(''attempt'', JInt (jb_attempt j)), (''reason'', JStr reason), (''interaction_id'', JStr (ia_id row))])
                     \<lparr>rq_turn := ia_turn row, rq_job := Some job_id,
                      rq_key := Some (ia_id row @ '':job:'' @ job_status_text target), rq_created_at := Some now\<rparr>)) (\<lambda>_.
                update_job job_id (close_job_row target reason now))))"

definition close_dependent_job :: "env \<Rightarrow> interaction_row \<Rightarrow> job_status \<Rightarrow> string \<Rightarrow> int \<Rightarrow> job_row \<Rightarrow> unit dbtxn" where
  "close_dependent_job E row target reason now j =
     (if job_terminal (jb_status j) then ret ()
      else
        bind (append_in_transaction E
           ((event_req (ia_thread row) (job_close_event target)
               [(''attempt'', JInt (jb_attempt j)), (''reason'', JStr reason)])
             \<lparr>rq_turn := ia_turn row, rq_job := Some (jb_id j),
              rq_key := Some (ia_id row @ '':dependent-job:'' @ jb_id j), rq_created_at := Some now\<rparr>)) (\<lambda>_.
        update_job (jb_id j) (close_job_row target reason now)))"

definition cancel_peer :: "env \<Rightarrow> interaction_row \<Rightarrow> string \<Rightarrow> int \<Rightarrow> interaction_row \<Rightarrow> unit dbtxn" where
  "cancel_peer E row reason now other =
     bind (append_in_transaction E
        ((event_req (ia_thread row) ''interaction.cancelled'' [(''reason'', JStr (''peer_'' @ reason))])
          \<lparr>rq_turn := ia_turn row, rq_job := ia_job other, rq_item := Some (ia_id other),
           rq_key := Some (ia_id row @ '':peer:'' @ ia_id other), rq_created_at := Some now\<rparr>)) (\<lambda>_.
     update_interaction (ia_id other) (\<lambda>r. r\<lparr>ia_status := InteractionCancelled, ia_updated_at := now\<rparr>))"

definition close_waiting_turn ::
    "env \<Rightarrow> interaction_row \<Rightarrow> string \<Rightarrow> turn_row \<Rightarrow> turn_status \<Rightarrow> job_status \<Rightarrow> item_status \<Rightarrow> string \<Rightarrow> int \<Rightarrow> unit dbtxn" where
  "close_waiting_turn E row turn_id turn turn_target job_target item_target reason now =
     bind (read (\<lambda>s. filter (\<lambda>j. jb_turn j = Some turn_id) (db_jobs s))) (\<lambda>jobs.
     seq (for_each jobs (close_dependent_job E row job_target reason now)) (
     bind (read (pending_of_turn turn_id)) (\<lambda>others.
     seq (for_each others (cancel_peer E row reason now)) (
     bind (read (items_of_turn turn_id)) (\<lambda>items.
     seq (for_each items (\<lambda>it. close_item E (ia_thread row) (Some turn_id)
            (ia_id row @ '':dependent-item:'' @ it_id it) item_target reason now it)) (
     bind (append_in_transaction E
        ((event_req (ia_thread row) ''turn.status_changed''
            [(''from'', JStr (turn_status_text (tn_status turn))), (''to'', JStr (turn_status_text turn_target)),
             (''reason'', JStr reason)])
          \<lparr>rq_turn := Some turn_id, rq_key := Some (ia_id row @ '':turn:'' @ turn_status_text turn_target),
           rq_created_at := Some now\<rparr>)) (\<lambda>_.
     update_turn turn_id (\<lambda>t. t\<lparr>tn_status := turn_target, tn_reason := Some reason, tn_updated_at := now\<rparr>))))))))"

text \<open>The waiting turn is read before the Item of the interaction is closed.\<close>

definition waiting_turn :: "interaction_row \<Rightarrow> db \<Rightarrow> (string \<times> turn_row) option" where
  "waiting_turn row s =
     (case ia_turn row of
        None \<Rightarrow> None
      | Some turn_id \<Rightarrow>
          (case find_turn turn_id s of
             None \<Rightarrow> None | Some t \<Rightarrow> if tn_status t = TurnWaitingHuman then Some (turn_id, t) else None))"

definition close_pending_in_transaction ::
    "env \<Rightarrow> interaction_row \<Rightarrow> interaction_status \<Rightarrow> string \<Rightarrow> jobj \<Rightarrow> int \<Rightarrow> interaction_row dbtxn" where
  "close_pending_in_transaction E row target event_type payload now =
     (let reason = interaction_status_text target;
          expired = (target = InteractionExpired);
          job_target = (if expired then JobFailed else JobCancelled);
          item_target = (if expired then ItemFailed else ItemCancelled);
          turn_target = (if expired then TurnFailed else TurnCancelled)
      in if ia_status row = target then lift_result (interaction_from_row E row)
         else
           seq (require (ia_status row = InteractionPending) (InvalidTransitionError ''cannot close an interaction'')) (
           bind (append_in_transaction E
              ((event_req (ia_thread row) event_type payload)
                \<lparr>rq_turn := ia_turn row, rq_job := ia_job row, rq_item := Some (ia_id row),
                 rq_key := Some (ia_id row @ '':'' @ reason), rq_created_at := Some now\<rparr>)) (\<lambda>_.
           seq (update_interaction (ia_id row) (\<lambda>r. r\<lparr>ia_status := target, ia_updated_at := now\<rparr>)) (
           seq (close_waiting_job E row job_target reason now) (
           bind (read (waiting_turn row)) (\<lambda>waiting.
           seq (close_own_item E row (ia_id row @ '':item:'' @ item_status_text item_target) item_target reason now) (
           seq (case waiting of
                  None \<Rightarrow> ret ()
                | Some (turn_id, turn) \<Rightarrow>
                    close_waiting_turn E row turn_id turn turn_target job_target item_target reason now)
             (read_interaction E (ia_id row)))))))))"

definition cancel_interaction :: "env \<Rightarrow> string \<Rightarrow> string \<Rightarrow> int \<Rightarrow> db \<Rightarrow> (err + interaction_row) \<times> db" where
  "cancel_interaction E i reason now =
     transaction (bind (require_interaction i) (\<lambda>row.
       close_pending_in_transaction E row InteractionCancelled ''interaction.cancelled'' [(''reason'', JStr reason)] now))"

section \<open>Responding\<close>

text \<open>\<^verbatim>\<open>_CLIENT_REQUEST_ID\<close>.\<close>

definition client_token :: "string \<Rightarrow> bool" where
  "client_token t =
     (t \<noteq> [] \<and> length t \<le> 192 \<and> ascii_alnum (hd t) \<and> list_all (\<lambda>c. ascii_alnum c \<or> c \<in> set ''._:-'') t)"

definition response_fingerprint :: "string \<Rightarrow> json \<Rightarrow> string" where
  "response_fingerprint i r = fingerprint [(''interaction_id'', JStr i), (''response'', r)]"

definition validated_response :: "env \<Rightarrow> interaction_row \<Rightarrow> json \<Rightarrow> err + response" where
  "validated_response E row raw =
     (case stored_contract E row of
        None \<Rightarrow> Inl (InteractionResponseValidationError ''InteractionContract'')
      | Some c \<Rightarrow>
          (case parse_response raw of
             None \<Rightarrow> Inl (InteractionResponseValidationError ''InteractionResponse'')
           | Some r \<Rightarrow> if response_valid E c r then Inr r
                       else Inl (InteractionResponseValidationError ''InteractionResponse'')))"

definition resolve_interaction :: "env \<Rightarrow> interaction_row \<Rightarrow> response \<Rightarrow> string \<Rightarrow> int \<Rightarrow> interaction_row dbtxn" where
  "resolve_interaction E row r client now =
     bind (append_in_transaction E
        ((event_req (ia_thread row) ''interaction.resolved''
            [(''response'', dump_response r), (''client_request_id'', JStr client)])
          \<lparr>rq_turn := ia_turn row, rq_job := ia_job row, rq_item := Some (ia_id row), rq_correlation := Some client,
           rq_key := Some (ia_id row @ '':resolved''), rq_created_at := Some now\<rparr>)) (\<lambda>_.
     seq (update_interaction (ia_id row)
           (\<lambda>x. x\<lparr>ia_status := InteractionResolved, ia_response := Some (json_canon (dump_response r)),
                  ia_response_client := Some client,
                  ia_response_fingerprint := Some (response_fingerprint (ia_id row) (dump_response r)),
                  ia_updated_at := now\<rparr>)) (
     seq (resume_dependents_in_transaction E row now)
       (read_interaction E (ia_id row))))"

text \<open>The replay check compares the digest of the response as it was sent.\<close>

definition respond_in_transaction :: "env \<Rightarrow> string \<Rightarrow> json \<Rightarrow> string \<Rightarrow> int \<Rightarrow> interaction_row dbtxn" where
  "respond_in_transaction E i raw client now =
     seq (require (client_token client) (ValueError ''client_request_id is required and invalid'')) (
     bind (read (\<lambda>s. find (\<lambda>r. ia_response_client r = Some client) (db_interactions s))) (\<lambda>dup.
     case dup of
       Some r \<Rightarrow>
         seq (require (ia_response_fingerprint r = Some (response_fingerprint i raw))
               (IdempotencyConflictError ''client request ID was reused for a different interaction response''))
           (lift_result (interaction_from_row E r))
     | None \<Rightarrow>
         bind (require_interaction i) (\<lambda>row.
         seq (require (ia_status row \<noteq> InteractionResolved)
               (IdempotencyConflictError ''a resolved interaction must be replayed with its original client request ID'')) (
         seq (require (ia_status row = InteractionPending) (InvalidTransitionError ''cannot respond to an interaction'')) (
         if (case ia_expires_at row of None \<Rightarrow> False | Some t \<Rightarrow> t \<le> now)
         then close_pending_in_transaction E row InteractionExpired ''interaction.expired''
                [(''expired_at'', JStr (iso_text now))] now
         else bind (lift_result (validated_response E row raw)) (\<lambda>r. resolve_interaction E row r client now))))))"

definition respond :: "env \<Rightarrow> string \<Rightarrow> json \<Rightarrow> string \<Rightarrow> int \<Rightarrow> db \<Rightarrow> (err + interaction_row) \<times> db" where
  "respond E i raw client now = transaction (respond_in_transaction E i raw client now)"

section \<open>Expiry\<close>

definition due_interactions :: "int \<Rightarrow> db \<Rightarrow> interaction_row list" where
  "due_interactions now s =
     sort_key (\<lambda>r. (ia_expires_at r, ia_id r))
       (filter (\<lambda>r. ia_status r = InteractionPending \<and> (case ia_expires_at r of None \<Rightarrow> False | Some t \<Rightarrow> t \<le> now))
          (db_interactions s))"

definition expire_row :: "env \<Rightarrow> int \<Rightarrow> interaction_row \<Rightarrow> unit dbtxn" where
  "expire_row E now row =
     bind (close_pending_in_transaction E row InteractionExpired ''interaction.expired''
        [(''expired_at'', JStr (iso_text now))] now) (\<lambda>_. ret ())"

definition expire_due_in_transaction :: "env \<Rightarrow> int \<Rightarrow> string list dbtxn" where
  "expire_due_in_transaction E now =
     bind (read (due_interactions now)) (\<lambda>rows.
     seq (for_each rows (expire_row E now)) (ret (map ia_id rows)))"

definition expire_due :: "env \<Rightarrow> int \<Rightarrow> db \<Rightarrow> (err + string list) \<times> db" where
  "expire_due E now = transaction (expire_due_in_transaction E now)"

end
