(* ===== verification/Turns.thy ===== *)
theory Turns
  imports Items Interactions TurnInputs
begin

text \<open>
  The turn operations of \<^verbatim>\<open>ecorex/runtime/kernel.py\<close>: accepting a turn with its first input, its message
  Item and its job in one transaction; transitions along \<^verbatim>\<open>TURN_TRANSITIONS\<close>, where a terminal one settles
  the jobs, interactions and Items of the turn; steering; finalizing against the applied inputs;
  finishing, failing and retrying the executing job; replacing and interrupting a turn; and the
  request that suspends a turn for a human.

  The check of the frozen model selection against the signed snapshots (\<^verbatim>\<open>snapshots.py\<close>) is the argument
  \<open>V\<close> of the operations that accept a turn: it gives the error it raises, if any.
\<close>

section \<open>Projections\<close>

text \<open>\<^verbatim>\<open>_turn_from_row\<close>: the timing of a terminal turn must not end before it starts.\<close>

definition turn_from_row :: "turn_row \<Rightarrow> err + turn_row" where
  "turn_from_row t =
     (if turn_terminal (tn_status t) \<and> tn_updated_at t < tn_created_at t
      then Inl (ValueError ''runtime timing cannot finish before it starts'') else Inr t)"

definition read_turn :: "string \<Rightarrow> turn_row dbtxn" where
  "read_turn turn_id = bind (require_turn turn_id) (\<lambda>t. lift_result (turn_from_row t))"

record turn_response =
  tm_turn :: turn_row
  tm_job :: "job_row option"
  tm_watermark :: nat

definition turn_mutation :: "turn_row \<Rightarrow> job_row option \<Rightarrow> string \<Rightarrow> turn_response dbtxn" where
  "turn_mutation t job thread_id =
     bind (lift_result (turn_from_row t)) (\<lambda>v.
     bind (read (watermark thread_id)) (\<lambda>w. ret \<lparr>tm_turn = v, tm_job = job, tm_watermark = w\<rparr>))"

definition get_turn :: "string \<Rightarrow> db \<Rightarrow> err + turn_row" where
  "get_turn turn_id s =
     (case find_turn turn_id s of None \<Rightarrow> Inl (NotFoundError ''turn does not exist'') | Some t \<Rightarrow> turn_from_row t)"

section \<open>Accepting a turn\<close>

type_synonym model_check = "snapshot_context \<Rightarrow> string \<Rightarrow> string option \<Rightarrow> db \<Rightarrow> err option"

record turn_origin =
  og_causation :: "string option"
  og_correlation :: "string option"
  og_trace :: "string option"

definition no_origin :: turn_origin where
  "no_origin = \<lparr>og_causation = None, og_correlation = None, og_trace = None\<rparr>"

definition agent_of :: "turn_request \<Rightarrow> string" where
  "agent_of q = opt_text (tr_agent_model q)"

definition turn_acceptance :: "string \<Rightarrow> db \<Rightarrow> event_row option" where
  "turn_acceptance turn_id s =
     (case sort_key ev_seq (filter (\<lambda>e. ev_turn e = Some turn_id \<and> ev_type e = ''turn.accepted'') (db_events s)) of
        [] \<Rightarrow> None | e # _ \<Rightarrow> Some e)"

definition assert_turn_snapshot_context :: "string \<Rightarrow> snapshot_context option \<Rightarrow> unit dbtxn" where
  "assert_turn_snapshot_context turn_id context =
     (case context of
        None \<Rightarrow> ret ()
      | Some c \<Rightarrow>
          bind (read (turn_acceptance turn_id)) (\<lambda>accepted.
          case accepted of
            None \<Rightarrow> raise (ConflictError ''idempotent turn is missing its acceptance event'')
          | Some e \<Rightarrow>
              require (ev_config e = Some (cx_config c) \<and> ev_capability e = Some (cx_capability c) \<and>
                       ev_permission e = Some (cx_permission c) \<and> ev_extension e = Some (cx_extension c) \<and>
                       jget (ev_payload e) ''model_catalog_snapshot_id'' = JStr (cx_model_catalog c))
                (ConflictError ''client_message_id was reused under a different Runtime snapshot'')))"

definition agent_job :: "string \<Rightarrow> db \<Rightarrow> job_row option" where
  "agent_job turn_id s =
     (case sort_key jb_created_at (filter (\<lambda>j. jb_turn j = Some turn_id \<and> jb_kind j = ''agent_turn'') (db_jobs s)) of
        [] \<Rightarrow> None | j # _ \<Rightarrow> Some j)"

definition replayed_turn :: "turn_row \<Rightarrow> snapshot_context option \<Rightarrow> (turn_row \<times> job_row) dbtxn" where
  "replayed_turn t context =
     seq (assert_turn_snapshot_context (tn_id t) context) (
     bind (read (agent_job (tn_id t))) (\<lambda>job.
     case job of
       None \<Rightarrow> raise (ConflictError ''idempotent turn is missing its durable job'')
     | Some j \<Rightarrow> bind (lift_result (turn_from_row t)) (\<lambda>v. ret (v, j))))"

definition message_of :: "string \<Rightarrow> string option \<Rightarrow> db \<Rightarrow> item_row option" where
  "message_of thread_id client s =
     find (\<lambda>i. it_thread i = thread_id \<and> it_client_message i = client) (db_items s)"

definition turn_of_message :: "string \<Rightarrow> string option \<Rightarrow> db \<Rightarrow> turn_row option" where
  "turn_of_message thread_id client s =
     find (\<lambda>t. tn_thread t = thread_id \<and> tn_client_message t = client) (db_turns s)"

text \<open>\<^verbatim>\<open>content.get("text") == request.input and content.get("metadata", {}) == request.metadata\<close>.\<close>

definition same_message :: "jobj \<Rightarrow> turn_request \<Rightarrow> bool" where
  "same_message content q =
     (jget content ''text'' = JStr (tr_input q) \<and>
      (case map_of content ''metadata'' of None \<Rightarrow> JObj [] | Some v \<Rightarrow> v) = json_canon (JObj (tr_metadata q)))"

definition replay_by_message :: "string \<Rightarrow> turn_request \<Rightarrow> snapshot_context option \<Rightarrow> item_row \<Rightarrow> (turn_row \<times> job_row) dbtxn" where
  "replay_by_message thread_id q context message =
     bind (content_dict message) (\<lambda>content.
     seq (require (same_message content q) (ConflictError ''client_message_id was reused with different input'')) (
     bind (require_turn (it_turn message)) (\<lambda>dup.
     bind (match_client_intent_in_transaction thread_id (tn_id dup) q) (\<lambda>_.
     seq (require (tn_agent_model dup = agent_of q \<and> tn_image_model dup = tr_image_model q)
           (ConflictError ''client_message_id was reused with a different model selection''))
       (replayed_turn dup context)))))"

definition replay_by_turn :: "string \<Rightarrow> turn_request \<Rightarrow> snapshot_context option \<Rightarrow> turn_row \<Rightarrow> (turn_row \<times> job_row) dbtxn" where
  "replay_by_turn thread_id q context dup =
     bind (match_client_intent_in_transaction thread_id (tn_id dup) q) (\<lambda>_.
     seq (require (tn_input dup = tr_input q \<and> tn_agent_model dup = agent_of q \<and> tn_image_model dup = tr_image_model q \<and>
                   json_dumps (JObj (tn_metadata dup)) = json_dumps (JObj (tr_metadata q)))
           (ConflictError ''client_message_id was reused with different input''))
       (replayed_turn dup context))"

definition accepted_row :: "string \<Rightarrow> string \<Rightarrow> turn_request \<Rightarrow> int \<Rightarrow> turn_row" where
  "accepted_row turn_id thread_id q now =
     \<lparr>tn_id = turn_id, tn_thread = thread_id, tn_status = TurnAccepted, tn_input = tr_input q,
      tn_agent_model = agent_of q, tn_image_model = tr_image_model q, tn_client_message = tr_client_message q,
      tn_metadata = canon_obj (tr_metadata q), tn_reason = None, tn_created_at = now, tn_updated_at = now\<rparr>"

definition accept_payload :: "turn_request \<Rightarrow> jobj" where
  "accept_payload q =
     [(''input'', JStr (tr_input q)), (''agent_model_id'', jopt (tr_agent_model q)),
      (''image_model_id'', jopt (tr_image_model q)), (''explicit_tool_ids'', JArr (map JStr (tr_tools q))),
      (''metadata'', JObj (tr_metadata q))]"

definition user_message :: "turn_request \<Rightarrow> jobj" where
  "user_message q =
     [(''role'', JStr ''user''), (''text'', JStr (tr_input q)), (''explicit_tool_ids'', JArr (map JStr (tr_tools q))),
      (''metadata'', JObj (tr_metadata q))]"

definition agent_turn_job :: "string \<Rightarrow> string \<Rightarrow> snapshot_context option \<Rightarrow> enqueue_req" where
  "agent_turn_job thread_id turn_id context =
     \<lparr>eq_kind = ''agent_turn'', eq_payload = [(''thread_id'', JStr thread_id), (''turn_id'', JStr turn_id)],
      eq_key = ''turn:'' @ turn_id @ '':execute'', eq_thread = Some thread_id, eq_turn = Some turn_id, eq_priority = 0,
      eq_max_attempts = 3, eq_available_at = None, eq_deadline = None, eq_job_id = None,
      eq_context = (case context of None \<Rightarrow> [] | Some c \<Rightarrow> context_dict c)\<rparr>"

text \<open>The facts and rows of a new turn up to its status \<^verbatim>\<open>queued\<close>; \<open>extra\<close> is what the queued fact adds.\<close>

definition accept_turn ::
    "env \<Rightarrow> string \<Rightarrow> string \<Rightarrow> turn_request \<Rightarrow> snapshot_context option \<Rightarrow> turn_origin \<Rightarrow> jobj \<Rightarrow> int \<Rightarrow> unit dbtxn" where
  "accept_turn E thread_id turn_id q context og extra now =
     bind (append_in_transaction E
        (with_context context
          ((event_req thread_id ''turn.accepted''
              (accept_payload q @ [(''model_catalog_snapshot_id'', jopt (map_option cx_model_catalog context))]))
            \<lparr>rq_turn := Some turn_id, rq_client_message := tr_client_message q, rq_causation := og_causation og,
             rq_correlation := or_else (og_correlation og) (or_else (tr_client_message q) (Some turn_id)),
             rq_trace := or_else (og_trace og) (Some (''trace_'' @ turn_id)),
             rq_key := Some (turn_id @ '':accepted''), rq_created_at := Some now\<rparr>))) (\<lambda>_.
     seq (insert_turn (accepted_row turn_id thread_id q now)) (
     bind (append_initial_in_transaction E thread_id turn_id q (Some now)) (\<lambda>_.
     bind (create_item_in_transaction E
        ((item_spec thread_id turn_id KindMessage (user_message q) ItemCompleted)
          \<lparr>is_client_message := tr_client_message q, is_key := Some (turn_id @ '':user-message''),
           is_context := context\<rparr>) now) (\<lambda>_.
     bind (append_in_transaction E
        (with_context context
          ((event_req thread_id ''turn.queued'' ([(''from'', JStr ''accepted''), (''to'', JStr ''queued'')] @ extra))
            \<lparr>rq_turn := Some turn_id, rq_key := Some (turn_id @ '':queued''), rq_created_at := Some now\<rparr>))) (\<lambda>_.
     update_turn turn_id (\<lambda>t. t\<lparr>tn_status := TurnQueued, tn_updated_at := now\<rparr>))))))"

definition generate_title :: "env \<Rightarrow> thread_row \<Rightarrow> string \<Rightarrow> turn_request \<Rightarrow> turn_origin \<Rightarrow> int \<Rightarrow> unit dbtxn" where
  "generate_title E thread turn_id q og now =
     (case th_title thread of
        Some _ \<Rightarrow> ret ()
      | None \<Rightarrow>
          bind (append_in_transaction E
             ((event_req (th_id thread) ''thread.title_generated'' [(''title'', JStr (default_thread_title (tr_input q)))])
               \<lparr>rq_turn := Some turn_id, rq_causation := Some (turn_id @ '':accepted''),
                rq_correlation := or_else (og_correlation og) (or_else (tr_client_message q) (Some turn_id)),
                rq_key := Some ''thread:title-generated'', rq_created_at := Some now\<rparr>)) (\<lambda>_.
          update_thread (th_id thread) (\<lambda>t. t\<lparr>th_title := Some (default_thread_title (tr_input q)), th_updated_at := now\<rparr>)))"

definition new_turn ::
    "env \<Rightarrow> thread_row \<Rightarrow> turn_request \<Rightarrow> snapshot_context option \<Rightarrow> turn_origin \<Rightarrow> int \<Rightarrow> (turn_row \<times> job_row) dbtxn" where
  "new_turn E thread q context og now =
     bind (fresh_id E ''trn'') (\<lambda>turn_id.
     seq (accept_turn E (th_id thread) turn_id q context og [] now) (
     bind (enqueue_in_transaction E (agent_turn_job (th_id thread) turn_id context) now) (\<lambda>job.
     seq (generate_title E thread turn_id q og now)
       (bind (read_turn turn_id) (\<lambda>t. ret (t, job))))))"

definition create_turn_in_transaction ::
    "env \<Rightarrow> model_check \<Rightarrow> string \<Rightarrow> turn_request \<Rightarrow> snapshot_context option \<Rightarrow> turn_origin \<Rightarrow> int
     \<Rightarrow> (turn_row \<times> job_row) dbtxn" where
  "create_turn_in_transaction E V thread_id q context og now =
     bind (require_thread thread_id False) (\<lambda>thread.
     seq (require (th_status thread = ThreadActive) (ConflictError ''turns cannot be created in an archived thread'')) (
     bind (read (\<lambda>s. case context of None \<Rightarrow> None | Some c \<Rightarrow> V c (agent_of q) (tr_image_model q) s)) (\<lambda>refused.
     case refused of
       Some e \<Rightarrow> raise e
     | None \<Rightarrow>
         if \<not> truthy (tr_client_message q) then new_turn E thread q context og now
         else
           bind (read (message_of thread_id (tr_client_message q))) (\<lambda>message.
           case message of
             Some m \<Rightarrow> replay_by_message thread_id q context m
           | None \<Rightarrow>
               bind (read (turn_of_message thread_id (tr_client_message q))) (\<lambda>dup.
               case dup of
                 Some t \<Rightarrow> replay_by_turn thread_id q context t
               | None \<Rightarrow> new_turn E thread q context og now)))))"

definition create_turn ::
    "env \<Rightarrow> model_check \<Rightarrow> admission \<Rightarrow> string \<Rightarrow> turn_request \<Rightarrow> snapshot_context option \<Rightarrow> turn_origin \<Rightarrow> int \<Rightarrow> db
     \<Rightarrow> (err + turn_response) \<times> db" where
  "create_turn E V A thread_id q context og now =
     control_transaction A ''turn_create'' (tr_client_message q)
       (bind (create_turn_in_transaction E V thread_id q context og now) (\<lambda>(t, job).
        bind (read (watermark thread_id)) (\<lambda>w. ret \<lparr>tm_turn = t, tm_job = Some job, tm_watermark = w\<rparr>)))"

section \<open>Transitions\<close>

fun settled_job :: "turn_status \<Rightarrow> job_status \<times> string" where
  "settled_job TurnCompleted = (JobCompleted, ''job.completed'')"
| "settled_job TurnPartial = (JobCompleted, ''job.completed'')"
| "settled_job TurnFailed = (JobFailed, ''job.failed'')"
| "settled_job _ = (JobCancelled, ''job.cancelled'')"

fun settled_item :: "turn_status \<Rightarrow> item_status" where
  "settled_item TurnCompleted = ItemCompleted"
| "settled_item TurnPartial = ItemCompleted"
| "settled_item TurnFailed = ItemFailed"
| "settled_item _ = ItemCancelled"

definition settle_reason :: "string option \<Rightarrow> turn_status \<Rightarrow> string" where
  "settle_reason reason target = (case or_else reason None of Some r \<Rightarrow> r | None \<Rightarrow> turn_status_text target)"

definition settle_job_row :: "job_status \<Rightarrow> string option \<Rightarrow> int \<Rightarrow> job_row \<Rightarrow> job_row" where
  "settle_job_row status reason now r =
     (clear_lease r)\<lparr>jb_status := status, jb_last_error := reason, jb_updated_at := now\<rparr>"

definition settle_job :: "env \<Rightarrow> turn_row \<Rightarrow> turn_status \<Rightarrow> string option \<Rightarrow> int \<Rightarrow> job_row \<Rightarrow> unit dbtxn" where
  "settle_job E turn target reason now job =
     (if job_terminal (jb_status job) then ret ()
      else
        bind (append_in_transaction E
           ((event_req (tn_thread turn) (snd (settled_job target))
               [(''attempt'', JInt (jb_attempt job)), (''reason'', JStr (settle_reason reason target)),
                (''settled_by_turn'', JBool True)])
             \<lparr>rq_turn := Some (tn_id turn), rq_job := Some (jb_id job),
              rq_key := Some (jb_id job @ '':turn-terminal:'' @ turn_status_text target), rq_created_at := Some now\<rparr>)) (\<lambda>_.
        update_job (jb_id job) (settle_job_row (fst (settled_job target)) reason now)))"

definition settle_interaction :: "env \<Rightarrow> turn_row \<Rightarrow> turn_status \<Rightarrow> string option \<Rightarrow> int \<Rightarrow> interaction_row \<Rightarrow> unit dbtxn" where
  "settle_interaction E turn target reason now ia =
     bind (append_in_transaction E
        ((event_req (tn_thread turn) ''interaction.cancelled'' [(''reason'', JStr (settle_reason reason target))])
          \<lparr>rq_turn := Some (tn_id turn), rq_job := ia_job ia, rq_item := Some (ia_id ia),
           rq_key := Some (ia_id ia @ '':turn-terminal''), rq_created_at := Some now\<rparr>)) (\<lambda>_.
     update_interaction (ia_id ia) (\<lambda>r. r\<lparr>ia_status := InteractionCancelled, ia_updated_at := now\<rparr>))"

definition settle_item :: "env \<Rightarrow> turn_row \<Rightarrow> turn_status \<Rightarrow> string option \<Rightarrow> int \<Rightarrow> item_row \<Rightarrow> unit dbtxn" where
  "settle_item E turn target reason now item =
     close_item E (tn_thread turn) (Some (tn_id turn)) (it_id item @ '':turn-terminal:'' @ turn_status_text target)
       (settled_item target) (settle_reason reason target) now item"

definition jobs_of_turn :: "string \<Rightarrow> db \<Rightarrow> job_row list" where
  "jobs_of_turn turn_id s =
     sort_key (\<lambda>j. (jb_created_at j, jb_id j)) (filter (\<lambda>j. jb_turn j = Some turn_id) (db_jobs s))"

definition items_by_age :: "string \<Rightarrow> db \<Rightarrow> item_row list" where
  "items_by_age turn_id s = sort_key (\<lambda>i. (it_created_at i, it_id i)) (items_of_turn turn_id s)"

definition settle_turn_dependents_in_transaction :: "env \<Rightarrow> turn_row \<Rightarrow> turn_status \<Rightarrow> string option \<Rightarrow> int \<Rightarrow> unit dbtxn" where
  "settle_turn_dependents_in_transaction E turn target reason now =
     bind (read (jobs_of_turn (tn_id turn))) (\<lambda>jobs.
     seq (for_each jobs (settle_job E turn target reason now)) (
     bind (read (pending_of_turn (tn_id turn))) (\<lambda>ias.
     seq (for_each ias (settle_interaction E turn target reason now)) (
     bind (read (items_by_age (tn_id turn))) (\<lambda>items.
     for_each items (settle_item E turn target reason now))))))"

definition transition_turn_in_transaction :: "env \<Rightarrow> turn_row \<Rightarrow> turn_status \<Rightarrow> string option \<Rightarrow> int \<Rightarrow> unit dbtxn" where
  "transition_turn_in_transaction E turn target reason now =
     seq (require (tn_status turn = target \<or> target \<in> set (turn_transitions (tn_status turn)))
           (InvalidTransitionError ''turn cannot transition'')) (
     seq (if turn_terminal target then settle_turn_dependents_in_transaction E turn target reason now else ret ()) (
     bind (append_in_transaction E
        ((event_req (tn_thread turn) ''turn.status_changed''
            [(''from'', JStr (turn_status_text (tn_status turn))), (''to'', JStr (turn_status_text target)),
             (''reason'', jopt reason)])
          \<lparr>rq_turn := Some (tn_id turn), rq_created_at := Some now\<rparr>)) (\<lambda>fact.
     seq (if turn_terminal target
          then archive_visible_reasoning_in_transaction E (tn_thread turn) (tn_id turn) (ev_id fact) target reason now
          else ret ()) (
     seq (update_turn (tn_id turn)
           (\<lambda>t. t\<lparr>tn_status := target, tn_reason := (if turn_terminal target then reason else None), tn_updated_at := now\<rparr>))
       (update_thread (tn_thread turn) (\<lambda>t. t\<lparr>th_updated_at := now\<rparr>))))))"

definition move_turn_in_transaction :: "env \<Rightarrow> string \<Rightarrow> turn_status \<Rightarrow> string option \<Rightarrow> int \<Rightarrow> turn_row dbtxn" where
  "move_turn_in_transaction E turn_id target reason now =
     bind (require_turn turn_id) (\<lambda>turn.
     if tn_status turn = target then lift_result (turn_from_row turn)
     else
       seq (require (target \<in> set (turn_transitions (tn_status turn))) (InvalidTransitionError ''turn cannot transition'')) (
       seq (transition_turn_in_transaction E turn target reason now)
         (read_turn turn_id)))"

definition transition_turn ::
    "env \<Rightarrow> admission \<Rightarrow> string \<Rightarrow> turn_status \<Rightarrow> string option \<Rightarrow> string option \<Rightarrow> string option \<Rightarrow> int \<Rightarrow> db
     \<Rightarrow> (err + turn_row) \<times> db" where
  "transition_turn E A turn_id target reason job_id lease_token now =
     mutation_transaction E A ''turn_transition'' turn_id job_id lease_token
       (move_turn_in_transaction E turn_id target reason now)"

definition begin_finalizing_in_transaction :: "env \<Rightarrow> string \<Rightarrow> int \<Rightarrow> int \<Rightarrow> bool dbtxn" where
  "begin_finalizing_in_transaction E turn_id applied now =
     bind (require_turn turn_id) (\<lambda>turn.
     seq (require (\<not> turn_terminal (tn_status turn)) (ConflictError ''a terminal Turn cannot begin finalizing'')) (
     seq (require (tn_status turn = TurnStreaming \<or> tn_status turn = TurnFinalizing)
           (InvalidTransitionError ''turn cannot begin finalizing'')) (
     bind (read (latest_ordinal turn_id)) (\<lambda>latest.
     case latest of
       None \<Rightarrow> raise (ConflictError ''Turn has no durable input revision'')
     | Some n \<Rightarrow>
         if int n > applied
         then (if tn_status turn = TurnFinalizing
               then raise (ConflictError ''finalizing input ordinal is behind the durable head'') else ret False)
         else
           seq (require (\<not> int n < applied) (ConflictError ''applied input ordinal exceeds the durable head'')) (
           if tn_status turn = TurnFinalizing then ret True
           else seq (transition_turn_in_transaction E turn TurnFinalizing None now) (ret True))))))"

definition begin_finalizing_if_inputs_applied ::
    "env \<Rightarrow> admission \<Rightarrow> string \<Rightarrow> int \<Rightarrow> string option \<Rightarrow> string option \<Rightarrow> int \<Rightarrow> db \<Rightarrow> (err + bool) \<times> db" where
  "begin_finalizing_if_inputs_applied E A turn_id applied job_id lease_token now s =
     (if applied < 0 then (Inl (ValueError ''applied input ordinal is invalid''), s)
      else mutation_transaction E A ''turn_finalizing'' turn_id job_id lease_token
             (begin_finalizing_in_transaction E turn_id applied now) s)"

section \<open>The executing job\<close>

text \<open>The answer when the deadline of the job passed first, read from the committed state.\<close>

definition expired_response :: "string \<Rightarrow> db \<Rightarrow> err + turn_response" where
  "expired_response job_id s =
     (case find_job job_id s of
        None \<Rightarrow> Inl (TypeError ''job row is missing'')
      | Some j \<Rightarrow>
          (case (jb_turn j, jb_thread j) of
             (Some turn_id, Some thread_id) \<Rightarrow>
               (case get_turn turn_id s of
                  Inl e \<Rightarrow> Inl e
                | Inr t \<Rightarrow> Inr \<lparr>tm_turn = t, tm_job = Some j, tm_watermark = watermark thread_id s\<rparr>)
           | _ \<Rightarrow> Inl (ConflictError ''expired job is not attached to a turn'')))"

text \<open>The deadline is settled in a transaction of its own (admitted by \<open>A0\<close>), then \<open>m\<close> runs under the lease.\<close>

definition after_deadline ::
    "env \<Rightarrow> admission \<Rightarrow> admission \<Rightarrow> string \<Rightarrow> string \<Rightarrow> int \<Rightarrow> (db \<Rightarrow> err + 'a) \<Rightarrow> 'a dbtxn \<Rightarrow> db \<Rightarrow> (err + 'a) \<times> db" where
  "after_deadline E A0 A job_id lease_token now expired m s =
     (case expire_deadline E A0 job_id now s of
        (Inl e, s1) \<Rightarrow> (Inl e, s1)
      | (Inr True, s1) \<Rightarrow> (expired s1, s1)
      | (Inr False, s1) \<Rightarrow> execution_transaction A job_id lease_token (env_now E) m s1)"

definition turn_of_job :: "job_row \<Rightarrow> (string \<times> turn_row) dbtxn" where
  "turn_of_job job =
     (case (jb_turn job, jb_thread job) of
        (Some turn_id, Some thread_id) \<Rightarrow> bind (require_turn turn_id) (\<lambda>t. ret (thread_id, t))
      | _ \<Rightarrow> raise (ConflictError ''job is not attached to a conversational turn''))"

definition settled_response :: "string \<Rightarrow> string \<Rightarrow> string \<Rightarrow> turn_response dbtxn" where
  "settled_response job_id turn_id thread_id =
     bind (require_turn turn_id) (\<lambda>t.
     bind (require_job job_id) (\<lambda>j. turn_mutation t (Some j) thread_id))"

definition finish_turn_job_in_transaction ::
    "env \<Rightarrow> string \<Rightarrow> string \<Rightarrow> string \<Rightarrow> turn_status \<Rightarrow> string option \<Rightarrow> int \<Rightarrow> turn_response dbtxn" where
  "finish_turn_job_in_transaction E job_id worker_id lease_token target reason now =
     bind (owned_row job_id worker_id lease_token now) (\<lambda>job.
     bind (turn_of_job job) (\<lambda>(thread_id, turn).
     seq (transition_turn_in_transaction E turn target reason now)
       (settled_response job_id (tn_id turn) thread_id)))"

definition finish_turn_job ::
    "env \<Rightarrow> admission \<Rightarrow> admission \<Rightarrow> string \<Rightarrow> string \<Rightarrow> string \<Rightarrow> turn_status \<Rightarrow> string option \<Rightarrow> int \<Rightarrow> db
     \<Rightarrow> (err + turn_response) \<times> db" where
  "finish_turn_job E A0 A job_id worker_id lease_token target reason now s =
     (if \<not> turn_terminal target then (Inl (ValueError ''finish_turn_job requires a terminal turn status''), s)
      else after_deadline E A0 A job_id lease_token now (expired_response job_id)
             (finish_turn_job_in_transaction E job_id worker_id lease_token target reason now) s)"

definition retry_checkpoint :: "job_row \<Rightarrow> bool \<Rightarrow> json option" where
  "retry_checkpoint job preserve_attempt =
     (let d = checkpoint_dict job;
          d' = (if preserve_attempt then dict_set preserve_key (JBool True) d else d)
      in store_checkpoint d')"

definition retry_job_row :: "json option \<Rightarrow> int \<Rightarrow> string \<Rightarrow> int \<Rightarrow> job_row \<Rightarrow> job_row" where
  "retry_job_row checkpoint available_at error now r =
     (clear_lease r)\<lparr>jb_status := JobRetryScheduled, jb_checkpoint := checkpoint, jb_available_at := available_at,
                     jb_last_error := Some error, jb_updated_at := now\<rparr>"

definition schedule_turn_retry ::
    "env \<Rightarrow> job_row \<Rightarrow> turn_row \<Rightarrow> string \<Rightarrow> int \<Rightarrow> bool \<Rightarrow> int \<Rightarrow> unit dbtxn" where
  "schedule_turn_retry E job turn error delay preserve_attempt now =
     (let available_at = now + seconds (max 0 delay)
      in seq (assert_transition (jb_status job) JobRetryScheduled) (
         bind (append_row_event E job ''job.retry_scheduled''
            [(''attempt'', JInt (jb_attempt job)), (''error'', JStr error), (''available_at'', JStr (iso_text available_at)),
             (''max_attempts'', JInt (jb_max_attempts job)), (''preserve_attempt'', JBool preserve_attempt)] now
            (Some (opt_text (jb_lease_token job)))) (\<lambda>_.
         seq (update_job (jb_id job) (retry_job_row (retry_checkpoint job preserve_attempt) available_at error now))
           (transition_turn_in_transaction E turn TurnRetryWait (Some error) now))))"

definition fail_whole_turn :: "env \<Rightarrow> job_row \<Rightarrow> turn_row \<Rightarrow> string \<Rightarrow> bool \<Rightarrow> int \<Rightarrow> unit dbtxn" where
  "fail_whole_turn E job turn error retryable now =
     (let target = (if retryable then JobDeadLetter else JobFailed)
      in seq (assert_transition (jb_status job) target) (
         bind (append_row_event E job (if retryable then ''job.dead_lettered'' else ''job.failed'')
            [(''attempt'', JInt (jb_attempt job)), (''error'', JStr error)] now None) (\<lambda>_.
         seq (update_job (jb_id job) (settle_job_row target (Some error) now))
           (transition_turn_in_transaction E turn TurnFailed (Some error) now))))"

definition fail_turn_job_in_transaction ::
    "env \<Rightarrow> string \<Rightarrow> string \<Rightarrow> string \<Rightarrow> string \<Rightarrow> bool \<Rightarrow> int \<Rightarrow> bool \<Rightarrow> int \<Rightarrow> turn_response dbtxn" where
  "fail_turn_job_in_transaction E job_id worker_id lease_token error retryable delay preserve_attempt now =
     bind (owned_row job_id worker_id lease_token now) (\<lambda>job.
     bind (turn_of_job job) (\<lambda>(thread_id, turn).
     seq (if retryable \<and> jb_attempt job < jb_max_attempts job
          then schedule_turn_retry E job turn error delay preserve_attempt now
          else fail_whole_turn E job turn error retryable now)
       (settled_response job_id (tn_id turn) thread_id)))"

definition fail_turn_job ::
    "env \<Rightarrow> admission \<Rightarrow> admission \<Rightarrow> string \<Rightarrow> string \<Rightarrow> string \<Rightarrow> string \<Rightarrow> bool \<Rightarrow> int \<Rightarrow> bool \<Rightarrow> int \<Rightarrow> db
     \<Rightarrow> (err + turn_response) \<times> db" where
  "fail_turn_job E A0 A job_id worker_id lease_token error retryable delay preserve_attempt now =
     after_deadline E A0 A job_id lease_token now (expired_response job_id)
       (fail_turn_job_in_transaction E job_id worker_id lease_token error retryable delay preserve_attempt now)"

section \<open>Steering\<close>

definition steer_request :: "turn_row \<Rightarrow> turn_request \<Rightarrow> turn_request" where
  "steer_request turn q =
     q\<lparr>tr_agent_model := or_else (tr_agent_model q) (Some (tn_agent_model turn)),
       tr_image_model := or_else (tr_image_model q) (tn_image_model turn)\<rparr>"

definition steer_item :: "string \<Rightarrow> turn_row \<Rightarrow> turn_request \<Rightarrow> int \<Rightarrow> item_row" where
  "steer_item item_id turn q now =
     \<lparr>it_id = item_id, it_thread = tn_thread turn, it_turn = tn_id turn, it_kind = KindMessage, it_status = ItemCompleted,
      it_content = json_canon (JObj (user_message q @ [(''steer'', JBool True)])),
      it_client_message = tr_client_message q, it_created_at = now, it_updated_at = now\<rparr>"

definition admit_steer :: "env \<Rightarrow> turn_row \<Rightarrow> turn_request \<Rightarrow> string option \<Rightarrow> int \<Rightarrow> turn_response dbtxn" where
  "admit_steer E turn q key now =
     bind (fresh_id E ''itm'') (\<lambda>item_id.
     bind (append_in_transaction E
        ((event_req (tn_thread turn) ''turn.steered'' (accept_payload q))
          \<lparr>rq_turn := Some (tn_id turn), rq_item := Some item_id, rq_client_message := tr_client_message q,
           rq_key := key, rq_created_at := Some now\<rparr>)) (\<lambda>_.
     seq (insert_item (steer_item item_id turn q now)) (
     bind (append_steer_in_transaction E (tn_thread turn) (tn_id turn) q (Some now)) (\<lambda>_.
     turn_mutation turn None (tn_thread turn)))))"

definition steer_new :: "env \<Rightarrow> turn_row \<Rightarrow> turn_request \<Rightarrow> int \<Rightarrow> turn_response dbtxn" where
  "steer_new E turn q now =
     (let key = (if truthy (tr_client_message q)
                 then Some (tn_id turn @ '':steer:'' @ opt_text (tr_client_message q)) else None)
      in seq (require (\<not> (tn_status turn = TurnFinalizing \<or> turn_terminal (tn_status turn)))
               (ConflictError ''a finalizing or terminal Turn cannot accept new steer input'')) (
         bind (read (\<lambda>s. case key of None \<Rightarrow> None | Some k \<Rightarrow> event_with_key (tn_thread turn) k s)) (\<lambda>dup.
         case dup of
           Some e \<Rightarrow>
             seq (require (json_dumps (JObj (ev_payload e)) = json_dumps (JObj (accept_payload q)))
                   (ConflictError ''client_message_id was reused with different steer input''))
               (turn_mutation turn None (tn_thread turn))
         | None \<Rightarrow> admit_steer E turn q key now)))"

definition steer_turn_in_transaction :: "env \<Rightarrow> string \<Rightarrow> turn_request \<Rightarrow> int \<Rightarrow> turn_response dbtxn" where
  "steer_turn_in_transaction E turn_id request now =
     bind (require_turn turn_id) (\<lambda>turn.
     let q = steer_request turn request in
     seq (require (Some (tn_agent_model turn) = tr_agent_model q \<and> tn_image_model turn = tr_image_model q)
           (ConflictError ''steer model selection differs from the active Turn snapshot'')) (
     bind (match_client_intent_in_transaction (tn_thread turn) turn_id q) (\<lambda>matched.
     case matched of
       Some _ \<Rightarrow> turn_mutation turn None (tn_thread turn)
     | None \<Rightarrow>
         bind (read (\<lambda>s. if truthy (tr_client_message q) then message_of (tn_thread turn) (tr_client_message q) s else None)) (\<lambda>message.
         case message of
           Some m \<Rightarrow>
             bind (content_dict m) (\<lambda>content.
             seq (require (same_message content q) (ConflictError ''client_message_id was reused with different steer input'')) (
             bind (require_turn (it_turn m)) (\<lambda>existing.
             seq (require (tn_id existing = turn_id) (ConflictError ''client_message_id belongs to a different Turn''))
               (turn_mutation existing None (tn_thread turn)))))
         | None \<Rightarrow> steer_new E turn q now))))"

definition steer_turn :: "env \<Rightarrow> admission \<Rightarrow> string \<Rightarrow> turn_request \<Rightarrow> int \<Rightarrow> db \<Rightarrow> (err + turn_response) \<times> db" where
  "steer_turn E A turn_id q now =
     control_transaction A ''turn_steer'' (tr_client_message q) (steer_turn_in_transaction E turn_id q now)"

section \<open>Replacing and interrupting\<close>

definition cancel_turn_job :: "env \<Rightarrow> turn_row \<Rightarrow> string \<Rightarrow> int \<Rightarrow> job_row \<Rightarrow> unit dbtxn" where
  "cancel_turn_job E turn reason now job =
     (if job_terminal (jb_status job) \<or> JobCancelled \<notin> set (job_transitions (jb_status job)) then ret ()
      else
        bind (append_in_transaction E
           ((event_req (tn_thread turn) ''job.cancelled'' [(''attempt'', JInt (jb_attempt job)), (''reason'', JStr reason)])
             \<lparr>rq_turn := Some (tn_id turn), rq_job := Some (jb_id job), rq_key := Some (jb_id job @ '':cancelled''),
              rq_created_at := Some now\<rparr>)) (\<lambda>_.
        update_job (jb_id job) (cancel_job_row (Some reason) now)))"

definition cancel_turn_jobs_in_transaction :: "env \<Rightarrow> turn_row \<Rightarrow> string \<Rightarrow> int \<Rightarrow> unit dbtxn" where
  "cancel_turn_jobs_in_transaction E turn reason now =
     bind (read (jobs_of_turn (tn_id turn))) (\<lambda>jobs. for_each jobs (cancel_turn_job E turn reason now))"

record replace_response =
  rp_superseded :: turn_row
  rp_replacement :: turn_row
  rp_job :: job_row
  rp_watermark :: nat

definition replace_mutation :: "turn_row \<Rightarrow> turn_row \<Rightarrow> job_row \<Rightarrow> string \<Rightarrow> replace_response dbtxn" where
  "replace_mutation superseded replacement job thread_id =
     bind (lift_result (turn_from_row superseded)) (\<lambda>a.
     bind (lift_result (turn_from_row replacement)) (\<lambda>b.
     bind (read (watermark thread_id)) (\<lambda>w.
     ret \<lparr>rp_superseded = a, rp_replacement = b, rp_job = job, rp_watermark = w\<rparr>)))"

definition user_metadata :: "jobj \<Rightarrow> jobj" where
  "user_metadata d = filter (\<lambda>(k, _). k \<notin> set [''replaces_turn_id'', ''checkpoint_item_id'']) d"

definition replay_replacement ::
    "turn_row \<Rightarrow> turn_request \<Rightarrow> snapshot_context option \<Rightarrow> turn_row \<Rightarrow> replace_response dbtxn" where
  "replay_replacement current q context existing =
     seq (require (jget (tn_metadata existing) ''replaces_turn_id'' = JStr (tn_id current) \<and> tn_input existing = tr_input q \<and>
                   tn_agent_model existing = agent_of q \<and> tn_image_model existing = tr_image_model q \<and>
                   user_metadata (tn_metadata existing) = canon_obj (tr_metadata q))
           (ConflictError ''replacement client_message_id was reused with different input'')) (
     seq (assert_turn_snapshot_context (tn_id existing) context) (
     bind (read (agent_job (tn_id existing))) (\<lambda>job.
     case job of
       None \<Rightarrow> raise (ConflictError ''replacement turn is missing its durable job'')
     | Some j \<Rightarrow> replace_mutation current existing j (tn_thread current))))"

text \<open>\<^verbatim>\<open>CreateTurnRequest(..)\<close> built from the replacement: tool selection and attachments are not passed on.\<close>

definition replacement_request :: "turn_request \<Rightarrow> string \<Rightarrow> string \<Rightarrow> turn_request" where
  "replacement_request q turn_id checkpoint_id =
     q\<lparr>tr_tools := [], tr_attachments := [],
       tr_metadata := dict_set ''checkpoint_item_id'' (JStr checkpoint_id)
                        (dict_set ''replaces_turn_id'' (JStr turn_id) (tr_metadata q))\<rparr>"

definition supersede_turn ::
    "env \<Rightarrow> model_check \<Rightarrow> turn_row \<Rightarrow> turn_request \<Rightarrow> string \<Rightarrow> snapshot_context option \<Rightarrow> int \<Rightarrow> replace_response dbtxn" where
  "supersede_turn E V current q reason context now =
     bind (create_item_in_transaction E
        ((item_spec (tn_thread current) (tn_id current) KindCheckpoint
            [(''reason'', JStr reason), (''last_status'', JStr (turn_status_text (tn_status current)))] ItemCompleted)
          \<lparr>is_key := Some (tn_id current @ '':replacement-checkpoint'')\<rparr>) now) (\<lambda>checkpoint.
     seq (cancel_turn_jobs_in_transaction E current reason now) (
     seq (transition_turn_in_transaction E current TurnSuperseded (Some reason) now) (
     bind (create_turn_in_transaction E V (tn_thread current)
        (replacement_request q (tn_id current) (it_id (iv_row checkpoint))) context no_origin now) (\<lambda>(replacement, job).
     bind (require_turn (tn_id current)) (\<lambda>superseded.
     replace_mutation superseded replacement job (tn_thread current))))))"

definition replace_turn_in_transaction ::
    "env \<Rightarrow> model_check \<Rightarrow> string \<Rightarrow> turn_request \<Rightarrow> string \<Rightarrow> snapshot_context option \<Rightarrow> int \<Rightarrow> replace_response dbtxn" where
  "replace_turn_in_transaction E V turn_id q reason context now =
     bind (require_turn turn_id) (\<lambda>current.
     if turn_terminal (tn_status current)
     then bind (read (\<lambda>s. if tn_status current = TurnSuperseded \<and> truthy (tr_client_message q)
                          then turn_of_message (tn_thread current) (tr_client_message q) s else None)) (\<lambda>existing.
          case existing of
            None \<Rightarrow> raise (ConflictError ''a terminal turn cannot be replaced'')
          | Some t \<Rightarrow> replay_replacement current q context t)
     else supersede_turn E V current q reason context now)"

definition replace_turn ::
    "env \<Rightarrow> model_check \<Rightarrow> admission \<Rightarrow> string \<Rightarrow> turn_request \<Rightarrow> string \<Rightarrow> snapshot_context option \<Rightarrow> int \<Rightarrow> db
     \<Rightarrow> (err + replace_response) \<times> db" where
  "replace_turn E V A turn_id q reason context now =
     control_transaction A ''turn_replace'' (tr_client_message q)
       (replace_turn_in_transaction E V turn_id q reason context now)"

definition interrupt_turn_in_transaction :: "env \<Rightarrow> string \<Rightarrow> string \<Rightarrow> int \<Rightarrow> turn_response dbtxn" where
  "interrupt_turn_in_transaction E turn_id reason now =
     bind (require_turn turn_id) (\<lambda>turn.
     if tn_status turn = TurnInterrupted then turn_mutation turn None (tn_thread turn)
     else
       seq (require (\<not> turn_terminal (tn_status turn)) (ConflictError ''a terminal turn cannot be interrupted'')) (
       seq (cancel_turn_jobs_in_transaction E turn reason now) (
       seq (transition_turn_in_transaction E turn TurnInterrupted (Some reason) now) (
       bind (require_turn turn_id) (\<lambda>updated. turn_mutation updated None (tn_thread turn))))))"

definition interrupt_turn :: "env \<Rightarrow> admission \<Rightarrow> string \<Rightarrow> string \<Rightarrow> int \<Rightarrow> db \<Rightarrow> (err + turn_response) \<times> db" where
  "interrupt_turn E A turn_id reason now =
     control_transaction A ''turn_interrupt'' (Some turn_id) (interrupt_turn_in_transaction E turn_id reason now)"

section \<open>Asking a human\<close>

record ask_req =
  ak_kind :: interaction_kind
  ak_prompt :: string
  ak_key :: string
  ak_options :: "json list"
  ak_contract :: "contract option"
  ak_expires :: "int option"
  ak_checkpoint :: "jobj option"

definition ask_interaction :: "ask_req \<Rightarrow> string \<Rightarrow> string option \<Rightarrow> string option \<Rightarrow> string option \<Rightarrow> interaction_req" where
  "ask_interaction k thread_id turn_id job_id interaction_id =
     \<lparr>cr_kind = ak_kind k, cr_prompt = ak_prompt k, cr_thread = thread_id, cr_key = ak_key k, cr_turn = turn_id,
      cr_job = job_id, cr_options = ak_options k, cr_contract = ak_contract k, cr_expires = ak_expires k,
      cr_id = interaction_id\<rparr>"

definition suspend_job_row :: "jobj option \<Rightarrow> string \<Rightarrow> int \<Rightarrow> job_row \<Rightarrow> job_row" where
  "suspend_job_row checkpoint interaction_id now r =
     (clear_lease r)\<lparr>jb_status := JobWaitingHuman,
        jb_checkpoint := (case checkpoint of
            None \<Rightarrow> jb_checkpoint r
          | Some c \<Rightarrow> Some (json_canon (JObj (dict_set ''interaction_id'' (JStr interaction_id) c)))),
        jb_updated_at := now\<rparr>"

definition suspend_for_human ::
    "env \<Rightarrow> ask_req \<Rightarrow> job_row \<Rightarrow> string \<Rightarrow> turn_row \<Rightarrow> int \<Rightarrow> interaction_row dbtxn" where
  "suspend_for_human E k job thread_id turn now =
     bind (fresh_id E ''hitl'') (\<lambda>i.
     bind (create_interaction_in_transaction E
        (ask_interaction k thread_id (Some (tn_id turn)) (Some (jb_id job)) (Some i)) now) (\<lambda>interaction.
     bind (create_item_in_transaction E
        ((item_spec thread_id (tn_id turn) KindInteraction
            [(''interaction_id'', JStr i), (''kind'', JStr (interaction_kind_text (ak_kind k))),
             (''prompt'', JStr (ak_prompt k)), (''options'', ia_options interaction), (''contract'', ia_contract interaction)]
            ItemWaitingHuman)
          \<lparr>is_item := Some i, is_key := Some (i @ '':item-created'')\<rparr>) now) (\<lambda>_.
     bind (append_in_transaction E
        ((event_req thread_id ''job.waiting_human'' [(''attempt'', JInt (jb_attempt job)), (''interaction_id'', JStr i)])
          \<lparr>rq_turn := Some (tn_id turn), rq_job := Some (jb_id job),
           rq_key := Some (jb_id job @ '':interaction:'' @ i @ '':waiting''), rq_created_at := Some now\<rparr>)) (\<lambda>_.
     seq (update_job (jb_id job) (suspend_job_row (ak_checkpoint k) i now)) (
     seq (transition_turn_in_transaction E turn TurnWaitingHuman (Some ''interaction_requested'') now)
       (ret interaction))))))"

definition request_interaction_in_transaction ::
    "env \<Rightarrow> string \<Rightarrow> string \<Rightarrow> string \<Rightarrow> ask_req \<Rightarrow> int \<Rightarrow> interaction_row dbtxn" where
  "request_interaction_in_transaction E job_id worker_id lease_token k now =
     bind (read (\<lambda>s. find (\<lambda>i. ia_key i = ak_key k) (db_interactions s))) (\<lambda>dup.
     case dup of
       Some d \<Rightarrow>
         seq (require (ia_job d = Some job_id) (ConflictError ''interaction idempotency key belongs to another job''))
           (create_interaction_in_transaction E (ask_interaction k (ia_thread d) (ia_turn d) (ia_job d) None) now)
     | None \<Rightarrow>
         bind (owned_row job_id worker_id lease_token now) (\<lambda>job.
         seq (require (jb_status job = JobRunning)
               (InvalidTransitionError ''only a running job can request human interaction'')) (
         case (jb_thread job, jb_turn job) of
           (Some thread_id, Some turn_id) \<Rightarrow>
             bind (require_turn turn_id) (\<lambda>turn.
             seq (require (TurnWaitingHuman \<in> set (turn_transitions (tn_status turn)))
                   (InvalidTransitionError ''turn cannot request interaction''))
               (suspend_for_human E k job thread_id turn now))
         | _ \<Rightarrow> raise (ConflictError ''human interaction requires a thread-bound job''))))"

definition request_interaction ::
    "env \<Rightarrow> admission \<Rightarrow> admission \<Rightarrow> string \<Rightarrow> string \<Rightarrow> string \<Rightarrow> ask_req \<Rightarrow> int \<Rightarrow> db \<Rightarrow> (err + interaction_row) \<times> db" where
  "request_interaction E A0 A job_id worker_id lease_token k now =
     after_deadline E A0 A job_id lease_token now
       (\<lambda>_. Inl (ConflictError ''job deadline expired before interaction request''))
       (request_interaction_in_transaction E job_id worker_id lease_token k now)"

end
