(* ===== verification/Operations.thy ===== *)
theory Operations
  imports Turns
begin

text \<open>
  The rest of the turn and interaction calls of \<^verbatim>\<open>ecorex/runtime/kernel.py\<close>: turns that a backend executor
  owns instead of the agent (\<^verbatim>\<open>_create_operation_turn_in_transaction\<close>), and the calls by which people answer a
  question, cancel a connector login or come back from one with a refreshed authority.

  As in \<open>Turns\<close> the check of the frozen snapshots is the argument \<open>V\<close>; for an operation turn it is the check of
  the whole context (\<^verbatim>\<open>validate_turn_context_in_transaction\<close>) for the account and the input of the call.
\<close>

section \<open>Turns of a backend operation\<close>

definition operation_valid :: "string \<Rightarrow> turn_request \<Rightarrow> unit dbtxn" where
  "operation_valid kind q =
     seq (require (kind \<noteq> []) (ValueError ''operation_kind is required'')) (
     seq (require (jget (tr_metadata q) ''operation'' = JStr kind)
           (ValueError ''operation Turn metadata does not match operation_kind'')) (
     seq (require (truthy (tr_client_message q)) (ValueError ''operation Turn requires a client_message_id'')) (
     seq (require (truthy (tr_agent_model q)) (ValueError ''operation Turn requires a canonical Agent model''))
       (require (truthy (tr_image_model q)) (ValueError ''operation Turn requires a canonical image model'')))))"

text \<open>The turn a client message belongs to: through its Item, otherwise through the turn itself.\<close>

definition operation_duplicate :: "string \<Rightarrow> string option \<Rightarrow> item_row option \<Rightarrow> turn_row option dbtxn" where
  "operation_duplicate thread_id client message =
     (case message of
        Some m \<Rightarrow> bind (require_turn (it_turn m)) (\<lambda>t. ret (Some t))
      | None \<Rightarrow> read (turn_of_message thread_id client))"

definition replay_operation ::
    "string \<Rightarrow> string \<Rightarrow> turn_request \<Rightarrow> snapshot_context \<Rightarrow> item_row option \<Rightarrow> turn_row \<Rightarrow> turn_row dbtxn" where
  "replay_operation thread_id kind q context message dup =
     bind (match_client_intent_in_transaction thread_id (tn_id dup) q) (\<lambda>_.
     bind (read (\<lambda>s. case message of
         Some m \<Rightarrow> Some m
       | None \<Rightarrow> find (\<lambda>i. it_thread i = thread_id \<and> it_turn i = tn_id dup \<and> it_client_message i = tr_client_message q) (db_items s)))
       (\<lambda>found.
     bind (case found of None \<Rightarrow> ret [] | Some m \<Rightarrow> content_dict m) (\<lambda>content.
     seq (require (tn_input dup = tr_input q \<and> Some (tn_agent_model dup) = tr_agent_model q \<and>
                   tn_image_model dup = tr_image_model q \<and>
                   json_dumps (JObj (tn_metadata dup)) = json_dumps (JObj (tr_metadata q)) \<and>
                   jget content ''role'' = JStr ''user'' \<and> same_message content q)
           (ConflictError ''operation client_message_id was reused with different input'')) (
     seq (assert_turn_snapshot_context (tn_id dup) (Some context)) (
     bind (read (\<lambda>s. list_ex (\<lambda>j. jb_turn j = Some (tn_id dup) \<and> jb_kind j \<noteq> kind) (db_jobs s))) (\<lambda>conflicting.
     seq (require (\<not> conflicting) (ConflictError ''operation Turn is bound to a different durable executor''))
       (lift_result (turn_from_row dup))))))))"

definition new_operation ::
    "env \<Rightarrow> string \<Rightarrow> turn_request \<Rightarrow> snapshot_context \<Rightarrow> string \<Rightarrow> turn_origin \<Rightarrow> int \<Rightarrow> turn_row dbtxn" where
  "new_operation E thread_id q context kind og now =
     bind (fresh_id E ''trn'') (\<lambda>turn_id.
     seq (accept_turn E thread_id turn_id q (Some context) (og\<lparr>og_trace := None\<rparr>) [(''operation'', JStr kind)] now)
       (read_turn turn_id))"

definition create_operation_turn_in_transaction ::
    "env \<Rightarrow> model_check \<Rightarrow> string \<Rightarrow> turn_request \<Rightarrow> snapshot_context \<Rightarrow> string \<Rightarrow> turn_origin \<Rightarrow> int \<Rightarrow> turn_row dbtxn" where
  "create_operation_turn_in_transaction E V thread_id q context operation_kind og now =
     (let kind = env_strip E operation_kind
      in seq (operation_valid kind q) (
         bind (require_thread thread_id False) (\<lambda>thread.
         seq (require (th_status thread = ThreadActive) (ConflictError ''turns cannot be created in an archived thread'')) (
         bind (read (V context (agent_of q) (tr_image_model q))) (\<lambda>refused.
         case refused of
           Some e \<Rightarrow> raise e
         | None \<Rightarrow>
             bind (read (message_of thread_id (tr_client_message q))) (\<lambda>message.
             bind (operation_duplicate thread_id (tr_client_message q) message) (\<lambda>dup.
             case dup of
               Some t \<Rightarrow> replay_operation thread_id kind q context message t
             | None \<Rightarrow> new_operation E thread_id q context kind og now)))))))"

definition queue_turn ::
    "env \<Rightarrow> model_check \<Rightarrow> admission \<Rightarrow> string \<Rightarrow> turn_request \<Rightarrow> snapshot_context option \<Rightarrow> turn_origin \<Rightarrow> int \<Rightarrow> db
     \<Rightarrow> (err + turn_response) \<times> db" where
  "queue_turn = create_turn"

section \<open>Answers\<close>

record interaction_response =
  im_interaction :: interaction_row
  im_turn :: "turn_row option"
  im_job :: "job_row option"
  im_watermark :: nat

text \<open>The turn, the job and the watermark that go with an interaction, read from one state.\<close>

definition interaction_mutation :: "interaction_row \<Rightarrow> interaction_response dbtxn" where
  "interaction_mutation ia =
     bind (case ia_turn ia of None \<Rightarrow> ret None | Some u \<Rightarrow> bind (read_turn u) (\<lambda>t. ret (Some t))) (\<lambda>turn.
     bind (read (\<lambda>s. case ia_job ia of None \<Rightarrow> None | Some j \<Rightarrow> find_job j s)) (\<lambda>job.
     bind (read (watermark (ia_thread ia))) (\<lambda>w.
     ret \<lparr>im_interaction = ia, im_turn = turn, im_job = job, im_watermark = w\<rparr>)))"

definition get_interaction_mutation :: "env \<Rightarrow> string \<Rightarrow> db \<Rightarrow> err + interaction_response" where
  "get_interaction_mutation E i s =
     (case bind (read_interaction E i) interaction_mutation s of Inl e \<Rightarrow> Inl e | Inr (v, _) \<Rightarrow> Inr v)"

definition respond_interaction ::
    "env \<Rightarrow> admission \<Rightarrow> string \<Rightarrow> json \<Rightarrow> string \<Rightarrow> int \<Rightarrow> db \<Rightarrow> (err + interaction_response) \<times> db" where
  "respond_interaction E A i raw client now =
     control_transaction A ''interaction_respond'' (Some client)
       (bind (read (find_interaction i)) (\<lambda>row.
        seq (require (\<not> (case row of None \<Rightarrow> False | Some r \<Rightarrow> ia_kind r = AskConnectorLogin))
              (ConflictError ''connector login actions require the dedicated lifecycle endpoint''))
          (bind (respond_in_transaction E i raw client now) interaction_mutation)))"

definition require_login :: "string \<Rightarrow> interaction_row dbtxn" where
  "require_login i =
     bind (require_interaction i) (\<lambda>row.
     seq (require (ia_kind row = AskConnectorLogin) (ConflictError ''interaction is not a connector login request''))
       (ret row))"

definition plain_response :: "string \<Rightarrow> json" where
  "plain_response action = dump_response \<lparr>rs_action = action, rs_values = []\<rparr>"

definition cancel_connector_login_interaction ::
    "env \<Rightarrow> admission \<Rightarrow> string \<Rightarrow> string \<Rightarrow> int \<Rightarrow> db \<Rightarrow> (err + interaction_response) \<times> db" where
  "cancel_connector_login_interaction E A i client now =
     control_transaction A ''connector_login_cancel'' (Some client)
       (bind (require_login i) (\<lambda>_.
        bind (respond_in_transaction E i (plain_response ''cancel'') client now) interaction_mutation))"

definition refresh_metadata_ok :: "string \<Rightarrow> string \<Rightarrow> turn_request \<Rightarrow> bool" where
  "refresh_metadata_ok i connector q =
     (case jget (tr_metadata q) ''authority_refresh'' of
        JObj m \<Rightarrow> jget m ''kind'' = JStr ''connector_login'' \<and> jget m ''interaction_id'' = JStr i \<and>
          jget m ''connector_id'' = JStr connector
      | _ \<Rightarrow> False)"

definition refresh_authority ::
    "env \<Rightarrow> interaction_row \<Rightarrow> string \<Rightarrow> string \<Rightarrow> string \<Rightarrow> turn_request \<Rightarrow> string \<Rightarrow> int \<Rightarrow> revision_row dbtxn" where
  "refresh_authority E row turn_id job_id connector q client now =
     bind (append_authority_refresh_in_transaction E (ia_thread row) turn_id q (Some now)) (\<lambda>(revision, _).
     bind (append_in_transaction E
        ((event_req (ia_thread row) ''turn.authority_refresh_requested''
            [(''source'', JStr ''connector_login''), (''connector_id'', JStr connector), (''interaction_id'', JStr (ia_id row)),
             (''revision_id'', JStr (rv_id revision)), (''revision_ordinal'', JInt (int (rv_ordinal revision)))])
          \<lparr>rq_turn := Some turn_id, rq_job := Some job_id, rq_causation := Some (ia_id row), rq_correlation := Some client,
           rq_key := Some (ia_id row @ '':connector-authority-refresh''), rq_created_at := Some now\<rparr>)) (\<lambda>_.
     ret revision))"

definition resolve_login_in_transaction ::
    "env \<Rightarrow> string \<Rightarrow> string \<Rightarrow> turn_request \<Rightarrow> string \<Rightarrow> int \<Rightarrow> (interaction_response \<times> string) dbtxn" where
  "resolve_login_in_transaction E i connector request client now =
     bind (require_login i) (\<lambda>row.
     case (ia_turn row, ia_job row) of
       (Some turn_id, Some job_id) \<Rightarrow>
         bind (require_turn turn_id) (\<lambda>turn.
         bind (ret (steer_request turn request)) (\<lambda>q.
         seq (require (tr_agent_model q = Some (tn_agent_model turn) \<and> tr_image_model q = tn_image_model turn)
               (ConflictError ''connector authority refresh cannot change Turn models'')) (
         bind (refresh_authority E row turn_id job_id connector q client now) (\<lambda>revision.
         bind (respond_in_transaction E i (plain_response ''check_status'') client now) (\<lambda>ia.
         bind (read_turn turn_id) (\<lambda>updated.
         bind (read (find_job job_id)) (\<lambda>job.
         bind (read (watermark (ia_thread row))) (\<lambda>w.
         ret (\<lparr>im_interaction = ia, im_turn = Some updated, im_job = job, im_watermark = w\<rparr>, rv_id revision)))))))))
     | _ \<Rightarrow> raise (ConflictError ''connector login is not attached to an Agent Turn''))"

definition resolve_connector_login_interaction ::
    "env \<Rightarrow> admission \<Rightarrow> string \<Rightarrow> string \<Rightarrow> turn_request \<Rightarrow> string \<Rightarrow> int \<Rightarrow> db
     \<Rightarrow> (err + interaction_response \<times> string) \<times> db" where
  "resolve_connector_login_interaction E A i connector request client now s =
     (if \<not> refresh_metadata_ok i connector request
      then (Inl (ValueError ''connector authority refresh metadata is invalid''), s)
      else control_transaction A ''connector_login_resolve'' (Some client)
             (resolve_login_in_transaction E i connector request client now) s)"

definition list_interactions :: "env \<Rightarrow> string \<Rightarrow> bool \<Rightarrow> db \<Rightarrow> err + interaction_row list \<times> nat" where
  "list_interactions E thread_id pending_only s =
     (case find_thread thread_id s of
        None \<Rightarrow> Inl (NotFoundError ''thread does not exist'')
      | Some h \<Rightarrow>
          if th_status h = ThreadDeleted then Inl (NotFoundError ''thread does not exist'')
          else
            (case map_result (interaction_from_row E)
                    (sort_key (\<lambda>r. (ia_created_at r, ia_id r))
                      (filter (\<lambda>r. ia_thread r = thread_id \<and> (pending_only \<longrightarrow> ia_status r = InteractionPending))
                        (db_interactions s))) of
               Inl e \<Rightarrow> Inl e | Inr rows \<Rightarrow> Inr (rows, watermark thread_id s)))"

end
