(* ===== verification/Retouch.thy ===== *)
theory Retouch
  imports Operations
begin

text \<open>
  \<^verbatim>\<open>RuntimeRetouchBridge\<close> of \<^verbatim>\<open>ecorex/integration/retouch.py\<close>: how the retouch executor joins its own job to
  a turn and a job of the Runtime.  The artifact service calls these hooks inside its transactions, which run on
  the Runtime's database; a hook that raises rolls them back.  The artifact service's own tables are not
  modelled: what a hook reads of a retouch job and of an artifact is its argument, with the dictionaries that
  \<^verbatim>\<open>to_dict\<close> gives.  The code reads the clock twice, first for the lease and then for the facts: \<open>at\<close> and \<open>now\<close>.
\<close>

section \<open>Data\<close>

datatype retouch_status = RetouchQueued | RetouchRunning | RetouchCompleted | RetouchFailed | RetouchCancelled

fun retouch_status_text :: "retouch_status \<Rightarrow> string" where
  "retouch_status_text RetouchQueued = ''queued''"
| "retouch_status_text RetouchRunning = ''running''"
| "retouch_status_text RetouchCompleted = ''completed''"
| "retouch_status_text RetouchFailed = ''failed''"
| "retouch_status_text RetouchCancelled = ''cancelled''"

record retouch_job =
  rj_id :: string
  rj_artifact :: string
  rj_base :: string
  rj_client :: string
  rj_status :: retouch_status
  rj_summary :: "string option"
  rj_regions :: "json list"
  rj_durable :: "string option"
  rj_thread :: "string option"
  rj_turn :: "string option"

record artifact_view =
  ap_id :: string
  ap_revision :: string
  ap_mime :: string
  ap_dict :: json

definition retouch_job_kind :: string where
  "retouch_job_kind = ''artifact_retouch''"

definition safe_reason :: "env \<Rightarrow> string \<Rightarrow> string \<Rightarrow> string" where
  "safe_reason E value fallback =
     (let reason = env_strip E value in concat (take 512 (code_points (if reason \<noteq> [] then reason else fallback))))"

section \<open>Bindings\<close>

definition runtime_job :: "retouch_job \<Rightarrow> job_row dbtxn" where
  "runtime_job rj =
     seq (require (truthy (rj_durable rj)) (ConflictError ''retouch job is not bound to a durable Runtime job'')) (
     bind (read (find_job (opt_text (rj_durable rj)))) (\<lambda>row.
     case row of
       None \<Rightarrow> raise (ConflictError ''retouch durable Runtime job binding is invalid'')
     | Some j \<Rightarrow>
         seq (require (jb_kind j = retouch_job_kind) (ConflictError ''retouch durable Runtime job binding is invalid'')) (
         seq (require (jget (jb_payload j) ''retouch_job_id'' = JStr (rj_id rj))
               (ConflictError ''retouch durable Runtime job payload is invalid''))
           (ret j))))"

definition owned_runtime_job :: "retouch_job \<Rightarrow> string \<Rightarrow> string \<Rightarrow> int \<Rightarrow> job_row dbtxn" where
  "owned_runtime_job rj worker_id lease_token at =
     seq (require (truthy (rj_durable rj)) (ConflictError ''retouch job has no durable Runtime binding''))
       (owned_row (opt_text (rj_durable rj)) worker_id lease_token at)"

definition execution_turn :: "retouch_job \<Rightarrow> turn_row dbtxn" where
  "execution_turn rj =
     seq (require (truthy (rj_turn rj) \<and> truthy (rj_thread rj))
           (ConflictError ''retouch job is not bound to an execution Turn'')) (
     bind (require_turn (opt_text (rj_turn rj))) (\<lambda>turn.
     seq (require (Some (tn_thread turn) = rj_thread rj) (ConflictError ''retouch execution Turn binding is invalid'')) (
     bind (lift_result (turn_from_row turn)) (\<lambda>view.
     seq (require (jget (tn_metadata view) ''operation'' = JStr retouch_job_kind \<and>
                   jget (tn_metadata view) ''artifact_id'' = JStr (rj_artifact rj) \<and>
                   jget (tn_metadata view) ''client_request_id'' = JStr (rj_client rj))
           (ConflictError ''retouch execution Turn metadata is invalid''))
       (ret turn)))))"

definition retouch_transition :: "env \<Rightarrow> turn_row \<Rightarrow> turn_status \<Rightarrow> string option \<Rightarrow> int \<Rightarrow> turn_row dbtxn" where
  "retouch_transition E turn target reason now =
     (if tn_status turn = target then ret turn
      else seq (transition_turn_in_transaction E turn target reason now) (require_turn (tn_id turn)))"

definition finish_execution_turn :: "env \<Rightarrow> retouch_job \<Rightarrow> turn_status \<Rightarrow> string \<Rightarrow> int \<Rightarrow> unit dbtxn" where
  "finish_execution_turn E rj target reason now =
     bind (execution_turn rj) (\<lambda>turn.
     if turn_terminal (tn_status turn)
     then require (tn_status turn = target) (ConflictError ''retouch execution Turn is terminal in a conflicting state'')
     else
       bind (if target = TurnFailed \<and> (tn_status turn = TurnAccepted \<or> tn_status turn = TurnQueued)
             then bind (if tn_status turn = TurnAccepted then retouch_transition E turn TurnQueued None now else ret turn)
                    (\<lambda>t. retouch_transition E t TurnPreparing None now)
             else ret turn) (\<lambda>t.
       bind (retouch_transition E t target (Some reason) now) (\<lambda>_. ret ())))"

section \<open>Admission\<close>

record retouch_scope =
  sc_thread :: "string option"
  sc_turn :: "string option"

definition retouch_scope_ok :: "retouch_scope \<Rightarrow> unit dbtxn" where
  "retouch_scope_ok scope =
     seq (bind (read (\<lambda>s. case sc_thread scope of None \<Rightarrow> True | Some h \<Rightarrow> find_thread h s \<noteq> None)) (\<lambda>known.
          require known (ConflictError ''retouch execution scope references an unknown Thread'')))
       (bind (read (\<lambda>s. case sc_turn scope of None \<Rightarrow> True
            | Some u \<Rightarrow> (case find_turn u s of None \<Rightarrow> False | Some t \<Rightarrow> Some (tn_thread t) = sc_thread scope))) (\<lambda>owned.
          require owned (ConflictError ''retouch execution Turn does not belong to its Thread'')))"

definition retouch_job_request ::
    "retouch_job \<Rightarrow> retouch_scope \<Rightarrow> string \<Rightarrow> string \<Rightarrow> snapshot_context \<Rightarrow> int \<Rightarrow> int \<Rightarrow> int \<Rightarrow> enqueue_req" where
  "retouch_job_request rj scope thread_id turn_id context max_attempts deadline_seconds now =
     \<lparr>eq_kind = retouch_job_kind,
      eq_payload = [(''retouch_job_id'', JStr (rj_id rj)), (''artifact_id'', JStr (rj_artifact rj)),
        (''base_revision_id'', JStr (rj_base rj)), (''source_turn_id'', jopt (sc_turn scope))],
      eq_key = ''retouch-runtime:'' @ rj_id rj, eq_thread = Some thread_id, eq_turn = Some turn_id, eq_priority = 0,
      eq_max_attempts = max_attempts, eq_available_at = None, eq_deadline = Some (now + seconds deadline_seconds),
      eq_job_id = None, eq_context = context_dict context\<rparr>"

definition retouch_enqueue_in_transaction ::
    "env \<Rightarrow> model_check \<Rightarrow> retouch_job \<Rightarrow> retouch_scope \<Rightarrow> turn_request \<Rightarrow> snapshot_context \<Rightarrow> int \<Rightarrow> int \<Rightarrow> int
     \<Rightarrow> (string \<times> string \<times> string) dbtxn" where
  "retouch_enqueue_in_transaction E V rj scope q context max_attempts deadline_seconds now =
     seq (retouch_scope_ok scope) (
     case sc_thread scope of
       None \<Rightarrow> raise (TypeError ''assertion failed'')
     | Some thread_id \<Rightarrow>
         bind (create_operation_turn_in_transaction E V thread_id q context retouch_job_kind
                \<lparr>og_causation = sc_turn scope, og_correlation = Some (rj_client rj), og_trace = None\<rparr> now) (\<lambda>turn.
         bind (enqueue_in_transaction E
                (retouch_job_request rj scope thread_id (tn_id turn) context max_attempts deadline_seconds now) now) (\<lambda>job.
         ret (jb_id job, thread_id, tn_id turn))))"

section \<open>Hooks\<close>

definition running_hook :: "env \<Rightarrow> retouch_job \<Rightarrow> string \<Rightarrow> string \<Rightarrow> int \<Rightarrow> int \<Rightarrow> unit dbtxn" where
  "running_hook E rj worker_id lease_token at now =
     bind (owned_runtime_job rj worker_id lease_token at) (\<lambda>row.
     seq (assert_transition (jb_status row) JobRunning) (
     bind (append_row_event E row ''job.started''
            [(''worker_id'', JStr worker_id), (''attempt'', JInt (jb_attempt row))] now None) (\<lambda>_.
     seq (update_job (jb_id row) (\<lambda>r. r\<lparr>jb_status := JobRunning, jb_updated_at := now\<rparr>)) (
     bind (execution_turn rj) (\<lambda>turn.
     if tn_status turn = TurnQueued
     then bind (retouch_transition E turn TurnPreparing None now) (\<lambda>t1.
          bind (retouch_transition E t1 TurnToolPending None now) (\<lambda>t2.
          bind (retouch_transition E t2 TurnToolRunning None now) (\<lambda>_. ret ())))
     else if tn_status turn = TurnRetryWait
     then bind (retouch_transition E turn TurnToolRunning None now) (\<lambda>_. ret ())
     else require (tn_status turn = TurnToolRunning) (ConflictError ''retouch Turn cannot start''))))))"

definition retouch_closed_row :: "job_status \<Rightarrow> int \<Rightarrow> job_row \<Rightarrow> job_row" where
  "retouch_closed_row st now r = (clear_lease r)\<lparr>jb_status := st, jb_updated_at := now\<rparr>"

definition retouch_item :: "retouch_job \<Rightarrow> artifact_view \<Rightarrow> jobj" where
  "retouch_item rj artifact =
     [(''retouch_job_id'', JStr (rj_id rj)), (''artifact'', ap_dict artifact), (''change_summary'', jopt (rj_summary rj)),
      (''inspection_regions'', JArr (rj_regions rj)),
      (''preview'', JObj [(''artifact_id'', JStr (ap_id artifact)), (''revision_id'', JStr (ap_revision artifact)),
         (''mime_type'', JStr (ap_mime artifact))])]"

definition publish_retouch :: "env \<Rightarrow> retouch_job \<Rightarrow> artifact_view \<Rightarrow> string \<Rightarrow> string \<Rightarrow> string \<Rightarrow> int \<Rightarrow> unit dbtxn" where
  "publish_retouch E rj artifact thread_id turn_id job_id now =
     bind (create_item_in_transaction E
        ((item_spec thread_id turn_id KindArtifact (retouch_item rj artifact) ItemCompleted)
          \<lparr>is_key := Some (rj_id rj @ '':artifact-item'')\<rparr>) now) (\<lambda>_.
     bind (append_in_transaction E
        ((event_req thread_id ''artifact.retouch.completed''
            [(''artifact_id'', JStr (ap_id artifact)), (''revision_id'', JStr (ap_revision artifact)),
             (''retouch_job_id'', JStr (rj_id rj)), (''change_summary'', jopt (rj_summary rj)),
             (''inspection_regions'', JArr (rj_regions rj))])
          \<lparr>rq_turn := Some turn_id, rq_job := Some job_id, rq_correlation := Some (rj_client rj),
           rq_key := Some (rj_id rj @ '':completed-event''), rq_created_at := Some now\<rparr>)) (\<lambda>_. ret ()))"

definition completed_hook :: "env \<Rightarrow> retouch_job \<Rightarrow> artifact_view \<Rightarrow> string \<Rightarrow> string \<Rightarrow> int \<Rightarrow> int \<Rightarrow> unit dbtxn" where
  "completed_hook E rj artifact worker_id lease_token at now =
     bind (owned_runtime_job rj worker_id lease_token at) (\<lambda>row.
     bind (execution_turn rj) (\<lambda>turn0.
     bind (retouch_transition E turn0 TurnFinalizing None now) (\<lambda>turn.
     seq (assert_transition (jb_status row) JobCompleted) (
     bind (append_row_event E row ''job.completed''
            [(''attempt'', JInt (jb_attempt row)), (''retouch_job_id'', JStr (rj_id rj))] now None) (\<lambda>_.
     seq (update_job (jb_id row) (retouch_closed_row JobCompleted now)) (
     if truthy (rj_turn rj) \<and> truthy (rj_thread rj)
     then seq (publish_retouch E rj artifact (opt_text (rj_thread rj)) (opt_text (rj_turn rj)) (jb_id row) now)
            (bind (retouch_transition E turn TurnCompleted None now) (\<lambda>_. ret ()))
     else ret ()))))))"

definition requeued_hook :: "env \<Rightarrow> retouch_job \<Rightarrow> string \<Rightarrow> string \<Rightarrow> string \<Rightarrow> int \<Rightarrow> int \<Rightarrow> int \<Rightarrow> unit dbtxn" where
  "requeued_hook E rj worker_id lease_token reason delay at now =
     (let text = safe_reason E reason ''retouch_retry''
      in bind (owned_runtime_job rj worker_id lease_token at) (\<lambda>row.
         seq (assert_transition (jb_status row) JobRetryScheduled) (
         bind (append_row_event E row ''job.retry_scheduled''
                [(''attempt'', JInt (jb_attempt row)), (''error'', JStr text)] now None) (\<lambda>_.
         seq (update_job (jb_id row) (\<lambda>r. (retouch_closed_row JobRetryScheduled now r)
                \<lparr>jb_available_at := now + seconds (max 0 delay), jb_last_error := Some text\<rparr>)) (
         bind (execution_turn rj) (\<lambda>turn.
         if tn_status turn = TurnToolRunning
         then bind (retouch_transition E turn TurnRetryWait (Some text) now) (\<lambda>_. ret ())
         else ret ()))))))"

fun retouch_terminal_event :: "job_status \<Rightarrow> string" where
  "retouch_terminal_event JobFailed = ''job.failed''"
| "retouch_terminal_event JobCancelled = ''job.cancelled''"
| "retouch_terminal_event _ = ''job.dead_lettered''"

definition report_retouch :: "env \<Rightarrow> retouch_job \<Rightarrow> string option \<Rightarrow> string \<Rightarrow> string \<Rightarrow> string \<Rightarrow> int \<Rightarrow> unit dbtxn" where
  "report_retouch E rj job_id event_type text key now =
     bind (append_in_transaction E
        ((event_req (opt_text (rj_thread rj)) event_type
            [(''artifact_id'', JStr (rj_artifact rj)), (''retouch_job_id'', JStr (rj_id rj)), (''reason'', JStr text)])
          \<lparr>rq_turn := rj_turn rj, rq_job := job_id, rq_correlation := Some (rj_client rj), rq_key := Some key,
           rq_created_at := Some now\<rparr>)) (\<lambda>_. ret ())"

definition report_and_finish :: "env \<Rightarrow> retouch_job \<Rightarrow> string \<Rightarrow> string \<Rightarrow> int \<Rightarrow> unit dbtxn" where
  "report_and_finish E rj job_id text now =
     seq (report_retouch E rj (Some job_id)
            (if rj_status rj = RetouchCancelled then ''artifact.retouch.cancelled'' else ''artifact.retouch.failed'')
            text (rj_id rj @ '':'' @ retouch_status_text (rj_status rj) @ ''-event'') now)
       (finish_execution_turn E rj (if rj_status rj = RetouchCancelled then TurnCancelled else TurnFailed) text now)"

definition settle_runtime_job ::
    "env \<Rightarrow> retouch_job \<Rightarrow> job_status \<Rightarrow> string \<Rightarrow> string option \<Rightarrow> string option \<Rightarrow> int \<Rightarrow> int \<Rightarrow> job_row \<Rightarrow> unit dbtxn" where
  "settle_runtime_job E rj target text worker_id lease_token at now row0 =
     bind (case worker_id of None \<Rightarrow> ret row0 | Some w \<Rightarrow> owned_runtime_job rj w (opt_text lease_token) at) (\<lambda>row.
     seq (require (target \<in> set (job_transitions (jb_status row)))
           (ConflictError ''retouch Runtime job cannot transition'')) (
     bind (append_row_event E row (retouch_terminal_event target)
            [(''attempt'', JInt (jb_attempt row)), (''reason'', JStr text)] now None) (\<lambda>_.
     update_job (jb_id row) (\<lambda>r. (retouch_closed_row target now r)\<lparr>jb_last_error := Some text\<rparr>))))"

definition terminal_hook ::
    "env \<Rightarrow> retouch_job \<Rightarrow> job_status \<Rightarrow> string \<Rightarrow> string option \<Rightarrow> string option \<Rightarrow> int \<Rightarrow> int \<Rightarrow> unit dbtxn" where
  "terminal_hook E rj target reason worker_id lease_token at now =
     (let text = safe_reason E reason (job_status_text target)
      in seq (require (target = JobFailed \<or> target = JobCancelled \<or> target = JobDeadLetter)
               (ValueError ''retouch Runtime terminal target is invalid'')) (
         bind (runtime_job rj) (\<lambda>row.
         seq (require (\<not> (job_terminal (jb_status row) \<and> jb_status row \<noteq> target))
               (ConflictError ''retouch Runtime job is terminal in a conflicting state'')) (
         seq (if job_terminal (jb_status row) then ret ()
              else settle_runtime_job E rj target text worker_id lease_token at now row) (
         if truthy (rj_thread rj) then report_and_finish E rj (jb_id row) text now else ret ())))))"

definition reconcile_hook :: "env \<Rightarrow> retouch_job \<Rightarrow> string \<Rightarrow> int \<Rightarrow> unit dbtxn" where
  "reconcile_hook E rj reason now =
     (if \<not> truthy (rj_thread rj) then ret ()
      else bind (runtime_job rj) (\<lambda>row.
        report_and_finish E rj (jb_id row) (safe_reason E reason ''runtime_terminal'') now))"

definition missing_runtime_hook :: "env \<Rightarrow> retouch_job \<Rightarrow> string \<Rightarrow> int \<Rightarrow> unit dbtxn" where
  "missing_runtime_hook E rj reason now =
     (if \<not> truthy (rj_thread rj) \<or> \<not> truthy (rj_turn rj) then ret ()
      else let text = safe_reason E reason ''durable_job_missing''
        in seq (report_retouch E rj None ''artifact.retouch.failed'' text (rj_id rj @ '':missing-runtime-event'') now)
             (finish_execution_turn E rj TurnFailed text now))"

text \<open>The hooks the artifact service is given, as one call.\<close>

datatype retouch_call =
    OnRunning string string
  | OnCompleted artifact_view string string
  | OnRequeued string string string int
  | OnTerminal job_status string "string option" "string option"
  | OnReconcile string
  | OnMissing string

fun retouch_hook :: "env \<Rightarrow> retouch_job \<Rightarrow> int \<Rightarrow> int \<Rightarrow> retouch_call \<Rightarrow> unit dbtxn" where
  "retouch_hook E rj at now (OnRunning w t) = running_hook E rj w t at now"
| "retouch_hook E rj at now (OnCompleted artifact w t) = completed_hook E rj artifact w t at now"
| "retouch_hook E rj at now (OnRequeued w t reason delay) = requeued_hook E rj w t reason delay at now"
| "retouch_hook E rj at now (OnTerminal target reason w t) = terminal_hook E rj target reason w t at now"
| "retouch_hook E rj at now (OnReconcile reason) = reconcile_hook E rj reason now"
| "retouch_hook E rj at now (OnMissing reason) = missing_runtime_hook E rj reason now"

end
