(* ===== verification/Forks.thy ===== *)
theory Forks
  imports Turns
begin

text \<open>
  Forking a thread and reading a thread as a whole (\<^verbatim>\<open>fork_thread\<close>, \<^verbatim>\<open>_replay_thread_history\<close> and
  \<^verbatim>\<open>projection\<close> of \<^verbatim>\<open>ecorex/runtime/kernel.py\<close>).  A fork stores only where it comes from; the turns and
  Items it inherits are rebuilt from the facts of its ancestors up to the sequence it was forked at.

  Content of an Item is a JSON object in every fact the Runtime writes; where the code copies content with
  \<^verbatim>\<open>dict(..)\<close> the model raises for other JSON.  The environment gives pydantic's parsing of a timestamp
  (\<open>env_redate\<close>) and \<^verbatim>\<open>int(..)\<close> of a text or a float (\<open>env_int\<close>).
\<close>

section \<open>Forking\<close>

record fork_request =
  fk_turn :: "string option"
  fk_title :: "string option"
  fk_metadata :: jobj
  fk_client :: "string option"

definition fork_fingerprint :: "string \<Rightarrow> fork_request \<Rightarrow> string" where
  "fork_fingerprint thread_id q =
     fingerprint [(''source_thread_id'', JStr thread_id), (''from_turn_id'', jopt (fk_turn q)),
       (''title'', jopt (fk_title q)), (''metadata'', JObj (fk_metadata q))]"

definition turn_boundary :: "string \<Rightarrow> string \<Rightarrow> db \<Rightarrow> nat" where
  "turn_boundary thread_id turn_id s =
     foldr max (map ev_seq (filter (\<lambda>e. ev_thread e = thread_id \<and> ev_turn e = Some turn_id) (db_events s))) 0"

definition fork_boundary :: "string \<Rightarrow> string option \<Rightarrow> nat dbtxn" where
  "fork_boundary thread_id from_turn =
     (case from_turn of
        None \<Rightarrow> read (watermark thread_id)
      | Some u \<Rightarrow>
          bind (require_turn u) (\<lambda>turn.
          seq (require (tn_thread turn = thread_id) (ConflictError ''fork turn does not belong to the source thread''))
            (read (turn_boundary thread_id u))))"

definition dict_merge :: "jobj \<Rightarrow> jobj \<Rightarrow> jobj" where
  "dict_merge d e = foldl (\<lambda>d (k, v). dict_set k v d) d e"

definition forked_thread :: "string \<Rightarrow> string \<Rightarrow> fork_request \<Rightarrow> string option \<Rightarrow> jobj \<Rightarrow> nat \<Rightarrow> int \<Rightarrow> thread_row" where
  "forked_thread fork_id thread_id q title metadata boundary now =
     \<lparr>th_id = fork_id, th_status = ThreadActive, th_title = title, th_metadata = canon_obj metadata,
      th_client_request = fk_client q, th_fingerprint = Some (fork_fingerprint thread_id q),
      th_forked_thread = Some thread_id, th_forked_turn = fk_turn q, th_forked_seq = Some boundary,
      th_created_at = now, th_updated_at = now\<rparr>"

definition insert_fork :: "env \<Rightarrow> string \<Rightarrow> fork_request \<Rightarrow> int \<Rightarrow> thread_view dbtxn" where
  "insert_fork E thread_id q now =
     bind (require_thread thread_id False) (\<lambda>source.
     bind (fork_boundary thread_id (fk_turn q)) (\<lambda>boundary.
     bind (ret (or_else (fk_title q) (th_title source), dict_merge (th_metadata source) (fk_metadata q))) (\<lambda>(title, metadata).
     bind (fresh_id E ''thr'') (\<lambda>fork_id.
     bind (append_in_transaction E
        ((event_req fork_id ''thread.forked''
            [(''source_thread_id'', JStr thread_id), (''source_turn_id'', jopt (fk_turn q)),
             (''source_seq'', JInt (int boundary)), (''title'', jopt title), (''metadata'', JObj metadata)])
          \<lparr>rq_causation := Some (thread_id @ '':'' @ str_nat boundary), rq_correlation := fk_client q,
           rq_key := Some ''thread:forked'', rq_created_at := Some now\<rparr>)) (\<lambda>_.
     seq (insert_thread (forked_thread fork_id thread_id q title metadata boundary now))
       (read_thread fork_id False))))))"

definition fork_in_transaction :: "env \<Rightarrow> string \<Rightarrow> fork_request \<Rightarrow> int \<Rightarrow> thread_view dbtxn" where
  "fork_in_transaction E thread_id q now =
     bind (read (\<lambda>s. if truthy (fk_client q)
                     then find (\<lambda>t. th_client_request t = fk_client q) (db_threads s) else None)) (\<lambda>dup.
     case dup of
       Some t \<Rightarrow>
         seq (require (th_fingerprint t = Some (fork_fingerprint thread_id q))
               (ConflictError ''fork client_request_id was reused with different input''))
           (ret (thread_from_row t None None))
     | None \<Rightarrow> insert_fork E thread_id q now)"

definition fork_thread :: "env \<Rightarrow> admission \<Rightarrow> string \<Rightarrow> fork_request \<Rightarrow> int \<Rightarrow> db \<Rightarrow> (err + thread_view) \<times> db" where
  "fork_thread E A thread_id q now =
     control_transaction A ''thread_fork'' (or_else (fk_client q) (Some (fork_fingerprint thread_id q)))
       (fork_in_transaction E thread_id q now)"

section \<open>Rebuilding turns and Items from facts\<close>

record past_turn =
  pt_status :: turn_status
  pt_input :: json
  pt_agent :: json
  pt_image :: json
  pt_client :: "string option"
  pt_metadata :: json
  pt_reason :: json
  pt_created :: int
  pt_updated :: int

record past_item =
  pi_turn :: "string option"
  pi_kind :: item_kind
  pi_status :: item_status
  pi_content :: json
  pi_created :: int
  pi_updated :: int

text \<open>Dictionaries in insertion order: assigning to a key that is there keeps its place.\<close>

fun put :: "'k \<Rightarrow> 'v \<Rightarrow> ('k \<times> 'v) list \<Rightarrow> ('k \<times> 'v) list" where
  "put k v [] = [(k, v)]"
| "put k v ((k', v') # d) = (if k' = k then (k, v) # d else (k', v') # put k v d)"

type_synonym history = "(string \<times> past_turn) list \<times> (string \<times> past_item) list"

definition jget_or :: "jobj \<Rightarrow> string \<Rightarrow> json \<Rightarrow> json" where
  "jget_or d k v = (case map_of d k of None \<Rightarrow> v | Some w \<Rightarrow> w)"

definition parse_turn_status :: "json \<Rightarrow> turn_status option" where
  "parse_turn_status j =
     (case j of
        JStr t \<Rightarrow> find (\<lambda>st. turn_status_text st = t)
          [TurnAccepted, TurnQueued, TurnPreparing, TurnModelRequested, TurnStreaming, TurnToolPending, TurnWaitingHuman,
           TurnToolRunning, TurnRetryWait, TurnFinalizing, TurnCompleted, TurnPartial, TurnFailed, TurnCancelled,
           TurnInterrupted, TurnSuperseded]
      | _ \<Rightarrow> None)"

definition parse_item_status :: "json \<Rightarrow> item_status option" where
  "parse_item_status j =
     (case j of
        JStr t \<Rightarrow> find (\<lambda>st. item_status_text st = t)
          [ItemCreated, ItemInProgress, ItemWaitingHuman, ItemCompleted, ItemFailed, ItemCancelled]
      | _ \<Rightarrow> None)"

definition parse_item_kind :: "json \<Rightarrow> item_kind option" where
  "parse_item_kind j =
     (case j of
        JStr t \<Rightarrow> find (\<lambda>k. item_kind_text k = t)
          [KindMessage, KindReasoning, KindToolCall, KindArtifact, KindInteraction, KindCheckpoint, KindTaskList]
      | _ \<Rightarrow> None)"

definition enum_of :: "(json \<Rightarrow> 'a option) \<Rightarrow> jobj \<Rightarrow> string \<Rightarrow> err + 'a" where
  "enum_of parse d k =
     (case map_of d k of
        None \<Rightarrow> Inl (TypeError ''missing key'')
      | Some j \<Rightarrow> (case parse j of None \<Rightarrow> Inl (ValueError ''not a valid member'') | Some x \<Rightarrow> Inr x))"

definition dict_of :: "json \<Rightarrow> err + jobj" where
  "dict_of j = (case j of JObj d \<Rightarrow> Inr d | _ \<Rightarrow> Inl (TypeError ''content is not an object''))"

text \<open>\<^verbatim>\<open>int(value or 1) + 1\<close>.\<close>

definition next_revision :: "env \<Rightarrow> json \<Rightarrow> err + json" where
  "next_revision E v =
     (case v of
        JInt i \<Rightarrow> Inr (JInt ((if i = 0 then 1 else i) + 1))
      | JBool b \<Rightarrow> Inr (JInt 2)
      | _ \<Rightarrow>
          if v \<in> set [JNull, JStr [], JArr [], JObj [], JFloat ''0.0'', JFloat ''-0.0''] then Inr (JInt 2)
          else (case env_int E v of None \<Rightarrow> Inl (ValueError ''invalid literal for int'') | Some i \<Rightarrow> Inr (JInt (i + 1))))"

subsection \<open>Turns\<close>

definition accepted_past :: "event_row \<Rightarrow> past_turn" where
  "accepted_past e =
     (let p = ev_payload e
      in \<lparr>pt_status = TurnAccepted, pt_input = jget_or p ''input'' (JStr []), pt_agent = jget p ''agent_model_id'',
          pt_image = jget p ''image_model_id'', pt_client = ev_client_message e,
          pt_metadata = jget_or p ''metadata'' (JObj []), pt_reason = JNull, pt_created = ev_created_at e,
          pt_updated = ev_created_at e\<rparr>)"

definition moved_past :: "event_row \<Rightarrow> past_turn \<Rightarrow> err + past_turn" where
  "moved_past e t =
     ebind (enum_of parse_turn_status (ev_payload e) ''to'') (\<lambda>st.
     Inr (t\<lparr>pt_status := st, pt_updated := ev_created_at e,
            pt_reason := (if turn_terminal st then jget (ev_payload e) ''reason'' else JNull)\<rparr>))"

subsection \<open>Items\<close>

definition created_past :: "env \<Rightarrow> event_row \<Rightarrow> err + past_item" where
  "created_past E e =
     ebind (enum_of parse_item_kind (ev_payload e) ''kind'') (\<lambda>kind.
     ebind (enum_of parse_item_status (ev_payload e) ''status'') (\<lambda>status.
     let content = jget_or (ev_payload e) ''content'' (JObj []);
         item = \<lambda>c. \<lparr>pi_turn = ev_turn e, pi_kind = kind, pi_status = status, pi_content = c,
                   pi_created = ev_created_at e, pi_updated = ev_created_at e\<rparr>
     in if kind \<noteq> KindToolCall then Inr (item content)
        else (case validate_activity (env_timing E) content of
            None \<Rightarrow> Inl (ConflictError ''Inherited Tool Item public activity is invalid'')
          | Some a \<Rightarrow>
              if act_status a \<noteq> item_status_text status
              then Inl (ConflictError ''Inherited Tool Item public status is inconsistent'')
              else Inr (item (dump_activity a)))))"

definition steered_past :: "event_row \<Rightarrow> past_item" where
  "steered_past e =
     \<lparr>pi_turn = ev_turn e, pi_kind = KindMessage, pi_status = ItemCompleted,
      pi_content = JObj [(''role'', JStr ''user''), (''text'', jget_or (ev_payload e) ''input'' (JStr [])),
        (''metadata'', jget_or (ev_payload e) ''metadata'' (JObj [])), (''steer'', JBool True)],
      pi_created = ev_created_at e, pi_updated = ev_created_at e\<rparr>"

definition replaced_past :: "event_row \<Rightarrow> past_item \<Rightarrow> err + past_item" where
  "replaced_past e i =
     ebind (dict_of (pi_content i)) (\<lambda>c.
     Inr (i\<lparr>pi_content := JObj (dict_merge c
             [(''revision'', jget_or (ev_payload e) ''previous_revision'' (jget_or c ''revision'' (JInt 1))),
              (''presentation'', jget_or (ev_payload e) ''previous_presentation'' (JStr ''archived'')),
              (''archived_reason'', JStr ''replaced_by_next_atom'')]),
            pi_status := ItemCompleted, pi_updated := ev_created_at e\<rparr>))"

definition reasoning_past :: "event_row \<Rightarrow> past_item" where
  "reasoning_past e =
     \<lparr>pi_turn = ev_turn e, pi_kind = KindReasoning, pi_status = ItemInProgress,
      pi_content = JObj [(''channel'', JStr ''reasoning_summary''), (''atom_id'', jget_or (ev_payload e) ''atom_id'' (JStr [])),
        (''text'', jget_or (ev_payload e) ''delta'' (JStr [])), (''revision'', jget_or (ev_payload e) ''revision'' (JInt 1)),
        (''presentation'', jget_or (ev_payload e) ''presentation'' (JStr ''visible'')), (''archived_reason'', JNull)],
      pi_created = ev_created_at e, pi_updated = ev_created_at e\<rparr>"

definition extended_past :: "env \<Rightarrow> event_row \<Rightarrow> past_item \<Rightarrow> err + past_item" where
  "extended_past E e i =
     ebind (dict_of (pi_content i)) (\<lambda>c.
     ebind (next_revision E (jget c ''revision'')) (\<lambda>r.
     Inr (i\<lparr>pi_content := JObj (dict_merge c
             [(''text'', JStr (text_of E (jget c ''text'') @ text_of E (jget (ev_payload e) ''delta''))),
              (''revision'', jget_or (ev_payload e) ''revision'' r)]),
            pi_updated := ev_created_at e\<rparr>)))"

definition archived_past :: "env \<Rightarrow> event_row \<Rightarrow> past_item \<Rightarrow> err + past_item" where
  "archived_past E e i =
     ebind (dict_of (pi_content i)) (\<lambda>c.
     ebind (next_revision E (jget c ''revision'')) (\<lambda>r.
     Inr (i\<lparr>pi_content := JObj (dict_merge c
             [(''revision'', jget_or (ev_payload e) ''revision'' r),
              (''presentation'', jget_or (ev_payload e) ''presentation'' (JStr ''collapsed'')),
              (''archived_reason'', jget (ev_payload e) ''reason'')]),
            pi_updated := ev_created_at e\<rparr>)))"

text \<open>\<^verbatim>\<open>TaskListProjection.model_validate(payload)\<close>, dumped again, and whether every entry is completed.\<close>

definition validate_task_list :: "env \<Rightarrow> jobj \<Rightarrow> (jobj \<times> bool) option" where
  "validate_task_list E p =
     (if \<not> list_all (\<lambda>k. k \<in> set [''schema_version'', ''turn_id'', ''items'', ''updated_at'']) (map fst p) \<or>
         jget_or p ''schema_version'' (JInt 1) \<noteq> JInt 1 then None
      else obind (get_str p ''turn_id'') (\<lambda>u.
        obind (case jget p ''items'' of JArr xs \<Rightarrow> parse_task_list u xs | _ \<Rightarrow> None) (\<lambda>es.
        obind (obind (map_of p ''updated_at'') (env_redate E)) (\<lambda>at.
        Some ([(''schema_version'', JInt 1), (''turn_id'', JStr u), (''items'', JArr (map task_json es)), (''updated_at'', at)],
              list_all (\<lambda>x. te_status x = ''completed'') es)))))"

definition listed_past :: "env \<Rightarrow> event_row \<Rightarrow> past_item \<Rightarrow> err + past_item" where
  "listed_past E e i =
     (case validate_task_list E (ev_payload e) of
        None \<Rightarrow> Inl (ConflictError ''Inherited Task List content is invalid'')
      | Some (c, finished) \<Rightarrow>
          Inr (i\<lparr>pi_content := JObj c, pi_status := (if finished then ItemCompleted else ItemInProgress),
                 pi_updated := ev_created_at e\<rparr>))"

definition result_past :: "env \<Rightarrow> event_row \<Rightarrow> past_item \<Rightarrow> err + past_item" where
  "result_past E e i =
     (if pi_kind i \<noteq> KindToolCall then Inl (ConflictError ''Inherited tool result references a non-Tool Item'')
      else case (validate_activity (env_timing E) (pi_content i),
                 validate_activity (env_timing E) (jget (ev_payload e) ''activity'')) of
        (Some current, Some a) \<Rightarrow>
          if act_tool_call_id current \<noteq> act_tool_call_id a \<or> act_tool_id current \<noteq> act_tool_id a \<or>
             act_argument_sha256 current \<noteq> act_argument_sha256 a
          then Inl (ConflictError ''Inherited tool result public identity changed'')
          else Inr (i\<lparr>pi_content := dump_activity a, pi_updated := ev_created_at e\<rparr>)
      | _ \<Rightarrow> Inl (ConflictError ''Inherited tool result public activity is invalid''))"

definition changed_past :: "env \<Rightarrow> event_row \<Rightarrow> past_item \<Rightarrow> err + past_item" where
  "changed_past E e i =
     ebind (enum_of parse_item_status (ev_payload e) ''to'') (\<lambda>target.
     ebind (if pi_kind i \<noteq> KindToolCall then Inr (pi_content i)
            else (case validate_activity (env_timing E) (pi_content i) of
                None \<Rightarrow> Inl (ConflictError ''Inherited Tool Item public lifecycle is invalid'')
              | Some a \<Rightarrow> Inr (dump_activity (transition a target)))) (\<lambda>c.
     Inr (i\<lparr>pi_content := c, pi_status := target, pi_updated := ev_created_at e\<rparr>)))"

subsection \<open>One fact\<close>

definition change_turn :: "event_row \<Rightarrow> (past_turn \<Rightarrow> err + past_turn) \<Rightarrow> history \<Rightarrow> err + history" where
  "change_turn e f h =
     (case obind (ev_turn e) (\<lambda>u. obind (map_of (fst h) u) (\<lambda>t. Some (u, t))) of
        None \<Rightarrow> Inr h
      | Some (u, t) \<Rightarrow> ebind (f t) (\<lambda>t'. Inr (put u t' (fst h), snd h)))"

definition change_item :: "event_row \<Rightarrow> (past_item \<Rightarrow> err + past_item) \<Rightarrow> history \<Rightarrow> err + history" where
  "change_item e f h =
     (case obind (ev_item e) (\<lambda>i. obind (map_of (snd h) i) (\<lambda>x. Some (i, x))) of
        None \<Rightarrow> Inr h
      | Some (i, x) \<Rightarrow> ebind (f x) (\<lambda>x'. Inr (fst h, put i x' (snd h))))"

definition add_item :: "event_row \<Rightarrow> (unit \<Rightarrow> err + past_item) \<Rightarrow> history \<Rightarrow> err + history" where
  "add_item e f h =
     (case ev_item e of None \<Rightarrow> Inr h | Some i \<Rightarrow> ebind (f ()) (\<lambda>x. Inr (fst h, put i x (snd h))))"

text \<open>The visible atom that a new one replaces; a key that Python cannot hash raises.\<close>

definition close_previous :: "event_row \<Rightarrow> history \<Rightarrow> err + history" where
  "close_previous e h =
     (case jget (ev_payload e) ''previous_item_id'' of
        JStr p \<Rightarrow> (case map_of (snd h) p of
            None \<Rightarrow> Inr h | Some x \<Rightarrow> ebind (replaced_past e x) (\<lambda>x'. Inr (fst h, put p x' (snd h))))
      | JArr _ \<Rightarrow> Inl (TypeError ''unhashable type'')
      | JObj _ \<Rightarrow> Inl (TypeError ''unhashable type'')
      | _ \<Rightarrow> Inr h)"

definition replay_event :: "env \<Rightarrow> event_row \<Rightarrow> history \<Rightarrow> err + history" where
  "replay_event E row h =
     ebind (event_from_row E row) (\<lambda>e.
     let ty = ev_type e in
     if ty = ''turn.accepted'' \<and> ev_turn e \<noteq> None then Inr (put (the (ev_turn e)) (accepted_past e) (fst h), snd h)
     else if ty = ''turn.queued''
     then change_turn e (\<lambda>t. Inr (t\<lparr>pt_status := TurnQueued, pt_updated := ev_created_at e\<rparr>)) h
     else if ty = ''turn.status_changed'' then change_turn e (moved_past e) h
     else if ty = ''item.created'' then add_item e (\<lambda>_. created_past E e) h
     else if ty = ''turn.steered'' then add_item e (\<lambda>_. Inr (steered_past e)) h
     else if ty = ''reasoning.replaced'' \<and> ev_item e \<noteq> None
     then ebind (close_previous e h) (add_item e (\<lambda>_. Inr (reasoning_past e)))
     else if ty = ''reasoning.delta'' then change_item e (extended_past E e) h
     else if ty = ''reasoning.archived'' then change_item e (archived_past E e) h
     else if ty = ''task_list.updated'' then change_item e (listed_past E e) h
     else if ty = ''tool.result'' then change_item e (result_past E e) h
     else if ty = ''item.status_changed'' then change_item e (changed_past E e) h
     else Inr h)"

fun replay_events :: "env \<Rightarrow> event_row list \<Rightarrow> history \<Rightarrow> err + history" where
  "replay_events E [] h = Inr h"
| "replay_events E (e # es) h = ebind (replay_event E e h) (replay_events E es)"

subsection \<open>Projections\<close>

definition opt_str :: "json \<Rightarrow> string option option" where
  "opt_str j = (case j of JNull \<Rightarrow> Some None | JStr t \<Rightarrow> Some (Some t) | _ \<Rightarrow> None)"

definition past_turn_projection :: "string \<Rightarrow> string \<times> past_turn \<Rightarrow> err + turn_row" where
  "past_turn_projection thread_id = (\<lambda>(u, t).
     case (pt_input t, pt_agent t, opt_str (pt_image t), pt_metadata t, opt_str (pt_reason t)) of
       (JStr input, JStr agent, Some img, JObj metadata, Some reason) \<Rightarrow>
         Inr \<lparr>tn_id = u, tn_thread = thread_id, tn_status = pt_status t, tn_input = input, tn_agent_model = agent,
              tn_image_model = img, tn_client_message = pt_client t, tn_metadata = metadata, tn_reason = reason,
              tn_created_at = pt_created t, tn_updated_at = pt_updated t\<rparr>
     | _ \<Rightarrow> Inl (ValueError ''TurnProjection''))"

definition past_item_projection :: "string \<Rightarrow> string \<times> past_item \<Rightarrow> err + item_row" where
  "past_item_projection thread_id = (\<lambda>(i, x).
     case (pi_turn x, pi_content x) of
       (Some u, JObj c) \<Rightarrow>
         Inr \<lparr>it_id = i, it_thread = thread_id, it_turn = u, it_kind = pi_kind x, it_status = pi_status x, it_content = JObj c,
              it_client_message = None, it_created_at = pi_created x, it_updated_at = pi_updated x\<rparr>
     | _ \<Rightarrow> Inl (ValueError ''ItemProjection''))"

definition events_through :: "string \<Rightarrow> nat \<Rightarrow> db \<Rightarrow> event_row list" where
  "events_through thread_id n s =
     sort_key ev_seq (filter (\<lambda>e. ev_thread e = thread_id \<and> ev_seq e \<le> n) (db_events s))"

definition own_history :: "env \<Rightarrow> string \<Rightarrow> nat \<Rightarrow> db \<Rightarrow> err + turn_row list \<times> item_row list" where
  "own_history E thread_id n s =
     ebind (replay_events E (events_through thread_id n s) ([], [])) (\<lambda>(turns, items).
     ebind (map_result (past_turn_projection thread_id) turns) (\<lambda>ts.
     ebind (map_result (past_item_projection thread_id) items) (\<lambda>xs. Inr (ts, xs))))"

text \<open>The ancestors first.  Every call adds its thread to \<open>seen\<close> and goes on only from a stored thread, so the
  recursion ends whatever the rows say about their origin.\<close>

function replay_thread_history ::
    "env \<Rightarrow> string \<Rightarrow> nat \<Rightarrow> string list \<Rightarrow> db \<Rightarrow> err + turn_row list \<times> item_row list" where
  "replay_thread_history E thread_id n seen s =
     (if thread_id \<in> set seen then Inl (ConflictError ''fork lineage contains a cycle'')
      else case find_thread thread_id s of
        None \<Rightarrow> Inl (NotFoundError ''thread does not exist'')
      | Some row \<Rightarrow>
          ebind (case th_forked_thread row of
                   None \<Rightarrow> Inr ([], [])
                 | Some p \<Rightarrow> replay_thread_history E p (case th_forked_seq row of None \<Rightarrow> 0 | Some k \<Rightarrow> k) (thread_id # seen) s)
            (\<lambda>(turns, items).
          ebind (own_history E thread_id n s) (\<lambda>(ts, xs). Inr (turns @ ts, items @ xs))))"
  by pat_completeness auto

termination
proof (relation "measure (\<lambda>(_, _, _, seen, s). card (set (map th_id (db_threads s)) - set seen))")
  fix E thread_id n seen s row p
  assume "thread_id \<notin> set seen" "find_thread thread_id s = Some row"
  then have "thread_id \<in> set (map th_id (db_threads s)) - set seen"
    by (auto simp: find_thread_def dest!: find_SomeD)
  then have "set (map th_id (db_threads s)) - set (thread_id # seen) \<subset> set (map th_id (db_threads s)) - set seen" by auto
  then show "((E, p, case th_forked_seq row of None \<Rightarrow> 0 | Some k \<Rightarrow> k, thread_id # seen, s), (E, thread_id, n, seen, s))
      \<in> measure (\<lambda>(_, _, _, seen, s). card (set (map th_id (db_threads s)) - set seen))"
    by (simp add: psubset_card_mono)
qed simp

declare replay_thread_history.simps [simp del]

section \<open>The projection of a thread\<close>

text \<open>\<^verbatim>\<open>COALESCE(MIN(seq), 9223372036854775807)\<close> over the facts of the thread that name the row.\<close>

definition first_seq :: "(event_row \<Rightarrow> string option) \<Rightarrow> string \<Rightarrow> string \<Rightarrow> db \<Rightarrow> nat option" where
  "first_seq key thread_id i s =
     (case sort (map ev_seq (filter (\<lambda>e. ev_thread e = thread_id \<and> key e = Some i) (db_events s))) of
        [] \<Rightarrow> None | n # _ \<Rightarrow> Some n)"

definition order_seq :: "nat option \<Rightarrow> nat" where
  "order_seq n = (case n of None \<Rightarrow> 9223372036854775807 | Some k \<Rightarrow> k)"

definition by_first_fact :: "(event_row \<Rightarrow> string option) \<Rightarrow> string \<Rightarrow> ('r \<Rightarrow> string) \<Rightarrow> ('r \<Rightarrow> int) \<Rightarrow> db \<Rightarrow> 'r list \<Rightarrow> 'r list" where
  "by_first_fact key thread_id ident created s rows =
     sort_key (\<lambda>r. (order_seq (first_seq key thread_id (ident r) s), created r, ident r)) rows"

record thread_projection =
  pj_thread :: thread_view
  pj_inherited_turns :: "turn_row list"
  pj_turns :: "turn_row list"
  pj_inherited_items :: "item_row list"
  pj_items :: "(item_view \<times> nat option) list"
  pj_jobs :: "job_row list"
  pj_interactions :: "(interaction_row \<times> nat option) list"
  pj_watermark :: nat

definition inherited_history :: "env \<Rightarrow> thread_row \<Rightarrow> db \<Rightarrow> err + turn_row list \<times> item_row list" where
  "inherited_history E row s =
     (case th_forked_thread row of
        None \<Rightarrow> Inr ([], [])
      | Some p \<Rightarrow> replay_thread_history E p (case th_forked_seq row of None \<Rightarrow> 0 | Some k \<Rightarrow> k) [] s)"

definition projection :: "env \<Rightarrow> string \<Rightarrow> db \<Rightarrow> err + thread_projection" where
  "projection E thread_id s =
     (case find_thread thread_id s of
        None \<Rightarrow> Inl (NotFoundError ''thread does not exist'')
      | Some row \<Rightarrow>
          if th_status row = ThreadDeleted then Inl (NotFoundError ''thread does not exist'')
          else
            ebind (inherited_history E row s) (\<lambda>(past_turns, past_items).
            ebind (map_result turn_from_row
                (by_first_fact ev_turn thread_id tn_id tn_created_at s
                  (filter (\<lambda>t. tn_thread t = thread_id) (db_turns s)))) (\<lambda>turns.
            ebind (map_result (\<lambda>r. ebind (item_from_row E r) (\<lambda>v. Inr (v, first_seq ev_item thread_id (it_id r) s)))
                (by_first_fact ev_item thread_id it_id it_created_at s
                  (filter (\<lambda>i. it_thread i = thread_id) (db_items s)))) (\<lambda>items.
            ebind (map_result (\<lambda>r. ebind (interaction_from_row E r) (\<lambda>v. Inr (v, first_seq ev_item thread_id (ia_id r) s)))
                (by_first_fact ev_item thread_id ia_id ia_created_at s
                  (filter (\<lambda>i. ia_thread i = thread_id) (db_interactions s)))) (\<lambda>asks.
            Inr \<lparr>pj_thread = thread_from_row row None None, pj_inherited_turns = past_turns, pj_turns = turns,
                 pj_inherited_items = past_items, pj_items = items,
                 pj_jobs = by_first_fact ev_job thread_id jb_id jb_created_at s
                   (filter (\<lambda>j. jb_thread j = Some thread_id) (db_jobs s)),
                 pj_interactions = asks, pj_watermark = watermark thread_id s\<rparr>)))))"

end
