(* ===== verification/KernelStorage.thy ===== *)
theory KernelStorage
  imports Storage Retouch Forks
begin

text \<open>
  The operations of \<^verbatim>\<open>interactions.py\<close> and \<^verbatim>\<open>kernel.py\<close> respect every relation on the database that the
  statements they are built from respect: the locales of \<open>Storage\<close> are extended by one lemma per operation.
  \<open>kernel_order\<close> adds the four operations that change the status of a turn, \<open>create_order\<close> the insert of jobs.
\<close>

section \<open>Transaction boundaries\<close>

context db_order
begin

lemma control_all: "keeps R m \<Longrightarrow> R s (snd (control_transaction A scope sub m s))"
  by (intro control_keeps) (auto simp: keeps_def)

lemma mutation_keeps: "keeps R m \<Longrightarrow> R s (snd (mutation_transaction E A scope sub i t m s))"
  by (auto simp: mutation_transaction_def R_refl control_all execution_keeps split: option.splits)

lemma after_deadline_keeps:
  assumes "keeps R m" and "keeps R (expire_deadlines_in_transaction E now (Some i))"
  shows "R s (snd (after_deadline E A0 A i t now ex m s))"
proof -
  have "R s (snd (expire_deadline E A0 i now s))"
    unfolding expire_deadline_def by (intro control_all keeps_intros assms(2))
  then show ?thesis
    using execution_keeps [OF assms(1)]
    by (auto simp: after_deadline_def split: prod.splits sum.splits bool.splits intro: R_trans)
qed

end

section \<open>Operations that leave the turns alone\<close>

context statement_order
begin

lemma keeps_require_thread: "keeps R (require_thread i b)"
  unfolding require_thread_def by (intro ops)

lemma keeps_read_thread: "keeps R (read_thread i b)"
  unfolding read_thread_def by (intro ops keeps_require_thread)

lemma keeps_create_thread: "keeps R (create_thread_in_transaction E q now)"
  unfolding create_thread_in_transaction_def insert_created_thread_def by (intro ops keeps_read_thread) simp

lemma keeps_thread_fact:
  "(\<And>r. lineage (f r) = lineage r) \<Longrightarrow> keeps R (write_thread_fact E i ty p c k fam f b)"
  unfolding write_thread_fact_def by (intro ops keeps_read_thread keeps_update_thread) (simp add: lineage_def)

lemma keeps_thread_changes:
  "keeps R (rename_in_transaction E i title c)" "keeps R (status_in_transaction E i st c)"
  "keeps R (delete_in_transaction E i c)" "keeps R (pin_in_transaction E i b c)"
  unfolding rename_in_transaction_def status_in_transaction_def delete_in_transaction_def pin_in_transaction_def
  by (intro ops keeps_require_thread keeps_thread_fact; simp add: lineage_def)+

lemma keeps_read_item: "keeps R (read_item E i)"
  unfolding read_item_def by (intro ops keeps_require_item)

lemma keeps_create_item: "keeps R (create_item_in_transaction E q now)"
  unfolding create_item_in_transaction_def by (intro ops keeps_read_item)

lemma keeps_content_dict: "keeps R (content_dict r)"
  by (cases "it_content r") (simp_all add: content_dict_def keeps_raise keeps_ret)

lemma keeps_message_delta: "keeps R (message_delta_in_transaction E i d k now)"
  unfolding message_delta_in_transaction_def stream_delta_def Let_def
  by (intro ops keeps_require_item keeps_require_turn keeps_content_dict keeps_update_content keeps_read_item)

lemma keeps_task_list: "keeps R (task_list_in_transaction E u es k now)"
  unfolding task_list_in_transaction_def task_list_item_def Let_def
  by (intro ops keeps_require_turn keeps_read_item keeps_create_item keeps_update_item) simp

lemma keeps_tool_result: "keeps R (complete_tool_in_transaction E i a k now)"
  unfolding complete_tool_in_transaction_def write_tool_result_def
  by (intro ops keeps_require_item keeps_read_item keeps_update_item) simp

lemma keeps_transition_item: "keeps R (transition_item_in_transaction E i st now)"
  unfolding transition_item_in_transaction_def
  by (intro ops keeps_require_item keeps_require_turn keeps_read_item keeps_update_item) simp

lemma keeps_read_interaction: "keeps R (read_interaction E i)" "keeps R (require_interaction i)"
  unfolding read_interaction_def require_interaction_def by (intro ops)+

lemma keeps_create_interaction: "keeps R (create_interaction_in_transaction E q now)"
  unfolding create_interaction_in_transaction_def insert_requested_def by (intro ops keeps_read_interaction)

lemma keeps_connector_state: "keeps R (connector_state_in_transaction E i st now)"
  unfolding connector_state_in_transaction_def write_connector_state_def
  by (intro ops keeps_read_interaction keeps_update_interaction) simp

lemma keeps_close_item: "keeps R (close_item E t u k st r now it)"
  unfolding close_item_def by (intro ops keeps_update_item) simp

lemma keeps_close_own_item: "keeps R (close_own_item E row k st r now)"
  unfolding close_own_item_def by (intro ops keeps_close_item)

lemma keeps_rows:
  "keeps R (update_job i (resume_job_row now))" "keeps R (update_job i (close_job_row st r now))"
  "keeps R (update_job i (settle_job_row st x now))" "keeps R (update_job i (retry_job_row c a e now))"
  "keeps R (update_job i (suspend_job_row cp x2 now))"
  by (intro keeps_update_job; simp add: resume_job_row_def close_job_row_def settle_job_row_def retry_job_row_def
      suspend_job_row_def)+

lemma keeps_settle: "keeps R (settle_turn_dependents_in_transaction E t st r now)"
  unfolding settle_turn_dependents_in_transaction_def settle_job_def settle_interaction_def settle_item_def
  by (intro ops keeps_rows keeps_close_item keeps_update_interaction) simp_all

lemma keeps_turn_reads:
  "keeps R (read_turn i)" "keeps R (turn_mutation t job h)" "keeps R (turn_of_job j)" "keeps R (settled_response i u h)"
  unfolding read_turn_def turn_mutation_def turn_of_job_def settled_response_def
  by (intro ops keeps_require_turn keeps_require_job)+

lemma keeps_steer: "keeps R (steer_turn_in_transaction E u q now)"
  unfolding steer_turn_in_transaction_def steer_new_def admit_steer_def Let_def
  by (intro ops keeps_require_turn keeps_match_client_intent keeps_turn_reads keeps_content_dict keeps_append_inputs)

lemma keeps_cancel_turn_jobs: "keeps R (cancel_turn_jobs_in_transaction E t r now)"
  unfolding cancel_turn_jobs_in_transaction_def cancel_turn_job_def by (intro ops keeps_close_job)

lemma keeps_replayed_turn: "keeps R (replayed_turn t c)"
  unfolding replayed_turn_def assert_turn_snapshot_context_def by (intro ops)

lemma keeps_replays: "keeps R (replay_by_message h q c m)" "keeps R (replay_by_turn h q c t)"
  unfolding replay_by_message_def replay_by_turn_def
  by (intro ops keeps_content_dict keeps_require_turn keeps_match_client_intent keeps_replayed_turn)+

lemma keeps_generate_title: "keeps R (generate_title E h u q og now)"
  unfolding generate_title_def by (intro ops keeps_update_thread) (simp add: lineage_def)

lemma keeps_replacement:
  "keeps R (replace_mutation a b j h)" "keeps R (replay_replacement t q c e)"
  unfolding replay_replacement_def replace_mutation_def assert_turn_snapshot_context_def by (intro ops)+

lemma keeps_operation_reads:
  "keeps R (operation_valid k q)" "keeps R (operation_duplicate h c m)" "keeps R (replay_operation h k q cx m t)"
  unfolding operation_valid_def operation_duplicate_def replay_operation_def assert_turn_snapshot_context_def
  by (intro ops keeps_require_turn keeps_match_client_intent keeps_content_dict)+

lemma keeps_interaction_mutation: "keeps R (interaction_mutation ia)"
  unfolding interaction_mutation_def by (intro ops keeps_turn_reads)

lemma keeps_require_login: "keeps R (require_login i)"
  unfolding require_login_def by (intro ops keeps_read_interaction)

lemma keeps_refresh: "keeps R (refresh_authority E row u j c q client now)"
  unfolding refresh_authority_def by (intro ops keeps_append_inputs)

lemma keeps_retouch_reads:
  "keeps R (runtime_job rj)" "keeps R (owned_runtime_job rj w t at)" "keeps R (execution_turn rj)" "keeps R (retouch_scope_ok sc)"
  unfolding runtime_job_def owned_runtime_job_def execution_turn_def retouch_scope_ok_def
  by (intro ops keeps_require_turn keeps_owned_row)+

lemma keeps_retouch_facts:
  "keeps R (publish_retouch E rj a h u j now)" "keeps R (report_retouch E rj jo ty text key now)"
  unfolding publish_retouch_def report_retouch_def by (intro ops keeps_create_item)+

lemma keeps_retouch_rows:
  "keeps R (update_job i (\<lambda>r. r\<lparr>jb_status := st, jb_updated_at := now\<rparr>))" "keeps R (update_job i (retouch_closed_row st now))"
  "keeps R (update_job i (\<lambda>r. (retouch_closed_row st now r)\<lparr>jb_available_at := av, jb_last_error := x\<rparr>))"
  "keeps R (update_job i (\<lambda>r. (retouch_closed_row st now r)\<lparr>jb_last_error := x\<rparr>))"
  by (intro keeps_update_job; simp add: retouch_closed_row_def)+

lemma keeps_fork_boundary: "keeps R (fork_boundary h u)"
  unfolding fork_boundary_def by (intro ops keeps_require_turn)

lemma keeps_fork_from:
  assumes "\<And>r. keeps R (insert_thread r)"
  shows "keeps R (fork_in_transaction E h q now)"
  unfolding fork_in_transaction_def insert_fork_def
  by (intro keeps_intros keeps_append keeps_fresh_id assms keeps_require_thread keeps_read_thread keeps_fork_boundary)

end

section \<open>Operations that change a turn\<close>

locale kernel_order = linked_order +
  assumes keeps_transition_turn: "keeps R (transition_turn_in_transaction E t st r now)"
    and keeps_accept_turn: "keeps R (accept_turn E h u q c og x now)"
    and keeps_resume_turn: "keeps R (resume_turn E ia now)"
    and keeps_close_waiting_turn: "keeps R (close_waiting_turn E ia u t tt jt it rs now)"
begin

lemma keeps_resume_dependents: "keeps R (resume_dependents_in_transaction E row now)"
  unfolding resume_dependents_in_transaction_def resume_job_def
  by (intro ops keeps_close_own_item keeps_rows keeps_resume_turn)

lemma keeps_close_pending: "keeps R (close_pending_in_transaction E row st ty p now)"
  unfolding close_pending_in_transaction_def close_waiting_job_def Let_def
  by (intro ops keeps_close_own_item keeps_close_waiting_turn keeps_rows keeps_update_interaction keeps_read_interaction)
     simp_all

lemma keeps_respond: "keeps R (respond_in_transaction E i raw c now)"
  unfolding respond_in_transaction_def resolve_interaction_def
  by (intro ops keeps_read_interaction keeps_close_pending keeps_update_interaction keeps_resume_dependents) simp_all

lemma keeps_expire_due: "keeps R (expire_due_in_transaction E now)"
  unfolding expire_due_in_transaction_def expire_row_def by (intro ops keeps_close_pending)

lemma keeps_move_turn: "keeps R (move_turn_in_transaction E u st r now)"
  unfolding move_turn_in_transaction_def by (intro ops keeps_require_turn keeps_transition_turn keeps_turn_reads)

lemma keeps_begin_finalizing: "keeps R (begin_finalizing_in_transaction E u n now)"
  unfolding begin_finalizing_in_transaction_def by (intro ops keeps_require_turn keeps_transition_turn)

lemma keeps_finish_turn_job: "keeps R (finish_turn_job_in_transaction E i w t st r now)"
  unfolding finish_turn_job_in_transaction_def
  by (intro ops keeps_owned_row keeps_turn_reads keeps_transition_turn)

lemma keeps_fail_turn_job: "keeps R (fail_turn_job_in_transaction E i w t e b d p now)"
  unfolding fail_turn_job_in_transaction_def schedule_turn_retry_def fail_whole_turn_def Let_def
  by (intro ops keeps_owned_row keeps_turn_reads keeps_transition_turn keeps_assert_transition keeps_row_event keeps_rows)

lemma keeps_interrupt: "keeps R (interrupt_turn_in_transaction E u r now)"
  unfolding interrupt_turn_in_transaction_def
  by (intro ops keeps_require_turn keeps_turn_reads keeps_cancel_turn_jobs keeps_transition_turn)

lemma keeps_request_interaction: "keeps R (request_interaction_in_transaction E i w t k now)"
  unfolding request_interaction_in_transaction_def suspend_for_human_def
  by (intro ops keeps_create_interaction keeps_owned_row keeps_require_turn keeps_create_item keeps_rows
      keeps_transition_turn)

lemma keeps_operation_turn: "keeps R (create_operation_turn_in_transaction E V h q c k og now)"
  unfolding create_operation_turn_in_transaction_def new_operation_def Let_def
  by (intro ops keeps_operation_reads keeps_require_thread keeps_accept_turn keeps_turn_reads)

lemma keeps_resolve_login: "keeps R (resolve_login_in_transaction E i cn q client now)"
  unfolding resolve_login_in_transaction_def
  by (intro ops keeps_require_login keeps_require_turn keeps_refresh keeps_respond keeps_turn_reads)

lemma keeps_retouch_transition: "keeps R (retouch_transition E t st r now)"
  unfolding retouch_transition_def by (intro ops keeps_transition_turn keeps_require_turn)

lemma keeps_finish_execution_turn: "keeps R (finish_execution_turn E rj st r now)"
  unfolding finish_execution_turn_def by (intro ops keeps_retouch_reads keeps_retouch_transition)

lemma keeps_report_and_finish: "keeps R (report_and_finish E rj j text now)"
  unfolding report_and_finish_def by (intro ops keeps_retouch_facts keeps_finish_execution_turn)

lemma keeps_settle_runtime_job: "keeps R (settle_runtime_job E rj st text w t at now row)"
  unfolding settle_runtime_job_def by (intro ops keeps_retouch_reads keeps_row_event keeps_retouch_rows)

lemma keeps_retouch_hook: "keeps R (retouch_hook E rj at now call)"
  by (cases call; simp only: retouch_hook.simps running_hook_def completed_hook_def requeued_hook_def terminal_hook_def
      reconcile_hook_def missing_runtime_hook_def Let_def)
     (intro ops keeps_retouch_reads keeps_retouch_facts keeps_retouch_rows keeps_retouch_transition keeps_row_event
       keeps_assert_transition keeps_finish_execution_turn keeps_report_and_finish keeps_settle_runtime_job)+

end

locale create_order = kernel_order + insert_order +
  assumes keeps_fork: "keeps R (fork_in_transaction E h fq now)"
begin

lemma keeps_retouch_enqueue: "keeps R (retouch_enqueue_in_transaction E V rj sc q c n d now)"
  unfolding retouch_enqueue_in_transaction_def
  by (intro ops keeps_retouch_reads keeps_operation_turn keeps_enqueue)

lemma keeps_new_turn: "keeps R (new_turn E h q c og now)"
  unfolding new_turn_def by (intro ops keeps_accept_turn keeps_enqueue keeps_generate_title keeps_turn_reads)

lemma keeps_create_turn: "keeps R (create_turn_in_transaction E V h q c og now)"
  unfolding create_turn_in_transaction_def by (intro ops keeps_require_thread keeps_new_turn keeps_replays)

lemma keeps_replace_turn: "keeps R (replace_turn_in_transaction E V u q r c now)"
  unfolding replace_turn_in_transaction_def supersede_turn_def
  by (intro ops keeps_require_turn keeps_create_item keeps_cancel_turn_jobs keeps_transition_turn keeps_create_turn
      keeps_replacement)

end

locale runtime_order = create_order + leasing_order

section \<open>Relations that do not look at the columns of a turn\<close>

sublocale update_order \<subseteq> kernel_order
proof unfold_locales
  show "keeps R (transition_turn_in_transaction E t st r now)" for E t st r now
    unfolding transition_turn_in_transaction_def
    by (intro ops keeps_settle keeps_archive keeps_update_turn keeps_update_thread) (simp_all add: lineage_def)
  show "keeps R (accept_turn E h u q c og x now)" for E h u q c og x now
    unfolding accept_turn_def by (intro ops keeps_append_inputs keeps_create_item keeps_insert_turn keeps_update_turn) simp
  show "keeps R (resume_turn E ia now)" for E ia now
    unfolding resume_turn_def by (intro ops keeps_update_turn) simp
  show "keeps R (close_waiting_turn E ia u t tt jt it rs now)" for E ia u t tt jt it rs now
    unfolding close_waiting_turn_def close_dependent_job_def cancel_peer_def
    by (intro ops keeps_close_item keeps_rows keeps_update_interaction keeps_update_turn) simp_all
qed

sublocale storage_order \<subseteq> runtime_order
  by unfold_locales (rule keeps_fork_from [OF keeps_insert_fork])

end
