(* ===== verification/JobSystem.thy ===== *)
theory JobSystem
  imports Scheduler KernelStorage
begin

text \<open>
  The scheduler as a transition system.  A step is one call of a public method of \<^verbatim>\<open>DurableJobStore\<close>,
  by any worker, with any clock reading, gate and permits, whether it succeeds or raises.  What the steps
  preserve together (\<open>sound\<close>) is the invariant of the \<^verbatim>\<open>jobs\<close> table, that every job of a turn refers to a
  stored turn and its thread, and that turn identities are unique.
\<close>

section \<open>Jobs and their turns\<close>

definition attached :: "db \<Rightarrow> bool" where
  "attached s = (\<forall>j \<in> set (db_jobs s). \<forall>u. jb_turn j = Some u \<longrightarrow> (\<exists>h. jb_thread j = Some h \<and> owns_turn h u s))"

definition sound :: "db \<Rightarrow> bool" where
  "sound s = (jobs_inv (db_jobs s) \<and> attached s \<and> distinct (map tn_id (db_turns s)))"

definition sound_step :: "db \<Rightarrow> db \<Rightarrow> bool" where
  "sound_step s s' = (sound s \<longrightarrow> sound s' \<and> evolve (db_jobs s) (db_jobs s'))"

interpretation soundness: db_order sound_step
  by unfold_locales (auto simp: sound_step_def intro: evolve_trans)

text \<open>Turns keep their identity and their thread, and identities stay unique.\<close>

definition turns_step :: "db \<Rightarrow> db \<Rightarrow> bool" where
  "turns_step s s' =
     ((\<exists>ts. map (\<lambda>t. (tn_id t, tn_thread t)) (db_turns s') = map (\<lambda>t. (tn_id t, tn_thread t)) (db_turns s) @ ts) \<and>
      (distinct (map tn_id (db_turns s)) \<longrightarrow> distinct (map tn_id (db_turns s'))))"

lemma turns_step_same: "db_turns s' = db_turns s \<Longrightarrow> turns_step s s'"
  by (simp add: turns_step_def)

lemma map_update_turns:
  "(\<And>r. tn_id (f r) = tn_id r \<and> tn_thread (f r) = tn_thread r) \<Longrightarrow>
   map (\<lambda>t. (tn_id t, tn_thread t)) (update_rows p f rs) = map (\<lambda>t. (tn_id t, tn_thread t)) rs"
  "(\<And>r. tn_id (f r) = tn_id r \<and> tn_thread (f r) = tn_thread r) \<Longrightarrow> map tn_id (update_rows p f rs) = map tn_id rs"
  by simp_all

interpretation turns_storage: storage_order turns_step
proof unfold_locales
  show "keeps turns_step (append_in_transaction E rq)" for E rq
    by (rule keepsI, rule keeps_wp [OF keeps_only_log_append]) (simp add: only_log_def turns_step_same)
  show "keeps turns_step (insert_turn t)" for t
    by (auto simp: keeps_def wp_simps insert_turn_def turns_step_def list_ex_iff)
qed (auto simp: keeps_def wp_simps turns_step_def update_turn_def update_item_def update_interaction_def
    update_job_def upsert_scheduler_def retire_row_execution_permit_def insert_item_def insert_job_def
    insert_context_def insert_thread_def insert_interaction_def update_thread_def
    insert_revision_def insert_batch_def map_update_turns)

lemma owns_turn_iff: "owns_turn h u s \<longleftrightarrow> (u, h) \<in> set (map (\<lambda>t. (tn_id t, tn_thread t)) (db_turns s))"
  by (auto simp: owns_turn_def list_ex_iff)

lemma turns_step_owns: "turns_step s s' \<Longrightarrow> owns_turn h u s \<Longrightarrow> owns_turn h u s'"
  unfolding turns_step_def owns_turn_iff by (elim conjE exE) (simp del: set_map)

lemma owns_turn_unique:
  "distinct (map tn_id (db_turns s)) \<Longrightarrow> owns_turn h u s \<Longrightarrow> owns_turn h' u s \<Longrightarrow> h = h'"
  by (auto simp: owns_turn_def list_ex_iff distinct_map dest: inj_onD)

lemma attached_evolve:
  assumes "attached s" and "evolve (db_jobs s) (db_jobs s')" and "same_ids s s'" and "turns_step s s'"
  shows "attached s'"
  unfolding attached_def
proof (intro ballI allI impI)
  fix j u
  assume j: "j \<in> set (db_jobs s')" "jb_turn j = Some u"
  have "length (db_jobs s') = length (db_jobs s)" using assms(3) unfolding same_ids_def by (metis length_map)
  then obtain i where "i < length (db_jobs s)" "j = db_jobs s' ! i" using j(1) by (auto simp: in_set_conv_nth)
  then have "db_jobs s ! i \<in> set (db_jobs s)" "job_le (db_jobs s ! i) j" using assms(2) by (simp_all add: evolve_def)
  then obtain h where "jb_thread j = Some h" "owns_turn h u s"
    using assms(1) j(2) unfolding attached_def job_le_def by metis
  then show "\<exists>h. jb_thread j = Some h \<and> owns_turn h u s'" using turns_step_owns [OF assms(4)] by blast
qed

lemma sound_good: "good s s' \<Longrightarrow> same_ids s s' \<Longrightarrow> turns_step s s' \<Longrightarrow> sound_step s s'"
  using attached_evolve by (auto simp: sound_step_def sound_def good_def turns_step_def)

lemma sound_from_good:
  assumes "keeps good m" and "keeps same_ids m" and "keeps turns_step m"
  shows "keeps sound_step m"
  using assms by (auto simp: keeps_def intro: sound_good wp_mono [OF wp_conj [OF wp_conj]])

lemma sound_from_same: "keeps same_jobs m \<Longrightarrow> keeps turns_step m \<Longrightarrow> keeps sound_step m"
  by (intro sound_from_good good_same) (auto intro!: keepsI wp_same_jobs [of m] simp: same_ids_def)

section \<open>Enqueue\<close>

text \<open>The callers of \<^verbatim>\<open>enqueue\<close> that name a turn name a stored one and its thread.\<close>

definition linked :: "enqueue_req \<Rightarrow> db \<Rightarrow> bool" where
  "linked q s = (\<forall>u. eq_turn q = Some u \<longrightarrow> (\<exists>h. eq_thread q = Some h \<and> owns_turn h u s))"

definition agreeing :: "enqueue_req \<Rightarrow> db \<Rightarrow> bool" where
  "agreeing q s = (\<forall>j \<in> set (db_jobs s). eq_turn q \<noteq> None \<longrightarrow> jb_turn j = eq_turn q \<longrightarrow> jb_thread j = eq_thread q)"

lemma linked_agreeing: "sound s \<Longrightarrow> linked q s \<Longrightarrow> agreeing q s"
  unfolding sound_def linked_def agreeing_def attached_def using owns_turn_unique by fastforce

lemma jobs_inv_snoc:
  assumes "jobs_inv J" and "jb_id r \<notin> jb_id ` set J" "jb_key r \<notin> jb_key ` set J" "lease_ok r"
    and "0 \<le> jb_attempt r" "0 < jb_max_attempts r" "\<not> executing (jb_status r)"
    and "\<And>j. j \<in> set J \<Longrightarrow> jb_turn r \<noteq> None \<Longrightarrow> jb_turn j = jb_turn r \<Longrightarrow> jb_thread j = jb_thread r"
  shows "jobs_inv (J @ [r])"
proof -
  have "lead (J @ [r])" using assms(1,7) lead_append_iff [of J r "[]"] by (simp add: jobs_inv_def)
  moreover have "turn_thread (J @ [r])"
    unfolding turn_thread_def
  proof (intro ballI impI)
    fix a b
    assume h: "a \<in> set (J @ [r])" "b \<in> set (J @ [r])" "jb_turn a \<noteq> None" "jb_turn a = jb_turn b"
    have "turn_thread J" using assms(1) by (simp add: jobs_inv_def)
    then have "jb_thread a = jb_thread b" if "a \<in> set J" "b \<in> set J"
      unfolding turn_thread_def using that h(3,4) by blast
    moreover have "a \<in> set J \<or> a = r" "b \<in> set J \<or> b = r" using h(1,2) by auto
    ultimately show "jb_thread a = jb_thread b" using assms(8) h(3,4) by metis
  qed
  moreover have "distinct (map jb_id (J @ [r]))" "distinct (map jb_key (J @ [r]))"
    using assms(1-3) by (simp_all add: jobs_inv_def)
  ultimately show ?thesis using assms(1,4-6) by (simp add: jobs_inv_def)
qed

lemma evolve_snoc: "evolve J (J @ [r])"
  by (simp add: evolve_def nth_append)

lemma wp_insert_job:
  assumes "good s0 s" and "jb_status r = JobQueued"
    and "\<And>j. j \<in> set (db_jobs s) \<Longrightarrow> jb_turn r \<noteq> None \<Longrightarrow> jb_turn j = jb_turn r \<Longrightarrow> jb_thread j = jb_thread r"
    and "\<And>s'. db_jobs s' = db_jobs s @ [r] \<Longrightarrow> good s0 s' \<Longrightarrow> Q () s'"
  shows "wp (insert_job r) Q s"
  unfolding insert_job_def wp_bind wp_read wp_seq wp_require wp_modify
proof (intro impI)
  assume h: "lease_ok r" "0 \<le> jb_attempt r \<and> 0 < jb_max_attempts r \<and>
      \<not> list_ex (\<lambda>j. jb_id j = jb_id r \<or> jb_key j = jb_key r) (db_jobs s)"
  let ?s = "s\<lparr>db_jobs := db_jobs s @ [r]\<rparr>"
  have "jobs_inv (db_jobs s) \<Longrightarrow> jobs_inv (db_jobs s @ [r])"
    using h assms(2,3) by (intro jobs_inv_snoc) (auto simp: list_ex_iff)
  then have "good s0 ?s"
    using assms(1) evolve_snoc by (auto simp: good_def intro: evolve_trans)
  then show "Q () ?s" by (intro assms(4)) simp
qed

lemma agreeing_same: "agreeing q s \<Longrightarrow> db_jobs s' = db_jobs s \<Longrightarrow> agreeing q s'"
  by (simp add: agreeing_def)

lemma keeps_same_jobs_context [same_jobs_rules]:
  "keeps same_jobs (if eq_context q = [] then ret ()
     else seq (require b e) (insert_context i (context_of_dict (eq_context q))))"
  by (intro same_jobs_intros same_jobs_rules)

lemma wp_insert_enqueued:
  assumes "agreeing q s"
  shows "wp (insert_enqueued E q now) (\<lambda>_ s'. good s s') s"
  unfolding insert_enqueued_def Let_def wp_bind wp_seq
proof ((rule wp_same_jobs, intro same_jobs_intros same_jobs_rules)+, rule wp_insert_job [of s])
  fix i a and s1 s2 s3 :: db
  assume s1: "db_jobs s1 = db_jobs s" and s2: "db_jobs s2 = db_jobs s1"
  let ?r = "queued_job q i (case eq_available_at q of None \<Rightarrow> now | Some t \<Rightarrow> t) now"
  show "good s s2" using s1 s2 by (simp add: good_def)
  show "jb_status ?r = JobQueued" by (simp add: queued_job_def)
  show "jb_thread j = jb_thread ?r" if "j \<in> set (db_jobs s2)" "jb_turn ?r \<noteq> None" "jb_turn j = jb_turn ?r" for j
    using assms that s1 s2 by (auto simp: agreeing_def queued_job_def)
  assume "good s s3"
  then show "wp (if eq_context q = [] then ret ()
      else seq (require (list_all (\<lambda>k. map_of (eq_context q) k \<noteq> None) context_fields)
             (ValueError ''job event context is incomplete'')) (insert_context i (context_of_dict (eq_context q))))
      (\<lambda>_. wp (ret ?r) (\<lambda>_ s'. good s s')) s3"
    unfolding wp_ret by (intro wp_same_jobs same_jobs_rules) (simp add: good_def)
qed

lemma good_enqueue: "agreeing q s \<Longrightarrow> wp (enqueue_in_transaction E q now) (\<lambda>_ s'. good s s') s"
  unfolding enqueue_in_transaction_def enqueue_valid_def
  by (simp add: wp_simps scheduling.R_refl wp_insert_enqueued)

lemma wp_enqueue_adds:
  "wp (enqueue_in_transaction E q now)
    (\<lambda>_ s'. \<forall>j \<in> set (db_jobs s'). j \<in> set (db_jobs s) \<or> jb_turn j = eq_turn q \<and> jb_thread j = eq_thread q) s"
proof -
  let ?Q = "\<lambda>_ s'. \<forall>j \<in> set (db_jobs s'). j \<in> set (db_jobs s) \<or> jb_turn j = eq_turn q \<and> jb_thread j = eq_thread q"
  have ins: "wp (insert_job (queued_job q i a now)) ?Q t" if "db_jobs t = db_jobs s" for i a t
    using that by (auto simp: insert_job_def wp_simps queued_job_def)
  have "wp (insert_enqueued E q now) ?Q s"
    unfolding insert_enqueued_def Let_def wp_bind wp_seq
  proof ((rule wp_same_jobs, intro same_jobs_intros same_jobs_rules)+, rule wp_mono [OF ins])
    fix i a b and s1 s2 s3 :: db
    let ?r = "queued_job q i (case eq_available_at q of None \<Rightarrow> now | Some t \<Rightarrow> t) now"
    assume "?Q b s3"
    then show "wp (if eq_context q = [] then ret ()
        else seq (require (list_all (\<lambda>k. map_of (eq_context q) k \<noteq> None) context_fields)
             (ValueError ''job event context is incomplete'')) (insert_context i (context_of_dict (eq_context q))))
      (\<lambda>_. wp (ret ?r) ?Q) s3"
      unfolding wp_ret by (intro wp_same_jobs same_jobs_rules) simp
  qed simp
  then show ?thesis
    unfolding enqueue_in_transaction_def enqueue_valid_def by (auto simp: wp_simps)
qed

lemma sound_enqueue:
  assumes "linked q s"
  shows "wp (enqueue_in_transaction E q now) (\<lambda>_ s'. sound_step s s') s"
proof (cases "sound s")
  case True
  have "wp (enqueue_in_transaction E q now) (\<lambda>_ s'. turns_step s s') s"
    using turns_storage.keeps_enqueue by (simp add: keeps_def)
  from wp_conj [OF wp_conj [OF good_enqueue [OF linked_agreeing [OF True assms]] this] wp_enqueue_adds]
  show ?thesis
  proof (rule wp_mono)
    fix a s'
    assume h: "(good s s' \<and> turns_step s s') \<and>
      (\<forall>j \<in> set (db_jobs s'). j \<in> set (db_jobs s) \<or> jb_turn j = eq_turn q \<and> jb_thread j = eq_thread q)"
    have "attached s'"
      unfolding attached_def
    proof (intro ballI allI impI)
      fix j u
      assume j: "j \<in> set (db_jobs s')" "jb_turn j = Some u"
      then have "\<exists>h. jb_thread j = Some h \<and> owns_turn h u s"
        using h True assms unfolding sound_def attached_def linked_def by metis
      then show "\<exists>h. jb_thread j = Some h \<and> owns_turn h u s'" using h turns_step_owns by blast
    qed
    then show "sound_step s s'" using h by (auto simp: sound_step_def sound_def good_def turns_step_def)
  qed
qed (simp add: sound_step_def)

section \<open>Steps\<close>

text \<open>\<open>job_call\<close> has every method that writes but \<^verbatim>\<open>lease_next\<close>, which alone hands out leases.\<close>

inductive job_call :: "db \<Rightarrow> db \<Rightarrow> bool" where
  enqueue: "linked q s \<Longrightarrow> job_call s (snd (enqueue E A q now s))"
| deadline: "job_call s (snd (expire_deadline E A i now s))"
| reclaim: "job_call s (snd (reclaim_expired E A now s))"
| start: "job_call s (snd (start E A i w t now s))"
| heartbeat: "job_call s (snd (heartbeat E A i w t n c now s))"
| complete: "job_call s (snd (complete E A i w t now s))"
| fail: "job_call s (snd (fail E A i w t error retryable delay now s))"
| wait: "job_call s (snd (wait_for_human E A i w t now s))"
| resume: "job_call s (snd (resume_waiting E A i now s))"
| cancel: "job_call s (snd (cancel E A i reason now s))"

inductive job_step :: "db \<Rightarrow> db \<Rightarrow> bool" where
  call: "job_call s s' \<Longrightarrow> job_step s s'"
| lease: "job_step s (snd (lease_next E A g w n kinds now s))"

text \<open>The contract of the operations inside their transactions; every step then respects it.\<close>

locale call_contract = db_order +
  assumes enqueue_keeps: "linked q s \<Longrightarrow> wp (enqueue_in_transaction E q now) (\<lambda>_ s'. R s s') s"
    and expire_keeps: "keeps R (expire_deadlines_in_transaction E now due)"
    and reclaim_keeps: "keeps R (reclaim_expired_in_transaction E now)"
    and start_keeps: "keeps R (start_in_transaction E i w t now)"
    and heartbeat_keeps: "keeps R (heartbeat_in_transaction E i w t n c now)"
    and finish_keeps: "\<not> executing target \<Longrightarrow> keeps R (finish_in_transaction E i w t target ev error av now)"
    and resume_keeps: "keeps R (resume_in_transaction E i now)"
    and cancel_keeps: "keeps R (cancel_in_transaction E i reason now)"
begin

lemma with_deadline_keeps: "keeps R m \<Longrightarrow> keeps R (with_deadline E i now m)"
  unfolding with_deadline_def by (intro keeps_intros expire_keeps)

lemma finish_owned_keeps: "\<not> executing target \<Longrightarrow> R s (snd (finish_owned E A i w t target ev error av now s))"
  unfolding finish_owned_def deadline_result_state by (intro execution_keeps with_deadline_keeps finish_keeps)

lemma control: "keeps R m \<Longrightarrow> R s (snd (control_transaction A scope sub m s))"
  by (intro control_keeps) (auto simp: keeps_def)

lemma fail_target_idle: "fail_target b j d now = (target, ev, av) \<Longrightarrow> \<not> executing target"
  by (auto simp: fail_target_def split: if_splits)

lemma call_respects: "job_call s s' \<Longrightarrow> R s s'"
proof (induction rule: job_call.induct)
  case (enqueue q s E A now)
  then have "linked (q\<lparr>eq_job_id := None\<rparr>) s" by (simp add: linked_def)
  then show ?case unfolding enqueue_def by (intro control_keeps enqueue_keeps)
next
  case (deadline s E A i now)
  show ?case unfolding expire_deadline_def by (intro control keeps_intros expire_keeps)
next
  case (reclaim s E A now)
  show ?case unfolding reclaim_expired_def by (intro control keeps_intros expire_keeps reclaim_keeps)
next
  case (start s E A i w t now)
  show ?case unfolding start_def deadline_result_state by (intro execution_keeps with_deadline_keeps start_keeps)
next
  case (heartbeat s E A i w t n c now)
  have "R s (snd (deadline_result (execution_transaction A i t now
      (with_deadline E i now (heartbeat_in_transaction E i w t n c now)) s)))"
    unfolding deadline_result_state by (intro execution_keeps with_deadline_keeps heartbeat_keeps)
  then show ?case by (simp add: heartbeat_def R_refl)
next
  case (complete s E A i w t now)
  show ?case unfolding complete_def by (rule finish_owned_keeps) simp
next
  case (fail s E A i w t error retryable delay now)
  show ?case
    by (auto simp: fail_def R_refl split: sum.splits prod.splits dest!: fail_target_idle intro!: finish_owned_keeps)
next
  case (wait s E A i w t now)
  show ?case unfolding wait_for_human_def by (rule finish_owned_keeps) simp
next
  case (resume s E A i now)
  show ?case unfolding resume_waiting_def by (intro control resume_keeps)
next
  case (cancel s E A i reason now)
  show ?case unfolding cancel_def by (intro control cancel_keeps)
qed

end

text \<open>Only \<open>lease_next\<close> hands out leases; a relation that allows them respects every step.\<close>

locale job_contract = call_contract +
  assumes lease_next_keeps: "keeps R (lease_next_in_admission E w n kinds now)"
begin

lemma respects: "job_step s s' \<Longrightarrow> R s s'"
  by (induction rule: job_step.induct) (intro call_respects lease_keeps lease_next_keeps; assumption?)+

lemma run: "job_step\<^sup>*\<^sup>* s s' \<Longrightarrow> R s s'"
  by (induction rule: rtranclp_induct) (auto intro: R_refl R_trans respects)

end

lemma sound_calls:
  "keeps sound_step (expire_deadlines_in_transaction E now due)" "keeps sound_step (reclaim_expired_in_transaction E now)"
  "keeps sound_step (lease_next_in_admission E w n kinds now)" "keeps sound_step (start_in_transaction E i w t now)"
  "keeps sound_step (heartbeat_in_transaction E i w t n c now)" "keeps sound_step (resume_in_transaction E i now)"
  "\<not> executing target \<Longrightarrow> keeps sound_step (finish_in_transaction E i w t target ev error av now)"
  "keeps sound_step (cancel_in_transaction E i reason now)"
  by (intro sound_from_good good_expire good_reclaim good_lease_next good_start good_heartbeat good_finish good_resume
      good_cancel identity_storage.keeps_expire_deadlines identity_storage.keeps_reclaim identity_leases.keeps_lease_next
      identity_storage.keeps_start identity_storage.keeps_heartbeat identity_storage.keeps_finish
      identity_storage.keeps_resume identity_storage.keeps_cancel turns_storage.keeps_expire_deadlines
      turns_storage.keeps_reclaim turns_storage.keeps_lease_next turns_storage.keeps_start turns_storage.keeps_heartbeat
      turns_storage.keeps_finish turns_storage.keeps_resume turns_storage.keeps_cancel; assumption)+

interpretation scheduler: job_contract sound_step
  by unfold_locales (simp_all add: sound_enqueue sound_calls)

text \<open>Every relation the statements and the operations on turns respect is a job contract.\<close>

sublocale create_order \<subseteq> call_contract
  by unfold_locales
     (simp_all add: keeps_enqueue [unfolded keeps_def] keeps_expire_deadlines keeps_reclaim keeps_start keeps_heartbeat
       keeps_finish keeps_resume keeps_cancel)

sublocale runtime_order \<subseteq> job_contract
  by unfold_locales (rule keeps_lease_next)

end
