(* ===== verification/KernelJobs.thy ===== *)
theory KernelJobs
  imports JobSystem
begin

text \<open>
  The operations of \<^verbatim>\<open>kernel.py\<close> and \<^verbatim>\<open>interactions.py\<close> and the \<^verbatim>\<open>jobs\<close> table: like those of \<^verbatim>\<open>jobs.py\<close>
  they preserve \<open>jobs_inv\<close> and change rows only as \<open>evolve\<close> allows.  A loop closes the jobs it has read
  before, one update after the other; a job a turn is accepted with belongs to the thread of the
  turn because every job of an earlier turn refers to a stored turn (\<open>attached\<close>).
\<close>

section \<open>Operations that leave the jobs alone\<close>

lemma keeps_same_jobs_inputs [same_jobs_rules]:
  "keeps same_jobs (insert_revision r)" "keeps same_jobs (insert_batch b)"
  by (simp_all add: keeps_def wp_simps insert_revision_def insert_batch_def same_jobs_def)

lemma keeps_same_jobs_conflict: "keeps same_jobs m \<Longrightarrow> keeps same_jobs (integrity_conflict e m)"
  by (simp add: keeps_def wp_integrity_conflict)

lemma keeps_same_jobs_reads [same_jobs_rules]:
  "keeps same_jobs (require_turn i)" "keeps same_jobs (require_item i)" "keeps same_jobs (require_thread i b)"
  "keeps same_jobs (read_interaction E i)" "keeps same_jobs (require_interaction i)" "keeps same_jobs (owned_row i w t now)"
  "keeps same_jobs (assert_transition st st')" "keeps same_jobs (match_client_intent_in_transaction h u q)"
  unfolding require_turn_def require_item_def require_thread_def read_interaction_def require_interaction_def owned_row_def
    assert_transition_def match_client_intent_in_transaction_def
  by (intro same_jobs_intros same_jobs_rules)+

lemma keeps_same_jobs_projections [same_jobs_rules]:
  "keeps same_jobs (read_item E i)" "keeps same_jobs (read_thread i b)" "keeps same_jobs (read_turn i)"
  "keeps same_jobs (turn_mutation t job h)" "keeps same_jobs (turn_of_job j)" "keeps same_jobs (settled_response i u h)"
  unfolding read_item_def read_thread_def read_turn_def turn_mutation_def turn_of_job_def settled_response_def
  by (intro same_jobs_intros same_jobs_rules)+

lemma keeps_same_jobs_content [same_jobs_rules]: "keeps same_jobs (content_dict r)" "keeps same_jobs (update_content i c now)"
  by (cases "it_content r"; simp add: content_dict_def jobs_frame.keeps_raise jobs_frame.keeps_ret)
     (simp add: update_content_def same_jobs_rules)

lemma keeps_same_jobs_threads [same_jobs_rules]:
  "keeps same_jobs (create_thread_in_transaction E q now)" "keeps same_jobs (rename_in_transaction E i title c)"
  "keeps same_jobs (status_in_transaction E i st c)" "keeps same_jobs (delete_in_transaction E i c)"
  "keeps same_jobs (pin_in_transaction E i b c)"
  unfolding create_thread_in_transaction_def insert_created_thread_def rename_in_transaction_def status_in_transaction_def
    delete_in_transaction_def pin_in_transaction_def write_thread_fact_def
  by (intro same_jobs_intros same_jobs_rules)+

lemma keeps_same_jobs_create_item [same_jobs_rules]: "keeps same_jobs (create_item_in_transaction E q now)"
  unfolding create_item_in_transaction_def by (intro same_jobs_intros same_jobs_rules)

lemma keeps_same_jobs_items [same_jobs_rules]:
  "keeps same_jobs (message_delta_in_transaction E i d k now)" "keeps same_jobs (task_list_in_transaction E u es k now)"
  "keeps same_jobs (complete_tool_in_transaction E i a k now)" "keeps same_jobs (transition_item_in_transaction E i st now)"
  "keeps same_jobs (apply_delta_in_transaction E u at d k now)"
  unfolding message_delta_in_transaction_def stream_delta_def task_list_in_transaction_def task_list_item_def Let_def
    complete_tool_in_transaction_def write_tool_result_def transition_item_in_transaction_def apply_delta_in_transaction_def
    replay_delta_def extend_atom_def open_atom_def visible_rows_def archive_previous_def
  by (intro same_jobs_intros same_jobs_rules)+

lemma keeps_same_jobs_asks [same_jobs_rules]:
  "keeps same_jobs (create_interaction_in_transaction E q now)" "keeps same_jobs (connector_state_in_transaction E i cst now)"
  "keeps same_jobs (close_item E t u k st r now it)" "keeps same_jobs (close_own_item E row k st r now)"
  "keeps same_jobs (resume_turn E row now)" "keeps same_jobs (cancel_peer E row r now ia)"
  unfolding create_interaction_in_transaction_def insert_requested_def connector_state_in_transaction_def
    write_connector_state_def close_item_def close_own_item_def resume_turn_def cancel_peer_def
  by (intro same_jobs_intros same_jobs_rules)+

lemma keeps_same_jobs_append_inputs [same_jobs_rules]:
  "keeps same_jobs (append_initial_in_transaction E t u q now)" "keeps same_jobs (append_steer_in_transaction E t u q now)"
  "keeps same_jobs (append_authority_refresh_in_transaction E t u q now)"
  "keeps same_jobs (create_batch_in_transaction E u lo hi c i now)"
  unfolding append_initial_in_transaction_def append_steer_in_transaction_def append_authority_refresh_in_transaction_def
    append_next_in_transaction_def insert_revision_in_transaction_def create_batch_in_transaction_def bind_batch_def Let_def
  by (intro same_jobs_intros same_jobs_rules keeps_same_jobs_conflict)+

lemma keeps_same_jobs_steer [same_jobs_rules]: "keeps same_jobs (steer_turn_in_transaction E u q now)"
  unfolding steer_turn_in_transaction_def steer_new_def admit_steer_def Let_def
  by (intro same_jobs_intros same_jobs_rules)

lemma keeps_same_jobs_live_transition:
  "\<not> turn_terminal st \<Longrightarrow> keeps same_jobs (transition_turn_in_transaction E t st r now)"
  unfolding transition_turn_in_transaction_def
  by (simp only: if_False) (intro same_jobs_intros same_jobs_rules)

lemma keeps_same_jobs_finalizing [same_jobs_rules]: "keeps same_jobs (begin_finalizing_in_transaction E u n now)"
  unfolding begin_finalizing_in_transaction_def
  by (intro same_jobs_intros same_jobs_rules keeps_same_jobs_live_transition) (simp add: terminal_defs)

lemma keeps_same_jobs_replays [same_jobs_rules]:
  "keeps same_jobs (replayed_turn t c)" "keeps same_jobs (replay_by_message h q c m)" "keeps same_jobs (replay_by_turn h q c t)"
  "keeps same_jobs (generate_title E th u q og now)" "keeps same_jobs (accept_turn E h u q c og x now)"
  "keeps same_jobs (replace_mutation a b j h)" "keeps same_jobs (replay_replacement t q c e)"
  unfolding replay_by_message_def replay_by_turn_def replayed_turn_def assert_turn_snapshot_context_def generate_title_def
    accept_turn_def replay_replacement_def replace_mutation_def
  by (intro same_jobs_intros same_jobs_rules)+

section \<open>Closing jobs\<close>

lemma closes_kernel_rows [simp]:
  "closes (resume_job_row now)" "\<not> executing st \<Longrightarrow> closes (close_job_row st r now)"
  "\<not> executing st \<Longrightarrow> closes (settle_job_row st x now)" "closes (retry_job_row c a e now)"
  "closes (suspend_job_row cp i now)"
  by (auto simp: closes_def job_le_def resume_job_row_def close_job_row_def settle_job_row_def retry_job_row_def
      suspend_job_row_def clear_lease_def)

text \<open>A loop over rows that were read before it, closing those that are not finished.\<close>

lemma good_close_loop:
  assumes rows: "\<And>s. jobs_inv (db_jobs s) \<Longrightarrow> distinct (map jb_id (rows s)) \<and> set (rows s) \<subseteq> set (db_jobs s)"
    and g: "\<And>j. g j = (if P j then ret () else bind (ev j) (\<lambda>_. update_job (jb_id j) (f j)))"
    and P: "\<And>j. job_terminal (jb_status j) \<Longrightarrow> P j" and ev: "\<And>j. keeps same_jobs (ev j)" and f: "\<And>j. closes (f j)"
  shows "keeps good (bind (read rows) (\<lambda>r. for_each r g))"
proof (rule keepsI)
  fix s :: db
  show "wp (bind (read rows) (\<lambda>r. for_each r g)) (\<lambda>_ s'. good s s') s"
  proof (cases "jobs_inv (db_jobs s)")
    case True
    then have "pend (db_jobs s) (rows s) (db_jobs s)" using rows by (simp add: pend_def)
    then have "wp (for_each (rows s) g) (\<lambda>_ s'. pend (db_jobs s) [] (db_jobs s')) s"
    proof (rule wp_for_each)
      fix x ys and s1 :: db
      assume p: "pend (db_jobs s) (x # ys) (db_jobs s1)"
      show "wp (g x) (\<lambda>_ s'. pend (db_jobs s) ys (db_jobs s')) s1"
      proof (cases "P x")
        case True
        then show ?thesis using p by (simp add: g wp_ret pend_def)
      next
        case False
        show ?thesis unfolding g using False
        proof (simp only: if_False, intro wp_bind_same [OF ev])
          fix a and s2 :: db
          assume s2: "db_jobs s2 = db_jobs s1"
          show "wp (update_job (jb_id x) (f x)) (\<lambda>_ s'. pend (db_jobs s) ys (db_jobs s')) s2"
          proof (rule wp_close [of s2 x])
            show "jobs_inv (db_jobs s2)" "x \<in> set (db_jobs s2)" using p s2 by (simp_all add: pend_def)
            show "\<not> job_terminal (jb_status x)" using P False by blast
            show "closes (f x)" by (rule f)
            fix s3 :: db
            assume s3: "jobs_inv (db_jobs s3)" "evolve (db_jobs s2) (db_jobs s3)"
              "db_jobs s3 = update_rows (\<lambda>r. jb_id r = jb_id x) (f x) (db_jobs s2)"
            have "pend (db_jobs s) ys (db_jobs s2)" "jb_id x \<notin> jb_id ` set ys" using p s2 by (simp_all add: pend_def)
            then show "pend (db_jobs s) ys (db_jobs s3)" using pend_close [OF _ s3] by blast
          qed
        qed
      qed
    qed
    then show ?thesis
      unfolding wp_bind wp_read by (rule wp_mono) (auto simp: pend_def good_def)
  qed (simp add: wp_def good_def split: sum.splits)
qed

lemma rows_of_turn:
  "jobs_inv (db_jobs s) \<Longrightarrow> distinct (map jb_id (jobs_of_turn u s)) \<and> set (jobs_of_turn u s) \<subseteq> set (db_jobs s)"
  "jobs_inv (db_jobs s) \<Longrightarrow> distinct (map jb_id (filter Q (db_jobs s))) \<and> set (filter Q (db_jobs s)) \<subseteq> set (db_jobs s)"
  by (auto simp: jobs_of_turn_def jobs_inv_def distinct_filter_sort distinct_map_filter)

text \<open>Splitting a loop from what follows it.\<close>

lemma good_loop_then:
  assumes "keeps good (bind (read rows) (\<lambda>r. for_each r g))" and "keeps good k"
  shows "keeps good (bind (read rows) (\<lambda>r. seq (for_each r g) k))"
proof -
  have "bind (read rows) (\<lambda>r. seq (for_each r g) k) = seq (bind (read rows) (\<lambda>r. for_each r g)) k"
    by (simp add: fun_eq_iff bind_def seq_def read_def)
  then show ?thesis using scheduling.keeps_seq [OF assms] by simp
qed

lemma wp_seq_eta: "wp (seq m k) Q = wp m (\<lambda>_. wp k Q)"
  by (rule ext) (rule wp_seq)

text \<open>An update of a job the operation has just read, with anything good after it.\<close>

lemma good_row_then:
  assumes "find_job i s = Some j" and m: "keeps same_jobs m" and k: "\<And>a. keeps good (k a)"
    and f: "jobs_inv (db_jobs s) \<Longrightarrow> \<not> job_terminal (jb_status j)" "closes f"
  shows "wp (bind m (\<lambda>a. seq (update_job i f) (k a))) (\<lambda>_ s'. good s s') s"
proof -
  have "wp (bind m (\<lambda>a. seq (update_job i f) (ret a))) (\<lambda>_ s'. good s s') s"
    by (rule good_row_update [OF assms(1) m]) (use f in \<open>auto simp: closes_def jobs_frame.keeps_ret\<close>)
  then have "wp m (\<lambda>a. wp (update_job i f) (\<lambda>_ s'. good s s')) s" by (simp add: wp_bind wp_seq_eta wp_ret_eta)
  then have "wp m (\<lambda>a. wp (update_job i f) (\<lambda>_. wp (k a) (\<lambda>_ s'. good s s'))) s"
    by (auto elim!: wp_mono intro!: keeps_wp [OF k] intro: scheduling.R_trans)
  then show ?thesis by (simp add: wp_bind wp_seq_eta)
qed

section \<open>Turns\<close>

lemma settled_job_idle: "\<not> executing (fst (settled_job st))"
  by (cases st) simp_all

lemma good_settle: "keeps good (settle_turn_dependents_in_transaction E t st r now)"
  unfolding settle_turn_dependents_in_transaction_def
proof (rule good_loop_then)
  show "keeps good (bind (read (jobs_of_turn (tn_id t))) (\<lambda>jobs. for_each jobs (settle_job E t st r now)))"
    by (rule good_close_loop [where g = "settle_job E t st r now", OF rows_of_turn(1) settle_job_def])
       (auto simp: settled_job_idle same_jobs_rules)
qed (intro good_same same_jobs_intros same_jobs_rules, auto simp: settle_interaction_def settle_item_def
    intro!: same_jobs_intros same_jobs_rules)

lemma good_transition_turn: "keeps good (transition_turn_in_transaction E t st r now)"
  unfolding transition_turn_in_transaction_def
  by (intro scheduling.keeps_intros good_settle good_same same_jobs_rules)

lemma good_cancel_turn_jobs: "keeps good (cancel_turn_jobs_in_transaction E t r now)"
  unfolding cancel_turn_jobs_in_transaction_def
  by (rule good_close_loop [where g = "cancel_turn_job E t r now", OF rows_of_turn(1) cancel_turn_job_def])
     (auto simp: same_jobs_rules)

lemma good_interrupt: "keeps good (interrupt_turn_in_transaction E u r now)"
  unfolding interrupt_turn_in_transaction_def
  by (intro scheduling.keeps_intros good_cancel_turn_jobs good_transition_turn good_same same_jobs_rules)

lemma good_finish_turn_job: "keeps good (finish_turn_job_in_transaction E i w t st r now)"
  unfolding finish_turn_job_in_transaction_def
  by (intro scheduling.keeps_intros good_transition_turn good_same same_jobs_rules)

lemma good_owned:
  assumes "\<And>j s. find_job i s = Some j \<Longrightarrow> (jobs_inv (db_jobs s) \<Longrightarrow> \<not> job_terminal (jb_status j)) \<Longrightarrow>
      wp (k j) (\<lambda>_ s'. good s s') s"
  shows "keeps good (bind (owned_row i w t now) k)"
proof (rule keepsI)
  fix s :: db
  show "wp (bind (owned_row i w t now) k) (\<lambda>_ s'. good s s') s"
    unfolding wp_bind wp_owned_row
  proof (intro allI impI assms)
    fix j
    assume j: "find_job i s = Some j" "jb_lease_owner j = Some w"
    then show "find_job i s = Some j" by simp
    assume "jobs_inv (db_jobs s)"
    then show "\<not> job_terminal (jb_status j)"
      using j owner_executes find_jobD [OF j(1)] not_terminal_executing by blast
  qed
qed

lemma good_from_same:
  assumes "keeps same_jobs m" and "\<And>a s'. db_jobs s' = db_jobs s \<Longrightarrow> wp (k a) (\<lambda>_ s''. good s' s'') s'"
  shows "wp (bind m k) (\<lambda>_ s''. good s s'') s"
proof (rule wp_bind_same [OF assms(1)])
  fix a and s' :: db
  assume s': "db_jobs s' = db_jobs s"
  show "wp (k a) (\<lambda>_ s''. good s s'') s'"
    by (rule wp_mono [OF assms(2) [OF s']]) (simp add: good_def s')
qed

lemma good_mono_jobs: "wp m (\<lambda>_. good s') s' \<Longrightarrow> db_jobs s' = db_jobs s \<Longrightarrow> wp m (\<lambda>_. good s) s'"
  by (erule wp_mono) (simp add: good_def)

lemma seq_ret: "seq m (ret ()) = m"
  by (simp add: fun_eq_iff seq_def bind_def ret_def split: sum.splits prod.splits)

lemma good_row:
  assumes "find_job i s = Some j" and "keeps same_jobs m" and "jobs_inv (db_jobs s) \<Longrightarrow> \<not> job_terminal (jb_status j)" "closes f"
  shows "wp (bind m (\<lambda>_. update_job i f)) (\<lambda>_ s'. good s s') s"
  using good_row_then [where k = "\<lambda>_. ret ()", OF assms(1,2) scheduling.keeps_ret assms(3,4)] by (simp add: seq_ret)

lemma good_fail_turn_job: "keeps good (fail_turn_job_in_transaction E i w t e b d p now)"
  unfolding fail_turn_job_in_transaction_def
proof (rule good_owned, rule good_from_same [OF keeps_same_jobs_projections(5)])
  fix j s a and s' :: db
  assume j: "find_job i s = Some j" "jobs_inv (db_jobs s) \<Longrightarrow> \<not> job_terminal (jb_status j)" and s': "db_jobs s' = db_jobs s"
  have f: "find_job (jb_id j) s' = Some j" "jobs_inv (db_jobs s') \<Longrightarrow> \<not> job_terminal (jb_status j)"
    using j s' find_jobD [OF j(1)] by (simp_all add: find_job_def)
  have "wp (schedule_turn_retry E j turn e d p now) (\<lambda>_ s''. good s' s'') s'" for turn
    unfolding schedule_turn_retry_def Let_def wp_seq [of "assert_transition _ _"] wp_assert_transition
    by (intro impI good_row_then [OF f(1) _ _ f(2)] keeps_same_jobs_job_event good_transition_turn) simp_all
  moreover have "wp (fail_whole_turn E j turn e b now) (\<lambda>_ s''. good s' s'') s'" for turn
    unfolding fail_whole_turn_def Let_def wp_seq [of "assert_transition _ _"] wp_assert_transition
    by (intro impI good_row_then [OF f(1) _ _ f(2)] keeps_same_jobs_job_event good_transition_turn) simp_all
  ultimately have w: "wp (if b \<and> jb_attempt j < jb_max_attempts j then schedule_turn_retry E j turn e d p now
      else fail_whole_turn E j turn e b now) (\<lambda>_ s''. good s' s'') s'" for turn by simp
  have "wp (seq (if b \<and> jb_attempt j < jb_max_attempts j then schedule_turn_retry E j turn e d p now
      else fail_whole_turn E j turn e b now) (settled_response i (tn_id turn) h)) (\<lambda>_ s''. good s' s'') s'" for h turn
    unfolding wp_seq
    by (rule wp_mono [OF w], rule wp_same_jobs [OF keeps_same_jobs_projections(6)]) (simp add: good_def)
  then show "wp (case a of (h, turn) \<Rightarrow> seq (if b \<and> jb_attempt j < jb_max_attempts j then schedule_turn_retry E j turn e d p now
        else fail_whole_turn E j turn e b now) (settled_response i (tn_id turn) h)) (\<lambda>_ s''. good s' s'') s'"
    by (cases a) simp
qed

lemma good_request_interaction: "keeps good (request_interaction_in_transaction E i w t k now)"
  unfolding request_interaction_in_transaction_def
proof (intro scheduling.keeps_bind [OF scheduling.keeps_read] scheduling.keeps_case_option, goal_cases)
  case 1
  show ?case
  proof (rule good_owned)
    fix j and s :: db
    assume j: "find_job i s = Some j" "jobs_inv (db_jobs s) \<Longrightarrow> \<not> job_terminal (jb_status j)"
    have live: "keeps good (transition_turn_in_transaction E turn TurnWaitingHuman r now)" for turn r
      by (rule good_transition_turn)
    have "wp (suspend_for_human E k j h turn now) (\<lambda>_ s''. good s' s'') s'" if "db_jobs s' = db_jobs s" for h turn s'
      unfolding suspend_for_human_def
    proof (intro good_from_same [OF keeps_same_jobs_basic(1)] good_from_same [OF keeps_same_jobs_asks(1)]
        good_from_same [OF keeps_same_jobs_create_item])
      fix x y z and s1 s2 s3 :: db
      assume "db_jobs s1 = db_jobs s'" "db_jobs s2 = db_jobs s1" "db_jobs s3 = db_jobs s2"
      then have "db_jobs s3 = db_jobs s" using that by simp
      then have f: "find_job (jb_id j) s3 = Some j" "jobs_inv (db_jobs s3) \<Longrightarrow> \<not> job_terminal (jb_status j)"
        using j find_jobD [OF j(1)] by (simp_all add: find_job_def)
      show "wp (bind (append_in_transaction E
        ((event_req h ''job.waiting_human'' [(''attempt'', JInt (jb_attempt j)), (''interaction_id'', JStr x)])
          \<lparr>rq_turn := Some (tn_id turn), rq_job := Some (jb_id j),
           rq_key := Some (jb_id j @ '':interaction:'' @ x @ '':waiting''), rq_created_at := Some now\<rparr>)) (\<lambda>_.
         seq (update_job (jb_id j) (suspend_job_row (ak_checkpoint k) x now)) (
         seq (transition_turn_in_transaction E turn TurnWaitingHuman (Some ''interaction_requested'') now) (ret y))))
         (\<lambda>_ s''. good s3 s'') s3"
        by (intro good_row_then [OF f(1) _ _ f(2)] keeps_same_jobs_append scheduling.keeps_intros live) simp_all
    qed
    then have "wp (suspend_for_human E k j h turn now) (\<lambda>_. good s) s'" if "db_jobs s' = db_jobs s" for h turn s'
      using good_mono_jobs that by blast
    then show "wp (seq (require (jb_status j = JobRunning)
          (InvalidTransitionError ''only a running job can request human interaction'')) (
        case (jb_thread j, jb_turn j) of
          (Some h, Some u) \<Rightarrow> bind (require_turn u) (\<lambda>turn.
             seq (require (TurnWaitingHuman \<in> set (turn_transitions (tn_status turn)))
                   (InvalidTransitionError ''turn cannot request interaction''))
               (suspend_for_human E k j h turn now))
        | _ \<Rightarrow> raise (ConflictError ''human interaction requires a thread-bound job''))) (\<lambda>_ s'. good s s') s"
      by (auto simp: wp_simps wp_seq_eta split: option.splits
          intro!: wp_same_jobs [OF keeps_same_jobs_reads(1)])
  qed
qed (intro scheduling.keeps_intros good_same same_jobs_rules)

section \<open>Interactions\<close>

lemma wp_found_job:
  assumes "\<And>j. find_job i s = Some j \<Longrightarrow> wp (f j) Q s" and "Q () s"
  shows "wp (bind (read (find_job i)) (\<lambda>x. case x of None \<Rightarrow> ret () | Some j \<Rightarrow> f j)) Q s"
  using assms by (auto simp: wp_simps)

lemma good_resume_job: "keeps good (resume_job E row now)"
  unfolding resume_job_def
  by (cases "ia_job row")
     (auto intro!: keepsI wp_found_job good_row keeps_same_jobs_append simp: wp_ret scheduling.R_refl terminal_defs)

lemma good_resume_dependents: "keeps good (resume_dependents_in_transaction E row now)"
  unfolding resume_dependents_in_transaction_def
  by (intro scheduling.keeps_intros good_resume_job good_same same_jobs_rules)

lemma good_close_waiting_job: "\<not> executing st \<Longrightarrow> keeps good (close_waiting_job E row st r now)"
  unfolding close_waiting_job_def
  by (cases "ia_job row")
     (auto intro!: keepsI wp_found_job good_row keeps_same_jobs_append simp: wp_ret scheduling.R_refl terminal_defs)

lemma good_close_waiting_turn: "\<not> executing jt \<Longrightarrow> keeps good (close_waiting_turn E row u t tt jt it r now)"
  unfolding close_waiting_turn_def
proof (rule good_loop_then)
  assume "\<not> executing jt"
  then show "keeps good (bind (read (\<lambda>s. filter (\<lambda>j. jb_turn j = Some u) (db_jobs s)))
      (\<lambda>jobs. for_each jobs (close_dependent_job E row jt r now)))"
    by (intro good_close_loop [where g = "close_dependent_job E row jt r now", OF rows_of_turn(2) close_dependent_job_def])
       (auto simp: same_jobs_rules)
qed (intro good_same same_jobs_intros same_jobs_rules)

lemma good_close_pending: "keeps good (close_pending_in_transaction E row st ty p now)"
  unfolding close_pending_in_transaction_def Let_def
  by (intro scheduling.keeps_intros good_close_waiting_job good_close_waiting_turn good_same same_jobs_rules) simp_all

lemma good_respond: "keeps good (respond_in_transaction E i raw c now)"
  unfolding respond_in_transaction_def resolve_interaction_def
  by (intro scheduling.keeps_intros good_close_pending good_resume_dependents good_same same_jobs_rules)

lemma good_expire_due: "keeps good (expire_due_in_transaction E now)"
  unfolding expire_due_in_transaction_def expire_row_def
  by (intro scheduling.keeps_intros good_close_pending)

section \<open>Accepting and replacing turns\<close>

lemma wp_insert_turn_owns: "wp (insert_turn t) (\<lambda>_ s'. owns_turn (tn_thread t) (tn_id t) s') s"
  by (simp add: insert_turn_def wp_simps owns_turn_def)

lemma wp_owns_turn: "keeps turns_step m \<Longrightarrow> owns_turn h u s \<Longrightarrow> wp m (\<lambda>_ s'. owns_turn h u s') s"
  by (erule keeps_wp) (rule turns_step_owns)

lemma wp_accept_turn:
  "wp (accept_turn E h u q c og x now) (\<lambda>_ s'. sound_step s s' \<and> owns_turn h u s') s"
proof (rule wp_conj)
  show "wp (accept_turn E h u q c og x now) (\<lambda>_ s'. sound_step s s') s"
    using sound_from_same [OF keeps_same_jobs_replays(5) turns_storage.keeps_accept_turn] by (simp add: keeps_def)
  have ins: "wp (insert_turn (accepted_row u h q now)) (\<lambda>_ s'. owns_turn h u s') t" for t
    using wp_insert_turn_owns [of "accepted_row u h q now" t] by (simp add: accepted_row_def)
  show "wp (accept_turn E h u q c og x now) (\<lambda>_ s'. owns_turn h u s') s"
    unfolding accept_turn_def wp_bind [of "append_in_transaction _ _"] wp_seq [of "insert_turn _"]
    by (rule keeps_wp [OF turns_storage.keeps_append], rule wp_mono [OF ins], erule wp_owns_turn [rotated])
       (intro turns_storage.ops turns_storage.keeps_append_inputs turns_storage.keeps_create_item
          turns_storage.keeps_update_turn, simp)
qed

lemma wp_enqueue_linked:
  assumes "owns_turn h u s" and k: "\<And>j. keeps sound_step (k j)"
  shows "wp (bind (enqueue_in_transaction E (agent_turn_job h u c) now) k) (\<lambda>_ s'. sound_step s s') s"
  unfolding wp_bind
proof (rule wp_mono [OF sound_enqueue])
  show "linked (agent_turn_job h u c) s" using assms(1) by (simp add: linked_def agent_turn_job_def)
  fix j s'
  assume "sound_step s s'"
  then show "wp (k j) (\<lambda>_ s''. sound_step s s'') s'"
    by (intro keeps_wp [OF k]) (rule soundness.R_trans)
qed

lemma sound_new_turn: "keeps sound_step (new_turn E th q c og now)"
proof (rule keepsI)
  fix s :: db
  have fresh: "keeps sound_step (fresh_id E ''trn'')"
    by (rule sound_from_same [OF keeps_same_jobs_basic(1) turns_storage.keeps_fresh_id])
  have rest: "keeps sound_step (seq (generate_title E th u q og now) (bind (read_turn u) (\<lambda>t. ret (t, j))))" for u j
    by (intro sound_from_same same_jobs_intros same_jobs_rules turns_storage.ops turns_storage.keeps_generate_title
        turns_storage.keeps_turn_reads)
  show "wp (new_turn E th q c og now) (\<lambda>_ s'. sound_step s s') s"
    unfolding new_turn_def wp_bind [of "fresh_id _ _"]
  proof (rule keeps_wp [OF fresh])
    fix u s1
    assume s1: "sound_step s s1"
    show "wp (seq (accept_turn E (th_id th) u q c og [] now)
        (bind (enqueue_in_transaction E (agent_turn_job (th_id th) u c) now) (\<lambda>job.
          seq (generate_title E th u q og now) (bind (read_turn u) (\<lambda>t. ret (t, job))))))
      (\<lambda>_ s'. sound_step s s') s1"
      unfolding wp_seq [of "accept_turn E _ _ _ _ _ _ _"]
    proof (rule wp_mono [OF wp_accept_turn], elim conjE)
      fix s2
      assume "sound_step s1 s2" "owns_turn (th_id th) u s2"
      with s1 show "wp (bind (enqueue_in_transaction E (agent_turn_job (th_id th) u c) now) (\<lambda>job.
          seq (generate_title E th u q og now) (bind (read_turn u) (\<lambda>t. ret (t, job)))))
        (\<lambda>_ s'. sound_step s s') s2"
        by (intro wp_mono [OF wp_enqueue_linked [OF _ rest]]) (auto intro: soundness.R_trans)
    qed
  qed
qed

lemma sound_reads:
  "keeps sound_step (require_thread i b)" "keeps sound_step (require_turn i)" "keeps sound_step (replay_by_message h q c m)"
  "keeps sound_step (replay_by_turn h q c t)" "keeps sound_step (replay_replacement t q c e)"
  "keeps sound_step (replace_mutation t u j h)" "keeps sound_step (create_item_in_transaction E iq now)"
  "keeps sound_step (read_turn i)" "keeps sound_step (lift_result x)"
  by (intro sound_from_same keeps_same_jobs_reads keeps_same_jobs_replays keeps_same_jobs_create_item
      keeps_same_jobs_projections keeps_same_jobs_basic turns_storage.keeps_turn_reads turns_storage.keeps_lifted
      turns_storage.keeps_require_thread turns_storage.keeps_require_turn turns_storage.keeps_replays
      turns_storage.keeps_replacement turns_storage.keeps_create_item)+

lemma sound_create_turn: "keeps sound_step (create_turn_in_transaction E V h q c og now)"
  unfolding create_turn_in_transaction_def by (intro soundness.keeps_intros sound_reads sound_new_turn)

lemma sound_cancel_turn_jobs: "keeps sound_step (cancel_turn_jobs_in_transaction E t r now)"
  by (intro sound_from_good good_cancel_turn_jobs identity_storage.keeps_cancel_turn_jobs turns_storage.keeps_cancel_turn_jobs)

lemma sound_transition_turn: "keeps sound_step (transition_turn_in_transaction E t st r now)"
  by (intro sound_from_good good_transition_turn identity_storage.keeps_transition_turn turns_storage.keeps_transition_turn)

lemma sound_move_turn: "keeps sound_step (move_turn_in_transaction E u st r now)"
  unfolding move_turn_in_transaction_def
  by (intro soundness.keeps_intros sound_transition_turn sound_reads)

lemma sound_replace_turn: "keeps sound_step (replace_turn_in_transaction E V u q r c now)"
  unfolding replace_turn_in_transaction_def supersede_turn_def
  by (intro soundness.keeps_intros sound_reads sound_cancel_turn_jobs sound_transition_turn sound_create_turn)

end
