(* ===== verification/OperationJobs.thy ===== *)
theory OperationJobs
  imports KernelJobs
begin

text \<open>
  Operation turns, answers, forks and the retouch bridge preserve the invariant of the \<^verbatim>\<open>jobs\<close> table too.
  The bridge updates the row of its own job, which it has read and whose lease it has checked in the same
  transaction; a retouch job is enqueued for the turn that its client message has been given.
\<close>

section \<open>Operations that leave the jobs alone\<close>

lemma keeps_same_jobs_operation [same_jobs_rules]:
  "keeps same_jobs (operation_valid k q)" "keeps same_jobs (operation_duplicate h c m)"
  "keeps same_jobs (replay_operation h k q cx m t)" "keeps same_jobs (new_operation E h q cx k og now)"
  unfolding operation_valid_def operation_duplicate_def replay_operation_def assert_turn_snapshot_context_def new_operation_def
  by (intro same_jobs_intros same_jobs_rules)+

lemma keeps_same_jobs_operation_turn [same_jobs_rules]:
  "keeps same_jobs (create_operation_turn_in_transaction E V h q c k og now)"
  unfolding create_operation_turn_in_transaction_def Let_def by (intro same_jobs_intros same_jobs_rules)

lemma keeps_same_jobs_answers [same_jobs_rules]:
  "keeps same_jobs (interaction_mutation ia)" "keeps same_jobs (require_login i)"
  "keeps same_jobs (refresh_authority E row u j c q client now)"
  unfolding interaction_mutation_def require_login_def refresh_authority_def
  by (intro same_jobs_intros same_jobs_rules)+

lemma keeps_same_jobs_retouch [same_jobs_rules]:
  "keeps same_jobs (runtime_job rj)" "keeps same_jobs (owned_runtime_job rj w t at)" "keeps same_jobs (execution_turn rj)"
  "keeps same_jobs (retouch_scope_ok sc)" "keeps same_jobs (publish_retouch E rj a h u j now)"
  "keeps same_jobs (report_retouch E rj jo ty text key now)"
  unfolding runtime_job_def owned_runtime_job_def execution_turn_def retouch_scope_ok_def publish_retouch_def report_retouch_def
  by (intro same_jobs_intros same_jobs_rules)+

lemma keeps_same_jobs_fork [same_jobs_rules]: "keeps same_jobs (fork_in_transaction E h q now)"
  unfolding fork_in_transaction_def insert_fork_def fork_boundary_def by (intro same_jobs_intros same_jobs_rules)

section \<open>Answers\<close>

lemma good_resolve_login: "keeps good (resolve_login_in_transaction E i cn q client now)"
  unfolding resolve_login_in_transaction_def
  by (intro scheduling.keeps_intros good_respond good_same same_jobs_rules)

section \<open>The retouch bridge\<close>

lemma good_retouch_transition: "keeps good (retouch_transition E t st r now)"
  unfolding retouch_transition_def by (intro scheduling.keeps_intros good_transition_turn good_same same_jobs_rules)

lemma good_finish_execution_turn: "keeps good (finish_execution_turn E rj st r now)"
  unfolding finish_execution_turn_def
  by (intro scheduling.keeps_intros good_retouch_transition good_same keeps_same_jobs_retouch)

lemma good_report_and_finish: "keeps good (report_and_finish E rj j text now)"
  unfolding report_and_finish_def
  by (intro scheduling.keeps_intros good_finish_execution_turn good_same keeps_same_jobs_retouch)

lemma good_update_then:
  assumes "find_job i s = Some j" and m: "keeps same_jobs m" and k: "\<And>a. keeps good (k a)"
    and f: "jobs_inv (db_jobs s) \<Longrightarrow> job_le j (f j) \<and> (executing (jb_status (f j)) \<longrightarrow> executing (jb_status j))"
  shows "wp (bind m (\<lambda>a. seq (update_job i f) (k a))) (\<lambda>_ s'. good s s') s"
proof -
  have "wp (bind m (\<lambda>a. seq (update_job i f) (ret a))) (\<lambda>_ s'. good s s') s"
    by (rule good_row_update [OF assms(1) m]) (use f in \<open>auto simp: jobs_frame.keeps_ret\<close>)
  then have "wp m (\<lambda>a. wp (update_job i f) (\<lambda>_ s'. good s s')) s" by (simp add: wp_bind wp_seq_eta wp_ret_eta)
  then have "wp m (\<lambda>a. wp (update_job i f) (\<lambda>_. wp (k a) (\<lambda>_ s'. good s s'))) s"
    by (auto elim!: wp_mono intro!: keeps_wp [OF k] intro: scheduling.R_trans)
  then show ?thesis by (simp add: wp_bind wp_seq_eta)
qed

lemma good_owned_runtime:
  assumes "\<And>j s. find_job (jb_id j) s = Some j \<Longrightarrow> (jobs_inv (db_jobs s) \<Longrightarrow> executing (jb_status j)) \<Longrightarrow>
      wp (k j) (\<lambda>_ s'. good s s') s"
  shows "keeps good (bind (owned_runtime_job rj w t at) k)"
proof (rule keepsI)
  fix s :: db
  let ?i = "opt_text (rj_durable rj)"
  have "wp (k j) (\<lambda>_ s'. good s s') s" if j: "find_job ?i s = Some j" "jb_lease_owner j = Some w" for j
    by (rule assms) (use j find_jobD [OF j(1)] owner_executes in auto)
  then show "wp (bind (owned_runtime_job rj w t at) k) (\<lambda>_ s'. good s s') s"
    by (simp add: owned_runtime_job_def wp_bind wp_seq wp_require wp_owned_row)
qed

lemma closes_retouch_rows [simp]:
  "\<not> executing st \<Longrightarrow> closes (retouch_closed_row st now)"
  "\<not> executing st \<Longrightarrow> closes (\<lambda>r. (retouch_closed_row st now r)\<lparr>jb_available_at := av, jb_last_error := x\<rparr>)"
  "\<not> executing st \<Longrightarrow> closes (\<lambda>r. (retouch_closed_row st now r)\<lparr>jb_last_error := x\<rparr>)"
  by (auto simp: closes_def job_le_def retouch_closed_row_def clear_lease_def)

lemma good_running_hook: "keeps good (running_hook E rj w t at now)"
  unfolding running_hook_def
proof (rule good_owned_runtime)
  fix j and s :: db
  assume j: "find_job (jb_id j) s = Some j" "jobs_inv (db_jobs s) \<Longrightarrow> executing (jb_status j)"
  show "wp (seq (assert_transition (jb_status j) JobRunning) (
     bind (append_row_event E j ''job.started'' [(''worker_id'', JStr w), (''attempt'', JInt (jb_attempt j))] now None) (\<lambda>_.
     seq (update_job (jb_id j) (\<lambda>r. r\<lparr>jb_status := JobRunning, jb_updated_at := now\<rparr>)) (
     bind (execution_turn rj) (\<lambda>turn.
     if tn_status turn = TurnQueued
     then bind (retouch_transition E turn TurnPreparing None now) (\<lambda>t1.
          bind (retouch_transition E t1 TurnToolPending None now) (\<lambda>t2.
          bind (retouch_transition E t2 TurnToolRunning None now) (\<lambda>_. ret ())))
     else if tn_status turn = TurnRetryWait
     then bind (retouch_transition E turn TurnToolRunning None now) (\<lambda>_. ret ())
     else require (tn_status turn = TurnToolRunning) (ConflictError ''retouch Turn cannot start''))))))
     (\<lambda>_ s'. good s s') s"
    unfolding wp_seq [of "assert_transition _ _"] wp_assert_transition
    by (intro impI good_update_then [OF j(1)] keeps_same_jobs_job_event scheduling.keeps_intros good_retouch_transition
        good_same keeps_same_jobs_retouch)
       (use j(2) not_terminal_executing in \<open>auto simp: job_le_def\<close>)
qed

lemma good_requeued_hook: "keeps good (requeued_hook E rj w t reason delay at now)"
  unfolding requeued_hook_def Let_def
proof (rule good_owned_runtime)
  fix j and s :: db
  let ?x = "safe_reason E reason ''retouch_retry''"
  assume j: "find_job (jb_id j) s = Some j" "jobs_inv (db_jobs s) \<Longrightarrow> executing (jb_status j)"
  show "wp (seq (assert_transition (jb_status j) JobRetryScheduled) (
         bind (append_row_event E j ''job.retry_scheduled'' [(''attempt'', JInt (jb_attempt j)), (''error'', JStr ?x)] now None) (\<lambda>_.
         seq (update_job (jb_id j) (\<lambda>r. (retouch_closed_row JobRetryScheduled now r)
                \<lparr>jb_available_at := now + seconds (max 0 delay), jb_last_error := Some ?x\<rparr>)) (
         bind (execution_turn rj) (\<lambda>turn.
         if tn_status turn = TurnToolRunning
         then bind (retouch_transition E turn TurnRetryWait (Some ?x) now) (\<lambda>_. ret ())
         else ret ()))))) (\<lambda>_ s'. good s s') s"
    unfolding wp_seq [of "assert_transition _ _"] wp_assert_transition
    by (intro impI good_row_then [OF j(1)] keeps_same_jobs_job_event scheduling.keeps_intros good_retouch_transition
        good_same keeps_same_jobs_retouch)
       (use j(2) not_terminal_executing in auto)
qed

lemma keeps_same_jobs_live_retouch: "\<not> turn_terminal st \<Longrightarrow> keeps same_jobs (retouch_transition E t st r now)"
  unfolding retouch_transition_def by (intro same_jobs_intros same_jobs_rules keeps_same_jobs_live_transition)

lemma good_completed_hook: "keeps good (completed_hook E rj a w t at now)"
  unfolding completed_hook_def
proof (rule good_owned_runtime, intro good_from_same [OF keeps_same_jobs_retouch(3)]
    good_from_same [OF keeps_same_jobs_live_retouch])
  fix j t0 turn and s s1 s2 :: db
  assume j: "find_job (jb_id j) s = Some j" "jobs_inv (db_jobs s) \<Longrightarrow> executing (jb_status j)"
    and s: "db_jobs s1 = db_jobs s" "db_jobs s2 = db_jobs s1"
  then have f: "find_job (jb_id j) s2 = Some j" "jobs_inv (db_jobs s2) \<Longrightarrow> \<not> job_terminal (jb_status j)"
    using not_terminal_executing by (auto simp: find_job_def)
  show "wp (seq (assert_transition (jb_status j) JobCompleted) (
     bind (append_row_event E j ''job.completed''
            [(''attempt'', JInt (jb_attempt j)), (''retouch_job_id'', JStr (rj_id rj))] now None) (\<lambda>_.
     seq (update_job (jb_id j) (retouch_closed_row JobCompleted now)) (
     if truthy (rj_turn rj) \<and> truthy (rj_thread rj)
     then seq (publish_retouch E rj a (opt_text (rj_thread rj)) (opt_text (rj_turn rj)) (jb_id j) now)
            (bind (retouch_transition E turn TurnCompleted None now) (\<lambda>_. ret ()))
     else ret ())))) (\<lambda>_ s'. good s2 s') s2"
    unfolding wp_seq [of "assert_transition _ _"] wp_assert_transition
    by (intro impI good_row_then [OF f(1)] keeps_same_jobs_job_event scheduling.keeps_intros good_retouch_transition
        good_same keeps_same_jobs_retouch) (use f(2) in auto)
qed (simp add: terminal_defs)

lemma find_job_own: "find_job i s = Some j \<Longrightarrow> find_job (jb_id j) s = Some j"
  using find_jobD by fastforce

lemma wp_runtime_job: "(\<And>j. find_job (jb_id j) s = Some j \<Longrightarrow> Q j s) \<Longrightarrow> wp (runtime_job rj) Q s"
  by (auto simp: runtime_job_def wp_simps dest: find_job_own split: option.splits)

lemma transitions_live: "st \<in> set (job_transitions st') \<Longrightarrow> \<not> job_terminal st'"
  by (cases st') (auto simp: terminal_defs)

lemma wp_settle_runtime_job:
  assumes "find_job (jb_id j) s = Some j" and "\<not> executing target"
  shows "wp (settle_runtime_job E rj target text w t at now j) (\<lambda>_ s'. good s s') s"
proof -
  have "wp (seq (require (target \<in> set (job_transitions (jb_status row))) (ConflictError ''retouch Runtime job cannot transition'')) (
     bind (append_row_event E row (retouch_terminal_event target)
            [(''attempt'', JInt (jb_attempt row)), (''reason'', JStr text)] now None) (\<lambda>_.
     update_job (jb_id row) (\<lambda>r. (retouch_closed_row target now r)\<lparr>jb_last_error := Some text\<rparr>)))) (\<lambda>_ s'. good s s') s"
    if "find_job (jb_id row) s = Some row" for row
    unfolding wp_seq [of "require _ _"] wp_require
    by (intro impI good_row [OF that] keeps_same_jobs_job_event) (use transitions_live assms(2) in auto)
  then show ?thesis
    using assms(1) unfolding settle_runtime_job_def wp_bind
    by (cases w) (auto simp: wp_ret owned_runtime_job_def wp_seq wp_require wp_owned_row dest: find_job_own)
qed

lemma good_terminal_hook: "keeps good (terminal_hook E rj target reason w t at now)"
proof (rule keepsI)
  fix s :: db
  let ?x = "safe_reason E reason (job_status_text target)"
  let ?last = "\<lambda>j. if truthy (rj_thread rj) then report_and_finish E rj (jb_id j) ?x now else ret ()"
  have after: "keeps good (?last j)" for j by (intro scheduling.keeps_intros good_report_and_finish)
  have "wp (seq (if job_terminal (jb_status j) then ret () else settle_runtime_job E rj target ?x w t at now j) (?last j))
      (\<lambda>_ s'. good s s') s" if "find_job (jb_id j) s = Some j" "\<not> executing target" for j
    unfolding wp_seq
  proof (rule wp_mono [of _ "\<lambda>_ s'. good s s'"])
    show "wp (if job_terminal (jb_status j) then ret () else settle_runtime_job E rj target ?x w t at now j) (\<lambda>_ s'. good s s') s"
      by (simp add: wp_ret scheduling.R_refl wp_settle_runtime_job [OF that])
    fix a and s' :: db
    assume "good s s'"
    then show "wp (?last j) (\<lambda>_. good s) s'" by (intro keeps_wp [OF after]) (rule scheduling.R_trans)
  qed
  note step = this
  show "wp (terminal_hook E rj target reason w t at now) (\<lambda>_ s'. good s s') s"
    unfolding terminal_hook_def Let_def wp_seq [of "require _ _"] wp_require wp_bind
    by (intro impI wp_runtime_job step) (assumption | elim disjE | simp)+
qed

lemma good_retouch_hook: "keeps good (retouch_hook E rj at now call)"
  by (cases call)
     (simp_all add: good_running_hook good_completed_hook good_requeued_hook good_terminal_hook reconcile_hook_def
       missing_runtime_hook_def Let_def good_report_and_finish good_finish_execution_turn keeps_same_jobs_retouch good_same
       scheduling.keeps_bind scheduling.keeps_seq scheduling.keeps_ret)

section \<open>Admitting a retouch\<close>

text \<open>The Item of a client message belongs to a turn of its thread.\<close>

definition owned_message :: "retouch_scope \<Rightarrow> turn_request \<Rightarrow> db \<Rightarrow> bool" where
  "owned_message sc q s =
     (\<forall>h m. sc_thread sc = Some h \<longrightarrow> message_of h (tr_client_message q) s = Some m \<longrightarrow> owns_turn h (it_turn m) s)"

lemma wp_require_turn: "wp (require_turn u) Q s = (\<forall>t. find_turn u s = Some t \<longrightarrow> Q t s)"
  by (cases "find_turn u s") (simp_all add: require_turn_def wp_bind wp_read wp_raise wp_ret)

lemma found_turn: "find_turn u s = Some t \<Longrightarrow> t \<in> set (db_turns s) \<and> tn_id t = u"
  by (auto simp: find_turn_def dest: find_SomeD)

lemma wp_bind_any: "(\<And>a s'. wp (f a) Q s') \<Longrightarrow> wp (bind m f) Q s"
  unfolding wp_bind by (auto simp: wp_def split: sum.splits)

lemma wp_seq_any: "(\<And>s'. wp k Q s') \<Longrightarrow> wp (seq m k) Q s"
  unfolding wp_seq by (auto simp: wp_def split: sum.splits)

lemma wp_replay_operation: "wp (replay_operation h k q c m dup) (\<lambda>t _. tn_id t = tn_id dup) s"
  unfolding replay_operation_def
  by (intro wp_bind_any wp_seq_any) (auto simp: wp_simps turn_from_row_def split: if_splits)

lemma sound_replay_operation: "keeps sound_step (replay_operation h k q c m dup)"
  by (rule sound_from_same [OF keeps_same_jobs_operation(3) turns_storage.keeps_operation_reads(3)])

lemma wp_replay_owned:
  "owns_turn h (tn_id dup) s \<Longrightarrow>
     wp (replay_operation h k q c m dup) (\<lambda>t s'. sound_step s s' \<and> owns_turn h (tn_id t) s') s"
  using wp_conj [OF wp_conj [OF wp_replay_operation sound_replay_operation [unfolded keeps_def, rule_format]]
      wp_owns_turn [OF turns_storage.keeps_operation_reads(3)]]
  by (rule wp_mono) auto

lemma wp_new_operation:
  "wp (new_operation E h q c k og now) (\<lambda>t s'. sound_step s s' \<and> owns_turn h (tn_id t) s') s"
proof -
  have fresh: "keeps sound_step (fresh_id E ''trn'')"
    by (rule sound_from_same [OF keeps_same_jobs_basic(1) turns_storage.keeps_fresh_id])
  have "wp (read_turn u) (\<lambda>t s'. sound_step s s' \<and> owns_turn h (tn_id t) s') s2"
    if "sound_step s s2" "owns_turn h u s2" for u s2
    using that by (auto simp: read_turn_def wp_simps wp_require_turn turn_from_row_def dest: found_turn split: if_splits)
  then have "wp (seq (accept_turn E h u q (Some c) og' x now) (read_turn u))
      (\<lambda>t s'. sound_step s s' \<and> owns_turn h (tn_id t) s') s1" if "sound_step s s1" for u s1 og' x
    unfolding wp_seq by (intro wp_mono [OF wp_accept_turn]) (use that soundness.R_trans in blast)
  then show ?thesis unfolding new_operation_def wp_bind by (intro keeps_wp [OF fresh]) blast
qed

lemma wp_operation_owned:
  assumes "\<And>m. message_of h (tr_client_message q) s = Some m \<Longrightarrow> owns_turn h (it_turn m) s"
  shows "wp (create_operation_turn_in_transaction E V h q c k og now)
    (\<lambda>t s'. sound_step s s' \<and> owns_turn h (tn_id t) s') s"
proof -
  have "owns_turn h (tn_id t) s" if "message_of h (tr_client_message q) s = Some m" "find_turn (it_turn m) s = Some t" for m t
    using assms [OF that(1)] found_turn [OF that(2)] by simp
  moreover have "owns_turn h (tn_id t) s" if "turn_of_message h (tr_client_message q) s = Some t" for t
    using that by (auto simp: turn_of_message_def owns_turn_def list_ex_iff find_Some_iff intro!: bexI [of _ t])
  ultimately show ?thesis
    unfolding create_operation_turn_in_transaction_def operation_valid_def require_thread_def operation_duplicate_def Let_def
    by (auto simp: wp_simps wp_require_turn split: option.splits intro!: wp_replay_owned wp_new_operation)
qed

lemma wp_retouch_scope: "wp (retouch_scope_ok sc) (\<lambda>_ s'. s' = s) s"
  by (cases "sc_thread sc") (simp_all add: retouch_scope_ok_def wp_simps)

lemma sound_retouch_enqueue:
  assumes "owned_message sc q s"
  shows "wp (retouch_enqueue_in_transaction E V rj sc q c n d now) (\<lambda>_ s'. sound_step s s') s"
proof -
  have "wp (bind (create_operation_turn_in_transaction E V h q c k og now) (\<lambda>turn.
      bind (enqueue_in_transaction E (retouch_job_request rj sc h (tn_id turn) c n d now) now) (\<lambda>job.
      ret (jb_id job, h, tn_id turn)))) (\<lambda>_ s'. sound_step s s') s" if "sc_thread sc = Some h" for h k og
    unfolding wp_bind
  proof (rule wp_mono [OF wp_operation_owned])
    show "owns_turn h (it_turn m) s" if "message_of h (tr_client_message q) s = Some m" for m
      using assms \<open>sc_thread sc = Some h\<close> that by (simp add: owned_message_def)
    fix turn s'
    assume "sound_step s s' \<and> owns_turn h (tn_id turn) s'"
    then show "wp (enqueue_in_transaction E (retouch_job_request rj sc h (tn_id turn) c n d now) now)
        (\<lambda>job. wp (ret (jb_id job, h, tn_id turn)) (\<lambda>_ s'. sound_step s s')) s'"
      by (intro wp_mono [OF sound_enqueue]) (auto simp: wp_ret linked_def retouch_job_request_def intro: soundness.R_trans)
  qed
  then show ?thesis
    unfolding retouch_enqueue_in_transaction_def wp_seq
    by (intro wp_mono [OF wp_retouch_scope]) (auto simp: wp_raise split: option.splits)
qed

end
