(* ===== verification/Runtime.thy ===== *)
theory Runtime
  imports OperationJobs
begin

text \<open>
  The Runtime as a transition system.  A step is one call of a public method of \<^verbatim>\<open>RuntimeKernel\<close>,
  \<^verbatim>\<open>DurableJobStore\<close>, \<^verbatim>\<open>InteractionStore\<close>, \<^verbatim>\<open>ReasoningItemStore\<close>, \<^verbatim>\<open>TurnExecutionBatchRepository\<close> or
  \<^verbatim>\<open>EventStore\<close>, or one transaction of the artifact service that calls a method of \<^verbatim>\<open>RuntimeRetouchBridge\<close>, with any
  arguments, clock readings, gates and permits, whether it succeeds or raises.  Jobs are enqueued for a stored
  turn of their thread (\<open>linked\<close>, \<open>owned_message\<close>), as every caller in the sources does.  The locale
  \<open>kernel_contract\<close> lists what a relation has to satisfy inside the transactions; then every call respects it, and with
  the law of \<open>lease_next\<close> (\<open>runtime_contract\<close>) every run.
\<close>

section \<open>Steps\<close>

inductive runtime_call :: "db \<Rightarrow> db \<Rightarrow> bool" where
  job: "job_call s s' \<Longrightarrow> runtime_call s s'"
| append: "runtime_call s (snd (append_event E rq s))"
| create_thread: "runtime_call s (snd (create_thread E A tq now s))"
| rename_thread: "runtime_call s (snd (rename_thread E A h title client s))"
| archive_thread: "runtime_call s (snd (archive_thread E A h copt s))"
| restore_thread: "runtime_call s (snd (restore_thread E A h client s))"
| delete_thread: "runtime_call s (snd (delete_thread E A h client s))"
| pin_thread: "runtime_call s (snd (set_thread_pinned E A h b client s))"
| create_item: "runtime_call s (snd (create_item E A u k content ist cx i t now s))"
| message_delta: "runtime_call s (snd (append_message_delta E A it d key i t now s))"
| task_list: "runtime_call s (snd (update_task_list E A u js key j tk now s))"
| tool_result: "runtime_call s (snd (complete_tool_item E A it act key i t now s))"
| transition_item: "runtime_call s (snd (transition_item E A it ist i t now s))"
| execution_event: "runtime_call s (snd (append_execution_event E A j tk h u ty p io tc ko s))"
| reasoning: "runtime_call s (snd (apply_delta E u at d key now s))"
| batch: "runtime_call s (snd (create_batch E u lo hi c io no s))"
| interaction: "runtime_call s (snd (create_interaction E iq now s))"
| connector: "runtime_call s (snd (update_connector_state E ia cst now s))"
| cancel_interaction: "runtime_call s (snd (cancel_interaction E ia reason now s))"
| respond: "runtime_call s (snd (respond E ia raw client now s))"
| expire_due: "runtime_call s (snd (expire_due E now s))"
| create_turn: "runtime_call s (snd (create_turn E V A h q cx og now s))"
| transition_turn: "runtime_call s (snd (transition_turn E A u st r i t now s))"
| finalizing: "runtime_call s (snd (begin_finalizing_if_inputs_applied E A u n i t now s))"
| finish_turn: "runtime_call s (snd (finish_turn_job E A0 A j w tk st r now s))"
| fail_turn: "runtime_call s (snd (fail_turn_job E A0 A j w tk e retryable delay preserve now s))"
| steer: "runtime_call s (snd (steer_turn E A u q now s))"
| replace: "runtime_call s (snd (replace_turn E V A u q reason cx now s))"
| interrupt: "runtime_call s (snd (interrupt_turn E A u reason now s))"
| ask: "runtime_call s (snd (request_interaction E A0 A j w tk ak now s))"
| answer: "runtime_call s (snd (respond_interaction E A ia raw client now s))"
| cancel_login: "runtime_call s (snd (cancel_connector_login_interaction E A ia client now s))"
| resolve_login: "runtime_call s (snd (resolve_connector_login_interaction E A ia cn q client now s))"
| fork: "runtime_call s (snd (fork_thread E A h fq now s))"
| retouch_admission: "owned_message sc q s \<Longrightarrow>
    runtime_call s (snd (transaction (retouch_enqueue_in_transaction E V rj sc q ctx mx dl now) s))"
| retouch: "runtime_call s (snd (transaction (retouch_hook E rj lt now call) s))"

inductive runtime_step :: "db \<Rightarrow> db \<Rightarrow> bool" where
  call: "runtime_call s s' \<Longrightarrow> runtime_step s s'"
| lease: "runtime_step s (snd (lease_next E A g w n kinds now s))"

lemma job_step_runs: "job_step s s' \<Longrightarrow> runtime_step s s'"
  by (induction rule: job_step.induct) (auto intro: runtime_step.intros runtime_call.job)

inductive running :: "db \<Rightarrow> bool" where
  empty: "running empty_db"
| step: "running s \<Longrightarrow> runtime_step s s' \<Longrightarrow> running s'"

lemma running_run: "runtime_step\<^sup>*\<^sup>* s s' \<Longrightarrow> running s \<Longrightarrow> running s'"
  by (induction rule: rtranclp_induct) (auto intro: running.step)

section \<open>The contract\<close>

locale kernel_contract = call_contract +
  assumes append_keeps: "keeps R (append_in_transaction E rq)"
    and next_id_keeps: "keeps R (fresh_id E pre)"
    and create_thread_keeps: "keeps R (create_thread_in_transaction E tq now)"
    and rename_keeps: "keeps R (rename_in_transaction E h title client)"
    and status_keeps: "keeps R (status_in_transaction E h hst client)"
    and delete_keeps: "keeps R (delete_in_transaction E h client)"
    and pin_keeps: "keeps R (pin_in_transaction E h b client)"
    and create_item_keeps: "keeps R (create_item_in_transaction E cq now)"
    and message_delta_keeps: "keeps R (message_delta_in_transaction E it d key now)"
    and task_list_keeps: "keeps R (task_list_in_transaction E u es key now)"
    and tool_result_keeps: "keeps R (complete_tool_in_transaction E it act key now)"
    and transition_item_keeps: "keeps R (transition_item_in_transaction E it ist now)"
    and reasoning_keeps: "keeps R (apply_delta_in_transaction E u at d key now)"
    and batch_keeps: "keeps R (create_batch_in_transaction E u lo hi c io no)"
    and create_interaction_keeps: "keeps R (create_interaction_in_transaction E iq now)"
    and connector_keeps: "keeps R (connector_state_in_transaction E ia cst now)"
    and close_pending_keeps: "keeps R (close_pending_in_transaction E row iast ty p now)"
    and respond_keeps: "keeps R (respond_in_transaction E ia raw client now)"
    and expire_due_keeps: "keeps R (expire_due_in_transaction E now)"
    and create_turn_keeps: "keeps R (create_turn_in_transaction E V h q cx og now)"
    and move_turn_keeps: "keeps R (move_turn_in_transaction E u st r now)"
    and finalizing_keeps: "keeps R (begin_finalizing_in_transaction E u n now)"
    and finish_turn_keeps: "keeps R (finish_turn_job_in_transaction E j w tk st r now)"
    and fail_turn_keeps: "keeps R (fail_turn_job_in_transaction E j w tk e retryable delay preserve now)"
    and steer_keeps: "keeps R (steer_turn_in_transaction E u q now)"
    and replace_keeps: "keeps R (replace_turn_in_transaction E V u q reason cx now)"
    and interrupt_keeps: "keeps R (interrupt_turn_in_transaction E u reason now)"
    and ask_keeps: "keeps R (request_interaction_in_transaction E j w tk ak now)"
    and resolve_login_keeps: "keeps R (resolve_login_in_transaction E ia cn q client now)"
    and fork_keeps: "keeps R (fork_in_transaction E h fq now)"
    and retouch_hook_keeps: "keeps R (retouch_hook E rj lt now call)"
    and retouch_enqueue_keeps: "owned_message sc q s \<Longrightarrow>
      wp (retouch_enqueue_in_transaction E V rj sc q ctx mx dl now) (\<lambda>_ s'. R s s') s"
begin

lemma found_keeps: "keeps R (require_turn u)" "keeps R (require_interaction ia)" "keeps R (read_turn u)"
  unfolding require_turn_def require_interaction_def read_turn_def by (intro keeps_intros keeps_lifted)+

lemma thread_step_keeps:
  "R s (snd (create_thread E A tq now s))" "R s (snd (rename_thread E A h title client s))"
  "R s (snd (set_thread_status E A h hst client s))" "R s (snd (delete_thread E A h client s))"
  "R s (snd (set_thread_pinned E A h b client s))"
  unfolding create_thread_def rename_thread_def set_thread_status_def delete_thread_def set_thread_pinned_def Let_def
  by (simp_all add: R_refl control_all create_thread_keeps rename_keeps status_keeps delete_keeps pin_keeps)

lemma archive_keeps: "R s (snd (archive_thread E A h copt s))"
proof -
  have "R s (s\<lparr>db_next_id := Suc (db_next_id s)\<rparr>)"
    using next_id_keeps [of undefined "[]"] by (simp add: keeps_def wp_fresh_id)
  then show ?thesis
    using thread_step_keeps(3) by (auto simp: archive_thread_def split: option.splits intro: R_trans)
qed

lemma item_step_keeps:
  "R s (snd (create_item E A u k content ist cx i t now s))" "R s (snd (append_message_delta E A it d key i t now s))"
  "R s (snd (update_task_list E A u js key j tk now s))" "R s (snd (complete_tool_item E A it act key i t now s))"
  "R s (snd (transition_item E A it ist i t now s))" "R s (snd (append_execution_event E A j tk h u ty p io tc ko s))"
  unfolding create_item_def append_message_delta_def update_task_list_def complete_tool_item_def transition_item_def
    append_execution_event_def
  by (auto split: option.splits simp: R_refl
      intro!: mutation_keeps execution_keeps keeps_intros found_keeps create_item_keeps message_delta_keeps task_list_keeps
        tool_result_keeps transition_item_keeps append_keeps)

lemma interaction_step_keeps:
  "R s (snd (create_interaction E iq now s))" "R s (snd (update_connector_state E ia cst now s))"
  "R s (snd (cancel_interaction E ia reason now s))" "R s (snd (respond E ia raw client now s))"
  "R s (snd (expire_due E now s))" "R s (snd (apply_delta E u at d key now s))" "R s (snd (create_batch E u lo hi c io no s))"
  "R s (snd (append_event E rq s))"
  unfolding create_interaction_def update_connector_state_def cancel_interaction_def respond_def expire_due_def apply_delta_def
    create_batch_def append_event_def
  by (auto simp: R_refl intro!: transaction_keeps keeps_intros found_keeps create_interaction_keeps connector_keeps
      close_pending_keeps respond_keeps expire_due_keeps reasoning_keeps batch_keeps append_keeps)

lemma turn_step_keeps:
  "R s (snd (create_turn E V A h q cx og now s))" "R s (snd (transition_turn E A u st r i t now s))"
  "R s (snd (begin_finalizing_if_inputs_applied E A u n i t now s))" "R s (snd (steer_turn E A u q now s))"
  "R s (snd (replace_turn E V A u q reason cx now s))" "R s (snd (interrupt_turn E A u reason now s))"
  unfolding create_turn_def transition_turn_def begin_finalizing_if_inputs_applied_def steer_turn_def replace_turn_def
    interrupt_turn_def
  by (auto simp: R_refl intro!: control_all mutation_keeps keeps_intros keeps_lifted found_keeps create_turn_keeps move_turn_keeps
      finalizing_keeps steer_keeps replace_keeps interrupt_keeps)

lemma execution_step_keeps:
  "R s (snd (finish_turn_job E A0 A j w tk st r now s))"
  "R s (snd (fail_turn_job E A0 A j w tk e retryable delay preserve now s))"
  "R s (snd (request_interaction E A0 A j w tk ak now s))"
  unfolding finish_turn_job_def fail_turn_job_def request_interaction_def
  by (auto simp: R_refl intro!: after_deadline_keeps finish_turn_keeps fail_turn_keeps ask_keeps expire_keeps)

lemma answer_keeps:
  "R s (snd (respond_interaction E A ia raw client now s))" "R s (snd (cancel_connector_login_interaction E A ia client now s))"
  "R s (snd (resolve_connector_login_interaction E A ia cn q client now s))"
  unfolding respond_interaction_def cancel_connector_login_interaction_def resolve_connector_login_interaction_def
    interaction_mutation_def require_login_def
  by (auto simp: R_refl intro!: control_all keeps_intros keeps_lifted found_keeps respond_keeps resolve_login_keeps)

lemma bridge_keeps:
  "R s (snd (fork_thread E A h fq now s))" "R s (snd (transaction (retouch_hook E rj lt now call) s))"
  unfolding fork_thread_def by (auto intro!: control_all fork_keeps transaction_keeps retouch_hook_keeps)

lemma admission_keeps:
  assumes "owned_message sc q s"
  shows "R s (snd (transaction (retouch_enqueue_in_transaction E V rj sc q ctx mx dl now) s))"
  using retouch_enqueue_keeps [OF assms, of E V rj ctx mx dl now] R_refl
  by (auto simp: transaction_def wp_def split: sum.splits)

lemma runtime_call_respects: "runtime_call s s' \<Longrightarrow> R s s'"
  by (induction rule: runtime_call.induct)
     (simp_all only: call_respects thread_step_keeps archive_keeps item_step_keeps interaction_step_keeps turn_step_keeps
        execution_step_keeps restore_thread_def answer_keeps bridge_keeps admission_keeps)

end

locale runtime_contract = kernel_contract + job_contract
begin

lemma step_respects: "runtime_step s s' \<Longrightarrow> R s s'"
  by (induction rule: runtime_step.induct) (intro runtime_call_respects lease_keeps lease_next_keeps; assumption?)+

lemma run_respects: "runtime_step\<^sup>*\<^sup>* s s' \<Longrightarrow> R s s'"
  by (induction rule: rtranclp_induct) (auto intro: R_refl R_trans step_respects)

end

text \<open>Every relation the statements and the operations on turns respect is a runtime contract.\<close>

sublocale create_order \<subseteq> kernel_contract
  by unfold_locales
     (simp_all add: keeps_append keeps_fresh_id keeps_create_thread keeps_thread_changes keeps_create_item keeps_message_delta
       keeps_task_list keeps_tool_result keeps_transition_item keeps_apply_delta keeps_create_batch keeps_create_interaction
       keeps_connector_state keeps_close_pending keeps_respond keeps_expire_due keeps_create_turn keeps_move_turn
       keeps_begin_finalizing keeps_finish_turn_job keeps_fail_turn_job keeps_steer keeps_replace_turn keeps_interrupt
       keeps_request_interaction keeps_resolve_login keeps_fork keeps_retouch_hook
       keeps_retouch_enqueue [unfolded keeps_def])

sublocale runtime_order \<subseteq> runtime_contract ..

section \<open>Soundness of every run\<close>

lemmas sound_same_rules =
  keeps_same_jobs_append keeps_same_jobs_basic keeps_same_jobs_threads keeps_same_jobs_create_item keeps_same_jobs_items
  keeps_same_jobs_asks keeps_same_jobs_append_inputs keeps_same_jobs_finalizing keeps_same_jobs_steer
  turns_storage.keeps_append turns_storage.keeps_fresh_id turns_storage.keeps_create_thread turns_storage.keeps_thread_changes
  turns_storage.keeps_create_item turns_storage.keeps_message_delta turns_storage.keeps_task_list
  turns_storage.keeps_tool_result turns_storage.keeps_transition_item turns_storage.keeps_apply_delta
  turns_storage.keeps_create_batch turns_storage.keeps_create_interaction turns_storage.keeps_connector_state
  turns_storage.keeps_begin_finalizing turns_storage.keeps_steer keeps_same_jobs_fork turns_storage.keeps_fork

lemmas sound_job_rules =
  good_close_pending good_respond good_expire_due good_finish_turn_job good_fail_turn_job good_interrupt
  good_request_interaction identity_storage.keeps_close_pending identity_storage.keeps_respond
  identity_storage.keeps_expire_due identity_storage.keeps_finish_turn_job identity_storage.keeps_fail_turn_job
  identity_storage.keeps_interrupt identity_storage.keeps_request_interaction turns_storage.keeps_close_pending
  turns_storage.keeps_respond turns_storage.keeps_expire_due turns_storage.keeps_finish_turn_job
  turns_storage.keeps_fail_turn_job turns_storage.keeps_interrupt turns_storage.keeps_request_interaction
  good_resolve_login good_retouch_hook identity_storage.keeps_resolve_login identity_storage.keeps_retouch_hook
  turns_storage.keeps_resolve_login turns_storage.keeps_retouch_hook

interpretation runtime: runtime_contract sound_step
  by unfold_locales
     ((rule sound_create_turn sound_replace_turn sound_move_turn) | (erule sound_retouch_enqueue) |
      (rule sound_from_same, (rule sound_same_rules), (rule sound_same_rules)) |
      (rule sound_from_good, (rule sound_job_rules), (rule sound_job_rules), (rule sound_job_rules)))+

lemma sound_empty: "sound empty_db"
  by (simp add: sound_def attached_def empty_db_def jobs_inv_def lead_def turn_thread_def)

lemma running_sound: "running s \<Longrightarrow> sound s"
  by (induction rule: running.induct) (use sound_empty runtime.step_respects in \<open>auto simp: sound_step_def\<close>)

lemma running_inv: "running s \<Longrightarrow> jobs_inv (db_jobs s)"
  using running_sound by (simp add: sound_def)

end
