(* ===== verification/JobProperties.thy ===== *)
theory JobProperties
  imports Runtime
begin

text \<open>
  What the scheduler guarantees in every state a run of the Runtime can reach: serialisation of the jobs of
  a thread, which job a lease hands out, fencing of stale owners, deadlines and convergence of the maintenance.
\<close>

section \<open>Properties\<close>

text \<open>
  C1.  Jobs of a thread are serialised: while a job executes (leased or running), every earlier job of
  its thread is finished and no later one executes.  So a thread has at most one executing job and its
  jobs run in the order in which they were enqueued, whatever the workers, clocks and gates do.
\<close>

theorem thread_serialised:
  assumes "running s" and "k < length (db_jobs s)" and "executing (jb_status (db_jobs s ! k))"
    and "jb_thread (db_jobs s ! k) \<noteq> None"
    and "i < length (db_jobs s)" and "i \<noteq> k" and "jb_thread (db_jobs s ! i) = jb_thread (db_jobs s ! k)"
  shows "if i < k then job_terminal (jb_status (db_jobs s ! i)) else \<not> executing (jb_status (db_jobs s ! i))"
proof -
  have l: "lead (db_jobs s)" using running_inv [OF assms(1)] by (simp add: jobs_inv_def)
  show ?thesis
  proof (cases "i < k")
    case True
    have "job_terminal (jb_status (db_jobs s ! i))" using l assms(2-4,7) True unfolding lead_def by metis
    then show ?thesis using True by simp
  next
    case False
    then have "k < i" using assms(6) by simp
    then have "executing (jb_status (db_jobs s ! i)) \<Longrightarrow> job_terminal (jb_status (db_jobs s ! k))"
      using l assms(4,5,7) unfolding lead_def by metis
    then show ?thesis using False not_terminal_executing [OF assms(3)] by auto
  qed
qed

text \<open>
  C3.  In every running state job identities and idempotency keys are unique, the attempts stay within
  the budget, and a job carries an owner, a fencing token, an expiry and a heartbeat exactly while it
  executes.
\<close>

theorem running_jobs_well_formed:
  assumes "running s"
  shows "distinct (map jb_id (db_jobs s)) \<and> distinct (map jb_key (db_jobs s)) \<and>
    list_all (\<lambda>j. 0 \<le> jb_attempt j \<and> jb_attempt j \<le> jb_max_attempts j \<and>
      (executing (jb_status j) \<longleftrightarrow> jb_lease_owner j \<noteq> None) \<and>
      (executing (jb_status j) \<longleftrightarrow> jb_lease_token j \<noteq> None) \<and>
      (executing (jb_status j) \<longleftrightarrow> jb_lease_expires j \<noteq> None) \<and>
      (executing (jb_status j) \<longleftrightarrow> jb_heartbeat j \<noteq> None)) (db_jobs s)"
proof -
  have inv: "jobs_inv (db_jobs s)" by (rule running_inv [OF assms])
  have "list_all (\<lambda>j. lease_ok j \<and> 0 \<le> jb_attempt j) (db_jobs s)"
    using inv by (auto simp: jobs_inv_def list_all_iff)
  then show ?thesis
    using inv by (auto simp: jobs_inv_def list_all_iff lease_ok_def truthy_def)
qed

text \<open>
  C5.  A finished job is final and no job is ever lost: whatever the scheduler does next, the row of a
  job is still there, with the same request, thread, turn, priority, budget and deadline, with at least
  its attempts, and unchanged in every column once its status is terminal.
\<close>

theorem job_rows_evolve:
  assumes "running s" and "j \<in> set (db_jobs s)" and "runtime_step\<^sup>*\<^sup>* s s'"
  shows "\<exists>j'. find_job (jb_id j) s' = Some j' \<and> job_le j j'"
proof -
  have inv: "jobs_inv (db_jobs s)" "jobs_inv (db_jobs s')"
    using running_inv assms(1) running_run [OF assms(3,1)] by auto
  have "evolve (db_jobs s) (db_jobs s')" using runtime.run_respects [OF assms(3)] running_sound [OF assms(1)] by (simp add: sound_step_def)
  then obtain j' where "j' \<in> set (db_jobs s')" "job_le j j'"
    using assms(2) by (auto simp: evolve_def in_set_conv_nth intro: less_le_trans)
  moreover from this have "jb_id j' = jb_id j" by (simp add: job_le_def)
  ultimately show ?thesis using find_job_unique [OF inv(2)] by metis
qed

text \<open>The specification of the query: which rows may be leased, and which of two comes first.\<close>

definition schedulable :: "int \<Rightarrow> string list \<Rightarrow> job_row list \<Rightarrow> nat \<Rightarrow> bool" where
  "schedulable now kinds J k =
     (k < length J \<and> (jb_status (J ! k) = JobQueued \<or> jb_status (J ! k) = JobRetryScheduled) \<and>
      jb_available_at (J ! k) \<le> now \<and> (\<forall>d. jb_deadline (J ! k) = Some d \<longrightarrow> now < d) \<and>
      (kinds \<noteq> [] \<longrightarrow> jb_kind (J ! k) \<in> set kinds) \<and>
      (\<forall>i < k. jb_thread (J ! k) \<noteq> None \<longrightarrow> jb_thread (J ! i) = jb_thread (J ! k) \<longrightarrow>
         job_terminal (jb_status (J ! i))))"

definition served_first :: "db \<Rightarrow> job_row \<Rightarrow> job_row \<Rightarrow> bool" where
  "served_first s a b =
     (jb_priority b < jb_priority a \<or>
      jb_priority a = jb_priority b \<and>
        (last_leased s a < last_leased s b \<or>
         last_leased s a = last_leased s b \<and> jb_created_at a \<le> jb_created_at b))"

lemma not_blocked_take:
  assumes "k < length J"
  shows "\<not> blocked_by (take k J) x \<longleftrightarrow>
    (\<forall>i < k. jb_thread x \<noteq> None \<longrightarrow> jb_thread (J ! i) = jb_thread x \<longrightarrow> job_terminal (jb_status (J ! i)))"
proof -
  have "set (take k J) = (!) J ` {0..<k}" using assms by (simp add: nth_image)
  then show ?thesis unfolding blocked_by_def list_ex_iff by (cases "jb_thread x") (simp_all add: Ball_def)
qed

lemma ready_iff:
  "ready now kinds j \<longleftrightarrow>
     (jb_status j = JobQueued \<or> jb_status j = JobRetryScheduled) \<and> jb_available_at j \<le> now \<and>
     (\<forall>d. jb_deadline j = Some d \<longrightarrow> now < d) \<and> (kinds \<noteq> [] \<longrightarrow> jb_kind j \<in> set kinds)"
  unfolding ready_def by (cases "jb_deadline j") auto

lemma schedulable_iff:
  "schedulable now kinds J k \<longleftrightarrow> k < length J \<and> ready now kinds (J ! k) \<and> \<not> blocked_by (take k J) (J ! k)"
  unfolding schedulable_def ready_iff using not_blocked_take [of k J "J ! k"] by blast

lemma candidates_schedulable:
  "x \<in> set (candidates now kinds [] J) \<longleftrightarrow> (\<exists>k. schedulable now kinds J k \<and> x = J ! k)"
proof
  assume "x \<in> set (candidates now kinds [] J)"
  then obtain pre post where J: "J = pre @ x # post" "ready now kinds x" "\<not> blocked_by pre x"
    by (auto simp: in_candidates)
  then have "schedulable now kinds J (length pre) \<and> x = J ! length pre" by (simp add: schedulable_iff)
  then show "\<exists>k. schedulable now kinds J k \<and> x = J ! k" by blast
next
  assume "\<exists>k. schedulable now kinds J k \<and> x = J ! k"
  then obtain k where "k < length J" "x = J ! k" "ready now kinds x" "\<not> blocked_by (take k J) x"
    by (auto simp: schedulable_iff)
  then show "x \<in> set (candidates now kinds [] J)"
    unfolding in_candidates by (metis id_take_nth_drop append_Nil)
qed

lemma lease_order_served_first: "lease_order s a \<le> lease_order s b \<longleftrightarrow> served_first s a b"
  by (auto simp: lease_order_def served_first_def less_eq_prod_def)

abbreviation maintenance :: "env \<Rightarrow> int \<Rightarrow> string list dbtxn" where
  "maintenance E now \<equiv> bind (expire_deadlines_in_transaction E now None) (\<lambda>_. reclaim_expired_in_transaction E now)"

lemma wp_maintenance:
  assumes "jobs_inv (db_jobs s)"
  shows "wp (maintenance E now) (\<lambda>_ s'. jobs_inv (db_jobs s') \<and> due_jobs now None s' = [] \<and> expired_leases now s' = []) s"
  unfolding wp_bind
proof (rule wp_mono [OF wp_expire_deadlines [OF assms]])
  fix a and s1 :: db
  assume "jobs_inv (db_jobs s1) \<and> evolve (db_jobs s) (db_jobs s1) \<and> list_all (\<lambda>j. \<not> overdue now None j) (db_jobs s1)"
  then show "wp (reclaim_expired_in_transaction E now)
      (\<lambda>_ s'. jobs_inv (db_jobs s') \<and> due_jobs now None s' = [] \<and> expired_leases now s' = []) s1"
    by (intro wp_mono [OF wp_reclaim_not_overdue]) auto
qed

lemma lease_admission:
  "lease_next_in_admission E w n kinds now =
     bind (maintenance E now) (\<lambda>_. bind (read (select_next now kinds)) (\<lambda>row.
       case row of None \<Rightarrow> ret None | Some j \<Rightarrow> bind (grant_lease E w n now j) (\<lambda>leased. ret (Some leased))))"
  by (rule ext) (simp add: lease_next_in_admission_def bind_def split: sum.splits prod.splits)

lemma bind_read: "bind (read f) k s = k (f s) s"
  by (simp add: bind_def read_def)

lemma lease_admission_Some:
  "lease_next_in_admission E w n kinds now s = Inr (Some j, s') \<longleftrightarrow>
     (\<exists>ids s1 row. maintenance E now s = Inr (ids, s1) \<and> select_next now kinds s1 = Some row \<and>
        grant_lease E w n now row s1 = Inr (j, s'))"
  unfolding lease_admission
  by (cases "maintenance E now s")
     (auto simp: bind_def [of "maintenance E now"] bind_read bind_def [of "grant_lease _ _ _ _ _"] ret_def
        split: sum.splits option.splits)

text \<open>
  C2.  What \<^verbatim>\<open>lease_next\<close> hands out.  Its transaction first settles the deadlines and the expired leases; in the table this leaves, no deadline
  has passed unsettled and no lease is expired.  The leased row was in that table due, not past its deadline, of an accepted kind and not
  behind an unfinished job of its thread, and no other such job comes before it in the order of priority, of the time its thread was last
  served and of age.  It now belongs to the worker for the lease time, and no other row of that table has changed.
\<close>

theorem lease_next_grants:
  assumes "running s" and "lease_next E A g w n kinds now s = (Inr r, s')" and "lr_job r = Some j"
  shows "\<exists>ids s1 k. maintenance E now s = Inr (ids, s1) \<and> due_jobs now None s1 = [] \<and> expired_leases now s1 = [] \<and>
     schedulable now kinds (db_jobs s1) k \<and>
     (\<forall>i. schedulable now kinds (db_jobs s1) i \<longrightarrow> served_first s1 (db_jobs s1 ! k) (db_jobs s1 ! i)) \<and>
     leased_as (db_jobs s1 ! k) w n now j \<and> db_jobs s' = (db_jobs s1)[k := j]"
proof -
  have "lease_next_in_admission E w n kinds now s = Inr (Some j, s')"
    using assms(2,3)
    by (auto simp: lease_next_def transaction_def Let_def split: option.splits sum.splits prod.splits err.splits if_splits)
  then obtain ids s1 row where m: "maintenance E now s = Inr (ids, s1)" and row: "select_next now kinds s1 = Some row"
    and grant: "grant_lease E w n now row s1 = Inr (j, s')"
    unfolding lease_admission_Some by blast
  have s1: "jobs_inv (db_jobs s1)" "due_jobs now None s1 = []" "expired_leases now s1 = []"
    using wpD [OF wp_maintenance [OF running_inv [OF assms(1)]] m] by auto
  obtain pre post where J: "db_jobs s1 = pre @ row # post" "ready now kinds row" "\<not> blocked_by pre row"
    using select_next_Some(1) [OF row] by blast
  have g: "leased_as row w n now j" "db_jobs s' = update_rows (\<lambda>r. jb_id r = jb_id row) (\<lambda>_. j) (db_jobs s1)"
    using wpD [OF wp_grant_lease [OF s1(1) J] grant] by auto
  have k: "schedulable now kinds (db_jobs s1) (length pre)" "db_jobs s1 ! length pre = row"
    using J by (simp_all add: schedulable_iff)
  have "served_first s1 row (db_jobs s1 ! i)" if "schedulable now kinds (db_jobs s1) i" for i
    using select_next_Some(2) [OF row] candidates_schedulable [of "db_jobs s1 ! i" now kinds "db_jobs s1"] that
    by (auto simp: lease_order_served_first)
  moreover have "db_jobs s' = (db_jobs s1)[length pre := j]"
    using g(2) update_rows_nth [of jb_id "db_jobs s1" "length pre" j] s1(1) J(1) k(2) by (simp add: jobs_inv_def)
  ultimately show ?thesis using m s1(2,3) k g(1) by metis
qed

text \<open>
  \<^verbatim>\<open>lease_next\<close> leaves work unleased only when there is none: without a gate, if it returns nothing,
  no job of the resulting table is schedulable, no deadline is unsettled and no lease is expired.
\<close>

theorem lease_next_none:
  assumes "running s" and "ad_gates A = None" and "lease_next E A g w n kinds now s = (Inr r, s')" and "lr_job r = None"
  shows "(\<nexists>k. schedulable now kinds (db_jobs s') k) \<and> due_jobs now None s' = [] \<and> expired_leases now s' = []"
proof -
  have run: "lease_next_in_admission E w n kinds now s = Inr (None, s')"
    using assms(2-4) by (auto simp: lease_next_def transaction_def Let_def split: sum.splits prod.splits if_splits)
  have "granted s w n kinds now None s'"
    using wpD [OF wp_lease_next [OF running_inv [OF assms(1)]] run] by blast
  then have "select_next now kinds s' = None" "due_jobs now None s' = []" "expired_leases now s' = []"
    by (auto simp: granted_def)
  moreover from this have "set (candidates now kinds [] (db_jobs s')) = {}"
    by (metis select_next_def list.case_eq_if option.distinct(1) set_empty set_sort)
  ultimately show ?thesis using candidates_schedulable [of _ now kinds "db_jobs s'"] by auto
qed

text \<open>
  C6.  Maintenance converges: after a successful \<^verbatim>\<open>reclaim_expired\<close> no unfinished job is past its
  deadline and no executing job has an expired lease.
\<close>

theorem maintenance_converges:
  assumes "running s" and "reclaim_expired E A now s = (Inr ids, s')"
  shows "due_jobs now None s' = [] \<and> expired_leases now s' = []"
proof -
  have "maintenance E now s = Inr (ids, s')"
    using assms(2) by (auto simp: reclaim_expired_def control_transaction_def guarded_def transaction_def
        split: option.splits sum.splits prod.splits if_splits)
  then show ?thesis using wpD [OF wp_maintenance [OF running_inv [OF assms(1)]]] by blast
qed

text \<open>The lease an owner's call needs: the current fencing token, an unexpired lease, an executing job.\<close>

definition live_lease :: "string \<Rightarrow> string \<Rightarrow> int \<Rightarrow> db \<Rightarrow> bool" where
  "live_lease i t now s =
     (\<exists>j x. find_job i s = Some j \<and> jb_lease_token j = Some t \<and> jb_lease_expires j = Some x \<and> now < x \<and>
        executing (jb_status j))"

lemma binding_fails: "\<not> live_lease i t now s \<Longrightarrow> \<exists>e. assert_live_execution_binding i t now s = Inl e"
  by (auto simp: live_lease_def assert_live_execution_binding_def bind_def seq_def read_def require_def raise_def
      ret_def split: option.splits)

lemma fenced_transaction:
  assumes "\<not> live_lease i t now s"
  shows "\<exists>e. deadline_result (execution_transaction A i t now m s) = (Inl e, s)"
proof -
  obtain e where "assert_live_execution_binding i t now s = Inl e" using binding_fails [OF assms] by blast
  then have "seq (assert_live_execution_binding i t now) m s = Inl e" by (simp add: seq_def bind_def)
  then show ?thesis
    by (auto simp: execution_transaction_def Let_def transaction_def guarded_def deadline_result_def
        split: option.splits sum.splits)
qed

text \<open>
  C4.  Fencing: a worker whose token is not the current one, whose lease has expired or whose job no
  longer executes can neither start, heartbeat, complete, fail nor suspend the job: the call raises and
  changes nothing.
\<close>

theorem stale_owner_is_fenced:
  assumes "\<not> live_lease i t now s"
  shows "(\<exists>e. start E A i w t now s = (Inl e, s)) \<and> (\<exists>e. heartbeat E A i w t n c now s = (Inl e, s)) \<and>
    (\<exists>e. complete E A i w t now s = (Inl e, s)) \<and> (\<exists>e. fail E A i w t error retryable delay now s = (Inl e, s)) \<and>
    (\<exists>e. wait_for_human E A i w t now s = (Inl e, s))"
proof -
  note f = fenced_transaction [OF assms]
  have "\<exists>e. finish_owned E A i w t target ev er av now s = (Inl e, s)" for target ev er av
    unfolding finish_owned_def by (rule f)
  then show ?thesis
    unfolding start_def heartbeat_def complete_def fail_def wait_for_human_def
    using f by (auto split: sum.splits prod.splits)
qed

lemma find_job_update:
  "find_job i (s\<lparr>db_jobs := update_rows (\<lambda>r. jb_id r = i) f (db_jobs s)\<rparr>) = map_option f (find_job i s)"
  if "\<And>r. jb_id (f r) = jb_id r"
  unfolding find_job_def using that by (simp add: find_update_rows_same)

lemma wp_update_require:
  assumes "\<And>r. jb_id (f r) = jb_id r" and "find_job i s = Some j"
    and "\<And>s'. find_job i s' = Some (f j) \<Longrightarrow> Q (f j) s'"
  shows "wp (seq (update_job i f) (require_job i)) Q s"
  unfolding update_job_def wp_seq wp_bind wp_read wp_require wp_modify wp_require_job find_job_update [OF assms(1)]
  using assms(2,3) find_job_update [OF assms(1), of i s] by simp

lemma wp_finish:
  "wp (finish_in_transaction E i w t target ev error av now)
    (\<lambda>r s'. find_job i s' = Some r \<and> (\<exists>j. find_job i s = Some j \<and> jb_lease_owner j = Some w \<and>
       (jb_status j = target \<or> target \<in> set (job_transitions (jb_status j))) \<and>
       r = finish_job_row target (case av of None \<Rightarrow> now | Some x \<Rightarrow> x) error now j)) s"
  unfolding finish_in_transaction_def Let_def wp_bind [of "owned_row i w t now"] wp_owned_row
    wp_seq [of "check_turn_coordination _ _"]
proof (intro allI impI, rule wp_same_jobs [OF keeps_same_jobs_coordination],
    unfold wp_seq [of "assert_transition _ _"] wp_assert_transition, intro impI wp_bind_same same_jobs_rules)
  fix j a and s1 s2 :: db
  assume j: "find_job i s = Some j" "jb_lease_owner j = Some w" and s1: "db_jobs s1 = db_jobs s" "db_jobs s2 = db_jobs s1"
    and tr: "jb_status j = target \<or> target \<in> set (job_transitions (jb_status j))"
  have "find_job i s2 = Some j" using j(1) s1 by (simp add: find_job_def)
  then show "wp (seq (update_job i (finish_job_row target (case av of None \<Rightarrow> now | Some x \<Rightarrow> x) error now)) (require_job i))
     (\<lambda>r s'. find_job i s' = Some r \<and> (\<exists>j. find_job i s = Some j \<and> jb_lease_owner j = Some w \<and>
       (jb_status j = target \<or> target \<in> set (job_transitions (jb_status j))) \<and>
       r = finish_job_row target (case av of None \<Rightarrow> now | Some x \<Rightarrow> x) error now j)) s2"
    by (rule wp_update_require [rotated]) (use j tr in \<open>auto simp: finish_job_row_def\<close>)
qed

lemma binding_state: "assert_live_execution_binding i t now s = Inr (u, s1) \<Longrightarrow> s1 = s"
  by (auto simp: assert_live_execution_binding_def bind_def seq_def read_def require_def raise_def ret_def
      split: option.splits if_splits)

lemma execution_run:
  assumes "execution_transaction A i t now m s = (r, s')"
  shows "(\<exists>e. r = Inl e \<and> s' = s) \<or> (\<exists>x. r = Inr x \<and> m s = Inr (x, s'))"
proof -
  have "seq (assert_live_execution_binding i t now) m s = Inr y \<Longrightarrow> m s = Inr y" for y
    by (auto simp: seq_def bind_def split: sum.splits prod.splits dest: binding_state)
  then show ?thesis
    using assms unfolding execution_transaction_def Let_def transaction_def guarded_def
    by (fastforce split: option.splits sum.splits prod.splits if_splits)
qed

lemma execution_success:
  "deadline_result (execution_transaction A i t now (with_deadline E i now m) s) = (Inr r, s') \<Longrightarrow>
     \<exists>s1. expire_deadlines_in_transaction E now (Some i) s = Inr ([], s1) \<and> m s1 = Inr (r, s')"
proof -
  assume d: "deadline_result (execution_transaction A i t now (with_deadline E i now m) s) = (Inr r, s')"
  obtain x y where xy: "execution_transaction A i t now (with_deadline E i now m) s = (x, y)" by fastforce
  then have "with_deadline E i now m s = Inr (Some r, s')"
    using d execution_run [OF xy] by (auto simp: deadline_result_def split: option.splits)
  then show ?thesis
    by (auto simp: with_deadline_def bind_def ret_def split: sum.splits prod.splits if_splits)
qed

lemma expire_nothing: "expire_deadlines_in_transaction E now i s = Inr ([], s1) \<Longrightarrow> s1 = s"
  by (auto simp: expire_deadlines_in_transaction_def bind_def read_def seq_def ret_def split: sum.splits prod.splits)

text \<open>
  What a successful finish writes: the row the owner holds, with the target status, the lease
  cleared, the error and the time of the next availability recorded; the transition is one of the job
  life cycle and every other column is kept.
\<close>

theorem finish_outcome:
  assumes "finish_owned E A i w t target ev error av now s = (Inr r, s')"
  shows "\<exists>j. find_job i s = Some j \<and> jb_lease_owner j = Some w \<and> live_lease i t now s \<and>
    (jb_status j = target \<or> target \<in> set (job_transitions (jb_status j))) \<and> find_job i s' = Some r \<and>
    r = (clear_lease j)\<lparr>jb_status := target, jb_available_at := (case av of None \<Rightarrow> now | Some x \<Rightarrow> x),
      jb_last_error := error, jb_updated_at := now\<rparr>"
proof -
  have live: "live_lease i t now s"
  proof (rule ccontr)
    assume "\<not> live_lease i t now s"
    from fenced_transaction [OF this] show False using assms by (metis finish_owned_def Inl_Inr_False fst_conv)
  qed
  have "finish_in_transaction E i w t target ev error av now s = Inr (r, s')"
    using execution_success [OF assms [unfolded finish_owned_def]] expire_nothing by blast
  from wpD [OF wp_finish this] show ?thesis using live by (auto simp: finish_job_row_def)
qed

lemma overdue_settles:
  assumes inv: "jobs_inv (db_jobs s)" and j: "find_job i s = Some j" and due: "overdue now (Some i) j"
    and run: "expire_deadlines_in_transaction E now (Some i) s = Inr (ids, s1)"
  shows "ids \<noteq> []" and "find_job i s1 = Some j' \<Longrightarrow> job_terminal (jb_status j')"
proof -
  have "due_jobs now (Some i) s \<noteq> []"
    using due find_jobD [OF j] due_jobs_overdue [of now "Some i" s] by auto
  then show "ids \<noteq> []"
    using run by (auto simp: expire_deadlines_in_transaction_def bind_def seq_def read_def ret_def
        split: sum.splits prod.splits)
  note post = wpD [OF wp_expire_deadlines [OF inv] run]
  assume "find_job i s1 = Some j'"
  note j' = find_jobD [OF this]
  obtain r where r: "r \<in> set (db_jobs s)" "job_le r j'"
    using evolve_origin [of "db_jobs s" "db_jobs s1" j'] post j'
      keepsD [OF identity_storage.keeps_expire_deadlines run] by (auto simp: same_ids_def)
  have "r = j" using same_row [OF inv, of j r] find_jobD [OF j] j' r by (simp add: job_le_def)
  moreover have "\<not> overdue now (Some i) j'" using post j' by (simp add: list_all_iff)
  ultimately show "job_terminal (jb_status j')" using due j' r by (auto simp: overdue_def job_le_def)
qed

text \<open>
  The deadline wins over the owner: once it has passed, no finish of the job succeeds; either the
  call changes nothing or the job is settled.
\<close>

theorem deadline_beats_owner:
  assumes "running s" and "find_job i s = Some j" and "overdue now (Some i) j"
    and "finish_owned E A i w t target ev error av now s = (r, s')"
  shows "(\<exists>e. r = Inl e) \<and> (s' = s \<or> (\<forall>j'. find_job i s' = Some j' \<longrightarrow> job_terminal (jb_status j')))"
proof -
  let ?m = "with_deadline E i now (finish_in_transaction E i w t target ev error av now)"
  note od = overdue_settles [OF running_inv [OF assms(1)] assms(2,3)]
  obtain x y where xy: "execution_transaction A i t now ?m s = (x, y)" by fastforce
  have d: "deadline_result (x, y) = (r, s')" using assms(4) xy by (simp add: finish_owned_def)
  have "z = None \<and> (\<forall>j'. find_job i y = Some j' \<longrightarrow> job_terminal (jb_status j'))" if m: "?m s = Inr (z, y)" for z
  proof -
    obtain ids s1 where run: "expire_deadlines_in_transaction E now (Some i) s = Inr (ids, s1)"
      using m by (auto simp: with_deadline_def bind_def split: sum.splits prod.splits)
    have "z = None" "y = s1" using m run od(1) [OF run] by (auto simp: with_deadline_def bind_def ret_def)
    then show ?thesis using od(2) [OF run] by blast
  qed
  then show ?thesis using execution_run [OF xy] d by (auto simp: deadline_result_def)
qed

end
