(* ===== verification/JobRuns.thy ===== *)
theory JobRuns
  imports JobProperties
begin

text \<open>
  Further properties of the scheduler: idempotent enqueues, the append-only log, permanent rows, no
  commit after the gate has closed, and the retry budget that a human wait can exhaust.  The sample run
  at the end evaluates the model on concrete calls and shows that the hypotheses of the scheduler's
  properties can hold.
\<close>

section \<open>Enqueue is idempotent\<close>

lemma wp_enqueue_row:
  "wp (enqueue_in_transaction E q now)
    (\<lambda>r s'. r \<in> set (db_jobs s') \<and> jb_key r = eq_key q \<and> jb_fingerprint r = enqueue_fingerprint q) s"
proof -
  have ins: "wp (insert_job r) (\<lambda>_ s'. r \<in> set (db_jobs s')) t" for r t
    by (simp add: insert_job_def wp_simps)
  have "wp (insert_enqueued E q now)
    (\<lambda>r s'. r \<in> set (db_jobs s') \<and> jb_key r = eq_key q \<and> jb_fingerprint r = enqueue_fingerprint q) s" for s
    unfolding insert_enqueued_def Let_def wp_bind wp_seq
  proof ((rule wp_same_jobs, intro same_jobs_intros same_jobs_rules)+, rule wp_mono [OF ins])
    fix i a b and s1 s2 s3 :: db
    let ?r = "queued_job q i (case eq_available_at q of None \<Rightarrow> now | Some t \<Rightarrow> t) now"
    assume "?r \<in> set (db_jobs s3)"
    then show "wp (if eq_context q = [] then ret ()
        else seq (require (list_all (\<lambda>k. map_of (eq_context q) k \<noteq> None) context_fields)
             (ValueError ''job event context is incomplete'')) (insert_context i (context_of_dict (eq_context q))))
      (\<lambda>_. wp (ret ?r) (\<lambda>r s'. r \<in> set (db_jobs s') \<and> jb_key r = eq_key q \<and>
          jb_fingerprint r = enqueue_fingerprint q)) s3"
      unfolding wp_ret by (intro wp_same_jobs same_jobs_rules) (simp add: queued_job_def)
  qed
  then show ?thesis
    unfolding enqueue_in_transaction_def enqueue_valid_def by (auto simp: wp_simps dest: find_SomeD)
qed

lemma enqueue_valid_state: "enqueue_valid q s = Inr (u, s') \<Longrightarrow> s' = s \<and> (\<forall>t. enqueue_valid q t = Inr ((), t))"
  by (auto simp: enqueue_valid_def seq_def bind_def require_def ret_def raise_def split: if_splits)

lemma enqueue_valid_first: "enqueue_in_transaction E q now s = Inr x \<Longrightarrow> \<forall>t. enqueue_valid q t = Inr ((), t)"
  by (auto simp: enqueue_in_transaction_def seq_def bind_def split: sum.splits dest: enqueue_valid_state)

lemma enqueue_run: "enqueue E A q now s = (Inr j, s') \<Longrightarrow> enqueue_in_transaction E (q\<lparr>eq_job_id := None\<rparr>) now s = Inr (j, s')"
  by (auto simp: enqueue_def control_transaction_def guarded_def transaction_def
      split: option.splits sum.splits prod.splits if_splits)

text \<open>
  Enqueueing the same request again, however much later and whatever the scheduler did in between,
  creates nothing: the call returns the job of the first one in its current state and writes nothing.
\<close>

theorem enqueue_replay:
  assumes "running s" and "linked q s" and "enqueue E A q now s = (Inr j, s')" and "runtime_step\<^sup>*\<^sup>* s' s''"
    and "ad_gates A' = None"
  shows "\<exists>j''. enqueue E' A' q now' s'' = (Inr j'', s'') \<and> job_le j j'' \<and> find_job (jb_id j) s'' = Some j''"
proof -
  let ?q = "q\<lparr>eq_job_id := None\<rparr>"
  note run = enqueue_run [OF assms(3)]
  have j: "j \<in> set (db_jobs s')" "jb_key j = eq_key q" "jb_fingerprint j = enqueue_fingerprint ?q"
    using wpD [OF wp_enqueue_row run] by simp_all
  have "runtime_step s s'" using runtime_step.call [OF runtime_call.job, OF job_call.enqueue [OF assms(2), of E A now]] assms(3) by simp
  then have r': "running s'" using assms(1) running.step by blast
  have inv: "jobs_inv (db_jobs s')" "jobs_inv (db_jobs s'')"
    using running_inv r' running_run [OF assms(4) r'] by auto
  have "evolve (db_jobs s') (db_jobs s'')" using runtime.run_respects [OF assms(4)] running_sound [OF r'] by (simp add: sound_step_def)
  then obtain j'' where j'': "j'' \<in> set (db_jobs s'')" "job_le j j''"
    using j(1) by (auto simp: evolve_def in_set_conv_nth intro: less_le_trans)
  have "find (\<lambda>r. jb_key r = eq_key q) (db_jobs s'') = Some j''"
    using find_key_unique [of jb_key "db_jobs s''" j''] inv(2) j'' j(2) by (simp add: jobs_inv_def job_le_def)
  then have "enqueue_in_transaction E' ?q now' s'' = Inr (j'', s'')"
    using enqueue_valid_first [OF run] j(3) j''(2)
    by (simp add: enqueue_in_transaction_def seq_def bind_def read_def require_def ret_def job_le_def)
  then show ?thesis
    using assms(5) j'' find_job_unique [OF inv(2) j''(1)]
    by (simp add: enqueue_def control_transaction_def transaction_def job_le_def)
qed

text \<open>
  An idempotency key cannot be reused for another request: the call is refused and writes nothing.
\<close>

theorem enqueue_conflict:
  assumes "find (\<lambda>r. jb_key r = eq_key q) (db_jobs s) = Some j" and "jb_fingerprint j \<noteq> enqueue_fingerprint q"
  shows "\<exists>e. enqueue E A q now s = (Inl e, s)"
proof -
  have "enqueue_fingerprint (q\<lparr>eq_job_id := None\<rparr>) = enqueue_fingerprint q" by (simp add: enqueue_fingerprint_def)
  then have "\<exists>e. enqueue_in_transaction E (q\<lparr>eq_job_id := None\<rparr>) now s = Inl e"
    using assms by (auto simp: enqueue_in_transaction_def seq_def bind_def read_def require_def raise_def
        split: sum.splits prod.splits dest: enqueue_valid_state)
  then show ?thesis
    by (auto simp: enqueue_def control_transaction_def guarded_def transaction_def split: option.splits sum.splits)
qed

section \<open>The log and the rows\<close>

text \<open>
  C29.  No call of the Runtime rewrites history: the events committed before are still there, in order, and the
  log stays gap-free and duplicate-free in every thread.
\<close>

theorem runtime_log_append_only:
  assumes "events_ok s" and "runtime_step\<^sup>*\<^sup>* s s'"
  shows "events_ok s' \<and> (\<exists>new. db_events s' = db_events s @ new)"
  using log_storage.run_respects [OF assms(2)] assms(1) by (simp add: log_step_def)

lemma prefix_keys: "map (\<lambda>x. (f x, g x)) ys = map (\<lambda>x. (f x, g x)) xs @ zs \<Longrightarrow> f ` set xs \<subseteq> f ` set ys"
proof -
  assume "map (\<lambda>x. (f x, g x)) ys = map (\<lambda>x. (f x, g x)) xs @ zs"
  from arg_cong [OF this, of "map fst"] have "map f ys = map f xs @ map fst zs" by (simp add: o_def)
  then have "set (map f ys) = set (map f xs) \<union> fst ` set zs" by simp
  then show ?thesis by auto
qed

text \<open>
  No call of the Runtime deletes or re-identifies a row, and the snapshot context a job was enqueued with
  is never replaced.
\<close>

theorem runtime_rows_permanent:
  assumes "runtime_step\<^sup>*\<^sup>* s s'" and "map_of (db_contexts s) i = Some c"
  shows "map_of (db_contexts s') i = Some c \<and> jb_id ` set (db_jobs s) \<subseteq> jb_id ` set (db_jobs s') \<and>
    it_id ` set (db_items s) \<subseteq> it_id ` set (db_items s') \<and> tn_id ` set (db_turns s) \<subseteq> tn_id ` set (db_turns s') \<and>
    ia_id ` set (db_interactions s) \<subseteq> ia_id ` set (db_interactions s')"
proof -
  note p = permanent_storage.run_respects [OF assms(1), unfolded permanent_def]
  have "jb_id ` set (db_jobs s) \<subseteq> jb_id ` set (db_jobs s')" using p by (elim conjE exE) (rule prefix_keys)
  moreover have "it_id ` set (db_items s) \<subseteq> it_id ` set (db_items s')" using p by (elim conjE exE) (rule prefix_keys)
  moreover have "tn_id ` set (db_turns s) \<subseteq> tn_id ` set (db_turns s')" using p by (elim conjE exE) (rule prefix_keys)
  moreover have "ia_id ` set (db_interactions s) \<subseteq> ia_id ` set (db_interactions s')"
    using p by (metis Un_upper1 set_append set_map)
  moreover have "map_of (db_contexts s') i = Some c" using p assms(2) by (auto simp: map_add_def)
  ultimately show ?thesis by blast
qed

section \<open>The execution gate\<close>



section \<open>The retry budget\<close>

lemma wp_False: "wp m (\<lambda>_ _. False) s \<Longrightarrow> \<exists>e. m s = Inl e"
  by (auto simp: wp_def split: sum.splits)

lemma grant_exhausted:
  assumes "j \<in> set (db_jobs s)" and "jb_max_attempts j < next_attempt j"
  shows "wp (grant_lease E w n now j) (\<lambda>_ _. False) s"
  unfolding grant_lease_def wp_bind wp_seq wp_assert_transition
proof (intro impI, (rule wp_same_jobs, intro same_jobs_rules)+)
  fix token a and s1 s2 :: db
  assume s: "db_jobs s1 = db_jobs s" "db_jobs s2 = db_jobs s1"
  let ?f = "lease_job_row (next_attempt j) w token (now + seconds n) (dict_pop preserve_key (checkpoint_dict j)) now"
  have "\<not> lease_ok (?f j)" using assms(2) by (simp add: lease_ok_def lease_job_row_def)
  then have "\<not> list_all (\<lambda>r. jb_id r = jb_id j \<longrightarrow> lease_ok (?f r)) (db_jobs s2)"
    using assms(1) s by (auto simp: list_all_iff)
  then show "wp (update_job (jb_id j) ?f) Q s2" for Q
    by (simp only: update_job_def wp_bind wp_read wp_seq wp_require simp_thms)
qed

lemma exhausted_refused:
  assumes "maintenance E now s = Inr (ids, s1)" and "select_next now kinds s1 = Some j" and "jb_max_attempts j < next_attempt j"
  shows "\<exists>e. lease_next_in_admission E w n kinds now s = Inl e"
proof -
  have "j \<in> set (db_jobs s1)" using select_next_Some(1) [OF assms(2)] by auto
  then obtain e where "grant_lease E w n now j s1 = Inl e" using wp_False [OF grant_exhausted] assms(3) by blast
  then show ?thesis
    unfolding lease_admission using assms(1,2)
    by (simp add: bind_def [of "maintenance E now"] bind_read bind_def [of "grant_lease _ _ _ _ _"])
qed

text \<open>
  C31.  A call of \<^verbatim>\<open>lease_next\<close> that selects, among the jobs of its kinds and after its maintenance, a job whose next attempt exceeds its budget
  leases nothing and changes nothing: the lease trigger refuses the row and the transaction is rolled back, maintenance included; without a gate,
  or with a gate that issues the permits, the call raises.  The other jobs of these kinds are then not served, however many there are.  A job that
  comes back from a human wait on its last attempt is such a job, since only a retry keeps the attempt (\<^verbatim>\<open>PRESERVE_ATTEMPT_CHECKPOINT_KEY\<close>); a
  call with other kinds does not select it.
\<close>

theorem exhausted_selection_leases_nothing:
  assumes "maintenance E now s = Inr (ids, s1)" and "select_next now kinds s1 = Some j" and "jb_max_attempts j < next_attempt j"
  shows "\<exists>x. lease_next E A g w n kinds now s = (x, s) \<and>
    (\<forall>r. x = Inr r \<longrightarrow> lr_job r = None \<and>
       (\<exists>g0 g1 m. ad_gates A = Some (g0, g1) \<and> issue_permit g0 ''job_lease'' w (ad_nonce A) = Inl (RuntimeExecutionDenied m)))"
proof -
  obtain e where "lease_next_in_admission E w n kinds now s = Inl e" using exhausted_refused [OF assms] by blast
  then show ?thesis
    by (auto simp: lease_next_def transaction_def Let_def split: option.splits sum.splits err.splits)
qed

section \<open>A sample run\<close>

text \<open>
  A job with one attempt and a deadline, outside every thread: it is leased, started, suspended for a
  human and resumed.  The digests and the formatted times stay symbolic when the run is evaluated.
\<close>

declare sha256_hexdigest_def [code del] fingerprint_def [code del] iso_text_def [code del]

definition no_gate :: admission where
  "no_gate = \<lparr>ad_gates = None, ad_permits = [], ad_cow = False, ad_nonce = []\<rparr>"

definition sample_req :: "string option \<Rightarrow> string \<Rightarrow> int option \<Rightarrow> enqueue_req" where
  "sample_req t k d =
     \<lparr>eq_kind = ''share'', eq_payload = [], eq_key = k, eq_thread = t, eq_turn = None, eq_priority = 0,
      eq_max_attempts = 1, eq_available_at = None, eq_deadline = d, eq_job_id = None, eq_context = []\<rparr>"

definition solo_req :: enqueue_req where "solo_req = sample_req None ''k1'' (Some 50000000)"

definition sample_job :: job_row where
  "sample_job =
     \<lparr>jb_id = ''job_0'', jb_kind = ''share'', jb_payload = [], jb_status = JobQueued, jb_priority = 0, jb_attempt = 0,
      jb_max_attempts = 1, jb_thread = None, jb_turn = None, jb_lease_owner = None, jb_lease_token = None,
      jb_lease_expires = None, jb_heartbeat = None, jb_available_at = 5, jb_deadline = Some 50000000,
      jb_checkpoint = None, jb_key = ''k1'', jb_fingerprint = enqueue_fingerprint solo_req, jb_last_error = None,
      jb_created_at = 5, jb_updated_at = 5\<rparr>"

definition leased_job :: job_row where
  "leased_job =
     sample_job\<lparr>jb_status := JobLeased, jb_attempt := 1, jb_lease_owner := Some ''w'', jb_lease_token := Some ''fence_1'',
       jb_lease_expires := Some 100000006, jb_heartbeat := Some 6, jb_updated_at := 6\<rparr>"

definition resumed_job :: job_row where
  "resumed_job = sample_job\<lparr>jb_attempt := 1, jb_available_at := 9, jb_updated_at := 9\<rparr>"

definition solo :: "job_row \<Rightarrow> db" where
  "solo j = empty_db\<lparr>db_jobs := [j], db_scheduler := [(''__kind__:share'', 6, ''job_0'')], db_next_id := 2\<rparr>"

definition solo1 :: db where "solo1 = empty_db\<lparr>db_jobs := [sample_job], db_next_id := 1\<rparr>"
definition solo2 :: db where "solo2 = solo leased_job"
definition solo3 :: db where "solo3 = solo (leased_job\<lparr>jb_status := JobRunning, jb_updated_at := 7\<rparr>)"
definition solo4 :: db where
  "solo4 = solo (sample_job\<lparr>jb_status := JobWaitingHuman, jb_attempt := 1, jb_available_at := 8, jb_updated_at := 8\<rparr>)"
definition solo5 :: db where "solo5 = solo resumed_job"

abbreviation sample_gate0 :: gate where "sample_gate0 \<equiv> new_gate [] []"

lemma solo_enqueue: "enqueue sample_env no_gate solo_req 5 empty_db = (Inr sample_job, solo1)"
  by code_simp

lemma solo_lease:
  "lease_next sample_env no_gate sample_gate0 ''w'' 100 [] 6 solo1 =
     (Inr \<lparr>lr_job = Some leased_job, lr_permits = []\<rparr>, solo2)"
  by code_simp

lemma solo_start: "snd (start sample_env no_gate ''job_0'' ''w'' ''fence_1'' 7 solo2) = solo3"
  by code_simp

lemma solo_wait:
  "wait_for_human sample_env no_gate ''job_0'' ''w'' ''fence_1'' 8 solo3 = (Inr (hd (db_jobs solo4)), solo4)"
  by code_simp

lemma solo_resume: "snd (resume_waiting sample_env no_gate ''job_0'' 9 solo4) = solo5"
  by code_simp

lemma solo_steps:
  "runtime_step empty_db solo1" "runtime_step solo1 solo2" "runtime_step solo2 solo3" "runtime_step solo3 solo4"
  "runtime_step solo4 solo5"
proof -
  have "linked solo_req empty_db" by (simp add: linked_def solo_req_def sample_req_def)
  from runtime_step.call [OF runtime_call.job, OF job_call.enqueue [OF this, of sample_env no_gate 5]] show "runtime_step empty_db solo1"
    by (simp add: solo_enqueue)
  show "runtime_step solo1 solo2"
    using runtime_step.lease [of solo1 sample_env no_gate sample_gate0 "''w''" 100 "[]" 6] by (simp add: solo_lease)
  show "runtime_step solo2 solo3"
    using runtime_step.call [OF runtime_call.job, OF job_call.start [of solo2 sample_env no_gate "''job_0''" "''w''" "''fence_1''" 7]] by (simp add: solo_start)
  show "runtime_step solo3 solo4"
    using runtime_step.call [OF runtime_call.job, OF job_call.wait [of solo3 sample_env no_gate "''job_0''" "''w''" "''fence_1''" 8]] by (simp add: solo_wait)
  show "runtime_step solo4 solo5"
    using runtime_step.call [OF runtime_call.job, OF job_call.resume [of solo4 sample_env no_gate "''job_0''" 9]] by (simp add: solo_resume)
qed

lemma solo_running: "running solo1" "running solo2" "running solo3" "running solo5"
  using solo_steps running.intros by blast+

text \<open>Two jobs of one thread, the first leased.\<close>

definition pair_job :: "string \<Rightarrow> string \<Rightarrow> job_row" where
  "pair_job i k = sample_job\<lparr>jb_id := i, jb_key := k, jb_thread := Some ''th'', jb_deadline := None,
     jb_fingerprint := enqueue_fingerprint (sample_req (Some ''th'') k None)\<rparr>"

definition pair_leased :: job_row where
  "pair_leased =
     (pair_job ''job_0'' ''k1'')\<lparr>jb_status := JobLeased, jb_attempt := 1, jb_lease_owner := Some ''w'',
        jb_lease_token := Some ''fence_4'', jb_lease_expires := Some 10000006, jb_heartbeat := Some 6, jb_updated_at := 6\<rparr>"

definition pair1 :: db where
  "pair1 = snd (enqueue sample_env no_gate (sample_req (Some ''th'') ''k1'' None) 5 empty_db)"
definition pair2 :: db where
  "pair2 = snd (enqueue sample_env no_gate (sample_req (Some ''th'') ''k2'' None) 5 pair1)"
definition pair3 :: db where
  "pair3 = snd (lease_next sample_env no_gate sample_gate0 ''w'' 10 [] 6 pair2)"

lemma pair_jobs: "db_jobs pair3 = [pair_leased, pair_job ''job_2'' ''k2'']"
  by code_simp

lemma pair_running: "running pair3"
proof -
  have "linked (sample_req (Some ''th'') k None) s" for k s by (simp add: linked_def sample_req_def)
  note enq = runtime_step.call [OF runtime_call.job, OF job_call.enqueue [OF this]]
  have "running pair2" unfolding pair2_def pair1_def by (rule running.step [OF running.step [OF running.empty enq] enq])
  then show ?thesis unfolding pair3_def by (rule running.step) (rule runtime_step.lease)
qed

section \<open>Witnesses\<close>

theorem thread_serialised_witness:
  "executing (jb_status pair_leased) \<and> jb_thread (pair_job ''job_2'' ''k2'') = jb_thread pair_leased \<and>
   \<not> executing (jb_status (pair_job ''job_2'' ''k2''))"
proof -
  have "executing (jb_status pair_leased)" "jb_thread pair_leased = Some ''th''"
    "jb_thread (pair_job ''job_2'' ''k2'') = Some ''th''"
    by (simp_all add: pair_leased_def pair_job_def)
  then show ?thesis
    using thread_serialised [OF pair_running, of 0 1] by (simp add: pair_jobs)
qed

theorem running_jobs_well_formed_witness:
  "distinct (map jb_key (db_jobs solo2)) \<and> map jb_status (db_jobs solo2) = [JobLeased]"
  using running_jobs_well_formed [OF solo_running(2)] by (simp add: solo2_def solo_def leased_job_def)

theorem job_rows_evolve_witness: "\<exists>j'. find_job ''job_0'' solo3 = Some j' \<and> job_le leased_job j'"
  using job_rows_evolve [OF solo_running(2), of leased_job solo3] solo_steps(3)
  by (auto simp: solo2_def solo_def leased_job_def sample_job_def)

theorem lease_next_grants_witness:
  "\<exists>ids s1 k. maintenance sample_env 6 solo1 = Inr (ids, s1) \<and> schedulable 6 [] (db_jobs s1) k \<and>
     leased_as (db_jobs s1 ! k) ''w'' 100 6 leased_job \<and> db_jobs solo2 = (db_jobs s1)[k := leased_job]"
proof -
  have "lr_job \<lparr>lr_job = Some leased_job, lr_permits = []\<rparr> = Some leased_job" by simp
  from lease_next_grants [OF solo_running(1) solo_lease this] show ?thesis by blast
qed

theorem lease_next_none_witness:
  "\<exists>r. lease_next sample_env no_gate sample_gate0 ''v'' 100 [] 7 solo2 = (Inr r, solo2) \<and>
     (\<nexists>k. schedulable 7 [] (db_jobs solo2) k)"
proof -
  have run: "lease_next sample_env no_gate sample_gate0 ''v'' 100 [] 7 solo2 = (Inr \<lparr>lr_job = None, lr_permits = []\<rparr>, solo2)"
    by code_simp
  have "ad_gates no_gate = None" by (simp add: no_gate_def)
  from lease_next_none [OF solo_running(2) this run] show ?thesis using run by simp
qed

theorem maintenance_converges_witness:
  "\<exists>ids s'. reclaim_expired sample_env no_gate 60000000 solo2 = (Inr ids, s') \<and> due_jobs 60000000 None s' = []"
proof -
  have "case reclaim_expired sample_env no_gate 60000000 solo2 of (Inl _, _) \<Rightarrow> False | (Inr _, _) \<Rightarrow> True" by code_simp
  then obtain ids s' where "reclaim_expired sample_env no_gate 60000000 solo2 = (Inr ids, s')"
    by (auto split: prod.splits sum.splits)
  then show ?thesis using maintenance_converges [OF solo_running(2)] by blast
qed

theorem stale_owner_is_fenced_witness:
  "\<exists>e. complete sample_env no_gate ''job_0'' ''w'' ''fence_0'' 7 solo2 = (Inl e, solo2)"
proof -
  have "\<not> live_lease ''job_0'' ''fence_0'' 7 solo2"
    by (simp add: live_lease_def find_job_def solo2_def solo_def leased_job_def sample_job_def)
  then show ?thesis using stale_owner_is_fenced by blast
qed

theorem finish_outcome_witness:
  "\<exists>r. find_job ''job_0'' solo4 = Some r \<and> jb_status r = JobWaitingHuman \<and> live_lease ''job_0'' ''fence_1'' 8 solo3"
  using finish_outcome [OF solo_wait [unfolded wait_for_human_def]] by auto

theorem deadline_beats_owner_witness:
  "\<exists>e. fst (finish_owned sample_env no_gate ''job_0'' ''w'' ''fence_1'' JobCompleted ''job.completed'' None None 60000000
     solo3) = Inl e"
proof -
  obtain r s' where run: "finish_owned sample_env no_gate ''job_0'' ''w'' ''fence_1'' JobCompleted ''job.completed'' None None
      60000000 solo3 = (r, s')"
    by fastforce
  have "find_job ''job_0'' solo3 = Some (hd (db_jobs solo3))" "overdue 60000000 (Some ''job_0'') (hd (db_jobs solo3))"
    by (simp_all add: find_job_def overdue_def solo3_def solo_def leased_job_def sample_job_def terminal_defs)
  from deadline_beats_owner [OF solo_running(3) this run] show ?thesis using run by simp
qed

theorem enqueue_replay_witness:
  "\<exists>j. enqueue sample_env no_gate solo_req 99 solo3 = (Inr j, solo3) \<and> job_le sample_job j"
proof -
  have "linked solo_req empty_db" by (simp add: linked_def solo_req_def sample_req_def)
  moreover have "runtime_step\<^sup>*\<^sup>* solo1 solo3" using solo_steps(2,3) by simp
  ultimately show ?thesis
    using enqueue_replay [OF running.empty _ solo_enqueue, of solo3 no_gate sample_env 99] by (auto simp: no_gate_def)
qed

theorem enqueue_conflict_witness:
  "\<exists>e. enqueue sample_env no_gate solo_req 99 (solo (sample_job\<lparr>jb_fingerprint := ''other''\<rparr>)) =
     (Inl e, solo (sample_job\<lparr>jb_fingerprint := ''other''\<rparr>))"
proof (rule enqueue_conflict)
  have "length (enqueue_fingerprint solo_req) = 64" by (simp add: enqueue_fingerprint_def fingerprint_def)
  moreover have "length ''other'' \<noteq> 64" by simp
  ultimately have "enqueue_fingerprint solo_req \<noteq> ''other''" by metis
  then show "jb_fingerprint (sample_job\<lparr>jb_fingerprint := ''other''\<rparr>) \<noteq> enqueue_fingerprint solo_req" by simp
qed (simp add: solo_def sample_job_def solo_req_def sample_req_def)

theorem runtime_log_append_only_witness: "events_ok solo2"
proof -
  have "events_ok empty_db" by (simp add: events_ok_def empty_db_def thread_events_def head_def)
  moreover have "runtime_step\<^sup>*\<^sup>* empty_db solo2" using solo_steps(1,2) by simp
  ultimately show ?thesis using runtime_log_append_only by blast
qed

theorem runtime_rows_permanent_witness:
  "map_of (db_contexts (snd (cancel sample_env no_gate ''job_9'' ''r'' 7 (solo1\<lparr>db_contexts := [(''job_0'', context_of_dict [])]\<rparr>))))
     ''job_0'' = Some (context_of_dict [])"
proof -
  let ?s = "solo1\<lparr>db_contexts := [(''job_0'', context_of_dict [])]\<rparr>"
  have "runtime_step\<^sup>*\<^sup>* ?s (snd (cancel sample_env no_gate ''job_9'' ''r'' 7 ?s))"
    by (rule r_into_rtranclp) (rule runtime_step.call, rule runtime_call.job, rule job_call.cancel)
  from runtime_rows_permanent [OF this] show ?thesis by simp
qed


theorem exhausted_selection_leases_nothing_witness:
  "running solo5 \<and> (\<exists>e. lease_next sample_env no_gate sample_gate0 ''w'' 100 [] 10 solo5 = (Inl e, solo5))"
proof -
  have "case maintenance sample_env 10 solo5 of Inr (_, s1) \<Rightarrow> select_next 10 [] s1 = Some resumed_job | _ \<Rightarrow> False"
    "jb_max_attempts resumed_job < next_attempt resumed_job"
    by code_simp+
  then obtain ids s1 where "maintenance sample_env 10 solo5 = Inr (ids, s1)" "select_next 10 [] s1 = Some resumed_job"
      "jb_max_attempts resumed_job < next_attempt resumed_job"
    by (auto split: sum.splits prod.splits)
  from exhausted_selection_leases_nothing [OF this, where A = no_gate and g = sample_gate0 and w = "''w''" and n = 100]
  obtain x where "lease_next sample_env no_gate sample_gate0 ''w'' 100 [] 10 solo5 = (x, solo5)" "\<forall>r. x \<noteq> Inr r"
    by (auto simp: no_gate_def)
  then show ?thesis using solo_running(4) by (cases x) auto
qed

end
