(* ===== verification/SampleRun.thy ===== *)
theory SampleRun
  imports Runtime
begin

text \<open>
  A run of the model on concrete calls: a thread is created, a turn accepted in it, steered and
  interrupted.  The calls are evaluated by rewriting, with the digests and canonical payloads kept as
  terms; the states are the ones the witnesses of the turn properties use.
\<close>

section \<open>Evaluating the calls\<close>

lemma digits:
  "str_nat 2 = ''2''" "str_nat 3 = ''3''" "str_nat 4 = ''4''" "str_nat 5 = ''5''" "str_nat 6 = ''6''" "str_nat 7 = ''7''"
  "str_nat 8 = ''8''" "str_nat 9 = ''9''" "str_nat 10 = ''10''" "str_nat 11 = ''11''" "str_nat 12 = ''12''" "str_nat 13 = ''13''"
  "str_nat (Suc 0) = ''1''" "str_nat 0 = ''0''"
  by code_simp+

lemma tokens:
  "protocol_token 128 ''thread.created''" "protocol_token 128 ''turn.accepted''" "protocol_token 128 ''item.created''"
  "protocol_token 128 ''turn.queued''" "protocol_token 128 ''job.queued''" "protocol_token 128 ''turn.steered''"
  "protocol_token 128 ''turn.status_changed''" "protocol_token 128 ''job.cancelled''" "protocol_token 128 ''turn.interrupted''"
  by code_simp+

lemma two: "Suc (Suc 0) = (2 :: nat)"
  by simp

lemmas eval_simps = run_eqs two control_transaction_def transaction_def digits tokens case_prod_beta Let_def
  append_in_transaction_def apply_turn_context_def append_prepared_def write_event_def event_req_def
  validate_public_tool_event_payload_def starts_with_def head_def set_head_def insert_event_def update_thread_def update_rows_def
  fresh_id_def accepted_event_def drifted_def inherit_context_def watermark_def jget_def
  append_job_event_def public_job_payload_def occurrence_key_def copy_fields_def job_status_by_event_def
  reason_code_by_event_def

lemmas thread_simps = create_thread_def create_thread_in_transaction_def insert_created_thread_def insert_thread_def
  read_thread_def require_thread_def find_thread_def thread_from_row_def

lemmas input_simps = append_initial_in_transaction_def match_client_intent_in_transaction_def
  insert_revision_in_transaction_def insert_revision_def integrity_conflict_def latest_ordinal_def
  revisions_of_def next_ordinal_def owns_turn_def new_revision_def from_revision_row_def revision_valid_def
  revision_checks_def revision_source_ok_def sql_nonempty_def intent_fingerprint_def
  append_steer_in_transaction_def append_next_in_transaction_def

lemmas turn_simps = create_turn_def create_turn_in_transaction_def agent_of_def opt_text_def message_of_def turn_of_message_def
  new_turn_def accept_turn_def accepted_row_def insert_turn_def no_origin_def with_context_def
  create_item_in_transaction_def item_spec_def created_content_def insert_item_def read_item_def require_item_def
  find_item_def item_from_row_def find_turn_def update_turn_def generate_title_def read_turn_def require_turn_def
  turn_from_row_def terminal_defs

lemmas job_simps = enqueue_in_transaction_def enqueue_valid_def agent_turn_job_def insert_enqueued_def
  queued_job_def insert_job_def lease_ok_def

section \<open>A thread and a turn\<close>

definition ungated :: admission where
  "ungated = \<lparr>ad_gates = None, ad_permits = [], ad_cow = False, ad_nonce = []\<rparr>"

definition run_thread_request :: create_thread_request where
  "run_thread_request = \<lparr>ct_title = Some ''x'', ct_metadata = [], ct_client_request = None\<rparr>"

definition run_event :: "string \<Rightarrow> nat \<Rightarrow> int \<Rightarrow> string \<Rightarrow> jobj \<Rightarrow> string \<Rightarrow> event_row" where
  "run_event i n at ty payload key =
     \<lparr>ev_id = i, ev_thread = ''thr_0'', ev_seq = n, ev_turn = None, ev_item = None, ev_job = None, ev_tool_call = None,
      ev_client_message = None, ev_causation = None, ev_correlation = None, ev_trace = None, ev_config = None,
      ev_capability = None, ev_permission = None, ev_extension = None, ev_type = ty, ev_created_at = at,
      ev_payload = canon_obj payload, ev_key = Some key\<rparr>"

definition run_thread :: thread_row where
  "run_thread =
     \<lparr>th_id = ''thr_0'', th_status = ThreadActive, th_title = Some ''x'', th_metadata = canon_obj [],
      th_client_request = None, th_fingerprint = Some (thread_fingerprint run_thread_request), th_forked_thread = None,
      th_forked_turn = None, th_forked_seq = None, th_created_at = 1, th_updated_at = 1\<rparr>"

definition run_opened :: db where
  "run_opened = empty_db\<lparr>db_events := [run_event ''evt_1'' 1 1 ''thread.created''
        [(''title'', jopt (Some ''x'')), (''metadata'', JObj [])] ''thread:created''],
     db_heads := [(''thr_0'', 1)], db_threads := [run_thread], db_next_id := 2, db_published := [''thr_0'']\<rparr>"

lemma run_create_thread: "snd (create_thread sample_env ungated run_thread_request 1 empty_db) = run_opened"
  by (simp add: eval_simps thread_simps ungated_def sample_env_def empty_db_def run_thread_request_def run_opened_def
      run_event_def run_thread_def cong: bind_lazy seq_lazy)

definition run_request :: turn_request where
  "run_request = \<lparr>tr_input = ''hi'', tr_agent_model = Some ''m'', tr_image_model = None, tr_tools = [], tr_attachments = [],
      tr_client_message = Some ''c'', tr_metadata = []\<rparr>"

definition turn_event :: "string \<Rightarrow> nat \<Rightarrow> string \<Rightarrow> jobj \<Rightarrow> string \<Rightarrow> event_row" where
  "turn_event i n ty payload key =
     (run_event i n 2 ty payload key)\<lparr>ev_turn := Some ''trn_2'', ev_correlation := Some ''c'', ev_trace := Some ''trace_trn_2''\<rparr>"

definition run_turn :: turn_row where
  "run_turn =
     \<lparr>tn_id = ''trn_2'', tn_thread = ''thr_0'', tn_status = TurnQueued, tn_input = ''hi'', tn_agent_model = ''m'',
      tn_image_model = None, tn_client_message = Some ''c'', tn_metadata = canon_obj [], tn_reason = None,
      tn_created_at = 2, tn_updated_at = 2\<rparr>"

definition run_job :: job_row where
  "run_job = queued_job (agent_turn_job ''thr_0'' ''trn_2'' None) ''job_8'' 2 2"

definition run_message :: item_row where
  "run_message =
     \<lparr>it_id = ''itm_5'', it_thread = ''thr_0'', it_turn = ''trn_2'', it_kind = KindMessage, it_status = ItemCompleted,
      it_content = JObj (canon_obj (user_message run_request)), it_client_message = Some ''c'', it_created_at = 2,
      it_updated_at = 2\<rparr>"

definition run_accepted :: db where
  "run_accepted = run_opened
     \<lparr>db_events := db_events run_opened @
        [(turn_event ''evt_3'' 2 ''turn.accepted'' (accept_payload run_request @ [(''model_catalog_snapshot_id'', jopt None)])
            ''trn_2:accepted'')\<lparr>ev_client_message := Some ''c''\<rparr>,
         (turn_event ''evt_6'' 3 ''item.created''
            [(''kind'', JStr ''message''), (''status'', JStr ''completed''), (''content'', JObj (user_message run_request))]
            ''trn_2:user-message'')\<lparr>ev_item := Some ''itm_5'', ev_client_message := Some ''c''\<rparr>,
         turn_event ''evt_7'' 4 ''turn.queued'' [(''from'', JStr ''accepted''), (''to'', JStr ''queued'')] ''trn_2:queued'',
         (turn_event ''evt_9'' 5 ''job.queued''
            [(''attempt'', JInt 0), (''available_at'', JStr (iso_text 2)), (''status'', JStr ''queued''),
             (''kind'', JStr ''agent_turn''), (''priority'', JInt 0), (''max_attempts'', JInt 3), (''deadline'', jiso None)]
            (''job_8:job.queued:'' @ str_int 0))\<lparr>ev_job := Some ''job_8''\<rparr>],
      db_heads := [(''thr_0'', 5)], db_threads := [run_thread\<lparr>th_updated_at := 2\<rparr>], db_turns := [run_turn],
      db_items := [run_message], db_jobs := [run_job],
      db_revisions := [new_revision ''rev_4'' ''thr_0'' ''trn_2'' 0 ''initial'' run_request ''m'' 2],
      db_next_id := 10, db_published := [''thr_0'', ''thr_0'', ''thr_0'', ''thr_0'', ''thr_0'']\<rparr>"

lemmas sample_simps = ungated_def sample_env_def empty_db_def run_request_def run_opened_def run_event_def run_thread_def
  turn_event_def run_turn_def run_job_def run_message_def run_accepted_def

lemma run_create_turn:
  "create_turn sample_env (\<lambda>_ _ _ _. None) ungated ''thr_0'' run_request None no_origin 2 run_opened =
     (Inr \<lparr>tm_turn = run_turn, tm_job = Some run_job, tm_watermark = 5\<rparr>, run_accepted)"
  using text_bounds_m
  by (simp add: eval_simps thread_simps input_simps turn_simps job_simps sample_simps cong: bind_lazy seq_lazy)

lemma run_accepted_running: "running run_accepted"
proof -
  have "running run_opened"
    using running.step [OF running.empty runtime_step.call [OF runtime_call.create_thread]] run_create_thread by metis
  then show ?thesis
    using running.step [OF _ runtime_step.call [OF runtime_call.create_turn]] run_create_turn by (metis snd_conv)
qed

section \<open>Steering and interrupting it\<close>

lemmas interrupt_simps = interrupt_turn_def interrupt_turn_in_transaction_def cancel_turn_jobs_in_transaction_def
  cancel_turn_job_def jobs_of_turn_def cancel_job_row_def transition_turn_in_transaction_def
  settle_turn_dependents_in_transaction_def turn_mutation_def clear_lease_def update_job_def settle_job_def
  settle_item_def close_item_def items_by_age_def items_of_turn_def pending_of_turn_def archive_visible_reasoning_in_transaction_def
  visible_rows_def reasoning_rows_def

lemma run_interrupt:
  "\<exists>v s. interrupt_turn sample_env ungated ''trn_2'' ''stop'' 3 run_accepted = (Inr v, s) \<and>
     find_turn ''trn_2'' s = Some (run_turn\<lparr>tn_status := TurnInterrupted, tn_reason := Some ''stop'', tn_updated_at := 3\<rparr>)"
  by (simp add: eval_simps thread_simps turn_simps job_simps sample_simps interrupt_simps cong: bind_lazy seq_lazy)

definition run_steer :: turn_request where
  "run_steer = run_request\<lparr>tr_input := ''more'', tr_client_message := Some ''d''\<rparr>"

lemmas steer_simps = steer_turn_def steer_turn_in_transaction_def steer_request_def steer_new_def admit_steer_def
  steer_item_def turn_mutation_def event_with_key_def

lemma run_steer_turn:
  "\<exists>v s. steer_turn sample_env ungated ''trn_2'' run_steer 3 run_accepted = (Inr v, s) \<and>
     length (db_revisions s) = Suc (length (db_revisions run_accepted))"
  using text_bounds_m
  by (simp add: eval_simps thread_simps input_simps turn_simps job_simps sample_simps run_steer_def steer_simps cong: bind_lazy seq_lazy)

end
