(* ===== verification/TurnLife.thy ===== *)
theory TurnLife
  imports Runtime
begin

text \<open>
  The life of a turn in a run of the Runtime: what it was accepted with is immutable, a terminal status is
  final, and the operations that end a turn settle everything that works for it.
\<close>

section \<open>How a row may change\<close>

definition turn_le :: "turn_row \<Rightarrow> turn_row \<Rightarrow> bool" where
  "turn_le r r' =
     (tn_id r' = tn_id r \<and> tn_thread r' = tn_thread r \<and> tn_input r' = tn_input r \<and>
      tn_agent_model r' = tn_agent_model r \<and> tn_image_model r' = tn_image_model r \<and>
      tn_client_message r' = tn_client_message r \<and> tn_metadata r' = tn_metadata r \<and>
      tn_created_at r' = tn_created_at r \<and> (turn_terminal (tn_status r) \<longrightarrow> tn_status r' = tn_status r))"

definition turns_evolve :: "turn_row list \<Rightarrow> turn_row list \<Rightarrow> bool" where
  "turns_evolve T T' = (length T \<le> length T' \<and> (\<forall>i < length T. turn_le (T ! i) (T' ! i)))"

definition final_step :: "db \<Rightarrow> db \<Rightarrow> bool" where
  "final_step s s' =
     (distinct (map tn_id (db_turns s)) \<longrightarrow>
        distinct (map tn_id (db_turns s')) \<and> turns_evolve (db_turns s) (db_turns s'))"

lemma turn_le_refl [simp]: "turn_le r r"
  by (simp add: turn_le_def)

lemma turn_le_trans: "turn_le a b \<Longrightarrow> turn_le b c \<Longrightarrow> turn_le a c"
  by (auto simp: turn_le_def)

lemma turns_evolve_refl [simp]: "turns_evolve T T"
  by (simp add: turns_evolve_def)

lemma turns_evolve_trans: "turns_evolve A B \<Longrightarrow> turns_evolve B C \<Longrightarrow> turns_evolve A C"
  by (auto simp: turns_evolve_def intro: turn_le_trans)

interpretation finality: db_order final_step
  by unfold_locales (auto simp: final_step_def intro: turns_evolve_trans)

section \<open>Operations that leave the turns alone\<close>

definition same_turns :: "db \<Rightarrow> db \<Rightarrow> bool" where
  "same_turns s s' = (db_turns s' = db_turns s)"

interpretation turns_frame: insert_order same_turns
proof unfold_locales
  show "keeps same_turns (append_in_transaction E rq)" for E rq
    by (rule keepsI, rule keeps_wp [OF keeps_only_log_append]) (simp add: only_log_def same_turns_def)
qed (simp_all add: same_turns_def keeps_def wp_simps update_item_def update_interaction_def
    update_job_def upsert_scheduler_def retire_row_execution_permit_def insert_item_def insert_job_def
    insert_context_def insert_thread_def insert_interaction_def update_thread_def insert_revision_def insert_batch_def)

lemma final_same: "same_turns s s' \<Longrightarrow> final_step s s'"
  by (simp add: same_turns_def final_step_def)

lemma final_frame: "keeps same_turns m \<Longrightarrow> keeps final_step m"
  by (rule keepsI, erule keeps_wp) (rule final_same)

text \<open>After such an operation the rows read before are still current.\<close>

lemma wp_turns_bind:
  "keeps same_turns m \<Longrightarrow> (\<And>a s'. db_turns s' = db_turns s \<Longrightarrow> wp (f a) Q s') \<Longrightarrow> wp (bind m f) Q s"
  unfolding wp_bind by (erule keeps_wp) (simp add: same_turns_def)

lemma wp_turns_seq:
  "keeps same_turns m \<Longrightarrow> (\<And>s'. db_turns s' = db_turns s \<Longrightarrow> wp k Q s') \<Longrightarrow> wp (seq m k) Q s"
  unfolding seq_def by (rule wp_turns_bind)

lemma wp_turns_last:
  "keeps same_turns m \<Longrightarrow> (\<And>a s'. db_turns s' = db_turns s \<Longrightarrow> Q a s') \<Longrightarrow> wp m Q s"
  by (erule keeps_wp) (simp add: same_turns_def)

section \<open>Updates of a current row\<close>

lemma final_update:
  assumes t: "find_turn u s = Some t"
    and f: "\<And>r. turn_le (r\<lparr>tn_status := st\<rparr>) (f r) \<and> tn_status (f r) = st"
    and st: "turn_terminal (tn_status t) \<Longrightarrow> st = tn_status t"
    and same: "db_turns s' = db_turns s"
  shows "wp (update_turn u f) (\<lambda>_ s''. final_step s s'') s'"
proof -
  have keep: "turn_le r (f r)" if "turn_terminal (tn_status r) \<Longrightarrow> st = tn_status r" for r
    using f [of r] that by (auto simp: turn_le_def)
  have ids: "tn_id (f r) = tn_id r" for r using f [of r] by (simp add: turn_le_def)
  have "turns_evolve (db_turns s) (update_rows (\<lambda>r. tn_id r = u) f (db_turns s))" if "distinct (map tn_id (db_turns s))"
    unfolding turns_evolve_def
  proof (intro conjI allI impI)
    fix i
    assume i: "i < length (db_turns s)"
    have "db_turns s ! i = t" if "tn_id (db_turns s ! i) = u"
      using find_key_unique [OF \<open>distinct _\<close> nth_mem [OF i]] that t by (simp add: find_turn_def)
    then show "turn_le (db_turns s ! i) (update_rows (\<lambda>r. tn_id r = u) f (db_turns s) ! i)"
      using keep st by (auto simp: nth_update_rows i)
  qed simp
  then show ?thesis
    by (simp add: update_turn_def wp_simps same final_step_def ids)
qed

lemmas frame_rules = turns_frame.ops turns_frame.keeps_archive turns_frame.keeps_row_event turns_frame.keeps_close_job
  turns_frame.keeps_update_interaction turns_frame.keeps_update_item turns_frame.keeps_update_thread
  turns_frame.keeps_settle turns_frame.keeps_rows turns_frame.keeps_close_item turns_frame.keeps_close_own_item

lemma frame_turn_loops:
  "keeps same_turns (expire_interaction E job now reason c ia)" "keeps same_turns (fail_item E job now reason c it)"
  "keeps same_turns (complete_dependent_job E now j)" "keeps same_turns (cancel_interaction_recovered E h u now c ia)"
  "keeps same_turns (complete_item_recovered E h u now c it)" "keeps same_turns (close_dependent_job E ia jt rs now j)"
  "keeps same_turns (cancel_peer E ia rs now other)" "keeps same_turns (close_waiting_job E ia jt rs now)"
  "keeps same_turns (resume_job E ia now)"
  unfolding expire_interaction_def fail_item_def complete_dependent_job_def cancel_interaction_recovered_def
    complete_item_recovered_def close_dependent_job_def cancel_peer_def close_waiting_job_def resume_job_def Let_def
  by (intro frame_rules; simp)+

lemma turn_le_status [simp]:
  "turn_le (r\<lparr>tn_status := st\<rparr>) (r\<lparr>tn_status := st, tn_reason := x, tn_updated_at := now\<rparr>)"
  by (simp add: turn_le_def)

section \<open>The operations of the scheduler\<close>

lemmas final_rules = wp_turns_bind wp_turns_seq final_update turns_frame.keeps_for_each frame_turn_loops frame_rules
lemmas final_reads = wp_read wp_ret wp_raise wp_bind [of "read _"] wp_require wp_seq [of "require _ _"] finality.R_refl

lemma final_fail_linked: "keeps final_step (fail_linked_turn_in_transaction E job now reason c)"
  unfolding fail_linked_turn_in_transaction_def
  by (rule keepsI) (auto simp: final_reads split: option.splits intro!: final_rules)

lemma final_retry_wait: "keeps final_step (move_linked_turn_to_retry_wait_in_transaction E job now c)"
  unfolding move_linked_turn_to_retry_wait_in_transaction_def
  by (rule keepsI) (auto simp: final_reads terminal_defs split: option.splits intro!: final_rules)

lemma final_settle_recovered:
  assumes "find_turn u s = Some t" and "\<not> turn_terminal (tn_status t)"
  shows "wp (settle_recovered_turn E job u h now) (\<lambda>_ s'. final_step s s') s"
  unfolding settle_recovered_turn_def Let_def using assms
  by (auto simp: final_reads intro!: final_rules)

lemma final_recover: "keeps final_step (recover_finalizing_turn_in_transaction E job now)"
  unfolding recover_finalizing_turn_in_transaction_def
  by (rule keepsI)
     (auto simp: final_reads wp_seq [of "settle_recovered_turn _ _ _ _ _"] wp_ret_eta terminal_defs
        split: option.splits if_splits intro!: final_settle_recovered)

interpretation finality: linked_order final_step
  by unfold_locales
    (simp_all add: final_frame turns_frame.keeps_append turns_frame.keeps_fresh_id turns_frame.keeps_update_item
      turns_frame.keeps_update_interaction turns_frame.keeps_update_job turns_frame.keeps_upsert_scheduler
      turns_frame.keeps_retire turns_frame.keeps_insert_item turns_frame.keeps_insert_context
      turns_frame.keeps_insert_thread turns_frame.keeps_insert_interaction turns_frame.keeps_update_thread
      turns_frame.keeps_insert_revision turns_frame.keeps_insert_batch final_fail_linked final_retry_wait final_recover)

interpretation finality: leasing_order final_step
  by unfold_locales (rule final_frame, simp add: same_turns_def keeps_def wp_simps update_job_def)

section \<open>The operations of the kernel\<close>

lemma final_transition:
  assumes "find_turn (tn_id t) s = Some t"
  shows "wp (transition_turn_in_transaction E t st r now) (\<lambda>_ s'. final_step s s') s"
proof -
  have "wp (seq (update_turn (tn_id t) (\<lambda>r'. r'\<lparr>tn_status := st, tn_reason := x, tn_updated_at := now\<rparr>)) k)
      (\<lambda>_ s''. final_step s s'') s'"
    if "db_turns s' = db_turns s" "tn_status t = st \<or> st \<in> set (turn_transitions (tn_status t))" "keeps same_turns k" for s' x k
  proof -
    have "turn_terminal (tn_status t) \<Longrightarrow> st = tn_status t"
      using that(2) by (cases "tn_status t") (auto simp: terminal_defs)
    then have "wp (update_turn (tn_id t) (\<lambda>r'. r'\<lparr>tn_status := st, tn_reason := x, tn_updated_at := now\<rparr>))
        (\<lambda>_ s''. final_step s s'') s'"
      using assms that(1) by (intro final_update [where st = st and t = t]) simp_all
    then show ?thesis
      unfolding wp_seq by (rule wp_mono) (auto intro: keeps_wp [OF that(3)] finality.R_trans final_same)
  qed
  note last = this
  show ?thesis
    unfolding transition_turn_in_transaction_def wp_seq [of "require _ _"] wp_require
    by (rule impI, rule wp_turns_seq, (intro frame_rules)[1], rule wp_turns_bind, (intro frame_rules)[1],
        rule wp_turns_seq, (intro frame_rules)[1], rule last) (simp_all add: turns_frame.keeps_update_thread)
qed

lemma wp_current_turn: "(\<And>t. find_turn u s = Some t \<Longrightarrow> wp (k t) Q s) \<Longrightarrow> wp (bind (require_turn u) k) Q s"
  by (simp add: wp_bind wp_require_turn)

lemma final_last: "keeps final_step m \<Longrightarrow> db_turns s' = db_turns s \<Longrightarrow> wp m (\<lambda>_ s''. final_step s s'') s'"
  by (erule keeps_wp) (simp add: final_step_def)

text \<open>The row of a transition was read before operations that leave the turns alone; anything may follow.\<close>

lemma final_transition_then:
  assumes "find_turn u s = Some t" and "db_turns s' = db_turns s" and k: "keeps final_step k"
  shows "wp (seq (transition_turn_in_transaction E t st r now) k) (\<lambda>_ s''. final_step s s'') s'"
proof -
  have "find_turn (tn_id t) s' = Some t" using found_turn [OF assms(1)] assms(1,2) by (simp add: find_turn_def)
  then have "wp (transition_turn_in_transaction E t st r now) (\<lambda>_ s''. final_step s' s'') s'" by (rule final_transition)
  then show ?thesis
    unfolding wp_seq
    by (rule wp_mono) (use assms(2) in \<open>auto intro!: keeps_wp [OF k] simp: final_step_def intro: turns_evolve_trans\<close>)
qed

lemmas final_transition_last = final_transition_then [where k = "ret ()", OF _ _ finality.keeps_ret, unfolded seq_ret]

lemmas frame_reads = turns_frame.keeps_turn_reads turns_frame.keeps_require_turn turns_frame.keeps_require_job
  turns_frame.keeps_cancel_turn_jobs turns_frame.keeps_create_item turns_frame.keeps_create_interaction
  turns_frame.keeps_replacement turns_frame.keeps_generate_title turns_frame.keeps_replays turns_frame.keeps_owned_row
  turns_frame.keeps_require_thread turns_frame.keeps_enqueue turns_frame.keeps_assert_transition
  turns_frame.keeps_read_interaction turns_frame.keeps_append_inputs

lemmas final_reads_last = frame_reads [THEN final_frame, THEN final_last]

lemmas final_turns = wp_current_turn final_transition_then final_transition_last final_reads_last final_frame frame_reads

lemma final_move_turn: "keeps final_step (move_turn_in_transaction E u st r now)"
  unfolding move_turn_in_transaction_def
  by (rule keepsI, rule wp_current_turn) (auto simp: final_reads intro!: final_turns final_last [OF finality.keeps_lifted])

lemma final_begin_finalizing: "keeps final_step (begin_finalizing_in_transaction E u n now)"
  unfolding begin_finalizing_in_transaction_def
  by (rule keepsI, rule wp_current_turn)
     (auto simp: final_reads split: option.splits intro!: final_turns finality.keeps_ret)

lemma final_interrupt: "keeps final_step (interrupt_turn_in_transaction E u reason now)"
  unfolding interrupt_turn_in_transaction_def
  by (rule keepsI, rule wp_current_turn)
     (auto simp: final_reads intro!: wp_turns_seq [OF turns_frame.keeps_cancel_turn_jobs] final_turns turns_frame.keeps_bind)

lemma wp_turn_of_job:
  "(\<And>u h t. jb_turn j = Some u \<Longrightarrow> find_turn u s = Some t \<Longrightarrow> wp (k (h, t)) Q s) \<Longrightarrow> wp (bind (turn_of_job j) k) Q s"
  by (cases "jb_turn j"; cases "jb_thread j") (simp_all add: turn_of_job_def wp_bind wp_require_turn wp_raise wp_ret)

lemma final_finish_turn_job: "keeps final_step (finish_turn_job_in_transaction E i w t st r now)"
  unfolding finish_turn_job_in_transaction_def
  by (rule finality.keeps_bind [OF finality.keeps_owned_row], rule keepsI, rule wp_turn_of_job) (auto intro!: final_turns)

lemma final_end_turn:
  assumes "find_turn u s = Some t"
  shows "wp (schedule_turn_retry E j t e d p now) (\<lambda>_ s'. final_step s s') s"
    "wp (fail_whole_turn E j t e b now) (\<lambda>_ s'. final_step s s') s"
  unfolding schedule_turn_retry_def fail_whole_turn_def Let_def
  by (intro wp_turns_bind wp_turns_seq [OF turns_frame.keeps_assert_transition] wp_turns_seq [OF turns_frame.keeps_rows(4)]
      wp_turns_seq [OF turns_frame.keeps_rows(3)] turns_frame.keeps_row_event final_transition_last [OF assms], simp)+

lemma final_then:
  "wp m (\<lambda>_ s'. final_step s s') s0 \<Longrightarrow> keeps final_step k \<Longrightarrow> wp (seq m k) (\<lambda>_ s'. final_step s s') s0"
  unfolding wp_seq by (erule wp_mono) (auto intro: keeps_wp finality.R_trans)

lemma final_fail_turn_job: "keeps final_step (fail_turn_job_in_transaction E i w t e b d p now)"
  unfolding fail_turn_job_in_transaction_def
  by (rule finality.keeps_bind [OF finality.keeps_owned_row], rule keepsI, rule wp_turn_of_job)
     (auto intro!: final_then final_end_turn final_frame turns_frame.keeps_turn_reads)

lemma final_suspend:
  assumes "find_turn u s = Some t"
  shows "wp (suspend_for_human E k j h t now) (\<lambda>_ s'. final_step s s') s"
  unfolding suspend_for_human_def
  by (intro wp_turns_bind wp_turns_seq [OF turns_frame.keeps_rows(5)] turns_frame.keeps_fresh_id turns_frame.keeps_append
      turns_frame.keeps_create_interaction turns_frame.keeps_create_item final_transition_then [OF assms] finality.keeps_ret) simp

lemma final_request_interaction: "keeps final_step (request_interaction_in_transaction E i w t k now)"
  unfolding request_interaction_in_transaction_def
proof (intro finality.keeps_bind finality.keeps_read finality.keeps_case_option finality.keeps_owned_row)
  show "keeps final_step (seq (require (ia_job d = Some i) (ConflictError ''interaction idempotency key belongs to another job''))
      (create_interaction_in_transaction E (ask_interaction k (ia_thread d) (ia_turn d) (ia_job d) None) now))" for d
    by (intro final_frame turns_frame.ops turns_frame.keeps_create_interaction)
  show "keeps final_step (seq (require (jb_status j = JobRunning)
        (InvalidTransitionError ''only a running job can request human interaction''))
      (case (jb_thread j, jb_turn j) of
        (Some h, Some u) \<Rightarrow> bind (require_turn u) (\<lambda>turn.
          seq (require (TurnWaitingHuman \<in> set (turn_transitions (tn_status turn)))
                (InvalidTransitionError ''turn cannot request interaction''))
            (suspend_for_human E k j h turn now))
      | _ \<Rightarrow> raise (ConflictError ''human interaction requires a thread-bound job'')))" for j
    by (rule keepsI)
       (auto simp: final_reads split: option.splits intro!: wp_current_turn final_suspend)
qed

section \<open>New turns\<close>

lemma wp_insert_turn_final:
  assumes "\<And>s'. db_turns s' = db_turns s @ [t] \<Longrightarrow> tn_id t \<notin> tn_id ` set (db_turns s) \<Longrightarrow> Q s'"
  shows "wp (insert_turn t) (\<lambda>_. Q) s"
  by (auto simp: insert_turn_def wp_simps list_ex_iff intro!: assms)

lemma update_rows_fresh: "u \<notin> k ` set rs \<Longrightarrow> update_rows (\<lambda>r. k r = u) f rs = rs"
  by (induction rs) (auto simp: update_rows_def)

lemma final_accept: "keeps final_step (accept_turn E h u q c og x now)"
proof (rule keepsI)
  fix s :: db
  let ?t = "accepted_row u h q now" and ?f = "\<lambda>t. t\<lparr>tn_status := TurnQueued, tn_updated_at := now\<rparr>"
  have new: "wp (update_turn u ?f) (\<lambda>_ s''. final_step s s'') s'"
    if "db_turns s' = db_turns s @ [?t]" "u \<notin> tn_id ` set (db_turns s)" for s'
  proof -
    have "update_rows (\<lambda>r. tn_id r = u) ?f (db_turns s @ [?t]) = db_turns s @ [?f ?t]"
      using update_rows_fresh [OF that(2), of ?f] by (simp add: update_rows_def accepted_row_def)
    then show ?thesis
      using that by (auto simp: update_turn_def wp_simps final_step_def turns_evolve_def nth_append accepted_row_def)
  qed
  show "wp (accept_turn E h u q c og x now) (\<lambda>_ s'. final_step s s') s"
    unfolding accept_turn_def
    by (rule wp_turns_bind [OF turns_frame.keeps_append], unfold wp_seq [of "insert_turn _"], rule wp_insert_turn_final,
        rule wp_turns_bind [OF turns_frame.keeps_append_inputs(1)], rule wp_turns_bind [OF turns_frame.keeps_create_item],
        rule wp_turns_bind [OF turns_frame.keeps_append], rule new) (simp_all add: accepted_row_def)
qed

lemma final_new_turn: "keeps final_step (new_turn E th q c og now)"
  unfolding new_turn_def
  by (intro finality.keeps_bind finality.keeps_seq finality.keeps_fresh_id finality.keeps_ret final_accept
      final_frame turns_frame.keeps_enqueue turns_frame.keeps_generate_title turns_frame.keeps_turn_reads)

lemma final_create_turn: "keeps final_step (create_turn_in_transaction E V h q c og now)"
  unfolding create_turn_in_transaction_def
  by (intro finality.keeps_intros finality.keeps_require_thread final_new_turn finality.keeps_replays)

lemma final_supersede:
  assumes "find_turn u s = Some t"
  shows "wp (supersede_turn E V t q r c now) (\<lambda>_ s'. final_step s s') s"
  unfolding supersede_turn_def
  by (intro wp_turns_bind [OF turns_frame.keeps_create_item] wp_turns_seq [OF turns_frame.keeps_cancel_turn_jobs]
      final_transition_then [OF assms] finality.keeps_bind final_create_turn finality.keeps_case_prod
      finality.keeps_require_turn finality.keeps_replacement) simp

lemma final_replace_turn: "keeps final_step (replace_turn_in_transaction E V u q r c now)"
  unfolding replace_turn_in_transaction_def
  by (rule keepsI, rule wp_current_turn)
     (auto simp: final_reads split: option.splits intro!: final_supersede final_turns)

section \<open>Interactions\<close>

lemma final_resume_turn: "keeps final_step (resume_turn E ia now)"
  unfolding resume_turn_def
  by (rule keepsI) (auto simp: final_reads terminal_defs split: option.splits intro!: final_rules)

lemma final_close_waiting_turn:
  assumes "find_turn u s = Some t" and "\<not> turn_terminal (tn_status t)"
  shows "wp (close_waiting_turn E ia u t tt jt it rs now) (\<lambda>_ s'. final_step s s') s"
  unfolding close_waiting_turn_def using assms
  by (auto simp: final_reads intro!: final_rules)

lemma waiting_turnD: "waiting_turn ia s = Some (u, t) \<Longrightarrow> find_turn u s = Some t \<and> tn_status t = TurnWaitingHuman"
  by (auto simp: waiting_turn_def split: option.splits if_splits)

lemma final_close_pending: "keeps final_step (close_pending_in_transaction E row st ty p now)"
proof -
  have "wp (seq (close_own_item E row key it rs now) (seq (case waiting_turn row s of None \<Rightarrow> ret ()
       | Some (u, t) \<Rightarrow> close_waiting_turn E row u t tt jt it rs now) (read_interaction E i))) (\<lambda>_ s'. final_step s s') s"
    for key it rs tt jt i s
  proof (rule wp_turns_seq [OF turns_frame.keeps_close_own_item], rule final_then)
    fix s' :: db
    assume s': "db_turns s' = db_turns s"
    have "wp (close_waiting_turn E row u t tt jt it rs now) (\<lambda>_ s''. final_step s s'') s'"
      if "waiting_turn row s = Some (u, t)" for u t
      using final_close_waiting_turn [of u s' t E row tt jt it rs now] waiting_turnD [OF that] s'
      by (simp add: find_turn_def terminal_defs final_step_def)
    then show "wp (case waiting_turn row s of None \<Rightarrow> ret ()
       | Some (u, t) \<Rightarrow> close_waiting_turn E row u t tt jt it rs now) (\<lambda>_ s''. final_step s s'') s'"
      using s' by (auto simp: wp_ret final_step_def split: option.splits)
  qed (rule finality.keeps_read_interaction)
  then have "keeps final_step (bind (read (waiting_turn row)) (\<lambda>waiting. seq (close_own_item E row key it rs now)
      (seq (case waiting of None \<Rightarrow> ret () | Some (u, t) \<Rightarrow> close_waiting_turn E row u t tt jt it rs now)
        (read_interaction E i))))" for key it rs tt jt i
    by (auto simp: final_reads intro!: keepsI)
  then show ?thesis
    unfolding close_pending_in_transaction_def Let_def
    by (intro finality.keeps_if finality.keeps_lifted finality.keeps_seq finality.keeps_require
        finality.keeps_bind [OF finality.keeps_append] finality.keeps_update_interaction final_frame [OF frame_turn_loops(8)]) simp_all
qed

lemma final_respond: "keeps final_step (respond_in_transaction E i raw c now)"
  unfolding respond_in_transaction_def resolve_interaction_def resume_dependents_in_transaction_def
  by (intro finality.ops finality.keeps_read_interaction final_close_pending finality.keeps_update_interaction
      final_frame [OF frame_turn_loops(9)] final_resume_turn finality.keeps_close_own_item) simp_all

lemma final_expire_due: "keeps final_step (expire_due_in_transaction E now)"
  unfolding expire_due_in_transaction_def expire_row_def by (intro finality.ops final_close_pending)

section \<open>Forks, logins and retouches\<close>

definition current_turn :: "turn_row \<Rightarrow> db \<Rightarrow> bool" where
  "current_turn t s = (find_turn (tn_id t) s = Some t)"

lemma current_same: "current_turn t s \<Longrightarrow> db_turns s' = db_turns s \<Longrightarrow> current_turn t s'"
  by (simp add: current_turn_def find_turn_def)

lemma current_found: "find_turn u s = Some t \<Longrightarrow> current_turn t s"
  using found_turn by (fastforce simp: current_turn_def)

lemma final_execution_turn:
  "(\<And>t. current_turn t s' \<Longrightarrow> wp (k t) (\<lambda>_. final_step s) s') \<Longrightarrow> wp (bind (execution_turn rj) k) (\<lambda>_. final_step s) s'"
  by (auto simp: execution_turn_def wp_bind wp_seq wp_require wp_require_turn wp_ret wp_simps split: sum.splits
      dest: current_found)

lemma final_retouch_then:
  assumes "final_step s s'" and "current_turn t s'"
    and k: "\<And>t' s''. final_step s s'' \<Longrightarrow> current_turn t' s'' \<Longrightarrow> wp (k t') (\<lambda>_. final_step s) s''"
  shows "wp (bind (retouch_transition E t st r now) k) (\<lambda>_. final_step s) s'"
proof -
  have "wp (transition_turn_in_transaction E t st r now) (\<lambda>_ s''. final_step s s'') s'"
    using final_transition [of t s' E st r now] assms(1,2)
    by (auto simp: current_turn_def elim!: wp_mono intro: finality.R_trans)
  then have "wp (transition_turn_in_transaction E t st r now) (\<lambda>_. wp (require_turn (tn_id t)) (\<lambda>t'. wp (k t') (\<lambda>_. final_step s))) s'"
    by (rule wp_mono) (auto simp: wp_require_turn dest: current_found intro!: k)
  then show ?thesis
    using k [OF assms(1,2)] by (simp add: retouch_transition_def wp_bind wp_seq_eta wp_ret_eta wp_seq wp_ret)
qed

lemma final_frame_then:
  assumes "keeps same_turns m" and "final_step s s'" and "\<And>a s''. final_step s s'' \<Longrightarrow> db_turns s'' = db_turns s' \<Longrightarrow> wp (k a) (\<lambda>_. final_step s) s''"
  shows "wp (bind m k) (\<lambda>_. final_step s) s'"
  by (rule wp_turns_bind [OF assms(1)], rule assms(3)) (use assms(2) in \<open>auto simp: final_step_def\<close>)

lemma final_seq_then:
  assumes "keeps same_turns m" and "final_step s s'" and "\<And>s''. final_step s s'' \<Longrightarrow> db_turns s'' = db_turns s' \<Longrightarrow> wp k (\<lambda>_. final_step s) s''"
  shows "wp (seq m k) (\<lambda>_. final_step s) s'"
  unfolding seq_def by (rule final_frame_then [OF assms(1,2)]) (rule assms(3))

lemmas retouch_frames = turns_frame.keeps_retouch_reads turns_frame.keeps_retouch_facts turns_frame.keeps_retouch_rows
  turns_frame.keeps_row_event turns_frame.keeps_assert_transition turns_frame.keeps_require

lemmas final_owned = finality.keeps_bind [OF final_frame [OF turns_frame.keeps_retouch_reads(2)]]
  finality.keeps_bind [OF final_frame [OF turns_frame.keeps_row_event]]
  finality.keeps_seq [OF final_frame [OF turns_frame.keeps_assert_transition]]
  finality.keeps_seq [OF final_frame [OF turns_frame.keeps_retouch_rows(1)]]
  finality.keeps_seq [OF final_frame [OF turns_frame.keeps_retouch_rows(3)]]
  finality.keeps_bind [OF final_frame [OF turns_frame.keeps_retouch_reads(1)]]
  finality.keeps_seq [OF final_frame [OF turns_frame.keeps_retouch_facts(2)]]

lemma bind_bind: "bind (bind m f) g = bind m (\<lambda>x. bind (f x) g)"
  by (auto simp: bind_def fun_eq_iff split: sum.splits)

lemma final_finish_execution: "keeps final_step (finish_execution_turn E rj st r now)"
proof (rule keepsI)
  fix s :: db
  have target: "wp (bind (retouch_transition E t st (Some r) now) (\<lambda>_. ret ())) (\<lambda>_. final_step s) s'"
    if "final_step s s'" "current_turn t s'" for t s'
    by (rule final_retouch_then [OF that]) (simp add: wp_ret)
  have prepare: "wp (bind (bind m (\<lambda>t. retouch_transition E t TurnPreparing None now))
      (\<lambda>t. bind (retouch_transition E t st (Some r) now) (\<lambda>_. ret ()))) (\<lambda>_. final_step s) s"
    if "\<And>k :: turn_row \<Rightarrow> unit dbtxn. (\<And>t' s''. final_step s s'' \<Longrightarrow> current_turn t' s'' \<Longrightarrow> wp (k t') (\<lambda>_. final_step s) s'') \<Longrightarrow>
        wp (bind m k) (\<lambda>_. final_step s) s" for m :: "turn_row dbtxn"
    unfolding bind_bind by (rule that, rule final_retouch_then, assumption, assumption, rule target)
  show "wp (finish_execution_turn E rj st r now) (\<lambda>_. final_step s) s"
    unfolding finish_execution_turn_def
  proof (rule final_execution_turn)
    fix t
    assume t: "current_turn t s"
    have "wp (bind (if tn_status t = TurnAccepted then retouch_transition E t TurnQueued None now else ret t) k)
        (\<lambda>_. final_step s) s"
      if "\<And>t' s''. final_step s s'' \<Longrightarrow> current_turn t' s'' \<Longrightarrow> wp (k t') (\<lambda>_. final_step s) s''" for k :: "turn_row \<Rightarrow> unit dbtxn"
      using final_retouch_then [OF finality.R_refl t that] that [OF finality.R_refl t]
      by (simp add: wp_bind wp_ret)
    from prepare [OF this] target [OF finality.R_refl t]
    show "wp (if turn_terminal (tn_status t)
      then require (tn_status t = st) (ConflictError ''retouch execution Turn is terminal in a conflicting state'')
      else bind (if st = TurnFailed \<and> (tn_status t = TurnAccepted \<or> tn_status t = TurnQueued)
             then bind (if tn_status t = TurnAccepted then retouch_transition E t TurnQueued None now else ret t)
                    (\<lambda>t. retouch_transition E t TurnPreparing None now)
             else ret t) (\<lambda>t. bind (retouch_transition E t st (Some r) now) (\<lambda>_. ret ()))) (\<lambda>_. final_step s) s"
      by (cases "turn_terminal (tn_status t)"; cases "st = TurnFailed \<and> (tn_status t = TurnAccepted \<or> tn_status t = TurnQueued)")
         (simp_all only: if_True if_False wp_require finality.R_refl wp_bind [of "ret _"] wp_ret simp_thms)
  qed
qed

lemma final_report_and_finish: "keeps final_step (report_and_finish E rj j text now)"
  unfolding report_and_finish_def by (intro finality.keeps_seq final_finish_execution final_frame retouch_frames)

lemma final_running_hook: "keeps final_step (running_hook E rj w t lt now)"
  unfolding running_hook_def
proof (intro final_owned, rule keepsI, rule final_execution_turn)
  fix turn and s :: db
  assume "current_turn turn s"
  then show "wp (if tn_status turn = TurnQueued
     then bind (retouch_transition E turn TurnPreparing None now) (\<lambda>t1.
          bind (retouch_transition E t1 TurnToolPending None now) (\<lambda>t2.
          bind (retouch_transition E t2 TurnToolRunning None now) (\<lambda>_. ret ())))
     else if tn_status turn = TurnRetryWait
     then bind (retouch_transition E turn TurnToolRunning None now) (\<lambda>_. ret ())
     else require (tn_status turn = TurnToolRunning) (ConflictError ''retouch Turn cannot start'')) (\<lambda>_. final_step s) s"
    by (auto simp: wp_require wp_ret finality.R_refl intro!: final_retouch_then)
qed

lemma final_completed_hook: "keeps final_step (completed_hook E rj a w t lt now)"
  unfolding completed_hook_def
  by (intro final_owned, rule keepsI, rule final_execution_turn, rule final_retouch_then [OF finality.R_refl], assumption)
     (auto simp: wp_ret intro!: final_seq_then final_frame_then final_retouch_then retouch_frames elim: current_same)

lemma final_requeued_hook: "keeps final_step (requeued_hook E rj w t reason delay lt now)"
  unfolding requeued_hook_def Let_def
  by (intro final_owned, rule keepsI, rule final_execution_turn)
     (auto simp: wp_ret finality.R_refl intro!: final_retouch_then)

lemma final_terminal_hook: "keeps final_step (terminal_hook E rj st reason w t lt now)"
  unfolding terminal_hook_def settle_runtime_job_def Let_def
  by (intro finality.keeps_intros final_report_and_finish final_frame retouch_frames)

lemma final_retouch_hook: "keeps final_step (retouch_hook E rj lt now call)"
  by (cases call)
     (auto simp: reconcile_hook_def missing_runtime_hook_def Let_def
       intro!: final_running_hook final_completed_hook final_requeued_hook final_terminal_hook final_owned
         finality.keeps_ret final_report_and_finish final_finish_execution)

lemma final_retouch_enqueue: "keeps final_step (retouch_enqueue_in_transaction E V rj sc q c n d now)"
  unfolding retouch_enqueue_in_transaction_def create_operation_turn_in_transaction_def new_operation_def Let_def
  by (intro finality.keeps_intros finality.keeps_retouch_reads finality.keeps_operation_reads finality.keeps_fresh_id
      finality.keeps_require_thread finality.keeps_turn_reads final_accept final_frame [OF turns_frame.keeps_enqueue])

lemma final_resolve_login: "keeps final_step (resolve_login_in_transaction E i cn q client now)"
  unfolding resolve_login_in_transaction_def
  by (intro finality.ops finality.keeps_require_login finality.keeps_require_turn finality.keeps_refresh final_respond
      finality.keeps_turn_reads)

lemma final_fork: "keeps final_step (fork_in_transaction E h q now)"
  by (rule final_frame, rule turns_frame.keeps_fork_from)
     (simp add: same_turns_def keeps_def wp_simps insert_thread_def)

section \<open>Every run\<close>

interpretation turn_life: runtime_contract final_step
  by unfold_locales
     (simp_all add: finality.keeps_append finality.keeps_fresh_id finality.keeps_create_thread finality.keeps_thread_changes
       finality.keeps_create_item finality.keeps_message_delta finality.keeps_task_list finality.keeps_tool_result
       finality.keeps_transition_item finality.keeps_apply_delta finality.keeps_create_batch finality.keeps_create_interaction
       finality.keeps_connector_state finality.keeps_steer finality.keeps_expire_deadlines finality.keeps_reclaim
       finality.keeps_lease_next finality.keeps_start finality.keeps_heartbeat finality.keeps_finish finality.keeps_resume
       finality.keeps_cancel final_close_pending final_respond final_expire_due final_create_turn final_move_turn
       final_begin_finalizing final_finish_turn_job final_fail_turn_job final_replace_turn final_interrupt
       final_request_interaction final_resolve_login final_fork final_retouch_hook
       final_retouch_enqueue [unfolded keeps_def] final_frame [OF turns_frame.keeps_enqueue, unfolded keeps_def])

lemma turn_row_survives:
  assumes "running s" and "find_turn u s = Some t" and "runtime_step\<^sup>*\<^sup>* s s'"
  shows "\<exists>t'. find_turn u s' = Some t' \<and> turn_le t t'"
proof -
  have d: "distinct (map tn_id (db_turns s))" using running_sound [OF assms(1)] by (simp add: sound_def)
  then have e: "distinct (map tn_id (db_turns s'))" "turns_evolve (db_turns s) (db_turns s')"
    using turn_life.run_respects [OF assms(3)] by (simp_all add: final_step_def)
  obtain i where "i < length (db_turns s)" "db_turns s ! i = t"
    using found_turn [OF assms(2)] by (auto simp: in_set_conv_nth)
  then have t': "turn_le t (db_turns s' ! i)" "db_turns s' ! i \<in> set (db_turns s')"
    using e(2) by (auto simp: turns_evolve_def)
  then have "find_turn u s' = Some (db_turns s' ! i)"
    using find_key_unique [OF e(1) t'(2)] found_turn [OF assms(2)] by (simp add: find_turn_def turn_le_def)
  then show ?thesis using t'(1) by blast
qed

text \<open>
  C7.  A turn that has ended stays ended.  Whatever workers, clients, schedulers and timers do next, the row
  of a turn is still there with the input, models, metadata and thread it was accepted with, and once its
  status is terminal it never changes again.
\<close>

theorem ended_turn_is_final:
  assumes "running s" and "find_turn u s = Some t" and "runtime_step\<^sup>*\<^sup>* s s'"
  shows "\<exists>t'. find_turn u s' = Some t' \<and> turn_le t t'"
  using assms by (rule turn_row_survives)

end
