(* ===== verification/TurnSettle.thy ===== *)
theory TurnSettle
  imports TurnLife JobProperties
begin

text \<open>
  The end of a turn and its inputs.  A transition to a terminal status settles every job, interaction and
  Item of the turn in the same transaction.  Finalizing and steering are two transactions on the same
  rows: whichever commits first decides whether the input still belongs to the turn.
\<close>

section \<open>Sweeping the rows of a table\<close>

text \<open>A loop over rows read before it: each pass removes the row it is given, or finds it closed already.\<close>

lemma wp_sweep:
  fixes tab :: "'s \<Rightarrow> 'r list"
  assumes "\<And>r. r \<in> set (tab s) \<Longrightarrow> sel r \<Longrightarrow> closed r \<or> r \<in> set rs"
    and "\<And>x s. wp (g x) (\<lambda>_ s'. \<forall>r \<in> set (tab s'). sel r \<longrightarrow> closed r \<or> r \<in> set (tab s) \<and> r \<noteq> x) s"
  shows "wp (for_each rs g) (\<lambda>_ s'. \<forall>r \<in> set (tab s'). sel r \<longrightarrow> closed r) s"
proof -
  let ?I = "\<lambda>rest s. \<forall>r \<in> set (tab s). sel r \<longrightarrow> closed r \<or> r \<in> set rest"
  have "wp (for_each rs g) (\<lambda>_. ?I []) s"
  proof (rule wp_for_each [where I = ?I])
    fix x ys s
    assume I: "?I (x # ys) s"
    show "wp (g x) (\<lambda>_. ?I ys) s" by (rule wp_mono [OF assms(2)]) (use I in auto)
  qed (use assms(1) in blast)
  then show ?thesis by simp
qed

definition quiet :: "string \<Rightarrow> db \<Rightarrow> bool" where
  "quiet u s =
     ((\<forall>j \<in> set (db_jobs s). jb_turn j = Some u \<longrightarrow> job_terminal (jb_status j)) \<and>
      (\<forall>i \<in> set (db_interactions s). ia_turn i = Some u \<longrightarrow> ia_status i \<noteq> InteractionPending) \<and>
      (\<forall>i \<in> set (db_items s). it_turn i = u \<longrightarrow> item_terminal (it_status i)))"

text \<open>What leaves the jobs, the interactions and the status of the Items alone.\<close>

definition same_work :: "db \<Rightarrow> db \<Rightarrow> bool" where
  "same_work s s' =
     (db_jobs s' = db_jobs s \<and> db_interactions s' = db_interactions s \<and>
      map (\<lambda>i. (it_turn i, it_status i)) (db_items s') = map (\<lambda>i. (it_turn i, it_status i)) (db_items s))"

interpretation work_frame: db_order same_work
  by unfold_locales (auto simp: same_work_def)

lemma work_log: "keeps same_work (append_in_transaction E rq)"
  by (rule keepsI, rule keeps_wp [OF keeps_only_log_append]) (simp add: only_log_def same_work_def)

lemma work_archive: "keeps same_work (archive_visible_reasoning_in_transaction E h u i st r now)"
proof -
  have "keeps same_work (update_content i c now)" for i c
    by (simp add: keeps_def wp_simps update_content_def update_item_def same_work_def)
  then show ?thesis
    unfolding archive_visible_reasoning_in_transaction_def visible_rows_def Let_def
    by (intro work_frame.keeps_intros work_frame.keeps_case_list work_frame.keeps_lifted work_log)
qed

lemma quiet_same:
  assumes "same_work s s'" and "quiet u s"
  shows "quiet u s'"
proof -
  let ?f = "\<lambda>i. (it_turn i, it_status i)"
  have img: "?f ` set (db_items s') = ?f ` set (db_items s)"
    using assms(1) unfolding same_work_def by (metis set_map)
  have "item_terminal (it_status i)" if "i \<in> set (db_items s')" "it_turn i = u" for i
  proof -
    have "?f i \<in> ?f ` set (db_items s)" using imageI [OF that(1), of ?f] unfolding img .
    then show ?thesis using assms(2) that(2) by (auto simp: quiet_def)
  qed
  then show ?thesis using assms by (simp add: quiet_def same_work_def)
qed

section \<open>Settling\<close>

lemma wp_log:
  assumes "\<And>a s'. only_log s s' \<Longrightarrow> wp (k a) Q s'"
  shows "wp (bind (append_in_transaction E rq) k) Q s"
  unfolding wp_bind by (rule keeps_wp [OF keeps_only_log_append]) (rule assms)

lemma settled_statuses [simp]: "job_terminal (fst (settled_job st))" "item_terminal (settled_item st)"
  by (cases st; simp add: terminal_defs)+

lemma update_rows_closes:
  assumes "\<And>r. closed (f r)" and "r \<in> set (update_rows (\<lambda>r. k r = k x) f rs)"
  shows "closed r \<or> r \<in> set rs \<and> r \<noteq> x"
  using assms(2) assms(1) by (auto simp: set_update_rows split: if_splits)

lemma settle_job_closes:
  "wp (settle_job E t st r now x)
     (\<lambda>_ s'. \<forall>j \<in> set (db_jobs s'). jb_turn j = Some (tn_id t) \<longrightarrow>
        job_terminal (jb_status j) \<or> j \<in> set (db_jobs s) \<and> j \<noteq> x) s"
proof (cases "job_terminal (jb_status x)")
  case False
  have "wp (update_job (jb_id x) (settle_job_row (fst (settled_job st)) r now))
     (\<lambda>_ s''. \<forall>j \<in> set (db_jobs s''). jb_turn j = Some (tn_id t) \<longrightarrow>
        job_terminal (jb_status j) \<or> j \<in> set (db_jobs s) \<and> j \<noteq> x) s'" if "only_log s s'" for s'
    unfolding update_job_def wp_bind wp_read wp_seq wp_require wp_modify
  proof (intro impI ballI)
    fix j
    assume "j \<in> set (db_jobs (s'\<lparr>db_jobs := update_rows (\<lambda>r. jb_id r = jb_id x)
        (settle_job_row (fst (settled_job st)) r now) (db_jobs s')\<rparr>))"
    then have "j \<in> set (update_rows (\<lambda>r. jb_id r = jb_id x) (settle_job_row (fst (settled_job st)) r now) (db_jobs s))"
      using that by (simp add: only_log_def)
    then show "job_terminal (jb_status j) \<or> j \<in> set (db_jobs s) \<and> j \<noteq> x"
      by (rule update_rows_closes [rotated]) (simp add: settle_job_row_def)
  qed
  then show ?thesis using False by (simp add: settle_job_def wp_log)
qed (auto simp: settle_job_def wp_ret)

lemma settle_interaction_closes:
  "wp (settle_interaction E t st r now x)
     (\<lambda>_ s'. \<forall>i \<in> set (db_interactions s'). ia_turn i = Some (tn_id t) \<longrightarrow>
        ia_status i \<noteq> InteractionPending \<or> i \<in> set (db_interactions s) \<and> i \<noteq> x) s"
  unfolding settle_interaction_def
  by (rule wp_log) (auto simp: wp_simps update_interaction_def set_update_rows only_log_def)

lemma settle_item_closes:
  "wp (settle_item E t st r now x)
     (\<lambda>_ s'. \<forall>i \<in> set (db_items s'). it_turn i = tn_id t \<longrightarrow>
        item_terminal (it_status i) \<or> i \<in> set (db_items s) \<and> i \<noteq> x) s"
proof (cases "item_terminal (it_status x)")
  case False
  have "wp (update_item (it_id x) (\<lambda>i. i\<lparr>it_status := settled_item st, it_updated_at := now\<rparr>))
     (\<lambda>_ s''. \<forall>i \<in> set (db_items s''). it_turn i = tn_id t \<longrightarrow>
        item_terminal (it_status i) \<or> i \<in> set (db_items s) \<and> i \<noteq> x) s'" if "only_log s s'" for s'
    unfolding update_item_def wp_modify
  proof (intro ballI impI)
    fix i
    assume "i \<in> set (db_items (s'\<lparr>db_items := update_rows (\<lambda>r. it_id r = it_id x)
        (\<lambda>i. i\<lparr>it_status := settled_item st, it_updated_at := now\<rparr>) (db_items s')\<rparr>))"
    then have "i \<in> set (update_rows (\<lambda>r. it_id r = it_id x)
        (\<lambda>i. i\<lparr>it_status := settled_item st, it_updated_at := now\<rparr>) (db_items s))"
      using that by (simp add: only_log_def)
    then show "item_terminal (it_status i) \<or> i \<in> set (db_items s) \<and> i \<noteq> x"
      by (rule update_rows_closes [rotated]) simp
  qed
  then show ?thesis using False by (simp add: settle_item_def close_item_def wp_log)
qed (auto simp: settle_item_def close_item_def wp_ret)

text \<open>The later loops leave what the earlier ones settled.\<close>

definition same_asks :: "db \<Rightarrow> db \<Rightarrow> bool" where
  "same_asks s s' = (db_jobs s' = db_jobs s \<and> db_interactions s' = db_interactions s)"

interpretation asks_frame: db_order same_asks
  by unfold_locales (auto simp: same_asks_def)

lemma asks_item: "keeps same_asks (settle_item E t st r now x)"
proof -
  have "keeps same_asks (append_in_transaction E rq)" for rq
    by (rule keepsI, rule keeps_wp [OF keeps_only_log_append]) (simp add: only_log_def same_asks_def)
  moreover have "keeps same_asks (update_item i f)" for i f
    by (simp add: keeps_def wp_simps update_item_def same_asks_def)
  ultimately show ?thesis
    unfolding settle_item_def close_item_def by (intro asks_frame.keeps_intros)
qed

lemma same_jobs_settle_interaction: "keeps same_jobs (settle_interaction E t st r now x)"
  unfolding settle_interaction_def by (intro same_jobs_intros same_jobs_rules)

lemma wp_settle_quiet: "wp (settle_turn_dependents_in_transaction E t st r now) (\<lambda>_. quiet (tn_id t)) s"
proof -
  let ?J = "\<lambda>s. \<forall>j \<in> set (db_jobs s). jb_turn j = Some (tn_id t) \<longrightarrow> job_terminal (jb_status j)"
  let ?A = "\<lambda>s. \<forall>i \<in> set (db_interactions s). ia_turn i = Some (tn_id t) \<longrightarrow> ia_status i \<noteq> InteractionPending"
  let ?I = "\<lambda>s. \<forall>i \<in> set (db_items s). it_turn i = tn_id t \<longrightarrow> item_terminal (it_status i)"
  have items: "wp (for_each (items_by_age (tn_id t) s) (settle_item E t st r now)) (\<lambda>_. quiet (tn_id t)) s"
    if "?J s" "?A s" for s
  proof (rule wp_mono [OF wp_conj [OF wp_sweep [OF _ settle_item_closes]]])
    show "wp (for_each (items_by_age (tn_id t) s) (settle_item E t st r now)) (\<lambda>_ s'. same_asks s s') s"
      by (intro keeps_wp [OF asks_frame.keeps_for_each] asks_item)
  qed (use that in \<open>auto simp: quiet_def same_asks_def items_by_age_def items_of_turn_def\<close>)
  have asks: "wp (for_each (pending_of_turn (tn_id t) s) (settle_interaction E t st r now)) (\<lambda>_ s'. ?J s' \<and> ?A s') s"
    if "?J s" for s
  proof (rule wp_mono [OF wp_conj [OF wp_sweep [OF _ settle_interaction_closes]]])
    show "wp (for_each (pending_of_turn (tn_id t) s) (settle_interaction E t st r now)) (\<lambda>_ s'. same_jobs s s') s"
      by (intro keeps_wp [OF jobs_frame.keeps_for_each] same_jobs_settle_interaction)
  qed (use that in \<open>auto simp: same_jobs_def pending_of_turn_def\<close>)
  have jobs: "wp (for_each (jobs_of_turn (tn_id t) s) (settle_job E t st r now)) (\<lambda>_. ?J) s"
    by (rule wp_sweep [OF _ settle_job_closes]) (simp add: jobs_of_turn_def)
  show ?thesis
    unfolding settle_turn_dependents_in_transaction_def wp_bind wp_read wp_seq
    by (intro wp_mono [OF jobs] wp_mono [OF asks] items; simp)
qed

section \<open>Terminal transitions\<close>

lemma work_turn: "keeps same_work (update_turn i f)" "keeps same_work (update_thread h g)"
  by (simp_all add: keeps_def wp_simps update_turn_def update_thread_def same_work_def)

lemma wp_transition_quiet:
  assumes "turn_terminal st"
  shows "wp (transition_turn_in_transaction E t st r now) (\<lambda>_. quiet (tn_id t)) s"
proof -
  have "keeps same_work (bind (append_in_transaction E rq) (\<lambda>fact.
     seq (archive_visible_reasoning_in_transaction E h u (ev_id fact) st r now)
       (seq (update_turn u f) (update_thread h g))))" for rq h u f g
    by (intro work_frame.keeps_intros work_log work_archive work_turn)
  then have rest: "quiet k x \<Longrightarrow> wp (bind (append_in_transaction E rq) (\<lambda>fact.
     seq (archive_visible_reasoning_in_transaction E h u (ev_id fact) st r now)
       (seq (update_turn u f) (update_thread h g)))) (\<lambda>_. quiet k) x" for k x rq h u f g
    by (rule keeps_wp) (rule quiet_same)
  show ?thesis
    unfolding transition_turn_in_transaction_def wp_seq [of "require _ _"] wp_require if_P [OF assms]
      wp_seq [of "settle_turn_dependents_in_transaction _ _ _ _ _"]
    by (rule impI, rule wp_mono [OF wp_settle_quiet], rule rest)
qed

definition moved_turn :: "turn_row \<Rightarrow> turn_status \<Rightarrow> string option \<Rightarrow> int \<Rightarrow> turn_row" where
  "moved_turn t st r now =
     t\<lparr>tn_status := st, tn_reason := (if turn_terminal st then r else None), tn_updated_at := now\<rparr>"

lemma wp_transition_moves:
  assumes "find_turn (tn_id t) s = Some t"
  shows "wp (transition_turn_in_transaction E t st r now)
    (\<lambda>_ s'. find_turn (tn_id t) s' = Some (moved_turn t st r now)) s"
proof -
  have upd: "wp (seq (update_turn (tn_id t) (\<lambda>x. x\<lparr>tn_status := st, tn_reason := y, tn_updated_at := now\<rparr>)) (update_thread h g))
      (\<lambda>_ s''. find_turn (tn_id t) s'' = Some (t\<lparr>tn_status := st, tn_reason := y, tn_updated_at := now\<rparr>)) s'"
    if "db_turns s' = db_turns s" for s' h g y
    using that assms by (simp add: wp_simps update_turn_def update_thread_def find_turn_def find_update_rows_same)
  show ?thesis
    unfolding transition_turn_in_transaction_def moved_turn_def wp_seq [of "require _ _"] wp_require
    by (rule impI, rule wp_turns_seq, (intro frame_rules)[1], rule wp_turns_bind, (intro frame_rules)[1],
        rule wp_turns_seq, (intro frame_rules)[1], rule upd) simp
qed

lemma mutation_run:
  assumes "mutation_transaction E A scope sub i t m s = (Inr v, s')"
  shows "m s = Inr (v, s')"
  using assms
  by (auto simp: mutation_transaction_def control_transaction_def execution_transaction_def guarded_def transaction_def
      seq_def bind_def Let_def split: option.splits sum.splits prod.splits if_splits dest: binding_state)

lemma mutation_failed: "mutation_transaction E A scope sub i t m s = (Inl e, s') \<Longrightarrow> s' = s"
  by (auto simp: mutation_transaction_def control_transaction_def execution_transaction_def guarded_def transaction_def
      Let_def split: option.splits sum.splits prod.splits if_splits)

text \<open>
  C8.  Ending a turn ends its work.  A transition to a terminal status that succeeds leaves, in the same
  transaction, no unfinished job, no pending question and no open Item of the turn; the turn has the
  status and the reason asked for.
\<close>

theorem ending_a_turn_settles_its_work:
  assumes "transition_turn E A u st r i tk now s = (Inr v, s')" and "turn_terminal st"
    and "find_turn u s = Some t" and "tn_status t \<noteq> st"
  shows "quiet u s' \<and> find_turn u s' = Some (moved_turn t st r now)"
proof -
  have u: "tn_id t = u" using found_turn [OF assms(3)] by simp
  have run: "move_turn_in_transaction E u st r now s = Inr (v, s')"
    by (rule mutation_run [OF assms(1) [unfolded transition_turn_def]])
  have "wp (transition_turn_in_transaction E t st r now)
      (\<lambda>_ s'. quiet u s' \<and> find_turn u s' = Some (moved_turn t st r now)) s"
    using wp_conj [OF wp_transition_quiet [OF assms(2)] wp_transition_moves] assms(3) u by blast
  moreover have "wp (read_turn u) (\<lambda>_ s'. Q s') x" if "Q x" for Q x
    using that by (auto simp: read_turn_def wp_bind wp_require_turn lift_result_def wp_simps split: sum.splits)
  ultimately have "wp (move_turn_in_transaction E u st r now)
      (\<lambda>_ s'. quiet u s' \<and> find_turn u s' = Some (moved_turn t st r now)) s"
    using assms(3,4)
    by (auto simp: move_turn_in_transaction_def wp_bind wp_require_turn wp_seq wp_require elim!: wp_mono)
  then show ?thesis by (rule wpD) (rule run)
qed

lemma wp_end_then:
  assumes "turn_terminal st" and "find_turn u x = Some t" and "\<And>y. Q y \<Longrightarrow> wp k (\<lambda>_. Q) y"
    and "\<And>y. quiet u y \<Longrightarrow> find_turn u y = Some (moved_turn t st r now) \<Longrightarrow> Q y"
  shows "wp (seq (transition_turn_in_transaction E t st r now) k) (\<lambda>_. Q) x"
proof -
  have u: "tn_id t = u" using found_turn [OF assms(2)] by simp
  have "wp (transition_turn_in_transaction E t st r now)
      (\<lambda>_ s'. quiet u s' \<and> find_turn u s' = Some (moved_turn t st r now)) x"
    using wp_conj [OF wp_transition_quiet [OF assms(1)] wp_transition_moves] assms(2) u by blast
  then show ?thesis unfolding wp_seq by (rule wp_mono) (use assms(3,4) in blast)
qed

lemma wp_mutation_read: "Q x \<Longrightarrow> wp (bind (require_turn u) (\<lambda>t. turn_mutation t j h)) (\<lambda>_. Q) x"
  by (auto simp: wp_bind wp_require_turn turn_mutation_def lift_result_def wp_simps split: sum.splits)

text \<open>
  C9.  Interrupting a turn takes effect at once: after a successful call the turn is interrupted with the
  reason given, and none of its jobs, questions and Items is left open, whichever worker held the job.
\<close>

theorem interrupt_settles_the_turn:
  assumes "interrupt_turn E A u reason now s = (Inr v, s')" and "find_turn u s = Some t" and "tn_status t \<noteq> TurnInterrupted"
  shows "quiet u s' \<and> find_turn u s' = Some (moved_turn t TurnInterrupted (Some reason) now)"
proof -
  let ?Q = "\<lambda>s'. quiet u s' \<and> find_turn u s' = Some (moved_turn t TurnInterrupted (Some reason) now)"
  have run: "interrupt_turn_in_transaction E u reason now s = Inr (v, s')"
    using assms(1) by (auto simp: interrupt_turn_def control_transaction_def guarded_def transaction_def
        split: option.splits sum.splits prod.splits if_splits)
  have "wp (seq (transition_turn_in_transaction E t TurnInterrupted (Some reason) now)
      (bind (require_turn u) (\<lambda>updated. turn_mutation updated None (tn_thread t)))) (\<lambda>_. ?Q) x" if "db_turns x = db_turns s" for x
  proof (rule wp_end_then)
    show "find_turn u x = Some t" using assms(2) that by (simp add: find_turn_def)
    show "wp (bind (require_turn u) (\<lambda>updated. turn_mutation updated None (tn_thread t))) (\<lambda>_. ?Q) y" if "?Q y" for y
      using that by (rule wp_mutation_read)
  qed (simp_all add: terminal_defs)
  then have "wp (interrupt_turn_in_transaction E u reason now) (\<lambda>_. ?Q) s"
    unfolding interrupt_turn_in_transaction_def using assms(2,3)
    by (auto simp: wp_bind [of "require_turn _"] wp_require_turn wp_seq [of "require _ _"] wp_require
        intro!: wp_turns_seq [OF turns_frame.keeps_cancel_turn_jobs])
  then show ?thesis by (rule wpD) (rule run)
qed

section \<open>Inputs and finalizing\<close>

lemma running_inputs: "running s \<Longrightarrow> inputs_ok s"
proof (induction rule: running.induct)
  case empty
  show ?case by (simp add: inputs_ok_def empty_db_def revisions_of_def batches_of_def turn_inputs_ok_def)
next
  case (step s s')
  then show ?case using inputs_storage.step_respects by (auto simp: inputs_step_def)
qed

text \<open>
  C10.  In every run the input revisions of a turn are numbered without gaps from zero, in the order in which
  they were accepted, and the execution batches cover a prefix of them, each revision in exactly one
  batch and in order.
\<close>

theorem inputs_are_batched_in_order:
  assumes "running s"
  shows "map rv_ordinal (revisions_of u s) = [0..<length (revisions_of u s)] \<and>
    (\<exists>m \<le> length (revisions_of u s). concat (map (\<lambda>b. [bt_first b..<Suc (bt_last b)]) (batches_of u s)) = [0..<m])"
proof -
  have "turn_inputs_ok (revisions_of u s) (batches_of u s)" using running_inputs [OF assms] by (rule inputs_okD)
  then show ?thesis using chain_ranges by (auto simp: turn_inputs_ok_def)
qed

interpretation unchanged: db_order "(=)"
  by unfold_locales auto

lemma unchanged_reads:
  "keeps (=) (match_client_intent_in_transaction h u q)" "keeps (=) (turn_mutation t j h)" "keeps (=) (require_turn u)"
  unfolding match_client_intent_in_transaction_def turn_mutation_def require_turn_def
  by (intro unchanged.keeps_intros unchanged.keeps_lifted)+

lemma unchanged_content: "keeps (=) (content_dict r)"
  by (cases "it_content r") (simp_all add: content_dict_def unchanged.keeps_raise unchanged.keeps_ret)

lemma steer_refused:
  assumes "find_turn u s = Some t" and "tn_status t = TurnFinalizing \<or> turn_terminal (tn_status t)"
  shows "snd (steer_turn E A u q now s) = s"
proof -
  have "keeps (=) (steer_new E t q' now)" for q'
    using assms(2) by (auto simp: steer_new_def Let_def keeps_def wp_simps)
  then have "wp (steer_turn_in_transaction E u q now) (\<lambda>_ s'. s = s') s"
    unfolding steer_turn_in_transaction_def Let_def wp_bind [of "require_turn _"] wp_require_turn
    using assms(1)
    by (intro allI impI keeps_wp [where R = "(=)"] unchanged.keeps_intros unchanged_reads unchanged_content) simp_all
  from unchanged.control_keeps [OF this] show ?thesis by (simp add: steer_turn_def)
qed

definition same_inputs :: "db \<Rightarrow> db \<Rightarrow> bool" where
  "same_inputs s s' = (db_revisions s' = db_revisions s)"

interpretation inputs_frame: db_order same_inputs
  by unfold_locales (auto simp: same_inputs_def)

lemma inputs_log: "keeps same_inputs (append_in_transaction E rq)"
  by (rule keepsI, rule keeps_wp [OF keeps_only_log_append]) (simp add: only_log_def same_inputs_def)

lemma inputs_rows: "keeps same_inputs (update_turn i f)" "keeps same_inputs (update_thread h g)" "keeps same_inputs (insert_item it)"
  "keeps same_inputs (fresh_id E p)"
  by (simp_all add: keeps_def wp_simps update_turn_def update_thread_def insert_item_def same_inputs_def)

lemma wp_finalize:
  assumes "find_turn u s = Some t"
  shows "wp (transition_turn_in_transaction E t TurnFinalizing None now)
    (\<lambda>_ s'. find_turn u s' = Some (moved_turn t TurnFinalizing None now) \<and> same_inputs s s') s"
proof (rule wp_conj)
  show "wp (transition_turn_in_transaction E t TurnFinalizing None now)
    (\<lambda>_ s'. find_turn u s' = Some (moved_turn t TurnFinalizing None now)) s"
    using wp_transition_moves [of t s] found_turn [OF assms] assms by simp
  have "\<not> turn_terminal TurnFinalizing" by (simp add: terminal_defs)
  then have "keeps same_inputs (transition_turn_in_transaction E t TurnFinalizing None now)"
    unfolding transition_turn_in_transaction_def
    by (simp only: if_False) (intro inputs_frame.keeps_intros inputs_log inputs_rows)
  then show "wp (transition_turn_in_transaction E t TurnFinalizing None now) (\<lambda>_ s'. same_inputs s s') s"
    by (simp add: keeps_def)
qed

text \<open>
  C11.  How the worker of an agent turn closes its inputs.  When \<^verbatim>\<open>begin_finalizing_if_inputs_applied\<close> answers yes, the inputs
  the worker has applied are all there are, the turn is finalizing, and a steer that comes next writes nothing (the
  repetition of one that was accepted before may still be answered).  The other ways into the finalizing status, \<^verbatim>\<open>transition_turn\<close> and the completion
  of a retouch, do not look at the inputs.
\<close>

theorem finalizing_closes_the_inputs:
  assumes "begin_finalizing_if_inputs_applied E A u applied i tk now s = (Inr True, s')"
  shows "(\<exists>n. latest_ordinal u s' = Some n \<and> applied = int n) \<and>
    (\<exists>t. find_turn u s' = Some t \<and> tn_status t = TurnFinalizing) \<and> snd (steer_turn E' A' u q now' s') = s'"
proof -
  have run: "begin_finalizing_in_transaction E u applied now s = Inr (True, s')"
    using assms by (auto simp: begin_finalizing_if_inputs_applied_def split: if_splits dest: mutation_run)
  have same: "latest_ordinal u x = latest_ordinal u s" if "same_inputs s x" for x
    using that by (simp add: latest_ordinal_def revisions_of_def same_inputs_def)
  have "wp (begin_finalizing_in_transaction E u applied now) (\<lambda>r s'. r \<longrightarrow>
      (\<exists>n. latest_ordinal u s' = Some n \<and> applied = int n) \<and> (\<exists>t. find_turn u s' = Some t \<and> tn_status t = TurnFinalizing)) s"
    unfolding begin_finalizing_in_transaction_def
    by (auto simp: wp_bind wp_require_turn wp_seq wp_seq_eta wp_ret wp_ret_eta wp_raise wp_read wp_require split: option.splits
        intro!: wp_mono [OF wp_finalize] simp: same moved_turn_def)
  from wpD [OF this run] have post: "\<exists>n. latest_ordinal u s' = Some n \<and> applied = int n"
    "\<exists>t. find_turn u s' = Some t \<and> tn_status t = TurnFinalizing" by simp_all
  then show ?thesis using steer_refused by blast
qed

text \<open>A steer adds revisions of its own turn only.\<close>

definition grows :: "string \<Rightarrow> db \<Rightarrow> db \<Rightarrow> bool" where
  "grows u s s' = (\<exists>rs. (\<forall>r \<in> set rs. rv_turn r = u) \<and> db_revisions s' = db_revisions s @ rs)"

interpretation growth: db_order "grows u"
  by unfold_locales (auto simp: grows_def)

lemma growth_frame: "keeps same_inputs m \<Longrightarrow> keeps (grows u) m"
  by (rule keepsI, erule keeps_wp) (simp add: same_inputs_def grows_def)

lemma growth_unchanged: "keeps (=) m \<Longrightarrow> keeps (grows u) m"
  by (rule keepsI, erule keeps_wp) (auto simp: grows_def)

lemma growth_append: "keeps (grows u) (append_steer_in_transaction E h u q ca)"
  by (auto simp: append_steer_in_transaction_def append_next_in_transaction_def insert_revision_in_transaction_def
      insert_revision_def match_client_intent_in_transaction_def from_revision_row_def lift_result_def grows_def
      new_revision_def Let_def wp_simps split: if_splits sum.splits intro!: keepsI)

lemma growth_steer: "wp (steer_turn_in_transaction E u q now) (\<lambda>_ s'. grows u s s') s"
proof -
  have "keeps (grows u) (steer_new E t q' now)" if "tn_id t = u" for t q'
    unfolding steer_new_def admit_steer_def Let_def that
    by (intro growth.keeps_intros growth_append growth_unchanged [OF unchanged_reads(2)] growth_frame [OF inputs_log]
        growth_frame [OF inputs_rows(3)] growth_frame [OF inputs_rows(4)])
  then show ?thesis
    unfolding steer_turn_in_transaction_def Let_def wp_bind [of "require_turn _"] wp_require_turn
    by (intro allI impI keeps_wp [where R = "grows u"] growth.keeps_intros unchanged_reads [THEN growth_unchanged]
        unchanged_content [THEN growth_unchanged]) (auto dest: found_turn)
qed

lemma latest_ordinal_length:
  "inputs_ok s \<Longrightarrow> latest_ordinal u s = (case length (revisions_of u s) of 0 \<Rightarrow> None | Suc n \<Rightarrow> Some n)"
  using inputs_okD(1) [of s u] by (simp add: latest_ordinal_def turn_inputs_ok_def next_ordinal_upt)

lemma finalizing_behind:
  assumes "latest_ordinal u s = Some n" and "applied < int n"
  shows "snd (begin_finalizing_if_inputs_applied E A u applied i tk now s) = s \<and>
    fst (begin_finalizing_if_inputs_applied E A u applied i tk now s) \<noteq> Inr True"
proof -
  have w: "wp (begin_finalizing_in_transaction E u applied now) (\<lambda>r s'. s' = s \<and> \<not> r) s"
    unfolding begin_finalizing_in_transaction_def using assms
    by (auto simp: wp_bind wp_require_turn wp_seq wp_ret wp_raise wp_read wp_require)
  obtain x y where xy: "mutation_transaction E A ''turn_finalizing'' u i tk (begin_finalizing_in_transaction E u applied now) s = (x, y)"
    by fastforce
  have "y = s \<and> x \<noteq> Inr True"
  proof (cases x)
    case (Inr v)
    from wpD [OF w mutation_run [OF xy [unfolded Inr]]] show ?thesis using Inr by simp
  next
    case (Inl e)
    from mutation_failed [OF xy [unfolded Inl]] show ?thesis using Inl by simp
  qed
  then show ?thesis by (simp add: begin_finalizing_if_inputs_applied_def xy)
qed

text \<open>
  A steer that is accepted first defers finalizing: a worker that has applied the inputs up to the
  head before the steer cannot finalize the turn, and its attempt changes nothing.
\<close>

theorem accepted_steer_defers_finalizing:
  assumes "running s" and "steer_turn E A u q now s = (Inr v, s1)" and "db_revisions s1 \<noteq> db_revisions s"
    and "latest_ordinal u s = Some n" and "applied \<le> int n"
  shows "\<exists>r. begin_finalizing_if_inputs_applied E' A' u applied i tk now' s1 = (r, s1) \<and> r \<noteq> Inr True"
proof -
  have "grows u s s1"
    using growth.control_keeps [OF growth_steer] assms(2) by (metis steer_turn_def snd_conv)
  then have "length (revisions_of u s) < length (revisions_of u s1)"
    using assms(3) by (auto simp: grows_def revisions_of_def neq_Nil_conv)
  moreover have "running s1" using running.step [OF assms(1) runtime_step.call [OF runtime_call.steer]] assms(2) by (metis snd_conv)
  ultimately obtain m where "latest_ordinal u s1 = Some m" "n < m"
    using assms(4) running_inputs [OF assms(1)] running_inputs [of s1]
    by (cases "length (revisions_of u s1)") (auto simp: latest_ordinal_length split: nat.splits)
  then show ?thesis
    using finalizing_behind [of u s1 m applied E' A' i tk now'] assms(5) by (intro exI [of _ "fst _"]) (auto simp: prod_eq_iff)
qed

end
