(* ===== verification/TurnRuns.thy ===== *)
theory TurnRuns
  imports SampleRun TurnSettle
begin

text \<open>
  Witnesses of the properties of threads, turns and their inputs: each applies the property to a state
  of the sample run, or to a small state written out here, where its hypotheses hold.
\<close>

theorem ended_turn_is_final_witness:
  "\<exists>s v. interrupt_turn sample_env ungated ''trn_2'' ''stop'' 3 run_accepted = (Inr v, s) \<and>
     (\<exists>t. find_turn ''trn_2'' (snd (steer_turn sample_env ungated ''trn_2'' run_steer 4 s)) = Some t \<and>
        tn_status t = TurnInterrupted)"
proof -
  obtain v s where run: "interrupt_turn sample_env ungated ''trn_2'' ''stop'' 3 run_accepted = (Inr v, s)"
    and found: "find_turn ''trn_2'' s =
       Some (run_turn\<lparr>tn_status := TurnInterrupted, tn_reason := Some ''stop'', tn_updated_at := 3\<rparr>)"
    using run_interrupt by blast
  have "running s"
    using running.step [OF run_accepted_running runtime_step.call [OF runtime_call.interrupt]] run by (metis snd_conv)
  from ended_turn_is_final [OF this found r_into_rtranclp, OF runtime_step.call [OF runtime_call.steer [of s sample_env ungated "''trn_2''" run_steer 4]]] run show ?thesis
    by (auto simp: turn_le_def terminal_defs)
qed

theorem ending_a_turn_settles_its_work_witness:
  "\<exists>s v. transition_turn sample_env ungated ''trn_2'' TurnCancelled None None None 3 run_accepted = (Inr v, s) \<and>
     (\<forall>j \<in> set (db_jobs s). jb_turn j = Some ''trn_2'' \<longrightarrow> job_terminal (jb_status j))"
proof -
  have found: "find_turn ''trn_2'' run_accepted = Some run_turn" and "tn_status run_turn \<noteq> TurnCancelled"
    by (simp_all add: find_turn_def run_accepted_def run_turn_def)
  moreover have "\<exists>s v. transition_turn sample_env ungated ''trn_2'' TurnCancelled None None None 3 run_accepted = (Inr v, s)"
    by (simp add: eval_simps thread_simps turn_simps job_simps sample_simps interrupt_simps transition_turn_def move_turn_in_transaction_def settle_job_row_def
        mutation_transaction_def cong: bind_lazy seq_lazy)
  ultimately show ?thesis
    using ending_a_turn_settles_its_work [of _ _ _ TurnCancelled] by (fastforce simp: quiet_def terminal_defs)
qed

theorem interrupt_settles_the_turn_witness:
  "\<exists>s v. interrupt_turn sample_env ungated ''trn_2'' ''stop'' 3 run_accepted = (Inr v, s) \<and>
     find_turn ''trn_2'' s = Some (moved_turn run_turn TurnInterrupted (Some ''stop'') 3)"
proof -
  have found: "find_turn ''trn_2'' run_accepted = Some run_turn" and "tn_status run_turn \<noteq> TurnInterrupted"
    by (simp_all add: find_turn_def run_accepted_def run_turn_def)
  then show ?thesis using run_interrupt interrupt_settles_the_turn by blast
qed

theorem inputs_are_batched_in_order_witness: "map rv_ordinal (revisions_of ''trn_2'' run_accepted) = [0]"
  using inputs_are_batched_in_order [OF run_accepted_running, of "''trn_2''"]
  by (simp add: revisions_of_def run_accepted_def new_revision_def)

definition run_streaming :: db where
  "run_streaming = sample_inputs\<lparr>db_turns := [sample_turn\<lparr>tn_status := TurnStreaming\<rparr>]\<rparr>"

theorem finalizing_closes_the_inputs_witness:
  "\<exists>s. begin_finalizing_if_inputs_applied sample_env ungated ''u'' 0 None None 3 run_streaming = (Inr True, s) \<and>
     snd (steer_turn sample_env ungated ''u'' run_steer 4 s) = s"
proof -
  have "\<exists>s. begin_finalizing_if_inputs_applied sample_env ungated ''u'' 0 None None 3 run_streaming = (Inr True, s)"
    by (simp add: eval_simps thread_simps turn_simps input_simps sample_simps interrupt_simps begin_finalizing_if_inputs_applied_def
        begin_finalizing_in_transaction_def mutation_transaction_def run_streaming_def sample_inputs_def sample_turn_def
        sample_thread_def sample_revision_def cong: bind_lazy seq_lazy)
  then show ?thesis using finalizing_closes_the_inputs by blast
qed

theorem accepted_steer_defers_finalizing_witness:
  "\<exists>s v r. steer_turn sample_env ungated ''trn_2'' run_steer 3 run_accepted = (Inr v, s) \<and>
     begin_finalizing_if_inputs_applied sample_env ungated ''trn_2'' 0 None None 4 s = (r, s) \<and> r \<noteq> Inr True"
proof -
  obtain v s where run: "steer_turn sample_env ungated ''trn_2'' run_steer 3 run_accepted = (Inr v, s)"
    and "length (db_revisions s) = Suc (length (db_revisions run_accepted))"
    using run_steer_turn by blast
  then have "db_revisions s \<noteq> db_revisions run_accepted" by auto
  moreover have "latest_ordinal ''trn_2'' run_accepted = Some 0"
    by (simp add: latest_ordinal_def next_ordinal_def revisions_of_def run_accepted_def new_revision_def)
  ultimately show ?thesis
    using accepted_steer_defers_finalizing [OF run_accepted_running run, of 0 0] run by simp
qed

theorem thread_pages_continue_witness:
  "\<exists>views. list_threads None 1 None None run_accepted = Inr (views, False) \<and> length views \<le> 1"
proof -
  have "\<exists>views. list_threads None 1 None None run_accepted = Inr (views, False) \<and> views \<noteq> []"
    by (simp add: list_threads_def thread_listing_def listed_def sample_simps project_thread_def)
  moreover have "distinct (map th_id (db_threads run_accepted))" by (simp add: run_accepted_def)
  ultimately show ?thesis using thread_pages_continue by fastforce
qed

theorem partial_turn_reported_active_witness:
  "\<exists>v. get_thread ''t'' (sample_inputs\<lparr>db_turns := [sample_turn\<lparr>tn_status := TurnPartial\<rparr>]\<rparr>) = Inr v \<and>
     tv_active v = Some TurnPartial \<and> turn_terminal TurnPartial"
  by (rule partial_turn_reported_active [of _ _ sample_thread "sample_turn\<lparr>tn_status := TurnPartial\<rparr>"])
     (simp_all add: sample_inputs_def sample_turn_def sample_thread_def)

definition sample_contract :: contract where
  "sample_contract =
     \<lparr>co_title = ''Pick one'',
      co_fields = [\<lparr>ff_id = ''size'', ff_label = ''Size'', ff_control = ControlSelect, ff_required = True,
        ff_description = None, ff_placeholder = Some ''size'', ff_min = 0, ff_max = 500,
        ff_options = [\<lparr>ch_id = ''s'', ch_label = ''Small'', ch_description = None\<rparr>,
                      \<lparr>ch_id = ''l'', ch_label = ''Large'', ch_description = Some ''two pages''\<rparr>]\<rparr>],
      co_actions = [\<lparr>ac_id = ''submit'', ac_label = ''Go'', ac_type = ActionSubmit, ac_style = StylePrimary, ac_submits = True\<rparr>,
        \<lparr>ac_id = ''cancel'', ac_label = ''No'', ac_type = ActionCancel, ac_style = StyleSecondary, ac_submits = False\<rparr>],
      co_connector = None\<rparr>"

theorem contract_roundtrip_witness:
  "parse_contract sample_env (json_canon (dump_contract sample_contract)) = Some sample_contract"
proof (rule contract_roundtrip)
  have texts: "text_bounds 1 120 ''Pick one''" "text_bounds 1 80 ''Size''" "text_bounds 0 160 ''size''" "text_bounds 1 80 ''Small''"
    "text_bounds 1 80 ''Large''" "text_bounds 0 240 ''two pages''" "text_bounds 1 80 ''Go''" "text_bounds 1 80 ''No''"
    by code_simp+
  have tokens: "interaction_token ''size''" "interaction_token ''s''" "interaction_token ''l''" "interaction_token ''submit''"
    "interaction_token ''cancel''"
    by code_simp+
  show "contract_ok sample_env sample_contract"
    using texts tokens
    by (simp add: contract_ok_def field_ok_def choice_ok_def action_ok_def sample_contract_def sample_env_def)
qed

end
