(* ===== verification/ForkHistory.thy ===== *)
theory ForkHistory
  imports TurnLife
begin

text \<open>
  Forked threads in a run of the Runtime.  A fork stores the thread and the sequence it starts from and
  inherits what the facts up to there say.  The invariant \<open>lineage_ok\<close> says that every fork was made from a
  thread stored before it, at a sequence that thread had reached; so lineages are finite chains and later
  facts of an ancestor never reach its forks.
\<close>

section \<open>The invariant\<close>

fun lines_ok :: "(string \<times> string option \<times> string option \<times> nat option) list \<Rightarrow> (string \<Rightarrow> nat) \<Rightarrow> bool" where
  "lines_ok [] W = True"
| "lines_ok ((i, p, u, n) # L) W =
     (i \<notin> fst ` set L \<and> (case p of None \<Rightarrow> True | Some h \<Rightarrow> h \<in> fst ` set L \<and> n \<noteq> None \<and> the n \<le> W h) \<and> lines_ok L W)"

definition lineage_ok :: "db \<Rightarrow> bool" where
  "lineage_ok s = (events_ok s \<and> lines_ok (rev (map lineage (db_threads s))) (\<lambda>h. head h s))"

definition lineage_step :: "db \<Rightarrow> db \<Rightarrow> bool" where
  "lineage_step s s' = (lineage_ok s \<longrightarrow> lineage_ok s' \<and> log_step s s')"

definition same_lines :: "db \<Rightarrow> db \<Rightarrow> bool" where
  "same_lines s s' = (map lineage (db_threads s') = map lineage (db_threads s))"

interpretation lines: db_order lineage_step
  by unfold_locales (auto simp: lineage_step_def log_step_def)

interpretation lines_frame: db_order same_lines
  by unfold_locales (auto simp: same_lines_def)

lemma head_events: "events_ok s \<Longrightarrow> length (thread_events h s) = head h s"
  unfolding events_ok_def by (metis diff_Suc_1 length_map length_upt)

lemma head_grows: "events_ok s \<Longrightarrow> log_step s s' \<Longrightarrow> head h s \<le> head h s'"
  using head_events [of s h] head_events [of s' h] by (auto simp: log_step_def thread_events_def)

lemma lines_mono: "lines_ok L W \<Longrightarrow> (\<And>h. W h \<le> W' h) \<Longrightarrow> lines_ok L W'"
  by (induction L W rule: lines_ok.induct) (auto split: option.splits intro: order_trans)

lemma lineage_same:
  assumes "lineage_ok s" and "log_step s s'" and "same_lines s s'"
  shows "lineage_ok s'"
  using assms head_grows [of s s'] lines_mono
  by (auto simp: lineage_ok_def same_lines_def log_step_def)

lemma lineage_from:
  assumes "keeps log_step m" and "keeps same_lines m"
  shows "keeps lineage_step m"
proof (rule keepsI)
  fix s :: db
  show "wp m (\<lambda>_ s'. lineage_step s s') s"
    using wp_conj [OF assms(1) [unfolded keeps_def, rule_format] assms(2) [unfolded keeps_def, rule_format]]
    by (rule wp_mono) (auto simp: lineage_step_def lineage_same)
qed

lemma lineage_insert:
  assumes "\<And>p. th_forked_thread r = Some p \<Longrightarrow>
      p \<in> th_id ` set (db_threads s) \<and> th_forked_seq r \<noteq> None \<and> the (th_forked_seq r) \<le> head p s"
  shows "wp (insert_thread r) (\<lambda>_ s'. lineage_step s s') s"
proof -
  have ids: "fst ` lineage ` T = th_id ` T" for T by (force simp: lineage_def)
  have "lineage_step s s'" if s': "s' = s\<lparr>db_threads := db_threads s @ [r]\<rparr>" "th_id r \<notin> th_id ` set (db_threads s)" for s'
  proof -
    have "head h s' = head h s" "events_ok s' = events_ok s" for h
      by (simp_all add: s'(1) head_def events_ok_def thread_events_def)
    moreover have "lineage r = (th_id r, th_forked_thread r, th_forked_turn r, th_forked_seq r)" by (simp add: lineage_def)
    ultimately show ?thesis
      using assms s'(2) by (auto simp: lineage_step_def lineage_ok_def log_step_def s'(1) ids split: option.splits)
  qed
  then show ?thesis by (auto simp: insert_thread_def wp_simps list_ex_iff image_iff dest: not_sym)
qed

lemma boundary_reached: "events_ok s \<Longrightarrow> turn_boundary h u s \<le> head h s"
proof -
  assume "events_ok s"
  then have "map ev_seq (thread_events h s) = [1..<Suc (head h s)]" by (simp add: events_ok_def)
  then have "ev_seq ` set (thread_events h s) = {1..<Suc (head h s)}" by (metis set_map set_upt)
  then have "ev_seq e \<le> head h s" if "e \<in> set (thread_events h s)" for e
    using that by (metis imageI atLeastLessThan_iff less_Suc_eq_le)
  then have "n \<le> head h s" if "n \<in> set (map ev_seq (filter (\<lambda>e. ev_thread e = h \<and> ev_turn e = Some u) (db_events s)))" for n
    using that by (auto simp: thread_events_def)
  moreover have "(\<And>n. n \<in> set ns \<Longrightarrow> n \<le> k) \<Longrightarrow> foldr max ns (0::nat) \<le> k" for ns k by (induction ns) auto
  ultimately show ?thesis unfolding turn_boundary_def by blast
qed

lemma wp_fork_boundary: "events_ok s \<Longrightarrow> wp (fork_boundary h u) (\<lambda>b s'. s' = s \<and> b \<le> head h s) s"
  by (cases u) (auto simp: fork_boundary_def wp_simps watermark_def wp_require_turn boundary_reached)

lemma same_lines_append: "keeps same_lines (append_in_transaction E rq)"
  by (rule keepsI, rule keeps_wp [OF keeps_only_log_append]) (simp add: only_log_def same_lines_def same_threads_lineage)

lemma same_lines_fresh: "keeps same_lines (fresh_id E p)"
  by (simp add: keeps_def wp_fresh_id same_lines_def)

text \<open>Until the fork is inserted only the log grows, so its source and the boundary stay valid.\<close>

lemma lineage_then:
  assumes "keeps log_step m" and "keeps same_lines m"
    and "lineage_ok s1 \<and> log_step s s1 \<and> same_lines s s1"
    and "\<And>a s2. lineage_ok s2 \<and> log_step s s2 \<and> same_lines s s2 \<Longrightarrow> wp (k a) Q s2"
  shows "wp (bind m k) Q s1"
  unfolding wp_bind
proof (rule wp_mono [OF wp_conj [OF assms(1) [unfolded keeps_def, rule_format] assms(2) [unfolded keeps_def, rule_format]]])
  fix a s2
  assume "log_step s1 s2 \<and> same_lines s1 s2"
  then show "wp (k a) Q s2"
    using assms(3) lineage_same [of s1 s2]
    by (intro assms(4)) (auto intro: log_steps.R_trans lines_frame.R_trans)
qed

lemma wp_found_thread:
  "(\<And>r. find_thread h s = Some r \<Longrightarrow> wp (k r) Q s) \<Longrightarrow> wp (bind (require_thread h b) k) Q s"
  by (auto simp: require_thread_def wp_simps split: option.splits)

lemma lineage_insert_fork: "lineage_ok s \<Longrightarrow> wp (insert_fork E h q now) (\<lambda>_ s'. lineage_step s s') s"
proof -
  assume ok: "lineage_ok s"
  have insert: "wp (seq (insert_thread (forked_thread i h q title md b now)) (read_thread i False)) (\<lambda>_ s'. lineage_step s s') s2"
    if b: "find_thread h s = Some source" "b \<le> head h s" and s2: "lineage_ok s2 \<and> log_step s s2 \<and> same_lines s s2"
    for source b i title md s2
  proof -
    have "h \<in> th_id ` set (db_threads s)" using b(1) by (auto simp: find_thread_def dest!: find_SomeD)
    moreover have "th_id ` set (db_threads x) = fst ` set (map lineage (db_threads x))" for x
      by (force simp: lineage_def)
    ultimately have h: "h \<in> th_id ` set (db_threads s2)" using s2 unfolding same_lines_def by metis
    have "b \<le> head h s2" using b(2) s2 ok head_grows [of s s2 h] by (simp add: lineage_ok_def)
    then have "wp (insert_thread (forked_thread i h q title md b now)) (\<lambda>_ s'. lineage_step s2 s') s2"
      using h by (intro lineage_insert) (simp add: forked_thread_def)
    moreover have "lineage_step s s2" using s2 by (simp add: lineage_step_def)
    moreover have "keeps lineage_step (read_thread i False)"
      unfolding read_thread_def require_thread_def by (intro lines.keeps_intros)
    ultimately show ?thesis
      unfolding wp_seq by (elim wp_mono) (auto intro: keeps_wp lines.R_trans)
  qed
  have "wp (bind (fork_boundary h (fk_turn q)) k) (\<lambda>_ s'. lineage_step s s') s"
    if "\<And>b. b \<le> head h s \<Longrightarrow> wp (k b) (\<lambda>_ s'. lineage_step s s') s" for k :: "nat \<Rightarrow> thread_view dbtxn"
    unfolding wp_bind by (rule wp_mono [OF wp_fork_boundary]) (use ok that in \<open>auto simp: lineage_ok_def\<close>)
  note boundary = this
  show ?thesis
    unfolding insert_fork_def
  proof (rule wp_found_thread, rule boundary, unfold wp_bind [of "ret _"] wp_ret prod.case,
      rule lineage_then [where s = s, OF log_storage.keeps_fresh_id same_lines_fresh],
      use ok in \<open>simp add: log_steps.R_refl lines_frame.R_refl\<close>)
  qed (rule lineage_then [where s = s, OF log_step_append same_lines_append], assumption, rule insert)
qed

lemma lineage_fork: "keeps lineage_step (fork_in_transaction E h q now)"
proof (rule keepsI)
  fix s :: db
  have "wp (insert_fork E h q now) (\<lambda>_ s'. lineage_step s s') s"
    by (cases "lineage_ok s") (auto simp: lineage_insert_fork, auto simp: lineage_step_def wp_def split: sum.splits)
  then show "wp (fork_in_transaction E h q now) (\<lambda>_ s'. lineage_step s s') s"
    unfolding fork_in_transaction_def by (auto simp: wp_simps lines.R_refl split: option.splits)
qed

lemmas log_laws = log_storage.keeps_fresh_id log_storage.keeps_update_item log_storage.keeps_update_interaction
  log_storage.keeps_update_job log_storage.keeps_upsert_scheduler log_storage.keeps_retire log_storage.keeps_insert_item
  log_storage.keeps_insert_context log_storage.keeps_insert_interaction log_storage.keeps_update_thread
  log_storage.keeps_insert_revision log_storage.keeps_insert_batch log_storage.keeps_insert_job log_storage.keeps_update_turn
  log_storage.keeps_insert_turn

interpretation lines_turns: update_order lineage_step
proof unfold_locales
  show "keeps lineage_step (append_in_transaction E rq)" for E rq by (rule lineage_from [OF log_step_append same_lines_append])
  show "th_forked_thread r = None \<Longrightarrow> keeps lineage_step (insert_thread r)" for r by (rule keepsI, rule lineage_insert) simp
qed (rule lineage_from, (rule log_laws; simp), simp add: keeps_def wp_simps same_lines_def update_turn_def update_item_def
    update_interaction_def update_job_def upsert_scheduler_def retire_row_execution_permit_def insert_item_def
    insert_context_def insert_turn_def insert_interaction_def update_thread_def insert_revision_def insert_batch_def)+

interpretation lines_all: runtime_order lineage_step
proof unfold_locales
  show "jb_lease_token j = None \<Longrightarrow> keeps lineage_step (insert_job j)" for j
    by (rule lineage_from [OF log_storage.keeps_insert_job]) (simp_all add: keeps_def wp_simps same_lines_def insert_job_def)
  show "keeps lineage_step (update_job i (lease_job_row n w tk ex cp now))" for i n w tk ex cp now
    by (rule lineage_from [OF log_storage.keeps_lease_job]) (simp add: keeps_def wp_simps same_lines_def update_job_def)
qed (rule lineage_fork)

lemma running_lineage: "running s \<Longrightarrow> lineage_ok s"
proof (induction rule: running.induct)
  case empty
  show ?case by (simp add: lineage_ok_def events_ok_def thread_events_def head_def empty_db_def)
next
  case (step s s')
  then show ?case using lines_all.step_respects [of s s'] by (simp add: lineage_step_def)
qed

section \<open>What the invariant gives\<close>

lemma lines_member:
  assumes "lines_ok (rev (map lineage T)) W" and "r \<in> set T" and "th_forked_thread r = Some p"
  shows "p \<in> th_id ` set T \<and> (\<exists>k. th_forked_seq r = Some k \<and> k \<le> W p)"
  using assms
proof (induction T rule: rev_induct)
  case (snoc x T)
  have ids: "fst ` lineage ` X = th_id ` X" for X by (force simp: lineage_def)
  show ?case using snoc ids [of "set T"] by (auto simp: lineage_def [of x])
qed simp

lemma lines_distinct: "lines_ok (rev (map lineage T)) W \<Longrightarrow> distinct (map th_id T)"
proof (induction T rule: rev_induct)
  case (snoc x T)
  have ids: "fst ` lineage ` X = th_id ` X" for X by (force simp: lineage_def)
  show ?case using snoc ids [of "set T"] by (auto simp: lineage_def [of x])
qed simp

lemma lineage_parent:
  assumes "lineage_ok s" and "find_thread h s = Some row" and "th_forked_thread row = Some p"
  shows "\<exists>k r. th_forked_seq row = Some k \<and> k \<le> head p s \<and> find_thread p s = Some r"
proof -
  have row: "row \<in> set (db_threads s)" using assms(2) by (auto simp: find_thread_def dest: find_SomeD)
  have "find_thread p s \<noteq> None" if "p \<in> th_id ` set (db_threads s)" using that by (auto simp: find_thread_def find_None_iff)
  then show ?thesis using lines_member [OF _ row assms(3)] assms(1) by (fastforce simp: lineage_ok_def)
qed

lemma thread_survives:
  assumes "runtime_step\<^sup>*\<^sup>* s s'" and "lineage_ok s'" and "find_thread h s = Some row"
  shows "\<exists>row'. find_thread h s' = Some row' \<and> lineage row' = lineage row"
proof -
  obtain new where "map lineage (db_threads s') = map lineage (db_threads s) @ new"
    using permanent_storage.run_respects [OF assms(1)] by (auto simp: permanent_def)
  moreover have row: "row \<in> set (db_threads s)" "th_id row = h" using assms(3) by (auto simp: find_thread_def dest: find_SomeD)
  ultimately have "lineage row \<in> lineage ` set (db_threads s')" by (metis UnI1 imageI list.set_map set_append)
  then obtain row' where row': "row' \<in> set (db_threads s')" "lineage row' = lineage row" by auto
  then have "th_id row' = h" using row by (simp add: lineage_def)
  then have "find_thread h s' = Some row'"
    using find_key_unique [OF lines_distinct row'(1)] assms(2) unfolding find_thread_def lineage_ok_def by blast
  then show ?thesis using row' by blast
qed

lemma events_frozen:
  assumes "events_ok s" and "log_step s s'" and "n \<le> head h s"
  shows "events_through h n s' = events_through h n s"
proof -
  obtain new where new: "db_events s' = db_events s @ new" and ok: "events_ok s'"
    using assms(1,2) by (auto simp: log_step_def)
  have seqs: "map ev_seq (thread_events h x) = [1..<Suc (head h x)]" if "events_ok x" for x using that by (simp add: events_ok_def)
  have "thread_events h s' = thread_events h s @ filter (\<lambda>e. ev_thread e = h) new" by (simp add: thread_events_def new)
  then have "map ev_seq (filter (\<lambda>e. ev_thread e = h) new) = drop (head h s) [1..<Suc (head h s')]"
    using seqs [OF ok] seqs [OF assms(1)] by (metis append_eq_conv_conj diff_Suc_1 length_map length_upt map_append)
  then have "ev_seq e > head h s" if "e \<in> set new" "ev_thread e = h" for e
  proof -
    have "ev_seq e \<in> set (map ev_seq (filter (\<lambda>e. ev_thread e = h) new))" using that by simp
    then have "ev_seq e \<in> set (drop (head h s) [1..<Suc (head h s')])"
      using \<open>map ev_seq (filter _ new) = _\<close> by (simp only:)
    then show ?thesis by (simp add: drop_upt del: upt_Suc)
  qed
  then have "filter (\<lambda>e. ev_thread e = h \<and> ev_seq e \<le> n) new = []"
    using assms(3) by (fastforce simp: filter_empty_conv)
  then show ?thesis by (simp add: events_through_def new)
qed

lemma history_frozen:
  assumes run: "runtime_step\<^sup>*\<^sup>* s s'" and ok: "lineage_ok s" "lineage_ok s'" and log: "log_step s s'"
  shows "find_thread h s \<noteq> None \<Longrightarrow> n \<le> head h s \<Longrightarrow>
    replay_thread_history E h n seen s' = replay_thread_history E h n seen s"
  using ok(1) run log
proof (induction E h n seen s rule: replay_thread_history.induct)
  case (1 E h n seen s)
  then obtain row where row: "find_thread h s = Some row" by auto
  obtain row' where row': "find_thread h s' = Some row'" "lineage row' = lineage row"
    using thread_survives [OF 1(5) ok(2) row] by auto
  have own: "own_history E h n s' = own_history E h n s"
    using events_frozen [of s s' n h] 1(3,4,6) by (simp add: own_history_def lineage_ok_def)
  have "replay_thread_history E p (case th_forked_seq row of None \<Rightarrow> 0 | Some k \<Rightarrow> k) (h # seen) s' =
      replay_thread_history E p (case th_forked_seq row of None \<Rightarrow> 0 | Some k \<Rightarrow> k) (h # seen) s"
    if "th_forked_thread row = Some p" "h \<notin> set seen" for p
    using lineage_parent [OF 1(4) row that(1)] by (intro 1(1) [OF that(2) row that(1)]) (use 1 in auto)
  then show ?case
    using row row' own by (subst (1 2) replay_thread_history.simps) (auto simp: lineage_def split: option.splits)
qed

section \<open>Chains of ancestors\<close>

text \<open>The origin of a thread, the origin of its origin and so on, up to a thread that is not a fork; and the
  histories of a list of threads, one after the other.\<close>

fun is_chain :: "db \<Rightarrow> thread_row \<Rightarrow> (string \<times> nat) list \<Rightarrow> bool" where
  "is_chain s row [] = (th_forked_thread row = None)"
| "is_chain s row ((p, k) # c) =
     (th_forked_thread row = Some p \<and> th_forked_seq row = Some k \<and>
      (case find_thread p s of None \<Rightarrow> False | Some r \<Rightarrow> is_chain s r c))"

definition chain_history :: "env \<Rightarrow> (string \<times> nat) list \<Rightarrow> db \<Rightarrow> err + turn_row list \<times> item_row list" where
  "chain_history E c s =
     ebind (map_result (\<lambda>(p, k). own_history E p k s) c) (\<lambda>hs. Inr (concat (map fst hs), concat (map snd hs)))"

lemma map_result_snoc: "map_result f (xs @ [x]) = ebind (map_result f xs) (\<lambda>ys. ebind (f x) (\<lambda>y. Inr (ys @ [y])))"
  by (induction xs) (auto simp: ebind_def split: sum.splits)

lemma chain_history_snoc:
  "chain_history E (c @ [(h, n)]) s =
     ebind (chain_history E c s) (\<lambda>(ts, xs). ebind (own_history E h n s) (\<lambda>(ts', xs'). Inr (ts @ ts', xs @ xs')))"
  unfolding chain_history_def map_result_snoc by (auto simp: ebind_def split: sum.splits)

lemma chain_exists:
  assumes "lineage_ok s"
  shows "db_threads s = T @ U \<Longrightarrow> r \<in> set T \<Longrightarrow>
    \<exists>c. is_chain s r c \<and> distinct (th_id r # map fst c) \<and> fst ` set c \<subseteq> th_id ` set T \<and>
      (\<forall>n seen. set seen \<inter> insert (th_id r) (fst ` set c) = {} \<longrightarrow>
         replay_thread_history E (th_id r) n seen s = chain_history E (rev ((th_id r, n) # c)) s)"
proof (induction T arbitrary: U r rule: rev_induct)
  case (snoc x T)
  have d: "distinct (map th_id (db_threads s))" using lines_distinct assms by (auto simp: lineage_ok_def)
  have find: "find_thread (th_id y) s = Some y" if "y \<in> set (db_threads s)" for y
    using find_key_unique [OF d that] unfolding find_thread_def by simp
  show ?case
  proof (cases "r \<in> set T")
    case True
    then obtain c where "is_chain s r c" "distinct (th_id r # map fst c)" "fst ` set c \<subseteq> th_id ` set T"
      "\<forall>n seen. set seen \<inter> insert (th_id r) (fst ` set c) = {} \<longrightarrow>
         replay_thread_history E (th_id r) n seen s = chain_history E (rev ((th_id r, n) # c)) s"
      using snoc.IH [of "x # U" r] snoc.prems(1) by auto
    then show ?thesis by (intro exI [of _ c]) auto
  next
    case False
    then have x: "r = x" "x \<in> set (db_threads s)" "find_thread (th_id x) s = Some x" using snoc.prems find by auto
    have fresh: "th_id x \<notin> th_id ` set T" using d snoc.prems(1) by auto
    show ?thesis
    proof (cases "th_forked_thread x")
      case None
      then have "replay_thread_history E (th_id x) n seen s = chain_history E [(th_id x, n)] s" if "th_id x \<notin> set seen" for n seen
        using that x(3) chain_history_snoc [of E "[]"]
        by (subst replay_thread_history.simps) (simp add: chain_history_def ebind_def)
      then show ?thesis using None x(1) by (intro exI [of _ "[]"]) auto
    next
      case (Some p)
      have ids: "fst ` lineage ` X = th_id ` X" for X by (force simp: lineage_def)
      have "lines_ok (rev (map lineage ((T @ [x]) @ U))) (\<lambda>h. head h s)" using assms snoc.prems(1) by (simp add: lineage_ok_def)
      then have "lines_ok (rev (map lineage (T @ [x]))) (\<lambda>h. head h s)" by (induction U rule: rev_induct) (auto simp: lineage_def)
      then obtain k y where k: "th_forked_seq x = Some k" and y: "y \<in> set T" "th_id y = p"
        using Some ids [of "set T"] by (auto simp: lineage_def [of x])
      obtain c where c: "is_chain s y c" "distinct (th_id y # map fst c)" "fst ` set c \<subseteq> th_id ` set T"
        "\<And>n seen. set seen \<inter> insert (th_id y) (fst ` set c) = {} \<Longrightarrow>
           replay_thread_history E (th_id y) n seen s = chain_history E (rev ((th_id y, n) # c)) s"
        using snoc.IH [of "x # U" y] snoc.prems(1) y(1) by auto
      have "find_thread p s = Some y" using find y snoc.prems(1) by auto
      then have "is_chain s x ((p, k) # c)" using Some k c(1) by simp
      moreover have apart: "th_id x \<notin> insert p (fst ` set c)" using fresh c(3) y by auto
      moreover have "replay_thread_history E (th_id x) n seen s = chain_history E (rev ((th_id x, n) # (p, k) # c)) s"
        if "set seen \<inter> insert (th_id x) (insert p (fst ` set c)) = {}" for n seen
      proof -
        have "replay_thread_history E p k (th_id x # seen) s = chain_history E (rev ((p, k) # c)) s"
          using c(4) [of "th_id x # seen" k] that apart y(2) by auto
        then show ?thesis
          using that x(3) Some k chain_history_snoc [of E "rev ((p, k) # c)" "th_id x" n s]
          by (subst replay_thread_history.simps) simp
      qed
      ultimately show ?thesis
        using x(1) c(2,3) y by (intro exI [of _ "(p, k) # c"]) (auto simp: image_iff)
    qed
  qed
qed simp

section \<open>Properties of every run\<close>

text \<open>
  C25.  Lineages are finite and free of cycles.  In every reachable state the ancestors of a thread form a
  chain without repetition that ends at a thread which is no fork, and what the recursion with its
  \<^verbatim>\<open>seen\<close> set returns is the histories of the ancestors, each up to the sequence the next one was forked at, oldest
  first; so the error of a cyclic lineage is never raised.
\<close>

theorem inherited_history_is_the_chain:
  assumes "running s" and "find_thread h s = Some row"
  shows "\<exists>c. is_chain s row c \<and> distinct (h # map fst c) \<and> inherited_history E row s = chain_history E (rev c) s"
proof -
  note ok = running_lineage [OF assms(1)]
  have row: "row \<in> set (db_threads s)" "th_id row = h" using assms(2) by (auto simp: find_thread_def dest: find_SomeD)
  obtain c where c: "is_chain s row c" "distinct (th_id row # map fst c)"
    using chain_exists [OF ok, of "db_threads s" "[]" row E] row(1) by auto
  have "inherited_history E row s = chain_history E (rev c) s"
  proof (cases c)
    case Nil
    then show ?thesis using c(1) by (simp add: inherited_history_def chain_history_def ebind_def)
  next
    case (Cons x c')
    obtain p k where x: "x = (p, k)" by (cases x)
    then obtain y where y: "find_thread p s = Some y" "is_chain s y c'" "th_forked_thread row = Some p" "th_forked_seq row = Some k"
      using c(1) Cons by (auto split: option.splits)
    have "y \<in> set (db_threads s)" "th_id y = p" using y(1) by (auto simp: find_thread_def dest: find_SomeD)
    then obtain d where d: "is_chain s y d" "replay_thread_history E p k [] s = chain_history E (rev ((p, k) # d)) s"
      using chain_exists [OF ok, of "db_threads s" "[]" y E] by auto
    have "is_chain s y a \<Longrightarrow> is_chain s y b \<Longrightarrow> a = b" for a b y
      by (induction s y a arbitrary: b rule: is_chain.induct) (case_tac b; auto split: option.splits)+
    then have "d = c'" using d(1) y(2) by blast
    then show ?thesis using d(2) y Cons x by (simp add: inherited_history_def)
  qed
  then show ?thesis using c row(2) by auto
qed

text \<open>
  C24.  What a fork inherits is frozen.  Whatever happens to its ancestors later, the row of a forked thread
  keeps its origin, and the turns and Items that the projection rebuilds from the facts of its ancestors are
  exactly those it would have rebuilt before.
\<close>

theorem fork_history_frozen:
  assumes "running s" and "find_thread h s = Some row" and "runtime_step\<^sup>*\<^sup>* s s'"
  shows "\<exists>row'. find_thread h s' = Some row' \<and> lineage row' = lineage row \<and>
    inherited_history E row' s' = inherited_history E row s"
proof -
  have ok: "lineage_ok s" "lineage_ok s'" using running_lineage running_run [OF assms(3,1)] assms(1) by auto
  have log: "log_step s s'" using lines_all.run_respects [OF assms(3)] ok by (simp add: lineage_step_def)
  obtain row' where row': "find_thread h s' = Some row'" "lineage row' = lineage row"
    using thread_survives [OF assms(3) ok(2) assms(2)] by auto
  have "inherited_history E row' s' = inherited_history E row s"
    using row'(2) lineage_parent [OF ok(1) assms(2)] history_frozen [OF assms(3) ok log]
    by (auto simp: inherited_history_def lineage_def split: option.splits)
  then show ?thesis using row' by blast
qed

section \<open>Streamed messages\<close>

definition same_history :: "env \<Rightarrow> db \<Rightarrow> db \<Rightarrow> bool" where
  "same_history E s s' =
     (events_ok s \<longrightarrow> events_ok s' \<and> (\<forall>h n. own_history E h n s' = own_history E h n s))"

interpretation streamed: db_order "same_history E" for E
  by unfold_locales (auto simp: same_history_def)

lemma insort_key_snoc: "f x \<le> f e \<Longrightarrow> insort_key f x (ys @ [e]) = insort_key f x ys @ [e]"
  by (induction ys) auto

lemma sort_key_snoc: "(\<And>x. x \<in> set xs \<Longrightarrow> f x \<le> f e) \<Longrightarrow> sort_key f (xs @ [e]) = sort_key f xs @ [e]"
  by (induction xs) (auto simp: insort_key_snoc)

lemma replay_events_snoc: "replay_events E (es @ [e]) h = ebind (replay_events E es h) (replay_event E e)"
  by (induction es arbitrary: h) (auto simp: ebind_def split: sum.splits)

lemma replay_ignores_delta: "ev_type e = ''item.delta'' \<Longrightarrow> replay_event E e h = Inr h"
  by (simp add: replay_event_def event_from_row_def validate_public_tool_event_payload_def ebind_def Let_def)

lemma history_append_delta:
  assumes "rq_type rq = ''item.delta''"
  shows "keeps (same_history E) (append_in_transaction E' rq)"
proof (rule keepsI, rule wpI)
  fix s a s'
  assume run: "append_in_transaction E' rq s = Inr (a, s')"
  show "same_history E s s'"
    using run
  proof (cases rule: append_cases)
    case (new r)
    let ?e = "envelope E' r s"
    have type: "ev_type ?e = ''item.delta''" using new(5) assms by (simp add: envelope_def)
    have "own_history E h n s' = own_history E h n s" if ok: "events_ok s" for h n
    proof -
      have "ev_seq x \<le> ev_seq ?e" if "x \<in> set (db_events s)" "ev_thread x = h" "ev_thread ?e = h" for x
      proof -
        have "map ev_seq (thread_events h s) = [1..<Suc (head h s)]" using ok by (simp add: events_ok_def)
        then have "ev_seq ` set (thread_events h s) = {1..<Suc (head h s)}" by (metis set_map set_upt)
        moreover have "x \<in> set (thread_events h s)" using that by (simp add: thread_events_def)
        ultimately have "ev_seq x \<in> {1..<Suc (head h s)}" by blast
        then show ?thesis using that(3) by (simp add: envelope_def)
      qed
      then have "events_through h n s' = events_through h n s @ (if ev_thread ?e = h \<and> ev_seq ?e \<le> n then [?e] else [])"
        using new(1) by (auto simp: events_through_def logged_def intro!: sort_key_snoc)
      then have "replay_events E (events_through h n s') ([], []) = replay_events E (events_through h n s) ([], [])"
        using replay_ignores_delta [OF type] by (auto simp: replay_events_snoc ebind_def split: sum.splits)
      then show ?thesis by (simp add: own_history_def)
    qed
    moreover have "events_ok s \<Longrightarrow> events_ok s'" using keepsD [OF log_step_append run] by (simp add: log_step_def)
    ultimately show ?thesis by (simp add: same_history_def)
  qed (simp add: same_history_def)
qed

lemma history_message_delta: "keeps (same_history E) (message_delta_in_transaction E' i d key now)"
proof -
  have "keeps (same_history E) (update_content x c n)" for x c n
    by (simp add: keeps_def wp_simps update_content_def update_item_def same_history_def events_ok_def thread_events_def
        head_def own_history_def events_through_def)
  moreover have "keeps (same_history E) (content_dict r)" for r
    by (cases "it_content r") (simp_all add: content_dict_def streamed.keeps_raise streamed.keeps_ret)
  ultimately show ?thesis
    unfolding message_delta_in_transaction_def stream_delta_def require_item_def require_turn_def read_item_def Let_def
    by (intro streamed.keeps_intros streamed.keeps_lifted history_append_delta; simp add: event_req_def)
qed

text \<open>
  C26.  Streamed text is not part of what forks inherit.  Appending a delta to an assistant message, whatever
  the call returns, leaves the history that a fork rebuilds from the thread as it was, up to every boundary:
  the replay of facts skips \<^verbatim>\<open>item.delta\<close>, so a forked thread shows the message as it was when it was created.
\<close>

theorem streamed_text_not_inherited:
  assumes "running s" and "s' = snd (append_message_delta E A i d key j t now s)"
  shows "own_history E' h n s' = own_history E' h n s"
proof -
  have "same_history E' s s'"
    unfolding assms(2) append_message_delta_def by (auto intro!: streamed.mutation_keeps history_message_delta streamed.R_refl)
  then show ?thesis using running_lineage [OF assms(1)] by (simp add: same_history_def lineage_ok_def)
qed

end
