(* ===== verification/RetouchLife.thy ===== *)
theory RetouchLife
  imports TurnSettle
begin

text \<open>
  The retouch bridge in a run of the Runtime: a completed retouch ends its job and its turn in one
  transaction, and a retouch whose turn was ended by somebody else can never be reconciled.
\<close>

section \<open>Transitions of the execution turn\<close>

lemma wp_retouch_moves:
  assumes "current_turn t s"
  shows "wp (retouch_transition E t st r now)
    (\<lambda>t' s'. current_turn t' s' \<and> tn_id t' = tn_id t \<and> tn_status t' = st \<and>
       (tn_status t \<noteq> st \<and> turn_terminal st \<longrightarrow> quiet (tn_id t) s')) s"
proof (cases "tn_status t = st")
  case False
  have "wp (transition_turn_in_transaction E t st r now) (\<lambda>_ s'. find_turn (tn_id t) s' = Some (moved_turn t st r now) \<and>
      (turn_terminal st \<longrightarrow> quiet (tn_id t) s')) s"
  proof (rule wp_conj)
    show "wp (transition_turn_in_transaction E t st r now) (\<lambda>_ s'. find_turn (tn_id t) s' = Some (moved_turn t st r now)) s"
      using assms by (intro wp_transition_moves) (simp add: current_turn_def)
    show "wp (transition_turn_in_transaction E t st r now) (\<lambda>_ s'. turn_terminal st \<longrightarrow> quiet (tn_id t) s') s"
    proof (cases "turn_terminal st")
      case True
      then show ?thesis using wp_transition_quiet [OF True] by simp
    qed (simp add: wp_def split: sum.splits)
  qed
  then show ?thesis
    using False unfolding retouch_transition_def
    by (auto simp: wp_seq wp_require_turn current_turn_def moved_turn_def elim!: wp_mono)
qed (use assms in \<open>simp add: retouch_transition_def wp_ret\<close>)

lemma wp_execution_turn:
  assumes "\<And>t. find_turn (opt_text (rj_turn rj)) s = Some t \<Longrightarrow> truthy (rj_turn rj) \<and> truthy (rj_thread rj) \<Longrightarrow> Q t s"
  shows "wp (execution_turn rj) Q s"
  using assms by (auto simp: execution_turn_def wp_bind wp_seq wp_require wp_require_turn wp_ret wp_simps split: sum.splits)

text \<open>The last steps of a completed retouch, once its turn is finalizing.\<close>

definition completed_turn :: "string \<Rightarrow> db \<Rightarrow> bool" where
  "completed_turn u s = (quiet u s \<and> (\<exists>t. find_turn u s = Some t \<and> tn_status t = TurnCompleted))"

lemma wp_publish_and_end:
  assumes t: "current_turn turn x" "tn_status turn = TurnFinalizing" "tn_id turn = u" "truthy (rj_turn rj) \<and> truthy (rj_thread rj)"
  shows "wp (bind (append_row_event E row ty p now c) (\<lambda>_. seq (update_job (jb_id row) (retouch_closed_row JobCompleted now)) (
      if truthy (rj_turn rj) \<and> truthy (rj_thread rj)
      then seq (publish_retouch E rj a (opt_text (rj_thread rj)) (opt_text (rj_turn rj)) (jb_id row) now)
             (bind (retouch_transition E turn TurnCompleted None now) (\<lambda>_. ret ()))
      else ret ()))) (\<lambda>_. completed_turn u) x"
proof -
  have "wp (bind (retouch_transition E turn TurnCompleted None now) (\<lambda>_. ret ())) (\<lambda>_. completed_turn u) y"
    if "current_turn turn y" for y
    unfolding wp_bind
    by (rule wp_mono [OF wp_retouch_moves [OF that]])
       (use t in \<open>auto simp: wp_ret current_turn_def terminal_defs completed_turn_def\<close>)
  note last = this
  show ?thesis
    using t(4) by (simp only: if_True simp_thms)
      (intro wp_turns_bind wp_turns_seq turns_frame.keeps_row_event turns_frame.keeps_retouch_rows turns_frame.keeps_retouch_facts
        last current_same [OF current_same [OF current_same [OF t(1)]]], assumption+)
qed

lemma wp_finalize_execution:
  assumes "rj_turn rj = Some u"
    and k: "\<And>turn x. current_turn turn x \<Longrightarrow> tn_status turn = TurnFinalizing \<Longrightarrow> tn_id turn = u \<Longrightarrow>
        truthy (rj_turn rj) \<and> truthy (rj_thread rj) \<Longrightarrow> wp (k turn) Q x"
  shows "wp (execution_turn rj) (\<lambda>turn0. wp (bind (retouch_transition E turn0 TurnFinalizing None now) k) Q) s"
  unfolding wp_bind
proof (rule wp_execution_turn)
  fix t0
  assume t0: "find_turn (opt_text (rj_turn rj)) s = Some t0" and bound: "truthy (rj_turn rj) \<and> truthy (rj_thread rj)"
  have "tn_id t0 = u" using found_turn [OF t0] assms(1) by (simp add: opt_text_def)
  then show "wp (retouch_transition E t0 TurnFinalizing None now) (\<lambda>t1. wp (k t1) Q) s"
    by (intro wp_mono [OF wp_retouch_moves [OF current_found [OF t0]]] k) (simp_all add: bound)
qed

section \<open>Properties of every run\<close>

text \<open>
  C28.  A retouch whose turn was interrupted is never reconciled.  Once the execution turn of a retouch has
  been interrupted, the hook that settles a retouch after its durable job has ended raises and writes nothing, for
  every later state of the Runtime: it insists on a failed or cancelled turn, and an ended turn never changes.
\<close>

theorem interrupted_retouch_never_reconciles:
  assumes "running s" and "find_turn u s = Some t" and "tn_status t = TurnInterrupted" and "runtime_step\<^sup>*\<^sup>* s s'"
    and "rj_turn rj = Some u" and "truthy (rj_thread rj)"
  shows "\<exists>e. transaction (retouch_hook E rj lt now (OnReconcile reason)) s' = (Inl e, s')"
proof -
  obtain t' where t': "find_turn u s' = Some t'" "tn_status t' = TurnInterrupted"
    using turn_row_survives [OF assms(1,2,4)] assms(3) by (auto simp: turn_le_def terminal_defs)
  let ?x = "safe_reason E reason ''runtime_terminal''"
  have "wp (finish_execution_turn E rj (if b then TurnCancelled else TurnFailed) ?x now) (\<lambda>_ _. False) s2"
    if "db_turns s2 = db_turns s'" for s2 b
    unfolding finish_execution_turn_def wp_bind
    by (rule wp_execution_turn) (use t' that assms(5) in \<open>auto simp: find_turn_def wp_require terminal_defs opt_text_def\<close>)
  then have "wp (report_and_finish E rj j ?x now) (\<lambda>_ _. False) s2" if "db_turns s2 = db_turns s'" for j s2
    unfolding report_and_finish_def by (rule wp_turns_seq [OF turns_frame.keeps_retouch_facts(2)]) (simp add: that)
  then have "wp (retouch_hook E rj lt now (OnReconcile reason)) (\<lambda>_ _. False) s'"
    using assms(6) by (simp add: reconcile_hook_def) (rule wp_turns_bind [OF turns_frame.keeps_retouch_reads(1)])
  then show ?thesis by (auto simp: wp_def transaction_def split: sum.splits)
qed

text \<open>
  C27.  Completing a retouch needs the live lease of its durable job and ends everything at once: a successful
  call leaves the execution turn completed, with no unfinished job, pending question or open Item of it.
\<close>

theorem completed_retouch_settles:
  assumes "transaction (retouch_hook E rj lt now (OnCompleted a w tk)) s = (Inr v, s')"
    and "rj_turn rj = Some u"
  shows "(\<exists>j x. find_job (opt_text (rj_durable rj)) s = Some j \<and> jb_lease_owner j = Some w \<and> jb_lease_token j = Some tk \<and>
      jb_lease_expires j = Some x \<and> lt < x) \<and>
    quiet u s' \<and> (\<exists>t. find_turn u s' = Some t \<and> tn_status t = TurnCompleted)"
proof -
  let ?L = "\<lambda>j x. find_job (opt_text (rj_durable rj)) s = Some j \<and> jb_lease_owner j = Some w \<and> jb_lease_token j = Some tk \<and>
      jb_lease_expires j = Some x \<and> lt < x"
  have "wp (retouch_hook E rj lt now (OnCompleted a w tk)) (\<lambda>_ s'. (\<exists>j x. ?L j x) \<and> completed_turn u s') s"
    unfolding retouch_hook.simps completed_hook_def owned_runtime_job_def wp_bind [of "seq _ _"] wp_seq [of "require _ _"]
      wp_require wp_owned_row
  proof (intro impI allI, rule wp_conj)
    fix row
    assume "find_job (opt_text (rj_durable rj)) s = Some row" "jb_lease_owner row = Some w"
      "tk \<noteq> [] \<and> jb_lease_token row = Some tk" "\<exists>x. jb_lease_expires row = Some x \<and> lt < x"
    then have "\<exists>j x. ?L j x" by blast
    then show "wp m (\<lambda>_ _. \<exists>j x. ?L j x) s" for m :: "unit dbtxn" by (simp add: wp_def split: sum.splits)
    show "wp (bind (execution_turn rj) (\<lambda>turn0. bind (retouch_transition E turn0 TurnFinalizing None now) (\<lambda>turn.
       seq (assert_transition (jb_status row) JobCompleted) (
       bind (append_row_event E row ''job.completed''
            [(''attempt'', JInt (jb_attempt row)), (''retouch_job_id'', JStr (rj_id rj))] now None) (\<lambda>_.
       seq (update_job (jb_id row) (retouch_closed_row JobCompleted now)) (
       if truthy (rj_turn rj) \<and> truthy (rj_thread rj)
       then seq (publish_retouch E rj a (opt_text (rj_thread rj)) (opt_text (rj_turn rj)) (jb_id row) now)
              (bind (retouch_transition E turn TurnCompleted None now) (\<lambda>_. ret ()))
       else ret ())))))) (\<lambda>_. completed_turn u) s"
      unfolding wp_bind [of "execution_turn _"]
      by (rule wp_finalize_execution [OF assms(2)], unfold wp_seq [of "assert_transition _ _"] wp_assert_transition, rule impI,
          rule wp_publish_and_end)
  qed
  then show ?thesis using assms(1) by (auto simp: wp_def transaction_def completed_turn_def split: sum.splits prod.splits)
qed

end
