(* ===== verification/BridgeRuns.thy ===== *)
theory BridgeRuns
  imports SampleRun ForkHistory RetouchLife
begin

text \<open>
  Witnesses of the properties of forks and of the retouch bridge, on states of the sample run.
\<close>

section \<open>Forks\<close>

definition run_fork_request :: fork_request where
  "run_fork_request = \<lparr>fk_turn = None, fk_title = None, fk_metadata = [], fk_client = None\<rparr>"

lemmas fork_simps = fork_thread_def fork_in_transaction_def insert_fork_def fork_boundary_def forked_thread_def
  dict_merge_def run_fork_request_def or_else_def

lemma fork_token: "protocol_token 128 ''thread.forked''" "protocol_token 128 ''item.delta''"
  by code_simp+

lemma run_fork:
  "\<exists>v s row. fork_thread sample_env ungated ''thr_0'' run_fork_request 3 run_accepted = (Inr v, s) \<and>
     find_thread ''thr_10'' s = Some row \<and> th_forked_thread row = Some ''thr_0'' \<and> th_forked_seq row = Some 5 \<and>
     (\<exists>r. find_thread ''thr_0'' s = Some r \<and> th_forked_thread r = None)"
  by (simp add: eval_simps thread_simps turn_simps job_simps sample_simps fork_simps fork_token cong: bind_lazy seq_lazy)

theorem fork_history_frozen_witness:
  "\<exists>v s row row'. fork_thread sample_env ungated ''thr_0'' run_fork_request 3 run_accepted = (Inr v, s) \<and>
     find_thread ''thr_10'' s = Some row \<and> th_forked_thread row = Some ''thr_0'' \<and>
     find_thread ''thr_10'' (snd (steer_turn sample_env ungated ''trn_2'' run_steer 4 s)) = Some row' \<and>
     inherited_history sample_env row' (snd (steer_turn sample_env ungated ''trn_2'' run_steer 4 s)) =
       inherited_history sample_env row s"
proof -
  obtain v s row where run: "fork_thread sample_env ungated ''thr_0'' run_fork_request 3 run_accepted = (Inr v, s)"
    and found: "find_thread ''thr_10'' s = Some row" "th_forked_thread row = Some ''thr_0''"
    using run_fork by blast
  have "running s" using running.step [OF run_accepted_running runtime_step.call [OF runtime_call.fork]] run by (metis snd_conv)
  from fork_history_frozen [OF this found(1) r_into_rtranclp, OF runtime_step.call [OF runtime_call.steer [of s sample_env ungated "''trn_2''" run_steer 4]]]
  show ?thesis using run found by blast
qed

theorem inherited_history_is_the_chain_witness:
  "\<exists>v s row. fork_thread sample_env ungated ''thr_0'' run_fork_request 3 run_accepted = (Inr v, s) \<and>
     find_thread ''thr_10'' s = Some row \<and> inherited_history sample_env row s = chain_history sample_env [(''thr_0'', 5)] s"
proof -
  obtain v s row where run: "fork_thread sample_env ungated ''thr_0'' run_fork_request 3 run_accepted = (Inr v, s)"
    and found: "find_thread ''thr_10'' s = Some row" "th_forked_thread row = Some ''thr_0''" "th_forked_seq row = Some 5"
      "\<exists>r. find_thread ''thr_0'' s = Some r \<and> th_forked_thread r = None"
    using run_fork by blast
  have s: "running s" using running.step [OF run_accepted_running runtime_step.call [OF runtime_call.fork]] run by (metis snd_conv)
  obtain c where c: "is_chain s row c" "inherited_history sample_env row s = chain_history sample_env (rev c) s"
    using inherited_history_is_the_chain [OF s found(1)] by blast
  have "c = [(''thr_0'', 5)]"
    using c(1) found by (cases c; cases "tl c") (auto split: option.splits)
  then show ?thesis using run found c by auto
qed

section \<open>Streaming\<close>

lemmas stream_simps = create_item_def mutation_transaction_def append_message_delta_def message_delta_in_transaction_def
  stream_delta_def content_dict_def event_with_key_def update_content_def update_item_def text_of_def

definition run_answer :: jobj where
  "run_answer = [(''role'', JStr ''assistant''), (''text'', JStr [])]"

lemma answer_canon: "canon_obj run_answer = run_answer" "py_len ''Hi'' = 2" "py_len [] = 0"
  unfolding run_answer_def by code_simp+

lemma run_stream:
  "\<exists>v s w s'. create_item sample_env ungated ''trn_2'' KindMessage run_answer ItemInProgress None None None 3 run_accepted = (Inr v, s) \<and>
     append_message_delta sample_env ungated ''itm_10'' ''Hi'' ''k'' None None 4 s = (Inr w, s') \<and>
     length (db_events s') = Suc (length (db_events s))"
  by (simp add: eval_simps thread_simps turn_simps job_simps sample_simps stream_simps answer_canon fork_token cong: bind_lazy seq_lazy)
     (simp add: run_answer_def answer_canon)

theorem streamed_text_not_inherited_witness:
  "\<exists>v s w s'. create_item sample_env ungated ''trn_2'' KindMessage run_answer ItemInProgress None None None 3 run_accepted = (Inr v, s) \<and>
     append_message_delta sample_env ungated ''itm_10'' ''Hi'' ''k'' None None 4 s = (Inr w, s') \<and>
     length (db_events s') = Suc (length (db_events s)) \<and>
     own_history sample_env ''thr_0'' 99 s' = own_history sample_env ''thr_0'' 99 s"
proof -
  obtain v s w s' where item: "create_item sample_env ungated ''trn_2'' KindMessage run_answer ItemInProgress None None None 3 run_accepted = (Inr v, s)"
    and delta: "append_message_delta sample_env ungated ''itm_10'' ''Hi'' ''k'' None None 4 s = (Inr w, s')"
      "length (db_events s') = Suc (length (db_events s))"
    using run_stream by blast
  have "running s" using running.step [OF run_accepted_running runtime_step.call [OF runtime_call.create_item]] item by (metis snd_conv)
  from streamed_text_not_inherited [OF this, of s' sample_env ungated "''itm_10''" "''Hi''" "''k''" None None 4 sample_env "''thr_0''" 99]
  show ?thesis using item delta by auto
qed

section \<open>Retouches\<close>

lemma retouch_tokens: "protocol_token 128 ''job.completed''" "protocol_token 128 ''artifact.retouch.completed''" "protocol_token 128 ''item.created''"
  by code_simp+

definition run_retouch_job :: retouch_job where
  "run_retouch_job = \<lparr>rj_id = ''r'', rj_artifact = ''a'', rj_base = ''b'', rj_client = ''q'', rj_status = RetouchRunning, rj_summary = None,
     rj_regions = [], rj_durable = Some ''j'', rj_thread = Some ''t'', rj_turn = Some ''u''\<rparr>"

definition run_retouch :: db where
  "run_retouch = sample_inputs\<lparr>
     db_turns := [sample_turn\<lparr>tn_status := TurnFinalizing, tn_metadata := [(''operation'', JStr ''artifact_retouch''),
       (''artifact_id'', JStr ''a''), (''client_request_id'', JStr ''q'')]\<rparr>],
     db_jobs := [\<lparr>jb_id = ''j'', jb_kind = ''artifact_retouch'', jb_payload = [], jb_status = JobRunning, jb_priority = 0, jb_attempt = 1,
       jb_max_attempts = 3, jb_thread = Some ''t'', jb_turn = Some ''u'', jb_lease_owner = Some ''w'', jb_lease_token = Some ''k'',
       jb_lease_expires = Some 99, jb_heartbeat = Some 4, jb_available_at = 0, jb_deadline = None, jb_checkpoint = None, jb_key = ''retouch-runtime:r'',
       jb_fingerprint = [], jb_last_error = None, jb_created_at = 0, jb_updated_at = 4\<rparr>]\<rparr>"

definition run_artifact :: artifact_view where
  "run_artifact = \<lparr>ap_id = ''a'', ap_revision = ''v'', ap_mime = ''image/png'', ap_dict = JNull\<rparr>"

lemmas retouch_simps = retouch_hook.simps completed_hook_def owned_runtime_job_def owned_row_def require_job_def find_job_def execution_turn_def
  retouch_job_kind_def retouch_transition_def assert_transition_def append_row_event_def retouch_closed_row_def publish_retouch_def retouch_item_def
  run_retouch_job_def run_retouch_def run_artifact_def retouch_tokens

lemma run_completed:
  "\<exists>s. transaction (retouch_hook sample_env run_retouch_job 5 6 (OnCompleted run_artifact ''w'' ''k'')) run_retouch = (Inr (), s)"
  by (simp add: eval_simps thread_simps turn_simps input_simps job_simps sample_simps retouch_simps interrupt_simps sample_inputs_def sample_turn_def
        sample_thread_def sample_revision_def cong: bind_lazy seq_lazy)

theorem completed_retouch_settles_witness:
  "\<exists>s t. transaction (retouch_hook sample_env run_retouch_job 5 6 (OnCompleted run_artifact ''w'' ''k'')) run_retouch = (Inr (), s) \<and>
     quiet ''u'' s \<and> find_turn ''u'' s = Some t \<and> tn_status t = TurnCompleted"
  using run_completed completed_retouch_settles [of sample_env run_retouch_job 5 6 run_artifact "''w''" "''k''" run_retouch "()" _ "''u''"]
  by (auto simp: run_retouch_job_def)

theorem interrupted_retouch_never_reconciles_witness:
  "\<exists>s v. interrupt_turn sample_env ungated ''trn_2'' ''stop'' 3 run_accepted = (Inr v, s) \<and>
     (\<exists>e. transaction (retouch_hook sample_env (run_retouch_job\<lparr>rj_thread := Some ''thr_0'', rj_turn := Some ''trn_2''\<rparr>) 5 6
        (OnReconcile ''runtime_job_cancelled'')) s = (Inl e, s))"
proof -
  obtain v s where run: "interrupt_turn sample_env ungated ''trn_2'' ''stop'' 3 run_accepted = (Inr v, s)"
    and found: "find_turn ''trn_2'' s =
       Some (run_turn\<lparr>tn_status := TurnInterrupted, tn_reason := Some ''stop'', tn_updated_at := 3\<rparr>)"
    using run_interrupt by blast
  have "running s" using running.step [OF run_accepted_running runtime_step.call [OF runtime_call.interrupt]] run by (metis snd_conv)
  from interrupted_retouch_never_reconciles [OF this found _ rtranclp.rtrancl_refl,
      of "run_retouch_job\<lparr>rj_thread := Some ''thr_0'', rj_turn := Some ''trn_2''\<rparr>" sample_env 5 6 "''runtime_job_cancelled''"]
  show ?thesis using run by auto
qed

end
