(* ===== verification/Permissions.thy ===== *)
theory Permissions
  imports Digest Clock Text
begin

text \<open>
  \<^verbatim>\<open>PermissionAuthority\<close> of \<^verbatim>\<open>ecorex/runtime/permissions.py\<close>, the contract \<^verbatim>\<open>PermissionSnapshot\<close> of
  \<^verbatim>\<open>protocol/models.py\<close> and the tables, constraints and triggers of \<^verbatim>\<open>schema_fragments/permissions.py\<close>.

  The authority owns three tables, kept in the record \<open>permission_db\<close> in \<^verbatim>\<open>rowid\<close> order: the mutable preference
  of an account, the append-only hash chain of its changes and the audit of the requests.  Time columns keep the
  instant; the column \<^verbatim>\<open>response_json\<close> keeps the snapshot it holds.  The parameter \<open>dump\<close> is the text pydantic
  writes for a snapshot (\<^verbatim>\<open>model_dump_json\<close>), which only enters the digest of an audit row; \<open>now\<close> is the reading of
  the clock.  Statements that violate a constraint or fire a trigger raise \<^verbatim>\<open>IntegrityError\<close>.
\<close>

section \<open>Permission snapshots\<close>

record permission_snapshot =
  snap_id :: string
  snap_profile :: string
  snap_revision :: int
  snap_updated_at :: int
  snap_sandbox :: string
  snap_approval :: string
  snap_full_access :: bool
  snap_denies :: "string list"

definition is_profile :: "string \<Rightarrow> bool" where
  "is_profile p = (p = ''default'' \<or> p = ''full_access'')"

text \<open>\<^verbatim>\<open>[a-z][a-z0-9_.:-]{0,127}\<close>\<close>

definition capability_char :: "char \<Rightarrow> bool" where
  "capability_char c = (c \<in> set ''abcdefghijklmnopqrstuvwxyz0123456789_.:-'')"

definition capability_id :: "string \<Rightarrow> bool" where
  "capability_id v = (v \<noteq> [] \<and> length v \<le> 128 \<and> lower_alpha (hd v) \<and> list_all capability_char v)"

definition normalized_deny :: "string \<Rightarrow> string" where
  "normalized_deny v = casefold (py_strip v)"

definition canonical_hard_denies :: "string list \<Rightarrow> err + string list" where
  "canonical_hard_denies values =
     (let canonical = map normalized_deny values
      in if \<not> list_all capability_id canonical
         then Inl (ValueError ''administrator hard-deny capability ID is invalid'')
         else if canonical \<noteq> sort (remdups canonical)
         then Inl (ValueError ''administrator hard-deny capability IDs must be sorted and unique'')
         else Inr canonical)"

definition profile_sandbox :: "string \<Rightarrow> string" where
  "profile_sandbox p = (if p = ''full_access'' then ''danger-full-access'' else ''workspace-write'')"

definition profile_approval :: "string \<Rightarrow> string" where
  "profile_approval p = (if p = ''full_access'' then ''never'' else ''on-request'')"

definition expected_snapshot_id :: "string \<Rightarrow> int \<Rightarrow> int \<Rightarrow> string list \<Rightarrow> string" where
  "expected_snapshot_id profile revision updated_at denies =
     ''perm_'' @
     fingerprint
       [(''profile'', JStr profile), (''revision'', JInt revision), (''updated_at'', JStr (iso_auto updated_at)),
        (''sandbox'', JStr (profile_sandbox profile)), (''approval'', JStr (profile_approval profile)),
        (''full_access'', JBool (profile = ''full_access'')), (''admin_hard_denies'', JArr (map JStr denies))]"

text \<open>The fields of \<^verbatim>\<open>PermissionSnapshot\<close> with their patterns, literals and bounds.\<close>

definition snapshot_fields_ok :: "permission_snapshot \<Rightarrow> bool" where
  "snapshot_fields_ok v =
     (take 5 (snap_id v) = ''perm_'' \<and> is_sha256 (drop 5 (snap_id v)) \<and> is_profile (snap_profile v) \<and>
      1 \<le> snap_revision v \<and> snap_sandbox v \<in> {''workspace-write'', ''danger-full-access''} \<and>
      snap_approval v \<in> {''on-request'', ''never''})"

definition consistent_permission_fact :: "permission_snapshot \<Rightarrow> err + permission_snapshot" where
  "consistent_permission_fact v =
     (if snap_full_access v \<noteq> (snap_profile v = ''full_access'')
      then Inl (ValueError ''permission profile and full_access disagree'')
      else if snap_sandbox v \<noteq> profile_sandbox (snap_profile v) \<or> snap_approval v \<noteq> profile_approval (snap_profile v)
      then Inl (ValueError ''permission profile, sandbox, and approval disagree'')
      else if snap_id v \<noteq>
        expected_snapshot_id (snap_profile v) (snap_revision v) (snap_updated_at v) (snap_denies v)
      then Inl (ValueError ''permission snapshot digest is invalid'')
      else Inr v)"

text \<open>Building or parsing a \<^verbatim>\<open>PermissionSnapshot\<close> runs the field checks, then the model validator.\<close>

definition validate_snapshot :: "permission_snapshot \<Rightarrow> err + permission_snapshot" where
  "validate_snapshot v =
     (if \<not> snapshot_fields_ok v then Inl (ValueError ''permission snapshot field is invalid'')
      else ebind (canonical_hard_denies (snap_denies v)) (\<lambda>denies.
           consistent_permission_fact (v\<lparr>snap_denies := denies\<rparr>)))"

definition issue_denies :: "string list \<Rightarrow> string list" where
  "issue_denies denies = sort (remdups (map normalized_deny (filter (\<lambda>v. py_strip v \<noteq> []) denies)))"

definition issue :: "string \<Rightarrow> int \<Rightarrow> int \<Rightarrow> string list \<Rightarrow> err + permission_snapshot" where
  "issue profile revision updated_at denies =
     (let canonical = issue_denies denies
      in validate_snapshot
           \<lparr>snap_id = expected_snapshot_id profile revision updated_at canonical, snap_profile = profile,
            snap_revision = revision, snap_updated_at = updated_at, snap_sandbox = profile_sandbox profile,
            snap_approval = profile_approval profile, snap_full_access = (profile = ''full_access''),
            snap_denies = canonical\<rparr>)"

section \<open>Tables\<close>

record permission_state_row =
  ps_account :: string
  ps_profile :: string
  ps_revision :: int
  ps_updated_at :: int
  ps_digest :: "string option"

record permission_event =
  pl_account :: string
  pl_revision :: int
  pl_profile :: string
  pl_previous :: "string option"
  pl_digest :: string
  pl_request :: string
  pl_created_at :: int

record permission_request =
  pr_account :: string
  pr_request :: string
  pr_fingerprint :: string
  pr_response :: permission_snapshot
  pr_expected :: "int option"
  pr_resulting :: "int option"
  pr_state_digest :: "string option"
  pr_audit_digest :: "string option"
  pr_created_at :: int

record permission_db =
  permission_states :: "permission_state_row list"
  permission_ledger :: "permission_event list"
  permission_requests :: "permission_request list"
  schema_version :: int

type_synonym 'a ptxn = "(permission_db, 'a) txn"

definition find_state :: "string \<Rightarrow> permission_db \<Rightarrow> permission_state_row option" where
  "find_state account s = find (\<lambda>r. ps_account r = account) (permission_states s)"

text \<open>The rows of an account; the chain is read \<^verbatim>\<open>ORDER BY revision\<close>.\<close>

definition account_rows :: "string \<Rightarrow> permission_db \<Rightarrow> permission_event list" where
  "account_rows account s = filter (\<lambda>e. pl_account e = account) (permission_ledger s)"

definition account_events :: "string \<Rightarrow> permission_db \<Rightarrow> permission_event list" where
  "account_events account s = sort_key pl_revision (account_rows account s)"

definition account_requests :: "string \<Rightarrow> permission_db \<Rightarrow> permission_request list" where
  "account_requests account s = filter (\<lambda>q. pr_account q = account) (permission_requests s)"

definition head_event :: "string \<Rightarrow> permission_db \<Rightarrow> permission_event option" where
  "head_event account s = (case account_events account s of [] \<Rightarrow> None | es \<Rightarrow> Some (last es))"

text \<open>The trigger \<^verbatim>\<open>permission_state_ledger_chain_insert\<close>.  A comparison with \<^verbatim>\<open>NULL\<close> is \<^verbatim>\<open>NULL\<close>, which does not
  fire the trigger.\<close>

definition chain_violated :: "permission_event \<Rightarrow> permission_db \<Rightarrow> bool" where
  "chain_violated e s =
     (case head_event (pl_account e) s of
        None \<Rightarrow> pl_previous e \<noteq> None
      | Some h \<Rightarrow> pl_revision e \<noteq> pl_revision h + 1 \<or>
          (case pl_previous e of None \<Rightarrow> False | Some d \<Rightarrow> d \<noteq> pl_digest h))"

definition insert_permission_event :: "permission_event \<Rightarrow> unit ptxn" where
  "insert_permission_event e =
     bind (read (chain_violated e)) (\<lambda>broken.
     seq (require (\<not> broken) (IntegrityError ''permission ledger chain is invalid''))
     (seq (require (0 < pl_revision e \<and> is_profile (pl_profile e)) (IntegrityError ''CHECK constraint failed''))
     (bind (read (account_rows (pl_account e))) (\<lambda>rows.
      seq (require (list_all (\<lambda>r. pl_revision r \<noteq> pl_revision e \<and> pl_digest r \<noteq> pl_digest e) rows)
             (IntegrityError ''UNIQUE constraint failed''))
          (modify (\<lambda>s. s\<lparr>permission_ledger := permission_ledger s @ [e]\<rparr>))))))"

definition insert_permission_state :: "permission_state_row \<Rightarrow> unit ptxn" where
  "insert_permission_state r =
     seq (require (0 < ps_revision r \<and> is_profile (ps_profile r)) (IntegrityError ''CHECK constraint failed''))
     (bind (read (find_state (ps_account r))) (\<lambda>old.
      seq (require (old = None) (IntegrityError ''UNIQUE constraint failed''))
          (modify (\<lambda>s. s\<lparr>permission_states := permission_states s @ [r]\<rparr>))))"

text \<open>The trigger \<^verbatim>\<open>runtime_permission_state_guard_update\<close>, for the row \<open>r\<close> that becomes \<open>r'\<close>.\<close>

definition guard_violated :: "permission_state_row \<Rightarrow> permission_state_row \<Rightarrow> permission_db \<Rightarrow> bool" where
  "guard_violated r r' s =
     (ps_account r' \<noteq> ps_account r \<or> ps_revision r' \<noteq> ps_revision r + 1 \<or> ps_profile r' = ps_profile r \<or>
      ps_updated_at r' \<le> ps_updated_at r \<or>
      \<not> list_ex (\<lambda>e. pl_account e = ps_account r' \<and> pl_revision e = ps_revision r' \<and> pl_profile e = ps_profile r' \<and>
          Some (pl_digest e) = ps_digest r' \<and> pl_created_at e = ps_updated_at r') (permission_ledger s))"

definition update_permission_state :: "string \<Rightarrow> string \<Rightarrow> int \<Rightarrow> int \<Rightarrow> string \<Rightarrow> unit ptxn" where
  "update_permission_state account profile revision updated_at digest =
     (let change = (\<lambda>r. r\<lparr>ps_profile := profile, ps_revision := revision, ps_updated_at := updated_at,
                          ps_digest := Some digest\<rparr>)
      in bind (read (\<lambda>s. filter (\<lambda>r. ps_account r = account \<and> guard_violated r (change r) s) (permission_states s)))
           (\<lambda>bad.
         seq (require (bad = []) (IntegrityError ''permission state update is not ledger-backed''))
         (seq (require (0 < revision \<and> is_profile profile) (IntegrityError ''CHECK constraint failed''))
         (modify (\<lambda>s. s\<lparr>permission_states :=
            update_rows (\<lambda>r. ps_account r = account) change (permission_states s)\<rparr>)))))"

definition find_request :: "string \<Rightarrow> string \<Rightarrow> permission_db \<Rightarrow> permission_request option" where
  "find_request account client_request_id s =
     find (\<lambda>q. pr_account q = account \<and> pr_request q = client_request_id) (permission_requests s)"

definition insert_permission_request :: "permission_request \<Rightarrow> unit ptxn" where
  "insert_permission_request q =
     bind (read (find_request (pr_account q) (pr_request q))) (\<lambda>old.
     seq (require (old = None) (IntegrityError ''UNIQUE constraint failed''))
         (modify (\<lambda>s. s\<lparr>permission_requests := permission_requests s @ [q]\<rparr>)))"

section \<open>Digests\<close>

definition state_fact :: "string \<Rightarrow> string \<Rightarrow> int \<Rightarrow> int \<Rightarrow> string option \<Rightarrow> string \<Rightarrow> jobj" where
  "state_fact account profile revision updated_at previous_digest client_request_id =
     [(''account_id'', JStr account), (''profile'', JStr profile), (''revision'', JInt revision),
      (''updated_at'', JStr (iso_auto updated_at)), (''previous_digest'', jopt previous_digest),
      (''client_request_id'', JStr client_request_id)]"

definition state_digest :: "string \<Rightarrow> string \<Rightarrow> int \<Rightarrow> int \<Rightarrow> string option \<Rightarrow> string \<Rightarrow> string" where
  "state_digest account profile revision updated_at previous_digest client_request_id =
     fingerprint (state_fact account profile revision updated_at previous_digest client_request_id)"

definition request_fingerprint :: "string \<Rightarrow> int \<Rightarrow> string" where
  "request_fingerprint profile expected_revision =
     fingerprint [(''profile'', JStr profile), (''expected_revision'', JInt expected_revision)]"

definition legacy_fingerprint :: "string \<Rightarrow> string" where
  "legacy_fingerprint profile = fingerprint [(''profile'', JStr profile)]"

definition audit_digest :: "string \<Rightarrow> string \<Rightarrow> string \<Rightarrow> string \<Rightarrow> int option \<Rightarrow> int option \<Rightarrow> string option \<Rightarrow> int \<Rightarrow> string" where
  "audit_digest account client_request_id request_fp response_json expected resulting digest created_at =
     fingerprint
       [(''account_id'', JStr account), (''client_request_id'', JStr client_request_id),
        (''request_fingerprint'', JStr request_fp), (''response_json'', JStr response_json),
        (''expected_revision'', jtime expected), (''resulting_revision'', jtime resulting),
        (''state_digest'', jopt digest), (''created_at'', JStr (iso_auto created_at))]"

section \<open>Verification\<close>

text \<open>\<^verbatim>\<open>_validate_state_values\<close>; the timestamp of a typed column is well-formed.\<close>

definition validate_state_values :: "string \<Rightarrow> int \<Rightarrow> int \<Rightarrow> err + string \<times> int \<times> int" where
  "validate_state_values profile revision updated_at =
     (if \<not> is_profile profile then Inl (PermissionIntegrityError ''durable permission profile is invalid'')
      else if revision < 1 then Inl (PermissionIntegrityError ''durable permission revision is invalid'')
      else Inr (profile, revision, updated_at))"

text \<open>The loop over the ledger in \<^verbatim>\<open>_read_verified_state\<close>.\<close>

fun verify_ledger :: "string \<Rightarrow> string option \<Rightarrow> int option \<Rightarrow> permission_event list \<Rightarrow> err + unit" where
  "verify_ledger account previous_digest previous_revision [] = Inr ()"
| "verify_ledger account previous_digest previous_revision (event # events) =
     ebind (validate_state_values (pl_profile event) (pl_revision event) (pl_created_at event)) (\<lambda>(profile, revision, time).
     if (case previous_revision of None \<Rightarrow> False | Some r \<Rightarrow> revision \<noteq> r + 1)
     then Inl (PermissionIntegrityError ''permission ledger revision sequence is invalid'')
     else if pl_previous event \<noteq> previous_digest
     then Inl (PermissionIntegrityError ''permission ledger previous digest is invalid'')
     else let expected = state_digest account profile revision time previous_digest (pl_request event)
          in if pl_digest event \<noteq> expected
             then Inl (PermissionIntegrityError ''permission ledger digest is invalid'')
             else verify_ledger account (Some expected) (Some revision) events)"

declare verify_ledger.simps(2) [simp del]

text \<open>The dictionary \<^verbatim>\<open>ledger_by_revision\<close>: a later row of the same revision wins.\<close>

definition by_revision :: "permission_event list \<Rightarrow> int \<Rightarrow> permission_event option" where
  "by_revision events revision = find (\<lambda>e. pl_revision e = revision) (rev events)"

definition verify_audit_row ::
    "(permission_snapshot \<Rightarrow> string) \<Rightarrow> (int \<Rightarrow> permission_event option) \<Rightarrow> permission_request \<Rightarrow> err + unit" where
  "verify_audit_row dump event_of q =
     (if pr_audit_digest q \<noteq>
         Some (audit_digest (pr_account q) (pr_request q) (pr_fingerprint q) (dump (pr_response q)) (pr_expected q)
                 (pr_resulting q) (pr_state_digest q) (pr_created_at q))
      then Inl (PermissionIntegrityError ''permission request audit digest is invalid'')
      else case pr_expected q of
        None \<Rightarrow> Inr ()
      | Some expected \<Rightarrow>
          (case (pr_resulting q, validate_snapshot (pr_response q)) of
             (Some resulting, Inr response) \<Rightarrow>
               if resulting \<noteq> expected \<and> resulting \<noteq> expected + 1
               then Inl (PermissionIntegrityError ''permission request audit revision transition is invalid'')
               else if snap_revision response \<noteq> resulting
               then Inl (PermissionIntegrityError ''permission request response revision is invalid'')
               else if pr_fingerprint q \<noteq> request_fingerprint (snap_profile response) expected
               then Inl (PermissionIntegrityError ''permission request fingerprint does not match its response'')
               else if (case event_of resulting of
                          None \<Rightarrow> True
                        | Some event \<Rightarrow> Some (pl_digest event) \<noteq> pr_state_digest q \<or>
                            pl_profile event \<noteq> snap_profile response \<or>
                            pl_created_at event \<noteq> snap_updated_at response)
               then Inl (PermissionIntegrityError ''permission request audit does not match the permission ledger'')
               else Inr ()
           | _ \<Rightarrow> Inl (PermissionIntegrityError ''permission request audit payload is invalid'')))"

fun verify_all :: "('a \<Rightarrow> err + unit) \<Rightarrow> 'a list \<Rightarrow> err + unit" where
  "verify_all f [] = Inr ()"
| "verify_all f (x # xs) = ebind (f x) (\<lambda>_. verify_all f xs)"

definition check :: "bool \<Rightarrow> string \<Rightarrow> err + unit" where
  "check b message = (if b then Inr () else Inl (PermissionIntegrityError message))"

text \<open>The ledger entries written for a request carry its id; ids that start with \<^verbatim>\<open>__\<close> are the Runtime's own.\<close>

definition change_audited :: "permission_request list \<Rightarrow> permission_event \<Rightarrow> bool" where
  "change_audited audits e = (take 2 (pl_request e) = ''__'' \<or> pl_request e \<in> set (map pr_request audits))"

definition matches_ledger :: "permission_state_row \<Rightarrow> permission_event \<Rightarrow> bool" where
  "matches_ledger row latest =
     (pl_profile latest = ps_profile row \<and> pl_revision latest = ps_revision row \<and>
      pl_created_at latest = ps_updated_at row \<and> Some (pl_digest latest) = ps_digest row)"

definition read_verified_state ::
    "(permission_snapshot \<Rightarrow> string) \<Rightarrow> string \<Rightarrow> permission_db \<Rightarrow> err + string \<times> int \<times> int \<times> string" where
  "read_verified_state dump account s =
     (case find_state account s of
        None \<Rightarrow> Inl (PermissionIntegrityError ''durable permission state is missing'')
      | Some row \<Rightarrow>
          ebind (validate_state_values (ps_profile row) (ps_revision row) (ps_updated_at row)) (\<lambda>(profile, revision, updated_at).
          case ps_digest row of
            None \<Rightarrow> Inl (PermissionIntegrityError ''durable permission state digest is invalid'')
          | Some digest \<Rightarrow>
          ebind (check (py_len digest = 64) ''durable permission state digest is invalid'') (\<lambda>_.
          let ledger = account_events account s; audits = account_requests account s
          in ebind (check (ledger \<noteq> []) ''durable permission ledger is missing'') (\<lambda>_.
             ebind (verify_ledger account None None ledger) (\<lambda>_.
             ebind (check (matches_ledger row (last ledger)) ''durable permission state does not match its ledger'') (\<lambda>_.
             ebind (check (list_all (change_audited audits) ledger)
                      ''permission ledger change is missing its request audit'') (\<lambda>_.
             ebind (verify_all (verify_audit_row dump (by_revision ledger)) audits) (\<lambda>_.
             Inr (profile, revision, updated_at, digest)))))))))"

definition require_factory_state_absent :: "string \<Rightarrow> permission_db \<Rightarrow> err + unit" where
  "require_factory_state_absent account s =
     check (account_rows account s = [] \<and> account_requests account s = [])
       ''durable permission authority is incomplete''"

section \<open>The authority\<close>

record authority =
  au_account :: string
  au_denies :: "string list"
  au_initial :: string

text \<open>The checks of \<^verbatim>\<open>__init__\<close>.  The frozen set of denied capabilities is the sorted list of its members.\<close>

definition make_authority :: "string \<Rightarrow> bool \<Rightarrow> string list \<Rightarrow> err + authority" where
  "make_authority account initial_full_access denies =
     (if account = [] \<or> 256 < py_len account then Inl (ValueError ''permission account_id is invalid'')
      else if \<not> list_all capability_id (issue_denies denies)
      then Inl (ValueError ''administrator hard-deny capability ID is invalid'')
      else Inr \<lparr>au_account = account, au_denies = issue_denies denies,
                au_initial = (if initial_full_access then ''full_access'' else ''default'')\<rparr>)"

definition permission_projection :: "authority \<Rightarrow> string \<Rightarrow> int \<Rightarrow> int \<Rightarrow> err + permission_snapshot" where
  "permission_projection a profile revision updated_at = issue profile revision updated_at (au_denies a)"

definition factory_event :: "authority \<Rightarrow> int \<Rightarrow> permission_event" where
  "factory_event a now =
     \<lparr>pl_account = au_account a, pl_revision = 1, pl_profile = au_initial a, pl_previous = None,
      pl_digest = state_digest (au_account a) (au_initial a) 1 now None ''__initial__'',
      pl_request = ''__initial__'', pl_created_at = now\<rparr>"

definition factory_state :: "authority \<Rightarrow> int \<Rightarrow> permission_state_row" where
  "factory_state a now =
     \<lparr>ps_account = au_account a, ps_profile = au_initial a, ps_revision = 1, ps_updated_at = now,
      ps_digest = Some (state_digest (au_account a) (au_initial a) 1 now None ''__initial__'')\<rparr>"

definition initialize_in_transaction ::
    "(permission_snapshot \<Rightarrow> string) \<Rightarrow> authority \<Rightarrow> int \<Rightarrow> (string \<times> int \<times> int \<times> string) ptxn" where
  "initialize_in_transaction dump a now =
     bind (read (find_state (au_account a))) (\<lambda>row.
     seq (if row = None
          then bind (read (require_factory_state_absent (au_account a))) (\<lambda>absent.
               seq (lift_result absent)
               (seq (insert_permission_event (factory_event a now))
                    (insert_permission_state (factory_state a now))))
          else ret ())
     (bind (read (read_verified_state dump (au_account a))) lift_result))"

definition project_result :: "authority \<Rightarrow> (err + string \<times> int \<times> int \<times> string) \<Rightarrow> err + permission_snapshot" where
  "project_result a x = ebind x (\<lambda>(profile, revision, updated_at, _). permission_projection a profile revision updated_at)"

definition initialize ::
    "(permission_snapshot \<Rightarrow> string) \<Rightarrow> authority \<Rightarrow> int \<Rightarrow> permission_db \<Rightarrow> (err + permission_snapshot) \<times> permission_db" where
  "initialize dump a now s =
     (case transaction (initialize_in_transaction dump a now) s of (x, s') \<Rightarrow> (project_result a x, s'))"

text \<open>Without a stored preference the factory default is projected, dated at the epoch.\<close>

definition project_verified_state ::
    "(permission_snapshot \<Rightarrow> string) \<Rightarrow> authority \<Rightarrow> permission_db \<Rightarrow> err + string \<times> int \<times> int \<times> string" where
  "project_verified_state dump a s =
     (if find_state (au_account a) s \<noteq> None then read_verified_state dump (au_account a) s
      else ebind (require_factory_state_absent (au_account a) s) (\<lambda>_.
           Inr (au_initial a, 1, 0, state_digest (au_account a) (au_initial a) 1 0 None ''__initial__'')))"

section \<open>Changing the preference\<close>

definition next_timestamp :: "int \<Rightarrow> int \<Rightarrow> int" where
  "next_timestamp previous now = (if now \<le> previous then previous + 1 else now)"

definition changed_event :: "authority \<Rightarrow> string \<Rightarrow> int \<Rightarrow> int \<Rightarrow> string \<Rightarrow> string \<Rightarrow> permission_event" where
  "changed_event a profile revision now previous_digest client_request_id =
     \<lparr>pl_account = au_account a, pl_revision = revision, pl_profile = profile, pl_previous = Some previous_digest,
      pl_digest = state_digest (au_account a) profile revision now (Some previous_digest) client_request_id,
      pl_request = client_request_id, pl_created_at = now\<rparr>"

definition audit_row ::
    "(permission_snapshot \<Rightarrow> string) \<Rightarrow> authority \<Rightarrow> string \<Rightarrow> int \<Rightarrow> string \<Rightarrow> permission_snapshot \<Rightarrow> int \<Rightarrow> string \<Rightarrow> int
      \<Rightarrow> permission_request" where
  "audit_row dump a profile expected client_request_id response revision digest now =
     (let fp = request_fingerprint profile expected
      in \<lparr>pr_account = au_account a, pr_request = client_request_id, pr_fingerprint = fp, pr_response = response,
          pr_expected = Some expected, pr_resulting = Some revision, pr_state_digest = Some digest,
          pr_audit_digest = Some (audit_digest (au_account a) client_request_id fp (dump response) (Some expected)
                                    (Some revision) (Some digest) now),
          pr_created_at = now\<rparr>)"

text \<open>The write of a change: the chain first, then the row it backs.  It returns the new digest.\<close>

definition change_profile :: "authority \<Rightarrow> string \<Rightarrow> int \<Rightarrow> int \<Rightarrow> string \<Rightarrow> string \<Rightarrow> string ptxn" where
  "change_profile a profile revision now previous_digest client_request_id =
     (let e = changed_event a profile revision now previous_digest client_request_id
      in seq (insert_permission_event e)
         (seq (update_permission_state (au_account a) profile revision now (pl_digest e))
              (ret (pl_digest e))))"

definition answer_duplicate ::
    "(permission_snapshot \<Rightarrow> string) \<Rightarrow> authority \<Rightarrow> string \<Rightarrow> int \<Rightarrow> permission_request \<Rightarrow> string \<times> int \<times> int
      \<Rightarrow> permission_snapshot ptxn" where
  "answer_duplicate dump a profile expected duplicate current =
     bind (read (\<lambda>s. verify_audit_row dump (\<lambda>r. find (\<lambda>e. pl_revision e = r) (account_rows (au_account a) s)) duplicate)) (\<lambda>verified.
     seq (lift_result verified)
     (seq (require (pr_fingerprint duplicate \<in> {request_fingerprint profile expected, legacy_fingerprint profile})
             (IdempotencyConflictError ''permission client_request_id was reused with different content''))
          (case current of (current_profile, revision, updated_at) \<Rightarrow>
             lift_result (permission_projection a current_profile revision updated_at))))"

definition mutate ::
    "(permission_snapshot \<Rightarrow> string) \<Rightarrow> authority \<Rightarrow> string \<Rightarrow> int \<Rightarrow> string \<Rightarrow> int \<Rightarrow> permission_snapshot ptxn" where
  "mutate dump a profile expected client_request_id now =
     bind (read (read_verified_state dump (au_account a))) (\<lambda>verified.
     bind (lift_result verified) (\<lambda>(current_profile, revision, updated_at, digest).
     bind (read (find_request (au_account a) client_request_id)) (\<lambda>duplicate.
     case duplicate of
       Some q \<Rightarrow> answer_duplicate dump a profile expected q (current_profile, revision, updated_at)
     | None \<Rightarrow>
         seq (require (expected = revision)
                (ConflictError ''permission revision changed; refresh settings before retrying''))
         (let time = next_timestamp updated_at now; changes = (current_profile \<noteq> profile);
              revision' = (if changes then revision + 1 else revision);
              updated' = (if changes then time else updated_at)
          in bind (if changes then change_profile a profile revision' time digest client_request_id
                   else ret digest) (\<lambda>digest'.
             bind (lift_result (permission_projection a profile revision' updated')) (\<lambda>response.
             seq (insert_permission_request
                    (audit_row dump a profile expected client_request_id response revision' digest' time))
                 (ret response)))))))"

text \<open>The checks of the arguments, shared by \<^verbatim>\<open>update\<close> and \<^verbatim>\<open>update_in_transaction\<close>; \<open>expected_revision\<close> is any Python
  value, of which only an \<^verbatim>\<open>int\<close> that is no \<^verbatim>\<open>bool\<close> is accepted.\<close>

definition update_arguments :: "string \<Rightarrow> json \<Rightarrow> string \<Rightarrow> err + int" where
  "update_arguments profile expected_revision client_request_id =
     (if \<not> is_profile profile then Inl (ValueError ''permission profile is invalid'')
      else case expected_revision of
        JInt expected \<Rightarrow>
          if expected < 1 then Inl (ValueError ''permission expected_revision is invalid'')
          else if client_request_id = [] \<or> 256 < py_len client_request_id
          then Inl (ValueError ''permission client_request_id is invalid'')
          else Inr expected
      | _ \<Rightarrow> Inl (ValueError ''permission expected_revision is invalid''))"

definition update_permission ::
    "(permission_snapshot \<Rightarrow> string) \<Rightarrow> authority \<Rightarrow> string \<Rightarrow> json \<Rightarrow> string \<Rightarrow> int \<Rightarrow> permission_db
      \<Rightarrow> (err + permission_snapshot) \<times> permission_db" where
  "update_permission dump a profile expected_revision client_request_id now s =
     (case update_arguments profile expected_revision client_request_id of
        Inl e \<Rightarrow> (Inl e, s)
      | Inr expected \<Rightarrow> transaction (mutate dump a profile expected client_request_id now) s)"

definition update_in_transaction ::
    "(permission_snapshot \<Rightarrow> string) \<Rightarrow> authority \<Rightarrow> bool \<Rightarrow> string \<Rightarrow> json \<Rightarrow> string \<Rightarrow> int \<Rightarrow> permission_snapshot ptxn" where
  "update_in_transaction dump a in_transaction profile expected_revision client_request_id now =
     seq (require in_transaction (RuntimeError ''permission update requires an active transaction''))
     (bind (lift_result (update_arguments profile expected_revision client_request_id)) (\<lambda>expected.
      mutate dump a profile expected client_request_id now))"

section \<open>The cached sample\<close>

record permission_sample =
  sample_snapshot :: permission_snapshot
  sample_digest :: string

record permission_cache_key =
  key_schema_version :: int
  key_profile :: "string option"
  key_revision :: "int option"
  key_updated_at :: "int option"
  key_state_digest :: "string option"
  key_ledger_revision :: "int option"
  key_ledger_digest :: "string option"
  key_audit_rowid :: "nat option"

text \<open>Audit rows are never deleted, so the greatest \<^verbatim>\<open>rowid\<close> is the number of rows.\<close>

definition cache_key :: "string \<Rightarrow> permission_db \<Rightarrow> permission_cache_key" where
  "cache_key account s =
     (let state = find_state account s; head = head_event account s
      in \<lparr>key_schema_version = schema_version s, key_profile = map_option ps_profile state,
          key_revision = map_option ps_revision state, key_updated_at = map_option ps_updated_at state,
          key_state_digest = Option.bind state ps_digest, key_ledger_revision = map_option pl_revision head,
          key_ledger_digest = map_option pl_digest head,
          key_audit_rowid = (if permission_requests s = [] then None else Some (length (permission_requests s)))\<rparr>)"

record permission_memory =
  verified_cache :: "(permission_cache_key \<times> permission_sample) option"
  sample_context :: "permission_sample option"

text \<open>What a read of the whole authority gives, without the cache.\<close>

definition fresh_sample ::
    "(permission_snapshot \<Rightarrow> string) \<Rightarrow> authority \<Rightarrow> permission_db \<Rightarrow> err + permission_sample" where
  "fresh_sample dump a s =
     ebind (if key_profile (cache_key (au_account a) s) \<noteq> None then read_verified_state dump (au_account a) s
            else project_verified_state dump a s) (\<lambda>(profile, revision, updated_at, digest).
     ebind (permission_projection a profile revision updated_at) (\<lambda>snapshot.
     Inr \<lparr>sample_snapshot = snapshot, sample_digest = digest\<rparr>))"

definition verified_sample ::
    "(permission_snapshot \<Rightarrow> string) \<Rightarrow> authority \<Rightarrow> permission_db \<Rightarrow> permission_memory
      \<Rightarrow> (err + permission_sample) \<times> permission_memory" where
  "verified_sample dump a s m =
     (let key = cache_key (au_account a) s;
          miss = (case fresh_sample dump a s of
                    Inl e \<Rightarrow> (Inl e, m)
                  | Inr sample \<Rightarrow> (Inr sample, m\<lparr>verified_cache := Some (key, sample)\<rparr>))
      in case verified_cache m of
           None \<Rightarrow> miss
         | Some (cached_key, sample) \<Rightarrow> if cached_key = key then (Inr sample, m) else miss)"

definition operation_sample ::
    "(permission_snapshot \<Rightarrow> string) \<Rightarrow> authority \<Rightarrow> permission_db \<Rightarrow> permission_memory
      \<Rightarrow> (err + permission_sample) \<times> permission_memory" where
  "operation_sample dump a s m =
     (case sample_context m of Some sample \<Rightarrow> (Inr sample, m) | None \<Rightarrow> verified_sample dump a s m)"

definition current ::
    "(permission_snapshot \<Rightarrow> string) \<Rightarrow> authority \<Rightarrow> permission_db \<Rightarrow> permission_memory
      \<Rightarrow> (err + permission_snapshot) \<times> permission_memory" where
  "current dump a s m =
     (case operation_sample dump a s m of (x, m') \<Rightarrow> (ebind x (\<lambda>v. Inr (sample_snapshot v)), m'))"

definition current_state_digest ::
    "(permission_snapshot \<Rightarrow> string) \<Rightarrow> authority \<Rightarrow> permission_db \<Rightarrow> permission_memory \<Rightarrow> (err + string) \<times> permission_memory" where
  "current_state_digest dump a s m =
     (case operation_sample dump a s m of (x, m') \<Rightarrow> (ebind x (\<lambda>v. Inr (sample_digest v)), m'))"

text \<open>\<^verbatim>\<open>verified_sample_scope\<close>: entering gives the sample and whether this scope owns it; the owner removes it.\<close>

definition enter_sample_scope ::
    "(permission_snapshot \<Rightarrow> string) \<Rightarrow> authority \<Rightarrow> permission_db \<Rightarrow> permission_memory
      \<Rightarrow> (err + permission_sample \<times> bool) \<times> permission_memory" where
  "enter_sample_scope dump a s m =
     (case sample_context m of
        Some active \<Rightarrow> (Inr (active, False), m)
      | None \<Rightarrow>
          (case verified_sample dump a s m of
             (Inl e, m') \<Rightarrow> (Inl e, m')
           | (Inr sample, m') \<Rightarrow> (Inr (sample, True), m'\<lparr>sample_context := Some sample\<rparr>)))"

definition exit_sample_scope :: "bool \<Rightarrow> permission_memory \<Rightarrow> permission_memory" where
  "exit_sample_scope owner m = (if owner then m\<lparr>sample_context := None\<rparr> else m)"

end
