(* ===== verification/PermissionLedger.thy ===== *)
theory PermissionLedger
  imports Permissions
begin

text \<open>
  The hash chain of permission changes: the text that is hashed determines every column of the entry, so that
  two chains with the same head agree in every entry or contain two different texts with the same SHA-256.
\<close>

section \<open>JSON texts determine their values\<close>

lemma hex_digit_inj: "m < 16 \<Longrightarrow> n < 16 \<Longrightarrow> hex_digit m = hex_digit n \<longleftrightarrow> m = n"
  unfolding hex_digit_def by (subst nth_eq_iff_index_eq) auto

lemma hex_byte_inj:
  fixes m n :: nat
  assumes "m < 32" and "n < 32" and "hex_digit (m div 16) = hex_digit (n div 16)" and "hex_digit m = hex_digit n"
  shows "m = n"
proof -
  have "hex_digit (m mod 16) = hex_digit (n mod 16)" using assms(4) by (simp add: hex_digit_def)
  then have "m mod 16 = n mod 16" by (simp add: hex_digit_inj)
  moreover have "m div 16 = n div 16" using assms by (simp add: hex_digit_inj)
  ultimately show ?thesis by (metis div_mult_mod_eq)
qed

definition short_escapes :: "(char \<times> char) list" where
  "short_escapes =
     [(CHR 0x22, CHR 0x22), (CHR 0x5C, CHR 0x5C), (CHR 0x0A, CHR ''n''), (CHR 0x0D, CHR ''r''), (CHR 0x09, CHR ''t''),
      (CHR 0x0C, CHR ''f''), (CHR 0x08, CHR ''b'')]"

lemma escape_cases:
  obtains (plain) "json_escape_char c = [c]" "c \<noteq> CHR 0x5C" "c \<noteq> CHR 0x22"
  | (short) l where "json_escape_char c = [CHR 0x5C, l]" "(c, l) \<in> set short_escapes"
  | (hex) "json_escape_char c = [CHR 0x5C, CHR ''u'', CHR ''0'', CHR ''0'',
             hex_digit ((of_char c :: nat) div 16), hex_digit (of_char c)]" "(of_char c :: nat) < 32"
proof (cases "c \<in> set (map fst short_escapes)")
  case True
  then obtain l where l: "(c, l) \<in> set short_escapes" by auto
  then have "json_escape_char c = [CHR 0x5C, l]" unfolding short_escapes_def json_escape_char_def by auto
  then show ?thesis using short l by blast
next
  case False
  then show ?thesis using plain hex by (cases "(of_char c :: nat) < 32") (simp_all add: short_escapes_def json_escape_char_def)
qed

lemma short_escapes_inj:
  assumes "(c, l) \<in> set short_escapes" and "(d, l) \<in> set short_escapes"
  shows "c = d"
proof -
  have "distinct (map snd short_escapes)" by (simp add: short_escapes_def)
  then have "inj_on snd (set short_escapes)" by (simp add: distinct_map)
  from inj_onD [OF this _ assms] show ?thesis by simp
qed

lemma short_escape_not_hex: "(c, CHR ''u'') \<notin> set short_escapes"
  by (simp add: short_escapes_def)

lemma escape_prefix_free:
  assumes "json_escape_char c @ x = json_escape_char d @ y"
  shows "c = d \<and> x = y"
proof (cases rule: escape_cases [of c])
  case plain
  then show ?thesis using assms by (cases rule: escape_cases [of d]) auto
next
  case (short l)
  then show ?thesis using assms short_escapes_inj short_escape_not_hex by (cases rule: escape_cases [of d]) auto
next
  case hex
  note c = this
  show ?thesis
  proof (cases rule: escape_cases [of d])
    case hex
    then have "(of_char c :: nat) = of_char d"
      using c assms by (intro hex_byte_inj) auto
    then show ?thesis using c hex assms by simp
  qed (use c assms short_escape_not_hex in auto)
qed

lemma escape_not_quote: "json_escape_char c \<noteq> [] \<and> hd (json_escape_char c) \<noteq> CHR 0x22"
  by (cases rule: escape_cases [of c]) auto

lemma escapes_prefix_free:
  "concat (map json_escape_char s) @ CHR 0x22 # x = concat (map json_escape_char t) @ CHR 0x22 # y \<Longrightarrow> s = t \<and> x = y"
proof (induction s arbitrary: t)
  case Nil
  then show ?case using escape_not_quote by (cases t) (auto simp: Cons_eq_append_conv, metis list.sel(1))
next
  case (Cons c s)
  show ?case
  proof (cases t)
    case Nil
    then show ?thesis using Cons.prems escape_not_quote [of c] by (auto simp: append_eq_Cons_conv)
  next
    case (Cons d t')
    then have "c = d \<and> concat (map json_escape_char s) @ CHR 0x22 # x = concat (map json_escape_char t') @ CHR 0x22 # y"
      using Cons.prems escape_prefix_free by fastforce
    then show ?thesis using Cons.IH Cons by blast
  qed
qed

lemma json_string_prefix_free: "json_string s @ x = json_string t @ y \<longleftrightarrow> s = t \<and> x = y"
  using escapes_prefix_free [of s x t y] by (auto simp: json_string_def)

lemma jopt_prefix_free:
  "json_dumps (jopt a) @ x = json_dumps (jopt b) @ y \<longleftrightarrow> a = b \<and> x = y"
  by (cases a; cases b) (auto simp: jopt_def json_dumps.simps json_string_prefix_free, auto simp: json_string_def)

section \<open>Numbers\<close>

lemma digit_char_inj: "m < 10 \<Longrightarrow> n < 10 \<Longrightarrow> digit_char m = digit_char n \<longleftrightarrow> m = n"
  unfolding digit_char_def by (subst nth_eq_iff_index_eq) auto

lemma digit_char_in: "digit_char n \<in> set ''0123456789''"
  unfolding digit_char_def by (rule nth_mem) simp

lemma str_nat_chars: "(\<And>k. digit_char k \<in> D) \<Longrightarrow> set (str_nat n) \<subseteq> D"
proof (induction n rule: str_nat.induct)
  case (1 n)
  then show ?case by (subst str_nat.simps) auto
qed

lemmas str_nat_digits = str_nat_chars [OF digit_char_in]

lemma str_nat_nonempty [simp]: "str_nat n \<noteq> []"
  by (subst str_nat.simps) simp

lemmas str_nat_not_Nil [simp] = str_nat_nonempty [symmetric]

lemma str_nat_inj: "str_nat m = str_nat n \<Longrightarrow> m = n"
proof (induction m arbitrary: n rule: str_nat.induct)
  case (1 m)
  have last: "digit_char (m mod 10) = digit_char (n mod 10)"
    using 1(2) by (subst (asm) (1 2) str_nat.simps) (auto simp: digit_char_def split: if_splits)
  then have "m mod 10 = n mod 10" by (simp add: digit_char_inj)
  moreover have "m div 10 = n div 10"
  proof (cases "m < 10")
    case True
    then have "n < 10" using 1(2) by (subst (asm) (1 2) str_nat.simps) (auto split: if_splits)
    then show ?thesis using True by simp
  next
    case False
    then have "\<not> n < 10" using 1(2) by (subst (asm) (1 2) str_nat.simps) (auto split: if_splits)
    then have "str_nat (m div 10) = str_nat (n div 10)" using 1(2) False by (subst (asm) (1 2) str_nat.simps) auto
    then show ?thesis using 1(1) False by blast
  qed
  ultimately show ?case by (metis div_mult_mod_eq)
qed

lemma str_int_inj: "str_int i = str_int j \<Longrightarrow> i = j"
proof -
  have minus: "''-'' @ str_nat m \<noteq> str_nat n" for m n
    using str_nat_digits [of n] by (cases "str_nat n") auto
  assume "str_int i = str_int j"
  then show "i = j" using minus minus [symmetric]
    by (auto simp: str_int_def split: if_splits dest: str_nat_inj)
qed

lemma str_int_no_comma: "CHR '','' \<notin> set (str_int k)"
proof -
  have "CHR '','' \<notin> set ''0123456789''" by simp
  then have "CHR '','' \<notin> set (str_nat n)" for n using str_nat_digits by blast
  then show ?thesis by (simp add: str_int_def)
qed

lemma append_stop_eq:
  assumes "c \<notin> set u" and "c \<notin> set v" and "u @ c # x = v @ c # y"
  shows "u = v \<and> x = y"
proof -
  have "takeWhile (\<lambda>d. d \<noteq> c) (u @ c # x) = u" "takeWhile (\<lambda>d. d \<noteq> c) (v @ c # y) = v"
    using assms(1,2) by (auto simp: takeWhile_tail)
  then have "u = v" using assms(3) by simp
  then show ?thesis using assms(3) by simp
qed

lemma str_int_prefix_free: "str_int i @ CHR '','' # x = str_int j @ CHR '','' # y \<longleftrightarrow> i = j \<and> x = y"
proof
  assume "str_int i @ CHR '','' # x = str_int j @ CHR '','' # y"
  then have "str_int i = str_int j \<and> x = y" by (intro append_stop_eq [of "CHR '',''"] str_int_no_comma)
  then show "i = j \<and> x = y" by (auto dest: str_int_inj)
qed simp

section \<open>The text that is hashed\<close>

definition state_text :: "string \<Rightarrow> string \<Rightarrow> int \<Rightarrow> int \<Rightarrow> string option \<Rightarrow> string \<Rightarrow> string" where
  "state_text account profile revision updated_at previous client = json_dumps (JObj (state_fact account profile revision updated_at previous client))"

lemma state_digest_text: "state_digest a p r t d c = sha256_hexdigest (state_text a p r t d c)"
  by (simp add: state_digest_def fingerprint_def state_text_def)

lemma state_fact_sorted:
  "sort_key fst (state_fact a p r t d c) =
     [(''account_id'', JStr a), (''client_request_id'', JStr c), (''previous_digest'', jopt d), (''profile'', JStr p),
      (''revision'', JInt r), (''updated_at'', JStr (iso_auto t))]"
  by (simp add: state_fact_def)

lemma state_text_eq:
  "state_text a p r t d c =
     ''{'' @ json_string ''account_id'' @ '':'' @ json_string a @ '','' @
     json_string ''client_request_id'' @ '':'' @ json_string c @ '','' @
     json_string ''previous_digest'' @ '':'' @ json_dumps (jopt d) @ '','' @
     json_string ''profile'' @ '':'' @ json_string p @ '','' @
     json_string ''revision'' @ '':'' @ str_int r @ CHR '','' #
     json_string ''updated_at'' @ '':'' @ json_string (iso_auto t) @ ''}''"
  unfolding state_text_def json_dumps.simps state_fact_sorted by (simp add: json_dumps.simps)

lemma state_text_inj:
  assumes "state_text a p r t d c = state_text a' p' r' t' d' c'"
  shows "a = a' \<and> p = p' \<and> r = r' \<and> iso_auto t = iso_auto t' \<and> d = d' \<and> c = c'"
  using assms unfolding state_text_eq
  by (simp only: append_Cons append_Nil list.inject json_string_prefix_free jopt_prefix_free str_int_prefix_free simp_thms)

section \<open>Verified chains\<close>

lemma ebind_Inr [simp]: "ebind x f = Inr y \<longleftrightarrow> (\<exists>a. x = Inr a \<and> f a = Inr y)"
  by (cases x) (auto simp: ebind_def)

lemma ebind_value [simp]: "ebind (Inr a) f = f a"
  by (simp add: ebind_def)

lemma check_Inr [simp]: "check b m = Inr u \<longleftrightarrow> b"
  by (simp add: check_def)

lemma validate_state_values_Inr [simp]:
  "validate_state_values p r t = Inr v \<longleftrightarrow> is_profile p \<and> 1 \<le> r \<and> v = (p, r, t)"
  by (auto simp: validate_state_values_def)

definition event_text :: "string \<Rightarrow> permission_event \<Rightarrow> string" where
  "event_text account e = state_text account (pl_profile e) (pl_revision e) (pl_created_at e) (pl_previous e) (pl_request e)"

text \<open>One entry that verifies after an entry with digest \<open>d\<close> and revision \<open>r\<close>.\<close>

definition event_verified :: "string \<Rightarrow> string option \<Rightarrow> int option \<Rightarrow> permission_event \<Rightarrow> bool" where
  "event_verified account d r e =
     (is_profile (pl_profile e) \<and> 1 \<le> pl_revision e \<and> (\<forall>q. r = Some q \<longrightarrow> pl_revision e = q + 1) \<and>
      pl_previous e = d \<and> pl_digest e = sha256_hexdigest (event_text account e))"

lemma verify_ledger_Cons:
  "verify_ledger account d r (e # es) = Inr () \<longleftrightarrow>
     event_verified account d r e \<and> verify_ledger account (Some (pl_digest e)) (Some (pl_revision e)) es = Inr ()"
  by (auto simp: verify_ledger.simps(2) event_verified_def event_text_def state_digest_text Let_def split: option.splits if_splits)

lemma verify_ledger_snoc:
  "verify_ledger account d r (es @ [e]) = Inr () \<longleftrightarrow>
     verify_ledger account d r es = Inr () \<and>
     (if es = [] then event_verified account d r e
      else event_verified account (Some (pl_digest (last es))) (Some (pl_revision (last es))) e)"
  by (induction es arbitrary: d r) (auto simp: verify_ledger_Cons)

section \<open>The head fixes the history\<close>

text \<open>The columns of an entry as the table stores them.\<close>

definition event_columns :: "permission_event \<Rightarrow> int \<times> string \<times> string option \<times> string \<times> string \<times> string" where
  "event_columns e =
     (pl_revision e, pl_profile e, pl_previous e, pl_digest e, pl_request e, iso_auto (pl_created_at e))"

definition sha256_collision :: "string set \<Rightarrow> string set \<Rightarrow> bool" where
  "sha256_collision X Y = (\<exists>x\<in>X. \<exists>y\<in>Y. x \<noteq> y \<and> sha256_hexdigest x = sha256_hexdigest y)"

lemma verified_event_agrees:
  assumes "event_verified a d r e" and "event_verified a' d' r' e'" and "pl_digest e = pl_digest e'"
  shows "a = a' \<and> d = d' \<and> event_columns e = event_columns e' \<or> sha256_collision {event_text a e} {event_text a' e'}"
proof (cases "event_text a e = event_text a' e'")
  case True
  then show ?thesis using assms unfolding event_text_def
    by (auto dest!: state_text_inj simp: event_columns_def event_verified_def)
next
  case False
  then show ?thesis using assms by (auto simp: sha256_collision_def event_verified_def)
qed

definition chain_head :: "permission_event list \<Rightarrow> string option" where
  "chain_head es = (if es = [] then None else Some (pl_digest (last es)))"

lemma verified_chain_snocD:
  assumes "verify_ledger a None None (es @ [e]) = Inr ()"
  shows "verify_ledger a None None es = Inr ()" and "\<exists>r. event_verified a (chain_head es) r e"
  using assms by (auto simp: verify_ledger_snoc chain_head_def split: if_splits)

lemma verified_chains_agree:
  assumes "verify_ledger a None None es = Inr ()" and "verify_ledger a' None None es' = Inr ()"
    and "es \<noteq> []" and "es' \<noteq> []" and "pl_digest (last es) = pl_digest (last es')"
  shows "a = a' \<and> map event_columns es = map event_columns es' \<or>
     sha256_collision (event_text a ` set es) (event_text a' ` set es')"
  using assms
proof (induction es arbitrary: es' rule: rev_induct)
  case (snoc e es)
  obtain e' fs where es': "es' = fs @ [e']" using snoc.prems(4) by (metis rev_exhaust)
  note chain = verified_chain_snocD [OF snoc.prems(1)] verified_chain_snocD [OF snoc.prems(2) [unfolded es']]
  obtain r r' where e: "event_verified a (chain_head es) r e" "event_verified a' (chain_head fs) r' e'"
    using chain(2,4) by blast
  from verified_event_agrees [OF e] snoc.prems(5) es'
  consider (same) "a = a'" "chain_head es = chain_head fs" "event_columns e = event_columns e'"
    | (collision) "sha256_collision {event_text a e} {event_text a' e'}" by auto
  then show ?case
  proof cases
    case same
    show ?thesis
    proof (cases "es = []")
      case True
      then show ?thesis using same es' by (auto simp: chain_head_def split: if_splits)
    next
      case False
      then have "fs \<noteq> []" "pl_digest (last es) = pl_digest (last fs)" using same(2) by (auto simp: chain_head_def split: if_splits)
      from snoc.IH [OF chain(1,3) False this] show ?thesis
        using same es' by (auto simp: sha256_collision_def)
    qed
  next
    case collision
    then show ?thesis using es' by (auto simp: sha256_collision_def)
  qed
qed simp

section \<open>Verified stores\<close>

lemma verify_all_Inr [simp]: "verify_all f xs = Inr u \<longleftrightarrow> (\<forall>x\<in>set xs. f x = Inr ())"
  by (induction xs) auto

definition state_verified :: "(permission_snapshot \<Rightarrow> string) \<Rightarrow> string \<Rightarrow> permission_state_row \<Rightarrow> permission_db \<Rightarrow> bool" where
  "state_verified dump account row s =
     (let ledger = account_events account s; audits = account_requests account s
      in is_profile (ps_profile row) \<and> 1 \<le> ps_revision row \<and> (\<forall>d. ps_digest row = Some d \<longrightarrow> py_len d = 64) \<and> ledger \<noteq> [] \<and>
         verify_ledger account None None ledger = Inr () \<and> matches_ledger row (last ledger) \<and>
         list_all (change_audited audits) ledger \<and>
         (\<forall>q\<in>set audits. verify_audit_row dump (by_revision ledger) q = Inr ()))"

lemma read_verified_iff:
  "read_verified_state dump account s = Inr (p, r, t, d) \<longleftrightarrow>
     (\<exists>row. find_state account s = Some row \<and> state_verified dump account row s \<and> p = ps_profile row \<and>
        r = ps_revision row \<and> t = ps_updated_at row \<and> Some d = ps_digest row)"
proof (cases "find_state account s")
  case (Some row)
  show ?thesis
  proof (cases "ps_digest row")
    case None
    then show ?thesis using Some by (simp add: read_verified_state_def)
  next
    case (Some d')
    with \<open>find_state account s = Some row\<close> show ?thesis
      by (simp add: read_verified_state_def state_verified_def Let_def) blast
  qed
qed (simp add: read_verified_state_def)

lemma verified_headD:
  assumes "read_verified_state dump a s = Inr (p, r, t, d)"
  shows "verify_ledger a None None (account_events a s) = Inr ()" and "account_events a s \<noteq> []"
    and "pl_digest (last (account_events a s)) = d" and "pl_profile (last (account_events a s)) = p"
    and "pl_revision (last (account_events a s)) = r" and "pl_created_at (last (account_events a s)) = t"
proof -
  obtain row where row: "state_verified dump a row s" "p = ps_profile row" "r = ps_revision row" "t = ps_updated_at row"
      "Some d = ps_digest row"
    using assms unfolding read_verified_iff by blast
  then show "verify_ledger a None None (account_events a s) = Inr ()" "account_events a s \<noteq> []"
    by (simp_all add: state_verified_def Let_def)
  have "matches_ledger row (last (account_events a s))" using row(1) by (simp add: state_verified_def Let_def)
  then show "pl_digest (last (account_events a s)) = d" "pl_profile (last (account_events a s)) = p"
      "pl_revision (last (account_events a s)) = r" "pl_created_at (last (account_events a s)) = t"
    using row(2-) unfolding matches_ledger_def by (metis option.inject)+
qed

lemma verified_head_fixes_chain:
  assumes "read_verified_state dump a s = Inr (p, r, t, d)" and "read_verified_state dump' a' s' = Inr (p', r', t', d)"
  shows "a = a' \<and> p = p' \<and> r = r' \<and> iso_auto t = iso_auto t' \<and>
       map event_columns (account_events a s) = map event_columns (account_events a' s') \<or>
     sha256_collision (event_text a ` set (account_events a s)) (event_text a' ` set (account_events a' s'))"
proof -
  let ?es = "account_events a s" and ?es' = "account_events a' s'"
  note es = verified_headD [OF assms(1)] and es' = verified_headD [OF assms(2)]
  have "event_columns (last ?es) = event_columns (last ?es')" if "map event_columns ?es = map event_columns ?es'"
    using es(2) es'(2) that by (metis last_map)
  then show ?thesis
    using verified_chains_agree [OF es(1) es'(1) es(2) es'(2)] es es' by (auto simp: event_columns_def)
qed

section \<open>The order of a verified chain\<close>

lemma verified_revisions:
  "verify_ledger a d r es = Inr () \<Longrightarrow> es \<noteq> [] \<Longrightarrow>
     map pl_revision es = map (\<lambda>i. pl_revision (hd es) + int i) [0..<length es]"
proof (induction es rule: rev_induct)
  case (snoc e es)
  show ?case
  proof (cases "es = []")
    case False
    then have "pl_revision e = pl_revision (last es) + 1" using snoc.prems by (simp add: verify_ledger_snoc event_verified_def)
    moreover have "map pl_revision es = map (\<lambda>i. pl_revision (hd es) + int i) [0..<length es]"
      using snoc.IH snoc.prems False by (simp add: verify_ledger_snoc)
    moreover from this have "pl_revision (last es) = pl_revision (hd es) + int (length es - 1)"
      using False by (metis (no_types, lifting) last_map last_upt length_0_conv length_greater_0_conv length_map map_is_Nil_conv upt_eq_Nil_conv)
    ultimately show ?thesis using False by (simp add: Suc_le_eq)
  qed simp
qed simp

lemma verified_sorted:
  assumes "verify_ledger a d r es = Inr ()"
  shows "sorted (map pl_revision es)" and "distinct (map pl_revision es)"
  using verified_revisions [OF assms] by (cases "es = []"; simp add: sorted_iff_nth_mono distinct_conv_nth)+

end
