(* ===== verification/PermissionSnapshots.thy ===== *)
theory PermissionSnapshots
  imports Permissions
begin

text \<open>
  \<^verbatim>\<open>PermissionSnapshot\<close> as a contract: what \<^verbatim>\<open>issue\<close> builds is valid, and a snapshot is valid exactly when it is the
  one issued for its own profile, revision, time and hard denies.
\<close>

section \<open>Capability identifiers\<close>

lemma space_byte: "is_space [c] \<Longrightarrow> (of_char c :: nat) \<le> 32"
  by (auto simp: is_space_def py_spaces_def u8_def)

lemma capability_char_plain:
  assumes "capability_char c"
  shows "(of_char c :: nat) < 128" and "\<not> capital (of_char c)" and "\<not> is_space [c]"
proof -
  have "list_all (\<lambda>c. 32 < (of_char c :: nat) \<and> (of_char c :: nat) < 128 \<and> \<not> capital (of_char c))
    ''abcdefghijklmnopqrstuvwxyz0123456789_.:-''" by (simp add: capital_def)
  then have c: "32 < (of_char c :: nat) \<and> (of_char c :: nat) < 128 \<and> \<not> capital (of_char c)"
    using assms unfolding list_all_iff capability_char_def by blast
  then show "(of_char c :: nat) < 128" "\<not> capital (of_char c)" "\<not> is_space [c]"
    using space_byte [of c] by auto
qed

lemma capability_idD: "capability_id v \<Longrightarrow> v \<noteq> [] \<and> list_all capability_char v"
  by (simp add: capability_id_def)

lemma capability_id_normal:
  assumes "capability_id v"
  shows "py_strip v = v" and "normalized_deny v = v"
proof -
  have "ascii v" "list_all (\<lambda>c. \<not> capital (of_char c)) v" "list_all (\<lambda>c. \<not> is_space [c]) v"
    using capability_idD [OF assms] capability_char_plain by (auto simp: ascii_def list_all_iff)
  then show "py_strip v = v" "normalized_deny v = v"
    by (simp_all add: normalized_deny_def py_strip_nospace casefold_lower)
qed

definition canonical_denies :: "string list \<Rightarrow> bool" where
  "canonical_denies ds = (list_all capability_id ds \<and> sort (remdups ds) = ds)"

lemma sort_remdups_idem [simp]: "sort (remdups (sort (remdups xs))) = sort (remdups xs)"
  by (simp add: distinct_remdups_id sort_key_id_if_sorted)

lemma canonical_denies_issue [simp]:
  assumes "canonical_denies ds"
  shows "issue_denies ds = ds"
proof -
  have "filter (\<lambda>v. py_strip v \<noteq> []) ds = ds" "map normalized_deny ds = ds"
    using assms capability_id_normal capability_idD
    by (auto simp: canonical_denies_def list_all_iff filter_id_conv intro!: map_idI)
  then show ?thesis using assms by (simp add: issue_denies_def canonical_denies_def)
qed

lemma canonical_hard_denies_Inr:
  "canonical_hard_denies ds = Inr es \<longleftrightarrow> canonical_denies es \<and> es = map normalized_deny ds"
  by (auto simp: canonical_hard_denies_def canonical_denies_def Let_def)

lemma canonical_denies_kept: "canonical_denies ds \<Longrightarrow> canonical_hard_denies ds = Inr ds"
  using capability_id_normal
  by (auto simp: canonical_hard_denies_Inr canonical_denies_def list_all_iff intro!: map_idI [symmetric])

section \<open>Issued snapshots\<close>

definition issued :: "string list \<Rightarrow> string \<Rightarrow> int \<Rightarrow> int \<Rightarrow> permission_snapshot" where
  "issued denies profile revision updated_at =
     \<lparr>snap_id = expected_snapshot_id profile revision updated_at denies, snap_profile = profile,
      snap_revision = revision, snap_updated_at = updated_at, snap_sandbox = profile_sandbox profile,
      snap_approval = profile_approval profile, snap_full_access = (profile = ''full_access''),
      snap_denies = denies\<rparr>"

lemma issued_sel [simp]:
  "snap_profile (issued ds p r t) = p" "snap_revision (issued ds p r t) = r" "snap_updated_at (issued ds p r t) = t"
  "snap_denies (issued ds p r t) = ds"
  by (simp_all add: issued_def)

lemma snapshot_id_shape: "take 5 (expected_snapshot_id p r t ds) = ''perm_'' \<and> is_sha256 (drop 5 (expected_snapshot_id p r t ds))"
  using sha256_hex unfolding expected_snapshot_id_def fingerprint_def is_sha256_def
  by (simp add: list_all_iff subset_iff del: list.set)

lemma validate_issued:
  "is_profile p \<Longrightarrow> 1 \<le> r \<Longrightarrow> canonical_denies ds \<Longrightarrow> validate_snapshot (issued ds p r t) = Inr (issued ds p r t)"
  using snapshot_id_shape [of p r t ds]
  by (simp add: validate_snapshot_def snapshot_fields_ok_def issued_def canonical_denies_kept ebind_def
      consistent_permission_fact_def profile_sandbox_def profile_approval_def)

lemma issue_issued:
  "is_profile p \<Longrightarrow> 1 \<le> r \<Longrightarrow> canonical_denies ds \<Longrightarrow> issue p r t ds = Inr (issued ds p r t)"
  using validate_issued [of p r ds t] by (simp add: issue_def Let_def issued_def)

lemma validated_is_issued:
  assumes "validate_snapshot v = Inr w"
  shows "w = issued (snap_denies w) (snap_profile w) (snap_revision w) (snap_updated_at w) \<and>
     is_profile (snap_profile w) \<and> 1 \<le> snap_revision w \<and> canonical_denies (snap_denies w)"
proof -
  have "snapshot_fields_ok v" using assms by (auto simp: validate_snapshot_def split: if_splits)
  obtain ds where ds: "canonical_hard_denies (snap_denies v) = Inr ds" "consistent_permission_fact (v\<lparr>snap_denies := ds\<rparr>) = Inr w"
    using assms by (auto simp: validate_snapshot_def ebind_def split: if_splits sum.splits)
  have w: "w = v\<lparr>snap_denies := ds\<rparr>" using ds(2) by (auto simp: consistent_permission_fact_def split: if_splits)
  have "canonical_denies ds" using ds(1) unfolding canonical_hard_denies_Inr by blast
  moreover have "v\<lparr>snap_denies := ds\<rparr> = issued ds (snap_profile v) (snap_revision v) (snap_updated_at v)"
    using ds(2) by (cases v) (auto simp: issued_def consistent_permission_fact_def split: if_splits)
  ultimately show ?thesis using \<open>snapshot_fields_ok v\<close> w by (simp add: snapshot_fields_ok_def)
qed

section \<open>Properties\<close>

text \<open>
  C38.  A snapshot passes its validators unchanged exactly when it is what \<^verbatim>\<open>issue\<close> builds from its own profile,
  revision, time and hard denies.  Hence sandbox, approval, full access and identifier can never disagree with the
  profile, and two valid snapshots of the same facts are equal.\<close>

theorem snapshot_valid_iff_issued:
  "validate_snapshot v = Inr v \<longleftrightarrow>
     issue (snap_profile v) (snap_revision v) (snap_updated_at v) (snap_denies v) = Inr v"
proof
  assume "validate_snapshot v = Inr v"
  from validated_is_issued [OF this] show "issue (snap_profile v) (snap_revision v) (snap_updated_at v) (snap_denies v) = Inr v"
    using issue_issued by metis
next
  assume issued: "issue (snap_profile v) (snap_revision v) (snap_updated_at v) (snap_denies v) = Inr v"
  then obtain w where "validate_snapshot w = Inr v" by (auto simp: issue_def Let_def)
  from validated_is_issued [OF this] show "validate_snapshot v = Inr v" using validate_issued by metis
qed

section \<open>Authorities\<close>

definition authority_ok :: "authority \<Rightarrow> bool" where
  "authority_ok a = (canonical_denies (au_denies a) \<and> is_profile (au_initial a))"

lemma make_authority_ok: "make_authority account full denies = Inr a \<Longrightarrow> authority_ok a"
  by (auto simp: make_authority_def authority_ok_def canonical_denies_def issue_denies_def is_profile_def split: if_splits)

lemma make_authorityD:
  assumes "make_authority account full denies = Inr a"
  shows "authority_ok a" and "au_account a = account"
  using make_authority_ok [OF assms] assms by (auto simp: make_authority_def split: if_splits)

lemma projection_issued:
  "authority_ok a \<Longrightarrow> is_profile p \<Longrightarrow> 1 \<le> r \<Longrightarrow> permission_projection a p r t = Inr (issued (au_denies a) p r t)"
  by (simp add: permission_projection_def authority_ok_def issue_issued)

end
