(* ===== verification/PermissionRuns.thy ===== *)
theory PermissionRuns
  imports PermissionLedger PermissionSnapshots
begin

text \<open>
  Runs of the permission authority: an account is untouched or verifies, a change appends one entry to its chain,
  and every call keeps it so.  Accounts share the tables; a call of one authority leaves the rows of the others alone.
\<close>

section \<open>The invariant of an account\<close>

definition account_states :: "string \<Rightarrow> permission_db \<Rightarrow> permission_state_row list" where
  "account_states account s = filter (\<lambda>r. ps_account r = account) (permission_states s)"

text \<open>The chain is numbered from one in the order of its insertion; every entry changes the profile, later
  than the one before, and no two have the same digest.\<close>

definition change_history :: "permission_event list \<Rightarrow> bool" where
  "change_history es =
     (map pl_revision es = map (\<lambda>i. 1 + int i) [0..<length es] \<and> distinct (map pl_digest es) \<and>
      successively (\<lambda>e e'. pl_profile e \<noteq> pl_profile e' \<and> pl_created_at e < pl_created_at e') es)"

definition account_live :: "(permission_snapshot \<Rightarrow> string) \<Rightarrow> string \<Rightarrow> permission_state_row \<Rightarrow> permission_db \<Rightarrow> bool" where
  "account_live dump account row s =
     (account_states account s = [row] \<and> change_history (account_rows account s) \<and> state_verified dump account row s)"

definition account_ok :: "(permission_snapshot \<Rightarrow> string) \<Rightarrow> string \<Rightarrow> permission_db \<Rightarrow> bool" where
  "account_ok dump account s =
     (account_states account s = [] \<and> account_rows account s = [] \<and> account_requests account s = [] \<or>
      (\<exists>row. account_live dump account row s))"

definition permissions_ok :: "(permission_snapshot \<Rightarrow> string) \<Rightarrow> permission_db \<Rightarrow> bool" where
  "permissions_ok dump s = (\<forall>account. account_ok dump account s)"

lemma find_state_rows: "find_state account s = (case account_states account s of [] \<Rightarrow> None | r # _ \<Rightarrow> Some r)"
  unfolding find_state_def account_states_def by (rule find_filter_hd)

lemma change_history_sorted:
  assumes "change_history es"
  shows "sort_key pl_revision es = es" and "distinct (map pl_revision es)"
proof -
  show "distinct (map pl_revision es)" using assms by (simp add: change_history_def distinct_map inj_on_def)
  have "sorted (map (\<lambda>i. 1 + int i) [0..<length es])" by (simp add: sorted_iff_nth_mono)
  then show "sort_key pl_revision es = es" using assms by (intro sort_key_sorted_id) (simp add: change_history_def)
qed

lemma change_history_last:
  assumes "change_history es" and "es \<noteq> []"
  shows "pl_revision (last es) = int (length es)"
proof -
  obtain xs x where "es = xs @ [x]" using assms(2) by (metis rev_exhaust)
  then show ?thesis using assms(1) by (simp add: change_history_def)
qed

lemma live_events: "account_live dump account row s \<Longrightarrow> account_events account s = account_rows account s"
  by (simp add: account_live_def account_events_def change_history_sorted)

lemma live_find [simp]: "account_live dump account row s \<Longrightarrow> find_state account s = Some row"
  by (simp add: account_live_def find_state_rows)

lemma live_account: "account_live dump account row s \<Longrightarrow> ps_account row = account"
proof -
  assume "account_live dump account row s"
  then have "row \<in> set (account_states account s)" by (simp add: account_live_def)
  then show ?thesis by (simp add: account_states_def)
qed

lemma live_parts:
  assumes "account_live dump account row s"
  shows "is_profile (ps_profile row)" "1 \<le> ps_revision row" "account_rows account s \<noteq> []"
    "verify_ledger account None None (account_rows account s) = Inr ()"
    "matches_ledger row (last (account_rows account s))"
    "list_all (change_audited (account_requests account s)) (account_rows account s)"
    "\<And>q. q \<in> set (account_requests account s) \<Longrightarrow> verify_audit_row dump (by_revision (account_rows account s)) q = Inr ()"
  using assms live_events [OF assms] by (auto simp: account_live_def state_verified_def Let_def)

lemma live_digest:
  assumes "account_live dump account row s"
  obtains d where "ps_digest row = Some d" and "pl_digest (last (account_rows account s)) = d"
  using live_parts(5) [OF assms] unfolding matches_ledger_def by (metis (no_types))

lemma live_reads:
  assumes "account_live dump account row s" and "ps_digest row = Some d"
  shows "read_verified_state dump account s = Inr (ps_profile row, ps_revision row, ps_updated_at row, d)"
  using assms by (simp add: read_verified_iff account_live_def find_state_rows)

section \<open>What a call writes\<close>

definition appended_event :: "permission_event \<Rightarrow> permission_db \<Rightarrow> permission_db" where
  "appended_event e s =
     s\<lparr>permission_ledger := permission_ledger s @ [e],
       permission_states := update_rows (\<lambda>r. ps_account r = pl_account e)
         (\<lambda>r. r\<lparr>ps_profile := pl_profile e, ps_revision := pl_revision e, ps_updated_at := pl_created_at e,
              ps_digest := Some (pl_digest e)\<rparr>) (permission_states s)\<rparr>"

definition appended_request :: "permission_request \<Rightarrow> permission_db \<Rightarrow> permission_db" where
  "appended_request q s = s\<lparr>permission_requests := permission_requests s @ [q]\<rparr>"

definition digest_taken :: "permission_event \<Rightarrow> permission_db \<Rightarrow> bool" where
  "digest_taken e s = (\<exists>x\<in>set (account_rows (pl_account e) s). pl_digest x = pl_digest e)"

lemma head_event_live:
  assumes "account_live dump account row s"
  shows "head_event account s = Some (last (account_rows account s))"
  using live_events [OF assms] live_parts(3) [OF assms] by (simp add: head_event_def split: list.splits)

lemma live_revision_bound:
  assumes "account_live dump account row s" and "e \<in> set (account_rows account s)"
  shows "pl_revision e \<le> ps_revision row"
proof -
  have history: "change_history (account_rows account s)" using assms(1) by (simp add: account_live_def)
  have numbers: "map pl_revision (account_rows account s) = map (\<lambda>i. 1 + int i) [0..<length (account_rows account s)]"
    using history by (simp add: change_history_def)
  have "pl_revision e \<in> set (map pl_revision (account_rows account s))" using assms(2) by simp
  then have "pl_revision e \<in> (\<lambda>i. 1 + int i) ` {0..<length (account_rows account s)}" unfolding numbers by simp
  then show ?thesis
    using live_parts(3,5) [OF assms(1)] change_history_last [OF history] by (auto simp: matches_ledger_def)
qed

lemma insert_event_live:
  assumes "account_live dump account row s" and "pl_account e = account" and "pl_revision e = ps_revision row + 1"
    and "pl_previous e = ps_digest row" and "is_profile (pl_profile e)"
  shows "insert_permission_event e s =
     (if digest_taken e s then Inl (IntegrityError ''UNIQUE constraint failed'')
      else Inr ((), s\<lparr>permission_ledger := permission_ledger s @ [e]\<rparr>))"
proof -
  have "\<not> chain_violated e s"
    using assms live_parts(5) [OF assms(1)] head_event_live [OF assms(1)]
    by (auto simp: chain_violated_def matches_ledger_def split: option.splits)
  moreover have "list_all (\<lambda>r. pl_revision r \<noteq> pl_revision e \<and> pl_digest r \<noteq> pl_digest e) (account_rows account s) \<longleftrightarrow> \<not> digest_taken e s"
    using assms(2,3) live_revision_bound [OF assms(1)] by (fastforce simp: list_all_iff digest_taken_def)
  ultimately show ?thesis
    using assms live_parts(2) [OF assms(1)] by (simp add: insert_permission_event_def run_eqs)
qed

lemma update_state_live:
  assumes "account_live dump account row s" and "e \<in> set (permission_ledger s')" and "permission_states s' = permission_states s"
    and "pl_account e = account" and "pl_revision e = ps_revision row + 1" and "is_profile (pl_profile e)"
    and "pl_profile e \<noteq> ps_profile row" and "ps_updated_at row < pl_created_at e"
  shows "update_permission_state account (pl_profile e) (pl_revision e) (pl_created_at e) (pl_digest e) s' =
     Inr ((), s'\<lparr>permission_states := update_rows (\<lambda>r. ps_account r = account)
         (\<lambda>r. r\<lparr>ps_profile := pl_profile e, ps_revision := pl_revision e, ps_updated_at := pl_created_at e,
              ps_digest := Some (pl_digest e)\<rparr>) (permission_states s')\<rparr>)"
proof -
  have only: "r = row" if "r \<in> set (permission_states s')" "ps_account r = account" for r
  proof -
    have "r \<in> set (account_states account s)" using that assms(3) by (simp add: account_states_def)
    then show ?thesis using assms(1) by (simp add: account_live_def)
  qed
  let ?change = "\<lambda>r. r\<lparr>ps_profile := pl_profile e, ps_revision := pl_revision e, ps_updated_at := pl_created_at e,
    ps_digest := Some (pl_digest e)\<rparr>"
  have "\<not> guard_violated row (?change row) s'"
    using assms live_account [OF assms(1)] by (auto simp: guard_violated_def list_ex_iff)
  then have "filter (\<lambda>r. ps_account r = account \<and> guard_violated r (?change r) s') (permission_states s') = []"
    using only by (auto simp: filter_empty_conv)
  moreover have "0 < pl_revision e" using assms(5) live_parts(2) [OF assms(1)] by simp
  ultimately show ?thesis using assms(6) by (simp add: update_permission_state_def Let_def run_eqs)
qed

lemma change_profile_live:
  assumes live: "account_live dump (au_account a) row s" and d: "ps_digest row = Some d"
    and "is_profile profile" and "profile \<noteq> ps_profile row" and "ps_updated_at row < time"
    and e: "e = changed_event a profile (ps_revision row + 1) time d rid"
  shows "change_profile a profile (ps_revision row + 1) time d rid s =
     (if digest_taken e s then Inl (IntegrityError ''UNIQUE constraint failed'') else Inr (pl_digest e, appended_event e s))"
proof -
  have cols: "pl_account e = au_account a" "pl_revision e = ps_revision row + 1" "pl_previous e = ps_digest row"
      "pl_profile e = profile" "pl_created_at e = time"
    by (simp_all add: e changed_event_def d)
  show ?thesis
    unfolding change_profile_def Let_def e [symmetric]
    using insert_event_live [OF live cols(1,2,3)] assms(3-5) cols
      update_state_live [OF live _ _ cols(1,2), of "s\<lparr>permission_ledger := permission_ledger s @ [e]\<rparr>"]
    by (simp add: run_eqs appended_event_def)
qed

lemma find_append: "find P (xs @ ys) = (case find P xs of None \<Rightarrow> find P ys | Some x \<Rightarrow> Some x)"
  by (induction xs) auto

lemma find_rev_distinct: "distinct (map f xs) \<Longrightarrow> find (\<lambda>x. f x = k) (rev xs) = find (\<lambda>x. f x = k) xs"
proof (induction xs)
  case (Cons x xs)
  have "find (\<lambda>y. f y = f x) xs = None" using Cons.prems by (auto simp: find_None_iff rev_image_eqI)
  then show ?case using Cons by (auto simp: find_append split: option.splits)
qed simp

lemma find_requestD:
  "find_request account rid s = Some q \<Longrightarrow> q \<in> set (account_requests account s) \<and> pr_request q = rid \<and> pr_account q = account"
  unfolding find_request_def account_requests_def by (auto dest: find_SomeD)

lemma answer_duplicate_live:
  assumes live: "account_live dump (au_account a) row s" and "authority_ok a" and q: "q \<in> set (account_requests (au_account a) s)"
  shows "answer_duplicate dump a profile expected q (ps_profile row, ps_revision row, ps_updated_at row) s =
     (if pr_fingerprint q \<in> {request_fingerprint profile expected, legacy_fingerprint profile}
      then Inr (issued (au_denies a) (ps_profile row) (ps_revision row) (ps_updated_at row), s)
      else Inl (IdempotencyConflictError ''permission client_request_id was reused with different content''))"
proof -
  have "distinct (map pl_revision (account_rows (au_account a) s))"
    using live by (simp add: account_live_def change_history_sorted)
  then have "(\<lambda>r. find (\<lambda>e. pl_revision e = r) (account_rows (au_account a) s)) = by_revision (account_rows (au_account a) s)"
    by (auto simp: by_revision_def find_rev_distinct)
  then show ?thesis
    using live_parts(1,2,7) [OF live] q assms(2) by (simp add: answer_duplicate_def run_eqs projection_issued)
qed

lemma find_request_appended_event [simp]: "find_request account rid (appended_event e s) = find_request account rid s"
  by (simp add: find_request_def appended_event_def)

definition kept_request where
  "kept_request dump a row d expected rid now =
     audit_row dump a (ps_profile row) expected rid
       (issued (au_denies a) (ps_profile row) (ps_revision row) (ps_updated_at row)) (ps_revision row) d
       (next_timestamp (ps_updated_at row) now)"

definition changed_request where
  "changed_request dump a row e expected rid =
     audit_row dump a (pl_profile e) expected rid
       (issued (au_denies a) (pl_profile e) (pl_revision e) (pl_created_at e)) (pl_revision e) (pl_digest e) (pl_created_at e)"

lemma mutate_live:
  assumes live: "account_live dump (au_account a) row s" and d: "ps_digest row = Some d" and a: "authority_ok a"
    and p: "is_profile profile"
    and e: "e = changed_event a profile (ps_revision row + 1) (next_timestamp (ps_updated_at row) now) d rid"
  shows "mutate dump a profile expected rid now s =
     (case find_request (au_account a) rid s of
        Some q \<Rightarrow>
          if pr_fingerprint q \<in> {request_fingerprint profile expected, legacy_fingerprint profile}
          then Inr (issued (au_denies a) (ps_profile row) (ps_revision row) (ps_updated_at row), s)
          else Inl (IdempotencyConflictError ''permission client_request_id was reused with different content'')
      | None \<Rightarrow>
          if expected \<noteq> ps_revision row
          then Inl (ConflictError ''permission revision changed; refresh settings before retrying'')
          else if ps_profile row = profile
          then Inr (issued (au_denies a) profile (ps_revision row) (ps_updated_at row),
                    appended_request (kept_request dump a row d expected rid now) s)
          else if digest_taken e s then Inl (IntegrityError ''UNIQUE constraint failed'')
          else Inr (issued (au_denies a) profile (pl_revision e) (pl_created_at e),
                    appended_request (changed_request dump a row e expected rid) (appended_event e s)))"
proof -
  let ?time = "next_timestamp (ps_updated_at row) now"
  have read: "read_verified_state dump (au_account a) s = Inr (ps_profile row, ps_revision row, ps_updated_at row, d)"
    using live_reads [OF live d] .
  show ?thesis
  proof (cases "find_request (au_account a) rid s")
    case (Some q)
    then show ?thesis
      using answer_duplicate_live [OF live a] find_requestD [OF Some] read by (simp add: mutate_def run_eqs)
  next
    case None
    note fresh = this
    show ?thesis
    proof (cases "expected = ps_revision row")
      case False
      then show ?thesis using None read by (simp add: mutate_def run_eqs)
    next
      case True
      have cols: "pl_profile e = profile" "pl_revision e = ps_revision row + 1" "pl_created_at e = ?time" "pl_account e = au_account a"
        by (simp_all add: e changed_event_def)
      have rev: "1 \<le> ps_revision row" using live_parts(2) [OF live] .
      show ?thesis
      proof (cases "ps_profile row = profile")
        case same: True
        then show ?thesis
          using True fresh read p rev a
          by (simp add: mutate_def run_eqs projection_issued insert_permission_request_def audit_row_def kept_request_def
              appended_request_def Let_def)
      next
        case False
        have "ps_updated_at row < ?time" by (simp add: next_timestamp_def)
        then show ?thesis
          using True fresh read p rev a False change_profile_live [OF live d p _ _ e] cols
          by (simp add: mutate_def run_eqs projection_issued insert_permission_request_def audit_row_def changed_request_def
              appended_request_def Let_def)
      qed
    qed
  qed
qed

section \<open>Calls keep the invariant\<close>

lemma py_len_sha256 [simp]: "py_len (sha256_hexdigest x) = 64"
proof -
  have "list_all (\<lambda>c. \<not> utf8_continuation c) ''0123456789abcdef''" by (simp add: utf8_continuation_def)
  then have "\<forall>c\<in>set (sha256_hexdigest x). \<not> utf8_continuation c" using sha256_hex unfolding list_all_iff by blast
  then show ?thesis by (simp add: py_len_def)
qed

lemma live_iff:
  "account_live dump account row s \<longleftrightarrow>
     account_states account s = [row] \<and> change_history (account_rows account s) \<and>
     is_profile (ps_profile row) \<and> 1 \<le> ps_revision row \<and> account_rows account s \<noteq> [] \<and>
     verify_ledger account None None (account_rows account s) = Inr () \<and>
     matches_ledger row (last (account_rows account s)) \<and>
     list_all (change_audited (account_requests account s)) (account_rows account s) \<and>
     (\<forall>q\<in>set (account_requests account s). verify_audit_row dump (by_revision (account_rows account s)) q = Inr ())"
    (is "?live \<longleftrightarrow> ?parts")
proof
  assume live: ?live
  then show ?parts using live_parts [OF live] by (simp add: account_live_def)
next
  assume parts: ?parts
  let ?es = "account_rows account s"
  have "event_verified account d r (last ?es) \<longrightarrow> py_len (pl_digest (last ?es)) = 64" for d r
    by (simp add: event_verified_def)
  moreover have "\<exists>d r. event_verified account d r (last ?es)"
    using parts verified_chain_snocD(2) [of account "butlast ?es" "last ?es"] by (auto simp del: verify_ledger.simps)
  ultimately have "py_len (pl_digest (last ?es)) = 64" by blast
  moreover have "Some (pl_digest (last ?es)) = ps_digest row" using parts by (simp add: matches_ledger_def)
  ultimately have "\<forall>d. ps_digest row = Some d \<longrightarrow> py_len d = 64" by auto
  moreover have "account_events account s = ?es" using parts by (simp add: account_events_def change_history_sorted)
  ultimately show ?live using parts by (simp add: account_live_def state_verified_def Let_def)
qed

lemma rows_appended_event [simp]:
  "account_rows account (appended_event e s) = account_rows account s @ (if pl_account e = account then [e] else [])"
  "account_requests account (appended_event e s) = account_requests account s"
  by (simp_all add: account_rows_def account_requests_def appended_event_def)

lemma rows_appended_request [simp]:
  "account_rows account (appended_request q s) = account_rows account s"
  "account_states account (appended_request q s) = account_states account s"
  "account_requests account (appended_request q s) = account_requests account s @ (if pr_account q = account then [q] else [])"
  by (simp_all add: account_rows_def account_requests_def account_states_def appended_request_def)

definition backed_row :: "permission_event \<Rightarrow> permission_state_row \<Rightarrow> permission_state_row" where
  "backed_row e r =
     r\<lparr>ps_profile := pl_profile e, ps_revision := pl_revision e, ps_updated_at := pl_created_at e,
       ps_digest := Some (pl_digest e)\<rparr>"

lemma states_appended_event [simp]:
  "account_states account (appended_event e s) =
     map (if pl_account e = account then backed_row e else (\<lambda>r. r)) (account_states account s)"
proof -
  have "filter (\<lambda>r. ps_account r = account) (update_rows (\<lambda>r. ps_account r = pl_account e) (backed_row e) rs) =
      map (if pl_account e = account then backed_row e else (\<lambda>r. r)) (filter (\<lambda>r. ps_account r = account) rs)" for rs
    by (induction rs) (auto simp: update_rows_def backed_row_def)
  then show ?thesis by (simp add: account_states_def appended_event_def backed_row_def [abs_def])
qed

definition audit_matches ::
    "(int \<Rightarrow> permission_event option) \<Rightarrow> permission_request \<Rightarrow> int \<Rightarrow> int \<Rightarrow> permission_snapshot \<Rightarrow> permission_event \<Rightarrow> bool" where
  "audit_matches event_of q expected resulting response e =
     (pr_resulting q = Some resulting \<and> validate_snapshot (pr_response q) = Inr response \<and>
      (resulting = expected \<or> resulting = expected + 1) \<and> snap_revision response = resulting \<and>
      pr_fingerprint q = request_fingerprint (snap_profile response) expected \<and> event_of resulting = Some e \<and>
      Some (pl_digest e) = pr_state_digest q \<and> pl_profile e = snap_profile response \<and>
      pl_created_at e = snap_updated_at response)"

lemma verify_audit_Inr:
  "verify_audit_row dump event_of q = Inr () \<longleftrightarrow>
     pr_audit_digest q =
       Some (audit_digest (pr_account q) (pr_request q) (pr_fingerprint q) (dump (pr_response q)) (pr_expected q)
               (pr_resulting q) (pr_state_digest q) (pr_created_at q)) \<and>
     (\<forall>expected. pr_expected q = Some expected \<longrightarrow>
        (\<exists>resulting response e. audit_matches event_of q expected resulting response e))"
proof (cases "\<exists>expected resulting response. pr_expected q = Some expected \<and> pr_resulting q = Some resulting \<and>
    validate_snapshot (pr_response q) = Inr response")
  case True
  then obtain expected resulting response where "pr_expected q = Some expected" "pr_resulting q = Some resulting"
    "validate_snapshot (pr_response q) = Inr response" by blast
  then show ?thesis
    by (cases "event_of resulting") (auto simp: verify_audit_row_def audit_matches_def)
next
  case False
  then show ?thesis
    by (cases "pr_expected q"; cases "pr_resulting q"; cases "validate_snapshot (pr_response q)")
       (auto simp: verify_audit_row_def audit_matches_def)
qed

lemma verify_audit_mono:
  assumes "verify_audit_row dump f q = Inr ()" and "\<And>r e. f r = Some e \<Longrightarrow> g r = Some e"
  shows "verify_audit_row dump g q = Inr ()"
  using assms unfolding verify_audit_Inr audit_matches_def by blast

lemma by_revision_snoc:
  "by_revision (es @ [e]) r = (if pl_revision e = r then Some e else by_revision es r)"
  by (simp add: by_revision_def)

lemma verify_own_audit:
  assumes "is_profile p" and "1 \<le> r" and "canonical_denies (au_denies a)" and "r = expected \<or> r = expected + 1"
    and "event_of r = Some e" and "pl_digest e = d" and "pl_profile e = p" and "pl_created_at e = t"
  shows "verify_audit_row dump event_of (audit_row dump a p expected rid (issued (au_denies a) p r t) r d now) = Inr ()"
  using assms validate_issued [OF assms(1-3)] by (auto simp: verify_audit_row_def audit_row_def Let_def)

lemma audit_row_sel [simp]:
  "pr_account (audit_row dump a p expected rid v r d t) = au_account a"
  "pr_request (audit_row dump a p expected rid v r d t) = rid"
  "pr_fingerprint (audit_row dump a p expected rid v r d t) = request_fingerprint p expected"
  by (simp_all add: audit_row_def Let_def)

lemma change_audited_mono: "change_audited qs e \<Longrightarrow> change_audited (qs @ qs') e"
  by (auto simp: change_audited_def)

lemma change_history_snoc:
  assumes "change_history es" and "es \<noteq> []" and "pl_revision e = pl_revision (last es) + 1" and "pl_digest e \<notin> pl_digest ` set es"
    and "pl_profile (last es) \<noteq> pl_profile e" and "pl_created_at (last es) < pl_created_at e"
  shows "change_history (es @ [e])"
  using assms change_history_last [OF assms(1,2)]
  by (simp add: change_history_def successively_append_iff)

lemma kept_request_live:
  assumes live: "account_live dump (au_account a) row s" and d: "ps_digest row = Some d" and a: "authority_ok a"
  shows "account_live dump (au_account a) row (appended_request (kept_request dump a row d (ps_revision row) rid now) s)"
proof -
  let ?es = "account_rows (au_account a) s" and ?q = "kept_request dump a row d (ps_revision row) rid now"
  note parts = live_parts [OF live]
  have last: "by_revision ?es (ps_revision row) = Some (last ?es)"
    using parts(3,5) by (cases ?es rule: rev_cases) (simp_all add: by_revision_snoc matches_ledger_def)
  have "verify_audit_row dump (by_revision ?es) ?q = Inr ()"
    unfolding kept_request_def using parts(1,2,5) a last d
    by (intro verify_own_audit [where e = "last ?es"]) (auto simp: authority_ok_def matches_ledger_def)
  moreover have "pr_account ?q = au_account a" by (simp add: kept_request_def)
  ultimately show ?thesis
    using live parts by (auto simp: live_iff list_all_iff intro: change_audited_mono)
qed

lemma changed_request_live:
  assumes live: "account_live dump (au_account a) row s" and d: "ps_digest row = Some d" and a: "authority_ok a"
    and p: "is_profile p" "ps_profile row \<noteq> p" and t: "ps_updated_at row < t"
    and e: "e = changed_event a p (ps_revision row + 1) t d rid" and new: "\<not> digest_taken e s"
  shows "account_live dump (au_account a) (backed_row e row)
     (appended_request (changed_request dump a row e (ps_revision row) rid) (appended_event e s))"
proof -
  let ?es = "account_rows (au_account a) s" and ?q = "changed_request dump a row e (ps_revision row) rid"
  note parts = live_parts [OF live]
  have cols: "pl_profile e = p" "pl_revision e = ps_revision row + 1" "pl_created_at e = t" "pl_account e = au_account a"
      "pl_request e = rid" "pr_account ?q = au_account a" "pr_request ?q = rid"
    by (simp_all add: e changed_event_def changed_request_def)
  have verified: "event_verified (au_account a) (Some (pl_digest (last ?es))) (Some (pl_revision (last ?es))) e"
    using parts(2,5) p d unfolding e
    by (simp add: event_verified_def changed_event_def event_text_def state_digest_text matches_ledger_def)
  have own: "verify_audit_row dump (by_revision (?es @ [e])) ?q = Inr ()"
    unfolding changed_request_def using parts(2) a p cols
    by (intro verify_own_audit [where e = e]) (auto simp: authority_ok_def by_revision_snoc)
  have old: "verify_audit_row dump (by_revision (?es @ [e])) q = Inr ()" if "q \<in> set (account_requests (au_account a) s)" for q
  proof (rule verify_audit_mono [OF parts(7) [OF that]])
    fix r x assume x: "by_revision ?es r = Some x"
    then have "x \<in> set ?es" "pl_revision x = r" by (auto simp: by_revision_def dest: find_SomeD)
    then have "r \<noteq> pl_revision e" using live_revision_bound [OF live] cols(2) by fastforce
    then show "by_revision (?es @ [e]) r = Some x" using x by (simp add: by_revision_snoc)
  qed
  have "change_history (?es @ [e])"
    using live parts(3,5) p t cols new
    by (intro change_history_snoc) (auto simp: account_live_def matches_ledger_def digest_taken_def)
  moreover have "list_all (change_audited (account_requests (au_account a) s @ [?q])) (?es @ [e])"
    using parts(6) cols by (auto simp: list_all_iff intro: change_audited_mono) (simp add: change_audited_def)
  moreover have "account_states (au_account a) s = [row]" using live by (simp add: account_live_def)
  ultimately show ?thesis
    using parts verified own old p cols
    by (auto simp: live_iff verify_ledger_snoc backed_row_def matches_ledger_def)
qed

lemma account_ok_cong:
  assumes "account_states account s' = account_states account s" and "account_rows account s' = account_rows account s"
    and "account_requests account s' = account_requests account s"
  shows "account_ok dump account s' = account_ok dump account s"
  using assms by (simp add: account_ok_def live_iff)

section \<open>Startup\<close>

definition factory_store :: "authority \<Rightarrow> int \<Rightarrow> permission_db \<Rightarrow> permission_db" where
  "factory_store a now s =
     s\<lparr>permission_ledger := permission_ledger s @ [factory_event a now],
       permission_states := permission_states s @ [factory_state a now]\<rparr>"

lemma rows_factory_store [simp]:
  "account_rows account (factory_store a now s) = account_rows account s @ (if au_account a = account then [factory_event a now] else [])"
  "account_states account (factory_store a now s) = account_states account s @ (if au_account a = account then [factory_state a now] else [])"
  "account_requests account (factory_store a now s) = account_requests account s"
  by (simp_all add: account_rows_def account_states_def account_requests_def factory_store_def factory_event_def factory_state_def)

definition untouched :: "string \<Rightarrow> permission_db \<Rightarrow> bool" where
  "untouched account s = (account_states account s = [] \<and> account_rows account s = [] \<and> account_requests account s = [])"

lemma account_ok_cases:
  assumes "account_ok dump account s"
  obtains (untouched) "untouched account s" | (live) row where "account_live dump account row s"
  using assms by (auto simp: account_ok_def untouched_def)

lemma factory_store_live:
  assumes "untouched (au_account a) s" and "authority_ok a"
  shows "account_live dump (au_account a) (factory_state a now) (factory_store a now s)"
proof -
  have "event_verified (au_account a) None None (factory_event a now)"
    using assms(2) by (simp add: event_verified_def factory_event_def authority_ok_def event_text_def state_digest_text)
  then have "verify_ledger (au_account a) None None [factory_event a now] = Inr ()" by (simp add: verify_ledger_Cons)
  moreover have "matches_ledger (factory_state a now) (factory_event a now)"
    by (simp add: matches_ledger_def factory_event_def factory_state_def)
  moreover have "is_profile (ps_profile (factory_state a now))" "1 \<le> ps_revision (factory_state a now)"
      "pl_revision (factory_event a now) = 1" "change_audited qs (factory_event a now)" for qs
    using assms(2) by (simp_all add: authority_ok_def factory_state_def factory_event_def change_audited_def)
  ultimately show ?thesis using assms(1) by (simp add: live_iff untouched_def change_history_def)
qed

lemma initialize_untouched:
  assumes "untouched (au_account a) s" and "authority_ok a"
  shows "initialize dump a now s = (Inr (issued (au_denies a) (au_initial a) 1 now), factory_store a now s)"
proof -
  let ?d = "state_digest (au_account a) (au_initial a) 1 now None ''__initial__''"
  have cols: "pl_account (factory_event a now) = au_account a" "pl_revision (factory_event a now) = 1"
      "pl_previous (factory_event a now) = None" "pl_profile (factory_event a now) = au_initial a"
      "ps_account (factory_state a now) = au_account a" "ps_revision (factory_state a now) = 1"
      "ps_profile (factory_state a now) = au_initial a" "ps_updated_at (factory_state a now) = now"
      "ps_digest (factory_state a now) = Some ?d"
    by (simp_all add: factory_event_def factory_state_def)
  have none: "find_state (au_account a) s = None" "head_event (au_account a) s = None"
    using assms(1) by (simp_all add: untouched_def find_state_rows head_event_def account_events_def)
  have "insert_permission_event (factory_event a now) s = Inr ((), s\<lparr>permission_ledger := permission_ledger s @ [factory_event a now]\<rparr>)"
    using assms none cols by (simp add: insert_permission_event_def run_eqs chain_violated_def untouched_def authority_ok_def)
  moreover have "insert_permission_state (factory_state a now) (s\<lparr>permission_ledger := permission_ledger s @ [factory_event a now]\<rparr>)
      = Inr ((), factory_store a now s)"
    using assms(2) none(1) cols
    by (simp add: insert_permission_state_def run_eqs find_state_def authority_ok_def factory_store_def)
  moreover have "read_verified_state dump (au_account a) (factory_store a now s) = Inr (au_initial a, 1, now, ?d)"
    using live_reads [OF factory_store_live [OF assms] cols(9)] cols by simp
  moreover have "require_factory_state_absent (au_account a) s = Inr ()"
    using assms(1) by (simp add: require_factory_state_absent_def untouched_def)
  ultimately show ?thesis
    using none(1) assms(2)
    by (simp add: initialize_def initialize_in_transaction_def transaction_def run_eqs project_result_def projection_issued authority_ok_def)
qed

lemma initialize_live:
  assumes live: "account_live dump (au_account a) row s" and a: "authority_ok a"
  shows "initialize dump a now s = (Inr (issued (au_denies a) (ps_profile row) (ps_revision row) (ps_updated_at row)), s)"
proof -
  obtain d where "ps_digest row = Some d" using live_digest [OF live] by blast
  from live_reads [OF live this] show ?thesis
    using live live_parts(1,2) [OF live] a
    by (simp add: initialize_def initialize_in_transaction_def transaction_def run_eqs project_result_def projection_issued)
qed

section \<open>Runs\<close>

text \<open>
  The calls that write, by any authority that its constructor accepts.  A transaction of the caller around
  \<^verbatim>\<open>update_in_transaction\<close> leaves the state of a committed \<open>update\<close>, or the state before it.
\<close>

inductive permission_step :: "(permission_snapshot \<Rightarrow> string) \<Rightarrow> permission_db \<Rightarrow> permission_db \<Rightarrow> bool" for dump where
  initialize: "make_authority account full denies = Inr a \<Longrightarrow> permission_step dump s (snd (initialize dump a now s))"
| update: "make_authority account full denies = Inr a \<Longrightarrow>
    permission_step dump s (snd (update_permission dump a profile expected rid now s))"

definition empty_permissions :: "int \<Rightarrow> permission_db" where
  "empty_permissions v = \<lparr>permission_states = [], permission_ledger = [], permission_requests = [], schema_version = v\<rparr>"

inductive permission_run :: "(permission_snapshot \<Rightarrow> string) \<Rightarrow> permission_db \<Rightarrow> bool" for dump where
  empty: "permission_run dump (empty_permissions v)"
| step: "permission_run dump s \<Longrightarrow> permission_step dump s s' \<Longrightarrow> permission_run dump s'"

lemma update_argumentsD:
  assumes "update_arguments profile expected rid = Inr n"
  shows "expected = JInt n" and "is_profile profile"
  using assms by (auto simp: update_arguments_def split: if_splits json.splits)

text \<open>An update is refused, answers a repeated request, records a request that changes nothing, or appends a change.\<close>

lemma update_cases:
  assumes ok: "account_ok dump (au_account a) s" and a: "authority_ok a"
  obtains (refused) e where "update_permission dump a profile expected rid now s = (Inl e, s)"
  | (repeated) row q n where "account_live dump (au_account a) row s" "update_arguments profile expected rid = Inr n"
      "find_request (au_account a) rid s = Some q"
      "pr_fingerprint q \<in> {request_fingerprint profile n, legacy_fingerprint profile}"
      "update_permission dump a profile expected rid now s =
         (Inr (issued (au_denies a) (ps_profile row) (ps_revision row) (ps_updated_at row)), s)"
  | (kept) row d where "account_live dump (au_account a) row s" "ps_digest row = Some d" "expected = JInt (ps_revision row)"
      "profile = ps_profile row" "update_arguments profile expected rid = Inr (ps_revision row)" "find_request (au_account a) rid s = None"
      "update_permission dump a profile expected rid now s =
         (Inr (issued (au_denies a) profile (ps_revision row) (ps_updated_at row)),
          appended_request (kept_request dump a row d (ps_revision row) rid now) s)"
  | (changed) row d e where "account_live dump (au_account a) row s" "ps_digest row = Some d"
      "expected = JInt (ps_revision row)" "profile \<noteq> ps_profile row" "is_profile profile"
      "update_arguments profile expected rid = Inr (ps_revision row)"
      "find_request (au_account a) rid s = None"
      "e = changed_event a profile (ps_revision row + 1) (next_timestamp (ps_updated_at row) now) d rid"
      "\<not> digest_taken e s"
      "update_permission dump a profile expected rid now s =
         (Inr (issued (au_denies a) profile (pl_revision e) (pl_created_at e)),
          appended_request (changed_request dump a row e (ps_revision row) rid) (appended_event e s))"
proof (cases "update_arguments profile expected rid")
  case (Inl e)
  then show ?thesis using refused by (simp add: update_permission_def)
next
  case (Inr n)
  then have args: "expected = JInt n" "is_profile profile"
    by (rule update_argumentsD)+
  have run: "update_permission dump a profile expected rid now s = transaction (mutate dump a profile n rid now) s"
    using Inr by (simp add: update_permission_def)
  from ok show ?thesis
  proof (cases rule: account_ok_cases)
    case untouched
    then have "read_verified_state dump (au_account a) s = Inl (PermissionIntegrityError ''durable permission state is missing'')"
      by (simp add: read_verified_state_def find_state_rows untouched_def)
    then show ?thesis using refused run by (simp add: transaction_def mutate_def run_eqs)
  next
    case (live row)
    obtain d where d: "ps_digest row = Some d" using live_digest [OF live] by blast
    note eq = mutate_live [OF live d a args(2) refl, of n rid now]
    show ?thesis
    proof (cases "find_request (au_account a) rid s")
      case (Some q)
      then show ?thesis using eq run refused repeated [OF live Inr Some]
        by (simp add: transaction_def split: if_splits)
    next
      case None
      then show ?thesis using eq run refused kept [OF live d _ _ _ None] changed [OF live d _ _ args(2) _ None refl] args(1) Inr
        by (simp add: transaction_def split: if_splits)
    qed
  qed
qed

lemma permissions_ok_others:
  assumes "permissions_ok dump s" and "account_ok dump account s'"
    and "\<And>b. b \<noteq> account \<Longrightarrow> account_states b s' = account_states b s \<and> account_rows b s' = account_rows b s \<and>
           account_requests b s' = account_requests b s"
  shows "permissions_ok dump s'"
  using assms account_ok_cong unfolding permissions_ok_def by metis

lemma update_keeps_ok:
  assumes ok: "permissions_ok dump s" and a: "authority_ok a"
  shows "permissions_ok dump (snd (update_permission dump a profile expected rid now s))"
proof -
  have "account_ok dump (au_account a) s" using ok by (simp add: permissions_ok_def)
  from this a show ?thesis
  proof (cases rule: update_cases [of dump a s profile expected rid now])
    case (kept row d)
    then show ?thesis
      using kept_request_live [OF kept(1,2) a, of rid now]
      by (intro permissions_ok_others [OF ok, of "au_account a"]) (auto simp: account_ok_def kept_request_def)
  next
    case (changed row d e)
    have "ps_updated_at row < next_timestamp (ps_updated_at row) now" by (simp add: next_timestamp_def)
    from changed_request_live [OF changed(1,2) a changed(5) changed(4) [symmetric] this changed(8,9)]
    show ?thesis using changed
      by (intro permissions_ok_others [OF ok, of "au_account a"]) (auto simp: account_ok_def changed_request_def changed_event_def)
  qed (use ok in simp_all)
qed

lemma initialize_keeps_ok:
  assumes ok: "permissions_ok dump s" and a: "authority_ok a"
  shows "permissions_ok dump (snd (initialize dump a now s))"
proof -
  have "account_ok dump (au_account a) s" using ok by (simp add: permissions_ok_def)
  then show ?thesis
  proof (cases rule: account_ok_cases)
    case untouched
    then show ?thesis
      using factory_store_live [OF untouched a, of dump now] initialize_untouched [OF untouched a, of dump now]
      by (intro permissions_ok_others [OF ok, of "au_account a"]) (auto simp: account_ok_def)
  next
    case (live row)
    then show ?thesis using initialize_live [OF live a, of now] ok by simp
  qed
qed

lemma step_keeps_ok: "permission_step dump s s' \<Longrightarrow> permissions_ok dump s \<Longrightarrow> permissions_ok dump s'"
  by (cases rule: permission_step.cases) (auto intro: update_keeps_ok initialize_keeps_ok make_authority_ok)

lemma run_ok: "permission_run dump s \<Longrightarrow> permissions_ok dump s"
proof (induction rule: permission_run.induct)
  case (empty v)
  show ?case
    by (simp add: permissions_ok_def account_ok_def empty_permissions_def account_states_def account_rows_def account_requests_def)
qed (rule step_keeps_ok)

lemma run_steps: "(permission_step dump)\<^sup>*\<^sup>* s s' \<Longrightarrow> permission_run dump s \<Longrightarrow> permission_run dump s'"
  by (induction rule: rtranclp_induct) (auto intro: permission_run.step)

section \<open>What never changes back\<close>

text \<open>The tables only grow, and an account's revision with them.\<close>

definition revision_of :: "string \<Rightarrow> permission_db \<Rightarrow> int" where
  "revision_of account s = (case find_state account s of None \<Rightarrow> 0 | Some row \<Rightarrow> ps_revision row)"

definition permissions_grow :: "permission_db \<Rightarrow> permission_db \<Rightarrow> bool" where
  "permissions_grow s s' =
     ((\<exists>es. permission_ledger s' = permission_ledger s @ es) \<and> (\<exists>qs. permission_requests s' = permission_requests s @ qs) \<and>
      (\<forall>account. revision_of account s \<le> revision_of account s'))"

interpretation growth: step_order permissions_grow
proof
  fix s t u
  show "permissions_grow s s" by (simp add: permissions_grow_def)
  show "permissions_grow s u" if "permissions_grow s t" "permissions_grow t u"
    using that unfolding permissions_grow_def by (metis append.assoc order_trans)
qed

lemma revision_of_live: "account_live dump account row s \<Longrightarrow> revision_of account s = ps_revision row"
  by (simp add: revision_of_def)

section \<open>Samples\<close>

lemma fresh_untouched:
  assumes "untouched (au_account a) s" and a: "authority_ok a"
  shows "fresh_sample dump a s = Inr \<lparr>sample_snapshot = issued (au_denies a) (au_initial a) 1 0,
     sample_digest = state_digest (au_account a) (au_initial a) 1 0 None ''__initial__''\<rparr>"
  using assms projection_issued [OF a]
  by (simp add: fresh_sample_def project_verified_state_def cache_key_def Let_def find_state_rows untouched_def
      require_factory_state_absent_def authority_ok_def)

lemma fresh_live:
  assumes live: "account_live dump (au_account a) row s" and a: "authority_ok a" and d: "ps_digest row = Some d"
  shows "fresh_sample dump a s = Inr \<lparr>sample_snapshot = issued (au_denies a) (ps_profile row) (ps_revision row) (ps_updated_at row),
     sample_digest = d\<rparr>"
  using live_reads [OF live d] live live_parts(1,2) [OF live] projection_issued [OF a]
  by (simp add: fresh_sample_def cache_key_def Let_def)

section \<open>A started authority\<close>

definition sample_dump :: "permission_snapshot \<Rightarrow> string" where
  "sample_dump v = snap_id v"

definition sample_authority :: authority where
  "sample_authority = \<lparr>au_account = ''acct'', au_denies = [], au_initial = ''default''\<rparr>"

definition sample_started :: permission_db where
  "sample_started = factory_store sample_authority 100 (empty_permissions 0)"

lemma sample_made: "make_authority ''acct'' False [] = Inr sample_authority"
  by (simp add: make_authority_def issue_denies_def sample_authority_def py_len_def utf8_continuation_def)

lemma sample_ok: "authority_ok sample_authority" "au_account sample_authority = ''acct''"
  using make_authorityD [OF sample_made] .

lemma sample_untouched: "untouched ''acct'' (empty_permissions 0)"
  by (simp add: untouched_def empty_permissions_def account_states_def account_rows_def account_requests_def)

lemma sample_live: "account_live sample_dump ''acct'' (factory_state sample_authority 100) sample_started"
  using factory_store_live [of sample_authority] sample_untouched sample_ok by (simp add: sample_started_def)

lemma sample_step: "permission_step sample_dump (empty_permissions 0) sample_started"
  using permission_step.initialize [OF sample_made, of sample_dump "empty_permissions 0" 100]
    initialize_untouched [of sample_authority "empty_permissions 0" sample_dump 100] sample_untouched sample_ok
  by (simp add: sample_started_def)

lemma sample_run: "permission_run sample_dump sample_started"
  using permission_run.step [OF permission_run.empty sample_step] .

lemma sample_reads: "\<exists>d. read_verified_state sample_dump ''acct'' sample_started = Inr (''default'', 1, 100, d)"
  using live_digest [OF sample_live] live_reads [OF sample_live]
  by (auto simp: factory_state_def sample_authority_def)

lemma sample_kept:
  "\<exists>v t. update_permission sample_dump sample_authority ''default'' (JInt 1) ''r1'' 200 sample_started = (Inr v, t) \<and>
     permission_states t = permission_states sample_started \<and> permission_ledger t = permission_ledger sample_started"
proof -
  obtain d where d: "ps_digest (factory_state sample_authority 100) = Some d" using live_digest [OF sample_live] by blast
  have "update_arguments ''default'' (JInt 1) ''r1'' = Inr 1"
    by (simp add: update_arguments_def is_profile_def py_len_def utf8_continuation_def)
  moreover have "find_request ''acct'' ''r1'' sample_started = None"
    by (simp add: find_request_def sample_started_def factory_store_def empty_permissions_def)
  ultimately show ?thesis
    using mutate_live [of sample_dump sample_authority "factory_state sample_authority 100" sample_started d "''default''" _ 200 "''r1''" 1]
      sample_live sample_ok d
    by (simp add: update_permission_def transaction_def is_profile_def factory_state_def sample_authority_def appended_request_def)
qed

end
