(* ===== verification/PermissionCache.thy ===== *)
theory PermissionCache
  imports PermissionRuns
begin

text \<open>
  The cache of \<^verbatim>\<open>PermissionAuthority.verified_sample\<close>.  It compares a key of constant size instead of verifying the whole
  chain again.  Other processes may write the tables as long as the triggers let them, or change the schema and then
  anything: a hit still returns what a full verification of the present store returns.
\<close>

section \<open>How a store may change\<close>

definition store_after :: "permission_db \<Rightarrow> permission_db \<Rightarrow> bool" where
  "store_after s s' =
     (schema_version s < schema_version s' \<or>
      schema_version s = schema_version s' \<and>
      (\<exists>qs. permission_requests s' = permission_requests s @ qs) \<and>
      (\<forall>account. \<exists>es. account_rows account s' = account_rows account s @ es \<and>
         (\<forall>e\<in>set es. \<forall>x\<in>set (account_rows account s). pl_revision x < pl_revision e)))"

lemma store_after_trans:
  assumes "store_after s t" and "store_after t u"
  shows "store_after s u"
proof (cases "schema_version s < schema_version u")
  case False
  then have eq: "schema_version s = schema_version t" "schema_version t = schema_version u"
    using assms by (auto simp: store_after_def)
  have rows: "\<exists>es. account_rows b t = account_rows b s @ es \<and> (\<forall>e\<in>set es. \<forall>x\<in>set (account_rows b s). pl_revision x < pl_revision e)"
      "\<exists>es. account_rows b u = account_rows b t @ es \<and> (\<forall>e\<in>set es. \<forall>x\<in>set (account_rows b t). pl_revision x < pl_revision e)" for b
    using assms eq by (simp_all add: store_after_def)
  have "\<exists>es. account_rows b u = account_rows b s @ es \<and> (\<forall>e\<in>set es. \<forall>x\<in>set (account_rows b s). pl_revision x < pl_revision e)" for b
  proof -
    obtain es fs where "account_rows b t = account_rows b s @ es" "\<forall>e\<in>set es. \<forall>x\<in>set (account_rows b s). pl_revision x < pl_revision e"
        "account_rows b u = account_rows b t @ fs" "\<forall>e\<in>set fs. \<forall>x\<in>set (account_rows b t). pl_revision x < pl_revision e"
      using rows [of b] by blast
    then show ?thesis by (intro exI [of _ "es @ fs"]) auto
  qed
  then show ?thesis using assms eq by (auto simp: store_after_def)
qed (simp add: store_after_def)

interpretation later: step_order store_after
proof
  show "store_after s s" for s by (simp add: store_after_def)
  show "store_after s u" if "store_after s t" "store_after t u" for s t u
    using store_after_trans [OF that] .
qed

lemma head_event_greatest:
  assumes "head_event account s = Some h" and "x \<in> set (account_rows account s)"
  shows "pl_revision x \<le> pl_revision h"
proof -
  let ?es = "account_events account s"
  have "?es \<noteq> []" and h: "h = last ?es" using assms(1) by (auto simp: head_event_def split: list.splits)
  moreover have "sorted (map pl_revision ?es)" by (simp add: account_events_def)
  moreover have "x \<in> set ?es" using assms(2) by (simp add: account_events_def)
  ultimately show ?thesis
    by (cases ?es rule: rev_cases) (auto simp: sorted_append)
qed

lemma keeps_insert_event: "keeps store_after (insert_permission_event e)"
proof (rule keepsI)
  fix s
  have "pl_revision x < pl_revision e" if "\<not> chain_violated e s" "x \<in> set (account_rows (pl_account e) s)" for x
  proof (cases "head_event (pl_account e) s")
    case None
    then show ?thesis using that(2) by (auto simp: head_event_def account_events_def split: list.splits dest: arg_cong [of _ _ set])
  next
    case (Some h)
    then show ?thesis using that head_event_greatest [OF Some that(2)] by (simp add: chain_violated_def)
  qed
  moreover have "account_rows b (s\<lparr>permission_ledger := permission_ledger s @ [e]\<rparr>) =
      account_rows b s @ (if pl_account e = b then [e] else [])" for b
    by (simp add: account_rows_def)
  ultimately show "wp (insert_permission_event e) (\<lambda>_ s'. store_after s s') s"
    by (auto simp: insert_permission_event_def wp_simps store_after_def)
qed

lemma keeps_states: "keeps store_after (modify (\<lambda>s. s\<lparr>permission_states := f s\<rparr>))"
  by (auto simp: keeps_def wp_simps store_after_def account_rows_def)

lemma keeps_insert_request: "keeps store_after (insert_permission_request q)"
  by (auto simp: keeps_def insert_permission_request_def wp_simps store_after_def account_rows_def)

lemma keeps_insert_state: "keeps store_after (insert_permission_state r)"
  unfolding insert_permission_state_def by (intro later.keeps_intros keeps_states)

lemma keeps_update_state: "keeps store_after (update_permission_state account profile revision t d)"
  unfolding update_permission_state_def Let_def by (intro later.keeps_intros keeps_states)

lemma keeps_result: "keeps store_after (lift_result x)"
  by (rule keeps_lift_result) (rule later.R_refl)

lemmas keeps_permission = later.keeps_intros keeps_insert_event keeps_insert_request keeps_insert_state keeps_update_state keeps_result

lemma keeps_mutate: "keeps store_after (mutate dump a profile n rid now)"
  unfolding mutate_def answer_duplicate_def change_profile_def Let_def by (intro keeps_permission)

lemma keeps_initialize: "keeps store_after (initialize_in_transaction dump a now)"
  unfolding initialize_in_transaction_def by (intro keeps_permission)

lemma step_after: "permission_step dump s s' \<Longrightarrow> store_after s s'"
proof (induction rule: permission_step.induct)
  case (initialize account full denies a s now)
  show ?case using later.transaction_keeps [OF keeps_initialize, of s dump a now]
    by (simp add: initialize_def case_prod_beta)
next
  case (update account full denies a s profile expected rid now)
  show ?case using later.transaction_keeps [OF keeps_mutate, of s dump a profile _ rid now]
    by (simp add: update_permission_def later.R_refl split: sum.splits)
qed

section \<open>The key determines the sample\<close>

lemma fresh_sample_cong:
  assumes "find_state (au_account a) s' = find_state (au_account a) s" and "account_rows (au_account a) s' = account_rows (au_account a) s"
    and "account_requests (au_account a) s' = account_requests (au_account a) s"
  shows "fresh_sample dump a s' = fresh_sample dump a s"
proof -
  have "account_events (au_account a) s' = account_events (au_account a) s" using assms(2) by (simp add: account_events_def)
  then have "read_verified_state dump (au_account a) s' = read_verified_state dump (au_account a) s"
    unfolding read_verified_state_def assms(1,3) by (simp only:)
  then show ?thesis
    using assms by (simp add: fresh_sample_def cache_key_def Let_def project_verified_state_def require_factory_state_absent_def)
qed

lemma state_of_key:
  assumes "cache_key account s = cache_key account s'"
  shows "find_state account s = find_state account s'"
proof (cases "find_state account s")
  case None
  then show ?thesis using assms by (simp add: cache_key_def Let_def)
next
  case (Some r)
  then obtain r' where r': "find_state account s' = Some r'" using assms by (cases "find_state account s'") (auto simp: cache_key_def Let_def)
  have "ps_account r = account" "ps_account r' = account"
    using Some r' by (auto simp: find_state_def dest: find_SomeD)
  then show ?thesis using assms Some r' by (simp add: cache_key_def Let_def)
qed

lemma same_key_same_sample:
  assumes after: "store_after s s'" and key: "cache_key (au_account a) s = cache_key (au_account a) s'"
  shows "fresh_sample dump a s = fresh_sample dump a s'"
proof -
  let ?b = "au_account a"
  have schema: "schema_version s = schema_version s'" using key by (simp add: cache_key_def Let_def)
  obtain qs where "permission_requests s' = permission_requests s @ qs" using after schema by (auto simp: store_after_def)
  moreover have "(permission_requests s = [] \<longleftrightarrow> permission_requests s' = []) \<and> length (permission_requests s) = length (permission_requests s')"
    using key by (auto simp: cache_key_def Let_def split: if_splits)
  ultimately have requests: "permission_requests s' = permission_requests s" by simp
  obtain es where es: "account_rows ?b s' = account_rows ?b s @ es" "\<forall>e\<in>set es. \<forall>x\<in>set (account_rows ?b s). pl_revision x < pl_revision e"
    using after schema unfolding store_after_def by (metis less_irrefl)
  have head: "map_option pl_revision (head_event ?b s) = map_option pl_revision (head_event ?b s')"
    using key by (simp add: cache_key_def Let_def)
  have "es = []"
  proof (rule ccontr)
    assume "es \<noteq> []"
    then obtain e where e: "e \<in> set es" by (cases es) auto
    then obtain h' where h': "head_event ?b s' = Some h'"
      using es(1) by (cases "head_event ?b s'") (auto simp: head_event_def account_events_def split: list.splits dest: arg_cong [of _ _ set])
    then obtain h where h: "head_event ?b s = Some h" "pl_revision h = pl_revision h'" using head by auto
    then have "h \<in> set (account_rows ?b s)"
      using last_in_set [of "account_events ?b s"] by (auto simp: head_event_def account_events_def split: list.splits)
    then have "pl_revision h < pl_revision e" using es(2) e by blast
    moreover have "pl_revision e \<le> pl_revision h'" using head_event_greatest [OF h'] es(1) e by simp
    ultimately show False using h(2) by simp
  qed
  then show ?thesis
    using es(1) requests state_of_key [OF key] by (intro fresh_sample_cong) (simp_all add: account_requests_def)
qed

section \<open>Authorities in a shared database\<close>

text \<open>What happens around one authority with its memory: its own reads, calls of any authority, statements of other
  programs that the constraints and triggers accept, replacing the mutable rows, and changes of the schema after which
  the tables may hold anything.\<close>

inductive permission_world ::
    "(permission_snapshot \<Rightarrow> string) \<Rightarrow> authority \<Rightarrow> permission_db \<times> permission_memory \<Rightarrow> permission_db \<times> permission_memory \<Rightarrow> bool"
    for dump a where
  sample: "permission_world dump a (s, m) (s, snd (verified_sample dump a s m))"
| enter: "permission_world dump a (s, m) (s, snd (enter_sample_scope dump a s m))"
| leave: "permission_world dump a (s, m) (s, exit_sample_scope owner m)"
| call: "permission_step dump s s' \<Longrightarrow> permission_world dump a (s, m) (s', m)"
| event: "insert_permission_event e s = Inr ((), s') \<Longrightarrow> permission_world dump a (s, m) (s', m)"
| request: "insert_permission_request q s = Inr ((), s') \<Longrightarrow> permission_world dump a (s, m) (s', m)"
| states: "permission_world dump a (s, m) (s\<lparr>permission_states := rs\<rparr>, m)"
| schema: "schema_version s < schema_version s' \<Longrightarrow> permission_world dump a (s, m) (s', m)"

definition new_memory :: permission_memory where
  "new_memory = \<lparr>verified_cache = None, sample_context = None\<rparr>"

definition cache_sound :: "(permission_snapshot \<Rightarrow> string) \<Rightarrow> authority \<Rightarrow> permission_db \<times> permission_memory \<Rightarrow> bool" where
  "cache_sound dump a w =
     (\<forall>k v. verified_cache (snd w) = Some (k, v) \<longrightarrow>
        (\<exists>t. store_after t (fst w) \<and> k = cache_key (au_account a) t \<and> fresh_sample dump a t = Inr v))"

lemma cache_sound_store: "cache_sound dump a (s, m) \<Longrightarrow> store_after s s' \<Longrightarrow> cache_sound dump a (s', m)"
  unfolding cache_sound_def using store_after_trans by (metis fst_conv snd_conv)

lemma cache_sound_sample:
  "cache_sound dump a (s, m) \<Longrightarrow> cache_sound dump a (s, snd (verified_sample dump a s m))"
  unfolding cache_sound_def verified_sample_def
  by (auto simp: Let_def split: option.splits sum.splits intro: later.R_refl)

lemma cache_sound_step: "permission_world dump a w w' \<Longrightarrow> cache_sound dump a w \<Longrightarrow> cache_sound dump a w'"
proof (induction rule: permission_world.induct)
  case (enter s m)
  have "verified_cache (snd (enter_sample_scope dump a s m)) \<in> {verified_cache m, verified_cache (snd (verified_sample dump a s m))}"
    by (auto simp: enter_sample_scope_def split: option.splits prod.splits sum.splits)
  then show ?case using enter cache_sound_sample [OF enter] by (auto simp: cache_sound_def)
next
  case (leave s m owner)
  then show ?case by (simp add: cache_sound_def exit_sample_scope_def)
next
  case (event e s s' m)
  then show ?case using keepsD [OF keeps_insert_event] cache_sound_store by blast
next
  case (request q s s' m)
  then show ?case using keepsD [OF keeps_insert_request] cache_sound_store by blast
next
  case (states s m rs)
  then show ?case by (rule cache_sound_store) (simp add: store_after_def account_rows_def)
next
  case (schema s s' m)
  then show ?case by (auto intro: cache_sound_store simp: store_after_def)
qed (auto intro: cache_sound_sample cache_sound_store step_after)

lemma cache_sound_world: "(permission_world dump a)\<^sup>*\<^sup>* (s, new_memory) w \<Longrightarrow> cache_sound dump a w"
proof (induction rule: rtranclp_induct)
  case base
  show ?case by (simp add: cache_sound_def new_memory_def)
qed (rule cache_sound_step)

text \<open>
  C32.  Whatever happened to the database since the authority was built, a cached sample is the sample that verifying the
  whole chain and all audit rows of the present store gives, including its errors.\<close>

theorem cached_sample_is_fresh:
  assumes "(permission_world dump a)\<^sup>*\<^sup>* (s, new_memory) (s', m)"
  shows "fst (verified_sample dump a s' m) = fresh_sample dump a s'"
proof -
  have sound: "cache_sound dump a (s', m)" using cache_sound_world [OF assms] .
  have "Inr v = fresh_sample dump a s'" if hit: "verified_cache m = Some (cache_key (au_account a) s', v)" for v
  proof -
    obtain t where "store_after t s'" "cache_key (au_account a) s' = cache_key (au_account a) t" "fresh_sample dump a t = Inr v"
      using sound hit unfolding cache_sound_def fst_conv snd_conv by blast
    then show ?thesis using same_key_same_sample [of t s' a dump] by simp
  qed
  then show ?thesis by (auto simp: verified_sample_def Let_def split: option.splits sum.splits)
qed

theorem cached_sample_is_fresh_witness:
  "\<exists>m. (permission_world sample_dump sample_authority)\<^sup>*\<^sup>* (empty_permissions 0, new_memory) (sample_started, m) \<and>
     verified_cache m \<noteq> None \<and>
     fst (verified_sample sample_dump sample_authority sample_started m) = fresh_sample sample_dump sample_authority sample_started"
proof -
  let ?m = "snd (verified_sample sample_dump sample_authority (empty_permissions 0) new_memory)"
  have world: "(permission_world sample_dump sample_authority)\<^sup>*\<^sup>* (empty_permissions 0, new_memory) (sample_started, ?m)"
    using permission_world.sample permission_world.call [OF sample_step] by (meson converse_rtranclp_into_rtranclp r_into_rtranclp)
  have "verified_cache ?m \<noteq> None"
    using fresh_untouched [of sample_authority "empty_permissions 0" sample_dump] sample_untouched sample_ok
    by (simp add: verified_sample_def new_memory_def Let_def)
  then show ?thesis using world cached_sample_is_fresh [OF world] by blast
qed

end
