(* ===== verification/ToolExecutions.thy ===== *)
theory ToolExecutions
  imports Store Permissions
begin

text \<open>
  \<^verbatim>\<open>ToolExecutionRepository\<close> of \<^verbatim>\<open>ecorex/runtime/tool_executions.py\<close>: the durable record of every tool call a model requests
  and the append-only permits (invocation admissions) that let one be dispatched, with the tables and triggers of
  \<^verbatim>\<open>schema_fragments/execution.py\<close>.

  The repository shares one SQLite database with the jobs, turns and interactions (\<open>ts_db\<close>) and with the permission
  authority (\<open>ts_permissions\<close>): a permit is only inserted while the permission it was computed from is still the stored one.
  JSON columns keep their value, time columns the instant; \<open>now\<close> is the reading of the clock.  Where the code tests whether a
  JSON value is one of several strings, a list or an object counts as none of them.
\<close>

section \<open>Rows\<close>

datatype execution_status = ExecStarted | ExecCompleted | ExecFailed | ExecSkipped

fun execution_status_text :: "execution_status \<Rightarrow> string" where
  "execution_status_text ExecStarted = ''started''"
| "execution_status_text ExecCompleted = ''completed''"
| "execution_status_text ExecFailed = ''failed''"
| "execution_status_text ExecSkipped = ''skipped''"

record execution_row =
  tx_call :: string
  tx_job :: string
  tx_turn :: string
  tx_batch :: string
  tx_capability :: string
  tx_policy :: string
  tx_tool :: string
  tx_arguments :: jobj
  tx_arguments_sha :: string
  tx_key :: "string option"
  tx_status :: execution_status
  tx_attempt :: int
  tx_result :: "json option"
  tx_error :: "string option"
  tx_created_at :: int
  tx_updated_at :: int

fun sandbox_text :: "sandbox_level \<Rightarrow> string" where
  "sandbox_text SandboxReadOnly = ''read-only''"
| "sandbox_text SandboxWorkspaceWrite = ''workspace-write''"
| "sandbox_text SandboxDangerFullAccess = ''danger-full-access''"

definition parse_sandbox :: "string \<Rightarrow> sandbox_level option" where
  "parse_sandbox v = find (\<lambda>l. sandbox_text l = v) [SandboxReadOnly, SandboxWorkspaceWrite, SandboxDangerFullAccess]"

record admission_row =
  ad_call :: string
  ad_permit :: string
  ad_job :: string
  ad_thread :: string
  ad_turn :: string
  ad_batch :: string
  ad_capability :: string
  ad_account :: string
  ad_frozen :: string
  ad_current :: string
  ad_digest :: string
  ad_availability :: "string option"
  ad_tool :: string
  ad_version :: string
  ad_arguments_sha :: string
  ad_key :: "string option"
  ad_approved :: bool
  ad_interaction :: "string option"
  ad_sandbox :: string
  ad_admitted_at :: int
  ad_permit_digest :: string

text \<open>A row of \<^verbatim>\<open>runtime_snapshots\<close>, the table of \<open>Snapshots\<close>.\<close>

record snapshot_row =
  sn_id :: string
  sn_kind :: string
  sn_payload :: json
  sn_sha :: string
  sn_created_at :: int

record tool_store =
  ts_db :: db
  ts_permissions :: permission_db
  ts_snapshots :: "snapshot_row list"
  ts_executions :: "execution_row list"
  ts_admissions :: "admission_row list"

type_synonym 'a ttxn = "(tool_store, 'a) txn"

definition find_execution :: "string \<Rightarrow> tool_store \<Rightarrow> execution_row option" where
  "find_execution i s = find (\<lambda>r. tx_call r = i) (ts_executions s)"

definition find_admission :: "string \<Rightarrow> tool_store \<Rightarrow> admission_row option" where
  "find_admission i s = find (\<lambda>r. ad_call r = i) (ts_admissions s)"

definition find_batch :: "string \<Rightarrow> db \<Rightarrow> batch_row option" where
  "find_batch i s = find (\<lambda>r. bt_id r = i) (db_batches s)"

text \<open>\<^verbatim>\<open>ToolExecutionScope\<close> and its checks; every scope of the model is valid.\<close>

definition identity_ok :: "string \<Rightarrow> bool" where
  "identity_ok v = (py_strip v \<noteq> [] \<and> py_len v \<le> 256)"

record execution_scope =
  sc_job :: string
  sc_thread :: string
  sc_turn :: string
  sc_batch :: "string option"

definition execution_scope_ok :: "execution_scope \<Rightarrow> bool" where
  "execution_scope_ok sc =
     (identity_ok (sc_job sc) \<and> identity_ok (sc_thread sc) \<and> identity_ok (sc_turn sc) \<and>
      (case sc_batch sc of None \<Rightarrow> True | Some b \<Rightarrow> identity_ok b))"

definition json_sha :: "json \<Rightarrow> string" where
  "json_sha v = sha256_hexdigest (json_dumps v)"

text \<open>\<^verbatim>\<open>ToolExecutionRecord.result_sha256\<close>; a result column that is \<^verbatim>\<open>NULL\<close> or JSON \<^verbatim>\<open>null\<close> reads as \<^verbatim>\<open>None\<close>.\<close>

definition record_result :: "execution_row \<Rightarrow> json" where
  "record_result r = (case tx_result r of None \<Rightarrow> JNull | Some v \<Rightarrow> v)"

definition result_sha256 :: "execution_row \<Rightarrow> string option" where
  "result_sha256 r = (if record_result r = JNull then None else Some (json_sha (record_result r)))"

section \<open>Recording an execution\<close>

record begin_request =
  bq_call :: string
  bq_job :: string
  bq_turn :: string
  bq_batch :: string
  bq_capability :: string
  bq_policy :: string
  bq_tool :: string
  bq_arguments :: jobj
  bq_key :: "string option"

definition new_execution :: "begin_request \<Rightarrow> int \<Rightarrow> execution_row" where
  "new_execution q now =
     \<lparr>tx_call = bq_call q, tx_job = bq_job q, tx_turn = bq_turn q, tx_batch = bq_batch q, tx_capability = bq_capability q,
      tx_policy = bq_policy q, tx_tool = bq_tool q, tx_arguments = canon_obj (bq_arguments q),
      tx_arguments_sha = json_sha (JObj (bq_arguments q)), tx_key = bq_key q, tx_status = ExecStarted, tx_attempt = 1,
      tx_result = None, tx_error = None, tx_created_at = now, tx_updated_at = now\<rparr>"

definition same_call :: "begin_request \<Rightarrow> execution_row \<Rightarrow> bool" where
  "same_call q r =
     (tx_job r = bq_job q \<and> tx_turn r = bq_turn q \<and> tx_batch r = bq_batch q \<and> tx_capability r = bq_capability q \<and>
      tx_policy r = bq_policy q \<and> tx_tool r = bq_tool q \<and>
      json_dumps (JObj (tx_arguments r)) = json_dumps (JObj (bq_arguments q)) \<and>
      tx_arguments_sha r = json_sha (JObj (bq_arguments q)) \<and> tx_key r = bq_key q)"

definition begin_arguments_ok :: "begin_request \<Rightarrow> bool" where
  "begin_arguments_ok q =
     list_all identity_ok [bq_call q, bq_job q, bq_turn q, bq_batch q, bq_capability q, bq_policy q, bq_tool q]"

text \<open>\<^verbatim>\<open>INSERT INTO tool_executions\<close>: the primary key and the foreign keys.\<close>

definition insert_execution :: "execution_row \<Rightarrow> unit ttxn" where
  "insert_execution r =
     bind (read (find_execution (tx_call r))) (\<lambda>old.
     seq (require (old = None) (IntegrityError ''UNIQUE constraint failed''))
     (bind (read (\<lambda>s. find_job (tx_job r) (ts_db s) \<noteq> None \<and> find_turn (tx_turn r) (ts_db s) \<noteq> None \<and>
                     find_batch (tx_batch r) (ts_db s) \<noteq> None)) (\<lambda>known.
      seq (require known (IntegrityError ''FOREIGN KEY constraint failed''))
          (modify (\<lambda>s. s\<lparr>ts_executions := ts_executions s @ [r]\<rparr>)))))"

definition batch_scope_ok :: "begin_request \<Rightarrow> tool_store \<Rightarrow> bool" where
  "batch_scope_ok q s =
     (case (find_job (bq_job q) (ts_db s), find_batch (bq_batch q) (ts_db s)) of
        (Some job, Some batch) \<Rightarrow> jb_turn job = Some (bq_turn q) \<and> bt_turn batch = bq_turn q
      | _ \<Rightarrow> False)"

definition begin_in_transaction :: "begin_request \<Rightarrow> int \<Rightarrow> (execution_row \<times> bool) ttxn" where
  "begin_in_transaction q now =
     bind (read (find_execution (bq_call q))) (\<lambda>row.
     case row of
       Some r \<Rightarrow>
         seq (require (same_call q r)
                (ToolExecutionConflict ''tool_call_id was reused with different execution identity''))
             (ret (r, False))
     | None \<Rightarrow>
         bind (read (batch_scope_ok q)) (\<lambda>scope.
         seq (require scope (ToolExecutionConflict ''tool execution does not match its durable execution batch''))
         (seq (insert_execution (new_execution q now)) (ret (new_execution q now, True)))))"

definition begin_execution :: "begin_request \<Rightarrow> int \<Rightarrow> tool_store \<Rightarrow> (err + execution_row \<times> bool) \<times> tool_store" where
  "begin_execution q now s =
     (if \<not> begin_arguments_ok q then (Inl (ValueError ''tool execution identity is invalid''), s)
      else transaction (begin_in_transaction q now) s)"

definition require_execution :: "string \<Rightarrow> execution_row ttxn" where
  "require_execution i =
     bind (read (find_execution i)) (\<lambda>row. case row of None \<Rightarrow> raise (KeyError i) | Some r \<Rightarrow> ret r)"

text \<open>\<^verbatim>\<open>UPDATE tool_executions .. WHERE tool_call_id = ?\<close>; the statements only set columns the trigger leaves free.\<close>

definition update_execution :: "string \<Rightarrow> (execution_row \<Rightarrow> execution_row) \<Rightarrow> unit ttxn" where
  "update_execution i f = modify (\<lambda>s. s\<lparr>ts_executions := update_rows (\<lambda>r. tx_call r = i) f (ts_executions s)\<rparr>)"

definition update_and_read :: "string \<Rightarrow> (execution_row \<Rightarrow> execution_row) \<Rightarrow> execution_row ttxn" where
  "update_and_read i f = seq (update_execution i f) (require_execution i)"

definition record_retry :: "string \<Rightarrow> int \<Rightarrow> tool_store \<Rightarrow> (err + execution_row) \<times> tool_store" where
  "record_retry i now =
     transaction
       (bind (require_execution i) (\<lambda>row.
        if tx_status row \<noteq> ExecStarted then ret row
        else update_and_read i (\<lambda>r. r\<lparr>tx_attempt := tx_attempt r + 1, tx_updated_at := now\<rparr>)))"

definition resume_uncertain :: "string \<Rightarrow> int \<Rightarrow> tool_store \<Rightarrow> (err + execution_row) \<times> tool_store" where
  "resume_uncertain i now = record_retry i now"

definition complete_execution :: "string \<Rightarrow> json \<Rightarrow> int \<Rightarrow> tool_store \<Rightarrow> (err + execution_row) \<times> tool_store" where
  "complete_execution i result now =
     transaction
       (bind (require_execution i) (\<lambda>row.
        if tx_status row = ExecCompleted
        then seq (require (map_option json_dumps (tx_result row) = Some (json_dumps result))
                    (ToolExecutionConflict ''completed tool call was replayed with a different result''))
                 (ret row)
        else seq (require (tx_status row = ExecStarted) (ToolExecutionConflict ''tool call cannot complete from its status''))
             (update_and_read i (\<lambda>r. r\<lparr>tx_status := ExecCompleted, tx_result := Some (json_canon result), tx_error := None,
                                        tx_updated_at := now\<rparr>))))"

definition clip128 :: "string \<Rightarrow> string" where
  "clip128 v = concat (take 128 (code_points v))"

definition skip_execution :: "string \<Rightarrow> string \<Rightarrow> int \<Rightarrow> tool_store \<Rightarrow> (err + execution_row) \<times> tool_store" where
  "skip_execution i reason now =
     transaction
       (bind (require_execution i) (\<lambda>row.
        seq (require (tx_status row = ExecStarted \<or> tx_status row = ExecSkipped)
               (ToolExecutionConflict ''tool call cannot be skipped from its status''))
        (update_and_read i (\<lambda>r. r\<lparr>tx_status := ExecSkipped,
           tx_result := Some (json_canon (JObj [(''skipped'', JBool True), (''reason'', JStr reason)])),
           tx_error := Some (clip128 reason), tx_updated_at := now\<rparr>))))"

definition fail_execution :: "string \<Rightarrow> string \<Rightarrow> int \<Rightarrow> tool_store \<Rightarrow> (err + execution_row) \<times> tool_store" where
  "fail_execution i error_code now =
     transaction
       (bind (require_execution i) (\<lambda>row.
        seq (require (tx_status row \<noteq> ExecCompleted) (ToolExecutionConflict ''completed tool calls cannot fail''))
        (update_and_read i (\<lambda>r. r\<lparr>tx_status := ExecFailed, tx_error := Some (clip128 error_code), tx_updated_at := now\<rparr>))))"

definition get_execution :: "string \<Rightarrow> tool_store \<Rightarrow> err + execution_row" where
  "get_execution i s = (case find_execution i s of None \<Rightarrow> Inl (KeyError i) | Some r \<Rightarrow> Inr r)"

section \<open>Permits\<close>

record admit_request =
  aq_call :: string
  aq_job :: string
  aq_thread :: string
  aq_turn :: string
  aq_batch :: string
  aq_capability :: string
  aq_account :: string
  aq_frozen :: string
  aq_current :: string
  aq_digest :: "string option"
  aq_denies :: "string list"
  aq_availability :: "string option"
  aq_tool :: string
  aq_version :: string
  aq_approved :: bool
  aq_interaction :: "string option"
  aq_sandbox :: sandbox_level

definition digest_ok :: "string option \<Rightarrow> bool" where
  "digest_ok d = (case d of None \<Rightarrow> True | Some v \<Rightarrow> is_sha256 v)"

text \<open>The checks of the arguments of \<^verbatim>\<open>admit\<close>; they return the permission digest.\<close>

definition admit_arguments :: "admit_request \<Rightarrow> err + string" where
  "admit_arguments q =
     (if \<not> list_all identity_ok
           [aq_call q, aq_job q, aq_thread q, aq_turn q, aq_batch q, aq_capability q, aq_account q, aq_frozen q, aq_current q,
            aq_tool q, aq_version q]
      then Inl (ValueError ''tool invocation admission identity is invalid'')
      else if \<not> digest_ok (aq_digest q) then Inl (ValueError ''tool invocation permission state digest is invalid'')
      else if \<not> digest_ok (aq_availability q) then Inl (ValueError ''tool invocation availability digest is invalid'')
      else case aq_digest q of
        None \<Rightarrow> Inl (ValueError ''tool invocation permission state digest is required'')
      | Some digest \<Rightarrow>
          if sort (remdups (aq_denies q)) \<noteq> aq_denies q
          then Inl (ValueError ''administrator hard-deny authority is invalid'')
          else if (case aq_interaction q of None \<Rightarrow> False | Some i \<Rightarrow> \<not> identity_ok i)
          then Inl (ValueError ''tool invocation approval identity is invalid'')
          else if aq_approved q \<and> aq_interaction q = None
          then Inl (ValueError ''approved invocation requires its durable interaction'')
          else if \<not> aq_approved q \<and> aq_interaction q \<noteq> None
          then Inl (ValueError ''unapproved invocation cannot bind an approval interaction'')
          else Inr digest)"

definition conflict_unless :: "bool \<Rightarrow> string \<Rightarrow> err + unit" where
  "conflict_unless b message = (if b then Inr () else Inl (ToolExecutionConflict message))"

definition admit_execution :: "admit_request \<Rightarrow> execution_row \<Rightarrow> err + unit" where
  "admit_execution q x =
     ebind (conflict_unless
       (tx_job x = aq_job q \<and> tx_turn x = aq_turn q \<and> tx_batch x = aq_batch q \<and> tx_capability x = aq_capability q \<and>
        tx_policy x = aq_frozen q \<and> tx_tool x = aq_tool q)
       ''invocation admission does not match its tool execution'') (\<lambda>_.
     conflict_unless (tx_status x = ExecStarted) ''only a started tool execution can be admitted'')"

definition admit_scope :: "admit_request \<Rightarrow> db \<Rightarrow> err + job_row" where
  "admit_scope q s =
     (case (find_job (aq_job q) s, find_turn (aq_turn q) s) of
        (Some job, Some turn) \<Rightarrow>
          if jb_thread job = Some (aq_thread q) \<and> jb_turn job = Some (aq_turn q) \<and> tn_thread turn = aq_thread q
          then Inr job else Inl (ToolExecutionConflict ''invocation admission scope is invalid'')
      | _ \<Rightarrow> Inl (ToolExecutionConflict ''invocation admission scope is invalid''))"

text \<open>The stored preference joined with the ledger entry that backs it.\<close>

definition backed_state :: "string \<Rightarrow> permission_db \<Rightarrow> permission_state_row option" where
  "backed_state account s =
     (case find_state account s of
        None \<Rightarrow> None
      | Some row \<Rightarrow>
          if list_ex (\<lambda>e. pl_account e = account \<and> matches_ledger row e) (permission_ledger s) then Some row else None)"

definition admit_permission :: "admit_request \<Rightarrow> string \<Rightarrow> permission_db \<Rightarrow> err + unit" where
  "admit_permission q digest s =
     (case backed_state (aq_account q) s of
        None \<Rightarrow> Inl (ToolExecutionConflict ''current permission ledger state is unavailable'')
      | Some row \<Rightarrow>
          if ps_digest row \<noteq> Some digest
          then Inl (StaleInvocationAdmission ''current permission changed before invocation admission'')
          else case issue (ps_profile row) (ps_revision row) (ps_updated_at row) (aq_denies q) of
            Inl _ \<Rightarrow> Inl (ToolExecutionConflict ''current permission snapshot cannot be reconstructed'')
          | Inr snapshot \<Rightarrow>
              if snap_id snapshot \<noteq> aq_current q
              then Inl (StaleInvocationAdmission ''current permission snapshot changed before invocation admission'')
              else Inr ())"

definition admit_batch :: "admit_request \<Rightarrow> db \<Rightarrow> err + unit" where
  "admit_batch q s =
     conflict_unless (case find_batch (aq_batch q) s of None \<Rightarrow> False | Some b \<Rightarrow> bt_turn b = aq_turn q)
       ''invocation admission execution batch is invalid''"

definition jdict :: "json \<Rightarrow> jobj option" where
  "jdict v = (case v of JObj d \<Rightarrow> Some d | _ \<Rightarrow> None)"

definition tool_execution_id :: "string \<Rightarrow> string \<Rightarrow> string" where
  "tool_execution_id turn_id call = ''tool_exec_'' @ sha256_hexdigest (turn_id @ [CHR 0x00] @ call)"

definition interaction_authoritative :: "admit_request \<Rightarrow> interaction_row \<Rightarrow> bool" where
  "interaction_authoritative q i =
     (ia_job i = Some (aq_job q) \<and> ia_thread i = aq_thread q \<and> ia_turn i = Some (aq_turn q) \<and>
      ia_status i = InteractionResolved \<and> ia_kind i = AskPermissionApproval)"

text \<open>The tool call in the job's checkpoint that an approval answers.\<close>

definition bound_call :: "admit_request \<Rightarrow> string \<Rightarrow> jobj \<Rightarrow> (string \<times> json) option" where
  "bound_call q interaction_id cp =
     (case jdict (jget cp ''tool_call'') of
        None \<Rightarrow> None
      | Some call \<Rightarrow>
          (case (jget call ''tool_call_id'', map_of call ''arguments'') of
             (JStr call_id, Some arguments) \<Rightarrow>
               if (jget cp ''phase'' = JStr ''waiting_tool_approval'' \<or> jget cp ''phase'' = JStr ''tool_running'') \<and>
                  jget cp ''approved'' = JBool True \<and>
                  (if has_key cp ''approval_interaction_id'' then jget cp ''approval_interaction_id''
                   else jget cp ''interaction_id'') = JStr interaction_id \<and>
                  jget cp ''execution_batch_id'' = JStr (aq_batch q) \<and> jget call ''tool_name'' = JStr (aq_tool q)
               then Some (call_id, arguments) else None
           | _ \<Rightarrow> None))"

definition admit_approval :: "admit_request \<Rightarrow> execution_row \<Rightarrow> job_row \<Rightarrow> db \<Rightarrow> err + unit" where
  "admit_approval q x job s =
     (case aq_interaction q of
        None \<Rightarrow> Inr ()
      | Some interaction_id \<Rightarrow>
          if \<not> aq_approved q then Inr ()
          else case find_interaction interaction_id s of
            None \<Rightarrow> Inl (ToolExecutionConflict ''invocation approval interaction is not authoritative'')
          | Some i \<Rightarrow>
              ebind (conflict_unless (interaction_authoritative q i) ''invocation approval interaction is not authoritative'') (\<lambda>_.
              case (case jb_checkpoint job of None \<Rightarrow> Some [] | Some v \<Rightarrow> jdict v) of
                None \<Rightarrow> Inl (AttributeError ''get'')
              | Some cp \<Rightarrow>
                  (case (case ia_response i of None \<Rightarrow> Some [] | Some v \<Rightarrow> jdict v, bound_call q interaction_id cp) of
                     (Some response, Some (call_id, arguments)) \<Rightarrow>
                       ebind (conflict_unless (jget response ''action_id'' = JStr ''allow'')
                                ''invocation approval does not bind this tool call'') (\<lambda>_.
                       conflict_unless (tool_execution_id (aq_turn q) call_id = aq_call q \<and> json_sha arguments = tx_arguments_sha x)
                         ''invocation approval arguments do not match execution'')
                   | _ \<Rightarrow> Inl (ToolExecutionConflict ''invocation approval does not bind this tool call''))))"

definition permit_payload :: "admission_row \<Rightarrow> jobj" where
  "permit_payload r =
     [(''schema_version'', JInt 1), (''tool_call_id'', JStr (ad_call r)), (''job_id'', JStr (ad_job r)),
      (''thread_id'', JStr (ad_thread r)), (''turn_id'', JStr (ad_turn r)), (''execution_batch_id'', JStr (ad_batch r)),
      (''capability_snapshot_id'', JStr (ad_capability r)), (''permission_account_id'', JStr (ad_account r)),
      (''frozen_permission_snapshot_id'', JStr (ad_frozen r)), (''current_permission_snapshot_id'', JStr (ad_current r)),
      (''current_permission_state_digest'', JStr (ad_digest r)), (''current_availability_digest'', jopt (ad_availability r)),
      (''tool_id'', JStr (ad_tool r)), (''tool_version'', JStr (ad_version r)),
      (''arguments_sha256'', JStr (ad_arguments_sha r)), (''idempotency_key'', jopt (ad_key r)),
      (''approved'', JBool (ad_approved r)), (''approval_interaction_id'', jopt (ad_interaction r)),
      (''effective_sandbox'', JStr (ad_sandbox r)), (''admitted_at'', JStr (iso_auto (ad_admitted_at r)))]"

definition permit_digest_of :: "admission_row \<Rightarrow> string" where
  "permit_digest_of r =
     sha256_hexdigest (''ecorex-invocation-admission-v1'' @ [CHR 0x00] @ json_dumps (JObj (permit_payload r)))"

definition new_admission :: "admit_request \<Rightarrow> string \<Rightarrow> execution_row \<Rightarrow> int \<Rightarrow> admission_row" where
  "new_admission q digest x now =
     (let r = \<lparr>ad_call = aq_call q, ad_permit = [], ad_job = aq_job q, ad_thread = aq_thread q, ad_turn = aq_turn q,
               ad_batch = aq_batch q, ad_capability = aq_capability q, ad_account = aq_account q, ad_frozen = aq_frozen q,
               ad_current = aq_current q, ad_digest = digest, ad_availability = aq_availability q, ad_tool = aq_tool q,
               ad_version = aq_version q, ad_arguments_sha = tx_arguments_sha x, ad_key = tx_key x,
               ad_approved = aq_approved q, ad_interaction = aq_interaction q, ad_sandbox = sandbox_text (aq_sandbox q),
               ad_admitted_at = now, ad_permit_digest = []\<rparr>
      in r\<lparr>ad_permit := ''permit_'' @ permit_digest_of r, ad_permit_digest := permit_digest_of r\<rparr>)"

text \<open>\<^verbatim>\<open>ToolInvocationAdmission\<close>, the permit as the dispatcher sees it.\<close>

record invocation_admission =
  in_permit :: string
  in_call :: string
  in_scope :: execution_scope
  in_capability :: string
  in_frozen :: string
  in_current :: string
  in_digest :: string
  in_availability :: "string option"
  in_tool :: string
  in_version :: string
  in_arguments_sha :: string
  in_key :: "string option"
  in_approved :: bool
  in_sandbox :: sandbox_level
  in_admitted_at :: int

definition admission_scope :: "admission_row \<Rightarrow> execution_scope" where
  "admission_scope r = \<lparr>sc_job = ad_job r, sc_thread = ad_thread r, sc_turn = ad_turn r, sc_batch = Some (ad_batch r)\<rparr>"

definition admission_from_row :: "admission_row \<Rightarrow> err + invocation_admission" where
  "admission_from_row r =
     (if ad_permit_digest r \<noteq> permit_digest_of r \<or> ad_permit r \<noteq> ''permit_'' @ permit_digest_of r
      then Inl (ToolExecutionConflict ''tool invocation admission digest is invalid'')
      else case parse_sandbox (ad_sandbox r) of
        None \<Rightarrow> Inl (ToolExecutionConflict ''tool invocation admission sandbox is invalid'')
      | Some sandbox \<Rightarrow>
          if \<not> execution_scope_ok (admission_scope r)
          then Inl (ValueError ''tool execution scope contains an invalid identity'')
          else Inr \<lparr>in_permit = ad_permit r, in_call = ad_call r, in_scope = admission_scope r,
                    in_capability = ad_capability r, in_frozen = ad_frozen r, in_current = ad_current r, in_digest = ad_digest r,
                    in_availability = ad_availability r, in_tool = ad_tool r, in_version = ad_version r,
                    in_arguments_sha = ad_arguments_sha r, in_key = ad_key r, in_approved = ad_approved r,
                    in_sandbox = sandbox, in_admitted_at = ad_admitted_at r\<rparr>)"

definition same_admission :: "admit_request \<Rightarrow> string \<Rightarrow> execution_row \<Rightarrow> admission_row \<Rightarrow> invocation_admission \<Rightarrow> bool" where
  "same_admission q digest x r a =
     (in_scope a = \<lparr>sc_job = aq_job q, sc_thread = aq_thread q, sc_turn = aq_turn q, sc_batch = sc_batch (in_scope a)\<rparr> \<and>
      ad_batch r = aq_batch q \<and> in_capability a = aq_capability q \<and> ad_account r = aq_account q \<and>
      in_frozen a = aq_frozen q \<and> in_current a = aq_current q \<and> in_digest a = digest \<and>
      in_availability a = aq_availability q \<and> in_tool a = aq_tool q \<and> in_version a = aq_version q \<and>
      in_arguments_sha a = tx_arguments_sha x \<and> in_key a = tx_key x \<and> in_approved a = aq_approved q \<and>
      ad_interaction r = aq_interaction q \<and> in_sandbox a = aq_sandbox q)"

text \<open>\<^verbatim>\<open>INSERT INTO invocation_admissions\<close>: primary key, unique permit, foreign keys and checks.\<close>

definition insert_admission :: "admission_row \<Rightarrow> unit ttxn" where
  "insert_admission r =
     bind (read (\<lambda>s. list_ex (\<lambda>o'. ad_call o' = ad_call r \<or> ad_permit o' = ad_permit r) (ts_admissions s))) (\<lambda>clash.
     seq (require (\<not> clash) (IntegrityError ''UNIQUE constraint failed''))
     (seq (require (parse_sandbox (ad_sandbox r) \<noteq> None) (IntegrityError ''CHECK constraint failed''))
     (bind (read (\<lambda>s. find_execution (ad_call r) s \<noteq> None \<and> find_job (ad_job r) (ts_db s) \<noteq> None \<and>
                     find_thread (ad_thread r) (ts_db s) \<noteq> None \<and> find_turn (ad_turn r) (ts_db s) \<noteq> None)) (\<lambda>known.
      seq (require known (IntegrityError ''FOREIGN KEY constraint failed''))
          (modify (\<lambda>s. s\<lparr>ts_admissions := ts_admissions s @ [r]\<rparr>))))))"

definition admit_in_transaction :: "admit_request \<Rightarrow> string \<Rightarrow> int \<Rightarrow> invocation_admission ttxn" where
  "admit_in_transaction q digest now =
     bind (require_execution (aq_call q)) (\<lambda>x.
     seq (lift_result (admit_execution q x))
     (bind (read (\<lambda>s. admit_scope q (ts_db s))) (\<lambda>scope.
      bind (lift_result scope) (\<lambda>job.
      bind (read (\<lambda>s. admit_permission q digest (ts_permissions s))) (\<lambda>permitted.
      seq (lift_result permitted)
      (bind (read (\<lambda>s. admit_batch q (ts_db s))) (\<lambda>batch.
       seq (lift_result batch)
       (bind (read (\<lambda>s. admit_approval q x job (ts_db s))) (\<lambda>approval.
        seq (lift_result approval)
        (bind (read (find_admission (aq_call q))) (\<lambda>existing.
         case existing of
           Some r \<Rightarrow>
             bind (lift_result (admission_from_row r)) (\<lambda>a.
             seq (require (same_admission q digest x r a)
                    (ToolExecutionConflict ''tool call already has a different invocation admission''))
                 (ret a))
         | None \<Rightarrow>
             seq (insert_admission (new_admission q digest x now))
                 (lift_result (admission_from_row (new_admission q digest x now))))))))))))))"

definition admit :: "admit_request \<Rightarrow> int \<Rightarrow> tool_store \<Rightarrow> (err + invocation_admission) \<times> tool_store" where
  "admit q now s =
     (case admit_arguments q of
        Inl e \<Rightarrow> (Inl e, s)
      | Inr digest \<Rightarrow> transaction (admit_in_transaction q digest now) s)"

definition stored_admission :: "string \<Rightarrow> tool_store \<Rightarrow> err + invocation_admission option" where
  "stored_admission i s =
     (case find_admission i s of None \<Rightarrow> Inr None | Some r \<Rightarrow> ebind (admission_from_row r) (\<lambda>a. Inr (Some a)))"

text \<open>\<^verbatim>\<open>DurableInvocationAdmissionAuthority.resolve\<close>\<close>

definition resolve_admission ::
    "execution_scope \<Rightarrow> string \<Rightarrow> string \<Rightarrow> string \<Rightarrow> string \<Rightarrow> string \<Rightarrow> string \<Rightarrow> string option \<Rightarrow> tool_store
      \<Rightarrow> err + invocation_admission option" where
  "resolve_admission scope call capability policy tool version arguments_sha key s =
     ebind (stored_admission call s) (\<lambda>found.
     case found of
       None \<Rightarrow> Inr None
     | Some a \<Rightarrow>
         Inr (if in_scope a = scope \<and> in_capability a = capability \<and> in_frozen a = policy \<and> in_tool a = tool \<and>
                 in_version a = version \<and> in_arguments_sha a = arguments_sha \<and> in_key a = key
              then Some a else None))"

section \<open>Exact reuse\<close>

text \<open>The first row in the order of the keys, as \<^verbatim>\<open>ORDER BY .. LIMIT 1\<close> gives it.\<close>

definition first_by :: "('a \<Rightarrow> 'k :: linorder) \<Rightarrow> 'a list \<Rightarrow> 'a option" where
  "first_by k xs = (case sort_key k xs of [] \<Rightarrow> None | x # _ \<Rightarrow> Some x)"

definition last_by :: "('a \<Rightarrow> 'k :: linorder) \<Rightarrow> 'a list \<Rightarrow> 'a option" where
  "last_by k xs = (case sort_key k xs of [] \<Rightarrow> None | ys \<Rightarrow> Some (last ys))"

definition admitted_version :: "string \<Rightarrow> execution_row \<Rightarrow> tool_store \<Rightarrow> bool" where
  "admitted_version version x s = list_ex (\<lambda>a. ad_call a = tx_call x \<and> ad_version a = version) (ts_admissions s)"

definition exact_match :: "string \<Rightarrow> string \<Rightarrow> string \<Rightarrow> string \<Rightarrow> string \<Rightarrow> string \<Rightarrow> tool_store \<Rightarrow> execution_row \<Rightarrow> bool" where
  "exact_match exclude capability policy tool version arguments_sha s x =
     (tx_call x \<noteq> exclude \<and> tx_capability x = capability \<and> tx_policy x = policy \<and> tx_tool x = tool \<and>
      admitted_version version x s \<and> tx_arguments_sha x = arguments_sha \<and> tx_status x = ExecCompleted \<and> tx_result x \<noteq> None)"

definition exact_cached_result ::
    "string \<Rightarrow> string \<Rightarrow> string \<Rightarrow> string \<Rightarrow> string \<Rightarrow> string \<Rightarrow> int \<Rightarrow> int \<Rightarrow> tool_store \<Rightarrow> execution_row option" where
  "exact_cached_result exclude capability policy tool version arguments_sha ttl_seconds now s =
     (if \<not> (1 \<le> ttl_seconds \<and> ttl_seconds \<le> 86400) \<or> py_len arguments_sha \<noteq> 64 then None
      else last_by (\<lambda>x. (tx_updated_at x, tx_call x))
             (filter (\<lambda>x. exact_match exclude capability policy tool version arguments_sha s x \<and>
                now - seconds ttl_seconds \<le> tx_updated_at x) (ts_executions s)))"

definition exact_completed_in_batch ::
    "string \<Rightarrow> string \<Rightarrow> string \<Rightarrow> string \<Rightarrow> string \<Rightarrow> string \<Rightarrow> string \<Rightarrow> string \<Rightarrow> tool_store \<Rightarrow> execution_row option" where
  "exact_completed_in_batch exclude turn batch capability policy tool version arguments_sha s =
     (if \<not> list_all identity_ok [exclude, turn, batch, capability, policy, tool, version] \<or> py_len arguments_sha \<noteq> 64 then None
      else first_by (\<lambda>x. (tx_created_at x, tx_call x))
             (filter (\<lambda>x. exact_match exclude capability policy tool version arguments_sha s x \<and> tx_turn x = turn \<and>
                tx_batch x = batch) (ts_executions s)))"

definition completed_for_turn :: "string \<Rightarrow> nat \<Rightarrow> tool_store \<Rightarrow> err + execution_row list" where
  "completed_for_turn turn limit s =
     (if \<not> identity_ok turn \<or> \<not> (1 \<le> limit \<and> limit \<le> 256)
      then Inl (ValueError ''completed tool transcript query is invalid'')
      else Inr (take limit (sort_key (\<lambda>x. (tx_created_at x, tx_call x))
             (filter (\<lambda>x. tx_turn x = turn \<and> tx_status x = ExecCompleted \<and> tx_result x \<noteq> None) (ts_executions s)))))"

definition completed_for_job :: "string \<Rightarrow> string \<Rightarrow> string list \<Rightarrow> nat \<Rightarrow> tool_store \<Rightarrow> err + execution_row list" where
  "completed_for_job job batch tools limit s =
     (if job = [] \<or> batch = [] \<or> \<not> (1 \<le> length tools \<and> length tools \<le> 16) \<or> list_ex (\<lambda>t. t = []) tools \<or>
         \<not> (1 \<le> limit \<and> limit \<le> 1024)
      then Inl (ValueError ''tool execution discovery query is invalid'')
      else Inr (take limit (sort_key (\<lambda>x. (tx_created_at x, tx_call x))
             (filter (\<lambda>x. tx_job x = job \<and> tx_batch x = batch \<and> tx_status x = ExecCompleted \<and> tx_tool x \<in> set tools)
                (ts_executions s)))))"

end
