(* ===== verification/ToolDisclosure.thy ===== *)
theory ToolDisclosure
  imports ToolExecutions
begin

text \<open>
  The reads of \<^verbatim>\<open>ToolExecutionRepository\<close> that reconstruct, from completed executions only, which deferred tools, skills and
  connector actions a job may use: a search that emitted a discovery id and, where it is needed, a description of it.  A deferred
  tool is dispatched only after \<^verbatim>\<open>DurableDeferredDisclosureAuthority.verify\<close> found both facts.
\<close>

section \<open>Discovery identifiers\<close>

text \<open>\<^verbatim>\<open>str.partition\<close> and \<^verbatim>\<open>str.rpartition\<close>, for a separator of one character; \<open>None\<close> when it does not occur.\<close>

definition py_partition :: "char \<Rightarrow> string \<Rightarrow> (string \<times> string) option" where
  "py_partition c s = (case dropWhile (\<lambda>x. x \<noteq> c) s of [] \<Rightarrow> None | _ # rest \<Rightarrow> Some (takeWhile (\<lambda>x. x \<noteq> c) s, rest))"

definition py_rpartition :: "char \<Rightarrow> string \<Rightarrow> (string \<times> string) option" where
  "py_rpartition c s = map_option (\<lambda>(a, b). (rev b, rev a)) (py_partition c (rev s))"

definition parse_versioned :: "string \<Rightarrow> string \<Rightarrow> (string \<times> string) option" where
  "parse_versioned prefix d =
     (if take (length prefix) d \<noteq> prefix then None
      else case py_rpartition (CHR ''@'') (drop (length prefix) d) of
        None \<Rightarrow> None
      | Some (name, version) \<Rightarrow>
          if name = [] \<or> version = [] \<or> d \<noteq> prefix @ name @ ''@'' @ version \<or> 512 < py_len d then None
          else Some (name, version))"

definition parse_discovery_id :: "string \<Rightarrow> (string \<times> string) option" where
  "parse_discovery_id d = parse_versioned ''tool:'' d"

definition parse_skill_discovery_id :: "string \<Rightarrow> (string \<times> string) option" where
  "parse_skill_discovery_id d = parse_versioned ''skill:'' d"

definition instance_char :: "char \<Rightarrow> bool" where
  "instance_char c = (ascii_alnum c \<or> c \<in> set ''_.:-'')"

definition parse_connector_discovery_id :: "string \<Rightarrow> (string \<times> string \<times> string \<times> string) option" where
  "parse_connector_discovery_id d =
     (if take 10 d \<noteq> ''connector:'' \<or> 512 < py_len d then None
      else case py_rpartition (CHR ''@'') d of
        None \<Rightarrow> None
      | Some (prefix, contract) \<Rightarrow>
          if \<not> is_sha256 contract then None
          else case py_partition (CHR ''@'') (drop 10 prefix) of
            None \<Rightarrow> None
          | Some (instance, target) \<Rightarrow>
              (case py_partition (CHR ''/'') target of
                 None \<Rightarrow> None
               | Some (connector, action) \<Rightarrow>
                   if instance = [] \<or> 256 < py_len instance \<or> \<not> list_all instance_char instance \<or> connector = [] \<or> action = [] \<or>
                      d \<noteq> ''connector:'' @ instance @ ''@'' @ connector @ ''/'' @ action @ ''@'' @ contract
                   then None else Some (instance, connector, action, contract)))"

text \<open>
  The identifiers of \<^verbatim>\<open>connector_execution.py\<close>.  \<open>discovery_match\<close> is \<^verbatim>\<open>_DISCOVERY_ID_RE.fullmatch\<close>: the separators are in none of the
  character classes, so that the groups are what stands between them.  A search emits the identifier of an action only if it matches.
\<close>

definition instance_pattern :: "string \<Rightarrow> bool" where
  "instance_pattern v = (v \<noteq> [] \<and> length v \<le> 256 \<and> list_all instance_char v)"

definition name_pattern :: "string \<Rightarrow> bool" where
  "name_pattern v =
     (2 \<le> length v \<and> length v \<le> 128 \<and> lower_alpha (hd v) \<and>
      list_all (\<lambda>c. lower_alpha c \<or> c \<in> set ''0123456789_.-'') (tl v))"

definition discovery_match :: "string \<Rightarrow> (string \<times> string \<times> string \<times> string) option" where
  "discovery_match d =
     (if take 10 d \<noteq> ''connector:'' then None
      else case py_partition (CHR ''@'') (drop 10 d) of
        None \<Rightarrow> None
      | Some (instance, target) \<Rightarrow>
          (case py_partition (CHR ''/'') target of
             None \<Rightarrow> None
           | Some (connector, rest) \<Rightarrow>
               (case py_partition (CHR ''@'') rest of
                  None \<Rightarrow> None
                | Some (action, contract) \<Rightarrow>
                    if instance_pattern instance \<and> name_pattern connector \<and> name_pattern action \<and> is_sha256 contract
                    then Some (instance, connector, action, contract) else None)))"

definition connector_discovery_id :: "string \<Rightarrow> string \<Rightarrow> string \<Rightarrow> string \<Rightarrow> string" where
  "connector_discovery_id instance connector action contract =
     ''connector:'' @ instance @ ''@'' @ connector @ ''/'' @ action @ ''@'' @ contract"

definition emitted_discovery_id :: "string \<Rightarrow> string \<Rightarrow> string \<Rightarrow> string \<Rightarrow> string option" where
  "emitted_discovery_id instance connector action contract =
     (let d = connector_discovery_id instance connector action contract in if discovery_match d = None then None else Some d)"

definition service_parse_discovery_id :: "string \<Rightarrow> (string \<times> string \<times> string \<times> string) option" where
  "service_parse_discovery_id d = (if 512 < py_len d then None else discovery_match d)"

definition tool_discovery_id :: "string \<Rightarrow> string \<Rightarrow> string" where
  "tool_discovery_id tool version = ''tool:'' @ tool @ ''@'' @ version"

section \<open>Completed executions of a scope\<close>

definition durable_scope :: "execution_scope \<Rightarrow> bool" where
  "durable_scope sc = (case sc_batch sc of None \<Rightarrow> False | Some b \<Rightarrow> b \<noteq> [])"

text \<open>The joined row of a completed execution with its job, turn and batch.\<close>

definition scope_row :: "execution_scope \<Rightarrow> string \<Rightarrow> string \<Rightarrow> string \<Rightarrow> db \<Rightarrow> execution_row \<Rightarrow> bool" where
  "scope_row sc capability policy tool s x =
     (tx_job x = sc_job sc \<and> tx_turn x = sc_turn sc \<and> Some (tx_batch x) = sc_batch sc \<and> tx_capability x = capability \<and>
      tx_policy x = policy \<and> tx_status x = ExecCompleted \<and> tx_tool x = tool \<and>
      (case (find_job (tx_job x) s, find_turn (tx_turn x) s, find_batch (tx_batch x) s) of
         (Some job, Some turn, Some batch) \<Rightarrow>
           jb_turn job = Some (tx_turn x) \<and> jb_thread job = Some (sc_thread sc) \<and> tn_thread turn = sc_thread sc \<and>
           bt_turn batch = tx_turn x \<and> bt_thread batch = sc_thread sc \<and> cx_capability (bt_context batch) = tx_capability x \<and>
           cx_permission (bt_context batch) = tx_policy x \<and> jb_kind job = ''agent_turn''
       | _ \<Rightarrow> False))"

definition completed_scope_rows ::
    "execution_scope \<Rightarrow> string \<Rightarrow> string \<Rightarrow> string \<Rightarrow> tool_store \<Rightarrow> execution_row list" where
  "completed_scope_rows sc capability policy tool s =
     take 1024 (sort_key (\<lambda>x. (tx_created_at x, tx_call x))
       (filter (scope_row sc capability policy tool (ts_db s)) (ts_executions s)))"

definition completed_scope_tool_call_row ::
    "execution_scope \<Rightarrow> string \<Rightarrow> string \<Rightarrow> string \<Rightarrow> string \<Rightarrow> tool_store \<Rightarrow> execution_row option" where
  "completed_scope_tool_call_row sc capability policy call tool s =
     find (\<lambda>x. tx_call x = call \<and> scope_row sc capability policy tool (ts_db s) x) (ts_executions s)"

section \<open>What a stored result says\<close>

definition keys_are :: "string list \<Rightarrow> jobj \<Rightarrow> bool" where
  "keys_are ks d = (set (map fst d) = set ks)"

definition is_str :: "json \<Rightarrow> bool" where
  "is_str v = (case v of JStr _ \<Rightarrow> True | _ \<Rightarrow> False)"

definition is_dict :: "json \<Rightarrow> bool" where
  "is_dict v = (case v of JObj _ \<Rightarrow> True | _ \<Rightarrow> False)"

definition jlist :: "json \<Rightarrow> json list option" where
  "jlist v = (case v of JArr xs \<Rightarrow> Some xs | _ \<Rightarrow> None)"

text \<open>\<^verbatim>\<open>v == 1\<close> in Python also holds for \<^verbatim>\<open>True\<close> and \<^verbatim>\<open>1.0\<close>.\<close>

definition is_one :: "json \<Rightarrow> bool" where
  "is_one v = (v = JInt 1 \<or> v = JBool True \<or> v = JFloat ''1.0'')"

definition query_arguments :: "jobj \<Rightarrow> bool" where
  "query_arguments d = ((keys_are [''query''] d \<or> keys_are [''query'', ''limit''] d) \<and> is_str (jget d ''query''))"

definition search_candidate :: "string \<Rightarrow> string \<Rightarrow> string \<Rightarrow> json \<Rightarrow> bool" where
  "search_candidate discovery_id tool version v =
     (case jdict v of
        None \<Rightarrow> False
      | Some c \<Rightarrow> jget c ''discovery_id'' = JStr discovery_id \<and> jget c ''tool_id'' = JStr tool \<and>
          jget c ''tool_version'' = JStr version \<and> jget c ''exposure'' = JStr ''deferred'')"

definition record_search_contains :: "string \<Rightarrow> string \<Rightarrow> execution_row \<Rightarrow> bool" where
  "record_search_contains capability discovery_id x =
     (case (parse_discovery_id discovery_id, jdict (record_result x)) of
        (Some (tool, version), Some result) \<Rightarrow>
          tx_tool x = ''tool_search'' \<and> tx_status x = ExecCompleted \<and> query_arguments (tx_arguments x) \<and>
          is_one (jget result ''schema_version'') \<and> jget result ''capability_snapshot_id'' = JStr capability \<and>
          jget result ''query'' = jget (tx_arguments x) ''query'' \<and>
          (case jlist (jget result ''tools'') of
             None \<Rightarrow> False | Some tools \<Rightarrow> list_ex (search_candidate discovery_id tool version) tools)
      | _ \<Rightarrow> False)"

definition described_tool :: "string \<Rightarrow> string \<Rightarrow> jobj \<Rightarrow> bool" where
  "described_tool tool_id version result =
     (case jdict (jget result ''tool'') of
        None \<Rightarrow> False
      | Some tool \<Rightarrow>
          (case (jdict (jget tool ''spec''), jdict (jget tool ''decision'')) of
             (Some spec, Some decision) \<Rightarrow>
               jget spec ''tool_id'' = JStr tool_id \<and> jget spec ''version'' = JStr version \<and>
               jget decision ''tool_id'' = JStr tool_id \<and> jget decision ''tool_version'' = JStr version \<and>
               jget decision ''eligible'' = JBool True \<and> jget decision ''exposure'' = JStr ''deferred''
           | _ \<Rightarrow> False))"

definition record_discloses :: "execution_row \<Rightarrow> string \<Rightarrow> string \<Rightarrow> string \<Rightarrow> execution_row \<Rightarrow> bool" where
  "record_discloses search capability tool_id version x =
     (let discovery_id = tool_discovery_id tool_id version
      in case jdict (record_result x) of
           None \<Rightarrow> False
         | Some result \<Rightarrow>
             keys_are [''discovery_id''] (tx_arguments x) \<and> is_str (jget (tx_arguments x) ''discovery_id'') \<and>
             is_one (jget result ''schema_version'') \<and> jget result ''capability_snapshot_id'' = JStr capability \<and>
             jget result ''found'' = JBool True \<and> jget result ''available'' = JBool True \<and>
             jget result ''discovery_id'' = JStr discovery_id \<and> jget result ''search_tool_call_id'' = JStr (tx_call search) \<and>
             jget result ''search_result_sha256'' = jopt (result_sha256 search) \<and> described_tool tool_id version result \<and>
             jget (tx_arguments x) ''discovery_id'' = JStr discovery_id \<and> record_search_contains capability discovery_id search)"

definition starts_with_text :: "string \<Rightarrow> json \<Rightarrow> bool" where
  "starts_with_text p v = (case v of JStr t \<Rightarrow> take (length p) t = p | _ \<Rightarrow> False)"

definition record_skill_search_shape :: "string \<Rightarrow> execution_row \<Rightarrow> bool" where
  "record_skill_search_shape extension x =
     (tx_tool x = ''skill_search'' \<and> tx_status x = ExecCompleted \<and> query_arguments (tx_arguments x) \<and>
      (case jdict (record_result x) of
         None \<Rightarrow> False
       | Some result \<Rightarrow>
           is_one (jget result ''schema_version'') \<and> jget result ''extension_snapshot_id'' = JStr extension \<and>
           starts_with_text ''extcontrib_'' (jget result ''extension_contribution_snapshot_id'') \<and>
           jget result ''query'' = jget (tx_arguments x) ''query'' \<and>
           (case jlist (jget result ''skills'') of None \<Rightarrow> False | Some skills \<Rightarrow> skills \<noteq> [])))"

definition skill_candidate :: "string \<Rightarrow> string \<Rightarrow> string \<Rightarrow> json \<Rightarrow> bool" where
  "skill_candidate discovery_id extension revision v =
     (case jdict v of
        None \<Rightarrow> False
      | Some c \<Rightarrow> jget c ''discovery_id'' = JStr discovery_id \<and>
          jget c ''discovery_id'' = JStr (''skill:'' @ extension @ ''@'' @ revision) \<and> is_str (jget c ''name'') \<and>
          is_str (jget c ''description'') \<and> jlist (jget c ''tags'') \<noteq> None)"

definition record_skill_search_contains :: "string \<Rightarrow> string \<Rightarrow> string \<Rightarrow> execution_row \<Rightarrow> bool" where
  "record_skill_search_contains extension contribution discovery_id x =
     (case (parse_skill_discovery_id discovery_id, jdict (record_result x)) of
        (Some (ext, revision), Some result) \<Rightarrow>
          record_skill_search_shape extension x \<and> jget result ''extension_contribution_snapshot_id'' = JStr contribution \<and>
          (case jlist (jget result ''skills'') of
             None \<Rightarrow> False | Some skills \<Rightarrow> list_ex (skill_candidate discovery_id ext revision) skills)
      | _ \<Rightarrow> False)"

definition record_skill_read_shape :: "string \<Rightarrow> string \<Rightarrow> string \<Rightarrow> execution_row \<Rightarrow> bool" where
  "record_skill_read_shape extension contribution discovery_id x =
     (parse_skill_discovery_id discovery_id \<noteq> None \<and> tx_tool x = ''skill_read'' \<and> tx_status x = ExecCompleted \<and>
      (keys_are [''discovery_id''] (tx_arguments x) \<or> keys_are [''discovery_id'', ''reference_ids''] (tx_arguments x)) \<and>
      jget (tx_arguments x) ''discovery_id'' = JStr discovery_id \<and>
      (case jdict (record_result x) of
         None \<Rightarrow> False
       | Some result \<Rightarrow>
           is_one (jget result ''schema_version'') \<and> jget result ''extension_snapshot_id'' = JStr extension \<and>
           jget result ''extension_contribution_snapshot_id'' = JStr contribution \<and>
           jget result ''discovery_id'' = JStr discovery_id \<and> is_str (jget result ''search_tool_call_id'') \<and>
           is_str (jget result ''search_result_sha256'') \<and> is_str (jget result ''instructions'')))"

definition connector_call_tool :: "json \<Rightarrow> bool" where
  "connector_call_tool v = (v = JStr ''connector_read'' \<or> v = JStr ''connector_write'')"

definition connector_candidate :: "string \<Rightarrow> string \<times> string \<times> string \<times> string \<Rightarrow> json \<Rightarrow> bool" where
  "connector_candidate discovery_id parsed v =
     (case (jdict v, parsed) of
        (Some c, (instance, connector, action, contract)) \<Rightarrow>
          jget c ''discovery_id'' = JStr discovery_id \<and> jget c ''instance_id'' = JStr instance \<and>
          jget c ''connector_id'' = JStr connector \<and> jget c ''action_id'' = JStr action \<and>
          connector_call_tool (jget c ''call_tool_id'') \<and>
          take (Suc (length contract)) (rev discovery_id) = rev (CHR ''@'' # contract)
      | _ \<Rightarrow> False)"

definition record_connector_search_contains :: "string \<Rightarrow> string \<Rightarrow> execution_row \<Rightarrow> bool" where
  "record_connector_search_contains catalog discovery_id x =
     (case (parse_connector_discovery_id discovery_id, jdict (record_result x)) of
        (Some parsed, Some result) \<Rightarrow>
          tx_tool x = ''connector_search'' \<and> tx_status x = ExecCompleted \<and> query_arguments (tx_arguments x) \<and>
          is_one (jget result ''schema_version'') \<and> jget result ''connector_catalog_snapshot_id'' = JStr catalog \<and>
          jget result ''query'' = jget (tx_arguments x) ''query'' \<and> is_str (jget result ''connector_catalog_sha256'') \<and>
          jlist (jget result ''waiting'') \<noteq> None \<and>
          (case jlist (jget result ''actions'') of
             None \<Rightarrow> False | Some actions \<Rightarrow> list_ex (connector_candidate discovery_id parsed) actions)
      | _ \<Rightarrow> False)"

definition record_connector_describes :: "execution_row \<Rightarrow> string \<Rightarrow> string \<Rightarrow> string \<Rightarrow> execution_row \<Rightarrow> bool" where
  "record_connector_describes search catalog discovery_id call_tool x =
     (case (jdict (record_result x), parse_connector_discovery_id discovery_id) of
        (Some result, Some (instance, connector, action_id, contract)) \<Rightarrow>
          tx_tool x = ''connector_describe'' \<and> tx_status x = ExecCompleted \<and> keys_are [''discovery_id''] (tx_arguments x) \<and>
          jget (tx_arguments x) ''discovery_id'' = JStr discovery_id \<and> is_one (jget result ''schema_version'') \<and>
          jget result ''connector_catalog_snapshot_id'' = JStr catalog \<and> jget result ''found'' = JBool True \<and>
          jget result ''available'' = JBool True \<and> jget result ''discovery_id'' = JStr discovery_id \<and>
          jget result ''search_tool_call_id'' = JStr (tx_call search) \<and>
          jget result ''search_result_sha256'' = jopt (result_sha256 search) \<and>
          (case jdict (jget result ''action'') of
             None \<Rightarrow> False
           | Some action \<Rightarrow>
               jget action ''instance_id'' = JStr instance \<and> jget action ''connector_id'' = JStr connector \<and>
               jget action ''action_id'' = JStr action_id \<and> jget action ''action_contract_sha256'' = JStr contract \<and>
               jget action ''call_tool_id'' = JStr call_tool \<and> is_dict (jget action ''input_schema'') \<and>
               is_dict (jget action ''output_schema'') \<and> record_connector_search_contains catalog discovery_id search)
      | _ \<Rightarrow> False)"

section \<open>Lookups\<close>

definition completed_search_for_discovery ::
    "execution_scope \<Rightarrow> string \<Rightarrow> string \<Rightarrow> string \<Rightarrow> tool_store \<Rightarrow> execution_row option" where
  "completed_search_for_discovery sc capability policy discovery_id s =
     (if \<not> durable_scope sc \<or> parse_discovery_id discovery_id = None \<or> \<not> identity_ok capability \<or> \<not> identity_ok policy then None
      else find (record_search_contains capability discovery_id)
             (rev (completed_scope_rows sc capability policy ''tool_search'' s)))"

text \<open>A search with other extension snapshots than the requested ones, but consistent in itself.\<close>

definition stale_skill_search :: "string \<Rightarrow> execution_row \<Rightarrow> bool" where
  "stale_skill_search discovery_id x =
     (case jdict (record_result x) of
        None \<Rightarrow> False
      | Some result \<Rightarrow>
          (case (jget result ''extension_snapshot_id'', jget result ''extension_contribution_snapshot_id'') of
             (JStr extension, JStr contribution) \<Rightarrow> record_skill_search_contains extension contribution discovery_id x
           | _ \<Rightarrow> False))"

definition completed_skill_search_for_discovery ::
    "execution_scope \<Rightarrow> string \<Rightarrow> string \<Rightarrow> string \<Rightarrow> string \<Rightarrow> string \<Rightarrow> tool_store \<Rightarrow> execution_row option" where
  "completed_skill_search_for_discovery sc capability policy extension contribution discovery_id s =
     (if \<not> durable_scope sc \<or> parse_skill_discovery_id discovery_id = None \<or>
         \<not> list_all identity_ok [capability, policy, extension, contribution] then None
      else let rows = rev (completed_scope_rows sc capability policy ''skill_search'' s)
           in case find (record_skill_search_contains extension contribution discovery_id) rows of
                Some x \<Rightarrow> Some x
              | None \<Rightarrow> find (stale_skill_search discovery_id) rows)"

definition has_completed_skill_search :: "execution_scope \<Rightarrow> string \<Rightarrow> string \<Rightarrow> tool_store \<Rightarrow> bool" where
  "has_completed_skill_search sc capability policy s =
     (durable_scope sc \<and>
      list_ex (\<lambda>x. case jdict (record_result x) of
          None \<Rightarrow> False
        | Some result \<Rightarrow>
            (case jget result ''extension_snapshot_id'' of JStr extension \<Rightarrow> record_skill_search_shape extension x | _ \<Rightarrow> False))
        (completed_scope_rows sc capability policy ''skill_search'' s))"

definition self_consistent_read :: "string \<Rightarrow> execution_row \<Rightarrow> bool" where
  "self_consistent_read discovery_id x =
     (case jdict (record_result x) of
        None \<Rightarrow> False
      | Some result \<Rightarrow>
          (case (jget result ''extension_snapshot_id'', jget result ''extension_contribution_snapshot_id'') of
             (JStr extension, JStr contribution) \<Rightarrow> record_skill_read_shape extension contribution discovery_id x
           | _ \<Rightarrow> False))"

definition completed_skill_read_for_discovery ::
    "execution_scope \<Rightarrow> string \<Rightarrow> string \<Rightarrow> string \<Rightarrow> string \<Rightarrow> string \<Rightarrow> tool_store \<Rightarrow> execution_row option" where
  "completed_skill_read_for_discovery sc capability policy extension contribution discovery_id s =
     (if \<not> durable_scope sc then None
      else find (\<lambda>x. record_skill_read_shape extension contribution discovery_id x \<or> self_consistent_read discovery_id x)
             (rev (completed_scope_rows sc capability policy ''skill_read'' s)))"

text \<open>\<^verbatim>\<open>str(result.get("discovery_id", ""))\<close>: only a string can be the discovery id of a read.\<close>

definition has_completed_skill_read :: "execution_scope \<Rightarrow> string \<Rightarrow> string \<Rightarrow> tool_store \<Rightarrow> bool" where
  "has_completed_skill_read sc capability policy s =
     (durable_scope sc \<and>
      list_ex (\<lambda>x. case jdict (record_result x) of
          None \<Rightarrow> False
        | Some result \<Rightarrow>
            (case jget result ''discovery_id'' of JStr discovery_id \<Rightarrow> self_consistent_read discovery_id x | _ \<Rightarrow> False))
        (completed_scope_rows sc capability policy ''skill_read'' s))"

definition batch_connector_snapshot_id :: "execution_scope \<Rightarrow> tool_store \<Rightarrow> string option" where
  "batch_connector_snapshot_id sc s =
     (case (case sc_batch sc of None \<Rightarrow> None | Some b \<Rightarrow> find_batch b (ts_db s), find_job (sc_job sc) (ts_db s)) of
        (Some batch, Some job) \<Rightarrow>
          (case (find_turn (bt_turn batch) (ts_db s),
                 find (\<lambda>n. sn_id n = cx_config (bt_context batch)) (ts_snapshots s)) of
             (Some turn, Some config) \<Rightarrow>
               if bt_turn batch = sc_turn sc \<and> bt_thread batch = sc_thread sc \<and> jb_turn job = Some (bt_turn batch) \<and>
                  jb_thread job = Some (bt_thread batch) \<and> tn_thread turn = bt_thread batch \<and> jb_kind job = ''agent_turn'' \<and>
                  sn_kind config = ''config'' \<and> json_sha (sn_payload config) = sn_sha config
               then (case jdict (sn_payload config) of
                       None \<Rightarrow> None
                     | Some payload \<Rightarrow>
                         (case jget payload ''connector_catalog_snapshot_id'' of
                            JStr i \<Rightarrow> if i = [] then None else Some i | _ \<Rightarrow> None))
               else None
           | _ \<Rightarrow> None)
      | _ \<Rightarrow> None)"

definition completed_connector_search_for_discovery ::
    "execution_scope \<Rightarrow> string \<Rightarrow> string \<Rightarrow> string \<Rightarrow> string \<Rightarrow> tool_store \<Rightarrow> execution_row option" where
  "completed_connector_search_for_discovery sc capability policy catalog discovery_id s =
     (if \<not> durable_scope sc \<or> parse_connector_discovery_id discovery_id = None \<or>
         \<not> list_all identity_ok [capability, policy, catalog] \<or> batch_connector_snapshot_id sc s \<noteq> Some catalog then None
      else find (record_connector_search_contains catalog discovery_id)
             (rev (completed_scope_rows sc capability policy ''connector_search'' s)))"

text \<open>The search execution that a description names, if it is a completed one of the same scope.\<close>

definition causing_search :: "execution_scope \<Rightarrow> string \<Rightarrow> string \<Rightarrow> string \<Rightarrow> execution_row \<Rightarrow> tool_store \<Rightarrow> execution_row option" where
  "causing_search sc capability policy tool x s =
     (case jdict (record_result x) of
        None \<Rightarrow> None
      | Some result \<Rightarrow>
          (case jget result ''search_tool_call_id'' of
             JStr call \<Rightarrow> completed_scope_tool_call_row sc capability policy call tool s
           | _ \<Rightarrow> None))"

fun first_some :: "('a \<Rightarrow> 'b option) \<Rightarrow> 'a list \<Rightarrow> 'b option" where
  "first_some f [] = None"
| "first_some f (x # xs) = (case f x of Some y \<Rightarrow> Some y | None \<Rightarrow> first_some f xs)"

definition completed_connector_describe_for_discovery ::
    "execution_scope \<Rightarrow> string \<Rightarrow> string \<Rightarrow> string \<Rightarrow> string \<Rightarrow> string \<Rightarrow> tool_store \<Rightarrow> (execution_row \<times> execution_row) option" where
  "completed_connector_describe_for_discovery sc capability policy catalog discovery_id call_tool s =
     (if \<not> connector_call_tool (JStr call_tool) \<or> parse_connector_discovery_id discovery_id = None \<or>
         batch_connector_snapshot_id sc s \<noteq> Some catalog then None
      else first_some
             (\<lambda>describe. case causing_search sc capability policy ''connector_search'' describe s of
                None \<Rightarrow> None
              | Some search \<Rightarrow>
                  if record_connector_describes search catalog discovery_id call_tool describe then Some (describe, search) else None)
             (rev (completed_scope_rows sc capability policy ''connector_describe'' s)))"

definition connector_approval_description ::
    "execution_scope \<Rightarrow> string \<Rightarrow> string \<Rightarrow> string \<Rightarrow> string \<Rightarrow> tool_store \<Rightarrow> jobj option" where
  "connector_approval_description sc capability policy discovery_id call_tool s =
     (case batch_connector_snapshot_id sc s of
        None \<Rightarrow> None
      | Some catalog \<Rightarrow>
          (case completed_connector_describe_for_discovery sc capability policy catalog discovery_id call_tool s of
             None \<Rightarrow> None
           | Some (describe, _) \<Rightarrow>
               (case jdict (record_result describe) of None \<Rightarrow> None | Some result \<Rightarrow> jdict (jget result ''action''))))"

definition describes_connector :: "execution_scope \<Rightarrow> string \<Rightarrow> string \<Rightarrow> string \<Rightarrow> string \<Rightarrow> tool_store \<Rightarrow> execution_row \<Rightarrow> bool" where
  "describes_connector sc capability policy catalog tool s x =
     (case (jdict (record_result x), causing_search sc capability policy ''connector_search'' x s) of
        (Some result, Some search) \<Rightarrow>
          (case jget result ''discovery_id'' of
             JStr discovery_id \<Rightarrow> record_connector_describes search catalog discovery_id tool x | _ \<Rightarrow> False)
      | _ \<Rightarrow> False)"

definition has_completed_connector_disclosure :: "execution_scope \<Rightarrow> string \<Rightarrow> string \<Rightarrow> string \<Rightarrow> tool_store \<Rightarrow> bool" where
  "has_completed_connector_disclosure sc capability policy tool s =
     (connector_call_tool (JStr tool) \<and> durable_scope sc \<and>
      (case batch_connector_snapshot_id sc s of
         None \<Rightarrow> False
       | Some catalog \<Rightarrow>
           list_ex (describes_connector sc capability policy catalog tool s)
             (completed_scope_rows sc capability policy ''connector_describe'' s)))"

definition has_described_tool :: "execution_scope \<Rightarrow> string \<Rightarrow> string \<Rightarrow> string \<Rightarrow> string \<Rightarrow> tool_store \<Rightarrow> bool" where
  "has_described_tool sc capability policy tool version s =
     list_ex (\<lambda>x. case causing_search sc capability policy ''tool_search'' x s of
         None \<Rightarrow> False
       | Some search \<Rightarrow> record_discloses search capability tool version x)
       (completed_scope_rows sc capability policy ''tool_describe'' s)"

definition has_completed_disclosure :: "execution_scope \<Rightarrow> string \<Rightarrow> string \<Rightarrow> string \<Rightarrow> string \<Rightarrow> tool_store \<Rightarrow> bool" where
  "has_completed_disclosure sc capability policy tool version s =
     (if tool = ''skill_read'' then version = ''1.0.0'' \<and> has_completed_skill_search sc capability policy s
      else if tool = ''skill_run'' then version = ''1.0.0'' \<and> has_completed_skill_read sc capability policy s
      else if connector_call_tool (JStr tool)
      then version = ''1.0.0'' \<and> has_completed_connector_disclosure sc capability policy tool s
      else if \<not> durable_scope sc \<or> \<not> list_all identity_ok [capability, policy, tool, version] then False
      else has_described_tool sc capability policy tool version s)"

text \<open>\<^verbatim>\<open>DurableDeferredDisclosureAuthority.verify\<close>\<close>

definition verify_disclosure :: "execution_scope \<Rightarrow> string \<Rightarrow> string \<Rightarrow> string \<Rightarrow> string \<Rightarrow> tool_store \<Rightarrow> bool" where
  "verify_disclosure sc capability policy tool version s = has_completed_disclosure sc capability policy tool version s"

end
