(* ===== verification/ToolLedger.thy ===== *)
theory ToolLedger
  imports ToolExecutions PermissionRuns
begin

text \<open>
  Runs of the tool execution ledger.  An execution keeps its identity and a completed one keeps its result; a tool call
  gets at most one permit, which is bound to the execution, to the answer of a person where it claims one, and to the
  permission that is stored when it is inserted.
\<close>

section \<open>How the ledger may change\<close>

definition status_may :: "execution_status \<Rightarrow> execution_status \<Rightarrow> bool" where
  "status_may a b =
     (case a of
        ExecStarted \<Rightarrow> True
      | ExecCompleted \<Rightarrow> b = ExecCompleted
      | ExecFailed \<Rightarrow> b = ExecFailed
      | ExecSkipped \<Rightarrow> b = ExecSkipped \<or> b = ExecFailed)"

definition same_execution :: "execution_row \<Rightarrow> execution_row \<Rightarrow> bool" where
  "same_execution x y =
     (tx_call y = tx_call x \<and> tx_job y = tx_job x \<and> tx_turn y = tx_turn x \<and> tx_batch y = tx_batch x \<and>
      tx_capability y = tx_capability x \<and> tx_policy y = tx_policy x \<and> tx_tool y = tx_tool x \<and>
      tx_arguments y = tx_arguments x \<and> tx_arguments_sha y = tx_arguments_sha x \<and> tx_key y = tx_key x \<and>
      tx_created_at y = tx_created_at x)"

definition execution_kept :: "execution_row \<Rightarrow> execution_row \<Rightarrow> bool" where
  "execution_kept x y =
     (same_execution x y \<and> tx_attempt x \<le> tx_attempt y \<and> status_may (tx_status x) (tx_status y) \<and>
      (tx_status x = ExecCompleted \<longrightarrow> y = x))"

definition executions_evolve :: "tool_store \<Rightarrow> tool_store \<Rightarrow> bool" where
  "executions_evolve s s' =
     ((\<forall>i x. find_execution i s = Some x \<longrightarrow> (\<exists>y. find_execution i s' = Some y \<and> execution_kept x y)) \<and>
      (\<exists>as. ts_admissions s' = ts_admissions s @ as) \<and>
      (distinct (map tx_call (ts_executions s)) \<longrightarrow> distinct (map tx_call (ts_executions s'))))"

lemma execution_kept_refl [simp]: "execution_kept x x"
  by (cases "tx_status x") (simp_all add: execution_kept_def same_execution_def status_may_def)

lemma execution_kept_trans: "execution_kept x y \<Longrightarrow> execution_kept y z \<Longrightarrow> execution_kept x z"
  by (cases "tx_status x"; cases "tx_status y") (auto simp: execution_kept_def same_execution_def status_may_def)

interpretation ledger: step_order executions_evolve
proof
  show "executions_evolve s s" for s by (simp add: executions_evolve_def)
  show "executions_evolve s u" if "executions_evolve s t" "executions_evolve t u" for s t u
  proof -
    have "\<exists>z. find_execution i u = Some z \<and> execution_kept x z" if x: "find_execution i s = Some x" for i x
    proof -
      obtain y where "find_execution i t = Some y" "execution_kept x y"
        using \<open>executions_evolve s t\<close> x by (auto simp: executions_evolve_def)
      moreover from this obtain z where "find_execution i u = Some z" "execution_kept y z"
        using \<open>executions_evolve t u\<close> by (auto simp: executions_evolve_def)
      ultimately show ?thesis using execution_kept_trans by blast
    qed
    then show ?thesis using that by (auto simp: executions_evolve_def)
  qed
qed

lemma wp_require_execution [wp_simps]:
  "wp (require_execution i) Q s = (\<forall>x. find_execution i s = Some x \<longrightarrow> Q x s)"
  by (simp add: require_execution_def wp_simps)

lemma wp_update_and_read [wp_simps]:
  assumes "\<And>r. tx_call (f r) = tx_call r"
  shows "wp (update_and_read i f) Q s =
     (\<forall>x. find_execution i s = Some x \<longrightarrow>
        Q (f x) (s\<lparr>ts_executions := update_rows (\<lambda>r. tx_call r = i) f (ts_executions s)\<rparr>))"
  using find_update_rows_same [of tx_call f i "ts_executions s"] assms
  by (auto simp: update_and_read_def update_execution_def wp_simps find_execution_def)

lemma find_execution_update:
  assumes "\<And>r. tx_call (f r) = tx_call r"
  shows "find_execution j (s\<lparr>ts_executions := update_rows (\<lambda>r. tx_call r = i) f (ts_executions s)\<rparr>) =
     (if i = j then map_option f (find_execution j s) else find_execution j s)"
  using assms by (auto simp: find_execution_def find_update_rows_same find_update_rows_other)

lemma evolve_update:
  assumes "\<And>r. tx_call (f r) = tx_call r" and "find_execution i s = Some x" and "execution_kept x (f x)"
  shows "executions_evolve s (s\<lparr>ts_executions := update_rows (\<lambda>r. tx_call r = i) f (ts_executions s)\<rparr>)"
proof -
  have "map tx_call (update_rows (\<lambda>r. tx_call r = i) f xs) = map tx_call xs" for xs
    using assms(1) by (simp add: update_rows_def)
  then show ?thesis using assms by (auto simp: executions_evolve_def find_execution_update)
qed

lemma evolve_insert:
  "find_execution (tx_call r) s = None \<Longrightarrow> executions_evolve s (s\<lparr>ts_executions := ts_executions s @ [r]\<rparr>)"
  by (auto simp: executions_evolve_def find_execution_def find_append find_None_iff)

lemma evolve_admission: "executions_evolve s (s\<lparr>ts_admissions := ts_admissions s @ [r]\<rparr>)"
  by (simp add: executions_evolve_def find_execution_def)

section \<open>Every call\<close>

text \<open>The calls of the repository; everything outside its own tables may change in between.\<close>

inductive tool_step :: "tool_store \<Rightarrow> tool_store \<Rightarrow> bool" where
  begin_call: "tool_step s (snd (begin_execution q now s))"
| retry: "tool_step s (snd (record_retry i now s))"
| complete: "tool_step s (snd (complete_execution i result now s))"
| skip: "tool_step s (snd (skip_execution i reason now s))"
| fail: "tool_step s (snd (fail_execution i error_code now s))"
| admit: "tool_step s (snd (admit q now s))"
| outside: "tool_step s (s\<lparr>ts_db := d, ts_permissions := p, ts_snapshots := n\<rparr>)"

definition empty_tools :: "db \<Rightarrow> permission_db \<Rightarrow> snapshot_row list \<Rightarrow> tool_store" where
  "empty_tools d p n = \<lparr>ts_db = d, ts_permissions = p, ts_snapshots = n, ts_executions = [], ts_admissions = []\<rparr>"

inductive tool_run :: "tool_store \<Rightarrow> bool" where
  start: "tool_run (empty_tools d p n)"
| step: "tool_run s \<Longrightarrow> tool_step s s' \<Longrightarrow> tool_run s'"

lemma kept_update:
  "tx_status x = ExecStarted \<or> tx_status x = ExecSkipped \<and> st = ExecSkipped \<Longrightarrow>
     execution_kept x (x\<lparr>tx_status := st, tx_result := v, tx_error := e, tx_updated_at := t\<rparr>)"
  "tx_status x = ExecStarted \<Longrightarrow> execution_kept x (x\<lparr>tx_attempt := tx_attempt x + 1, tx_updated_at := t\<rparr>)"
  "tx_status x \<noteq> ExecCompleted \<Longrightarrow> execution_kept x (x\<lparr>tx_status := ExecFailed, tx_error := e, tx_updated_at := t\<rparr>)"
  unfolding execution_kept_def same_execution_def status_may_def by (auto split: execution_status.splits)

lemma keeps_insert_execution: "keeps executions_evolve (insert_execution r)"
  by (rule keepsI) (simp add: insert_execution_def wp_simps evolve_insert)

lemma keeps_begin: "keeps executions_evolve (begin_in_transaction q now)"
  unfolding begin_in_transaction_def by (intro ledger.keeps_intros keeps_insert_execution)

lemma admit_wp:
  "wp (admit_in_transaction q digest now) Q s =
     (\<forall>x job. find_execution (aq_call q) s = Some x \<longrightarrow> admit_execution q x = Inr () \<longrightarrow> admit_scope q (ts_db s) = Inr job \<longrightarrow>
        admit_permission q digest (ts_permissions s) = Inr () \<longrightarrow> admit_batch q (ts_db s) = Inr () \<longrightarrow>
        admit_approval q x job (ts_db s) = Inr () \<longrightarrow>
        (case find_admission (aq_call q) s of
           Some r \<Rightarrow> (\<forall>a. admission_from_row r = Inr a \<longrightarrow> same_admission q digest x r a \<longrightarrow> Q a s)
         | None \<Rightarrow>
             wp (seq (insert_admission (new_admission q digest x now))
                   (lift_result (admission_from_row (new_admission q digest x now)))) Q s))"
  unfolding admit_in_transaction_def by (simp add: wp_simps split: option.splits) blast

lemma keeps_admit: "keeps executions_evolve (admit_in_transaction q digest now)"
proof (rule keepsI)
  fix s
  show "wp (admit_in_transaction q digest now) (\<lambda>_ s'. executions_evolve s s') s"
    unfolding admit_wp
    by (auto simp: insert_admission_def wp_simps ledger.R_refl evolve_admission split: option.splits)
qed

lemma step_evolves: "tool_step s s' \<Longrightarrow> executions_evolve s s'"
proof (induction rule: tool_step.induct)
  case (begin_call s q now)
  show ?case using ledger.transaction_keeps [OF keeps_begin] by (simp add: begin_execution_def ledger.R_refl)
next
  case (retry s i now)
  show ?case unfolding record_retry_def
    by (rule ledger.transaction_keeps, rule keepsI)
       (auto simp: wp_simps ledger.R_refl intro!: evolve_update kept_update)
next
  case (complete s i result now)
  show ?case unfolding complete_execution_def
    by (rule ledger.transaction_keeps, rule keepsI)
       (auto simp: wp_simps ledger.R_refl intro!: evolve_update kept_update)
next
  case (skip s i reason now)
  show ?case unfolding skip_execution_def
    by (rule ledger.transaction_keeps, rule keepsI)
       (auto simp: wp_simps intro!: evolve_update kept_update)
next
  case (fail s i error_code now)
  show ?case unfolding fail_execution_def
    by (rule ledger.transaction_keeps, rule keepsI)
       (auto simp: wp_simps intro!: evolve_update kept_update)
next
  case (admit s q now)
  show ?case using ledger.transaction_keeps [OF keeps_admit] by (simp add: admit_def ledger.R_refl split: sum.splits)
next
  case (outside s d p n)
  show ?case by (simp add: executions_evolve_def find_execution_def)
qed

lemma steps_evolve: "tool_step\<^sup>*\<^sup>* s s' \<Longrightarrow> executions_evolve s s'"
proof (induction rule: rtranclp_induct)
  case base
  show ?case by (rule ledger.R_refl)
next
  case (step t u)
  then show ?case using step_evolves ledger.R_trans by blast
qed

text \<open>
  C19.  A tool execution is never lost and keeps the identity it was begun with, its attempts only grow, a failed one never
  completes, and a completed one keeps its result and every other column, whatever calls follow.\<close>

theorem completed_execution_is_final:
  assumes "tool_step\<^sup>*\<^sup>* s s'" and "find_execution i s = Some x"
  shows "\<exists>y. find_execution i s' = Some y \<and> same_execution x y \<and> tx_attempt x \<le> tx_attempt y \<and>
     status_may (tx_status x) (tx_status y) \<and> (tx_status x = ExecCompleted \<longrightarrow> y = x)"
  using steps_evolve [OF assms(1)] assms(2) by (auto simp: executions_evolve_def execution_kept_def)

section \<open>Permits\<close>

lemma parse_sandbox_text [simp]: "parse_sandbox (sandbox_text l) = Some l"
  by (cases l) (simp_all add: parse_sandbox_def)

lemma new_admission_sel [simp]:
  "ad_call (new_admission q d x now) = aq_call q" "ad_job (new_admission q d x now) = aq_job q"
  "ad_thread (new_admission q d x now) = aq_thread q" "ad_turn (new_admission q d x now) = aq_turn q"
  "ad_batch (new_admission q d x now) = aq_batch q" "ad_capability (new_admission q d x now) = aq_capability q"
  "ad_account (new_admission q d x now) = aq_account q" "ad_frozen (new_admission q d x now) = aq_frozen q"
  "ad_current (new_admission q d x now) = aq_current q" "ad_digest (new_admission q d x now) = d"
  "ad_tool (new_admission q d x now) = aq_tool q" "ad_version (new_admission q d x now) = aq_version q"
  "ad_arguments_sha (new_admission q d x now) = tx_arguments_sha x" "ad_key (new_admission q d x now) = tx_key x"
  "ad_approved (new_admission q d x now) = aq_approved q" "ad_interaction (new_admission q d x now) = aq_interaction q"
  "ad_sandbox (new_admission q d x now) = sandbox_text (aq_sandbox q)" "ad_availability (new_admission q d x now) = aq_availability q"
  by (simp_all add: new_admission_def Let_def)

lemma new_admission_digest:
  "ad_permit_digest (new_admission q d x now) = permit_digest_of (new_admission q d x now)"
  "ad_permit (new_admission q d x now) = ''permit_'' @ permit_digest_of (new_admission q d x now)"
  by (simp_all add: new_admission_def Let_def permit_digest_of_def permit_payload_def)

lemma admit_argumentsD:
  assumes "admit_arguments q = Inr d"
  shows "aq_digest q = Some d"
    and "list_all identity_ok [aq_call q, aq_job q, aq_thread q, aq_turn q, aq_batch q, aq_capability q, aq_account q, aq_frozen q,
           aq_current q, aq_tool q, aq_version q]"
    and "aq_approved q \<longleftrightarrow> aq_interaction q \<noteq> None"
  using assms by (auto simp: admit_arguments_def split: if_splits option.splits)

lemma new_admission_reads:
  assumes "admit_arguments q = Inr d"
  shows "\<exists>a. admission_from_row (new_admission q d x now) = Inr a"
  using admit_argumentsD(2) [OF assms]
  by (simp add: admission_from_row_def new_admission_digest execution_scope_ok_def admission_scope_def)

text \<open>What a permit says about its execution.\<close>

definition admission_bound :: "admission_row \<Rightarrow> execution_row \<Rightarrow> bool" where
  "admission_bound r x =
     (ad_call r = tx_call x \<and> ad_job r = tx_job x \<and> ad_turn r = tx_turn x \<and> ad_batch r = tx_batch x \<and>
      ad_capability r = tx_capability x \<and> ad_frozen r = tx_policy x \<and> ad_tool r = tx_tool x \<and>
      ad_arguments_sha r = tx_arguments_sha x \<and> ad_key r = tx_key x)"

definition admissions_ok :: "tool_store \<Rightarrow> bool" where
  "admissions_ok s =
     (distinct (map ad_call (ts_admissions s)) \<and> distinct (map ad_permit (ts_admissions s)) \<and>
      (\<forall>r\<in>set (ts_admissions s). (\<exists>a. admission_from_row r = Inr a) \<and>
         (\<exists>x. find_execution (ad_call r) s = Some x \<and> admission_bound r x)))"

lemma bound_evolves:
  assumes "executions_evolve s s'" and "find_execution i s = Some x" and "admission_bound r x"
  shows "\<exists>y. find_execution i s' = Some y \<and> admission_bound r y"
proof -
  obtain y where "find_execution i s' = Some y" "execution_kept x y" using assms by (auto simp: executions_evolve_def)
  then show ?thesis using assms(3) by (simp add: execution_kept_def same_execution_def admission_bound_def)
qed

lemma admissions_ok_evolve:
  assumes "admissions_ok s" and "executions_evolve s s'" and "ts_admissions s' = ts_admissions s"
  shows "admissions_ok s'"
  using assms bound_evolves unfolding admissions_ok_def by metis

text \<open>What \<^verbatim>\<open>admit\<close> has checked when it returns a permit.\<close>

definition admit_checked :: "admit_request \<Rightarrow> string \<Rightarrow> execution_row \<Rightarrow> job_row \<Rightarrow> tool_store \<Rightarrow> bool" where
  "admit_checked q d x job s =
     (admit_arguments q = Inr d \<and> find_execution (aq_call q) s = Some x \<and> admit_execution q x = Inr () \<and>
      admit_scope q (ts_db s) = Inr job \<and> admit_permission q d (ts_permissions s) = Inr () \<and>
      admit_batch q (ts_db s) = Inr () \<and> admit_approval q x job (ts_db s) = Inr ())"

definition admit_result ::
    "admit_request \<Rightarrow> int \<Rightarrow> string \<Rightarrow> execution_row \<Rightarrow> tool_store \<Rightarrow> invocation_admission \<Rightarrow> tool_store \<Rightarrow> bool" where
  "admit_result q now d x s a s' =
     (case find_admission (aq_call q) s of
        Some r \<Rightarrow> s' = s \<and> admission_from_row r = Inr a \<and> same_admission q d x r a
      | None \<Rightarrow>
          (let r = new_admission q d x now
           in s' = s\<lparr>ts_admissions := ts_admissions s @ [r]\<rparr> \<and> admission_from_row r = Inr a \<and>
              (\<forall>o'\<in>set (ts_admissions s). ad_call o' \<noteq> ad_call r \<and> ad_permit o' \<noteq> ad_permit r)))"

lemma admit_returns:
  assumes "admit q now s = (Inr a, s')"
  obtains d x job where "admit_checked q d x job s" and "admit_result q now d x s a s'"
proof -
  obtain d where d: "admit_arguments q = Inr d" "admit_in_transaction q d now s = Inr (a, s')"
    using assms by (auto simp: admit_def transaction_def split: sum.splits prod.splits)
  have "wp (admit_in_transaction q d now) (\<lambda>a s'. \<exists>x job. admit_checked q d x job s \<and> admit_result q now d x s a s') s"
    unfolding admit_wp
    by (auto simp: admit_checked_def admit_result_def d(1) insert_admission_def wp_simps list_ex_iff Let_def split: option.splits)
  from wpD [OF this d(2)] show ?thesis using that by blast
qed

lemma admit_raises: "admit q now s = (Inl e, s') \<Longrightarrow> s' = s"
  using transaction_rollback [of "admit_in_transaction q _ now" s e]
  by (auto simp: admit_def split: sum.splits) (metis fst_conv snd_conv)

interpretation permits: step_order "\<lambda>s s'. ts_admissions s' = ts_admissions s"
  by unfold_locales auto

lemma step_admissions: "tool_step s s' \<Longrightarrow> ts_admissions s' = ts_admissions s \<or> (\<exists>q now. s' = snd (admit q now s))"
proof (induction rule: tool_step.induct)
  case (begin_call s q now)
  have "keeps (\<lambda>s s'. ts_admissions s' = ts_admissions s) (insert_execution r)" for r
    by (simp add: keeps_def insert_execution_def wp_simps)
  then have "keeps (\<lambda>s s'. ts_admissions s' = ts_admissions s) (begin_in_transaction q now)"
    unfolding begin_in_transaction_def by (intro permits.keeps_intros)
  from permits.transaction_keeps [OF this] show ?case by (simp add: begin_execution_def)
next
  case (retry s i now)
  show ?case unfolding record_retry_def
    by (rule disjI1, rule permits.transaction_keeps, rule keepsI) (simp add: wp_simps)
next
  case (complete s i result now)
  show ?case unfolding complete_execution_def
    by (rule disjI1, rule permits.transaction_keeps, rule keepsI) (simp add: wp_simps)
next
  case (skip s i reason now)
  show ?case unfolding skip_execution_def
    by (rule disjI1, rule permits.transaction_keeps, rule keepsI) (simp add: wp_simps)
next
  case (fail s i error_code now)
  show ?case unfolding fail_execution_def
    by (rule disjI1, rule permits.transaction_keeps, rule keepsI) (simp add: wp_simps)
qed auto

lemma admit_keeps_ok:
  assumes ok: "admissions_ok s"
  shows "admissions_ok (snd (admit q now s))"
proof (cases "admit q now s")
  case (Pair res s')
  show ?thesis
  proof (cases res)
    case (Inl e)
    then show ?thesis using admit_raises Pair ok by fastforce
  next
    case (Inr a)
    obtain d x job where checked: "admit_checked q d x job s" and result: "admit_result q now d x s a s'"
      using admit_returns Pair Inr by metis
    show ?thesis
    proof (cases "find_admission (aq_call q) s")
      case (Some r)
      then show ?thesis using result Pair ok by (simp add: admit_result_def)
    next
      case None
      let ?r = "new_admission q d x now"
      have s': "s' = s\<lparr>ts_admissions := ts_admissions s @ [?r]\<rparr>" "admission_from_row ?r = Inr a"
          "\<forall>o'\<in>set (ts_admissions s). ad_call o' \<noteq> ad_call ?r \<and> ad_permit o' \<noteq> ad_permit ?r"
        using result None by (auto simp: admit_result_def Let_def)
      have "find_execution (aq_call q) s = Some x" using checked by (simp add: admit_checked_def)
      moreover from this have "tx_call x = aq_call q" by (auto simp: find_execution_def dest: find_SomeD)
      ultimately have "find_execution (ad_call ?r) s' = Some x \<and> admission_bound ?r x"
        using checked s'(1)
        by (auto simp: admit_checked_def admit_execution_def conflict_unless_def ebind_def admission_bound_def find_execution_def
            split: if_splits)
      moreover have "find_execution i s' = find_execution i s" for i using s'(1) by (simp add: find_execution_def)
      ultimately show ?thesis using ok s' Pair by (auto simp: admissions_ok_def)
    qed
  qed
qed

lemma run_admissions_ok: "tool_run s \<Longrightarrow> admissions_ok s"
proof (induction rule: tool_run.induct)
  case (start d p n)
  show ?case by (simp add: admissions_ok_def empty_tools_def)
next
  case (step s s')
  then show ?case
    using step_admissions [OF step(2)] admissions_ok_evolve [OF step(3) step_evolves [OF step(2)]] admit_keeps_ok [OF step(3)] by auto
qed

lemma run_tools: "tool_step\<^sup>*\<^sup>* s s' \<Longrightarrow> tool_run s \<Longrightarrow> tool_run s'"
  by (induction rule: rtranclp_induct) (auto intro: tool_run.step)

text \<open>
  C20.  In every run a tool call has at most one permit and no two permits share their identifier; each one still passes the digest
  check when it is read, and names the job, turn, batch, snapshots, tool, arguments and idempotency key of the execution it
  was issued for.\<close>

theorem permits_are_unique_and_bound:
  assumes "tool_run s"
  shows "distinct (map ad_call (ts_admissions s)) \<and> distinct (map ad_permit (ts_admissions s)) \<and>
     list_all (\<lambda>r. (\<exists>a. admission_from_row r = Inr a) \<and>
       (\<exists>x. find_execution (ad_call r) s = Some x \<and> admission_bound r x)) (ts_admissions s)"
  using run_admissions_ok [OF assms] by (simp add: admissions_ok_def list_all_iff)

lemma find_admission_evolves:
  "executions_evolve s s' \<Longrightarrow> find_admission i s = Some r \<Longrightarrow> find_admission i s' = Some r"
  by (auto simp: executions_evolve_def find_admission_def find_append)

text \<open>
  C21.  A tool call is admitted once.  After a permit was returned for it, any later request that names the call and is accepted
  returns that same permit and writes nothing, whatever happened in between.\<close>

theorem one_permit_per_call:
  assumes first: "admit q now s = (Inr a, s')" and later: "tool_step\<^sup>*\<^sup>* s' t"
    and again: "admit q' now' t = (Inr a', t')" and call: "aq_call q' = aq_call q"
  shows "a' = a \<and> t' = t"
proof -
  have "\<exists>r. find_admission (aq_call q) s' = Some r \<and> admission_from_row r = Inr a"
    using first
  proof (rule admit_returns)
    fix d x job assume "admit_result q now d x s a s'"
    then show ?thesis
      by (auto simp: admit_result_def Let_def find_admission_def find_append split: option.splits)
  qed
  then obtain r where r: "find_admission (aq_call q) t = Some r" "admission_from_row r = Inr a"
    using find_admission_evolves [OF steps_evolve [OF later]] by blast
  from again show ?thesis
  proof (rule admit_returns)
    fix d x job assume "admit_result q' now' d x t a' t'"
    then show ?thesis using r call by (simp add: admit_result_def)
  qed
qed

end
