(* ===== verification/PermissionProperties.thy ===== *)
theory PermissionProperties
  imports PermissionRuns
begin

text \<open>
  The properties of the permission authority over its runs: it verifies its own store, its chain is append-only, an
  update refines a small optimistic protocol, a repeated request never undoes a later change, concurrent changes of
  one revision cannot both win, and the cached sample is the one a full verification gives.
\<close>

section \<open>Growth\<close>

lemma revision_of_cong: "account_states account s' = account_states account s \<Longrightarrow> revision_of account s' = revision_of account s"
  by (simp add: revision_of_def find_state_rows)

lemma update_grows:
  assumes ok: "permissions_ok dump s" and a: "authority_ok a"
  shows "permissions_grow s (snd (update_permission dump a profile expected rid now s))"
proof -
  have "account_ok dump (au_account a) s" using ok by (simp add: permissions_ok_def)
  from this a show ?thesis
  proof (cases rule: update_cases [of dump a s profile expected rid now])
    case (kept row d)
    then show ?thesis
      by (auto simp: permissions_grow_def appended_request_def revision_of_def find_state_def)
  next
    case (changed row d e)
    let ?s = "appended_request (changed_request dump a row e (ps_revision row) rid) (appended_event e s)"
    have row: "account_states (au_account a) s = [row]" using changed(1) by (simp add: account_live_def)
    have "revision_of account s \<le> revision_of account ?s" for account
    proof (cases "account = au_account a")
      case True
      then show ?thesis using row changed(8) by (simp add: revision_of_def find_state_rows changed_event_def backed_row_def)
    next
      case False
      then have "account_states account ?s = account_states account s" using changed(8) by (simp add: changed_event_def)
      from revision_of_cong [OF this] show ?thesis by simp
    qed
    moreover have "permission_ledger ?s = permission_ledger s @ [e]"
      "\<exists>qs. permission_requests ?s = permission_requests s @ qs"
      by (simp_all add: appended_request_def appended_event_def)
    ultimately show ?thesis unfolding changed(10) snd_conv permissions_grow_def by blast
  qed (simp_all add: growth.R_refl)
qed

lemma initialize_grows:
  assumes ok: "permissions_ok dump s" and a: "authority_ok a"
  shows "permissions_grow s (snd (initialize dump a now s))"
proof -
  have "account_ok dump (au_account a) s" using ok by (simp add: permissions_ok_def)
  then show ?thesis
  proof (cases rule: account_ok_cases)
    case untouched
    have "revision_of account s \<le> revision_of account (factory_store a now s)" for account
      using untouched by (auto simp: revision_of_def find_state_rows untouched_def factory_state_def split: list.splits)
    then show ?thesis
      using initialize_untouched [OF untouched a, of dump now] by (simp add: permissions_grow_def) (simp add: factory_store_def)
  next
    case (live row)
    then show ?thesis using initialize_live [OF live a, of now] by (simp add: growth.R_refl)
  qed
qed

lemma step_grows: "permission_step dump s s' \<Longrightarrow> permissions_ok dump s \<Longrightarrow> permissions_grow s s'"
  by (cases rule: permission_step.cases) (auto intro: update_grows initialize_grows make_authority_ok)

lemma steps_grow: "(permission_step dump)\<^sup>*\<^sup>* s s' \<Longrightarrow> permission_run dump s \<Longrightarrow> permissions_grow s s'"
proof (induction rule: rtranclp_induct)
  case base
  show ?case by (rule growth.R_refl)
next
  case (step t u)
  then have "permissions_grow t u" using step_grows run_ok run_steps by metis
  then show ?case using step growth.R_trans by blast
qed

lemma stored_live:
  assumes "permission_run dump s" and "find_state account s = Some row"
  shows "account_live dump account row s"
proof -
  have "account_ok dump account s" using run_ok [OF assms(1)] by (simp add: permissions_ok_def)
  then show ?thesis
  proof (cases rule: account_ok_cases)
    case untouched
    then show ?thesis using assms(2) by (simp add: untouched_def find_state_rows)
  next
    case (live r)
    then show ?thesis using assms(2) live_find [OF live] by simp
  qed
qed

text \<open>A stored preference changes only with its chain.\<close>

lemma later_row_same:
  assumes run: "permission_run dump s" and steps: "(permission_step dump)\<^sup>*\<^sup>* s t"
    and row: "find_state account s = Some row" and row': "find_state account t = Some row'"
    and same: "\<And>gs. account_rows account t = account_rows account s @ gs \<Longrightarrow> account_live dump account row s \<Longrightarrow>
      account_live dump account row' t \<Longrightarrow> gs = []"
  shows "row' = row"
proof -
  have old: "account_live dump account row s" and new: "account_live dump account row' t"
    using stored_live [OF run row] stored_live [OF run_steps [OF steps run] row'] .
  obtain ds where "permission_ledger t = permission_ledger s @ ds"
    using steps_grow [OF steps run] by (auto simp: permissions_grow_def)
  then obtain gs where gs: "account_rows account t = account_rows account s @ gs" by (simp add: account_rows_def)
  then have "last (account_rows account t) = last (account_rows account s)" using same [OF gs old new] by simp
  then have "ps_profile row' = ps_profile row" "ps_revision row' = ps_revision row" "ps_updated_at row' = ps_updated_at row"
      "ps_digest row' = ps_digest row"
    using live_parts(5) [OF old] live_parts(5) [OF new] unfolding matches_ledger_def by metis+
  then show ?thesis using live_account [OF old] live_account [OF new] by simp
qed

lemma later_state:
  assumes run: "permission_run dump s" and steps: "(permission_step dump)\<^sup>*\<^sup>* s t" and row: "find_state account s = Some row"
  obtains row' where "find_state account t = Some row'"
proof -
  have "account_rows account s \<noteq> []" using live_parts(3) [OF stored_live [OF run row]] .
  moreover obtain ds where "permission_ledger t = permission_ledger s @ ds"
    using steps_grow [OF steps run] by (auto simp: permissions_grow_def)
  ultimately have rows: "account_rows account t \<noteq> []" by (simp add: account_rows_def)
  have "account_ok dump account t" using run_ok [OF run_steps [OF steps run]] by (simp add: permissions_ok_def)
  then show thesis using rows that live_find by (auto simp: account_ok_def)
qed

lemma later_revision:
  assumes "permission_run dump s" and "(permission_step dump)\<^sup>*\<^sup>* s t" and "find_state account s = Some row" and "find_state account t = Some row'"
  shows "ps_revision row \<le> ps_revision row'"
proof -
  have "revision_of account s \<le> revision_of account t" using steps_grow [OF assms(2,1)] by (simp add: permissions_grow_def)
  then show ?thesis using assms(3,4) by (simp add: revision_of_def)
qed

lemma revision_pins_preference:
  assumes run: "permission_run dump s" and steps: "(permission_step dump)\<^sup>*\<^sup>* s t"
    and row: "find_state account s = Some row" and row': "find_state account t = Some row'" and revision: "ps_revision row' = ps_revision row"
  shows "row' = row"
proof (rule later_row_same [OF assms(1-4)])
  fix gs assume gs: "account_rows account t = account_rows account s @ gs"
    and old: "account_live dump account row s" and new: "account_live dump account row' t"
  have "int (length (account_rows account t)) = ps_revision row'" "int (length (account_rows account s)) = ps_revision row"
    using change_history_last live_parts(3,5) [OF new] live_parts(3,5) [OF old] old new
    by (simp_all add: account_live_def matches_ledger_def)
  then show "gs = []" using gs revision by simp
qed

lemma find_request_grows:
  "permissions_grow s s' \<Longrightarrow> find_request account rid s = Some q \<Longrightarrow> find_request account rid s' = Some q"
  by (auto simp: permissions_grow_def find_request_def find_append)

section \<open>The store verifies\<close>

text \<open>
  C13.  However authorities of any accounts were started and used, starting an authority and reading a full
  verification of it succeed: the code never locks itself out of its own fail-closed checks.\<close>

theorem permission_store_verifies:
  assumes "permission_run dump s" and "make_authority account full denies = Inr a"
  shows "(\<exists>v s'. initialize dump a now s = (Inr v, s')) \<and> (\<exists>sample. fresh_sample dump a s = Inr sample)"
proof -
  have a: "authority_ok a" using assms(2) by (rule make_authority_ok)
  have "account_ok dump (au_account a) s" using run_ok [OF assms(1)] by (simp add: permissions_ok_def)
  then show ?thesis
  proof (cases rule: account_ok_cases)
    case untouched
    then show ?thesis using initialize_untouched [OF untouched a] fresh_untouched [OF untouched a] by blast
  next
    case (live row)
    then show ?thesis using initialize_live [OF live a] fresh_live [OF live a] live_digest [OF live] by metis
  qed
qed

theorem permission_store_verifies_witness:
  "permission_run sample_dump sample_started \<and> make_authority ''acct'' False [] = Inr sample_authority \<and>
   (\<exists>v s'. initialize sample_dump sample_authority 7 sample_started = (Inr v, s')) \<and>
   (\<exists>sample. fresh_sample sample_dump sample_authority sample_started = Inr sample)"
  using permission_store_verifies [OF sample_run sample_made] sample_run sample_made by blast

section \<open>The chain\<close>

text \<open>
  C14.  A verified head fixes the whole history.  If two stores verify and end in the same state digest, then they belong to
  the same account and agree in every column of every ledger entry, or the two chains contain two different texts with
  the same SHA-256.  A digest captured by a turn therefore pins all changes before it.\<close>

theorem verified_head_fixes_history:
  assumes "read_verified_state dump a s = Inr (p, r, t, d)" and "read_verified_state dump' a' s' = Inr (p', r', t', d)"
  shows "a = a' \<and> p = p' \<and> r = r' \<and> iso_auto t = iso_auto t' \<and>
       map event_columns (account_events a s) = map event_columns (account_events a' s') \<or>
     sha256_collision (event_text a ` set (account_events a s)) (event_text a' ` set (account_events a' s'))"
  using assms by (rule verified_head_fixes_chain)

theorem verified_head_fixes_history_witness:
  "\<exists>d. read_verified_state sample_dump ''acct'' sample_started = Inr (''default'', 1, 100, d) \<and>
     (map event_columns (account_events ''acct'' sample_started) = map event_columns (account_events ''acct'' sample_started) \<or>
      sha256_collision (event_text ''acct'' ` set (account_events ''acct'' sample_started))
        (event_text ''acct'' ` set (account_events ''acct'' sample_started)))"
  using sample_reads verified_head_fixes_history by blast

text \<open>
  C15.  The ledger is only appended to, and in every run the entries of an account are numbered from one, each changes
  the profile and is later than the one before, and the last one is the account's stored preference.\<close>

theorem ledger_is_append_only_history:
  assumes "permission_run dump s" and "(permission_step dump)\<^sup>*\<^sup>* s s'"
  shows "(\<exists>es. permission_ledger s' = permission_ledger s @ es) \<and> change_history (account_rows account s') \<and>
     (case find_state account s' of
        None \<Rightarrow> account_rows account s' = []
      | Some row \<Rightarrow> matches_ledger row (last (account_rows account s')))"
proof -
  have "account_ok dump account s'" using run_ok [OF run_steps [OF assms(2,1)]] by (simp add: permissions_ok_def)
  moreover have "\<exists>es. permission_ledger s' = permission_ledger s @ es"
    using steps_grow [OF assms(2,1)] by (simp add: permissions_grow_def)
  ultimately show ?thesis
  proof (cases rule: account_ok_cases)
    case untouched
    then show ?thesis using \<open>\<exists>es. _\<close> by (simp add: untouched_def find_state_rows change_history_def)
  next
    case (live row)
    then show ?thesis using \<open>\<exists>es. _\<close> live_parts(5) [OF live] live_find [OF live] by (simp add: account_live_def)
  qed
qed

theorem ledger_is_append_only_history_witness:
  "permission_run sample_dump (empty_permissions 0) \<and> (permission_step sample_dump)\<^sup>*\<^sup>* (empty_permissions 0) sample_started \<and>
   change_history (account_rows ''acct'' sample_started) \<and>
   (case find_state ''acct'' sample_started of
      None \<Rightarrow> account_rows ''acct'' sample_started = []
    | Some row \<Rightarrow> matches_ledger row (last (account_rows ''acct'' sample_started)))"
proof -
  have steps: "(permission_step sample_dump)\<^sup>*\<^sup>* (empty_permissions 0) sample_started" using sample_step by (rule r_into_rtranclp)
  from ledger_is_append_only_history [OF permission_run.empty this, of "''acct''"] show ?thesis
    using permission_run.empty steps by blast
qed

section \<open>Requests\<close>

text \<open>
  C16.  A request that was answered never acts again.  Repeating it later, through any authority of the account and after
  whatever calls, writes nothing and returns the preference stored by then, so a repeated grant cannot undo a revocation.\<close>

theorem repeated_request_keeps_later_changes:
  assumes run: "permission_run dump s" and a: "make_authority account full denies = Inr a"
    and b: "make_authority account full' denies' = Inr b"
    and answered: "update_permission dump a profile expected rid now s = (Inr v, t)"
    and later: "(permission_step dump)\<^sup>*\<^sup>* t u"
  shows "\<exists>row. find_state account u = Some row \<and>
     update_permission dump b profile expected rid now' u =
       (Inr (issued (au_denies b) (ps_profile row) (ps_revision row) (ps_updated_at row)), u)"
proof -
  have ab: "authority_ok a" "authority_ok b" "au_account a = account" "au_account b = account"
    using make_authorityD [OF a] make_authorityD [OF b] by auto
  have ok: "account_ok dump (au_account a) s" using run_ok [OF run] by (simp add: permissions_ok_def)
  have "\<exists>n q. update_arguments profile expected rid = Inr n \<and> find_request account rid t = Some q \<and>
      pr_fingerprint q \<in> {request_fingerprint profile n, legacy_fingerprint profile}"
    using ok ab(1)
  proof (cases rule: update_cases [of dump a s profile expected rid now])
    case (kept row d)
    then show ?thesis using answered ab(3)
      by (auto simp: find_request_def find_append appended_request_def kept_request_def)
  next
    case (changed row d e)
    then show ?thesis using answered ab(3)
      by (auto simp: find_request_def find_append appended_request_def appended_event_def changed_request_def changed_event_def)
  qed (use answered ab(3) in auto)
  then obtain n q where q: "update_arguments profile expected rid = Inr n" "find_request account rid t = Some q"
      "pr_fingerprint q \<in> {request_fingerprint profile n, legacy_fingerprint profile}" by blast
  have t: "permission_run dump t"
    using permission_run.step [OF run permission_step.update [OF a]] answered by (metis snd_conv)
  have found: "find_request account rid u = Some q" using find_request_grows [OF steps_grow [OF later t] q(2)] .
  have "account_ok dump account u" using run_ok [OF run_steps [OF later t]] by (simp add: permissions_ok_def)
  then show ?thesis
  proof (cases rule: account_ok_cases)
    case untouched
    then show ?thesis using find_requestD [OF found] by (simp add: untouched_def)
  next
    case (live row)
    obtain d where d: "ps_digest row = Some d" using live_digest [OF live] by blast
    from mutate_live [OF live [folded ab(4)] d ab(2) update_argumentsD(2) [OF q(1)] refl, of n rid now'] show ?thesis
      using found q live ab(4) by (auto simp: update_permission_def transaction_def)
  qed
qed

theorem repeated_request_keeps_later_changes_witness:
  "\<exists>v t row. permission_run sample_dump sample_started \<and> make_authority ''acct'' False [] = Inr sample_authority \<and>
     update_permission sample_dump sample_authority ''default'' (JInt 1) ''r1'' 200 sample_started = (Inr v, t) \<and>
     find_state ''acct'' (snd (update_permission sample_dump sample_authority ''full_access'' (JInt 1) ''r2'' 300 t)) = Some row \<and>
     update_permission sample_dump sample_authority ''default'' (JInt 1) ''r1'' 400
       (snd (update_permission sample_dump sample_authority ''full_access'' (JInt 1) ''r2'' 300 t)) =
     (Inr (issued [] (ps_profile row) (ps_revision row) (ps_updated_at row)),
      snd (update_permission sample_dump sample_authority ''full_access'' (JInt 1) ''r2'' 300 t))"
proof -
  obtain v t where "update_permission sample_dump sample_authority ''default'' (JInt 1) ''r1'' 200 sample_started = (Inr v, t)"
    using sample_kept by blast
  note answered = this
  have "(permission_step sample_dump)\<^sup>*\<^sup>* t (snd (update_permission sample_dump sample_authority ''full_access'' (JInt 1) ''r2'' 300 t))"
    by (rule r_into_rtranclp) (rule permission_step.update [OF sample_made])
  from repeated_request_keeps_later_changes [OF sample_run sample_made sample_made answered this, of 400]
  obtain row where "find_state ''acct'' (snd (update_permission sample_dump sample_authority ''full_access'' (JInt 1) ''r2'' 300 t)) = Some row"
      "update_permission sample_dump sample_authority ''default'' (JInt 1) ''r1'' 400
       (snd (update_permission sample_dump sample_authority ''full_access'' (JInt 1) ''r2'' 300 t)) =
      (Inr (issued (au_denies sample_authority) (ps_profile row) (ps_revision row) (ps_updated_at row)),
       snd (update_permission sample_dump sample_authority ''full_access'' (JInt 1) ''r2'' 300 t))" by blast
  moreover have "au_denies sample_authority = []" by (simp add: sample_authority_def)
  ultimately show ?thesis using sample_run sample_made answered by metis
qed

text \<open>An update that appends to the chain was issued for the stored revision and passes it.\<close>

lemma update_revision:
  assumes run: "permission_run dump s" and a: "make_authority account full denies = Inr a"
  shows "permission_ledger (snd (update_permission dump a profile (JInt n) rid now s)) = permission_ledger s \<or>
     n = revision_of account s \<and> n < revision_of account (snd (update_permission dump a profile (JInt n) rid now s))"
proof -
  note a = make_authorityD [OF a]
  have "account_ok dump (au_account a) s" using run_ok [OF run] by (simp add: permissions_ok_def)
  from this a(1) show ?thesis
  proof (cases rule: update_cases [of dump a s profile "JInt n" rid now])
    case (kept row d)
    then show ?thesis by (simp add: appended_request_def)
  next
    case (changed row d e)
    have "account_states account s = [row]" using changed(1) a(2) by (simp add: account_live_def)
    then show ?thesis using changed(3,8,10) a(2)
      by (auto simp: revision_of_def find_state_rows changed_event_def backed_row_def)
  qed simp_all
qed

text \<open>Of two updates that expect the same revision of an account at most one changes the preference, whichever
  authorities of the account issue them and whatever happens in between: the other one appends nothing to the chain.\<close>

theorem lost_update_impossible:
  assumes run: "permission_run dump s" and a: "make_authority account full denies = Inr a"
    and b: "make_authority account full' denies' = Inr b"
    and later: "(permission_step dump)\<^sup>*\<^sup>* (snd (update_permission dump a profile (JInt n) rid now s)) u"
  shows "permission_ledger (snd (update_permission dump a profile (JInt n) rid now s)) = permission_ledger s \<or>
     permission_ledger (snd (update_permission dump b profile' (JInt n) rid' now' u)) = permission_ledger u"
    (is "permission_ledger ?t = _ \<or> _")
proof -
  have t: "permission_run dump ?t" using permission_run.step [OF run permission_step.update [OF a]] .
  have "permission_ledger ?t = permission_ledger s \<or> n < revision_of account ?t"
    using update_revision [OF run a] by blast
  moreover have "permission_ledger (snd (update_permission dump b profile' (JInt n) rid' now' u)) = permission_ledger u \<or>
      n = revision_of account u"
    using update_revision [OF run_steps [OF later t] b] by blast
  moreover have "revision_of account ?t \<le> revision_of account u"
    using steps_grow [OF later t] by (simp add: permissions_grow_def)
  ultimately show ?thesis by auto
qed

theorem lost_update_impossible_witness:
  "permission_run sample_dump sample_started \<and> make_authority ''acct'' False [] = Inr sample_authority \<and>
   (permission_ledger (snd (update_permission sample_dump sample_authority ''full_access'' (JInt 1) ''r1'' 200 sample_started))
      = permission_ledger sample_started \<or>
    permission_ledger (snd (update_permission sample_dump sample_authority ''full_access'' (JInt 1) ''r2'' 300
      (snd (update_permission sample_dump sample_authority ''full_access'' (JInt 1) ''r1'' 200 sample_started)))) =
    permission_ledger (snd (update_permission sample_dump sample_authority ''full_access'' (JInt 1) ''r1'' 200 sample_started)))"
  using lost_update_impossible [OF sample_run sample_made sample_made rtranclp.rtrancl_refl] sample_run sample_made by blast

section \<open>Refinement of the preference\<close>

text \<open>The protocol without digests, chain and audit rows: a preference, its revision, the time of its last change and the
  fingerprints of the requests that were answered.\<close>

record permission_view =
  view_profile :: string
  view_revision :: int
  view_updated_at :: int
  view_requests :: "string \<rightharpoonup> string"

definition permission_view_of :: "string \<Rightarrow> permission_db \<Rightarrow> permission_view option" where
  "permission_view_of account s =
     map_option (\<lambda>row. \<lparr>view_profile = ps_profile row, view_revision = ps_revision row, view_updated_at = ps_updated_at row,
        view_requests = (\<lambda>rid. map_option pr_fingerprint (find_request account rid s))\<rparr>) (find_state account s)"

definition answered_view :: "string \<Rightarrow> int \<Rightarrow> string \<Rightarrow> int \<Rightarrow> permission_view \<Rightarrow> permission_view" where
  "answered_view profile n rid now v =
     (let v' = v\<lparr>view_requests := (view_requests v)(rid \<mapsto> request_fingerprint profile n)\<rparr>
      in if profile = view_profile v then v'
         else v'\<lparr>view_profile := profile, view_revision := n + 1, view_updated_at := max now (view_updated_at v + 1)\<rparr>)"

definition preference_update :: "string \<Rightarrow> json \<Rightarrow> string \<Rightarrow> int \<Rightarrow> permission_view \<Rightarrow> err + permission_view" where
  "preference_update profile expected rid now v =
     ebind (update_arguments profile expected rid) (\<lambda>n.
     case view_requests v rid of
       Some fp \<Rightarrow>
         if fp = request_fingerprint profile n \<or> fp = legacy_fingerprint profile then Inr v
         else Inl (IdempotencyConflictError ''permission client_request_id was reused with different content'')
     | None \<Rightarrow>
         if n \<noteq> view_revision v then Inl (ConflictError ''permission revision changed; refresh settings before retrying'')
         else Inr (answered_view profile n rid now v))"

text \<open>The update would hash a text whose SHA-256 is already the digest of another entry of the account.\<close>

definition update_collides :: "string \<Rightarrow> string \<Rightarrow> string \<Rightarrow> int \<Rightarrow> permission_db \<Rightarrow> bool" where
  "update_collides account profile rid now s =
     (case find_state account s of
        None \<Rightarrow> False
      | Some row \<Rightarrow> sha256_collision (event_text account ` set (account_rows account s))
          {state_text account profile (ps_revision row + 1) (next_timestamp (ps_updated_at row) now) (ps_digest row) rid})"

lemma next_timestamp_max: "next_timestamp t now = max now (t + 1)"
  by (simp add: next_timestamp_def)

lemma verified_digest:
  "verify_ledger account d r es = Inr () \<Longrightarrow> e \<in> set es \<Longrightarrow> pl_digest e = sha256_hexdigest (event_text account e)"
  by (induction es arbitrary: d r) (auto simp: verify_ledger_Cons event_verified_def)

lemma taken_collides:
  assumes live: "account_live dump account row s" and d: "ps_digest row = Some d"
    and e: "e = changed_event a profile (ps_revision row + 1) (next_timestamp (ps_updated_at row) now) d rid"
    and a: "au_account a = account" and taken: "digest_taken e s"
  shows "update_collides account profile rid now s"
proof -
  let ?text = "state_text account profile (ps_revision row + 1) (next_timestamp (ps_updated_at row) now) (Some d) rid"
  obtain x where x: "x \<in> set (account_rows account s)" "pl_digest x = pl_digest e"
    using taken a by (auto simp: digest_taken_def e changed_event_def)
  have "pl_revision x \<noteq> ps_revision row + 1" using live_revision_bound [OF live x(1)] by simp
  then have "event_text account x \<noteq> ?text" unfolding event_text_def using state_text_inj by blast
  moreover have "sha256_hexdigest (event_text account x) = sha256_hexdigest ?text"
    using verified_digest [OF live_parts(4) [OF live] x(1)] x(2) a
    by (simp add: e changed_event_def state_digest_text)
  ultimately show ?thesis using live d x(1) by (auto simp: update_collides_def sha256_collision_def)
qed

lemma view_live:
  "account_live dump account row s \<Longrightarrow>
     permission_view_of account s = Some \<lparr>view_profile = ps_profile row, view_revision = ps_revision row,
       view_updated_at = ps_updated_at row, view_requests = (\<lambda>rid. map_option pr_fingerprint (find_request account rid s))\<rparr>"
  by (simp add: permission_view_of_def)

lemma view_appended_request:
  assumes "find_request account (pr_request q) s = None" and "pr_account q = account" and "permission_view_of account s = Some v"
  shows "permission_view_of account (appended_request q s) =
     Some (v\<lparr>view_requests := (view_requests v)(pr_request q \<mapsto> pr_fingerprint q)\<rparr>)"
proof -
  have "(\<lambda>rid. map_option pr_fingerprint (find_request account rid (appended_request q s))) =
      (\<lambda>rid. map_option pr_fingerprint (find_request account rid s))(pr_request q \<mapsto> pr_fingerprint q)"
    using assms(1,2)
    by (intro ext) (auto simp: find_request_def find_append appended_request_def split: option.splits)
  then show ?thesis using assms(3) by (auto simp: permission_view_of_def find_state_rows)
qed

lemma view_appended_event:
  assumes "account_live dump account row s" and "pl_account e = account"
  shows "permission_view_of account (appended_event e s) =
     Some \<lparr>view_profile = pl_profile e, view_revision = pl_revision e, view_updated_at = pl_created_at e,
       view_requests = (\<lambda>rid. map_option pr_fingerprint (find_request account rid s))\<rparr>"
  using assms by (simp add: permission_view_of_def find_state_rows account_live_def backed_row_def)

lemma view_others:
  assumes "account_states b s' = account_states b s" and "account_requests b s' = account_requests b s"
  shows "permission_view_of b s' = permission_view_of b s"
proof -
  have "find (\<lambda>q. pr_account q = b \<and> pr_request q = rid) qs = find (\<lambda>q. pr_request q = rid) (filter (\<lambda>q. pr_account q = b) qs)"
    for rid and qs :: "permission_request list" by (induction qs) auto
  then have "find_request b rid s = find (\<lambda>q. pr_request q = rid) (account_requests b s)" for rid s
    unfolding find_request_def account_requests_def .
  then show ?thesis using assms by (simp add: permission_view_of_def find_state_rows)
qed

lemma kept_view:
  assumes "account_live dump (au_account a) row s" and "find_request (au_account a) rid s = None"
  shows "permission_view_of (au_account a) (appended_request (kept_request dump a row d n rid now) s) =
     map_option (answered_view (ps_profile row) n rid now) (permission_view_of (au_account a) s)"
  using view_appended_request [OF _ _ view_live [OF assms(1)], of "kept_request dump a row d n rid now"] assms view_live [OF assms(1)]
  by (simp add: kept_request_def answered_view_def Let_def)

lemma changed_view:
  assumes live: "account_live dump (au_account a) row s" and none: "find_request (au_account a) rid s = None"
    and e: "e = changed_event a profile (ps_revision row + 1) (next_timestamp (ps_updated_at row) now) d rid"
    and profile: "profile \<noteq> ps_profile row"
  shows "permission_view_of (au_account a) (appended_request (changed_request dump a row e (ps_revision row) rid) (appended_event e s)) =
     map_option (answered_view profile (ps_revision row) rid now) (permission_view_of (au_account a) s)"
proof -
  let ?q = "changed_request dump a row e (ps_revision row) rid"
  have cols: "pl_account e = au_account a" "pl_profile e = profile" "pl_revision e = ps_revision row + 1"
      "pl_created_at e = max now (ps_updated_at row + 1)" "pr_account ?q = au_account a" "pr_request ?q = rid"
      "pr_fingerprint ?q = request_fingerprint profile (ps_revision row)"
    by (simp_all add: e changed_event_def changed_request_def next_timestamp_max)
  show ?thesis
    using view_appended_request [OF _ _ view_appended_event [OF live cols(1)], of ?q] none cols profile view_live [OF live]
    by (simp add: answered_view_def Let_def)
qed

definition refines_view ::
    "(permission_snapshot \<Rightarrow> string) \<Rightarrow> authority \<Rightarrow> permission_db \<Rightarrow> permission_view \<Rightarrow> (err + permission_snapshot) \<times> permission_db \<Rightarrow> bool" where
  "refines_view dump a s v' result =
     (fst result = Inr (issued (au_denies a) (view_profile v') (view_revision v') (view_updated_at v')) \<and>
      permission_view_of (au_account a) (snd result) = Some v' \<and>
      (\<forall>b. b \<noteq> au_account a \<longrightarrow> permission_view_of b (snd result) = permission_view_of b s))"

lemma kept_refines:
  assumes "account_live dump (au_account a) row s" and "find_request (au_account a) rid s = None"
    and "permission_view_of (au_account a) s = Some v"
  shows "refines_view dump a s (answered_view (ps_profile row) (ps_revision row) rid now v)
     (Inr (issued (au_denies a) (ps_profile row) (ps_revision row) (ps_updated_at row)),
      appended_request (kept_request dump a row d (ps_revision row) rid now) s)"
proof -
  have "permission_view_of b (appended_request (kept_request dump a row d (ps_revision row) rid now) s) = permission_view_of b s"
    if "b \<noteq> au_account a" for b
    using that by (intro view_others) (simp_all add: kept_request_def)
  then show ?thesis
    using assms kept_view [OF assms(1,2)] view_live [OF assms(1)]
    by (auto simp: refines_view_def answered_view_def Let_def)
qed

lemma changed_refines:
  assumes live: "account_live dump (au_account a) row s" and none: "find_request (au_account a) rid s = None"
    and v: "permission_view_of (au_account a) s = Some v" and profile: "profile \<noteq> ps_profile row"
    and e: "e = changed_event a profile (ps_revision row + 1) (next_timestamp (ps_updated_at row) now) d rid"
  shows "refines_view dump a s (answered_view profile (ps_revision row) rid now v)
     (Inr (issued (au_denies a) profile (pl_revision e) (pl_created_at e)),
      appended_request (changed_request dump a row e (ps_revision row) rid) (appended_event e s))"
proof -
  have "permission_view_of b (appended_request (changed_request dump a row e (ps_revision row) rid) (appended_event e s)) =
      permission_view_of b s" if "b \<noteq> au_account a" for b
    using that e by (intro view_others) (simp_all add: changed_request_def changed_event_def)
  moreover have "view_profile v = ps_profile row" "view_updated_at v = ps_updated_at row" using v view_live [OF live] by auto
  ultimately show ?thesis
    using changed_view [OF live none e profile] v profile e
    by (simp add: refines_view_def answered_view_def Let_def changed_event_def next_timestamp_max)
qed

text \<open>
  C17.  An update does exactly what the small protocol says, on every branch: it raises the same error and writes nothing,
  or it returns the snapshot of the new view and stores that view, and no other account's view changes.  The only
  other outcome is a refused insert because the new entry's text collides under SHA-256 with an entry of the chain.\<close>

theorem update_refines_preference:
  assumes run: "permission_run dump s" and a: "make_authority account full denies = Inr a"
    and v: "permission_view_of account s = Some v"
  shows "(case preference_update profile expected rid now v of
        Inl e \<Rightarrow> update_permission dump a profile expected rid now s = (Inl e, s)
      | Inr v' \<Rightarrow>
          refines_view dump a s v' (update_permission dump a profile expected rid now s) \<or>
          update_collides account profile rid now s \<and>
          update_permission dump a profile expected rid now s = (Inl (IntegrityError ''UNIQUE constraint failed''), s))"
proof (cases "update_arguments profile expected rid")
  case (Inl e)
  then show ?thesis by (simp add: preference_update_def update_permission_def ebind_def)
next
  case (Inr n)
  note ok = make_authorityD [OF a]
  have "account_ok dump account s" using run_ok [OF run] by (simp add: permissions_ok_def)
  then obtain row where live: "account_live dump (au_account a) row s"
    using v ok(2) by (cases rule: account_ok_cases) (auto simp: permission_view_of_def untouched_def find_state_rows)
  obtain d where d: "ps_digest row = Some d" using live_digest [OF live] by blast
  note eq = mutate_live [OF live d ok(1) update_argumentsD(2) [OF Inr] refl, of n rid now]
  have v_eq: "v = \<lparr>view_profile = ps_profile row, view_revision = ps_revision row, view_updated_at = ps_updated_at row,
      view_requests = (\<lambda>rid. map_option pr_fingerprint (find_request account rid s))\<rparr>"
    using v view_live [OF live] ok(2) by simp
  have update: "update_permission dump a profile expected rid now s = transaction (mutate dump a profile n rid now) s"
    using Inr by (simp add: update_permission_def)
  note spec = preference_update_def Inr
  show ?thesis
  proof (cases "find_request account rid s")
    case (Some q)
    then show ?thesis
      using eq update v ok(2) by (auto simp: spec transaction_def refines_view_def v_eq)
  next
    case None
    note parts = kept_refines [OF live, of rid v now d] changed_refines [OF live _ _ _ refl, of rid v profile now d]
      taken_collides [OF live [unfolded ok(2)] d refl ok(2), of profile now rid]
    show ?thesis
      using eq update None ok(2) v parts by (auto simp: spec transaction_def v_eq)
  qed
qed

theorem update_refines_preference_witness:
  "\<exists>v. permission_run sample_dump sample_started \<and> make_authority ''acct'' False [] = Inr sample_authority \<and>
     permission_view_of ''acct'' sample_started = Some v \<and>
     (case preference_update ''full_access'' (JInt 1) ''r1'' 200 v of
        Inl e \<Rightarrow> update_permission sample_dump sample_authority ''full_access'' (JInt 1) ''r1'' 200 sample_started = (Inl e, sample_started)
      | Inr v' \<Rightarrow>
          refines_view sample_dump sample_authority sample_started v'
            (update_permission sample_dump sample_authority ''full_access'' (JInt 1) ''r1'' 200 sample_started) \<or>
          update_collides ''acct'' ''full_access'' ''r1'' 200 sample_started \<and>
          update_permission sample_dump sample_authority ''full_access'' (JInt 1) ''r1'' 200 sample_started =
            (Inl (IntegrityError ''UNIQUE constraint failed''), sample_started))"
  using update_refines_preference [OF sample_run sample_made view_live [OF sample_live], of "''full_access''" "JInt 1" "''r1''" 200]
    sample_run sample_made view_live [OF sample_live] by blast

section \<open>The trigger of the chain\<close>

lemma verify_ledger_append:
  "verify_ledger account d r es = Inr () \<Longrightarrow> es \<noteq> [] \<Longrightarrow>
     verify_ledger account d r (es @ fs) = verify_ledger account (Some (pl_digest (last es))) (Some (pl_revision (last es))) fs"
proof (induction es arbitrary: d r)
  case (Cons e es)
  have "verify_ledger account d r ((e # es) @ fs) = verify_ledger account (Some (pl_digest e)) (Some (pl_revision e)) (es @ fs)"
    using Cons.prems(1) unfolding verify_ledger_Cons
    by (auto simp: verify_ledger.simps(2) event_verified_def event_text_def state_digest_text Let_def ebind_def
        validate_state_values_def split: option.splits)
  then show ?case using Cons by (cases "es = []") (auto simp: verify_ledger_Cons)
qed simp

definition null_link :: "string \<Rightarrow> permission_db \<Rightarrow> permission_event" where
  "null_link account s =
     \<lparr>pl_account = account, pl_revision = revision_of account s + 1, pl_profile = ''default'', pl_previous = None,
      pl_digest = ''x'', pl_request = ''__x'', pl_created_at = 0\<rparr>"

lemma null_link_inserted:
  assumes live: "account_live dump account row s"
  shows "insert_permission_event (null_link account s) s =
     Inr ((), s\<lparr>permission_ledger := permission_ledger s @ [null_link account s]\<rparr>)"
proof -
  note parts = live_parts [OF live]
  have cols: "pl_account (null_link account s) = account" "pl_revision (null_link account s) = ps_revision row + 1"
      "pl_previous (null_link account s) = None" "pl_profile (null_link account s) = ''default''" "pl_digest (null_link account s) = ''x''"
    by (simp_all add: null_link_def revision_of_live [OF live])
  have "\<not> chain_violated (null_link account s) s"
    using cols head_event_live [OF live] parts(5) by (simp add: chain_violated_def matches_ledger_def)
  moreover have "pl_digest x \<noteq> ''x''" "pl_revision x \<noteq> ps_revision row + 1" if "x \<in> set (account_rows account s)" for x
  proof -
    have "length (pl_digest x) = 64" using verified_digest [OF parts(4) that] by simp
    then show "pl_digest x \<noteq> ''x''" by auto
    show "pl_revision x \<noteq> ps_revision row + 1" using live_revision_bound [OF live that] by simp
  qed
  ultimately show ?thesis
    using cols parts(2) by (auto simp: insert_permission_event_def run_eqs list_all_iff is_profile_def)
qed

lemma null_link_events:
  assumes live: "account_live dump account row s"
  shows "account_events account (s\<lparr>permission_ledger := permission_ledger s @ [null_link account s]\<rparr>) =
     account_rows account s @ [null_link account s]"
proof -
  let ?e = "null_link account s" and ?es = "account_rows account s"
  have rev: "pl_revision ?e = ps_revision row + 1" by (simp add: null_link_def revision_of_live [OF live])
  have "account_rows account (s\<lparr>permission_ledger := permission_ledger s @ [?e]\<rparr>) = ?es @ [?e]"
    by (simp add: account_rows_def null_link_def)
  moreover have "sorted (map pl_revision (?es @ [?e]))"
    using verified_sorted(1) [OF live_parts(4) [OF live]] live_revision_bound [OF live] rev by (fastforce simp: sorted_append)
  ultimately show ?thesis unfolding account_events_def by (simp only: sort_key_sorted_id)
qed

lemma null_link_unreadable:
  assumes live: "account_live dump account row s"
  shows "read_verified_state dump account (s\<lparr>permission_ledger := permission_ledger s @ [null_link account s]\<rparr>) =
     Inl (PermissionIntegrityError ''permission ledger previous digest is invalid'')" (is "read_verified_state _ _ ?s = _")
proof -
  note parts = live_parts [OF live]
  have "pl_revision (last (account_rows account s)) = ps_revision row" using parts(5) by (simp add: matches_ledger_def)
  then have broken: "verify_ledger account None None (account_rows account s @ [null_link account s]) =
      Inl (PermissionIntegrityError ''permission ledger previous digest is invalid'')"
    using verify_ledger_append [OF parts(4,3), of "[null_link account s]"] parts(2) revision_of_live [OF live]
    by (simp add: null_link_def verify_ledger.simps(2) validate_state_values_def is_profile_def ebind_def)
  have found: "find_state account ?s = Some row" using live_find [OF live] by (simp add: find_state_def)
  obtain d where d: "ps_digest row = Some d" using live_digest [OF live] by blast
  then have "py_len d = 64" using live by (simp add: account_live_def state_verified_def Let_def)
  then show ?thesis
    unfolding read_verified_state_def found option.case null_link_events [OF live] Let_def broken
    using parts(1,2) d by (simp add: ebind_def validate_state_values_def check_def)
qed

text \<open>
  C18.  The trigger that guards the chain compares \<^verbatim>\<open>previous_digest\<close> with \<^verbatim>\<open>!=\<close>, which is \<^verbatim>\<open>NULL\<close> for a missing link.  A statement
  can therefore append an entry without a link to any started account; from then on the append-only ledger never verifies and
  every start of the authority raises.\<close>

theorem null_link_locks_out:
  assumes run: "permission_run dump s" and a: "make_authority account full denies = Inr a" and started: "find_state account s \<noteq> None"
  shows "\<exists>s'. insert_permission_event (null_link account s) s = Inr ((), s') \<and>
     initialize dump a now s' = (Inl (PermissionIntegrityError ''permission ledger previous digest is invalid''), s')"
proof -
  have "account_ok dump account s" using run_ok [OF run] by (simp add: permissions_ok_def)
  then obtain row where live: "account_live dump account row s"
    using started by (cases rule: account_ok_cases) (auto simp: untouched_def find_state_rows)
  have "find_state account (s\<lparr>permission_ledger := permission_ledger s @ [null_link account s]\<rparr>) = Some row"
    using live_find [OF live] by (simp add: find_state_def)
  then show ?thesis
    using null_link_inserted [OF live] null_link_unreadable [OF live] make_authorityD(2) [OF a]
    by (simp add: initialize_def initialize_in_transaction_def transaction_def run_eqs project_result_def ebind_def)
qed

theorem null_link_locks_out_witness:
  "permission_run sample_dump sample_started \<and> make_authority ''acct'' False [] = Inr sample_authority \<and>
   find_state ''acct'' sample_started \<noteq> None \<and>
   (\<exists>s'. insert_permission_event (null_link ''acct'' sample_started) sample_started = Inr ((), s') \<and>
      initialize sample_dump sample_authority 7 s' =
        (Inl (PermissionIntegrityError ''permission ledger previous digest is invalid''), s'))"
proof -
  have "find_state ''acct'' sample_started \<noteq> None" using live_find [OF sample_live] by simp
  from null_link_locks_out [OF sample_run sample_made this, of 7] this show ?thesis using sample_run sample_made by blast
qed

end
