(* ===== verification/ToolPermits.thy ===== *)
theory ToolPermits
  imports ToolLedger PermissionProperties
begin

text \<open>
  Permits and the authorities they rest on: the permission that was sampled for a tool call is still the stored one when the
  call is admitted, and a permit that claims an approval has the person's answer to this very call.
\<close>

section \<open>A digest pins the preference\<close>

lemma digest_pins_preference:
  assumes run: "permission_run dump s" and steps: "(permission_step dump)\<^sup>*\<^sup>* s t"
    and row: "find_state account s = Some row" and row': "find_state account t = Some row'" and digest: "ps_digest row' = ps_digest row"
  shows "row' = row"
proof (rule later_row_same [OF assms(1-4)])
  fix gs assume gs: "account_rows account t = account_rows account s @ gs"
    and old: "account_live dump account row s" and new: "account_live dump account row' t"
  have "distinct (map pl_digest (account_rows account t))" using new by (simp add: account_live_def change_history_def)
  moreover have "pl_digest (last (account_rows account t)) = pl_digest (last (account_rows account s))"
    using live_parts(5) [OF old] live_parts(5) [OF new] digest unfolding matches_ledger_def by (metis option.inject)
  ultimately show "gs = []"
    using gs live_parts(3) [OF old] by (cases gs rule: rev_cases) (auto dest: last_in_set)
qed

text \<open>
  C22.  A tool call is admitted under the permission that was sampled for it.  If the caller sampled a state digest, permission
  updates followed and the call was then admitted with that digest, then the stored preference is still the sampled one and
  the permit's snapshot is the one it projects to: no revocation lies between the sample and the permit.\<close>

theorem admitted_permission_is_current:
  assumes run: "permission_run dump (ts_permissions s)" and sampled: "find_state (aq_account q) (ts_permissions s) = Some row"
    and digest: "ps_digest row = aq_digest q" and steps: "(permission_step dump)\<^sup>*\<^sup>* (ts_permissions s) (ts_permissions t)"
    and admitted: "admit q now t = (Inr a, t')"
  shows "find_state (aq_account q) (ts_permissions t) = Some row \<and>
     (\<exists>snapshot. issue (ps_profile row) (ps_revision row) (ps_updated_at row) (aq_denies q) = Inr snapshot \<and>
        snap_id snapshot = aq_current q)"
  using admitted
proof (rule admit_returns)
  fix d x job assume checked: "admit_checked q d x job t"
  then obtain row' where row': "find_state (aq_account q) (ts_permissions t) = Some row'" "ps_digest row' = Some d"
      "\<exists>snapshot. issue (ps_profile row') (ps_revision row') (ps_updated_at row') (aq_denies q) = Inr snapshot \<and>
        snap_id snapshot = aq_current q"
    by (auto simp: admit_checked_def admit_permission_def backed_state_def split: option.splits if_splits sum.splits)
  have "aq_digest q = Some d" using checked admit_argumentsD(1) by (simp add: admit_checked_def)
  then have "row' = row" using digest_pins_preference [OF run steps sampled row'(1)] row'(2) digest by simp
  then show ?thesis using row' by simp
qed

section \<open>Approvals\<close>

lemma admit_approvalD:
  assumes "admit_approval q x job s = Inr ()" and "aq_interaction q = Some i" and "aq_approved q"
  shows "\<exists>row cp call_id arguments response.
     find_interaction i s = Some row \<and> interaction_authoritative q row \<and>
     (case ia_response row of None \<Rightarrow> Some [] | Some v \<Rightarrow> jdict v) = Some response \<and> jget response ''action_id'' = JStr ''allow'' \<and>
     (case jb_checkpoint job of None \<Rightarrow> Some [] | Some v \<Rightarrow> jdict v) = Some cp \<and>
     bound_call q i cp = Some (call_id, arguments) \<and> tool_execution_id (aq_turn q) call_id = aq_call q \<and>
     json_sha arguments = tx_arguments_sha x"
proof -
  obtain row where row: "find_interaction i s = Some row" "interaction_authoritative q row"
    using assms by (auto simp: admit_approval_def conflict_unless_def ebind_def split: option.splits if_splits)
  obtain cp where cp: "(case jb_checkpoint job of None \<Rightarrow> Some [] | Some v \<Rightarrow> jdict v) = Some cp"
    using assms row by (cases "case jb_checkpoint job of None \<Rightarrow> Some [] | Some v \<Rightarrow> jdict v")
      (auto simp: admit_approval_def conflict_unless_def ebind_def)
  obtain response where response: "(case ia_response row of None \<Rightarrow> Some [] | Some v \<Rightarrow> jdict v) = Some response"
    using assms row cp by (cases "case ia_response row of None \<Rightarrow> Some [] | Some v \<Rightarrow> jdict v")
      (auto simp: admit_approval_def conflict_unless_def ebind_def)
  obtain call_id arguments where "bound_call q i cp = Some (call_id, arguments)"
    using assms row cp response by (cases "bound_call q i cp")
      (auto simp: admit_approval_def conflict_unless_def ebind_def)
  then show ?thesis
    using assms row cp response
    by (auto simp: admit_approval_def conflict_unless_def ebind_def split: if_splits)
qed

text \<open>A permit that claims an approval has one: the interaction is a resolved permission question of this job and turn, the
  person answered \<^verbatim>\<open>allow\<close>, and the job's checkpoint names this tool, this call and arguments with the digest of the execution.\<close>

theorem approved_permit_has_an_answer:
  assumes "admit q now s = (Inr a, s')" and "aq_approved q"
  shows "\<exists>i row x job cp call_id arguments response.
     aq_interaction q = Some i \<and> find_interaction i (ts_db s) = Some row \<and> interaction_authoritative q row \<and>
     (case ia_response row of None \<Rightarrow> Some [] | Some v \<Rightarrow> jdict v) = Some response \<and> jget response ''action_id'' = JStr ''allow'' \<and>
     find_execution (aq_call q) s = Some x \<and> find_job (aq_job q) (ts_db s) = Some job \<and>
     (case jb_checkpoint job of None \<Rightarrow> Some [] | Some v \<Rightarrow> jdict v) = Some cp \<and>
     bound_call q i cp = Some (call_id, arguments) \<and> tool_execution_id (aq_turn q) call_id = aq_call q \<and>
     json_sha arguments = tx_arguments_sha x"
  using assms(1)
proof (rule admit_returns)
  fix d x job assume checked: "admit_checked q d x job s"
  then obtain i where i: "aq_interaction q = Some i"
    using assms(2) admit_argumentsD(3) by (auto simp: admit_checked_def)
  have "find_execution (aq_call q) s = Some x" "find_job (aq_job q) (ts_db s) = Some job" "admit_approval q x job (ts_db s) = Inr ()"
    using checked by (auto simp: admit_checked_def admit_scope_def split: option.splits if_splits)
  then show ?thesis using admit_approvalD [OF _ i assms(2)] i by blast
qed

section \<open>A tool call on concrete rows\<close>

definition call_thread :: thread_row where
  "call_thread =
     \<lparr>th_id = ''t1'', th_status = ThreadActive, th_title = None, th_metadata = [], th_client_request = None, th_fingerprint = None,
      th_forked_thread = None, th_forked_turn = None, th_forked_seq = None, th_created_at = 0, th_updated_at = 0\<rparr>"

definition call_turn :: turn_row where
  "call_turn =
     \<lparr>tn_id = ''n1'', tn_thread = ''t1'', tn_status = TurnToolRunning, tn_input = ''hi'', tn_agent_model = ''m'', tn_image_model = None,
      tn_client_message = None, tn_metadata = [], tn_reason = None, tn_created_at = 0, tn_updated_at = 0\<rparr>"

definition call_checkpoint :: jobj where
  "call_checkpoint =
     [(''phase'', JStr ''tool_running''), (''approved'', JBool True), (''interaction_id'', JStr ''i1''),
      (''execution_batch_id'', JStr ''b1''),
      (''tool_call'', JObj [(''tool_name'', JStr ''shell''), (''tool_call_id'', JStr ''c1''), (''arguments'', JObj [])])]"

definition call_job :: job_row where
  "call_job =
     \<lparr>jb_id = ''j1'', jb_kind = ''agent_turn'', jb_payload = [], jb_status = JobRunning, jb_priority = 0, jb_attempt = 1,
      jb_max_attempts = 3, jb_thread = Some ''t1'', jb_turn = Some ''n1'', jb_lease_owner = Some ''w'', jb_lease_token = Some ''l'',
      jb_lease_expires = Some 9, jb_heartbeat = Some 1, jb_available_at = 0, jb_deadline = None,
      jb_checkpoint = Some (JObj call_checkpoint), jb_key = ''k'', jb_fingerprint = ''f'', jb_last_error = None,
      jb_created_at = 0, jb_updated_at = 0\<rparr>"

definition call_batch :: batch_row where
  "call_batch =
     \<lparr>bt_id = ''b1'', bt_thread = ''t1'', bt_turn = ''n1'', bt_first = 1, bt_last = 1,
      bt_context = \<lparr>cx_config = ''cfg'', cx_capability = ''cap'', cx_permission = ''pol'', cx_model_catalog = ''mod'', cx_extension = ''ext''\<rparr>,
      bt_identity = ''x'', bt_created_at = 0\<rparr>"

definition call_interaction :: interaction_row where
  "call_interaction =
     \<lparr>ia_id = ''i1'', ia_kind = AskPermissionApproval, ia_status = InteractionResolved, ia_prompt = ''run?'', ia_contract = JNull,
      ia_options = JArr [], ia_response = Some (JObj [(''action_id'', JStr ''allow'')]), ia_response_client = None,
      ia_response_fingerprint = None, ia_thread = ''t1'', ia_turn = Some ''n1'', ia_job = Some ''j1'', ia_key = ''k'',
      ia_fingerprint = ''f'', ia_expires_at = None, ia_created_at = 0, ia_updated_at = 0\<rparr>"

definition call_db :: db where
  "call_db = empty_db\<lparr>db_threads := [call_thread], db_turns := [call_turn], db_jobs := [call_job], db_batches := [call_batch],
     db_interactions := [call_interaction]\<rparr>"

definition call_begin :: begin_request where
  "call_begin =
     \<lparr>bq_call = tool_execution_id ''n1'' ''c1'', bq_job = ''j1'', bq_turn = ''n1'', bq_batch = ''b1'', bq_capability = ''cap'',
      bq_policy = ''pol'', bq_tool = ''shell'', bq_arguments = [], bq_key = None\<rparr>"

definition call_store :: tool_store where
  "call_store = (empty_tools call_db sample_started [])\<lparr>ts_executions := [new_execution call_begin 10]\<rparr>"

definition call_admit :: admit_request where
  "call_admit =
     \<lparr>aq_call = tool_execution_id ''n1'' ''c1'', aq_job = ''j1'', aq_thread = ''t1'', aq_turn = ''n1'', aq_batch = ''b1'',
      aq_capability = ''cap'', aq_account = ''acct'', aq_frozen = ''pol'', aq_current = expected_snapshot_id ''default'' 1 100 [],
      aq_digest = ps_digest (factory_state sample_authority 100), aq_denies = [], aq_availability = None, aq_tool = ''shell'',
      aq_version = ''1'', aq_approved = True, aq_interaction = Some ''i1'', aq_sandbox = SandboxWorkspaceWrite\<rparr>"

lemma plain_identity:
  assumes "list_all capability_char v" and "v \<noteq> []" and "length v \<le> 256"
  shows "identity_ok v"
proof -
  have "ascii v" "list_all (\<lambda>c. \<not> is_space [c]) v"
    using assms(1) capability_char_plain by (auto simp: ascii_def list_all_iff)
  moreover have "py_len v \<le> length v" by (simp add: py_len_def)
  ultimately show ?thesis using assms by (simp add: identity_ok_def py_strip_nospace)
qed

lemma sha_chars: "list_all capability_char (sha256_hexdigest x)"
proof -
  have "list_all capability_char ''0123456789abcdef''" by (simp add: capability_char_def)
  then show ?thesis using sha256_hex [of x] unfolding list_all_iff by blast
qed

lemma digest_identity: "list_all capability_char p \<Longrightarrow> length p \<le> 100 \<Longrightarrow> identity_ok (p @ sha256_hexdigest x)"
  using sha_chars by (intro plain_identity) auto

lemma call_identities:
  "identity_ok (tool_execution_id ''n1'' ''c1'')" "identity_ok (expected_snapshot_id ''default'' 1 100 [])"
  "list_all identity_ok [''j1'', ''t1'', ''n1'', ''b1'', ''cap'', ''acct'', ''pol'', ''shell'', ''1'', ''i1'']"
proof -
  show "identity_ok (tool_execution_id ''n1'' ''c1'')" "identity_ok (expected_snapshot_id ''default'' 1 100 [])"
    unfolding tool_execution_id_def expected_snapshot_id_def fingerprint_def
    by (intro digest_identity; simp add: capability_char_def)+
  show "list_all identity_ok [''j1'', ''t1'', ''n1'', ''b1'', ''cap'', ''acct'', ''pol'', ''shell'', ''1'', ''i1'']"
    by (simp add: plain_identity capability_char_def)
qed

lemma call_begins:
  "begin_execution call_begin 10 (empty_tools call_db sample_started []) = (Inr (new_execution call_begin 10, True), call_store)"
  using call_identities
  by (simp add: begin_execution_def begin_arguments_ok_def begin_in_transaction_def insert_execution_def transaction_def run_eqs
      call_begin_def new_execution_def call_store_def empty_tools_def find_execution_def batch_scope_ok_def find_job_def find_turn_def
      find_batch_def call_db_def call_job_def call_turn_def call_batch_def empty_db_def)

lemma call_digest: "\<exists>d. aq_digest call_admit = Some d \<and> is_sha256 d \<and> ps_digest (factory_state sample_authority 100) = Some d"
proof -
  have "is_sha256 (sha256_hexdigest x)" for x
    using length_sha256 [of x] sha256_hex [of x] unfolding is_sha256_def list_all_iff by blast
  then show ?thesis by (simp add: call_admit_def factory_state_def state_digest_def fingerprint_def)
qed

lemma call_permission:
  assumes "aq_digest call_admit = Some d"
  shows "admit_permission call_admit d sample_started = Inr ()"
proof -
  let ?row = "factory_state sample_authority 100"
  have "find_state ''acct'' sample_started = Some ?row" using live_find [OF sample_live] .
  moreover have "factory_event sample_authority 100 \<in> set (permission_ledger sample_started)"
    by (simp add: sample_started_def factory_store_def)
  moreover have "matches_ledger ?row (factory_event sample_authority 100)" "pl_account (factory_event sample_authority 100) = ''acct''"
    by (simp_all add: matches_ledger_def factory_state_def factory_event_def sample_authority_def)
  ultimately have "backed_state ''acct'' sample_started = Some ?row" by (auto simp: backed_state_def list_ex_iff)
  moreover have "issue ''default'' 1 100 [] = Inr (issued [] ''default'' 1 100)"
    by (simp add: issue_issued is_profile_def canonical_denies_def)
  moreover have "ps_digest ?row = Some d" "ps_profile ?row = ''default''" "ps_revision ?row = 1" "ps_updated_at ?row = 100"
    using assms by (simp_all add: call_admit_def factory_state_def sample_authority_def)
  ultimately show ?thesis
    by (simp add: admit_permission_def call_admit_def issued_def)
qed

lemma call_checks:
  assumes "aq_digest call_admit = Some d" and "is_sha256 d"
  shows "admit_checked call_admit d (new_execution call_begin 10) call_job call_store"
proof -
  have "admit_arguments call_admit = Inr d"
    using assms call_identities by (simp add: admit_arguments_def call_admit_def digest_ok_def)
  moreover have "admit_execution call_admit (new_execution call_begin 10) = Inr ()"
    by (simp add: admit_execution_def call_admit_def new_execution_def call_begin_def conflict_unless_def ebind_def)
  moreover have "admit_scope call_admit call_db = Inr call_job" "admit_batch call_admit call_db = Inr ()"
    by (simp_all add: admit_scope_def admit_batch_def call_admit_def call_db_def find_job_def find_turn_def find_batch_def call_job_def
        call_turn_def call_batch_def conflict_unless_def)
  moreover have "admit_approval call_admit (new_execution call_begin 10) call_job call_db = Inr ()"
    by (simp add: admit_approval_def call_admit_def call_db_def find_interaction_def call_interaction_def interaction_authoritative_def
        conflict_unless_def ebind_def call_job_def call_checkpoint_def jdict_def bound_call_def jget_def has_key_def new_execution_def
        call_begin_def)
  ultimately show ?thesis
    using call_permission [OF assms(1)]
    by (simp add: admit_checked_def call_store_def empty_tools_def find_execution_def new_execution_def call_begin_def call_admit_def)
qed

lemma call_admitted:
  "\<exists>a t. admit call_admit 20 call_store = (Inr a, t) \<and> admit call_admit 30 t = (Inr a, t) \<and> length (ts_admissions t) = 1"
proof -
  obtain d where d: "aq_digest call_admit = Some d" "is_sha256 d" using call_digest by blast
  let ?x = "new_execution call_begin 10"
  let ?r = "new_admission call_admit d ?x 20" and ?t = "call_store\<lparr>ts_admissions := [new_admission call_admit d ?x 20]\<rparr>"
  note checked = call_checks [OF d, unfolded admit_checked_def]
  obtain a where a: "admission_from_row ?r = Inr a" using new_admission_reads checked by blast
  have empty: "ts_admissions call_store = []" "find_admission (aq_call call_admit) call_store = None"
    by (simp_all add: call_store_def empty_tools_def find_admission_def)
  have known: "find_execution (aq_call call_admit) call_store \<noteq> None" "find_job (aq_job call_admit) (ts_db call_store) \<noteq> None"
      "find_thread (aq_thread call_admit) (ts_db call_store) \<noteq> None" "find_turn (aq_turn call_admit) (ts_db call_store) \<noteq> None"
    using checked by (auto simp: call_store_def empty_tools_def call_admit_def call_db_def find_job_def find_thread_def find_turn_def
        call_job_def call_thread_def call_turn_def)
  have "admit call_admit 20 call_store = (Inr a, ?t)"
    using checked a empty known
    by (simp add: admit_def admit_in_transaction_def require_execution_def insert_admission_def transaction_def run_eqs)
  moreover have "admit call_admit 30 ?t = (Inr a, ?t)"
  proof -
    have "find_execution i ?t = find_execution i call_store" "ts_db ?t = ts_db call_store" "ts_permissions ?t = ts_permissions call_store" for i
      by (simp_all add: find_execution_def)
    moreover have "find_admission (aq_call call_admit) ?t = Some ?r" by (simp add: find_admission_def)
    moreover have "same_admission call_admit d ?x ?r a"
      using a new_admission_digest [of call_admit d ?x 20]
      by (auto simp: admission_from_row_def same_admission_def admission_scope_def split: if_splits)
    ultimately show ?thesis
      using checked a by (simp add: admit_def admit_in_transaction_def require_execution_def transaction_def run_eqs)
  qed
  ultimately show ?thesis by (intro exI [of _ a] exI [of _ ?t]) simp
qed

lemma call_run: "tool_run call_store"
  using tool_run.step [OF tool_run.start [of call_db sample_started "[]"] tool_step.begin_call [of _ call_begin 10]] call_begins by simp

section \<open>Witnesses\<close>

theorem completed_execution_is_final_witness:
  "\<exists>y. find_execution (tool_execution_id ''n1'' ''c1'') (snd (record_retry (tool_execution_id ''n1'' ''c1'') 20 call_store)) = Some y \<and>
     same_execution (new_execution call_begin 10) y \<and> tx_attempt (new_execution call_begin 10) \<le> tx_attempt y"
proof -
  have "find_execution (tool_execution_id ''n1'' ''c1'') call_store = Some (new_execution call_begin 10)"
    by (simp add: find_execution_def call_store_def new_execution_def call_begin_def)
  moreover have "tool_step\<^sup>*\<^sup>* call_store (snd (record_retry (tool_execution_id ''n1'' ''c1'') 20 call_store))"
    by (rule r_into_rtranclp) (rule tool_step.retry)
  ultimately show ?thesis using completed_execution_is_final by blast
qed

theorem permits_are_unique_and_bound_witness:
  "\<exists>a t. admit call_admit 20 call_store = (Inr a, t) \<and> tool_run t \<and> length (ts_admissions t) = 1 \<and>
     distinct (map ad_call (ts_admissions t)) \<and>
     list_all (\<lambda>r. (\<exists>a. admission_from_row r = Inr a) \<and>
       (\<exists>x. find_execution (ad_call r) t = Some x \<and> admission_bound r x)) (ts_admissions t)"
proof -
  obtain a t where t: "admit call_admit 20 call_store = (Inr a, t)" "length (ts_admissions t) = 1" using call_admitted by blast
  then have "tool_run t" using tool_run.step [OF call_run tool_step.admit] by (metis snd_conv)
  from permits_are_unique_and_bound [OF this] show ?thesis using t \<open>tool_run t\<close> by blast
qed

theorem one_permit_per_call_witness:
  "\<exists>a t a' t'. admit call_admit 20 call_store = (Inr a, t) \<and> tool_step\<^sup>*\<^sup>* t t \<and> admit call_admit 30 t = (Inr a', t') \<and>
     a' = a \<and> t' = t"
proof -
  obtain a t where t: "admit call_admit 20 call_store = (Inr a, t)" "admit call_admit 30 t = (Inr a, t)" using call_admitted by blast
  then show ?thesis using one_permit_per_call [OF t(1) rtranclp.rtrancl_refl t(2) refl] by auto
qed

theorem admitted_permission_is_current_witness:
  "\<exists>a t. admit call_admit 20 call_store = (Inr a, t) \<and> permission_run sample_dump (ts_permissions call_store) \<and>
     find_state (aq_account call_admit) (ts_permissions call_store) = Some (factory_state sample_authority 100) \<and>
     (\<exists>snapshot. issue ''default'' 1 100 [] = Inr snapshot \<and> snap_id snapshot = aq_current call_admit)"
proof -
  obtain a t where t: "admit call_admit 20 call_store = (Inr a, t)" using call_admitted by blast
  have store: "ts_permissions call_store = sample_started" "aq_account call_admit = ''acct''"
    by (simp_all add: call_store_def empty_tools_def call_admit_def)
  have row: "ps_profile (factory_state sample_authority 100) = ''default''" "ps_revision (factory_state sample_authority 100) = 1"
      "ps_updated_at (factory_state sample_authority 100) = 100" "aq_denies call_admit = []"
      "ps_digest (factory_state sample_authority 100) = aq_digest call_admit"
    by (simp_all add: factory_state_def sample_authority_def call_admit_def)
  have "find_state (aq_account call_admit) (ts_permissions call_store) = Some (factory_state sample_authority 100)"
    using live_find [OF sample_live] store by simp
  from admitted_permission_is_current [OF _ this row(5) rtranclp.rtrancl_refl t] this show ?thesis
    using sample_run store t row by auto
qed

theorem approved_permit_has_an_answer_witness:
  "\<exists>a t. admit call_admit 20 call_store = (Inr a, t) \<and> aq_approved call_admit \<and>
     (\<exists>i row. aq_interaction call_admit = Some i \<and> find_interaction i (ts_db call_store) = Some row \<and>
        interaction_authoritative call_admit row)"
proof -
  obtain a t where t: "admit call_admit 20 call_store = (Inr a, t)" using call_admitted by blast
  have "aq_approved call_admit" by (simp add: call_admit_def)
  from approved_permit_has_an_answer [OF t this] show ?thesis using t \<open>aq_approved call_admit\<close> by blast
qed

end
