(* ===== verification/DisclosureProperties.thy ===== *)
theory DisclosureProperties
  imports ToolDisclosure ToolPermits
begin

text \<open>
  What a disclosure guarantees.  The connector identifiers a search emits are read back unambiguously; a deferred tool is disclosed when the
  ledger holds a completed search that lists it and a completed description that names that search, both of the same job, turn, batch and frozen
  snapshots, which is stated over the columns and the stored results; and a disclosure is not taken back by later tool calls.
\<close>

section \<open>Discovery identifiers\<close>

lemma py_partition_some:
  "py_partition c s = Some (a, b) \<longleftrightarrow> s = a @ c # b \<and> c \<notin> set a"
proof
  assume part: "py_partition c s = Some (a, b)"
  then obtain x where x: "dropWhile (\<lambda>x. x \<noteq> c) s = x # b" and a: "a = takeWhile (\<lambda>x. x \<noteq> c) s"
    by (auto simp: py_partition_def split: list.splits)
  from x have "x = c" using hd_dropWhile [of "\<lambda>x. x \<noteq> c" s] by auto
  moreover have "s = a @ x # b" using takeWhile_dropWhile_id [of "\<lambda>x. x \<noteq> c" s] x a by simp
  moreover have "c \<notin> set a" using a by (auto dest: set_takeWhileD)
  ultimately show "s = a @ c # b \<and> c \<notin> set a" by simp
next
  assume "s = a @ c # b \<and> c \<notin> set a"
  then have s: "s = a @ c # b" and "\<forall>x\<in>set a. x \<noteq> c" by auto
  then have "dropWhile (\<lambda>x. x \<noteq> c) s = c # b" "takeWhile (\<lambda>x. x \<noteq> c) s = a"
    by (simp_all add: dropWhile_append takeWhile_append)
  then show "py_partition c s = Some (a, b)" by (simp add: py_partition_def)
qed

lemma py_rpartition_some:
  "py_rpartition c s = Some (a, b) \<longleftrightarrow> s = a @ c # b \<and> c \<notin> set b"
proof -
  have "py_rpartition c s = Some (a, b) \<longleftrightarrow> py_partition c (rev s) = Some (rev b, rev a)"
    by (auto simp: py_rpartition_def)
  also have "\<dots> \<longleftrightarrow> rev s = rev (a @ c # b) \<and> c \<notin> set b" by (simp add: py_partition_some)
  finally show ?thesis by (simp only: rev_is_rev_conv)
qed

lemma parse_versioned_some:
  "parse_versioned prefix d = Some (name, version) \<longleftrightarrow>
     d = prefix @ name @ ''@'' @ version \<and> name \<noteq> [] \<and> version \<noteq> [] \<and> CHR ''@'' \<notin> set version \<and> py_len d \<le> 512"
proof
  assume "parse_versioned prefix d = Some (name, version)"
  then have "py_rpartition (CHR ''@'') (drop (length prefix) d) = Some (name, version)"
      "d = prefix @ name @ ''@'' @ version \<and> name \<noteq> [] \<and> version \<noteq> [] \<and> py_len d \<le> 512"
    by (auto simp: parse_versioned_def split: if_splits option.splits)
  then show "d = prefix @ name @ ''@'' @ version \<and> name \<noteq> [] \<and> version \<noteq> [] \<and> CHR ''@'' \<notin> set version \<and> py_len d \<le> 512"
    by (auto simp: py_rpartition_some)
next
  assume d: "d = prefix @ name @ ''@'' @ version \<and> name \<noteq> [] \<and> version \<noteq> [] \<and> CHR ''@'' \<notin> set version \<and> py_len d \<le> 512"
  then have "py_rpartition (CHR ''@'') (drop (length prefix) d) = Some (name, version)" by (simp add: py_rpartition_some)
  then show "parse_versioned prefix d = Some (name, version)" using d by (elim conjE) (simp add: parse_versioned_def)
qed

lemma plain_characters:
  "\<not> instance_char (CHR ''@'')" "is_sha256 k \<Longrightarrow> CHR ''@'' \<notin> set k" "\<not> instance_char (CHR ''/'')" "is_sha256 k \<Longrightarrow> CHR ''/'' \<notin> set k"
proof -
  show "\<not> instance_char (CHR ''@'')" "\<not> instance_char (CHR ''/'')"
    by (simp_all add: instance_char_def ascii_alnum_def ascii_alpha_def)
  have "CHR ''@'' \<notin> set ''0123456789abcdef''" "CHR ''/'' \<notin> set ''0123456789abcdef''" by simp_all
  then show "is_sha256 k \<Longrightarrow> CHR ''@'' \<notin> set k" "is_sha256 k \<Longrightarrow> CHR ''/'' \<notin> set k" unfolding is_sha256_def list_all_iff by blast+
qed

lemma parse_connector_some:
  "parse_connector_discovery_id d = Some (instance, connector, action, contract) \<longleftrightarrow>
     d = ''connector:'' @ instance @ ''@'' @ connector @ ''/'' @ action @ ''@'' @ contract \<and> instance \<noteq> [] \<and>
     list_all instance_char instance \<and> py_len instance \<le> 256 \<and> connector \<noteq> [] \<and> CHR ''/'' \<notin> set connector \<and>
     action \<noteq> [] \<and> is_sha256 contract \<and> py_len d \<le> 512" (is "?parsed = ?shape")
proof
  assume ?parsed
  then obtain prefix target where
      parts: "py_rpartition (CHR ''@'') d = Some (prefix, contract)"
        "py_partition (CHR ''@'') (drop 10 prefix) = Some (instance, target)"
        "py_partition (CHR ''/'') target = Some (connector, action)"
    and rest: "is_sha256 contract" "py_len d \<le> 512" "instance \<noteq> []" "py_len instance \<le> 256" "list_all instance_char instance"
        "connector \<noteq> []" "action \<noteq> []" "d = ''connector:'' @ instance @ ''@'' @ connector @ ''/'' @ action @ ''@'' @ contract"
    by (auto simp: parse_connector_discovery_id_def split: if_splits option.splits)
  then show ?shape by (auto simp: py_partition_some)
next
  assume shape: ?shape
  let ?target = "connector @ CHR ''/'' # action"
  let ?prefix = "''connector:'' @ instance @ CHR ''@'' # ?target"
  have "CHR ''@'' \<notin> set instance" using shape plain_characters(1) by (auto simp: list_all_iff)
  then have "py_partition (CHR ''@'') (drop 10 ?prefix) = Some (instance, ?target)" by (simp add: py_partition_some)
  moreover have "py_partition (CHR ''/'') ?target = Some (connector, action)" using shape by (simp add: py_partition_some)
  moreover have "py_rpartition (CHR ''@'') d = Some (?prefix, contract)"
    using shape plain_characters(2) by (simp add: py_rpartition_some)
  moreover have "take 10 d = ''connector:''" using shape by simp
  ultimately show ?parsed
    using shape unfolding parse_connector_discovery_id_def by (elim conjE) (simp del: drop_append append.simps)
qed

lemma py_len_le: "py_len v \<le> length v"
  by (simp add: py_len_def)

lemma py_len_hex: "is_sha256 k \<Longrightarrow> py_len k = 64"
proof -
  assume k: "is_sha256 k"
  have "list_all (\<lambda>c. \<not> utf8_continuation c) ''0123456789abcdef''" by (simp add: utf8_continuation_def)
  then have "filter (\<lambda>c. \<not> utf8_continuation c) k = k"
    using k unfolding is_sha256_def list_all_iff by (intro filter_True) blast
  then show ?thesis using k by (simp add: py_len_def is_sha256_def)
qed

lemma plain_patterns:
  "instance_pattern i \<Longrightarrow> i \<noteq> [] \<and> list_all instance_char i \<and> py_len i \<le> 256 \<and> CHR ''@'' \<notin> set i \<and> CHR ''/'' \<notin> set i"
  "name_pattern v \<Longrightarrow> v \<noteq> [] \<and> CHR ''@'' \<notin> set v \<and> CHR ''/'' \<notin> set v"
proof -
  show "instance_pattern i \<Longrightarrow> i \<noteq> [] \<and> list_all instance_char i \<and> py_len i \<le> 256 \<and> CHR ''@'' \<notin> set i \<and> CHR ''/'' \<notin> set i"
    using plain_characters(1,3) py_len_le [of i] unfolding instance_pattern_def list_all_iff by fastforce
  assume v: "name_pattern v"
  then have "v \<noteq> []" by (auto simp: name_pattern_def)
  moreover from this have "v = hd v # tl v" by simp
  moreover have "\<not> (lower_alpha x \<or> x \<in> set ''0123456789_.-'')" if "x = CHR ''@'' \<or> x = CHR ''/''" for x
    using that by (auto simp: lower_alpha_def)
  ultimately show "v \<noteq> [] \<and> CHR ''@'' \<notin> set v \<and> CHR ''/'' \<notin> set v"
    using v unfolding name_pattern_def list_all_iff by (metis set_ConsD)
qed

text \<open>A match has one reading.\<close>

lemma discovery_match_some:
  "discovery_match d = Some (instance, connector, action, contract) \<longleftrightarrow>
     d = connector_discovery_id instance connector action contract \<and> instance_pattern instance \<and> name_pattern connector \<and>
     name_pattern action \<and> is_sha256 contract" (is "?match = ?shape")
proof
  assume ?match
  then obtain target rest where parts: "py_partition (CHR ''@'') (drop 10 d) = Some (instance, target)"
      "py_partition (CHR ''/'') target = Some (connector, rest)" "py_partition (CHR ''@'') rest = Some (action, contract)"
      and t: "take 10 d = ''connector:''"
      and rest: "instance_pattern instance" "name_pattern connector" "name_pattern action" "is_sha256 contract"
    by (auto simp: discovery_match_def split: if_splits option.splits)
  have "d = ''connector:'' @ drop 10 d" using append_take_drop_id [of 10 d] t by simp
  then show ?shape using parts rest by (simp add: py_partition_some connector_discovery_id_def)
next
  assume shape: ?shape
  then have "py_partition (CHR ''@'') (drop 10 d) = Some (instance, connector @ CHR ''/'' # action @ CHR ''@'' # contract)"
    "py_partition (CHR ''/'') (connector @ CHR ''/'' # action @ CHR ''@'' # contract) = Some (connector, action @ CHR ''@'' # contract)"
    "py_partition (CHR ''@'') (action @ CHR ''@'' # contract) = Some (action, contract)" "take 10 d = ''connector:''"
    using plain_patterns by (auto simp: py_partition_some connector_discovery_id_def)
  then show ?match using shape by (simp add: discovery_match_def)
qed

lemma filter_none: "x \<notin> set v \<longleftrightarrow> length (filter ((=) x) v) = 0"
  by (auto simp: filter_empty_conv)

lemma match_separators:
  assumes "discovery_match (connector_discovery_id i c a k) = Some p"
  shows "CHR ''@'' \<notin> set i \<and> CHR ''/'' \<notin> set c \<and> CHR ''@'' \<notin> set a"
proof -
  let ?n = "\<lambda>x v. length (filter ((=) x) v)"
  obtain i' c' a' k' where p: "p = (i', c', a', k')" by (cases p)
  have same: "connector_discovery_id i c a k = connector_discovery_id i' c' a' k'"
    and pat: "instance_pattern i'" "name_pattern c'" "name_pattern a'" "is_sha256 k'"
    using assms discovery_match_some unfolding p by blast+
  note none = plain_patterns(1) [OF pat(1)] plain_patterns(2) [OF pat(2)] plain_patterns(2) [OF pat(3)]
    plain_characters(2) [OF pat(4)] plain_characters(4) [OF pat(4)]
  have "?n (CHR ''@'') (connector_discovery_id i' c' a' k') = 2" "?n (CHR ''/'') (connector_discovery_id i' c' a' k') = 1"
    using none by (simp_all add: connector_discovery_id_def filter_none del: length_0_conv)
  then have "?n (CHR ''@'') (connector_discovery_id i c a k) = 2" "?n (CHR ''/'') (connector_discovery_id i c a k) = 1"
    by (simp_all only: same)
  then show ?thesis by (simp add: connector_discovery_id_def filter_none del: length_0_conv)
qed

lemma match_parts:
  assumes "discovery_match (connector_discovery_id i c a k) = Some p"
  shows "p = (i, c, a, k)"
proof -
  have "py_partition (CHR ''@'') (drop 10 (connector_discovery_id i c a k)) = Some (i, c @ CHR ''/'' # a @ CHR ''@'' # k)"
    "py_partition (CHR ''/'') (c @ CHR ''/'' # a @ CHR ''@'' # k) = Some (c, a @ CHR ''@'' # k)"
    "py_partition (CHR ''@'') (a @ CHR ''@'' # k) = Some (a, k)"
    using match_separators [OF assms] by (simp_all add: py_partition_some connector_discovery_id_def)
  then show ?thesis using assms by (simp add: discovery_match_def split: if_splits)
qed

lemma long_ids: "\<exists>i c a. \<forall>k. is_sha256 k \<longrightarrow> (\<exists>e. emitted_discovery_id i c a k = Some e \<and> py_len e = 589)"
proof (intro exI allI impI)
  fix k :: string
  let ?i = "replicate 256 (CHR ''a'')" and ?n = "replicate 128 (CHR ''a'')"
  let ?e = "connector_discovery_id ?i ?n ?n k"
  assume k: "is_sha256 k"
  have "instance_pattern ?i" "name_pattern ?n"
    by (simp_all add: instance_pattern_def instance_char_def ascii_alnum_def ascii_alpha_def name_pattern_def lower_alpha_def
        list_all_iff tl_replicate)
  then have "discovery_match ?e = Some (?i, ?n, ?n, k)" using k by (simp add: discovery_match_some)
  moreover have "py_len ?e = 589"
    using py_len_hex [OF k] by (simp add: connector_discovery_id_def py_len_def utf8_continuation_def filter_replicate)
  ultimately show "emitted_discovery_id ?i ?n ?n k = Some ?e \<and> py_len ?e = 589" by (simp add: emitted_discovery_id_def)
qed

text \<open>
  C35.  The connector identifiers that a search emits.  Of an emitted identifier of at most 512 characters, the service that executes connector
  actions and the ledger that looks for its search and description both read back the instance, connector, action and contract it was emitted for;
  a longer one is refused by both.  The guard of the search has no such bound: there are parts for which it emits an identifier of 589 characters,
  whatever the contract.
\<close>

theorem emitted_connector_ids_parse_back:
  assumes "emitted_discovery_id instance connector action contract = Some d"
  shows "parse_connector_discovery_id d = (if py_len d \<le> 512 then Some (instance, connector, action, contract) else None) \<and>
    service_parse_discovery_id d = parse_connector_discovery_id d \<and>
    (\<exists>i c a. \<forall>k. is_sha256 k \<longrightarrow> (\<exists>e. emitted_discovery_id i c a k = Some e \<and> py_len e = 589))"
proof -
  have d: "d = connector_discovery_id instance connector action contract"
    and m: "discovery_match d = Some (instance, connector, action, contract)"
    using assms match_parts by (auto simp: emitted_discovery_id_def Let_def split: if_splits)
  then have "instance_pattern instance" "name_pattern connector" "name_pattern action" "is_sha256 contract"
    using discovery_match_some by blast+
  then have "parse_connector_discovery_id d = Some (instance, connector, action, contract)" if "py_len d \<le> 512"
    using that d plain_patterns by (auto simp: parse_connector_some connector_discovery_id_def)
  moreover have "parse_connector_discovery_id d = None" if "\<not> py_len d \<le> 512"
    using that by (simp add: parse_connector_discovery_id_def)
  ultimately have "parse_connector_discovery_id d = (if py_len d \<le> 512 then Some (instance, connector, action, contract) else None)"
    by simp
  moreover have "service_parse_discovery_id d = (if py_len d \<le> 512 then Some (instance, connector, action, contract) else None)"
    using m by (simp add: service_parse_discovery_id_def)
  ultimately show ?thesis using long_ids by metis
qed

section \<open>Grants\<close>

lemma run_distinct_calls: "tool_run s \<Longrightarrow> distinct (map tx_call (ts_executions s))"
proof (induction rule: tool_run.induct)
  case (start d p n)
  show ?case by (simp add: empty_tools_def)
next
  case (step s s')
  then show ?case using step_evolves by (simp add: executions_evolve_def)
qed

lemma find_execution_mem:
  assumes "tool_run s"
  shows "find_execution i s = Some x \<longleftrightarrow> x \<in> set (ts_executions s) \<and> tx_call x = i"
proof
  assume "find_execution i s = Some x"
  then show "x \<in> set (ts_executions s) \<and> tx_call x = i"
    unfolding find_execution_def by (auto simp: find_Some_iff)
next
  have inj: "inj_on tx_call (set (ts_executions s))" using run_distinct_calls [OF assms] by (simp add: distinct_map)
  assume x: "x \<in> set (ts_executions s) \<and> tx_call x = i"
  then obtain y where y: "find_execution i s = Some y"
    unfolding find_execution_def by (cases "find (\<lambda>r. tx_call r = i) (ts_executions s)") (auto simp: find_None_iff)
  then have "y \<in> set (ts_executions s) \<and> tx_call y = i" unfolding find_execution_def by (auto simp: find_Some_iff)
  then show "find_execution i s = Some x" using y x inj by (auto dest: inj_onD)
qed

lemma scope_call_row:
  assumes "tool_run s"
  shows "completed_scope_tool_call_row sc capability policy call tool s = Some x \<longleftrightarrow>
     x \<in> set (ts_executions s) \<and> tx_call x = call \<and> scope_row sc capability policy tool (ts_db s) x"
proof -
  let ?P = "\<lambda>x. tx_call x = call \<and> scope_row sc capability policy tool (ts_db s) x"
  have inj: "inj_on tx_call (set (ts_executions s))" using run_distinct_calls [OF assms] by (simp add: distinct_map)
  have found: "y \<in> set (ts_executions s) \<and> ?P y" if "find ?P (ts_executions s) = Some y" for y
    using that by (auto simp: find_Some_iff)
  show ?thesis
  proof (cases "find ?P (ts_executions s)")
    case None
    then have "\<not> ?P x" if "x \<in> set (ts_executions s)" using that by (auto simp: find_None_iff)
    then show ?thesis unfolding completed_scope_tool_call_row_def None by auto
  next
    case (Some y)
    then show ?thesis using found [OF Some] inj by (auto simp: completed_scope_tool_call_row_def dest: inj_onD)
  qed
qed

section \<open>The facts of a disclosure\<close>

text \<open>
  The specification, over the columns of the ledger and the values in the stored results.  \<open>json_at\<close> follows a path of keys.
\<close>

fun json_at :: "string list \<Rightarrow> json \<Rightarrow> json" where
  "json_at [] v = v"
| "json_at (k # ks) v = (case v of JObj d \<Rightarrow> json_at ks (jget d k) | _ \<Rightarrow> JNull)"

definition completed_call ::
    "execution_scope \<Rightarrow> string \<Rightarrow> string \<Rightarrow> string \<Rightarrow> tool_store \<Rightarrow> execution_row \<Rightarrow> bool" where
  "completed_call sc capability policy tool s x =
     (x \<in> set (ts_executions s) \<and> tx_status x = ExecCompleted \<and> tx_tool x = tool \<and>
      tx_job x = sc_job sc \<and> tx_turn x = sc_turn sc \<and> sc_batch sc = Some (tx_batch x) \<and>
      tx_capability x = capability \<and> tx_policy x = policy \<and>
      (\<exists>job \<in> set_option (find_job (sc_job sc) (ts_db s)).
         jb_kind job = ''agent_turn'' \<and> jb_turn job = Some (sc_turn sc) \<and> jb_thread job = Some (sc_thread sc)) \<and>
      (\<exists>turn \<in> set_option (find_turn (sc_turn sc) (ts_db s)). tn_thread turn = sc_thread sc) \<and>
      (\<exists>batch \<in> set_option (find_batch (tx_batch x) (ts_db s)).
         bt_turn batch = sc_turn sc \<and> bt_thread batch = sc_thread sc \<and>
         cx_capability (bt_context batch) = capability \<and> cx_permission (bt_context batch) = policy))"

text \<open>A search whose stored result lists the tool, in this version, as deferred.\<close>

definition lists_tool :: "string \<Rightarrow> string \<Rightarrow> string \<Rightarrow> execution_row \<Rightarrow> bool" where
  "lists_tool capability tool version x =
     (let result = record_result x; arguments = JObj (tx_arguments x)
      in fst ` set (tx_arguments x) \<in> {{''query''}, {''query'', ''limit''}} \<and>
         (\<exists>q. json_at [''query''] arguments = JStr q \<and> json_at [''query''] result = JStr q) \<and>
         json_at [''schema_version''] result \<in> {JInt 1, JBool True, JFloat ''1.0''} \<and>
         json_at [''capability_snapshot_id''] result = JStr capability \<and>
         (\<exists>tools t. json_at [''tools''] result = JArr tools \<and> t \<in> set tools \<and>
            json_at [''discovery_id''] t = JStr (''tool:'' @ tool @ ''@'' @ version) \<and> json_at [''tool_id''] t = JStr tool \<and>
            json_at [''tool_version''] t = JStr version \<and> json_at [''exposure''] t = JStr ''deferred''))"

text \<open>A description that found the tool available and eligible, and names the call and the result digest of its search.\<close>

definition describes_tool :: "execution_row \<Rightarrow> string \<Rightarrow> string \<Rightarrow> string \<Rightarrow> execution_row \<Rightarrow> bool" where
  "describes_tool search capability tool version x =
     (let result = record_result x; id = JStr (''tool:'' @ tool @ ''@'' @ version)
      in fst ` set (tx_arguments x) = {''discovery_id''} \<and> json_at [''discovery_id''] (JObj (tx_arguments x)) = id \<and>
         json_at [''schema_version''] result \<in> {JInt 1, JBool True, JFloat ''1.0''} \<and>
         json_at [''capability_snapshot_id''] result = JStr capability \<and> json_at [''discovery_id''] result = id \<and>
         json_at [''found''] result = JBool True \<and> json_at [''available''] result = JBool True \<and>
         json_at [''search_tool_call_id''] result = JStr (tx_call search) \<and>
         json_at [''search_result_sha256''] result = JStr (json_sha (record_result search)) \<and>
         json_at [''tool'', ''spec'', ''tool_id''] result = JStr tool \<and> json_at [''tool'', ''spec'', ''version''] result = JStr version \<and>
         json_at [''tool'', ''decision'', ''tool_id''] result = JStr tool \<and>
         json_at [''tool'', ''decision'', ''tool_version''] result = JStr version \<and>
         json_at [''tool'', ''decision'', ''eligible''] result = JBool True \<and>
         json_at [''tool'', ''decision'', ''exposure''] result = JStr ''deferred'')"

definition disclosure_facts ::
    "execution_scope \<Rightarrow> string \<Rightarrow> string \<Rightarrow> string \<Rightarrow> string \<Rightarrow> tool_store \<Rightarrow> execution_row \<Rightarrow> execution_row \<Rightarrow> bool" where
  "disclosure_facts sc capability policy tool version s search describe =
     (completed_call sc capability policy ''tool_search'' s search \<and> lists_tool capability tool version search \<and>
      completed_call sc capability policy ''tool_describe'' s describe \<and>
      describes_tool search capability tool version describe \<and> py_len (''tool:'' @ tool @ ''@'' @ version) \<le> 512)"

definition described_rows :: "execution_scope \<Rightarrow> string \<Rightarrow> string \<Rightarrow> tool_store \<Rightarrow> execution_row list" where
  "described_rows sc capability policy s =
     filter (completed_call sc capability policy ''tool_describe'' s) (ts_executions s)"

section \<open>The reads find exactly these facts\<close>

lemma json_at_path [simp]:
  "json_at (k # ks) (JObj d) = json_at ks (jget d k)" "jdict v = None \<Longrightarrow> json_at (k # ks) v = JNull"
  "json_at (k # ks) JNull = JNull"
  by (auto simp: jdict_def split: json.splits)

declare json_at.simps(2) [simp del]

lemma search_candidate_iff:
  "search_candidate i tool version t \<longleftrightarrow>
     json_at [''discovery_id''] t = JStr i \<and> json_at [''tool_id''] t = JStr tool \<and> json_at [''tool_version''] t = JStr version \<and>
     json_at [''exposure''] t = JStr ''deferred''"
proof (cases "jdict t")
  case (Some d)
  then have "t = JObj d" by (auto simp: jdict_def split: json.splits)
  then show ?thesis by (simp add: search_candidate_def jdict_def)
qed (simp add: search_candidate_def)

lemma query_iff:
  "query_arguments a \<and> v = jget a ''query'' \<longleftrightarrow>
     fst ` set a \<in> {{''query''}, {''query'', ''limit''}} \<and> (\<exists>q. jget a ''query'' = JStr q \<and> v = JStr q)"
  by (cases "jget a ''query''") (auto simp: query_arguments_def keys_are_def is_str_def)

lemma described_tool_iff:
  "described_tool tool version d \<longleftrightarrow>
     (let result = JObj d
      in json_at [''tool'', ''spec'', ''tool_id''] result = JStr tool \<and> json_at [''tool'', ''spec'', ''version''] result = JStr version \<and>
         json_at [''tool'', ''decision'', ''tool_id''] result = JStr tool \<and>
         json_at [''tool'', ''decision'', ''tool_version''] result = JStr version \<and>
         json_at [''tool'', ''decision'', ''eligible''] result = JBool True \<and>
         json_at [''tool'', ''decision'', ''exposure''] result = JStr ''deferred'')"
proof (cases "jdict (jget d ''tool'')")
  case (Some t)
  then have t: "jget d ''tool'' = JObj t" by (auto simp: jdict_def split: json.splits)
  show ?thesis
    by (cases "jget t ''spec''"; cases "jget t ''decision''"; simp add: described_tool_def t jdict_def)
qed (simp add: described_tool_def)

lemma scope_row_iff:
  "x \<in> set (ts_executions s) \<and> scope_row sc capability policy tool (ts_db s) x \<longleftrightarrow> completed_call sc capability policy tool s x"
  by (auto simp: scope_row_def completed_call_def split: option.splits)

lemma search_contains_iff:
  assumes "tool \<noteq> []" and "version \<noteq> []" and "CHR ''@'' \<notin> set version" and "tx_status x = ExecCompleted" and "tx_tool x = ''tool_search''"
  shows "record_search_contains capability (tool_discovery_id tool version) x \<longleftrightarrow>
     lists_tool capability tool version x \<and> py_len (''tool:'' @ tool @ ''@'' @ version) \<le> 512"
proof (cases "py_len (''tool:'' @ tool @ ''@'' @ version) \<le> 512")
  case True
  then have p: "parse_discovery_id (tool_discovery_id tool version) = Some (tool, version)"
    using assms(1-3) by (simp add: parse_discovery_id_def parse_versioned_some tool_discovery_id_def)
  show ?thesis
  proof (cases "jdict (record_result x)")
    case (Some d)
    then have r: "record_result x = JObj d" by (auto simp: jdict_def split: json.splits)
    have "record_search_contains capability (tool_discovery_id tool version) x \<longleftrightarrow>
        (query_arguments (tx_arguments x) \<and> jget d ''query'' = jget (tx_arguments x) ''query'') \<and> is_one (jget d ''schema_version'') \<and>
        jget d ''capability_snapshot_id'' = JStr capability \<and>
        (\<exists>tools t. jget d ''tools'' = JArr tools \<and> t \<in> set tools \<and> search_candidate (tool_discovery_id tool version) tool version t)"
      using assms(4,5) Some p by (auto simp: record_search_contains_def list_ex_iff jlist_def split: json.splits)
    then show ?thesis
      unfolding query_iff search_candidate_iff is_one_def using True
      by (simp add: lists_tool_def r tool_discovery_id_def)
  qed (simp add: record_search_contains_def lists_tool_def p)
next
  case False
  then have "parse_discovery_id (tool_discovery_id tool version) = None"
    by (auto simp: parse_discovery_id_def parse_versioned_def tool_discovery_id_def split: option.splits)
  then show ?thesis using False by (simp add: record_search_contains_def)
qed

lemma describes_iff:
  assumes "result_sha256 search = Some (json_sha (record_result search))"
    and "record_search_contains capability (tool_discovery_id tool version) search"
  shows "record_discloses search capability tool version x \<longleftrightarrow> describes_tool search capability tool version x"
proof (cases "jdict (record_result x)")
  case (Some d)
  then have r: "record_result x = JObj d" by (auto simp: jdict_def split: json.splits)
  have one: "is_one v \<longleftrightarrow> v \<in> {JInt 1, JBool True, JFloat ''1.0''}" for v by (auto simp: is_one_def)
  have str: "v = JStr t \<Longrightarrow> is_str v" for v t by (simp add: is_str_def)
  have keys: "keys_are [''discovery_id''] a \<longleftrightarrow> fst ` set a = {''discovery_id''}" for a :: jobj by (simp add: keys_are_def)
  have sha: "jopt (result_sha256 search) = JStr (json_sha (record_result search))" using assms(1) by (simp add: jopt_def)
  have d: "jdict (JObj d) = Some d" by (simp add: jdict_def)
  show ?thesis
    unfolding record_discloses_def describes_tool_def r d option.case Let_def described_tool_iff one keys sha tool_discovery_id_def
      json_at_path json_at.simps(1)
    by (rule iffI; elim conjE; intro conjI; (assumption | (rule str, assumption) | rule assms(2) [unfolded tool_discovery_id_def]))
qed (simp add: record_discloses_def describes_tool_def)

lemma discloses_iff:
  assumes "tool \<noteq> []" and "version \<noteq> []" and "CHR ''@'' \<notin> set version" and "tx_status search = ExecCompleted"
    and "tx_tool search = ''tool_search''"
  shows "record_discloses search capability tool version x \<longleftrightarrow>
     lists_tool capability tool version search \<and> describes_tool search capability tool version x \<and>
     py_len (''tool:'' @ tool @ ''@'' @ version) \<le> 512"
proof (cases "record_search_contains capability (tool_discovery_id tool version) search")
  case True
  then have l: "lists_tool capability tool version search \<and> py_len (''tool:'' @ tool @ ''@'' @ version) \<le> 512"
    using search_contains_iff [OF assms] by blast
  then have "json_at [''capability_snapshot_id''] (record_result search) = JStr capability" unfolding lists_tool_def Let_def by blast
  then have "record_result search \<noteq> JNull" by auto
  then show ?thesis using describes_iff [OF _ True] l by (simp add: result_sha256_def)
next
  case False
  moreover have "\<not> record_discloses search capability tool version x"
    using False by (auto simp: record_discloses_def Let_def split: option.splits)
  ultimately show ?thesis using search_contains_iff [OF assms] by blast
qed

lemma record_disclosesD:
  "record_discloses search capability tool version x \<Longrightarrow>
     \<exists>result. jdict (record_result x) = Some result \<and> jget result ''search_tool_call_id'' = JStr (tx_call search) \<and>
       jget result ''search_result_sha256'' = jopt (result_sha256 search) \<and> described_tool tool version result \<and>
       record_search_contains capability (tool_discovery_id tool version) search"
  by (auto simp: record_discloses_def Let_def split: option.splits)

lemma causing_search_some:
  assumes "tool_run s" and "record_discloses search capability tool version x"
  shows "causing_search sc capability policy ''tool_search'' x s = Some search \<longleftrightarrow>
     search \<in> set (ts_executions s) \<and> scope_row sc capability policy ''tool_search'' (ts_db s) search"
  using record_disclosesD [OF assms(2)] scope_call_row [OF assms(1)] by (auto simp: causing_search_def)

lemma described_facts:
  assumes "tool_run s" and "tool \<noteq> []" and "version \<noteq> []" and "CHR ''@'' \<notin> set version"
    and "has_described_tool sc capability policy tool version s"
  shows "\<exists>search describe. disclosure_facts sc capability policy tool version s search describe"
proof -
  from assms(5) obtain x search where x: "x \<in> set (completed_scope_rows sc capability policy ''tool_describe'' s)"
      and c: "causing_search sc capability policy ''tool_search'' x s = Some search" "record_discloses search capability tool version x"
    unfolding has_described_tool_def list_ex_iff by (auto split: option.splits)
  from x have "completed_call sc capability policy ''tool_describe'' s x"
    unfolding completed_scope_rows_def scope_row_iff [symmetric] by (auto dest: in_set_takeD)
  moreover have search: "completed_call sc capability policy ''tool_search'' s search"
    using c causing_search_some [OF assms(1) c(2)] scope_row_iff by blast
  moreover from this have "tx_status search = ExecCompleted" "tx_tool search = ''tool_search''" by (simp_all add: completed_call_def)
  ultimately show ?thesis using discloses_iff [OF assms(2-4)] c(2) unfolding disclosure_facts_def by blast
qed

lemma facts_described:
  assumes "tool_run s" and "tool \<noteq> []" and "version \<noteq> []" and "CHR ''@'' \<notin> set version"
    and few: "length (described_rows sc capability policy s) \<le> 1024"
    and facts: "disclosure_facts sc capability policy tool version s search describe"
  shows "has_described_tool sc capability policy tool version s"
proof -
  have "filter (scope_row sc capability policy ''tool_describe'' (ts_db s)) (ts_executions s) = described_rows sc capability policy s"
    unfolding described_rows_def by (rule filter_cong) (use scope_row_iff in blast)+
  moreover have "describe \<in> set (described_rows sc capability policy s)"
    using facts unfolding described_rows_def disclosure_facts_def by (simp add: completed_call_def [of _ _ _ _ _ describe])
  ultimately have d: "describe \<in> set (completed_scope_rows sc capability policy ''tool_describe'' s)"
    using few by (simp add: completed_scope_rows_def)
  have "tx_status search = ExecCompleted" "tx_tool search = ''tool_search''"
    using facts by (simp_all add: disclosure_facts_def completed_call_def)
  then have r: "record_discloses search capability tool version describe"
    using discloses_iff [OF assms(2-4)] facts unfolding disclosure_facts_def by blast
  then have "causing_search sc capability policy ''tool_search'' describe s = Some search"
    using facts causing_search_some [OF assms(1)] scope_row_iff unfolding disclosure_facts_def by blast
  then show ?thesis using d r unfolding has_described_tool_def list_ex_iff by force
qed

definition generic_tool :: "string \<Rightarrow> bool" where
  "generic_tool tool = (tool \<notin> {''skill_read'', ''skill_run'', ''connector_read'', ''connector_write''})"

definition grant_arguments :: "execution_scope \<Rightarrow> string \<Rightarrow> string \<Rightarrow> string \<Rightarrow> string \<Rightarrow> bool" where
  "grant_arguments sc capability policy tool version =
     (durable_scope sc \<and> list_all identity_ok [capability, policy, tool, version] \<and> generic_tool tool)"

lemma verify_described:
  "grant_arguments sc capability policy tool version \<Longrightarrow>
     verify_disclosure sc capability policy tool version s = has_described_tool sc capability policy tool version s"
  by (simp add: verify_disclosure_def has_completed_disclosure_def grant_arguments_def generic_tool_def connector_call_tool_def)

lemma grant_texts: "grant_arguments sc capability policy tool version \<Longrightarrow> tool \<noteq> []"
  "grant_arguments sc capability policy tool version \<Longrightarrow> version \<noteq> []"
proof -
  have "py_strip [] = []" by code_simp
  then show "grant_arguments sc capability policy tool version \<Longrightarrow> tool \<noteq> []"
    "grant_arguments sc capability policy tool version \<Longrightarrow> version \<noteq> []"
    by (auto simp: grant_arguments_def identity_ok_def)
qed

text \<open>
  C34.  A deferred tool that is neither a skill nor a connector tool may be dispatched only if the ledger holds a completed search and a completed
  description, both of the job, thread, turn and batch of the call and of its frozen capability and permission snapshots: the stored result of the search
  lists the exact version as deferred, and the stored result of the description found it available and eligible and names the call and the result digest
  of that search.  Conversely these facts suffice if at most 1024 descriptions of the scope completed, since the read looks at the first 1024.\<close>

theorem disclosure_iff_facts:
  assumes "tool_run s" and "grant_arguments sc capability policy tool version" and "CHR ''@'' \<notin> set version"
  shows "(verify_disclosure sc capability policy tool version s \<longrightarrow>
      (\<exists>search describe. disclosure_facts sc capability policy tool version s search describe)) \<and>
    (length (described_rows sc capability policy s) \<le> 1024 \<longrightarrow>
      (\<exists>search describe. disclosure_facts sc capability policy tool version s search describe) \<longrightarrow>
      verify_disclosure sc capability policy tool version s)"
  using described_facts [OF assms(1) grant_texts [OF assms(2)] assms(3)] facts_described [OF assms(1) grant_texts [OF assms(2)] assms(3)]
    verify_described [OF assms(2)] by blast

lemma completed_stays:
  assumes "tool_run s" and "tool_step\<^sup>*\<^sup>* s t" and "x \<in> set (ts_executions s)" and "tx_status x = ExecCompleted"
  shows "x \<in> set (ts_executions t)"
proof -
  have "find_execution (tx_call x) s = Some x" using find_execution_mem [OF assms(1)] assms(3) by simp
  then have "find_execution (tx_call x) t = Some x"
    using steps_evolve [OF assms(2)] assms(4) by (auto simp: executions_evolve_def execution_kept_def)
  then show ?thesis using find_execution_mem [OF run_tools [OF assms(2,1)]] by simp
qed

text \<open>A disclosure that was granted stays granted, whatever tool calls begin, are retried, complete, are skipped, fail or are admitted later, as long
  as the scope of jobs, turns and batches is the same and at most 1024 descriptions of it completed.\<close>

theorem disclosure_persists:
  assumes "tool_run s" and "grant_arguments sc capability policy tool version"
    and "verify_disclosure sc capability policy tool version s"
    and "tool_step\<^sup>*\<^sup>* s t" and "ts_db t = ts_db s" and "length (described_rows sc capability policy t) \<le> 1024"
    and "CHR ''@'' \<notin> set version"
  shows "verify_disclosure sc capability policy tool version t"
proof -
  obtain search describe where facts: "disclosure_facts sc capability policy tool version s search describe"
    using described_facts [OF assms(1) grant_texts [OF assms(2)] assms(7)] verify_described [OF assms(2)] assms(3) by blast
  then have "disclosure_facts sc capability policy tool version t search describe"
    using completed_stays [OF assms(1,4)] assms(5) unfolding disclosure_facts_def completed_call_def by metis
  then show ?thesis
    using facts_described [OF run_tools [OF assms(4,1)] grant_texts [OF assms(2)] assms(7,6)] verify_described [OF assms(2)] by blast
qed

section \<open>A concrete disclosure\<close>

definition found_scope :: execution_scope where
  "found_scope = \<lparr>sc_job = ''j1'', sc_thread = ''t1'', sc_turn = ''n1'', sc_batch = Some ''b1''\<rparr>"

definition found_begin :: "string \<Rightarrow> string \<Rightarrow> jobj \<Rightarrow> begin_request" where
  "found_begin call tool arguments =
     \<lparr>bq_call = call, bq_job = ''j1'', bq_turn = ''n1'', bq_batch = ''b1'', bq_capability = ''cap'', bq_policy = ''pol'', bq_tool = tool,
      bq_arguments = arguments, bq_key = None\<rparr>"

definition found_search_result :: json where
  "found_search_result =
     JObj [(''capability_snapshot_id'', JStr ''cap''), (''query'', JStr ''web''), (''schema_version'', JInt 1),
       (''tools'', JArr [JObj [(''discovery_id'', JStr ''tool:fetch@1''), (''exposure'', JStr ''deferred''), (''tool_id'', JStr ''fetch''),
          (''tool_version'', JStr ''1'')]])]"

definition found_describe_result :: json where
  "found_describe_result =
     JObj [(''available'', JBool True), (''capability_snapshot_id'', JStr ''cap''), (''discovery_id'', JStr ''tool:fetch@1''),
       (''found'', JBool True), (''schema_version'', JInt 1), (''search_result_sha256'', JStr (json_sha found_search_result)),
       (''search_tool_call_id'', JStr ''search''),
       (''tool'', JObj [(''decision'', JObj [(''eligible'', JBool True), (''exposure'', JStr ''deferred''), (''tool_id'', JStr ''fetch''),
             (''tool_version'', JStr ''1'')]),
          (''spec'', JObj [(''tool_id'', JStr ''fetch''), (''version'', JStr ''1'')])])]"

definition completed_row :: "begin_request \<Rightarrow> json \<Rightarrow> int \<Rightarrow> execution_row" where
  "completed_row q result now =
     (new_execution q now)\<lparr>tx_status := ExecCompleted, tx_result := Some (json_canon result), tx_error := None,
        tx_updated_at := now\<rparr>"

definition found_search :: execution_row where
  "found_search = completed_row (found_begin ''search'' ''tool_search'' [(''query'', JStr ''web'')]) found_search_result 10"

definition found_describe :: execution_row where
  "found_describe =
     completed_row (found_begin ''describe'' ''tool_describe'' [(''discovery_id'', JStr ''tool:fetch@1'')]) found_describe_result 20"

definition found_with :: "execution_row list \<Rightarrow> tool_store" where
  "found_with xs = (empty_tools call_db sample_started [])\<lparr>ts_executions := xs\<rparr>"

lemma found_begun:
  assumes "identity_ok call" and "identity_ok tool" and "\<forall>x\<in>set xs. tx_call x \<noteq> call"
  shows "snd (begin_execution (found_begin call tool arguments) now (found_with xs)) =
     found_with (xs @ [new_execution (found_begin call tool arguments) now])"
proof -
  have "find (\<lambda>r. tx_call r = call) xs = None" using assms(3) by (auto simp: find_None_iff)
  then show ?thesis
    using assms(1,2) call_identities
    by (simp add: begin_execution_def begin_arguments_ok_def begin_in_transaction_def insert_execution_def transaction_def run_eqs
        found_begin_def new_execution_def found_with_def empty_tools_def find_execution_def batch_scope_ok_def find_job_def find_turn_def
        find_batch_def call_db_def call_job_def call_turn_def call_batch_def empty_db_def)
qed

lemma found_completed:
  assumes "\<forall>x\<in>set xs. tx_call x \<noteq> call"
  shows "snd (complete_execution call result now (found_with (xs @ [new_execution (found_begin call tool arguments) now]))) =
     found_with (xs @ [completed_row (found_begin call tool arguments) result now])"
proof -
  have "find (\<lambda>r. tx_call r = call) xs = None" using assms by (auto simp: find_None_iff)
  moreover have "map (\<lambda>r. if tx_call r = call then f r else r) xs = xs" for f
    using assms by (simp add: map_idI)
  ultimately show ?thesis
    by (simp add: complete_execution_def update_and_read_def update_execution_def require_execution_def transaction_def run_eqs
        found_with_def find_execution_def find_append update_rows_def new_execution_def found_begin_def completed_row_def)
qed

lemma found_run:
  assumes "tool_run (found_with xs)" and "identity_ok call" and "identity_ok tool" and "\<forall>x\<in>set xs. tx_call x \<noteq> call"
  shows "tool_run (found_with (xs @ [completed_row (found_begin call tool arguments) result now]))"
  using tool_run.step [OF tool_run.step [OF assms(1) tool_step.begin_call] tool_step.complete]
  by (metis found_begun [OF assms(2-4)] found_completed [OF assms(4)])

definition found_store :: tool_store where
  "found_store = found_with [found_search, found_describe]"

lemma found_store_run: "tool_run found_store"
proof -
  have ids: "list_all identity_ok [''search'', ''describe'', ''tool_search'', ''tool_describe'']"
    by (simp add: plain_identity capability_char_def)
  have "tool_run (found_with [])" using tool_run.start [of call_db sample_started "[]"] by (simp add: found_with_def empty_tools_def)
  from found_run [OF this, where call = "''search''" and tool = "''tool_search''"] have "tool_run (found_with [found_search])"
    using ids by (simp add: found_search_def)
  from found_run [OF this, where call = "''describe''" and tool = "''tool_describe''"] show ?thesis
    using ids
    by (simp add: found_store_def found_describe_def found_search_def completed_row_def found_begin_def new_execution_def)
qed

lemma found_scopes:
  "scope_row found_scope ''cap'' ''pol'' ''tool_search'' call_db found_search"
  "scope_row found_scope ''cap'' ''pol'' ''tool_describe'' call_db found_describe"
  by (simp_all add: scope_row_def found_scope_def found_search_def found_describe_def completed_row_def found_begin_def new_execution_def
      find_job_def find_turn_def find_batch_def call_db_def call_job_def call_turn_def call_batch_def)

lemma found_id: "parse_discovery_id ''tool:fetch@1'' = Some (''fetch'', ''1'')"
  unfolding parse_discovery_id_def parse_versioned_some by (simp add: py_len_def)

lemma canon_key_image [simp]: "fst ` set (canon_obj d) = fst ` set d"
  using canon_keys [of d] by simp

lemma json_sha_canon [simp]: "json_sha (JObj (canon_obj d)) = json_sha (JObj d)"
  by (simp add: json_sha_def)

lemma found_discloses: "record_discloses found_search ''cap'' ''fetch'' ''1'' found_describe"
  using found_id
  by (simp add: record_discloses_def record_search_contains_def tool_discovery_id_def found_search_def found_describe_def completed_row_def
      found_begin_def new_execution_def record_result_def found_search_result_def found_describe_result_def result_sha256_def jdict_def jget_def
      keys_are_def is_str_def is_one_def jopt_def described_tool_def query_arguments_def jlist_def search_candidate_def Let_def)

lemma found_facts: "disclosure_facts found_scope ''cap'' ''pol'' ''fetch'' ''1'' found_store found_search found_describe"
proof -
  have "completed_call found_scope ''cap'' ''pol'' ''tool_search'' found_store found_search"
    "completed_call found_scope ''cap'' ''pol'' ''tool_describe'' found_store found_describe"
    unfolding scope_row_iff [symmetric] using found_scopes by (simp_all add: found_store_def found_with_def empty_tools_def)
  moreover from this have "tx_status found_search = ExecCompleted" "tx_tool found_search = ''tool_search''"
    by (simp_all add: completed_call_def)
  ultimately show ?thesis
    using discloses_iff [of "''fetch''" "''1''" found_search "''cap''" found_describe] found_discloses by (simp add: disclosure_facts_def)
qed

lemma found_few: "length (described_rows found_scope ''cap'' ''pol'' found_store) \<le> 1024"
proof -
  have "length (described_rows found_scope ''cap'' ''pol'' found_store) \<le> length (ts_executions found_store)"
    unfolding described_rows_def by (rule length_filter_le)
  then show ?thesis by (simp add: found_store_def found_with_def)
qed

lemma found_arguments: "grant_arguments found_scope ''cap'' ''pol'' ''fetch'' ''1''"
  by (simp add: grant_arguments_def durable_scope_def found_scope_def generic_tool_def plain_identity capability_char_def)

theorem disclosure_iff_facts_witness: "verify_disclosure found_scope ''cap'' ''pol'' ''fetch'' ''1'' found_store"
  using disclosure_iff_facts [OF found_store_run found_arguments] found_few found_facts by auto

theorem emitted_connector_ids_parse_back_witness:
  "\<exists>d. emitted_discovery_id ''acct'' ''mail'' ''send'' (sha256_hexdigest []) = Some d \<and>
     parse_connector_discovery_id d = Some (''acct'', ''mail'', ''send'', sha256_hexdigest [])"
proof -
  let ?k = "sha256_hexdigest []"
  let ?d = "connector_discovery_id ''acct'' ''mail'' ''send'' ?k"
  have k: "is_sha256 ?k" unfolding is_sha256_def list_all_iff length_sha256 using sha256_hex by blast
  have "instance_pattern ''acct''" "name_pattern ''mail''" "name_pattern ''send''"
    by (simp_all add: instance_pattern_def instance_char_def ascii_alnum_def ascii_alpha_def name_pattern_def lower_alpha_def)
  then have "discovery_match ?d = Some (''acct'', ''mail'', ''send'', ?k)" using k by (simp add: discovery_match_some)
  then have e: "emitted_discovery_id ''acct'' ''mail'' ''send'' ?k = Some ?d" by (simp add: emitted_discovery_id_def)
  have "py_len ?d \<le> 512"
    using py_len_hex [OF k] by (simp add: connector_discovery_id_def py_len_def utf8_continuation_def)
  then show ?thesis using emitted_connector_ids_parse_back [OF e] e by simp
qed

theorem disclosure_persists_witness:
  "verify_disclosure found_scope ''cap'' ''pol'' ''fetch'' ''1'' (snd (record_retry ''search'' 30 found_store))"
proof -
  let ?t = "snd (record_retry ''search'' 30 found_store)"
  have same: "?t = found_store"
    by (simp add: record_retry_def require_execution_def transaction_def run_eqs found_store_def found_with_def find_execution_def
        found_search_def completed_row_def found_begin_def new_execution_def)
  have "verify_disclosure found_scope ''cap'' ''pol'' ''fetch'' ''1'' found_store"
    using facts_described [OF found_store_run _ _ _ found_few found_facts] verify_described [OF found_arguments] by simp
  from disclosure_persists [OF found_store_run found_arguments this r_into_rtranclp [of tool_step, OF tool_step.retry [of found_store "''search''" 30]]]
  show ?thesis unfolding same using found_few by simp
qed

end
