(* ===== verification/Snapshots.thy ===== *)
theory Snapshots
  imports ToolExecutions
begin

text \<open>
  \<^verbatim>\<open>RuntimeSnapshotRepository\<close> of \<^verbatim>\<open>ecorex/runtime/snapshots.py\<close>: the append-only store of configuration snapshots, and the checks that a
  prepared turn context is intact and still authoritative.

  The record \<open>snapshot_store\<close> holds the tables the repository reads.  A \<^verbatim>\<open>payload_json\<close> column keeps the value its text parses to; every
  writer stores the canonical text, so its digest is that of \<open>json_dumps\<close>.  The argument \<open>reading\<close> is pydantic's reading of the fields of a
  \<^verbatim>\<open>PermissionSnapshot\<close> from a mapping, with its coercions; the validators that follow are modelled.
\<close>

section \<open>Tables\<close>

record capability_row =
  cp_id :: string
  cp_policy :: string
  cp_intent :: string
  cp_payload :: json
  cp_sha :: string

record extension_snapshot_row =
  xs_id :: string
  xs_payload :: json
  xs_sha :: string

record snapshot_store =
  ss_snapshots :: "snapshot_row list"
  ss_capabilities :: "capability_row list"
  ss_extensions :: "extension_snapshot_row list"
  ss_permissions :: permission_db

type_synonym 'a stxn = "(snapshot_store, 'a) txn"

text \<open>\<^verbatim>\<open>RuntimeSnapshot\<close>\<close>

record runtime_snapshot =
  rs_id :: string
  rs_kind :: string
  rs_payload :: jobj
  rs_sha :: string
  rs_created_at :: int

text \<open>\<^verbatim>\<open>^[a-z][a-z0-9_.-]{1,63}$\<close> and \<^verbatim>\<open>^[A-Za-z][A-Za-z0-9_.:-]{1,191}$\<close>\<close>

definition snapshot_kind_ok :: "string \<Rightarrow> bool" where
  "snapshot_kind_ok k =
     (2 \<le> length k \<and> length k \<le> 64 \<and> lower_alpha (hd k) \<and>
      list_all (\<lambda>c. lower_alpha c \<or> c \<in> set ''0123456789_.-'') k)"

definition snapshot_id_ok :: "string \<Rightarrow> bool" where
  "snapshot_id_ok i =
     (2 \<le> length i \<and> length i \<le> 192 \<and> ascii_alpha (hd i) \<and> list_all (\<lambda>c. ascii_alnum c \<or> c \<in> set ''_.:-'') i)"

definition find_snapshot :: "string \<Rightarrow> snapshot_store \<Rightarrow> snapshot_row option" where
  "find_snapshot i s = find (\<lambda>r. sn_id r = i) (ss_snapshots s)"

definition insert_snapshot :: "snapshot_row \<Rightarrow> unit stxn" where
  "insert_snapshot r =
     bind (read (find_snapshot (sn_id r))) (\<lambda>old.
     seq (require (old = None) (IntegrityError ''UNIQUE constraint failed''))
         (modify (\<lambda>s. s\<lparr>ss_snapshots := ss_snapshots s @ [r]\<rparr>)))"

section \<open>Saving and reading\<close>

definition snapshot_from_row :: "snapshot_row \<Rightarrow> err + runtime_snapshot" where
  "snapshot_from_row r =
     (if json_sha (sn_payload r) \<noteq> sn_sha r then Inl (RuntimeSnapshotError ''stored runtime snapshot digest is invalid'')
      else case jdict (sn_payload r) of
        None \<Rightarrow> Inl (RuntimeSnapshotError ''stored runtime snapshot payload is not an object'')
      | Some payload \<Rightarrow>
          Inr \<lparr>rs_id = sn_id r, rs_kind = sn_kind r, rs_payload = payload, rs_sha = json_sha (sn_payload r),
               rs_created_at = sn_created_at r\<rparr>)"

text \<open>\<^verbatim>\<open>snapshot_id or f"{kind}_{digest}"\<close>\<close>

definition snapshot_identity :: "string option \<Rightarrow> string \<Rightarrow> jobj \<Rightarrow> string" where
  "snapshot_identity i kind payload =
     (case i of Some v \<Rightarrow> if v = [] then kind @ ''_'' @ json_sha (JObj payload) else v
      | None \<Rightarrow> kind @ ''_'' @ json_sha (JObj payload))"

definition new_snapshot :: "string \<Rightarrow> string \<Rightarrow> jobj \<Rightarrow> int \<Rightarrow> snapshot_row" where
  "new_snapshot i kind payload now =
     \<lparr>sn_id = i, sn_kind = kind, sn_payload = JObj (canon_obj payload), sn_sha = json_sha (JObj payload), sn_created_at = now\<rparr>"

definition save_in_transaction ::
    "bool \<Rightarrow> string \<Rightarrow> jobj \<Rightarrow> string option \<Rightarrow> int \<Rightarrow> runtime_snapshot stxn" where
  "save_in_transaction in_transaction kind payload snapshot_id now =
     seq (require in_transaction (RuntimeError ''runtime snapshot save requires an active transaction''))
     (seq (require (snapshot_kind_ok kind) (ValueError ''runtime snapshot kind is invalid''))
     (let i = snapshot_identity snapshot_id kind payload
      in seq (require (snapshot_id_ok i) (ValueError ''runtime snapshot ID is invalid''))
         (bind (read (find_snapshot i)) (\<lambda>row.
          case row of
            Some r \<Rightarrow>
              seq (require (sn_kind r = kind \<and> json_dumps (sn_payload r) = json_dumps (JObj payload) \<and>
                            sn_sha r = json_sha (JObj payload))
                     (RuntimeSnapshotConflict ''runtime snapshot ID was reused with different content''))
                  (lift_result (snapshot_from_row r))
          | None \<Rightarrow>
              seq (insert_snapshot (new_snapshot i kind payload now))
                  (lift_result (snapshot_from_row (new_snapshot i kind payload now)))))))"

definition save_snapshot ::
    "string \<Rightarrow> jobj \<Rightarrow> string option \<Rightarrow> int \<Rightarrow> snapshot_store \<Rightarrow> (err + runtime_snapshot) \<times> snapshot_store" where
  "save_snapshot kind payload snapshot_id now = transaction (save_in_transaction True kind payload snapshot_id now)"

text \<open>\<^verbatim>\<open>project\<close> compares the digests and then the mappings.  Python's \<^verbatim>\<open>==\<close> on mappings also identifies \<^verbatim>\<open>1\<close>, \<^verbatim>\<open>1.0\<close> and \<^verbatim>\<open>True\<close>, whose
  texts and digests differ, so the mappings are compared by their texts.\<close>

definition project_snapshot :: "string \<Rightarrow> jobj \<Rightarrow> string option \<Rightarrow> snapshot_store \<Rightarrow> err + runtime_snapshot" where
  "project_snapshot kind payload snapshot_id s =
     (if \<not> snapshot_kind_ok kind then Inl (ValueError ''runtime snapshot kind is invalid'')
      else let i = snapshot_identity snapshot_id kind payload
      in if \<not> snapshot_id_ok i then Inl (ValueError ''runtime snapshot ID is invalid'')
      else case find_snapshot i s of
        Some row \<Rightarrow>
          ebind (snapshot_from_row row) (\<lambda>existing.
          if rs_kind existing \<noteq> kind \<or> rs_sha existing \<noteq> json_sha (JObj payload) \<or>
             json_dumps (JObj (rs_payload existing)) \<noteq> json_dumps (JObj payload)
          then Inl (RuntimeSnapshotConflict ''runtime snapshot ID was reused with different content'')
          else Inr existing)
      | None \<Rightarrow>
          Inr \<lparr>rs_id = i, rs_kind = kind, rs_payload = payload, rs_sha = json_sha (JObj payload), rs_created_at = 0\<rparr>)"

definition get_snapshot :: "string \<Rightarrow> snapshot_store \<Rightarrow> err + runtime_snapshot" where
  "get_snapshot i s =
     (case find_snapshot i s of None \<Rightarrow> Inl (RuntimeSnapshotNotFound i) | Some r \<Rightarrow> snapshot_from_row r)"

definition runtime_snapshot_of_kind :: "string \<Rightarrow> string \<Rightarrow> snapshot_store \<Rightarrow> err + runtime_snapshot" where
  "runtime_snapshot_of_kind i expected_kind s =
     (case find_snapshot i s of
        None \<Rightarrow> Inl (RuntimeSnapshotNotFound i)
      | Some r \<Rightarrow>
          ebind (snapshot_from_row r) (\<lambda>v.
          if rs_kind v \<noteq> expected_kind then Inl (RuntimeSnapshotError ''runtime snapshot has the wrong kind'') else Inr v))"

section \<open>Checks of a prepared context\<close>

definition snapshot_check :: "bool \<Rightarrow> string \<Rightarrow> err + unit" where
  "snapshot_check b message = (if b then Inr () else Inl (RuntimeSnapshotError message))"

definition hashable :: "json \<Rightarrow> bool" where
  "hashable v = (case v of JArr _ \<Rightarrow> False | JObj _ \<Rightarrow> False | _ \<Rightarrow> True)"

text \<open>\<^verbatim>\<open>model_id in {item.get("model_id") for item in models if isinstance(item, dict)}\<close>; building the set raises for an unhashable member.\<close>

definition catalogued :: "json \<Rightarrow> string \<Rightarrow> string \<Rightarrow> err + unit" where
  "catalogued models model_id message =
     (case models of
        JArr items \<Rightarrow>
          (let ids = map (\<lambda>d. jget d ''model_id'') (List.map_filter jdict items)
           in if \<not> list_all hashable ids then Inl (TypeError ''unhashable type'')
              else snapshot_check (JStr model_id \<in> set ids) message)
      | _ \<Rightarrow> Inl (RuntimeSnapshotError message))"

definition modality :: "string \<Rightarrow> jobj \<Rightarrow> json" where
  "modality name payload = (case jdict (jget payload ''modalities'') of None \<Rightarrow> JNull | Some d \<Rightarrow> jget d name)"

definition validate_model_selection ::
    "bool \<Rightarrow> snapshot_context \<Rightarrow> string \<Rightarrow> string option \<Rightarrow> snapshot_store \<Rightarrow> err + unit" where
  "validate_model_selection in_transaction c agent_model image_model s =
     (if \<not> in_transaction then Inl (RuntimeError ''model snapshot validation requires an active transaction'')
      else if agent_model = [] then Inl (ValueError ''a frozen Agent model is required'')
      else ebind (runtime_snapshot_of_kind (cx_config c) ''config'' s) (\<lambda>config.
           ebind (runtime_snapshot_of_kind (cx_model_catalog c) ''models'' s) (\<lambda>models.
           ebind (snapshot_check
                    (jget (rs_payload config) ''model_catalog_snapshot_id'' = JStr (cx_model_catalog c) \<and>
                     jget (rs_payload config) ''agent_model_id'' = JStr agent_model \<and>
                     jget (rs_payload config) ''image_model_id'' = jopt image_model)
                    ''config snapshot does not bind the frozen Turn model selection'') (\<lambda>_.
           ebind (snapshot_check (jget (rs_payload models) ''snapshot_id'' = JStr (cx_model_catalog c))
                    ''model catalog snapshot identity is invalid'') (\<lambda>_.
           ebind (catalogued (modality ''chat'' (rs_payload models)) agent_model
                    ''model catalog snapshot does not contain the Agent chat model'') (\<lambda>_.
           case image_model of
             None \<Rightarrow> Inr ()
           | Some image_id \<Rightarrow>
               catalogued (modality ''image'' (rs_payload models)) image_id
                 ''model catalog snapshot does not contain the frozen image model''))))))"

definition ledger_backs :: "string \<Rightarrow> permission_snapshot \<Rightarrow> permission_state_row \<Rightarrow> permission_db \<Rightarrow> bool" where
  "ledger_backs account v row p =
     (case find (\<lambda>e. pl_account e = account \<and> pl_revision e = snap_revision v) (permission_ledger p) of
        None \<Rightarrow> False
      | Some e \<Rightarrow> pl_profile e = ps_profile row \<and> pl_created_at e = ps_updated_at row \<and> Some (pl_digest e) = ps_digest row)"

text \<open>The comparison of a snapshot with the stored preference and the ledger entry of its revision.\<close>

definition permission_current :: "string \<Rightarrow> string \<Rightarrow> permission_snapshot \<Rightarrow> snapshot_store \<Rightarrow> err + permission_snapshot" where
  "permission_current i account v s =
     ebind (snapshot_check (snap_id v = i) ''permission snapshot identity is invalid'') (\<lambda>_.
     case find_state account (ss_permissions s) of
       None \<Rightarrow> Inl (RuntimeSnapshotError ''current permission authority is missing'')
     | Some row \<Rightarrow>
         if ps_profile row \<noteq> snap_profile v \<or> ps_revision row \<noteq> snap_revision v \<or> ps_updated_at row \<noteq> snap_updated_at v
         then Inl (RuntimeSnapshotStale ''prepared Turn permission snapshot is no longer current'')
         else ebind (snapshot_check (case ps_digest row of None \<Rightarrow> False | Some d \<Rightarrow> is_sha256 d)
                       ''current permission authority digest is invalid'') (\<lambda>_.
              ebind (snapshot_check (ledger_backs account v row (ss_permissions s))
                       ''current permission authority is not ledger-backed'') (\<lambda>_. Inr v)))"

definition validate_permission_snapshot_current ::
    "(jobj \<Rightarrow> permission_snapshot option) \<Rightarrow> bool \<Rightarrow> string \<Rightarrow> string \<Rightarrow> snapshot_store \<Rightarrow> err + permission_snapshot" where
  "validate_permission_snapshot_current reading in_transaction snapshot_id account s =
     (if \<not> in_transaction then Inl (RuntimeError ''permission snapshot validation requires an active transaction'')
      else if account = [] then Inl (ValueError ''permission snapshot validation requires an account_id'')
      else ebind (runtime_snapshot_of_kind snapshot_id ''permission'' s) (\<lambda>permission.
           case Option.bind (reading (rs_payload permission))
                  (\<lambda>raw. case validate_snapshot raw of Inl _ \<Rightarrow> None | Inr v \<Rightarrow> Some v) of
             None \<Rightarrow> Inl (RuntimeSnapshotError ''permission snapshot payload is invalid'')
           | Some v \<Rightarrow> permission_current snapshot_id account v s))"

definition find_extension :: "string \<Rightarrow> snapshot_store \<Rightarrow> extension_snapshot_row option" where
  "find_extension i s = find (\<lambda>r. xs_id r = i) (ss_extensions s)"

definition extension_contract_ok :: "json \<Rightarrow> bool" where
  "extension_contract_ok v =
     (case jdict v of
        None \<Rightarrow> False
      | Some payload \<Rightarrow> jget payload ''contract_version'' = JStr ''1.0'' \<and>
          (case jget payload ''items'' of JArr _ \<Rightarrow> True | _ \<Rightarrow> False))"

definition validate_extension_snapshot ::
    "bool \<Rightarrow> string \<Rightarrow> string option \<Rightarrow> snapshot_store \<Rightarrow> err + unit" where
  "validate_extension_snapshot in_transaction i config_id s =
     (if \<not> in_transaction then Inl (RuntimeError ''extension snapshot validation requires an active transaction'')
      else case find_extension i s of
        None \<Rightarrow> Inl (RuntimeSnapshotNotFound i)
      | Some r \<Rightarrow>
          ebind (snapshot_check (xs_sha r = json_sha (xs_payload r) \<and> i = ''ext_'' @ json_sha (xs_payload r))
                   ''extension catalog snapshot digest is invalid'') (\<lambda>_.
          ebind (snapshot_check (extension_contract_ok (xs_payload r)) ''extension catalog snapshot contract is invalid'') (\<lambda>_.
          case config_id of
            None \<Rightarrow> Inr ()
          | Some c \<Rightarrow>
              ebind (runtime_snapshot_of_kind c ''config'' s) (\<lambda>config.
              snapshot_check (jget (rs_payload config) ''extension_snapshot_id'' = JStr i)
                ''config snapshot does not bind the extension catalog''))))"

definition find_capability :: "string \<Rightarrow> snapshot_store \<Rightarrow> capability_row option" where
  "find_capability i s = find (\<lambda>r. cp_id r = i) (ss_capabilities s)"

definition imagegen_decision :: "jobj \<Rightarrow> jobj option" where
  "imagegen_decision payload =
     (case jget payload ''decisions'' of
        JArr ds \<Rightarrow> find (\<lambda>d. jget d ''tool_id'' = JStr ''imagegen'') (List.map_filter jdict ds)
      | _ \<Rightarrow> None)"

definition validate_capability :: "snapshot_context \<Rightarrow> string \<Rightarrow> snapshot_store \<Rightarrow> err + unit" where
  "validate_capability c expected_intent s =
     (case find_capability (cx_capability c) s of
        None \<Rightarrow> Inl (RuntimeSnapshotNotFound (cx_capability c))
      | Some r \<Rightarrow>
          ebind (snapshot_check (json_sha (cp_payload r) = cp_sha r) ''capability snapshot digest is invalid'') (\<lambda>_.
          case jdict (cp_payload r) of
            None \<Rightarrow> Inl (RuntimeSnapshotError ''capability snapshot payload is not an object'')
          | Some payload \<Rightarrow>
              if cp_policy r \<noteq> cx_permission c \<or> jget payload ''policy_snapshot_id'' \<noteq> JStr (cx_permission c)
              then Inl (RuntimeSnapshotStale ''capability snapshot is not governed by the current permission fact'')
              else ebind (snapshot_check
                            (cp_intent r = expected_intent \<and> jget payload ''intent'' = JStr expected_intent \<and>
                             jget payload ''snapshot_id'' = JStr (cx_capability c))
                            ''capability snapshot does not bind the retouch Turn intent'') (\<lambda>_.
                   case imagegen_decision payload of
                     None \<Rightarrow> Inl (RuntimeSnapshotError ''capability snapshot is missing the governed image editor'')
                   | Some d \<Rightarrow>
                       if jget d ''eligible'' \<noteq> JBool True
                       then Inl (RuntimeSnapshotStale ''image editing is unavailable under the current capability policy'')
                       else Inr ())))"

definition validate_turn_context ::
    "(jobj \<Rightarrow> permission_snapshot option) \<Rightarrow> bool \<Rightarrow> snapshot_context \<Rightarrow> string \<Rightarrow> string \<Rightarrow> string \<Rightarrow> string option
      \<Rightarrow> snapshot_store \<Rightarrow> err + unit" where
  "validate_turn_context reading in_transaction c account expected_intent agent_model image_model s =
     (if \<not> in_transaction then Inl (RuntimeError ''turn snapshot validation requires an active transaction'')
      else if account = [] then Inl (ValueError ''turn snapshot validation requires an account_id'')
      else if expected_intent = [] then Inl (ValueError ''turn snapshot validation requires an expected intent'')
      else if agent_model = [] then Inl (ValueError ''turn snapshot validation requires an expected Agent model'')
      else if \<not> truthy image_model then Inl (ValueError ''retouch snapshot validation requires an expected image model'')
      else ebind (validate_extension_snapshot True (cx_extension c) None s) (\<lambda>_.
           ebind (validate_model_selection True c agent_model image_model s) (\<lambda>_.
           ebind (runtime_snapshot_of_kind (cx_config c) ''config'' s) (\<lambda>config.
           ebind (validate_permission_snapshot_current reading True (cx_permission c) account s) (\<lambda>_.
           ebind (snapshot_check (jget (rs_payload config) ''model_catalog_snapshot_id'' = JStr (cx_model_catalog c))
                    ''config snapshot does not bind the requested model catalog'') (\<lambda>_.
           ebind (snapshot_check (jget (rs_payload config) ''extension_snapshot_id'' = JStr (cx_extension c))
                    ''config snapshot does not bind the requested extension catalog'') (\<lambda>_.
           validate_capability c expected_intent s)))))))"

text \<open>The two checks as the turn operations of the kernel call them.  The tables of snapshots are part of the same database file; no turn operation
  writes them.\<close>

definition refusal :: "err + unit \<Rightarrow> err option" where
  "refusal x = (case x of Inl e \<Rightarrow> Some e | Inr _ \<Rightarrow> None)"

definition model_selection_check :: "snapshot_store \<Rightarrow> snapshot_context \<Rightarrow> string \<Rightarrow> string option \<Rightarrow> db \<Rightarrow> err option" where
  "model_selection_check st c agent_model image_model s = refusal (validate_model_selection True c agent_model image_model st)"

definition turn_context_check ::
    "(jobj \<Rightarrow> permission_snapshot option) \<Rightarrow> snapshot_store \<Rightarrow> string \<Rightarrow> string \<Rightarrow> snapshot_context \<Rightarrow> string \<Rightarrow> string option
      \<Rightarrow> db \<Rightarrow> err option" where
  "turn_context_check reading st account intent c agent_model image_model s =
     refusal (validate_turn_context reading True c account intent agent_model image_model st)"

end
