(* ===== verification/SnapshotProperties.thy ===== *)
theory SnapshotProperties
  imports Snapshots PermissionProperties
begin

text \<open>
  What the store of snapshots promises: a saved snapshot keeps its content for ever, the read-only projection agrees with saving, and a permission
  snapshot that was superseded is never current again.
\<close>

section \<open>Runs\<close>

text \<open>Snapshots are saved through the repository; the other tables belong to other code.\<close>

inductive snapshot_step :: "snapshot_store \<Rightarrow> snapshot_store \<Rightarrow> bool" where
  save: "snapshot_step s (snd (save_snapshot kind payload i now s))"
| outside: "snapshot_step s (s\<lparr>ss_capabilities := c, ss_extensions := x, ss_permissions := p\<rparr>)"

inductive snapshot_run :: "snapshot_store \<Rightarrow> bool" where
  start: "ss_snapshots s = [] \<Longrightarrow> snapshot_run s"
| step: "snapshot_run s \<Longrightarrow> snapshot_step s s' \<Longrightarrow> snapshot_run s'"

definition row_intact :: "snapshot_row \<Rightarrow> bool" where
  "row_intact r = ((\<exists>d. sn_payload r = JObj d) \<and> sn_sha r = json_sha (sn_payload r))"

definition snapshots_kept :: "snapshot_store \<Rightarrow> snapshot_store \<Rightarrow> bool" where
  "snapshots_kept s s' =
     ((\<forall>i r. find_snapshot i s = Some r \<longrightarrow> find_snapshot i s' = Some r) \<and>
      (list_all row_intact (ss_snapshots s) \<longrightarrow> list_all row_intact (ss_snapshots s')))"

interpretation kept: step_order snapshots_kept
  by unfold_locales (auto simp: snapshots_kept_def)

lemma json_sha_canon_obj [simp]: "json_sha (JObj (canon_obj d)) = json_sha (JObj d)"
  by (simp add: json_sha_def)

lemma new_snapshot_intact: "row_intact (new_snapshot i kind payload now)"
  by (simp add: row_intact_def new_snapshot_def)

lemma keeps_insert_snapshot: "row_intact r \<Longrightarrow> keeps snapshots_kept (insert_snapshot r)"
  by (rule keepsI) (auto simp: insert_snapshot_def wp_simps snapshots_kept_def find_snapshot_def find_append)

lemma keeps_save: "keeps snapshots_kept (save_in_transaction b kind payload i now)"
  unfolding save_in_transaction_def Let_def
  by (intro kept.keeps_intros keeps_insert_snapshot new_snapshot_intact keeps_lift_result kept.R_refl)

lemma step_kept: "snapshot_step s s' \<Longrightarrow> snapshots_kept s s'"
proof (induction rule: snapshot_step.induct)
  case (save s kind payload i now)
  show ?case unfolding save_snapshot_def by (rule kept.transaction_keeps [OF keeps_save])
next
  case (outside s c x p)
  show ?case by (simp add: snapshots_kept_def find_snapshot_def)
qed

lemma steps_kept: "snapshot_step\<^sup>*\<^sup>* s s' \<Longrightarrow> snapshots_kept s s'"
  by (induction rule: rtranclp_induct) (auto intro: kept.R_refl kept.R_trans step_kept)

lemma run_intact: "snapshot_run s \<Longrightarrow> list_all row_intact (ss_snapshots s)"
proof (induction rule: snapshot_run.induct)
  case (start s)
  then show ?case by simp
next
  case (step s s')
  then show ?case using step_kept by (auto simp: snapshots_kept_def)
qed

lemma found_intact: "snapshot_run s \<Longrightarrow> find_snapshot i s = Some r \<Longrightarrow> row_intact r \<and> sn_id r = i"
  using run_intact [of s] by (auto simp: find_snapshot_def list_all_iff find_Some_iff)

lemma intact_reads:
  assumes "row_intact r"
  obtains d where "sn_payload r = JObj d"
    and "snapshot_from_row r = Inr \<lparr>rs_id = sn_id r, rs_kind = sn_kind r, rs_payload = d, rs_sha = sn_sha r, rs_created_at = sn_created_at r\<rparr>"
  using assms by (auto simp: row_intact_def snapshot_from_row_def jdict_def)

lemma new_reads:
  "snapshot_from_row (new_snapshot j kind payload now) =
     Inr \<lparr>rs_id = j, rs_kind = kind, rs_payload = canon_obj payload, rs_sha = json_sha (JObj payload), rs_created_at = now\<rparr>"
  by (simp add: snapshot_from_row_def new_snapshot_def jdict_def)

section \<open>Immutability\<close>

text \<open>What saving does on a store of the runs: every branch.\<close>

lemma save_cases:
  assumes "snapshot_kind_ok kind" and "snapshot_id_ok (snapshot_identity i kind payload)"
  shows "save_snapshot kind payload i now s =
     (let j = snapshot_identity i kind payload; r = new_snapshot j kind payload now
      in case find_snapshot j s of
           Some r' \<Rightarrow>
             (if sn_kind r' = kind \<and> json_dumps (sn_payload r') = json_dumps (JObj payload) \<and> sn_sha r' = json_sha (JObj payload)
              then (snapshot_from_row r', s)
              else (Inl (RuntimeSnapshotConflict ''runtime snapshot ID was reused with different content''), s))
         | None \<Rightarrow> (snapshot_from_row r, s\<lparr>ss_snapshots := ss_snapshots s @ [r]\<rparr>))"
proof (cases "find_snapshot (snapshot_identity i kind payload) s")
  case None
  then have "find_snapshot (sn_id (new_snapshot (snapshot_identity i kind payload) kind payload now)) s = None"
    by (simp add: new_snapshot_def)
  then show ?thesis
    using assms None by (simp add: save_snapshot_def save_in_transaction_def insert_snapshot_def transaction_def run_eqs Let_def new_reads)
next
  case (Some r)
  then show ?thesis
    using assms by (simp add: save_snapshot_def save_in_transaction_def transaction_def run_eqs Let_def split: sum.splits)
qed

lemma save_refused:
  "\<not> snapshot_kind_ok kind \<Longrightarrow> save_snapshot kind payload i now s = (Inl (ValueError ''runtime snapshot kind is invalid''), s)"
  "snapshot_kind_ok kind \<Longrightarrow> \<not> snapshot_id_ok (snapshot_identity i kind payload) \<Longrightarrow>
     save_snapshot kind payload i now s = (Inl (ValueError ''runtime snapshot ID is invalid''), s)"
  by (simp_all add: save_snapshot_def save_in_transaction_def transaction_def run_eqs Let_def)

text \<open>The row behind a saved snapshot.\<close>

lemma saved_row:
  assumes run: "snapshot_run s" and saved: "save_snapshot kind payload i now s = (Inr v, s')"
  obtains r where "find_snapshot (rs_id v) s' = Some r" and "snapshot_from_row r = Inr v" and "sn_kind r = kind"
    and "json_dumps (sn_payload r) = json_dumps (JObj payload)" and "row_intact r" and "snapshot_id_ok (rs_id v)"
proof -
  let ?j = "snapshot_identity i kind payload"
  have ok: "snapshot_kind_ok kind" "snapshot_id_ok ?j"
    using saved save_refused [of kind] by (metis Inl_Inr_False prod.inject)+
  show thesis
  proof (cases "find_snapshot ?j s")
    case None
    let ?r = "new_snapshot ?j kind payload now"
    have "snapshot_from_row ?r = Inr v" "s' = s\<lparr>ss_snapshots := ss_snapshots s @ [?r]\<rparr>"
      using saved save_cases [OF ok] None by (simp_all add: Let_def)
    moreover from this have "rs_id v = ?j" by (auto simp: new_reads)
    moreover from calculation have "find_snapshot (rs_id v) s' = Some ?r"
      using None by (simp add: find_snapshot_def find_append new_snapshot_def)
    ultimately show thesis
      using that ok new_snapshot_intact by (simp add: new_snapshot_def)
  next
    case (Some r)
    have r: "row_intact r" "sn_id r = ?j" using found_intact [OF run Some] by auto
    have same: "snapshot_from_row r = Inr v" "s' = s" "sn_kind r = kind" "json_dumps (sn_payload r) = json_dumps (JObj payload)"
      using saved save_cases [OF ok] Some by (auto simp: Let_def split: if_splits)
    moreover have "rs_id v = ?j" using r same(1) by (auto elim!: intact_reads)
    ultimately show thesis using that Some r ok by simp
  qed
qed

text \<open>
  C33.  A saved snapshot is immutable.  However much is saved later, reading its identifier gives the snapshot that was returned; saving its
  content again under that identifier returns it and writes nothing, and saving anything else under it is refused.\<close>

theorem saved_snapshot_is_immutable:
  assumes run: "snapshot_run s" and saved: "save_snapshot kind payload i now s = (Inr v, s')" and later: "snapshot_step\<^sup>*\<^sup>* s' t"
    and kind: "snapshot_kind_ok kind'"
  shows "get_snapshot (rs_id v) t = Inr v \<and> json_dumps (JObj (rs_payload v)) = json_dumps (JObj payload) \<and>
     save_snapshot kind' payload' (Some (rs_id v)) now' t =
       (if kind' = kind \<and> json_dumps (JObj payload') = json_dumps (JObj payload) then (Inr v, t)
        else (Inl (RuntimeSnapshotConflict ''runtime snapshot ID was reused with different content''), t))"
proof (rule saved_row [OF run saved])
  fix r assume r: "find_snapshot (rs_id v) s' = Some r" "snapshot_from_row r = Inr v" "sn_kind r = kind"
    "json_dumps (sn_payload r) = json_dumps (JObj payload)" "row_intact r" "snapshot_id_ok (rs_id v)"
  have found: "find_snapshot (rs_id v) t = Some r" using steps_kept [OF later] r(1) by (simp add: snapshots_kept_def)
  have "rs_id v \<noteq> []" using r(6) by (auto simp: snapshot_id_ok_def)
  then have identity: "snapshot_identity (Some (rs_id v)) kind' payload' = rs_id v" by (simp add: snapshot_identity_def)
  have sha: "sn_sha r = sha256_hexdigest (json_dumps (JObj payload))" using r(4,5) by (simp add: row_intact_def json_sha_def)
  have "json_dumps (JObj (rs_payload v)) = json_dumps (JObj payload)" using r(2,4,5) by (auto elim!: intact_reads)
  moreover have "get_snapshot (rs_id v) t = Inr v" using found r(2) by (simp add: get_snapshot_def)
  moreover have "save_snapshot kind' payload' (Some (rs_id v)) now' t =
       (if kind' = kind \<and> json_dumps (JObj payload') = json_dumps (JObj payload) then (Inr v, t)
        else (Inl (RuntimeSnapshotConflict ''runtime snapshot ID was reused with different content''), t))"
    using save_cases [OF kind, of "Some (rs_id v)" payload' now' t] identity found r(2-4,6) sha by (auto simp: Let_def json_sha_def)
  ultimately show ?thesis by simp
qed

text \<open>The read-only projection agrees with saving on every input: it refuses what saving refuses, with the same error, returns the stored
  snapshot when there is one, and otherwise the snapshot that saving would create, dated at the epoch.\<close>

theorem projection_agrees_with_saving:
  assumes run: "snapshot_run s"
  shows "project_snapshot kind payload i s =
     (case fst (save_snapshot kind payload i now s) of
        Inl e \<Rightarrow> Inl e
      | Inr v \<Rightarrow> Inr (if find_snapshot (rs_id v) s = None then v\<lparr>rs_payload := payload, rs_created_at := 0\<rparr> else v))"
proof (cases "snapshot_kind_ok kind \<and> snapshot_id_ok (snapshot_identity i kind payload)")
  case False
  then show ?thesis using save_refused by (auto simp: project_snapshot_def Let_def)
next
  case True
  let ?j = "snapshot_identity i kind payload"
  note save = save_cases [OF True [THEN conjunct1] True [THEN conjunct2], of now s]
  show ?thesis
  proof (cases "find_snapshot ?j s")
    case None
    show ?thesis using True None save by (simp add: project_snapshot_def Let_def new_reads)
  next
    case (Some r)
    then have r: "row_intact r" "sn_id r = ?j" using found_intact [OF run] by auto
    from r(1) obtain d where d: "sn_payload r = JObj d" "snapshot_from_row r =
        Inr \<lparr>rs_id = sn_id r, rs_kind = sn_kind r, rs_payload = d, rs_sha = sn_sha r, rs_created_at = sn_created_at r\<rparr>"
      by (rule intact_reads)
    show ?thesis using True Some r(2) d save by (auto simp: project_snapshot_def Let_def)
  qed
qed

section \<open>Permission snapshots\<close>

lemma permission_current_same: "permission_current i account v s = Inr w \<Longrightarrow> w = v"
  by (auto simp: permission_current_def split: if_splits option.splits)

lemma permission_currentD:
  assumes "validate_permission_snapshot_current reading True i account s = Inr v"
  obtains row permission raw where "find_state account (ss_permissions s) = Some row"
    and "runtime_snapshot_of_kind i ''permission'' s = Inr permission" and "reading (rs_payload permission) = Some raw"
    and "validate_snapshot raw = Inr v" and "snap_id v = i" and "account \<noteq> []"
    and "ps_profile row = snap_profile v" and "ps_revision row = snap_revision v" and "ps_updated_at row = snap_updated_at v"
    and "ledger_backs account v row (ss_permissions s)"
proof -
  have account: "account \<noteq> []" using assms by (auto simp: validate_permission_snapshot_current_def)
  then obtain permission where permission: "runtime_snapshot_of_kind i ''permission'' s = Inr permission"
    using assms by (cases "runtime_snapshot_of_kind i ''permission'' s") (auto simp: validate_permission_snapshot_current_def ebind_def)
  have unfolded: "validate_permission_snapshot_current reading True i account s =
      (case Option.bind (reading (rs_payload permission)) (\<lambda>raw. case validate_snapshot raw of Inl _ \<Rightarrow> None | Inr v \<Rightarrow> Some v) of
         None \<Rightarrow> Inl (RuntimeSnapshotError ''permission snapshot payload is invalid'')
       | Some v \<Rightarrow> permission_current i account v s)"
    using account permission by (simp add: validate_permission_snapshot_current_def permission_current_def)
  have "\<exists>raw. reading (rs_payload permission) = Some raw \<and> validate_snapshot raw = Inr v \<and> permission_current i account v s = Inr v"
  proof (cases "reading (rs_payload permission)")
    case None
    then show ?thesis using unfolded assms by simp
  next
    case (Some raw)
    then obtain w where w: "validate_snapshot raw = Inr w" "permission_current i account w s = Inr v"
      using unfolded assms by (cases "validate_snapshot raw") auto
    then show ?thesis using Some permission_current_same by blast
  qed
  then obtain raw where raw: "reading (rs_payload permission) = Some raw" "validate_snapshot raw = Inr v"
      and check: "permission_current i account v s = Inr v" by blast
  from check obtain row where row: "find_state account (ss_permissions s) = Some row" and id: "snap_id v = i"
    by (auto simp: permission_current_def snapshot_check_def split: if_splits option.splits)
  have "ps_profile row = snap_profile v \<and> ps_revision row = snap_revision v \<and> ps_updated_at row = snap_updated_at v \<and>
      ledger_backs account v row (ss_permissions s)"
    using check row id by (auto simp: permission_current_def snapshot_check_def split: if_splits)
  then show thesis using that [OF row permission raw id account] by simp
qed

lemma current_kept:
  assumes "find_snapshot i s' = find_snapshot i s"
  shows "runtime_snapshot_of_kind i k s' = runtime_snapshot_of_kind i k s"
  using assms by (simp add: runtime_snapshot_of_kind_def)

lemma unchanged_between:
  assumes run: "permission_run dump (ss_permissions s)"
    and first: "validate_permission_snapshot_current reading True i account s = Inr v"
    and before: "(permission_step dump)\<^sup>*\<^sup>* (ss_permissions s) (ss_permissions t)"
    and after: "(permission_step dump)\<^sup>*\<^sup>* (ss_permissions t) (ss_permissions u)"
    and second: "validate_permission_snapshot_current reading True i account u = Inr w" and kept: "find_snapshot i u = find_snapshot i s"
  shows "w = v \<and> find_state account (ss_permissions t) = find_state account (ss_permissions s)"
proof -
  from first obtain row p raw where row: "find_state account (ss_permissions s) = Some row" "ps_revision row = snap_revision v"
      and p: "runtime_snapshot_of_kind i ''permission'' s = Inr p" "reading (rs_payload p) = Some raw" "validate_snapshot raw = Inr v"
    by (rule permission_currentD)
  from second obtain row'' p' raw' where row'': "find_state account (ss_permissions u) = Some row''" "ps_revision row'' = snap_revision w"
      and p': "runtime_snapshot_of_kind i ''permission'' u = Inr p'" "reading (rs_payload p') = Some raw'" "validate_snapshot raw' = Inr w"
    by (rule permission_currentD)
  have same: "w = v" using p p' current_kept [OF kept, of "''permission''"] by simp
  obtain row' where row': "find_state account (ss_permissions t) = Some row'" using later_state [OF run before row(1)] .
  have "ps_revision row \<le> ps_revision row'" "ps_revision row' \<le> ps_revision row''"
    using later_revision [OF run before row(1) row'] later_revision [OF run_steps [OF before run] after row' row''(1)] .
  then have "ps_revision row' = ps_revision row" using row(2) row''(2) same by simp
  then show ?thesis using revision_pins_preference [OF run before row(1) row'] same row(1) row' by simp
qed

text \<open>A permission snapshot that was superseded is never current again.  If it passes the check at two moments, then the preference of the account
  was the same at every moment in between: no change of profile, not even one that was taken back, lies between them.\<close>

theorem current_twice_never_changed:
  assumes run: "permission_run dump (ss_permissions s)"
    and first: "validate_permission_snapshot_current reading True i account s = Inr v"
    and before: "(permission_step dump)\<^sup>*\<^sup>* (ss_permissions s) (ss_permissions t)"
    and after: "(permission_step dump)\<^sup>*\<^sup>* (ss_permissions t) (ss_permissions u)"
    and second: "validate_permission_snapshot_current reading True i account u = Inr w" and kept: "find_snapshot i u = find_snapshot i s"
  shows "w = v \<and> find_state account (ss_permissions t) = find_state account (ss_permissions s)"
  using assms by (rule unchanged_between)

section \<open>A concrete store\<close>

definition blank_store :: snapshot_store where
  "blank_store = \<lparr>ss_snapshots = [], ss_capabilities = [], ss_extensions = [], ss_permissions = sample_started\<rparr>"

lemma blank_run: "snapshot_run blank_store"
  by (rule snapshot_run.start) (simp add: blank_store_def)

definition sample_snapshot_id :: string where
  "sample_snapshot_id = expected_snapshot_id ''default'' 1 100 []"

definition sample_reading :: "jobj \<Rightarrow> permission_snapshot option" where
  "sample_reading payload = Some (issued [] ''default'' 1 100)"

definition permission_store :: snapshot_store where
  "permission_store = blank_store\<lparr>ss_snapshots := [new_snapshot sample_snapshot_id ''permission'' [] 100]\<rparr>"

lemma sample_backed:
  "find_state ''acct'' sample_started = Some (factory_state sample_authority 100)"
  "permission_ledger sample_started = [factory_event sample_authority 100]"
  using live_find [OF sample_live] by (simp_all add: sample_started_def factory_store_def empty_permissions_def)

lemma sample_sha: "is_sha256 (state_digest account profile revision updated_at previous rid)"
  unfolding state_digest_def fingerprint_def is_sha256_def list_all_iff length_sha256 using sha256_hex by blast

lemma sample_current:
  assumes "find_snapshot sample_snapshot_id s = Some (new_snapshot sample_snapshot_id ''permission'' [] 100)"
    and "permission_states (ss_permissions s) = permission_states sample_started"
    and "permission_ledger (ss_permissions s) = permission_ledger sample_started"
  shows "validate_permission_snapshot_current sample_reading True sample_snapshot_id ''acct'' s = Inr (issued [] ''default'' 1 100)"
proof -
  have "validate_snapshot (issued [] ''default'' 1 100) = Inr (issued [] ''default'' 1 100)"
    by (rule validate_issued) (simp_all add: is_profile_def canonical_denies_def)
  moreover have "snap_id (issued [] ''default'' 1 100) = sample_snapshot_id" by (simp add: issued_def sample_snapshot_id_def)
  moreover have "find_state ''acct'' (ss_permissions s) = Some (factory_state sample_authority 100)"
    using sample_backed(1) assms(2) by (simp add: find_state_def)
  ultimately show ?thesis
    using assms(1,3) sample_backed(2) sample_sha
    by (simp add: validate_permission_snapshot_current_def runtime_snapshot_of_kind_def new_reads sample_reading_def permission_current_def
        snapshot_check_def factory_state_def factory_event_def sample_authority_def ledger_backs_def)
qed

theorem saved_snapshot_is_immutable_witness:
  "\<exists>v s'. save_snapshot ''config'' [(''a'', JInt 1)] (Some ''cfg'') 5 blank_store = (Inr v, s') \<and> rs_id v = ''cfg'' \<and>
     get_snapshot ''cfg'' s' = Inr v \<and>
     save_snapshot ''config'' [] (Some ''cfg'') 9 s' =
       (Inl (RuntimeSnapshotConflict ''runtime snapshot ID was reused with different content''), s')"
proof -
  have kind: "snapshot_kind_ok ''config''" and i: "snapshot_id_ok (snapshot_identity (Some ''cfg'') ''config'' [(''a'', JInt 1)])"
    by (simp_all add: snapshot_kind_ok_def snapshot_id_ok_def snapshot_identity_def lower_alpha_def ascii_alpha_def ascii_alnum_def)
  obtain v s' where saved: "save_snapshot ''config'' [(''a'', JInt 1)] (Some ''cfg'') 5 blank_store = (Inr v, s')" "rs_id v = ''cfg''"
    using save_cases [OF kind i, of 5 blank_store]
    by (simp add: blank_store_def find_snapshot_def Let_def new_reads snapshot_identity_def)
  have "json_dumps (JObj []) \<noteq> json_dumps (JObj [(''a'', JInt 1)])" by code_simp
  then show ?thesis
    using saved_snapshot_is_immutable [OF blank_run saved(1) rtranclp.rtrancl_refl kind, of "[]" 9] saved by auto
qed

theorem projection_agrees_with_saving_witness:
  "snapshot_run blank_store \<and>
   project_snapshot ''config'' [(''a'', JInt 1)] (Some ''cfg'') blank_store =
     (case fst (save_snapshot ''config'' [(''a'', JInt 1)] (Some ''cfg'') 5 blank_store) of
        Inl e \<Rightarrow> Inl e
      | Inr v \<Rightarrow> Inr (if find_snapshot (rs_id v) blank_store = None then v\<lparr>rs_payload := [(''a'', JInt 1)], rs_created_at := 0\<rparr> else v))"
  using projection_agrees_with_saving [OF blank_run, of "''config''" "[(''a'', JInt 1)]" "Some ''cfg''" 5] blank_run by simp

theorem current_twice_never_changed_witness:
  "\<exists>v t. update_permission sample_dump sample_authority ''default'' (JInt 1) ''r1'' 200 sample_started = (Inr v, t) \<and>
     find_state ''acct'' t = find_state ''acct'' sample_started"
proof -
  obtain v t where t: "update_permission sample_dump sample_authority ''default'' (JInt 1) ''r1'' 200 sample_started = (Inr v, t)"
      "permission_states t = permission_states sample_started" "permission_ledger t = permission_ledger sample_started"
    using sample_kept by blast
  let ?t = "permission_store\<lparr>ss_permissions := t\<rparr>"
  have base: "ss_permissions permission_store = sample_started" "find_snapshot i ?t = find_snapshot i permission_store" for i
    by (simp_all add: permission_store_def blank_store_def find_snapshot_def)
  have step: "(permission_step sample_dump)\<^sup>*\<^sup>* (ss_permissions permission_store) (ss_permissions ?t)"
    using permission_step.update [OF sample_made, of sample_dump sample_started "''default''" "JInt 1" "''r1''" 200] t base
    by (simp add: r_into_rtranclp)
  have row: "find_snapshot sample_snapshot_id permission_store = Some (new_snapshot sample_snapshot_id ''permission'' [] 100)"
    by (simp add: permission_store_def find_snapshot_def new_snapshot_def)
  have first: "validate_permission_snapshot_current sample_reading True sample_snapshot_id ''acct'' permission_store = Inr (issued [] ''default'' 1 100)"
    using row base by (intro sample_current) simp_all
  have second: "validate_permission_snapshot_current sample_reading True sample_snapshot_id ''acct'' ?t = Inr (issued [] ''default'' 1 100)"
    using row base(2) t by (intro sample_current) simp_all
  have run: "permission_run sample_dump (ss_permissions permission_store)" using sample_run base by simp
  from current_twice_never_changed [OF run first step rtranclp.rtrancl_refl second base(2)] show ?thesis using t(1) base(1) by auto
qed

end
