(* ===== verification/SnapshotTurns.thy ===== *)
theory SnapshotTurns
  imports SnapshotProperties SampleRun
begin

text \<open>
  Turns and the snapshots they freeze: the kernel's operations with the checks of \<^verbatim>\<open>snapshots.py\<close> in place of their parameter.
\<close>

lemma validate_turn_contextD:
  assumes "validate_turn_context reading True c account intent agent_model image_model st = Inr ()"
  obtains v where "validate_permission_snapshot_current reading True (cx_permission c) account st = Inr v"
    and "validate_capability c intent st = Inr ()" and "validate_model_selection True c agent_model image_model st = Inr ()"
  using assms by (auto simp: validate_turn_context_def split: if_splits)

lemma accepted_operation_validates:
  assumes "create_operation_turn_in_transaction E (turn_context_check reading st account (tr_input q)) thread_id q c kind og now s = Inr (t, s')"
  shows "validate_turn_context reading True c account (tr_input q) (agent_of q) (tr_image_model q) st = Inr ()"
proof -
  let ?check = "turn_context_check reading st account (tr_input q)"
  have "wp (create_operation_turn_in_transaction E ?check thread_id q c kind og now) (\<lambda>_ _. ?check c (agent_of q) (tr_image_model q) s = None) s"
    unfolding create_operation_turn_in_transaction_def Let_def operation_valid_def
    by (auto simp: require_thread_def wp_simps turn_context_check_def split: option.splits)
  then have "?check c (agent_of q) (tr_image_model q) s = None" using assms by (simp add: wp_def)
  then show ?thesis by (auto simp: turn_context_check_def refusal_def split: sum.splits)
qed

text \<open>The capability snapshot of the context is governed by its permission snapshot and lets images be edited.\<close>

definition editor_eligible :: "snapshot_context \<Rightarrow> snapshot_store \<Rightarrow> bool" where
  "editor_eligible c st =
     (\<exists>r payload d. find_capability (cx_capability c) st = Some r \<and> jdict (cp_payload r) = Some payload \<and> cp_policy r = cx_permission c \<and>
        imagegen_decision payload = Some d \<and> jget d ''eligible'' = JBool True)"

lemma capability_eligible: "validate_capability c intent st = Inr () \<Longrightarrow> editor_eligible c st"
  by (auto simp: validate_capability_def editor_eligible_def split: option.splits if_splits)

lemma accepted_operationD:
  assumes "create_operation_turn_in_transaction E (turn_context_check reading st account (tr_input q)) thread_id q c kind og now s = Inr (t, s')"
  obtains v where "validate_permission_snapshot_current reading True (cx_permission c) account st = Inr v" and "editor_eligible c st"
  using accepted_operation_validates [OF assms] capability_eligible by (elim validate_turn_contextD) blast

lemma current_is_issued:
  assumes "validate_permission_snapshot_current reading True i account st = Inr v"
  obtains row where "find_state account (ss_permissions st) = Some row" and "snap_id v = i"
    and "issue (ps_profile row) (ps_revision row) (ps_updated_at row) (snap_denies v) = Inr v"
  using assms
proof (rule permission_currentD)
  fix row permission raw
  assume row: "find_state account (ss_permissions st) = Some row" "ps_profile row = snap_profile v" "ps_revision row = snap_revision v"
      "ps_updated_at row = snap_updated_at v" "snap_id v = i" and raw: "validate_snapshot raw = Inr v"
  have "issue (snap_profile v) (snap_revision v) (snap_updated_at v) (snap_denies v) = Inr v"
    using validated_is_issued [OF raw] issue_issued by metis
  then show thesis using that row by simp
qed

text \<open>
  C23.  Two operation turns that the kernel accepts with the same prepared context were accepted under the same permission: the snapshot the context
  names is what the account's stored preference projects to, the preference was the same at every moment between the two, and the capability
  snapshot is governed by it and lets images be edited.  A permission that was revoked in between, even if it was granted again,
  refuses the second turn.\<close>

theorem accepted_operations_share_permission:
  assumes run: "permission_run dump (ss_permissions s)"
    and first: "create_operation_turn_in_transaction E (turn_context_check reading s account (tr_input q)) thread_id q c kind og now d = Inr (x, d')"
    and before: "(permission_step dump)\<^sup>*\<^sup>* (ss_permissions s) (ss_permissions t)"
    and after: "(permission_step dump)\<^sup>*\<^sup>* (ss_permissions t) (ss_permissions u)"
    and second: "create_operation_turn_in_transaction E' (turn_context_check reading u account (tr_input q')) thread' q' c kind' og' now' e = Inr (y, e')"
    and kept: "find_snapshot (cx_permission c) u = find_snapshot (cx_permission c) s"
  shows "\<exists>row v. find_state account (ss_permissions s) = Some row \<and> find_state account (ss_permissions t) = Some row \<and>
     find_state account (ss_permissions u) = Some row \<and> snap_id v = cx_permission c \<and>
     issue (ps_profile row) (ps_revision row) (ps_updated_at row) (snap_denies v) = Inr v \<and> editor_eligible c s \<and> editor_eligible c u"
proof -
  from first obtain v where v: "validate_permission_snapshot_current reading True (cx_permission c) account s = Inr v" "editor_eligible c s"
    by (rule accepted_operationD)
  from second obtain w where w: "validate_permission_snapshot_current reading True (cx_permission c) account u = Inr w" "editor_eligible c u"
    by (rule accepted_operationD)
  from v(1) obtain row where row: "find_state account (ss_permissions s) = Some row" "snap_id v = cx_permission c"
      "issue (ps_profile row) (ps_revision row) (ps_updated_at row) (snap_denies v) = Inr v"
    by (rule current_is_issued)
  have "find_state account (ss_permissions t) = find_state account (ss_permissions s)"
    using unchanged_between [OF run v(1) before after w(1) kept] by simp
  moreover have "find_state account (ss_permissions u) = find_state account (ss_permissions s)"
    using unchanged_between [OF run v(1) rtranclp_trans [OF before after] rtranclp.rtrancl_refl w(1) kept] by simp
  ultimately show ?thesis using row v(2) w(2) by metis
qed

section \<open>A concrete operation\<close>

definition edit_catalog :: json where
  "edit_catalog = JObj [(''contract_version'', JStr ''1.0''), (''items'', JArr [])]"

definition edit_context :: snapshot_context where
  "edit_context =
     \<lparr>cx_config = ''cfg'', cx_capability = ''cap'', cx_permission = sample_snapshot_id, cx_model_catalog = ''mod'',
      cx_extension = ''ext_'' @ json_sha edit_catalog\<rparr>"

definition edit_config :: jobj where
  "edit_config =
     [(''model_catalog_snapshot_id'', JStr ''mod''), (''agent_model_id'', JStr ''m''), (''image_model_id'', JStr ''g''),
      (''extension_snapshot_id'', JStr (cx_extension edit_context))]"

definition edit_models :: jobj where
  "edit_models =
     [(''snapshot_id'', JStr ''mod''),
      (''modalities'', JObj [(''chat'', JArr [JObj [(''model_id'', JStr ''m'')]]), (''image'', JArr [JObj [(''model_id'', JStr ''g'')]])])]"

definition edit_decisions :: json where
  "edit_decisions =
     JObj [(''policy_snapshot_id'', JStr sample_snapshot_id), (''intent'', JStr ''hi''), (''snapshot_id'', JStr ''cap''),
       (''decisions'', JArr [JObj [(''tool_id'', JStr ''imagegen''), (''eligible'', JBool True)]])]"

definition edit_store :: snapshot_store where
  "edit_store =
     \<lparr>ss_snapshots = [new_snapshot ''cfg'' ''config'' edit_config 1, new_snapshot ''mod'' ''models'' edit_models 1,
        new_snapshot sample_snapshot_id ''permission'' [] 100],
      ss_capabilities = [\<lparr>cp_id = ''cap'', cp_policy = sample_snapshot_id, cp_intent = ''hi'', cp_payload = edit_decisions,
        cp_sha = json_sha edit_decisions\<rparr>],
      ss_extensions = [\<lparr>xs_id = cx_extension edit_context, xs_payload = edit_catalog, xs_sha = json_sha edit_catalog\<rparr>],
      ss_permissions = sample_started\<rparr>"

definition edit_request :: turn_request where
  "edit_request = run_request\<lparr>tr_image_model := Some ''g'', tr_metadata := [(''operation'', JStr ''edit'')]\<rparr>"

lemma edit_rows:
  "find_snapshot ''cfg'' edit_store = Some (new_snapshot ''cfg'' ''config'' edit_config 1)"
  "find_snapshot ''mod'' edit_store = Some (new_snapshot ''mod'' ''models'' edit_models 1)"
  "find_snapshot sample_snapshot_id edit_store = Some (new_snapshot sample_snapshot_id ''permission'' [] 100)"
  by (simp_all add: edit_store_def find_snapshot_def new_snapshot_def sample_snapshot_id_def expected_snapshot_id_def)

lemma edit_extension: "validate_extension_snapshot True (cx_extension edit_context) None edit_store = Inr ()"
  by (simp add: validate_extension_snapshot_def find_extension_def edit_store_def edit_context_def snapshot_check_def extension_contract_ok_def
      edit_catalog_def jdict_def jget_def)

lemma edit_selection: "validate_model_selection True edit_context ''m'' (Some ''g'') edit_store = Inr ()"
  using edit_rows
  by (simp add: validate_model_selection_def runtime_snapshot_of_kind_def edit_context_def new_reads snapshot_check_def catalogued_def modality_def
      edit_config_def edit_models_def jget_def jdict_def jopt_def hashable_def List.map_filter_def)

lemma edit_capability: "validate_capability edit_context ''hi'' edit_store = Inr ()"
  by (simp add: validate_capability_def find_capability_def edit_store_def edit_context_def snapshot_check_def edit_decisions_def jdict_def jget_def
      imagegen_decision_def List.map_filter_def)

lemma edit_permission: "validate_permission_snapshot_current sample_reading True sample_snapshot_id ''acct'' edit_store = Inr (issued [] ''default'' 1 100)"
  by (rule sample_current [OF edit_rows(3)]) (simp_all add: edit_store_def)

lemma edit_validates: "validate_turn_context sample_reading True edit_context ''acct'' ''hi'' ''m'' (Some ''g'') edit_store = Inr ()"
  using edit_extension edit_selection edit_capability edit_permission edit_rows(1)
  by (simp add: validate_turn_context_def runtime_snapshot_of_kind_def new_reads snapshot_check_def edit_context_def edit_config_def jget_def truthy_def)

lemma unchecked_operation:
  assumes "\<And>s. V c (agent_of q) (tr_image_model q) s = None"
  shows "create_operation_turn_in_transaction E V thread_id q c kind og now =
     create_operation_turn_in_transaction E (\<lambda>_ _ _ _. None) thread_id q c kind og now"
proof -
  have "V c (agent_of q) (tr_image_model q) = (\<lambda>_. None)" using assms by (intro ext) simp
  then show ?thesis by (simp add: create_operation_turn_in_transaction_def)
qed

lemmas edit_simps = create_operation_turn_in_transaction_def operation_valid_def operation_duplicate_def new_operation_def edit_request_def edit_context_def

lemma edit_texts: "text_bounds (Suc 0) 256 ''g''" "or_else (Some sample_snapshot_id) None = Some sample_snapshot_id"
  by (simp_all add: text_bounds_def py_len_def utf8_continuation_def or_else_def truthy_def sample_snapshot_id_def expected_snapshot_id_def)

lemma edit_accepted:
  "\<exists>t s. create_operation_turn_in_transaction sample_env (turn_context_check sample_reading edit_store ''acct'' ''hi'') ''thr_0'' edit_request
     edit_context ''edit'' no_origin 2 run_opened = Inr (t, s)"
proof -
  have "turn_context_check sample_reading edit_store ''acct'' ''hi'' edit_context (agent_of edit_request) (tr_image_model edit_request) s = None" for s
    using edit_validates by (simp add: turn_context_check_def refusal_def edit_request_def run_request_def agent_of_def opt_text_def)
  then show ?thesis
    unfolding unchecked_operation [of "turn_context_check sample_reading edit_store ''acct'' ''hi''" edit_context edit_request]
    using text_bounds_m edit_texts
    by (simp add: eval_simps thread_simps input_simps turn_simps job_simps sample_simps edit_simps cong: bind_lazy seq_lazy)
qed

theorem accepted_operations_share_permission_witness:
  "\<exists>row v. find_state ''acct'' sample_started = Some row \<and> snap_id v = sample_snapshot_id \<and>
     issue (ps_profile row) (ps_revision row) (ps_updated_at row) (snap_denies v) = Inr v \<and> editor_eligible edit_context edit_store"
proof -
  obtain t s where "create_operation_turn_in_transaction sample_env (turn_context_check sample_reading edit_store ''acct'' ''hi'') ''thr_0'' edit_request
      edit_context ''edit'' no_origin 2 run_opened = Inr (t, s)"
    using edit_accepted by blast
  moreover have "tr_input edit_request = ''hi''" "ss_permissions edit_store = sample_started" "cx_permission edit_context = sample_snapshot_id"
    by (simp_all add: edit_request_def run_request_def edit_store_def edit_context_def)
  ultimately show ?thesis
    using accepted_operations_share_permission [of sample_dump edit_store sample_env sample_reading "''acct''" edit_request "''thr_0''" edit_context
        "''edit''" no_origin 2 run_opened t s edit_store edit_store sample_env edit_request "''thr_0''" "''edit''" no_origin 2 run_opened t s]
      sample_run by auto
qed

end
