(* ===== verification/ActivationDrain.thy ===== *)
theory ActivationDrain
  imports Runtime
begin

text \<open>
  \<^verbatim>\<open>ecorex/runtime/activation_drain.py\<close>: before a signed update is activated, the controller closes the execution gate to new work
  and waits until the work that was already leased has reached a checkpoint or an end.  The gate and the database are read at
  different moments while other threads run, so that each method takes one gate per look at it (\<open>drain_look\<close> for the three
  observations of \<^verbatim>\<open>_active_count\<close>) and returns the gate it leaves behind.  Seconds are microseconds here.

  \<open>drain_step\<close> interleaves every call of the Runtime with the steps of the gate, for as long as the drain is held.
\<close>

section \<open>Leases of a drain\<close>

record drain_lease =
  dl_transaction :: string
  dl_permit :: "drain_permit option"
  dl_allowed :: "string list"

record drain_controller =
  dc_timeout :: int
  dc_poll :: int

definition drain_error :: "string \<Rightarrow> err" where
  "drain_error m = RuntimeActivationDrainError m"

definition make_controller :: "int \<Rightarrow> int \<Rightarrow> err + drain_controller" where
  "make_controller timeout poll =
     (if \<not> (100000 \<le> timeout \<and> timeout \<le> 900000000) then Inl (ValueError ''activation drain timeout is invalid'')
      else if \<not> (10000 \<le> poll \<and> poll \<le> min 5000000 timeout) then Inl (ValueError ''activation drain poll interval is invalid'')
      else Inr \<lparr>dc_timeout = timeout, dc_poll = poll\<rparr>)"

definition is_transaction_id :: "string \<Rightarrow> bool" where
  "is_transaction_id v = (v \<noteq> [] \<and> length v \<le> 160 \<and> list_all (\<lambda>c. ascii_alnum c \<or> c \<in> set ''._:-'') v)"

definition durable_permit_subject :: "string \<Rightarrow> string \<Rightarrow> err + string" where
  "durable_permit_subject job_id lease_token =
     (if job_id = [] then Inl (ValueError ''job_id is required'')
      else if lease_token = [] then Inl (ValueError ''lease_token is required'')
      else Inr (permit_subject job_id lease_token))"

text \<open>\<^verbatim>\<open>SELECT job_id,lease_token FROM jobs WHERE status IN ('leased','running')\<close>, and the \<^verbatim>\<open>frozenset\<close> of its subjects.\<close>

definition active_jobs :: "db \<Rightarrow> job_row list" where
  "active_jobs s = filter (\<lambda>j. executing (jb_status j)) (db_jobs s)"

definition active_subjects :: "job_row list \<Rightarrow> err + string list" where
  "active_subjects rows =
     (case map_result (\<lambda>j. durable_permit_subject (jb_id j) (the (jb_lease_token j)))
             (filter (\<lambda>j. truthy (jb_lease_token j)) rows) of
        Inl e \<Rightarrow> Inl e | Inr subjects \<Rightarrow> Inr (remdups subjects))"

section \<open>The controller\<close>

definition leave_begin ::
    "string \<Rightarrow> drain_permit option \<Rightarrow> string list \<Rightarrow> err option \<Rightarrow> gate \<Rightarrow> (err + drain_lease) \<times> gate" where
  "leave_begin transaction_id permit allowed failure g =
     (case failure of
        None \<Rightarrow> (Inr \<lparr>dl_transaction = transaction_id, dl_permit = permit, dl_allowed = allowed\<rparr>, g)
      | Some e \<Rightarrow>
          (Inl e, case permit of None \<Rightarrow> g | Some p \<Rightarrow> (case cancel_drain g p of Inl _ \<Rightarrow> g | Inr g' \<Rightarrow> g')))"

text \<open>
  \<^verbatim>\<open>_begin\<close>, inside a write transaction on \<open>s\<close>: \<open>look\<close> is the gate when its status is read, \<open>g\<close> the gate that is asked to
  drain, \<open>failure\<close> what leaving the transaction raised.
\<close>

definition drain_begin ::
    "string \<Rightarrow> string \<Rightarrow> err option \<Rightarrow> gate \<Rightarrow> gate \<Rightarrow> db \<Rightarrow> (err + drain_lease) \<times> gate" where
  "drain_begin transaction_id nonce failure look g s =
     (if \<not> is_transaction_id transaction_id then (Inl (ValueError ''update transaction identity is invalid''), g)
      else case active_subjects (active_jobs s) of
        Inl e \<Rightarrow> (Inl e, g)
      | Inr allowed \<Rightarrow>
          if length allowed \<noteq> length (active_jobs s) then (Inl (drain_error ''active work has no valid execution lease''), g)
          else if sn_status (snapshot look) = GateCritical then leave_begin transaction_id None allowed failure g
          else (case begin_drain g transaction_id allowed nonce of
                  Inl e \<Rightarrow> (Inl e, g)
                | Inr (p, g') \<Rightarrow> leave_begin transaction_id (Some p) allowed failure g'))"

definition assert_boundary :: "drain_lease \<Rightarrow> gate \<Rightarrow> err + unit" where
  "assert_boundary l g =
     (case dl_permit l of
        None \<Rightarrow>
          if sn_status (snapshot g) \<noteq> GateCritical
          then Inl (drain_error ''pre-closed activation drain unexpectedly reopened'') else Inr ()
      | Some p \<Rightarrow> assert_drain g p)"

record drain_look =
  lk_before :: gate
  lk_db :: db
  lk_after :: gate

definition race_error :: err where
  "race_error = drain_error ''new work crossed the update activation drain boundary''"

text \<open>\<^verbatim>\<open>_active_count\<close>; \<open>norm\<close>, \<open>now\<close> and \<open>free\<close> are those of \<open>request_critical\<close>.\<close>

definition active_count ::
    "(string \<Rightarrow> string) \<Rightarrow> int \<Rightarrow> bool \<Rightarrow> drain_lease \<Rightarrow> drain_look \<Rightarrow> (err + nat) \<times> gate" where
  "active_count norm now free l k =
     (let rows = active_jobs (lk_db k); g = lk_after k
      in case assert_boundary l (lk_before k) of
           Inl e \<Rightarrow> (Inl e, g)
         | Inr _ \<Rightarrow>
             (case active_subjects rows of
                Inl e \<Rightarrow> (Inl e, g)
              | Inr observed \<Rightarrow>
                  if length observed \<noteq> length rows \<or> \<not> set observed \<subseteq> set (dl_allowed l)
                  then (Inl race_error, request_critical norm ''update_drain_lease_race'' now free g)
                  else (case assert_boundary l g of Inl e \<Rightarrow> (Inl e, g) | Inr _ \<Rightarrow> (Inr (length rows), g))))"

definition assert_drained ::
    "(string \<Rightarrow> string) \<Rightarrow> int \<Rightarrow> bool \<Rightarrow> drain_lease \<Rightarrow> gate \<Rightarrow> drain_look \<Rightarrow> gate \<Rightarrow> (err + unit) \<times> gate" where
  "assert_drained norm now free l before k after =
     (case assert_boundary l before of
        Inl e \<Rightarrow> (Inl e, before)
      | Inr _ \<Rightarrow>
          (case active_count norm now free l k of
             (Inl e, g) \<Rightarrow> (Inl e, g)
           | (Inr n, g) \<Rightarrow>
               if n \<noteq> 0 then (Inl (drain_error ''Runtime work is still active''), g) else (assert_boundary l after, after)))"

text \<open>\<^verbatim>\<open>release\<close>: \<open>look\<close> is the gate when its status is read after a denied cancellation.\<close>

definition release_drain :: "drain_lease \<Rightarrow> gate \<Rightarrow> gate \<Rightarrow> err + gate" where
  "release_drain l g look =
     (case dl_permit l of
        None \<Rightarrow> (case assert_boundary l g of Inl e \<Rightarrow> Inl e | Inr _ \<Rightarrow> Inr g)
      | Some p \<Rightarrow>
          (case cancel_drain g p of
             Inr g' \<Rightarrow> Inr g'
           | Inl e \<Rightarrow> if sn_status (snapshot look) \<noteq> GateCritical then Inl e else Inr look))"

text \<open>The observations of one turn of the loop of \<^verbatim>\<open>acquire\<close>.\<close>

record drain_poll =
  po_count :: drain_look
  po_before :: gate
  po_again :: drain_look
  po_after :: gate
  po_time :: int

text \<open>The loop; \<open>None\<close> when the observations are used up.\<close>

fun drain_wait ::
    "(string \<Rightarrow> string) \<Rightarrow> int \<Rightarrow> bool \<Rightarrow> drain_lease \<Rightarrow> int \<Rightarrow> drain_poll list \<Rightarrow> (err + drain_lease) option" where
  "drain_wait norm now free l deadline [] = None"
| "drain_wait norm now free l deadline (p # ps) =
     (case fst (active_count norm now free l (po_count p)) of
        Inl e \<Rightarrow> Some (Inl e)
      | Inr n \<Rightarrow>
          if n = 0 then
            (case fst (assert_drained norm now free l (po_before p) (po_again p) (po_after p)) of
               Inl e \<Rightarrow> Some (Inl e) | Inr _ \<Rightarrow> Some (Inr l))
          else if deadline - po_time p \<le> 0 then
            Some (Inl (RuntimeActivationDrainTimeout ''active work did not reach its durable checkpoint before timeout''))
          else drain_wait norm now free l deadline ps)"

text \<open>\<^verbatim>\<open>acquire\<close>, given the lease of \<^verbatim>\<open>_begin\<close> and the clock at the start of the loop: an error releases the drain.\<close>

definition drain_acquire ::
    "(string \<Rightarrow> string) \<Rightarrow> int \<Rightarrow> bool \<Rightarrow> drain_controller \<Rightarrow> drain_lease \<Rightarrow> int \<Rightarrow> drain_poll list \<Rightarrow> gate \<Rightarrow> gate
     \<Rightarrow> ((err + drain_lease) \<times> gate) option" where
  "drain_acquire norm now free ctl l started polls g look =
     (case drain_wait norm now free l (started + dc_timeout ctl) polls of
        None \<Rightarrow> None
      | Some (Inr l') \<Rightarrow> Some (Inr l', g)
      | Some (Inl e) \<Rightarrow> (case release_drain l g look of Inl e' \<Rightarrow> Some (Inl e', g) | Inr g' \<Rightarrow> Some (Inl e, g')))"

section \<open>Interleavings\<close>

definition in_drain :: "drain_lease \<Rightarrow> gate \<Rightarrow> bool" where
  "in_drain l g =
     (case dl_permit l of None \<Rightarrow> sn_status (snapshot g) = GateCritical | Some p \<Rightarrow> g_drain g = Some p)"

text \<open>
  What other threads do while the drain is held.  The body of a lease transaction runs after the transaction of \<^verbatim>\<open>_begin\<close>, which
  held the write lock, so that it issues the permit of its job on a gate in the drain; its scheduler permit may be older.
\<close>

inductive drain_step :: "drain_lease \<Rightarrow> gate \<times> db \<Rightarrow> gate \<times> db \<Rightarrow> bool" for l where
  gate: "in_drain l g \<Longrightarrow> gate_step g g' \<Longrightarrow> in_drain l g' \<Longrightarrow> drain_step l (g, s) (g', s)"
| call: "in_drain l g \<Longrightarrow> runtime_call s s' \<Longrightarrow> drain_step l (g, s) (g, s')"
| lease: "in_drain l g \<Longrightarrow> ad_gates A = Some (g0, g) \<Longrightarrow> in_drain l g_lease \<Longrightarrow>
    drain_step l (g, s) (g, snd (lease_next E A g_lease w n kinds now s))"

section \<open>No call but a lease hands out a lease\<close>

definition lease_tokens :: "db \<Rightarrow> (string \<times> string) set" where
  "lease_tokens s = {(jb_id j, t) |j t. j \<in> set (db_jobs s) \<and> jb_lease_token j = Some t}"

definition tokens_kept :: "db \<Rightarrow> db \<Rightarrow> bool" where
  "tokens_kept s s' = (lease_tokens s' \<subseteq> lease_tokens s)"

lemma tokens_same: "db_jobs s' = db_jobs s \<Longrightarrow> tokens_kept s s'"
  by (simp add: tokens_kept_def lease_tokens_def)

interpretation tokens: db_order tokens_kept
  by unfold_locales (auto simp: tokens_kept_def)

interpretation tokens_storage: update_order tokens_kept
proof unfold_locales
  show "keeps tokens_kept (append_in_transaction E rq)" for E rq
    by (rule keepsI, rule keeps_wp [OF keeps_only_log_append]) (simp add: only_log_def tokens_same)
  show "keeps tokens_kept (update_job i fj)"
    if "\<And>r. jb_id (fj r) = jb_id r \<and> jb_key (fj r) = jb_key r \<and>
      (jb_lease_token (fj r) = None \<or> jb_lease_token (fj r) = jb_lease_token r)" for fj i
  proof (rule keepsI)
    fix s :: db
    have "tokens_kept s (s\<lparr>db_jobs := update_rows (\<lambda>r. jb_id r = i) fj (db_jobs s)\<rparr>)"
      using that by (auto simp: tokens_kept_def lease_tokens_def set_update_rows split: if_splits) (metis option.distinct(1))+
    then show "wp (update_job i fj) (\<lambda>_ s'. tokens_kept s s') s" by (simp add: update_job_def wp_simps)
  qed
qed (simp_all add: keeps_def wp_simps tokens_same update_turn_def update_item_def update_interaction_def upsert_scheduler_def
    retire_row_execution_permit_def insert_item_def insert_context_def insert_thread_def insert_turn_def insert_interaction_def
    update_thread_def insert_revision_def insert_batch_def)

interpretation tokens_calls: create_order tokens_kept
proof unfold_locales
  show "keeps tokens_kept (insert_job job)" if "jb_lease_token job = None" for job
    using that by (auto simp: keeps_def wp_simps insert_job_def tokens_kept_def lease_tokens_def)
  show "keeps tokens_kept (fork_in_transaction E h fq now)" for E h fq now
    by (rule tokens_storage.keeps_fork_from) (simp add: keeps_def wp_simps insert_thread_def tokens_same)
qed

end
