(* ===== verification/DrainProperties.thy ===== *)
theory DrainProperties
  imports ActivationDrain JobRuns
begin

text \<open>
  What the activation drain guarantees: while it is held, no interleaving of Runtime calls and gate steps adds work, so that the race the
  controller guards against is never observed and a drained Runtime stays drained; and the wait for the work that was already leased ends within
  a bounded number of polls.
\<close>

section \<open>Leases are refused while the drain is held\<close>

lemma critical_refuses: "sn_status (snapshot g) = GateCritical \<Longrightarrow> \<exists>e. assert_permit g p = Inl e"
  by (auto simp: snapshot_def assert_permit_def split: if_splits)

lemma lease_denied:
  assumes "in_drain l g" and "ad_gates A = Some (g0, g)" and "in_drain l gl"
  shows "snd (lease_next E A gl w n kinds now s) = s"
proof (cases "dl_permit l")
  case None
  then have "\<exists>e. assert_permit g p = Inl e" for p using assms(1) critical_refuses by (simp add: in_drain_def)
  then show ?thesis
    using assms(2)
    by (auto simp: lease_next_def Let_def split: sum.splits option.splits err.splits prod.splits) (metis sum.distinct(1))+
next
  case (Some p)
  then have g: "g_drain g = Some p" "g_drain gl = Some p" using assms(1,3) by (simp_all add: in_drain_def)
  have "\<exists>e. assert_permit g q = Inl e" if "issue_permit g0 ''job_lease'' w m = Inr q" for q m
    using that g(1) by (auto simp: issue_permit_def assert_permit_def split: if_splits)
  moreover have "\<exists>e. issue_permit gl sc sub m = Inl e" for sc sub m
    using g(2) by (simp add: issue_permit_def gate_open_def)
  ultimately show ?thesis
    using assms(2)
    by (auto simp: lease_next_def Let_def split: sum.splits option.splits err.splits prod.splits) (metis sum.distinct(1))+
qed

lemma drain_step_kept:
  "drain_step l (g, s) (g', s') \<Longrightarrow> running s \<Longrightarrow> running s' \<and> lease_tokens s' \<subseteq> lease_tokens s"
proof (induction "(g, s)" "(g', s')" rule: drain_step.induct)
  case call
  then show ?case
    using tokens_calls.runtime_call_respects by (auto simp: tokens_kept_def intro: running.step runtime_step.call)
qed (simp_all add: lease_denied)

lemma drain_run_kept:
  "(drain_step l)\<^sup>*\<^sup>* (g, s) (g', s') \<Longrightarrow> running s \<Longrightarrow> running s' \<and> lease_tokens s' \<subseteq> lease_tokens s"
proof (induction "(g', s')" arbitrary: g' s' rule: rtranclp_induct)
  case (step y)
  then show ?case using drain_step_kept [of l "fst y" "snd y" g' s'] by (cases y) auto
qed simp

section \<open>The subjects of the active work\<close>

lemma active_token:
  assumes "running s" and "j \<in> set (active_jobs s)"
  shows "truthy (jb_lease_token j)" and "(jb_id j, the (jb_lease_token j)) \<in> lease_tokens s"
proof -
  have "lease_ok j" "executing (jb_status j)" "j \<in> set (db_jobs s)"
    using running_inv [OF assms(1)] assms(2) by (auto simp: active_jobs_def jobs_inv_def list_all_iff)
  then show "truthy (jb_lease_token j)" "(jb_id j, the (jb_lease_token j)) \<in> lease_tokens s"
    by (auto simp: lease_ok_def truthy_def lease_tokens_def)
qed

lemma token_active:
  assumes "running s" and "(i, t) \<in> lease_tokens s"
  shows "\<exists>j\<in>set (active_jobs s). jb_id j = i \<and> jb_lease_token j = Some t"
proof -
  obtain j where j: "j \<in> set (db_jobs s)" "jb_id j = i" "jb_lease_token j = Some t"
    using assms(2) by (auto simp: lease_tokens_def)
  then have "executing (jb_status j)"
    using running_inv [OF assms(1)] by (auto simp: jobs_inv_def list_all_iff lease_ok_def)
  then show ?thesis using j by (auto simp: active_jobs_def)
qed

definition subject_of :: "job_row \<Rightarrow> string" where
  "subject_of j = permit_subject (jb_id j) (the (jb_lease_token j))"

lemma subjects_distinct:
  assumes "running s"
  shows "distinct (map subject_of (active_jobs s))"
proof -
  have "distinct (map jb_id (active_jobs s))"
    using running_inv [OF assms] by (simp add: active_jobs_def jobs_inv_def distinct_map_filter)
  moreover have "jb_id a = jb_id b" if "subject_of a = subject_of b" for a b
    using that append_eq_append_conv [of "jb_id a" "jb_id b" "'':'' @ sha256_hexdigest (the (jb_lease_token a))"
        "'':'' @ sha256_hexdigest (the (jb_lease_token b))"]
    unfolding subject_of_def permit_subject_def by (simp del: append_eq_append_conv)
  ultimately show ?thesis unfolding distinct_map inj_on_def by blast
qed

lemma map_result_total: "(\<And>x. x \<in> set xs \<Longrightarrow> f x = Inr (h x)) \<Longrightarrow> map_result f xs = Inr (map h xs)"
  by (induction xs) auto

lemma map_result_each: "map_result f xs = Inr ys \<Longrightarrow> x \<in> set xs \<Longrightarrow> \<exists>y\<in>set ys. f x = Inr y"
  by (induction xs arbitrary: ys) (auto split: sum.splits)

lemma active_subjects_total:
  assumes "running s" and "\<And>i t. (i, t) \<in> lease_tokens s \<Longrightarrow> i \<noteq> []"
  shows "active_subjects (active_jobs s) = Inr (map subject_of (active_jobs s))"
proof -
  have "filter (\<lambda>j. truthy (jb_lease_token j)) (active_jobs s) = active_jobs s"
    using active_token(1) [OF assms(1)] by (simp add: filter_id_conv)
  moreover have "durable_permit_subject (jb_id j) (the (jb_lease_token j)) = Inr (subject_of j)" if "j \<in> set (active_jobs s)" for j
    using assms(2) active_token [OF assms(1) that] by (auto simp: durable_permit_subject_def subject_of_def truthy_def)
  ultimately show ?thesis
    using subjects_distinct [OF assms(1)]
    by (simp add: active_subjects_def map_result_total [where h = subject_of] distinct_remdups_id)
qed

lemma active_subjects_each:
  assumes "running s" and "active_subjects (active_jobs s) = Inr allowed" and "(i, t) \<in> lease_tokens s"
  shows "i \<noteq> [] \<and> permit_subject i t \<in> set allowed"
proof -
  obtain j where j: "j \<in> set (active_jobs s)" "jb_id j = i" "jb_lease_token j = Some t" using token_active [OF assms(1,3)] by blast
  obtain ys where ys: "map_result (\<lambda>j. durable_permit_subject (jb_id j) (the (jb_lease_token j)))
      (filter (\<lambda>j. truthy (jb_lease_token j)) (active_jobs s)) = Inr ys" "set ys = set allowed"
    using assms(2) by (auto simp: active_subjects_def split: sum.splits)
  have "j \<in> set (filter (\<lambda>j. truthy (jb_lease_token j)) (active_jobs s))" using j active_token(1) [OF assms(1)] by simp
  from map_result_each [OF ys(1) this] show ?thesis
    using j ys(2) by (auto simp: durable_permit_subject_def split: if_splits)
qed

lemma begin_allowed:
  "drain_begin i nonce None look g s = (Inr l, g1) \<Longrightarrow> active_subjects (active_jobs s) = Inr (dl_allowed l)"
  by (auto simp: drain_begin_def leave_begin_def split: if_splits sum.splits prod.splits)

section \<open>No work crosses the boundary\<close>

text \<open>
  C12.  After a successful start of an update drain, and while it is held (its permit is the current one, or the gate was closed before), let every
  other thread make any calls of the Runtime and any steps of the gate, in any order.  Then the controller never observes the race it guards
  against and never closes the gate for it: a count that passes its boundary checks is the number of leased and running jobs.  Once
  there is none, none appears in any continuation.
\<close>

theorem no_work_crosses_the_drain:
  assumes "running s" and "drain_begin i nonce None look g s = (Inr l, g1)" and "(drain_step l)\<^sup>*\<^sup>* (g1, s) (g2, s2)"
  shows "active_count norm now free l \<lparr>lk_before = before, lk_db = s2, lk_after = after\<rparr> =
      ((case assert_boundary l before of
          Inl e \<Rightarrow> Inl e
        | Inr _ \<Rightarrow> (case assert_boundary l after of Inl e \<Rightarrow> Inl e | Inr _ \<Rightarrow> Inr (length (active_jobs s2)))), after) \<and>
    (active_jobs s2 = [] \<longrightarrow> (\<forall>g3 s3. (drain_step l)\<^sup>*\<^sup>* (g2, s2) (g3, s3) \<longrightarrow> active_jobs s3 = []))"
proof
  have s2: "running s2" "lease_tokens s2 \<subseteq> lease_tokens s" using drain_run_kept [OF assms(3,1)] by auto
  note each = active_subjects_each [OF assms(1) begin_allowed [OF assms(2)]]
  have total: "active_subjects (active_jobs s2) = Inr (map subject_of (active_jobs s2))"
    by (rule active_subjects_total [OF s2(1)]) (use s2(2) each in blast)
  have "subject_of j \<in> set (dl_allowed l)" if "j \<in> set (active_jobs s2)" for j
    using active_token(2) [OF s2(1) that] s2(2) each by (auto simp: subject_of_def)
  then show "active_count norm now free l \<lparr>lk_before = before, lk_db = s2, lk_after = after\<rparr> =
      ((case assert_boundary l before of
          Inl e \<Rightarrow> Inl e
        | Inr _ \<Rightarrow> (case assert_boundary l after of Inl e \<Rightarrow> Inl e | Inr _ \<Rightarrow> Inr (length (active_jobs s2)))), after)"
    using total by (auto simp: active_count_def Let_def split: sum.splits)
  have "active_jobs s3 = []" if e: "active_jobs s2 = []" and r: "(drain_step l)\<^sup>*\<^sup>* (g2, s2) (g3, s3)" for g3 s3
  proof -
    have "lease_tokens s2 = {}" using token_active [OF s2(1)] e by fastforce
    then have "running s3" "lease_tokens s3 = {}" using drain_run_kept [OF r s2(1)] by auto
    then show ?thesis using active_token(2) by (metis all_not_in_conv last_in_set)
  qed
  then show "active_jobs s2 = [] \<longrightarrow> (\<forall>g3 s3. (drain_step l)\<^sup>*\<^sup>* (g2, s2) (g3, s3) \<longrightarrow> active_jobs s3 = [])" by blast
qed

section \<open>The wait ends\<close>

text \<open>The clock of the event loop does not go back, and a sleep lasts at least as long as it was asked to.\<close>

fun paced :: "int \<Rightarrow> int \<Rightarrow> int \<Rightarrow> drain_poll list \<Rightarrow> bool" where
  "paced poll deadline t [] = True"
| "paced poll deadline t (p # ps) =
     (t \<le> po_time p \<and> paced poll deadline (po_time p + min poll (deadline - po_time p)) ps)"

lemma wait_ends:
  assumes "0 < poll"
  shows "paced poll deadline t ps \<Longrightarrow> deadline - t \<le> int k * poll \<Longrightarrow> k < length ps \<Longrightarrow>
    drain_wait norm now free l deadline ps \<noteq> None"
proof (induction ps arbitrary: t k)
  case (Cons p ps)
  show ?case
  proof (cases "deadline - po_time p \<le> 0")
    case False
    then have "0 < k" using Cons.prems by (cases k) auto
    let ?t = "po_time p + min poll (deadline - po_time p)"
    have "deadline - ?t \<le> int (k - 1) * poll"
    proof (cases "poll \<le> deadline - po_time p")
      case True
      then show ?thesis using Cons.prems(1,2) \<open>0 < k\<close> by (simp add: of_nat_diff algebra_simps)
    qed (use assms in simp)
    then have "drain_wait norm now free l deadline ps \<noteq> None" using Cons.IH [of ?t "k - 1"] Cons.prems(1,3) \<open>0 < k\<close> by auto
    then show ?thesis by (auto split: sum.splits)
  qed (auto split: sum.splits)
qed simp

lemma counted_none:
  "fst (active_count norm now free l k) = Inr 0 \<Longrightarrow> active_jobs (lk_db k) = []"
  by (auto simp: active_count_def Let_def split: sum.splits if_splits)

lemma drained_none:
  assumes "fst (assert_drained norm now free l b k a) = Inr u"
  shows "active_jobs (lk_db k) = []"
proof (rule counted_none)
  show "fst (active_count norm now free l k) = Inr 0"
    using assms by (auto simp: assert_drained_def split: sum.splits prod.splits if_splits)
qed

lemma wait_success:
  "drain_wait norm now free l deadline ps = Some (Inr l') \<Longrightarrow>
     l' = l \<and> (\<exists>p\<in>set ps. active_jobs (lk_db (po_count p)) = [] \<and> active_jobs (lk_db (po_again p)) = [])"
proof (induction ps)
  case (Cons p ps)
  then show ?case
    by (auto split: sum.splits if_splits dest!: counted_none drained_none)
qed simp

text \<open>
  The wait of \<^verbatim>\<open>acquire\<close> ends.  With settings the constructor accepts, on a clock that does not go back and with sleeps that last as long
  as asked, it returns or raises within one more poll than the poll interval fits into the timeout, rounded up; it returns the lease it
  was given, and only after two observations of a database without leased or running jobs.
\<close>

theorem drain_wait_is_bounded:
  assumes "make_controller timeout poll = Inr ctl" and "paced poll (started + timeout) started polls"
    and "timeout \<le> int k * poll" and "k < length polls"
  shows "\<exists>r g'. drain_acquire norm now free ctl l started polls g look' = Some (r, g') \<and>
    (\<forall>l'. r = Inr l' \<longrightarrow> l' = l \<and>
       (\<exists>p\<in>set polls. active_jobs (lk_db (po_count p)) = [] \<and> active_jobs (lk_db (po_again p)) = []))"
proof -
  have ctl: "dc_timeout ctl = timeout" "0 < poll" using assms(1) by (auto simp: make_controller_def split: if_splits)
  have "drain_wait norm now free l (started + timeout) polls \<noteq> None"
    using wait_ends [OF ctl(2) assms(2) _ assms(4)] assms(3) by simp
  then show ?thesis
    using wait_success [of norm now free l "started + timeout" polls]
    by (auto simp: drain_acquire_def ctl(1) split: sum.splits option.splits)
qed

section \<open>A sample drain\<close>

text \<open>The job of the sample run is leased when the drain begins; it starts, and reaches the human wait that ends its lease.\<close>

lemma begin_drain_holds: "begin_drain g i allowed n = Inr (p, g') \<Longrightarrow> g_drain g' = Some p \<and> assert_drain g' p = Inr ()"
  by (auto simp: begin_drain_def assert_drain_def sign_drain_def Let_def split: if_splits)

lemma sample_drain:
  "\<exists>p g1. drain_begin ''upd'' ''n'' None sample_gate sample_gate solo2 =
     (Inr \<lparr>dl_transaction = ''upd'', dl_permit = Some p, dl_allowed = [permit_subject ''job_0'' ''fence_1'']\<rparr>, g1) \<and>
   g_drain g1 = Some p \<and> assert_drain g1 p = Inr ()"
proof -
  let ?v = "permit_subject ''job_0'' ''fence_1''"
  have jobs: "active_jobs solo2 = [leased_job]" "jb_id leased_job = ''job_0''" "jb_lease_token leased_job = Some ''fence_1''"
    by (simp_all add: active_jobs_def solo2_def solo_def leased_job_def sample_job_def)
  then have subjects: "active_subjects (active_jobs solo2) = Inr [?v]"
    by (simp add: active_subjects_def durable_permit_subject_def truthy_def)
  have v: "?v \<noteq> []" "py_len ?v \<le> 512"
    using length_filter_le [of "\<lambda>c. \<not> utf8_continuation c" ?v] by (simp_all add: permit_subject_def py_len_def)
  have "is_transaction_id ''upd''" by (simp add: is_transaction_id_def ascii_alnum_def ascii_alpha_def)
  moreover have "sn_status (snapshot sample_gate) \<noteq> GateCritical"
    using sample_gate_open(1) by (simp add: snapshot_def gate_open_def)
  moreover have "py_len ''upd'' \<le> 512" by (simp add: py_len_def)
  moreover obtain p g1 where b: "begin_drain sample_gate ''upd'' [?v] ''n'' = Inr (p, g1)"
    using sample_gate_open(1) v \<open>py_len ''upd'' \<le> 512\<close> by (simp add: begin_drain_def Let_def)
  ultimately have "drain_begin ''upd'' ''n'' None sample_gate sample_gate solo2 =
      (Inr \<lparr>dl_transaction = ''upd'', dl_permit = Some p, dl_allowed = [?v]\<rparr>, g1)"
    using jobs(1) unfolding drain_begin_def subjects by (simp add: leave_begin_def)
  then show ?thesis using begin_drain_holds [OF b] by blast
qed

lemma sample_drain_steps:
  assumes "in_drain l g"
  shows "(drain_step l)\<^sup>*\<^sup>* (g, solo2) (g, solo4)" and "(drain_step l)\<^sup>*\<^sup>* (g, solo4) (g, solo5)"
proof -
  note job = drain_step.call [OF assms runtime_call.job]
  have start: "drain_step l (g, solo2) (g, solo3)"
    using job [OF job_call.start [of solo2 sample_env no_gate "''job_0''" "''w''" "''fence_1''" 7]] by (simp add: solo_start)
  have wait: "drain_step l (g, solo3) (g, solo4)"
    using job [OF job_call.wait [of solo3 sample_env no_gate "''job_0''" "''w''" "''fence_1''" 8]] by (simp add: solo_wait)
  show "(drain_step l)\<^sup>*\<^sup>* (g, solo2) (g, solo4)" using start wait by (rule converse_rtranclp_into_rtranclp [OF _ r_into_rtranclp])
  show "(drain_step l)\<^sup>*\<^sup>* (g, solo4) (g, solo5)"
    using job [OF job_call.resume [of solo4 sample_env no_gate "''job_0''" 9]] by (simp add: solo_resume r_into_rtranclp)
qed

theorem no_work_crosses_the_drain_witness:
  "\<exists>l g1. drain_begin ''upd'' ''n'' None sample_gate sample_gate solo2 = (Inr l, g1) \<and> length (active_jobs solo2) = 1 \<and>
     active_count (\<lambda>c. c) 9 True l \<lparr>lk_before = g1, lk_db = solo4, lk_after = g1\<rparr> = (Inr 0, g1) \<and> active_jobs solo5 = []"
proof -
  obtain p g1 where g1: "drain_begin ''upd'' ''n'' None sample_gate sample_gate solo2 =
     (Inr \<lparr>dl_transaction = ''upd'', dl_permit = Some p, dl_allowed = [permit_subject ''job_0'' ''fence_1'']\<rparr>, g1)"
     "g_drain g1 = Some p" "assert_drain g1 p = Inr ()"
    using sample_drain by blast
  let ?l = "\<lparr>dl_transaction = ''upd'', dl_permit = Some p, dl_allowed = [permit_subject ''job_0'' ''fence_1'']\<rparr>"
  have d: "in_drain ?l g1" "assert_boundary ?l g1 = Inr ()" using g1(2,3) by (simp_all add: in_drain_def assert_boundary_def)
  have active: "length (active_jobs solo2) = 1" "active_jobs solo4 = []"
    by (simp_all add: active_jobs_def solo2_def solo4_def solo_def leased_job_def sample_job_def)
  note held = no_work_crosses_the_drain [OF solo_running(2) g1(1) sample_drain_steps(1) [OF d(1)]]
  have "active_count (\<lambda>c. c) 9 True ?l \<lparr>lk_before = g1, lk_db = solo4, lk_after = g1\<rparr> = (Inr 0, g1)"
    using held [THEN conjunct1, of "\<lambda>c. c" 9 True g1 g1] d(2) active(2) by simp
  moreover have "active_jobs solo5 = []" using held [THEN conjunct2] active(2) sample_drain_steps(2) [OF d(1)] by blast
  ultimately show ?thesis using g1(1) active(1) by blast
qed

definition sample_poll :: "int \<Rightarrow> drain_poll" where
  "sample_poll t =
     (let k = \<lparr>lk_before = sample_gate0, lk_db = solo2, lk_after = sample_gate0\<rparr>
      in \<lparr>po_count = k, po_before = sample_gate0, po_again = k, po_after = sample_gate0, po_time = t\<rparr>)"

theorem drain_wait_is_bounded_witness:
  "\<exists>r g'. drain_acquire (\<lambda>c. c) 0 True \<lparr>dc_timeout = 100000, dc_poll = 50000\<rparr>
     \<lparr>dl_transaction = ''upd'', dl_permit = None, dl_allowed = []\<rparr> 0 (map sample_poll [0, 50000, 100000]) sample_gate0 sample_gate0 = Some (r, g')"
proof -
  have "make_controller 100000 50000 = Inr \<lparr>dc_timeout = 100000, dc_poll = 50000\<rparr>" by (simp add: make_controller_def)
  from drain_wait_is_bounded [OF this, of 0 "map sample_poll [0, 50000, 100000]" 2] show ?thesis
    by (simp add: sample_poll_def Let_def) blast
qed

end
