(* ===== verification/Spec2Isabelle.thy ===== *)
theory Spec2Isabelle
  imports Ids JobRuns TurnRuns BridgeRuns PermissionCache DisclosureProperties SnapshotTurns DrainProperties
begin

text \<open>
  \<^bold>\<open>A verification library for the e-Mate Runtime\<close> (\<^verbatim>\<open>src/ecorex/runtime\<close>).

  The Runtime keeps conversations (threads of turns and items), the jobs that work on them and the
  questions they put to people in one SQLite database; every change is also a fact of a per-thread event
  log.  Workers lease jobs, renew their leases and finish them; an execution gate can stop every write of
  a process at once.  This development models that core and proves it correct.

  \<^bold>\<open>Theories and sources.\<close>

  \<^item> \<open>Prelude\<close>, \<open>Text\<close>, \<open>Json\<close>, \<open>Digest\<close>, \<open>Clock\<close>: strings and errors, transactions as state-exception
    transformers with weakest preconditions and the locale \<open>step_order\<close> (a preorder that every statement respects is respected
    by every transaction), JSON values and their canonical text
    (\<^verbatim>\<open>database.json_dumps\<close>), SHA-256 and HMAC as the standard library computes them, instants.
  \<^item> \<open>Ids\<close>: \<^verbatim>\<open>ids.py\<close>.  ULIDs of one process are strictly increasing; \<^verbatim>\<open>new_id\<close> and \<^verbatim>\<open>is_id\<close> agree.
  \<^item> \<open>Protocol\<close>: the status enums and transition tables of \<^verbatim>\<open>protocol/models.py\<close>; the locale
    \<open>lifecycle\<close> (terminal statuses are absorbing and reachable) is interpreted for turns, items, jobs.
  \<^item> \<open>PublicTools\<close>: \<^verbatim>\<open>public_tools.py\<close> with the contract \<^verbatim>\<open>PublicToolActivity\<close>; what the projector builds is
    valid, parsing inverts dumping, ingress validation is idempotent.
  \<^item> \<open>Store\<close>: the tables, unique indexes, triggers and foreign keys of \<^verbatim>\<open>database.py\<close>.
  \<^item> \<open>Events\<close>: \<^verbatim>\<open>event_store.py\<close>.  Appends are idempotent by key, a turn's snapshot context is immutable, the
    log is append-only and gap-free, pages are exact.
  \<^item> \<open>Gate\<close>: \<^verbatim>\<open>RuntimeExecutionGate\<close> of \<^verbatim>\<open>invariant_guard.py\<close> and \<^verbatim>\<open>recovery_gate.py\<close>, with their operations
    split where other threads can observe them; refinement of a four-phase protocol.
  \<^item> \<open>Reasoning\<close>: \<^verbatim>\<open>reasoning.py\<close>.
  \<^item> \<open>Jobs\<close>: \<^verbatim>\<open>jobs.py\<close>, every method of \<^verbatim>\<open>DurableJobStore\<close> that changes state.
  \<^item> \<open>TurnInputs\<close>: \<^verbatim>\<open>turn_inputs.py\<close> with the checks and triggers of \<^verbatim>\<open>schema_fragments/turn_execution.py\<close>.  Input
    revisions are numbered without gaps, execution batches partition a prefix of them.
  \<^item> \<open>Threads\<close>, \<open>Items\<close>, \<open>Turns\<close>, \<open>Operations\<close>, \<open>Forks\<close>: \<^verbatim>\<open>kernel.py\<close>.  Threads; Items, streamed messages, task lists and
    tool results; the life of a turn from acceptance to its end; turns of a backend executor and the calls by
    which people answer; forks, the replay of inherited history and the projection of a thread.
  \<^item> \<open>Contracts\<close>, \<open>Interactions\<close>: \<^verbatim>\<open>interactions.py\<close> with the interaction contracts of \<^verbatim>\<open>protocol/models.py\<close>; what
    pydantic does with the declared fields is written out.
  \<^item> \<open>Retouch\<close>: \<^verbatim>\<open>RuntimeRetouchBridge\<close> of \<^verbatim>\<open>integration/retouch.py\<close>, by which the artifact service admits, runs and
    settles image retouches in the Runtime database.
  \<^item> \<open>Permissions\<close>: \<^verbatim>\<open>permissions.py\<close> with \<^verbatim>\<open>PermissionSnapshot\<close> and the tables and triggers of
    \<^verbatim>\<open>schema_fragments/permissions.py\<close>: the preference of an account, its hash-chained ledger, the audit of requests and
    the cache of verified samples.
  \<^item> \<open>PermissionLedger\<close>, \<open>PermissionSnapshots\<close>, \<open>PermissionRuns\<close>, \<open>PermissionProperties\<close>, \<open>PermissionCache\<close>: the digests of
    a chain determine its entries, valid snapshots are the issued ones, the invariant of every run of authorities, and on
    top of it: reads never fail, the ledger is the history of the preference, repeated requests are harmless, updates
    refine a small protocol, and the cache never serves a stale sample.
  \<^item> \<open>ToolExecutions\<close>, \<open>ToolDisclosure\<close>: \<^verbatim>\<open>tool_executions.py\<close> with the tables of \<^verbatim>\<open>schema_fragments/execution.py\<close>: the ledger of tool
    calls, the permits for their side effects, and the lookups that decide which deferred tools were disclosed; the connector
    identifiers of \<^verbatim>\<open>connector_execution.py\<close>.
  \<^item> \<open>ToolLedger\<close>, \<open>ToolPermits\<close>, \<open>DisclosureProperties\<close>: the transition system \<open>tool_step\<close>; completed executions are final, permits
    are unique, bound to their execution and to the permission in force, and a disclosure is what the columns and stored
    results of the ledger say.
  \<^item> \<open>Snapshots\<close>, \<open>SnapshotProperties\<close>, \<open>SnapshotTurns\<close>: \<^verbatim>\<open>snapshots.py\<close>, the append-only store of configuration snapshots and the checks of
    a prepared context.  Saved snapshots are immutable; the kernel's operation turns, with these checks in place of their
    parameter, are accepted only under the permission in force.
  \<^item> \<open>Storage\<close>, \<open>KernelStorage\<close>: the locales \<open>db_order\<close>, \<open>statement_order\<close>, \<open>linked_order\<close>, \<open>leasing_order\<close>, \<open>insert_order\<close>,
    \<open>update_order\<close>, \<open>storage_order\<close>, \<open>kernel_order\<close>, \<open>create_order\<close>, \<open>runtime_order\<close>: a relation respected by every statement is respected by every
    operation.  Interpreted with the order of the log, the permanence of rows, the identities of the jobs,
    the order of the inputs, the lineages of forks and, without the law for leases, the lease tokens handed out.
  \<^item> \<open>Scheduler\<close>, \<open>KernelJobs\<close>, \<open>OperationJobs\<close>: the invariant of the \<^verbatim>\<open>jobs\<close> table and how a row may change; each
    operation of \<^verbatim>\<open>jobs.py\<close>, of the kernel and of the bridge preserves the one and respects the other.
  \<^item> \<open>JobSystem\<close>, \<open>Runtime\<close>: the transition systems \<open>job_step\<close> and \<open>runtime_step\<close> over every public method, with
    the locales \<open>call_contract\<close>, \<open>job_contract\<close>, \<open>kernel_contract\<close> and \<open>runtime_contract\<close>: what every transaction respects,
    every run respects.
  \<^item> \<open>JobProperties\<close>, \<open>JobRuns\<close>: serialisation of threads, fencing, selection, convergence, idempotent enqueues,
    the append-only log, what a closed gate refuses, and their witnesses.
  \<^item> \<open>ActivationDrain\<close>, \<open>DrainProperties\<close>: \<^verbatim>\<open>activation_drain.py\<close>, by which an update waits for the leased work.  Composed with the
    gate and every call of the Runtime: no work crosses the boundary, a drained Runtime stays drained, and the wait ends.
  \<^item> \<open>TurnLife\<close>, \<open>TurnSettle\<close>: an ended turn is final; ending a turn settles its jobs, questions and Items; inputs and
    finalizing exclude each other.
  \<^item> \<open>ForkHistory\<close>, \<open>RetouchLife\<close>: what a fork inherits is frozen and is the chain of its ancestors' histories;
    retouches end with their turns.
  \<^item> \<open>SampleRun\<close>, \<open>TurnRuns\<close>, \<open>BridgeRuns\<close>: the model evaluated on concrete calls, and the witnesses of the
    properties of turns, forks and retouches.

  \<^bold>\<open>State and operations.\<close>  The database is the record \<open>db\<close>, a table is the list of its rows in \<^verbatim>\<open>rowid\<close>
  order.  Code inside \<^verbatim>\<open>with transaction()\<close> is a \<open>dbtxn\<close>; an exception discards its writes.  A method is the
  composition of its transaction with the admission of the gate (\<open>control_transaction\<close>,
  \<open>execution_transaction\<close>): the gate is an argument twice, at the start and at the last assertion before the commit, so
  that other threads may have changed it in between; a started CowAgent turn leaves the gate out (\<open>ad_cow\<close>), as the code does.  All loops run over rows selected before the loop and are
  structural recursions (\<open>for_each\<close>); the recursion over the ancestors of a fork ends because each call adds a
  stored thread to \<^verbatim>\<open>seen\<close>.  No fuel is needed.

  \<^bold>\<open>Parameters.\<close>  The record \<open>env\<close> holds the identities drawn, the clock behind default timestamps, the default
  permission snapshot, pydantic's parsing of timing objects and timestamps, Python's \<^verbatim>\<open>str\<close>, \<^verbatim>\<open>int\<close> and \<^verbatim>\<open>strip\<close> on
  values the model keeps opaque, and the scans for secrets.  The argument \<open>V\<close> of the operations that accept turns is
  the check of frozen snapshots, so that their properties hold for any; \<open>SnapshotTurns\<close> puts the model of \<^verbatim>\<open>snapshots.py\<close> there.  The
  argument \<open>reading\<close> of those checks is pydantic's reading of the fields of a permission snapshot.  The argument \<open>dump\<close> of the permission authority is the text pydantic
  writes for a snapshot, and \<open>now\<close> a reading of the clock; nothing is assumed of either.  Only the round trips of public
  activities use a hypothesis about a parameter (\<open>timing_law\<close>: parsing a dumped timing gives it back).

  \<^bold>\<open>Not modelled.\<close>  The agent worker, model providers, capabilities and tools, connectors, channels, plugins, the control plane,
  update and desktop code: they call the Runtime or external services, and the Runtime's tables are
  correct independently of them.  Of the Runtime: the projection of usage,
  read-only audits, the HTTP layer, migrations.  Of the modelled files: schema validation and migration, the
  asyncio waits and supervisors, the optional event sink, which writes tables of its own, and the artifact service
  around the retouch bridge.  The transition system has the calls of the modelled stores: the share service
  (\<^verbatim>\<open>sharing/repository.py\<close>), which ends its own jobs with an \<^verbatim>\<open>UPDATE\<close> of its own, is not a step of it, and enqueued jobs name a
  stored turn of their thread, which the callers ensure.
\<close>

end
